(* ===== verification/Prelude.thy ===== *)
theory Prelude
  imports Main "HOL-Library.Char_ord"
begin

text \<open>
  Shared vocabulary of the development: how Go's strings, errors and integers are
  represented, the named collections of rewrite rules the component theories fill, and
  the generic facts on lists, counts and maps that several components use.

  \<^item> A Go string is the list of its runes (\<open>gostring\<close>), a rune being its code point as
    an integer. The code of the changeset library reaches into strings through
    \<^verbatim>\<open>[]rune(s)\<close>, \<^verbatim>\<open>RuneSlice\<close>, \<^verbatim>\<open>RuneIndex\<close> and \<^verbatim>\<open>RuneCountInString\<close>, for which a valid
    UTF-8 string and its rune list are interchangeable; byte-level accesses are written
    out where the code has them. Invalid UTF-8 is not modelled.
  \<^item> An error return is \<open>Inl\<close> of a \<open>goerr\<close>: \<open>Err\<close> with the message of
    \<^verbatim>\<open>errors.New\<close>, or \<open>Panic\<close> for a run-time panic (an index or slice out of range).
  \<^item> Go's \<^verbatim>\<open>int\<close> is a mathematical \<open>int\<close>: the lengths and positions computed from a
    document stay far below \<open>2 ^ 63\<close>. The one place where the width is visible, the
    overflow check of \<^verbatim>\<open>strconv.ParseInt\<close>, is modelled.
\<close>

type_synonym rune = int
type_synonym gostring = "rune list"

datatype goerr = Err string | Panic

type_synonym 'a result = "goerr + 'a"

text \<open>The runes of an ASCII literal.\<close>

definition lit :: "string \<Rightarrow> gostring" where
  "lit s = map of_char s"

lemma lit_simps [simp]:
  "lit [] = []"
  "lit (c # s) = of_char c # lit s"
  by (simp_all add: lit_def)

lemma length_lit [simp]: "length (lit s) = length s"
  by (simp add: lit_def)

abbreviation (input) newline :: rune where
  "newline \<equiv> 10"

text \<open>Collections filled by the component theories.\<close>

named_theorems rune_simps \<open>string functions in terms of take, drop and count\<close>
named_theorems codec_simps \<open>encoders followed by their decoders\<close>
named_theorems asm_simps \<open>assemblers in terms of the operations they were given\<close>
named_theorems zip_simps \<open>one step of a zip of two operation lists\<close>

subsection \<open>Sequencing of fallible computations\<close>

fun bind_result :: "'a result \<Rightarrow> ('a \<Rightarrow> 'b result) \<Rightarrow> 'b result" where
  "bind_result (Inl e) f = Inl e"
| "bind_result (Inr x) f = f x"

lemma bind_result_Inr_iff:
  "bind_result m f = Inr y \<longleftrightarrow> (\<exists>x. m = Inr x \<and> f x = Inr y)"
  by (cases m) auto

lemma bind_result_Inl_iff:
  "bind_result m f = Inl e \<longleftrightarrow> m = Inl e \<or> (\<exists>x. m = Inr x \<and> f x = Inl e)"
  by (cases m) auto

lemma bind_result_cong [fundef_cong]:
  "m = m' \<Longrightarrow> (\<And>x. m' = Inr x \<Longrightarrow> f x = f' x) \<Longrightarrow> bind_result m f = bind_result m' f'"
  by (cases m') auto

text \<open>The same for a computation that may not return (\<open>None\<close>).\<close>

fun bind_run :: "'a result option \<Rightarrow> ('a \<Rightarrow> 'b result option) \<Rightarrow> 'b result option" where
  "bind_run None f = None"
| "bind_run (Some (Inl e)) f = Some (Inl e)"
| "bind_run (Some (Inr x)) f = f x"

subsection \<open>Lists\<close>

lemma take_nat_length [simp]: "int (length xs) \<le> n \<Longrightarrow> take (nat n) xs = xs"
  by simp

lemma count_list_take_le: "count_list (take n xs) x \<le> count_list xs x"
  by (metis append_take_drop_id count_list_append le_add1)

lemma count_list_drop: "count_list (drop n xs) x = count_list xs x - count_list (take n xs) x"
proof -
  have "count_list xs x = count_list (take n xs) x + count_list (drop n xs) x"
    by (metis append_take_drop_id count_list_append)
  then show ?thesis by simp
qed

lemma count_list_take_add:
  "count_list (take (m + n) xs) x = count_list (take m xs) x + count_list (take n (drop m xs)) x"
  by (metis count_list_append take_add)

lemma count_list_le_length: "count_list xs x \<le> length xs"
  by (induction xs) auto

lemma count_list_take_length: "count_list (take n xs) x \<le> n"
  by (rule order_trans[OF count_list_le_length]) simp

lemma take_drop_take_add: "take m xs @ take n (drop m xs) = take (m + n) xs"
  by (simp add: take_add)

lemma list_all_concat: "list_all P (concat xss) \<longleftrightarrow> (\<forall>xs\<in>set xss. list_all P xs)"
  by (induction xss) (auto simp: list_all_iff)

end
