(* ===== verification/RuneUtils.thy ===== *)
theory RuneUtils
  imports Prelude
begin

text \<open>
  The string helpers of \<^verbatim>\<open>lib/utils\<close> (\<^verbatim>\<open>runeUtils.go\<close>, \<^verbatim>\<open>stringUtils.go\<close>,
  \<^verbatim>\<open>padUtils.go\<close>, \<^verbatim>\<open>checkValidRev.go\<close>) and the functions of Go's \<^verbatim>\<open>strings\<close> and
  \<^verbatim>\<open>strconv\<close> packages they call, with the base-36 number codec used by the wire format.

  The bytes of a Go string, for the code that indexes, slices or replaces bytes: the UTF-8
  encoding of its runes, and Go's count of the runes of a byte string, in which every byte
  that does not start a valid sequence counts as one rune.
\<close>

section \<open>Runes and numbers\<close>

subsection \<open>Go's strings package\<close>

definition has_prefix :: "gostring \<Rightarrow> gostring \<Rightarrow> bool" where
  "has_prefix s pre \<longleftrightarrow> take (length pre) s = pre"

definition has_suffix :: "gostring \<Rightarrow> gostring \<Rightarrow> bool" where
  "has_suffix s suf \<longleftrightarrow> length suf \<le> length s \<and> drop (length s - length suf) s = suf"

fun str_index :: "gostring \<Rightarrow> gostring \<Rightarrow> int" where
  "str_index s sep =
     (if has_prefix s sep then 0
      else case s of [] \<Rightarrow> -1
           | c # cs \<Rightarrow> (let i = str_index cs sep in if i < 0 then -1 else i + 1))"

declare str_index.simps [simp del]

fun str_last_index :: "gostring \<Rightarrow> gostring \<Rightarrow> int" where
  "str_last_index [] sep = (if sep = [] then 0 else -1)"
| "str_last_index (c # cs) sep =
     (let i = str_last_index cs sep
      in if i \<ge> 0 then i + 1 else if has_prefix (c # cs) sep then 0 else -1)"

fun str_split :: "gostring \<Rightarrow> rune \<Rightarrow> gostring list" where
  "str_split [] sep = [[]]"
| "str_split (c # cs) sep =
     (if c = sep then [] # str_split cs sep
      else case str_split cs sep of [] \<Rightarrow> [[c]] | p # ps \<Rightarrow> (c # p) # ps)"

text \<open>\<^verbatim>\<open>unicode.IsSpace\<close>, the test of \<^verbatim>\<open>strings.TrimSpace\<close>.\<close>

definition is_space :: "rune \<Rightarrow> bool" where
  "is_space r \<longleftrightarrow> r \<in> {9, 10, 11, 12, 13, 32, 0x85, 0xA0, 0x1680, 0x2028, 0x2029, 0x202f, 0x205f, 0x3000}
     \<or> (0x2000 \<le> r \<and> r \<le> 0x200a)"

definition trim_space :: "gostring \<Rightarrow> gostring" where
  "trim_space s = rev (dropWhile is_space (rev (dropWhile is_space s)))"

subsection \<open>lib/utils/runeUtils.go\<close>

definition RuneCount :: "gostring \<Rightarrow> int" where
  "RuneCount s = int (length s)"

definition RuneSlice :: "gostring \<Rightarrow> int \<Rightarrow> int \<Rightarrow> gostring" where
  "RuneSlice s start stop =
     (let start1 = (if start < 0 then 0 else start);
          n = int (length s);
          start2 = (if start1 > n then n else start1);
          end1 = (if stop < start2 then start2 else stop);
          end2 = (if end1 > n then n else end1)
      in take (nat (end2 - start2)) (drop (nat start2) s))"

definition RuneIndex :: "gostring \<Rightarrow> gostring \<Rightarrow> int" where
  "RuneIndex s sep =
     (if sep = [] then 0
      else let byteIdx = str_index s sep
           in if byteIdx < 0 then -1 else RuneCount (take (nat byteIdx) s))"

definition RuneLastIndex :: "gostring \<Rightarrow> gostring \<Rightarrow> int" where
  "RuneLastIndex s sep =
     (if sep = [] then RuneCount s
      else let byteIdx = str_last_index s sep
           in if byteIdx < 0 then -1 else RuneCount (take (nat byteIdx) s))"

subsection \<open>lib/utils/stringUtils.go\<close>

fun CountLines :: "gostring \<Rightarrow> rune \<Rightarrow> int" where
  "CountLines [] r = 0"
| "CountLines (c # s) r = (if c = r then 1 else 0) + CountLines s r"

definition CountLinesRunes :: "gostring \<Rightarrow> rune \<Rightarrow> int" where
  "CountLinesRunes s r = CountLines s r"

definition EndsWithNewLine :: "gostring \<Rightarrow> bool" where
  "EndsWithNewLine s = (if length s = 0 then False else s ! (length s - 1) = newline)"

text \<open>One digit of \<^verbatim>\<open>big.Int.Text(36)\<close> or \<^verbatim>\<open>strconv.Itoa\<close>, lower case.\<close>

definition digit36 :: "nat \<Rightarrow> rune" where
  "digit36 d = (if d < 10 then 48 + int d else 87 + int d)"

text \<open>The digits of \<open>n\<close> in base \<open>b\<close> (the base is at least 2 in every call).\<close>

fun text_base :: "nat \<Rightarrow> nat \<Rightarrow> gostring" where
  "text_base b n =
     (if n < b \<or> b < 2 then [digit36 n] else text_base b (n div b) @ [digit36 (n mod b)])"

declare text_base.simps [simp del]

definition NumToString :: "int \<Rightarrow> gostring" where
  "NumToString num = (if num < 0 then 45 # text_base 36 (nat (- num)) else text_base 36 (nat num))"

text \<open>\<^verbatim>\<open>strconv.Itoa\<close>.\<close>

definition Itoa :: "int \<Rightarrow> gostring" where
  "Itoa i = (if i < 0 then 45 # text_base 10 (nat (- i)) else text_base 10 (nat i))"

text \<open>
  \<^verbatim>\<open>strconv.ParseInt(s, base, 0)\<close>: an optional sign, then at least one digit, each below
  the base (both cases of letters), and a value that fits a 64-bit integer.
\<close>

definition digit_val :: "rune \<Rightarrow> int option" where
  "digit_val r =
     (if 48 \<le> r \<and> r \<le> 57 then Some (r - 48)
      else if 97 \<le> r \<and> r \<le> 122 then Some (r - 87)
      else if 65 \<le> r \<and> r \<le> 90 then Some (r - 55)
      else None)"

fun parse_digits :: "int \<Rightarrow> gostring \<Rightarrow> int \<Rightarrow> int option" where
  "parse_digits base [] acc = Some acc"
| "parse_digits base (r # rs) acc =
     (case digit_val r of None \<Rightarrow> None
      | Some d \<Rightarrow> if d < base then parse_digits base rs (acc * base + d) else None)"

definition ParseInt :: "int \<Rightarrow> gostring \<Rightarrow> int result" where
  "ParseInt base s =
     (let neg = (s \<noteq> [] \<and> hd s = 45);
          body = (if s \<noteq> [] \<and> (hd s = 45 \<or> hd s = 43) then tl s else s)
      in if body = [] then Inl (Err ''invalid syntax'')
         else case parse_digits base body 0 of
                None \<Rightarrow> Inl (Err ''invalid syntax'')
              | Some n \<Rightarrow>
                  if (\<not> neg \<and> n > 2 ^ 63 - 1) \<or> (neg \<and> n > 2 ^ 63)
                  then Inl (Err ''value out of range'')
                  else Inr (if neg then - n else n))"

definition ParseNum :: "gostring \<Rightarrow> int result" where
  "ParseNum num = (case ParseInt 36 num of Inl err \<Rightarrow> Inl err | Inr res \<Rightarrow> Inr res)"

text \<open>\<^verbatim>\<open>res, _ := ParseNum(s)\<close>: the callers that drop the error get 0 with it.\<close>

definition ParseNum_value :: "gostring \<Rightarrow> int" where
  "ParseNum_value num = (case ParseNum num of Inl err \<Rightarrow> 0 | Inr res \<Rightarrow> res)"

subsection \<open>lib/utils/padUtils.go, checkValidRev.go\<close>

definition base64url_rune :: "rune \<Rightarrow> bool" where
  "base64url_rune r \<longleftrightarrow> (65 \<le> r \<and> r \<le> 90) \<or> (97 \<le> r \<and> r \<le> 122) \<or> (48 \<le> r \<and> r \<le> 57)
     \<or> r = 43 \<or> r = 47"

text \<open>The pattern \<^verbatim>\<open>^[A-Za-z0-9+/]*={0,2}$\<close>: after the longest run of the class, at most two \<^verbatim>\<open>=\<close>.\<close>

definition base64Url_match :: "gostring \<Rightarrow> bool" where
  "base64Url_match v = (dropWhile base64url_rune v \<in> {[], [61], [61, 61]})"

definition IsValidAuthorToken :: "gostring \<Rightarrow> bool" where
  "IsValidAuthorToken token =
     (if \<not> has_prefix token (lit ''t.'') then False
      else let v = drop 2 token in RuneCount v > 0 \<and> base64Url_match v)"

definition CheckValidRev :: "gostring \<Rightarrow> int result" where
  "CheckValidRev rev' =
     (case ParseInt 10 rev' of Inl err \<Rightarrow> Inl err
      | Inr revNum \<Rightarrow> if revNum < 0 then Inl (Err ''rev is not a negative number'') else Inr revNum)"

subsection \<open>Slices and counts\<close>

lemma RuneSlice_eq [rune_simps]:
  "0 \<le> a \<Longrightarrow> RuneSlice s a b = take (nat b - nat a) (drop (nat a) s)"
  by (auto simp: RuneSlice_def Let_def nat_diff_distrib take_all_iff)

lemma RuneSlice_upto [rune_simps]: "RuneSlice s 0 b = take (nat b) s"
  by (simp add: RuneSlice_eq)

lemma RuneSlice_from [rune_simps]: "0 \<le> a \<Longrightarrow> RuneSlice s a (RuneCount s) = drop (nat a) s"
  by (simp add: RuneSlice_eq RuneCount_def)

lemma length_RuneSlice:
  "0 \<le> a \<Longrightarrow> a \<le> b \<Longrightarrow> b \<le> RuneCount s \<Longrightarrow> RuneCount (RuneSlice s a b) = b - a"
  by (simp add: RuneSlice_eq RuneCount_def)

lemma RuneCount_append [simp]: "RuneCount (s @ t) = RuneCount s + RuneCount t"
  by (simp add: RuneCount_def)

lemma RuneCount_nonneg [simp]: "0 \<le> RuneCount s"
  by (simp add: RuneCount_def)

lemma RuneCount_Nil [simp]: "RuneCount [] = 0"
  by (simp add: RuneCount_def)

lemma RuneCount_0_iff [simp]: "RuneCount s = 0 \<longleftrightarrow> s = []"
  by (simp add: RuneCount_def)

lemma CountLines_count [rune_simps]: "CountLines s r = int (count_list s r)"
  by (induction s) auto

lemma CountLines_append [simp]: "CountLines (s @ t) r = CountLines s r + CountLines t r"
  by (simp add: CountLines_count)

lemma CountLines_nonneg [simp]: "0 \<le> CountLines s r"
  by (simp add: CountLines_count)

lemma CountLines_le: "CountLines s r \<le> RuneCount s"
  by (simp add: CountLines_count RuneCount_def count_list_le_length)

lemma str_split_nonempty [simp]: "str_split s r \<noteq> []"
  by (cases s) (auto split: list.splits)

lemma length_str_split: "length (str_split s r) = count_list s r + 1"
proof (induction s)
  case (Cons c s)
  then show ?case by (cases "str_split s r") auto
qed simp

lemma lines_by_split [rune_simps]: "int (length (str_split s r)) - 1 = CountLines s r"
  by (simp add: length_str_split CountLines_count)

subsection \<open>Positions of a rune\<close>

lemma has_prefix_single [simp]: "has_prefix s [r] \<longleftrightarrow> s \<noteq> [] \<and> hd s = r"
  by (cases s) (auto simp: has_prefix_def)

lemma str_index_single:
  "str_index s [r] = (if r \<in> set s then int (length (takeWhile (\<lambda>x. x \<noteq> r) s)) else -1)"
proof (induction s)
  case Nil
  show ?case by (subst str_index.simps) simp
next
  case (Cons c s)
  then show ?case by (subst str_index.simps) (auto simp: Let_def)
qed

lemma RuneIndex_single [rune_simps]:
  "RuneIndex s [r] = (if r \<in> set s then int (length (takeWhile (\<lambda>x. x \<noteq> r) s)) else -1)"
  by (simp add: RuneIndex_def str_index_single RuneCount_def length_takeWhile_le min_absorb2)

lemma RuneIndex_append:
  assumes "r \<notin> set s" shows "RuneIndex (s @ r # t) [r] = RuneCount s"
proof -
  have "takeWhile (\<lambda>x. x \<noteq> r) (s @ r # t) = s"
    using assms by (induction s) auto
  then show ?thesis by (simp add: RuneIndex_single RuneCount_def)
qed

lemma str_last_index_bounds: "-1 \<le> str_last_index s sep \<and> str_last_index s sep \<le> int (length s)"
  by (induction s sep rule: str_last_index.induct) (auto simp: Let_def)

lemma str_last_index_single_neg: "str_last_index s [r] < 0 \<longleftrightarrow> r \<notin> set s"
  by (induction s) (auto simp: Let_def)

lemma str_last_index_single_Cons:
  "str_last_index (c # s) [r] =
     (if r \<in> set s then str_last_index s [r] + 1 else if c = r then 0 else -1)"
  using str_last_index_single_neg[of s r]
  by (cases "r \<in> set s"; cases "str_last_index s [r] < 0") (simp_all add: Let_def)

declare str_last_index.simps(2) [simp del]

lemma str_last_index_single:
  "r \<in> set s \<Longrightarrow> \<exists>u v. s = u @ r # v \<and> r \<notin> set v \<and> str_last_index s [r] = int (length u)"
proof (induction s)
  case (Cons c s)
  show ?case
  proof (cases "r \<in> set s")
    case True
    with Cons.IH obtain u v where "s = u @ r # v" "r \<notin> set v" "str_last_index s [r] = int (length u)"
      by blast
    then have "c # s = (c # u) @ r # v \<and> r \<notin> set v \<and> str_last_index (c # s) [r] = int (length (c # u))"
      by (simp add: str_last_index_single_Cons)
    then show ?thesis by blast
  next
    case False
    with Cons.prems have "c = r" by auto
    with False have "c # s = [] @ r # s \<and> r \<notin> set s \<and> str_last_index (c # s) [r] = int (length ([] :: gostring))"
      by (simp add: str_last_index_single_Cons)
    then show ?thesis by blast
  qed
qed simp

lemma RuneLastIndex_single:
  assumes "r \<in> set s"
  obtains u v where "s = u @ r # v" "r \<notin> set v" "RuneLastIndex s [r] = int (length u)"
proof -
  from str_last_index_single[OF assms] obtain u v
    where s: "s = u @ r # v" "r \<notin> set v" and i: "str_last_index s [r] = int (length u)" by blast
  from i s(1) have "RuneLastIndex s [r] = int (length u)"
    by (simp add: RuneLastIndex_def RuneCount_def)
  with s that show ?thesis by blast
qed

lemma RuneLastIndex_single_neg [rune_simps]: "RuneLastIndex s [r] < 0 \<longleftrightarrow> r \<notin> set s"
  using str_last_index_single_neg[of s r]
  by (simp add: RuneLastIndex_def Let_def linorder_not_less)

subsection \<open>The base-36 number codec\<close>

definition alnum36 :: "rune \<Rightarrow> bool" where
  "alnum36 r \<longleftrightarrow> (48 \<le> r \<and> r \<le> 57) \<or> (97 \<le> r \<and> r \<le> 122)"

lemma alnum36_digit36 [simp]: "d < 36 \<Longrightarrow> alnum36 (digit36 d)"
  by (auto simp: alnum36_def digit36_def)

lemma digit_val_digit36 [simp]: "d < 36 \<Longrightarrow> digit_val (digit36 d) = Some (int d)"
  by (auto simp: digit_val_def digit36_def)

lemma text_base_nonempty [simp]: "text_base b n \<noteq> []"
  by (subst text_base.simps) simp

lemma text_base_alnum: "2 \<le> b \<Longrightarrow> b \<le> 36 \<Longrightarrow> list_all alnum36 (text_base b n)"
proof (induction b n rule: text_base.induct)
  case (1 b n)
  have "n mod b < 36" using "1.prems" by (auto intro: less_le_trans[OF mod_less_divisor])
  with 1 show ?case by (cases "n < b") (simp_all add: text_base.simps[of b n])
qed

lemma parse_digits_append:
  "parse_digits b (xs @ ys) acc =
     (case parse_digits b xs acc of None \<Rightarrow> None | Some a \<Rightarrow> parse_digits b ys a)"
  by (induction xs arbitrary: acc) (auto split: option.splits)

lemma parse_digits_text_base:
  "2 \<le> b \<Longrightarrow> b \<le> 36 \<Longrightarrow> parse_digits (int b) (text_base b n) 0 = Some (int n)"
proof (induction b n rule: text_base.induct)
  case (1 b n)
  show ?case
  proof (cases "n < b")
    case True
    with "1.prems" show ?thesis by (simp add: text_base.simps[of b n])
  next
    case False
    with 1 have "parse_digits (int b) (text_base b (n div b)) 0 = Some (int (n div b))" by simp
    moreover have "n mod b < b" "n mod b < 36"
      using "1.prems" by (auto intro: less_le_trans[OF mod_less_divisor])
    moreover have "int (n div b) * int b + int (n mod b) = int n"
      by (metis div_mult_mod_eq of_nat_add of_nat_mult)
    ultimately show ?thesis
      using False "1.prems" by (simp add: text_base.simps[of b n] parse_digits_append)
  qed
qed

lemma alnum36_not_sign: "alnum36 r \<Longrightarrow> r \<noteq> 45 \<and> r \<noteq> 43"
  by (auto simp: alnum36_def)

lemma hd_text_base:
  assumes "2 \<le> b" "b \<le> 36" shows "hd (text_base b n) \<noteq> 45" "hd (text_base b n) \<noteq> 43"
proof -
  have "alnum36 (hd (text_base b n))"
    using text_base_alnum[OF assms, of n] by (cases "text_base b n") (auto simp: list_all_iff)
  then show "hd (text_base b n) \<noteq> 45" "hd (text_base b n) \<noteq> 43" by (auto dest: alnum36_not_sign)
qed

lemma ParseNum_NumToString [codec_simps]:
  "0 \<le> n \<Longrightarrow> n < 2 ^ 63 \<Longrightarrow> ParseNum (NumToString n) = Inr n"
  using parse_digits_text_base[of 36 "nat n"] hd_text_base[of 36 "nat n"]
  by (simp add: ParseNum_def ParseInt_def NumToString_def)

lemma ParseNum_value_NumToString [codec_simps]:
  "0 \<le> n \<Longrightarrow> n < 2 ^ 63 \<Longrightarrow> ParseNum_value (NumToString n) = n"
  by (simp add: ParseNum_value_def ParseNum_NumToString)

lemma ParseInt_Itoa [codec_simps]:
  "- (2 ^ 63) \<le> n \<Longrightarrow> n < 2 ^ 63 \<Longrightarrow> ParseInt 10 (Itoa n) = Inr n"
  using parse_digits_text_base[of 10 "nat n"] hd_text_base[of 10 "nat n"]
    parse_digits_text_base[of 10 "nat (- n)"]
  by (simp add: ParseInt_def Itoa_def)

lemma NumToString_nonempty [simp]: "NumToString n \<noteq> []"
  by (simp add: NumToString_def)

lemma NumToString_alnum: "0 \<le> n \<Longrightarrow> list_all alnum36 (NumToString n)"
  by (simp add: NumToString_def text_base_alnum)

lemma parse_digits_nonneg: "parse_digits b s acc = Some n \<Longrightarrow> 0 \<le> acc \<Longrightarrow> 0 \<le> b \<Longrightarrow> 0 \<le> n"
  by (induction s arbitrary: acc) (auto simp: digit_val_def split: option.splits if_splits)

lemma ParseNum_value_bounds:
  assumes "list_all alnum36 s"
  shows "0 \<le> ParseNum_value s" "ParseNum_value s < 2 ^ 63"
proof -
  have "0 \<le> ParseNum_value s \<and> ParseNum_value s < 2 ^ 63"
  proof (cases s)
    case Nil
    then show ?thesis by (simp add: ParseNum_value_def ParseNum_def ParseInt_def)
  next
    case (Cons r rs)
    with assms have "r \<noteq> 45" "r \<noteq> 43" by (auto dest: alnum36_not_sign)
    with Cons show ?thesis
      by (auto simp: ParseNum_value_def ParseNum_def ParseInt_def Let_def simp del: parse_digits.simps
          dest: parse_digits_nonneg split: option.splits)
  qed
  then show "0 \<le> ParseNum_value s" "ParseNum_value s < 2 ^ 63" by auto
qed

section \<open>Bytes\<close>

type_synonym bytes = "int list"

definition utf8 :: "rune \<Rightarrow> bytes" where
  "utf8 r =
     (if r < 0x80 then [r]
      else if r < 0x800 then [0xC0 + r div 64, 0x80 + r mod 64]
      else if r < 0x10000 then [0xE0 + r div 4096, 0x80 + r div 64 mod 64, 0x80 + r mod 64]
      else [0xF0 + r div 262144, 0x80 + r div 4096 mod 64, 0x80 + r div 64 mod 64, 0x80 + r mod 64])"

definition bytes_of :: "gostring \<Rightarrow> bytes" where
  "bytes_of s = concat (map utf8 s)"

definition continuation :: "int \<Rightarrow> bool" where
  "continuation b \<longleftrightarrow> 0x80 \<le> b \<and> b \<le> 0xBF"

text \<open>The range of the second byte of a sequence of more than one byte.\<close>

definition second_ok :: "int \<Rightarrow> int \<Rightarrow> bool" where
  "second_ok b0 b1 \<longleftrightarrow>
     (if b0 = 0xE0 then 0xA0 \<le> b1 \<and> b1 \<le> 0xBF
      else if b0 = 0xED then 0x80 \<le> b1 \<and> b1 \<le> 0x9F
      else if b0 = 0xF0 then 0x90 \<le> b1 \<and> b1 \<le> 0xBF
      else if b0 = 0xF4 then 0x80 \<le> b1 \<and> b1 \<le> 0x8F
      else continuation b1)"

fun rune_width :: "bytes \<Rightarrow> nat" where
  "rune_width (b0 # b1 # b2 # b3 # bs) =
     (if 0xC2 \<le> b0 \<and> b0 \<le> 0xDF \<and> second_ok b0 b1 then 2
      else if 0xE0 \<le> b0 \<and> b0 \<le> 0xEF \<and> second_ok b0 b1 \<and> continuation b2 then 3
      else if 0xF0 \<le> b0 \<and> b0 \<le> 0xF4 \<and> second_ok b0 b1 \<and> continuation b2 \<and> continuation b3 then 4
      else 1)"
| "rune_width (b0 # b1 # b2 # []) =
     (if 0xC2 \<le> b0 \<and> b0 \<le> 0xDF \<and> second_ok b0 b1 then 2
      else if 0xE0 \<le> b0 \<and> b0 \<le> 0xEF \<and> second_ok b0 b1 \<and> continuation b2 then 3 else 1)"
| "rune_width (b0 # b1 # []) = (if 0xC2 \<le> b0 \<and> b0 \<le> 0xDF \<and> second_ok b0 b1 then 2 else 1)"
| "rune_width _ = 1"

lemma rune_width_pos: "0 < rune_width bs"
  by (induction bs rule: rune_width.induct) auto

function RuneCountBytes :: "bytes \<Rightarrow> int" where
  "RuneCountBytes bs = (if bs = [] then 0 else 1 + RuneCountBytes (drop (rune_width bs) bs))"
  by pat_completeness auto
termination by (relation "measure length") (auto simp: rune_width_pos)

declare RuneCountBytes.simps [simp del]

lemma bytes_of_simps [simp]: "bytes_of [] = []" "bytes_of (r # s) = utf8 r @ bytes_of s" "bytes_of (s @ t) = bytes_of s @ bytes_of t"
  by (simp_all add: bytes_of_def)

definition is_rune :: "rune \<Rightarrow> bool" where
  "is_rune r \<longleftrightarrow> 0 \<le> r \<and> r < 0x110000 \<and> \<not> (0xD800 \<le> r \<and> r < 0xE000)"

definition valid_text :: "gostring \<Rightarrow> bool" where
  "valid_text s \<longleftrightarrow> list_all is_rune s"

text \<open>The second byte of a longer encoding, from the bits below the first byte's.\<close>

lemma div_mod_step: "(r::int) div (64 * k) * 64 + r div k mod 64 = r div k" if "0 < k" for r k
  using that by (simp add: zdiv_zmult2_eq mult.commute[of 64 k])

lemma second_ok_bits:
  fixes m q d r :: int
  assumes "0 \<le> m" "m < 64" "q * 64 + m = d"
  shows "32 \<le> d \<Longrightarrow> d * 64 \<le> r \<Longrightarrow> r < d * 64 + 64 \<Longrightarrow> r < 0x10000 \<Longrightarrow> \<not> (0xD800 \<le> r \<and> r < 0xE000) \<Longrightarrow> second_ok (0xE0 + q) (0x80 + m)"
    and "16 \<le> d \<Longrightarrow> d * 4096 \<le> r \<Longrightarrow> r < 0x110000 \<Longrightarrow> second_ok (0xF0 + q) (0x80 + m)"
  using assms unfolding second_ok_def continuation_def by (simp; linarith)+

lemma second_ok_three: "0x800 \<le> r \<Longrightarrow> r < 0x10000 \<Longrightarrow> is_rune r \<Longrightarrow> second_ok (0xE0 + r div 4096) (0x80 + r div 64 mod 64)"
  using div_mod_step[of 64 r] by (intro second_ok_bits(1)[where d = "r div 64" and r = r]) (auto simp: is_rune_def)

lemma second_ok_four: "0x10000 \<le> r \<Longrightarrow> is_rune r \<Longrightarrow> second_ok (0xF0 + r div 262144) (0x80 + r div 4096 mod 64)"
  using div_mod_step[of 4096 r] by (intro second_ok_bits(2)[where d = "r div 4096" and r = r]) (auto simp: is_rune_def)

lemma utf8_cases:
  assumes "is_rune r"
  obtains "r < 0x80" "utf8 r = [r]"
  | a b where "r < 0x800" "utf8 r = [a, b]" "0xC2 \<le> a" "a \<le> 0xDF" "continuation b"
  | a b c where "r < 0x10000" "utf8 r = [a, b, c]" "0xE0 \<le> a" "a \<le> 0xEF" "second_ok a b" "continuation b" "continuation c"
  | a b c d where "utf8 r = [a, b, c, d]" "0xF0 \<le> a" "a \<le> 0xF4" "second_ok a b" "continuation b" "continuation c" "continuation d"
proof -
  consider (1) "r < 0x80" | (2) "0x80 \<le> r" "r < 0x800" | (3) "0x800 \<le> r" "r < 0x10000" | (4) "0x10000 \<le> r"
    by linarith
  then show thesis
  proof cases
    case 1
    then show thesis by (intro that(1)) (simp_all add: utf8_def)
  next
    case 2
    have "utf8 r = [0xC0 + r div 64, 0x80 + r mod 64]" using 2 by (simp add: utf8_def)
    then show thesis using 2 by (intro that(2)) (auto simp: continuation_def)
  next
    case 3
    have "utf8 r = [0xE0 + r div 4096, 0x80 + r div 64 mod 64, 0x80 + r mod 64]" using 3 by (simp add: utf8_def)
    moreover have "second_ok (0xE0 + r div 4096) (0x80 + r div 64 mod 64)"
      using 3 assms by (rule second_ok_three)
    ultimately show thesis using 3 by (intro that(3)) (auto simp: continuation_def)
  next
    case 4
    have "utf8 r = [0xF0 + r div 262144, 0x80 + r div 4096 mod 64, 0x80 + r div 64 mod 64, 0x80 + r mod 64]"
      using 4 by (simp add: utf8_def)
    moreover have "second_ok (0xF0 + r div 262144) (0x80 + r div 4096 mod 64)"
      using 4 assms by (rule second_ok_four)
    ultimately show thesis using 4 assms by (intro that(4)) (auto simp: continuation_def is_rune_def)
  qed
qed

lemma rune_width_utf8: "is_rune r \<Longrightarrow> rune_width (utf8 r @ bs) = length (utf8 r)"
  by (cases rule: utf8_cases; cases bs rule: rune_width.cases) (auto simp: second_ok_def continuation_def)

lemma RuneCountBytes_of: "valid_text s \<Longrightarrow> RuneCountBytes (bytes_of s) = RuneCount s"
proof (induction s)
  case (Cons r s)
  have "utf8 r \<noteq> []" by (simp add: utf8_def)
  with Cons show ?case
    by (subst RuneCountBytes.simps) (auto simp: valid_text_def rune_width_utf8 RuneCount_def)
qed (simp add: RuneCountBytes.simps RuneCount_def)

end
