(* ===== verification/GoMap.thy ===== *)
theory GoMap
  imports Prelude "HOL-Library.AList"
begin

text \<open>
  Go maps. A map is the list of its entries, in an order that stands for the unspecified
  order in which \<^verbatim>\<open>range\<close> visits them: a fact proved for every entry list holds for
  every order. Lookup, assignment, \<^verbatim>\<open>delete\<close> and \<^verbatim>\<open>len\<close> see the entries as a map, and
  \<open>gomap_ok\<close> says that no key occurs twice, which every operation keeps.
\<close>

type_synonym ('k, 'v) gomap = "('k \<times> 'v) list"

definition gomap_get :: "('k, 'v) gomap \<Rightarrow> 'k \<Rightarrow> 'v option" where
  "gomap_get m k = map_of m k"

definition gomap_set :: "('k, 'v) gomap \<Rightarrow> 'k \<Rightarrow> 'v \<Rightarrow> ('k, 'v) gomap" where
  "gomap_set m k v = AList.update k v m"

definition gomap_del :: "('k, 'v) gomap \<Rightarrow> 'k \<Rightarrow> ('k, 'v) gomap" where
  "gomap_del m k = AList.delete k m"

definition gomap_len :: "('k, 'v) gomap \<Rightarrow> int" where
  "gomap_len m = int (length m)"

definition gomap_ok :: "('k, 'v) gomap \<Rightarrow> bool" where
  "gomap_ok m \<longleftrightarrow> distinct (map fst m)"

text \<open>A loop \<^verbatim>\<open>for k, v := range m { out[f(k, v)] = g(k, v) }\<close>.\<close>

definition gomap_rebuild :: "('k \<Rightarrow> 'v \<Rightarrow> 'l) \<Rightarrow> ('k \<Rightarrow> 'v \<Rightarrow> 'w) \<Rightarrow> ('k, 'v) gomap \<Rightarrow> ('l, 'w) gomap" where
  "gomap_rebuild f g m = fold (\<lambda>(k, v) out. gomap_set out (f k v) (g k v)) m []"

lemma gomap_get_Nil [simp]: "gomap_get [] k = None"
  by (simp add: gomap_get_def)

lemma gomap_get_Cons: "gomap_get ((k, v) # m) k' = (if k' = k then Some v else gomap_get m k')"
  by (auto simp: gomap_get_def)

lemma gomap_get_set [simp]: "gomap_get (gomap_set m k v) k' = (if k' = k then Some v else gomap_get m k')"
  by (simp add: gomap_get_def gomap_set_def AList.update_conv)

lemma gomap_get_set_fun: "gomap_get (gomap_set m k v) = (gomap_get m)(k \<mapsto> v)"
  by (simp add: fun_eq_iff)

lemma gomap_get_del [simp]: "gomap_get (gomap_del m k) k' = (if k' = k then None else gomap_get m k')"
  by (simp add: gomap_get_def gomap_del_def AList.delete_conv')

lemma gomap_ok_Nil [simp]: "gomap_ok []"
  by (simp add: gomap_ok_def)

lemma gomap_ok_set [simp]: "gomap_ok m \<Longrightarrow> gomap_ok (gomap_set m k v)"
  by (simp add: gomap_ok_def gomap_set_def AList.distinct_update)

lemma gomap_ok_del [simp]: "gomap_ok m \<Longrightarrow> gomap_ok (gomap_del m k)"
  by (simp add: gomap_ok_def gomap_del_def AList.distinct_delete)

lemma gomap_get_in: "gomap_get m k = Some v \<Longrightarrow> (k, v) \<in> set m"
  by (simp add: gomap_get_def map_of_SomeD)

lemma gomap_ok_in: "gomap_ok m \<Longrightarrow> (k, v) \<in> set m \<longleftrightarrow> gomap_get m k = Some v"
  by (simp add: gomap_ok_def gomap_get_def)

lemma gomap_dom: "dom (gomap_get m) = fst ` set m"
  by (simp add: gomap_get_def [abs_def] dom_map_of_conv_image_fst)

lemma gomap_len_card: "gomap_ok m \<Longrightarrow> gomap_len m = int (card (dom (gomap_get m)))"
  using distinct_card[of "map fst m"] by (simp add: gomap_ok_def gomap_len_def gomap_dom)

lemma gomap_finite_dom [simp]: "finite (dom (gomap_get m))"
  by (simp add: gomap_dom)

lemma gomap_rebuild_ok [simp]: "gomap_ok (gomap_rebuild f g m)"
proof -
  have "gomap_ok out \<Longrightarrow> gomap_ok (fold (\<lambda>(k, v) out. gomap_set out (f k v) (g k v)) m out)" for out
    by (induction m arbitrary: out) auto
  then show ?thesis by (simp add: gomap_rebuild_def)
qed

lemma gomap_get_fold_notin:
  "l \<notin> (\<lambda>(k, v). f k v) ` set m \<Longrightarrow>
   gomap_get (fold (\<lambda>(k, v) out. gomap_set out (f k v) (g k v)) m out) l = gomap_get out l"
  by (induction m arbitrary: out) auto

lemma gomap_rebuild_get:
  assumes ok: "gomap_ok m"
    and inj: "\<And>k v k' v'. gomap_get m k = Some v \<Longrightarrow> gomap_get m k' = Some v' \<Longrightarrow>
                f k v = f k' v' \<Longrightarrow> k = k'"
    and k: "gomap_get m k = Some v"
  shows "gomap_get (gomap_rebuild f g m) (f k v) = Some (g k v)"
proof -
  from k have "(k, v) \<in> set m" by (rule gomap_get_in)
  then obtain xs ys where m: "m = xs @ (k, v) # ys" by (meson split_list)
  have "f k v \<notin> (\<lambda>(k, v). f k v) ` set ys"
  proof
    assume "f k v \<in> (\<lambda>(k, v). f k v) ` set ys"
    then obtain k' v' where kv: "(k', v') \<in> set ys" "f k v = f k' v'" by auto
    then have "(k', v') \<in> set m" by (simp add: m)
    with ok have "gomap_get m k' = Some v'" by (simp add: gomap_ok_in)
    with inj k kv(2) have "k = k'" by blast
    with kv(1) ok m show False by (auto simp: gomap_ok_def rev_image_eqI)
  qed
  then show ?thesis
    by (simp add: gomap_rebuild_def m gomap_get_fold_notin)
qed

lemma gomap_rebuild_dom:
  "gomap_get (gomap_rebuild f g m) l = Some w \<Longrightarrow> \<exists>k v. (k, v) \<in> set m \<and> l = f k v \<and> w = g k v"
proof -
  have "gomap_get (fold (\<lambda>(k, v) out. gomap_set out (f k v) (g k v)) m out) l = Some w \<Longrightarrow>
      gomap_get out l = Some w \<or> (\<exists>k v. (k, v) \<in> set m \<and> l = f k v \<and> w = g k v)" for out
    by (induction m arbitrary: out) (fastforce split: if_splits)+
  from this[of "[]"] show "gomap_get (gomap_rebuild f g m) l = Some w \<Longrightarrow>
      \<exists>k v. (k, v) \<in> set m \<and> l = f k v \<and> w = g k v"
    by (auto simp: gomap_rebuild_def)
qed

lemma gomap_rebuild_key:
  assumes "gomap_ok m"
  shows "gomap_get (gomap_rebuild (\<lambda>k v. k) g m) k = (case gomap_get m k of None \<Rightarrow> None | Some v \<Rightarrow> Some (g k v))"
proof (cases "gomap_get m k")
  case None
  show ?thesis
  proof (cases "gomap_get (gomap_rebuild (\<lambda>k v. k) g m) k")
    case (Some w)
    with assms None show ?thesis by (auto dest!: gomap_rebuild_dom simp: gomap_ok_in)
  qed (simp add: None)
next
  case (Some v)
  with gomap_rebuild_get[OF assms _ Some, of "\<lambda>k v. k" g] show ?thesis by simp
qed

text \<open>With distinct new keys a rebuild keeps the entries and their order.\<close>

lemma update_new: "k \<notin> fst ` set m \<Longrightarrow> gomap_set m k v = m @ [(k, v)]"
  unfolding gomap_set_def by (induction m) auto

lemma fold_set_new:
  "distinct (map (\<lambda>(k, v). f k v) m) \<Longrightarrow> fst ` set out \<inter> (\<lambda>(k, v). f k v) ` set m = {} \<Longrightarrow>
   fold (\<lambda>(k, v) out. gomap_set out (f k v) (g k v)) m out = out @ map (\<lambda>(k, v). (f k v, g k v)) m"
proof (induction m arbitrary: out)
  case (Cons e m)
  obtain k v where e: "e = (k, v)" by fastforce
  have new: "gomap_set out (f k v) (g k v) = out @ [(f k v, g k v)]"
    using Cons.prems(2) by (intro update_new) (auto simp: e)
  have "fst ` set (out @ [(f k v, g k v)]) \<inter> (\<lambda>(k, v). f k v) ` set m = {}"
    using Cons.prems by (auto simp: e)
  with Cons.IH[of "out @ [(f k v, g k v)]"] Cons.prems(1) new show ?case
    by (simp add: e)
qed simp

lemma gomap_rebuild_map:
  "distinct (map (\<lambda>(k, v). f k v) m) \<Longrightarrow> gomap_rebuild f g m = map (\<lambda>(k, v). (f k v, g k v)) m"
  by (simp add: gomap_rebuild_def fold_set_new)

lemma gomap_rebuild_same: "gomap_ok m \<Longrightarrow> gomap_rebuild (\<lambda>k v. k) (\<lambda>k v. v) m = m"
  by (subst gomap_rebuild_map) (simp_all add: gomap_ok_def case_prod_unfold)

end
