(* ===== verification/InternPool.thy ===== *)
theory InternPool
  imports Prelude
begin

text \<open>
  The contract of a pool that interns values: \<open>put\<close> returns the number of a value, adding
  it if it is new, and \<open>get\<close> reads it back. The attribute pool of text pads and the style
  pool of spreadsheets both promise it; the lemmas here are what their clients use.
\<close>

text \<open>Putting the elements of a list one after the other.\<close>

fun put_seq :: "('a \<Rightarrow> 'p \<Rightarrow> int \<times> 'p) \<Rightarrow> 'a list \<Rightarrow> 'p \<Rightarrow> int list \<times> 'p" where
  "put_seq put [] p = ([], p)"
| "put_seq put (a # as) p =
     (let (n, p1) = put a p; (ns, p2) = put_seq put as p1 in (n # ns, p2))"

locale intern_pool =
  fixes put :: "'a \<Rightarrow> 'p \<Rightarrow> int \<times> 'p"
    and get :: "'p \<Rightarrow> int \<Rightarrow> 'k option"
    and key :: "'a \<Rightarrow> 'k"
    and inv :: "'p \<Rightarrow> bool"
  assumes put_inv: "inv p \<Longrightarrow> inv (snd (put a p))"
    and get_put: "inv p \<Longrightarrow> get (snd (put a p)) (fst (put a p)) = Some (key a)"
    and put_keeps: "inv p \<Longrightarrow> get p n = Some k \<Longrightarrow> get (snd (put a p)) n = Some k"
    and put_known: "inv p \<Longrightarrow> get p n = Some (key a) \<Longrightarrow> put a p = (n, p)"
begin

lemma put_again: "inv p \<Longrightarrow> put a (snd (put a p)) = put a p"
  using put_known[OF put_inv get_put, of p a] by simp

lemma number_unique: "inv p \<Longrightarrow> get p m = Some (key a) \<Longrightarrow> get p n = Some (key a) \<Longrightarrow> m = n"
  using put_known[of p m a] put_known[of p n a] by simp

lemma put_same_key: "inv p \<Longrightarrow> fst (put a p) = fst (put b (snd (put a p))) \<Longrightarrow> key a = key b"
  using get_put[of p a] get_put[OF put_inv, of p b a] put_keeps[OF put_inv, of p a "fst (put a p)" "key a" b]
  by simp

lemma put_seq_props:
  "inv p \<Longrightarrow> put_seq put as p = (ns, p') \<Longrightarrow>
     inv p' \<and> map (get p') ns = map (\<lambda>a. Some (key a)) as \<and> (\<forall>n k. get p n = Some k \<longrightarrow> get p' n = Some k)"
proof (induction as arbitrary: p ns p')
  case (Cons a as)
  obtain n p1 where put: "put a p = (n, p1)" by fastforce
  obtain ns' where rest: "put_seq put as p1 = (ns', p')" and ns: "ns = n # ns'"
    using Cons.prems(2) put by (auto split: prod.splits)
  have p1: "inv p1" "get p1 n = Some (key a)"
    using put put_inv[OF Cons.prems(1), of a] get_put[OF Cons.prems(1), of a] by auto
  have "get p m = Some k \<Longrightarrow> get p1 m = Some k" for m k
    using put put_keeps[OF Cons.prems(1), of m k a] by simp
  with Cons.IH[OF p1(1) rest] p1 ns show ?case by auto
qed simp

lemma put_seq_inv: "inv p \<Longrightarrow> put_seq put as p = (ns, p') \<Longrightarrow> inv p'"
  using put_seq_props by blast

lemma put_seq_get: "inv p \<Longrightarrow> put_seq put as p = (ns, p') \<Longrightarrow> map (get p') ns = map (\<lambda>a. Some (key a)) as"
  using put_seq_props by blast

lemma put_seq_keeps:
  "inv p \<Longrightarrow> put_seq put as p = (ns, p') \<Longrightarrow> get p n = Some k \<Longrightarrow> get p' n = Some k"
  using put_seq_props by blast

lemma put_seq_known:
  "inv p \<Longrightarrow> map (get p) ns = map (\<lambda>a. Some (key a)) as \<Longrightarrow> put_seq put as p = (ns, p)"
proof (induction as arbitrary: ns)
  case (Cons a as)
  then obtain n ns' where "ns = n # ns'" "get p n = Some (key a)"
    "map (get p) ns' = map (\<lambda>a. Some (key a)) as" by auto
  with Cons.IH[of ns'] Cons.prems(1) put_known[of p n a] show ?case by simp
qed simp

end

end
