(* ===== verification/APool.thy ===== *)
theory APool
  imports RuneUtils GoMap InternPool
begin

text \<open>
  The attribute pool of \<^verbatim>\<open>lib/apool\<close>: a two-way table between attributes (key/value pairs)
  and the numbers that stand for them in changesets, with its conversions to and from the
  stored forms of \<^verbatim>\<open>lib/models/db/PadDB.go\<close>. The contract clients rely on is the locale
  \<open>intern_pool\<close>: a value put in the pool gets a number under which it stays readable.
\<close>

record Attribute =
  Key :: gostring
  Value :: gostring

record APool =
  NumToAttrib :: "(int, Attribute) gomap"
  NumToAttribRaw :: "(int, gostring list) gomap"
  AttribToNum :: "(Attribute, int) gomap"
  NextNum :: int

record RevPool =
  RevNumToAttrib :: "(gostring, gostring list) gomap"
  RevNextNum :: int
  RevAttribToNum :: "(gostring, int) gomap"

record PadPool =
  PadNumToAttrib :: "(gostring, gostring list) gomap"
  PadNextNum :: int

record AText =
  Text :: gostring
  ATAttribs :: gostring

subsection \<open>lib/apool/Attribute.go and AText.go\<close>

definition ToStringSlice :: "Attribute \<Rightarrow> gostring list" where
  "ToStringSlice a = [Key a, Value a]"

definition ToJsonAble :: "Attribute \<Rightarrow> gostring list" where
  "ToJsonAble a = [Key a, Value a]"

definition Attribute_String :: "Attribute \<Rightarrow> gostring" where
  "Attribute_String a = Key a @ lit '','' @ Value a"

text \<open>Go compares strings byte by byte, which for UTF-8 is the lexical order of the runes.\<close>

fun str_less :: "gostring \<Rightarrow> gostring \<Rightarrow> bool" where
  "str_less xs [] = False"
| "str_less [] (y # ys) = True"
| "str_less (x # xs) (y # ys) = (x < y \<or> (x = y \<and> str_less xs ys))"

definition CmpAttribute :: "Attribute \<Rightarrow> Attribute \<Rightarrow> int" where
  "CmpAttribute a b =
     (if str_less (Key a) (Key b) then -1 else if str_less (Key b) (Key a) then 1 else 0)"

text \<open>\<^verbatim>\<open>convertable[0]\<close>, \<^verbatim>\<open>convertable[1]\<close> panic on a shorter slice.\<close>

definition FromJsonAble :: "gostring list \<Rightarrow> Attribute result" where
  "FromJsonAble convertable =
     (if length convertable < 2 then Inl Panic
      else Inr \<lparr>Key = convertable ! 0, Value = convertable ! 1\<rparr>)"

definition CopyAText :: "AText \<Rightarrow> AText \<Rightarrow> AText" where
  "CopyAText atext1 atext2 = atext2\<lparr>ATAttribs := ATAttribs atext1, Text := Text atext1\<rparr>"

definition ATextsEqual :: "AText \<Rightarrow> AText \<Rightarrow> bool" where
  "ATextsEqual atext1 atext2 \<longleftrightarrow> Text atext1 = Text atext2 \<and> ATAttribs atext1 = ATAttribs atext2"

subsection \<open>lib/apool/APool.go\<close>

definition NewAPool :: APool where
  "NewAPool = \<lparr>NumToAttrib = [], NumToAttribRaw = [], AttribToNum = [], NextNum = 0\<rparr>"

text \<open>The second argument is the optional \<open>dontAddIfAbsent\<close> flag (nil is \<open>None\<close>).\<close>

definition PutAttrib :: "Attribute \<Rightarrow> bool option \<Rightarrow> APool \<Rightarrow> int \<times> APool" where
  "PutAttrib attrib dontAddIfAbsent a =
     (case gomap_get (AttribToNum a) attrib of
        Some val \<Rightarrow> (val, a)
      | None \<Rightarrow>
          if dontAddIfAbsent = Some True then (-1, a)
          else let num = NextNum a
               in (num, a\<lparr>NextNum := NextNum a + 1,
                         AttribToNum := gomap_set (AttribToNum a) attrib num,
                         NumToAttrib := gomap_set (NumToAttrib a) num attrib\<rparr>))"

definition GetAttrib :: "APool \<Rightarrow> int \<Rightarrow> Attribute result" where
  "GetAttrib a num =
     (case gomap_get (NumToAttrib a) num of
        None \<Rightarrow> Inl (Err ''attrib not found'') | Some pair \<Rightarrow> Inr pair)"

text \<open>The loop of \<^verbatim>\<open>Check\<close>; a missing entry of \<^verbatim>\<open>AttribToNum\<close> reads as 0.\<close>

fun Check_from :: "APool \<Rightarrow> int list \<Rightarrow> unit result" where
  "Check_from a [] = Inr ()"
| "Check_from a (i # is) =
     (case gomap_get (NumToAttrib a) i of
        None \<Rightarrow> Inl (Err ''numToAttrib missing entry for index'')
      | Some attr \<Rightarrow>
          if Key attr = [] then Inl (Err ''attribute key is empty for index'')
          else if (case gomap_get (AttribToNum a) attr of None \<Rightarrow> 0 | Some n \<Rightarrow> n) \<noteq> i
          then Inl (Err ''attribToNum mapping incorrect for attribute'')
          else Check_from a is)"

definition Check :: "APool \<Rightarrow> unit result" where
  "Check a =
     (if NextNum a < 0 then Inl (Err ''nextNum is negative'')
      else if gomap_len (NumToAttrib a) \<noteq> NextNum a
      then Inl (Err ''numToAttrib length does not match nextNum'')
      else if gomap_len (AttribToNum a) \<noteq> NextNum a
      then Inl (Err ''attribToNum length does not match nextNum'')
      else Check_from a [0..NextNum a - 1])"

definition ToRevDB :: "APool \<Rightarrow> RevPool" where
  "ToRevDB a =
     (let attribNums = gomap_rebuild (\<lambda>attrib num. Attribute_String attrib) (\<lambda>attrib num. num) (AttribToNum a);
          numToAttrib = gomap_rebuild (\<lambda>num attrib. Itoa num) (\<lambda>num attrib. ToStringSlice attrib) (NumToAttrib a)
      in \<lparr>RevNumToAttrib = numToAttrib, RevNextNum = NextNum a, RevAttribToNum = attribNums\<rparr>)"

definition ToPadDB :: "APool \<Rightarrow> PadPool" where
  "ToPadDB a =
     (let numToAttrib = gomap_rebuild (\<lambda>num attrib. Itoa num) (\<lambda>num attrib. ToStringSlice attrib) (NumToAttrib a)
      in \<lparr>PadNumToAttrib = numToAttrib, PadNextNum = NextNum a\<rparr>)"

definition toDBRev :: "APool \<Rightarrow> RevPool" where
  "toDBRev a =
     (let numToAttrib = gomap_rebuild (\<lambda>num attrib. Itoa num) (\<lambda>num attrib. ToStringSlice attrib) (NumToAttrib a);
          attribToNum = gomap_rebuild (\<lambda>attrib num. Attribute_String attrib) (\<lambda>attrib num. num) (AttribToNum a)
      in \<lparr>RevNumToAttrib = numToAttrib, RevNextNum = NextNum a, RevAttribToNum = attribToNum\<rparr>)"

definition ToIntPool :: "PadPool \<Rightarrow> (int, gostring list) gomap" where
  "ToIntPool p =
     fold (\<lambda>(k, v) intPool. case ParseInt 10 k of
               Inl err \<Rightarrow> intPool
             | Inr convertedInteger \<Rightarrow> gomap_set intPool convertedInteger v)
       (PadNumToAttrib p) []"

text \<open>The loop shared by \<^verbatim>\<open>FromJsonable\<close> and \<^verbatim>\<open>FromDB\<close>: both tables are filled from the raw entries.\<close>

fun load_raw :: "(int \<times> gostring list) list \<Rightarrow> APool \<Rightarrow> APool result" where
  "load_raw [] a = Inr a"
| "load_raw ((num, attrib) # rest) a =
     (case FromJsonAble attrib of
        Inl e \<Rightarrow> Inl e
      | Inr entry \<Rightarrow>
          load_raw rest (a\<lparr>NumToAttrib := gomap_set (NumToAttrib a) num entry,
                           AttribToNum := gomap_set (AttribToNum a) entry num\<rparr>))"

definition FromJsonable :: "APool \<Rightarrow> APool \<Rightarrow> APool result" where
  "FromJsonable a obj =
     load_raw (NumToAttribRaw obj)
       (a\<lparr>AttribToNum := [], NextNum := NextNum obj, NumToAttribRaw := NumToAttribRaw obj\<rparr>)"

definition FromDB :: "APool \<Rightarrow> PadPool \<Rightarrow> APool result" where
  "FromDB a obj =
     (let raw = ToIntPool obj
      in load_raw raw (a\<lparr>AttribToNum := [], NextNum := PadNextNum obj, NumToAttribRaw := raw\<rparr>))"

definition ToJsonable :: "APool \<Rightarrow> APool" where
  "ToJsonable a =
     a\<lparr>NumToAttribRaw := gomap_rebuild (\<lambda>s attrib. s) (\<lambda>s attrib. ToJsonAble attrib) (NumToAttrib a)\<rparr>"

text \<open>\<^verbatim>\<open>Clone\<close> copies the three maps entry by entry.\<close>

definition Clone :: "APool \<Rightarrow> APool" where
  "Clone a =
     \<lparr>NumToAttrib = gomap_rebuild (\<lambda>num attrib. num) (\<lambda>num attrib. attrib) (NumToAttrib a),
      NumToAttribRaw = gomap_rebuild (\<lambda>num raw. num) (\<lambda>num raw. raw) (NumToAttribRaw a),
      AttribToNum = gomap_rebuild (\<lambda>attrib num. attrib) (\<lambda>attrib num. num) (AttribToNum a),
      NextNum = NextNum a\<rparr>"

subsection \<open>The two tables agree\<close>

definition pool_ok :: "APool \<Rightarrow> bool" where
  "pool_ok a \<longleftrightarrow>
     gomap_ok (NumToAttrib a) \<and> gomap_ok (AttribToNum a) \<and> 0 \<le> NextNum a \<and>
     dom (gomap_get (NumToAttrib a)) = {0..<NextNum a} \<and>
     (\<forall>n attr. gomap_get (NumToAttrib a) n = Some attr \<longleftrightarrow> gomap_get (AttribToNum a) attr = Some n)"

lemma pool_ok_NewAPool: "pool_ok NewAPool"
  by (simp add: pool_ok_def NewAPool_def gomap_get_def dom_def)

lemma pool_ok_fresh: "pool_ok a \<Longrightarrow> gomap_get (NumToAttrib a) (NextNum a) = None"
  by (auto simp: pool_ok_def dom_def)

lemma pool_ok_PutAttrib:
  assumes "pool_ok a" shows "pool_ok (snd (PutAttrib attrib flag a))"
proof (cases "gomap_get (AttribToNum a) attrib = None \<and> flag \<noteq> Some True")
  case True
  let ?p = "snd (PutAttrib attrib flag a)"
  have p: "NumToAttrib ?p = gomap_set (NumToAttrib a) (NextNum a) attrib"
    "AttribToNum ?p = gomap_set (AttribToNum a) attrib (NextNum a)" "NextNum ?p = NextNum a + 1"
    using True by (simp_all add: PutAttrib_def Let_def)
  have "dom (gomap_get (NumToAttrib ?p)) = {0..<NextNum ?p}"
    using assms by (auto simp: p gomap_get_set_fun pool_ok_def)
  moreover have "gomap_get (NumToAttrib ?p) n = Some attr \<longleftrightarrow> gomap_get (AttribToNum ?p) attr = Some n" for n attr
    using assms True pool_ok_fresh[OF assms] by (auto simp: p pool_ok_def)
  ultimately show ?thesis using assms by (simp add: pool_ok_def p)
next
  case False
  then show ?thesis using assms by (auto simp: PutAttrib_def split: option.splits)
qed

interpretation apool: intern_pool "\<lambda>attrib a. PutAttrib attrib None a" "\<lambda>a n. gomap_get (NumToAttrib a) n"
  "\<lambda>attrib. attrib" pool_ok
proof (unfold_locales, goal_cases)
  case (1 p a)
  then show ?case by (rule pool_ok_PutAttrib)
next
  case (2 p a)
  then show ?case by (auto simp: PutAttrib_def Let_def pool_ok_def split: option.splits)
next
  case (3 p n k a)
  then show ?case using pool_ok_fresh[OF 3(1)]
    by (auto simp: PutAttrib_def Let_def split: option.splits)
next
  case (4 p n a)
  then show ?case by (simp add: PutAttrib_def pool_ok_def)
qed

lemma GetAttrib_Inr: "GetAttrib a n = Inr attr \<longleftrightarrow> gomap_get (NumToAttrib a) n = Some attr"
  by (auto simp: GetAttrib_def split: option.splits)

lemma PutAttrib_flag_absent:
  "gomap_get (AttribToNum a) attrib = None \<Longrightarrow> PutAttrib attrib (Some True) a = (-1, a)"
  by (simp add: PutAttrib_def)

lemma pool_num_bounds:
  "pool_ok a \<Longrightarrow> gomap_get (NumToAttrib a) n = Some attr \<Longrightarrow> 0 \<le> n \<and> n < NextNum a"
  by (auto simp: pool_ok_def dom_def set_eq_iff)

lemma pool_num_total: "pool_ok a \<Longrightarrow> 0 \<le> n \<Longrightarrow> n < NextNum a \<Longrightarrow> \<exists>attr. gomap_get (NumToAttrib a) n = Some attr"
  by (auto simp: pool_ok_def dom_def set_eq_iff)

lemma PutAttrib_number: "pool_ok a \<Longrightarrow> 0 \<le> fst (PutAttrib attrib None a)"
  using pool_num_bounds[OF apool.put_inv apool.get_put] by blast

subsection \<open>What Check decides\<close>

lemma Check_from_ok:
  "Check_from a is = Inr () \<longleftrightarrow>
     (\<forall>i\<in>set is. \<exists>attr. gomap_get (NumToAttrib a) i = Some attr \<and> Key attr \<noteq> [] \<and>
        (case gomap_get (AttribToNum a) attr of None \<Rightarrow> 0 | Some n \<Rightarrow> n) = i)"
  by (induction "is") (auto split: option.splits)

lemma set_upto_pred: "set [0..n - 1] = {0..<n}" for n :: int
  by auto

lemma gomap_dom_full:
  assumes ok: "gomap_ok m" and len: "gomap_len m = n" and sub: "{0..<n} \<subseteq> dom (gomap_get m)"
  shows "dom (gomap_get m) = {0..<n}"
proof -
  have "0 \<le> n" using len by (auto simp: gomap_len_def)
  then have "card (dom (gomap_get m)) = card {0..<n}"
    using gomap_len_card[OF ok] len by simp
  with sub show ?thesis by (metis card_subset_eq gomap_finite_dom)
qed

lemma pool_ok_card:
  assumes "pool_ok a" shows "card (dom (gomap_get (AttribToNum a))) = nat (NextNum a)"
proof -
  let ?f = "\<lambda>n. the (gomap_get (NumToAttrib a) n)" and ?g = "\<lambda>attr. the (gomap_get (AttribToNum a) attr)"
  have num: "\<exists>attr. gomap_get (NumToAttrib a) n = Some attr \<and> gomap_get (AttribToNum a) attr = Some n"
    if "n \<in> {0..<NextNum a}" for n
    using pool_num_total[OF assms, of n] assms that by (auto simp: pool_ok_def)
  have attr: "\<exists>n\<in>{0..<NextNum a}. gomap_get (AttribToNum a) at = Some n \<and> gomap_get (NumToAttrib a) n = Some at"
    if "at \<in> dom (gomap_get (AttribToNum a))" for at
  proof -
    from that obtain n where n: "gomap_get (AttribToNum a) at = Some n" by blast
    with assms have "gomap_get (NumToAttrib a) n = Some at" by (simp add: pool_ok_def)
    with n pool_num_bounds[OF assms this] show ?thesis by auto
  qed
  have "bij_betw ?f {0..<NextNum a} (dom (gomap_get (AttribToNum a)))"
    by (rule bij_betw_byWitness[where f' = ?g]) (auto dest!: num attr dest: pool_num_bounds[OF assms])
  then show ?thesis
    by (metis bij_betw_same_card card_atLeastLessThan_int diff_zero)
qed

lemma pool_ok_Check:
  assumes "pool_ok a" and "\<And>n attr. gomap_get (NumToAttrib a) n = Some attr \<Longrightarrow> Key attr \<noteq> []"
  shows "Check a = Inr ()"
proof -
  have "gomap_len (NumToAttrib a) = NextNum a"
    using assms(1) gomap_len_card[of "NumToAttrib a"] by (simp add: pool_ok_def)
  moreover have "gomap_len (AttribToNum a) = NextNum a"
    using pool_ok_card[OF assms(1)] assms(1) gomap_len_card[of "AttribToNum a"] by (simp add: pool_ok_def)
  moreover have "\<exists>attr. gomap_get (NumToAttrib a) i = Some attr \<and> Key attr \<noteq> [] \<and>
      (case gomap_get (AttribToNum a) attr of None \<Rightarrow> 0 | Some n \<Rightarrow> n) = i"
    if "i \<in> {0..<NextNum a}" for i
  proof -
    from that obtain attr where at: "gomap_get (NumToAttrib a) i = Some attr"
      using pool_num_total[OF assms(1), of i] by auto
    then have "gomap_get (AttribToNum a) attr = Some i"
      using assms(1) by (simp add: pool_ok_def)
    with at assms(2) show ?thesis by simp
  qed
  ultimately show ?thesis
    using assms(1) by (simp add: Check_def Check_from_ok pool_ok_def)
qed

lemma Check_lookup:
  assumes "Check a = Inr ()" "gomap_ok (NumToAttrib a)"
  shows "dom (gomap_get (NumToAttrib a)) = {0..<NextNum a}"
    and "gomap_get (NumToAttrib a) n = Some attr \<Longrightarrow> n \<noteq> 0 \<Longrightarrow> gomap_get (AttribToNum a) attr = Some n"
proof -
  have len: "gomap_len (NumToAttrib a) = NextNum a"
    and all: "\<forall>i\<in>{0..<NextNum a}. \<exists>attr. gomap_get (NumToAttrib a) i = Some attr \<and> Key attr \<noteq> [] \<and>
        (case gomap_get (AttribToNum a) attr of None \<Rightarrow> 0 | Some n \<Rightarrow> n) = i"
    using assms(1) Check_from_ok[of a "[0..NextNum a - 1]"]
    by (auto simp: Check_def set_upto_pred split: if_splits)
  from all have "{0..<NextNum a} \<subseteq> dom (gomap_get (NumToAttrib a))" by fast
  with assms(2) len show dom: "dom (gomap_get (NumToAttrib a)) = {0..<NextNum a}"
    by (rule gomap_dom_full)
  assume n: "gomap_get (NumToAttrib a) n = Some attr" "n \<noteq> 0"
  with dom have "n \<in> {0..<NextNum a}" by (metis domI)
  with all obtain attr' where "gomap_get (NumToAttrib a) n = Some attr'"
    "(case gomap_get (AttribToNum a) attr' of None \<Rightarrow> 0 | Some n \<Rightarrow> n) = n" by blast
  with n show "gomap_get (AttribToNum a) attr = Some n"
    by (cases "gomap_get (AttribToNum a) attr") simp_all
qed

subsection \<open>Stored forms\<close>

lemma Clone_eq: "pool_ok a \<Longrightarrow> gomap_ok (NumToAttribRaw a) \<Longrightarrow> Clone a = a"
  by (simp add: Clone_def pool_ok_def gomap_rebuild_same)

lemma ParseInt_Itoa_nonneg: "0 \<le> n \<Longrightarrow> n < 2 ^ 63 \<Longrightarrow> ParseInt 10 (Itoa n) = Inr n"
  by (rule ParseInt_Itoa) simp_all

lemma Itoa_inj:
  "Itoa m = Itoa n \<Longrightarrow> 0 \<le> m \<Longrightarrow> m < 2 ^ 63 \<Longrightarrow> 0 \<le> n \<Longrightarrow> n < 2 ^ 63 \<Longrightarrow> m = n"
  by (metis ParseInt_Itoa_nonneg sum.inject(2))

text \<open>Every number of the pool fits Go's \<^verbatim>\<open>int\<close>.\<close>

definition pool_fits :: "APool \<Rightarrow> bool" where
  "pool_fits a \<longleftrightarrow> NextNum a < 2 ^ 63"

lemma pool_nums:
  assumes "pool_ok a" "pool_fits a" "(n, attr) \<in> set (NumToAttrib a)"
  shows "0 \<le> n" "n < 2 ^ 63"
  using assms pool_num_bounds[of a n attr] gomap_ok_in[of "NumToAttrib a" n attr]
  by (auto simp: pool_ok_def pool_fits_def)

lemma distinct_Itoa:
  assumes "pool_ok a" "pool_fits a"
  shows "distinct (map (\<lambda>(n, attr). Itoa n) (NumToAttrib a))"
proof -
  have "inj_on Itoa (set (map fst (NumToAttrib a)))"
    using pool_nums[OF assms] by (intro inj_onI) (auto dest: Itoa_inj)
  then have "distinct (map Itoa (map fst (NumToAttrib a)))"
    using assms(1) unfolding distinct_map by (simp add: pool_ok_def gomap_ok_def distinct_map)
  then show ?thesis by (simp add: case_prod_unfold comp_def)
qed

lemma ToIntPool_ToPadDB:
  assumes "pool_ok a" "pool_fits a"
  shows "ToIntPool (ToPadDB a) = map (\<lambda>(n, attr). (n, ToStringSlice attr)) (NumToAttrib a)"
proof -
  let ?E = "map (\<lambda>(n, attr). (Itoa n, ToStringSlice attr)) (NumToAttrib a)"
  have "PadNumToAttrib (ToPadDB a) = ?E"
    using gomap_rebuild_map[OF distinct_Itoa[OF assms], of "\<lambda>n attr. ToStringSlice attr"]
    by (simp add: ToPadDB_def)
  moreover have "fold (\<lambda>(k, v) intPool. case ParseInt 10 k of Inl err \<Rightarrow> intPool
        | Inr i \<Rightarrow> gomap_set intPool i v) (map (\<lambda>(n, attr). (Itoa n, ToStringSlice attr)) xs) out =
      fold (\<lambda>(n, attr) out. gomap_set out n (ToStringSlice attr)) xs out"
    if "set xs \<subseteq> set (NumToAttrib a)" for xs out
    using that pool_nums[OF assms]
    by (induction xs arbitrary: out) (auto simp: ParseInt_Itoa_nonneg)
  moreover have "distinct (map (\<lambda>(n, attr). n) (NumToAttrib a))"
    using assms(1) by (simp add: pool_ok_def gomap_ok_def case_prod_unfold)
  ultimately show ?thesis
    by (simp add: ToIntPool_def fold_set_new[of "\<lambda>n attr. n" _ "[]" "\<lambda>n attr. ToStringSlice attr"])
qed

lemma Attribute_eta [simp]: "\<lparr>Key = Key a, Value = Value a\<rparr> = (a :: Attribute)"
  by (cases a) simp

lemma load_raw_slices:
  "load_raw (map (\<lambda>(n, attr). (n, ToStringSlice attr)) xs) a =
     Inr (a\<lparr>NumToAttrib := fold (\<lambda>(n, attr) m. gomap_set m n attr) xs (NumToAttrib a),
            AttribToNum := fold (\<lambda>(n, attr) m. gomap_set m attr n) xs (AttribToNum a)\<rparr>)"
  by (induction xs arbitrary: a) (auto simp: FromJsonAble_def ToStringSlice_def)

lemma fold_swap_get:
  assumes "distinct (map snd xs)" "(n, attr) \<in> set xs"
  shows "gomap_get (fold (\<lambda>(n, attr) m. gomap_set m attr n) xs out) attr = Some n"
  using assms
proof (induction xs arbitrary: out)
  case (Cons e xs)
  obtain n' attr' where e: "e = (n', attr')" by fastforce
  show ?case
  proof (cases "(n, attr) \<in> set xs")
    case True
    with Cons show ?thesis by (simp add: e)
  next
    case False
    with Cons.prems e have "n' = n" "attr' = attr" "attr \<notin> snd ` set xs" by auto
    then show ?thesis
      using gomap_get_fold_notin[of attr "\<lambda>n attr. attr" xs "\<lambda>n attr. n" "gomap_set out attr n"]
      by (simp add: e) (simp add: case_prod_unfold image_def)
  qed
qed simp

lemma fold_swap_dom:
  "gomap_get (fold (\<lambda>(n, attr) m. gomap_set m attr n) xs out) attr = Some n \<Longrightarrow>
     gomap_get out attr = Some n \<or> (n, attr) \<in> set xs"
  by (induction xs arbitrary: out) (fastforce split: if_splits)+

lemma FromDB_ToPadDB:
  assumes "pool_ok a" "pool_fits a"
  shows "\<exists>p. FromDB NewAPool (ToPadDB a) = Inr p \<and> NumToAttrib p = NumToAttrib a \<and>
           gomap_get (AttribToNum p) = gomap_get (AttribToNum a) \<and> NextNum p = NextNum a"
proof -
  let ?N = "NumToAttrib a"
  let ?A = "fold (\<lambda>(n, attr) m. gomap_set m attr n) ?N []"
  have ok: "gomap_ok ?N" using assms(1) by (simp add: pool_ok_def)
  have N: "fold (\<lambda>(n, attr) m. gomap_set m n attr) ?N [] = ?N"
    using gomap_rebuild_same[OF ok] by (simp add: gomap_rebuild_def)
  have "inj_on snd (set ?N)"
  proof (rule inj_onI)
    fix x y assume "x \<in> set ?N" "y \<in> set ?N" "snd x = snd y"
    then obtain m n attr where "x = (m, attr)" "y = (n, attr)" "(m, attr) \<in> set ?N" "(n, attr) \<in> set ?N"
      by (metis prod.collapse)
    moreover from this have "gomap_get (AttribToNum a) attr = Some m" "gomap_get (AttribToNum a) attr = Some n"
      using assms(1) gomap_ok_in[OF ok] by (simp_all add: pool_ok_def)
    ultimately show "x = y" by simp
  qed
  then have "distinct (map snd ?N)"
    using ok by (simp add: distinct_map gomap_ok_def)
  then have "gomap_get ?A attr = gomap_get (AttribToNum a) attr" for attr
    using fold_swap_get[of ?N _ attr "[]"] fold_swap_dom[of ?N "[]" attr] assms(1) gomap_ok_in[OF ok]
    by (cases "gomap_get ?A attr"; cases "gomap_get (AttribToNum a) attr") (auto simp: pool_ok_def)
  then show ?thesis
    using load_raw_slices[of ?N] N ToIntPool_ToPadDB[OF assms]
    by (simp add: FromDB_def Let_def NewAPool_def fun_eq_iff ToPadDB_def)
qed

end
