(* ===== verification/OpCodec.thy ===== *)
theory OpCodec
  imports RuneUtils
begin

text \<open>
  The wire format of changesets: operations and their printed form (\<^verbatim>\<open>lib/changeset/Op.go\<close>),
  the parser \<^verbatim>\<open>DeserializeOps\<close>, and the envelope written by \<^verbatim>\<open>Pack\<close> and read by \<^verbatim>\<open>Unpack\<close>
  (\<^verbatim>\<open>lib/changeset/changeset.go\<close>). The main facts are the two round trips.

  The code keeps an operation's code in a string that is empty, \<^verbatim>\<open>+\<close>, \<^verbatim>\<open>-\<close> or \<^verbatim>\<open>=\<close>: the parser
  and the callers of \<^verbatim>\<open>NewOp\<close> produce nothing else, so it is a datatype here.
\<close>

datatype opcode = NoCode | Plus | Minus | Keep

record Op =
  OpCode :: opcode
  Chars :: int
  Lines :: int
  Attribs :: gostring

definition opcode_string :: "opcode \<Rightarrow> gostring" where
  "opcode_string c = (case c of NoCode \<Rightarrow> [] | Plus \<Rightarrow> [43] | Minus \<Rightarrow> [45] | Keep \<Rightarrow> [61])"

definition NewOp :: "opcode option \<Rightarrow> Op" where
  "NewOp opCode =
     (let newOpCode = (case opCode of None \<Rightarrow> NoCode | Some c \<Rightarrow> c)
      in \<lparr>OpCode = newOpCode, Chars = 0, Lines = 0, Attribs = []\<rparr>)"

definition Op_String :: "Op \<Rightarrow> gostring" where
  "Op_String op' =
     (let l = (if Lines op' = 0 then [] else 124 # NumToString (Lines op'))
      in Attribs op' @ l @ opcode_string (OpCode op') @ NumToString (Chars op'))"

definition copyOp :: "Op \<Rightarrow> Op \<Rightarrow> Op" where
  "copyOp op1 op2 =
     op2\<lparr>OpCode := OpCode op1, Chars := Chars op1, Lines := Lines op1, Attribs := Attribs op1\<rparr>"

definition clearOp :: "Op \<Rightarrow> Op" where
  "clearOp op' = op'\<lparr>OpCode := NoCode, Chars := 0, Lines := 0, Attribs := []\<rparr>"

subsection \<open>DeserializeOps\<close>

text \<open>
  The code matches the operations with the pattern
  \<^verbatim>\<open>((?:\*[0-9a-z]+)*)(?:\|([0-9a-z]+))?([-+=])([0-9a-z]+)|(.)\<close>. Its pieces start with
  distinct characters outside \<^verbatim>\<open>[0-9a-z]\<close>, so the greedy match below is the only one.
\<close>

function scan_attribs :: "gostring \<Rightarrow> gostring \<times> gostring" where
  "scan_attribs [] = ([], [])"
| "scan_attribs (c # s) =
     (if c = 42 \<and> takeWhile alnum36 s \<noteq> []
      then let (a, r) = scan_attribs (dropWhile alnum36 s) in (c # takeWhile alnum36 s @ a, r)
      else ([], c # s))"
  by pat_completeness auto
termination
  by (relation "measure length") (auto simp: le_imp_less_Suc[OF length_dropWhile_le])

definition scan_lines :: "gostring \<Rightarrow> gostring \<times> gostring" where
  "scan_lines s =
     (if s \<noteq> [] \<and> hd s = 124 \<and> takeWhile alnum36 (tl s) \<noteq> []
      then (takeWhile alnum36 (tl s), dropWhile alnum36 (tl s)) else ([], s))"

definition opcode_of_rune :: "rune \<Rightarrow> opcode option" where
  "opcode_of_rune r =
     (if r = 43 then Some Plus else if r = 45 then Some Minus else if r = 61 then Some Keep else None)"

text \<open>The groups 1 to 4 of the first alternative and the rest of the string.\<close>

definition scan_op :: "gostring \<Rightarrow> (gostring \<times> gostring \<times> opcode \<times> gostring \<times> gostring) option" where
  "scan_op s =
     (let (attribs, s1) = scan_attribs s; (lines, s2) = scan_lines s1
      in case s2 of [] \<Rightarrow> None
         | c # s3 \<Rightarrow>
             (case opcode_of_rune c of None \<Rightarrow> None
              | Some code \<Rightarrow>
                  if takeWhile alnum36 s3 = [] then None
                  else Some (attribs, lines, code, takeWhile alnum36 s3, dropWhile alnum36 s3)))"

lemma length_scan_attribs: "length (snd (scan_attribs s)) \<le> length s"
proof (induction s rule: scan_attribs.induct)
  case (2 c s)
  then show ?case
    using length_dropWhile_le[of alnum36 s] by (auto split: prod.splits)
qed simp

lemma length_scan_lines: "length (snd (scan_lines s)) \<le> length s"
  using length_dropWhile_le[of alnum36 "tl s"] by (auto simp: scan_lines_def)

lemma length_scan_op: "scan_op s = Some (a, l, c, n, r) \<Longrightarrow> length r < length s"
proof -
  assume eq: "scan_op s = Some (a, l, c, n, r)"
  obtain a' s1 where 1: "scan_attribs s = (a', s1)" by fastforce
  obtain l' s2 where 2: "scan_lines s1 = (l', s2)" by fastforce
  from eq 1 2 obtain x s3 where s2: "s2 = x # s3" and r: "r = dropWhile alnum36 s3"
    by (auto simp: scan_op_def split: list.splits option.splits if_splits)
  from 1 2 have "length s1 \<le> length s" "length s2 \<le> length s1"
    using length_scan_attribs[of s] length_scan_lines[of s1] by simp_all
  then show "length r < length s"
    using length_dropWhile_le[of alnum36 s3] by (simp add: s2 r)
qed

text \<open>
  The second alternative matches one character other than a newline: a \<^verbatim>\<open>$\<close> is skipped, any
  other is an error. A newline matches neither alternative and \<^verbatim>\<open>FindAll\<close> moves past it.
\<close>

function DeserializeOps :: "gostring \<Rightarrow> Op list result" where
  "DeserializeOps [] = Inr []"
| "DeserializeOps (c # s) =
     (case scan_op (c # s) of
        Some (attribs, lines, code, chars, rest) \<Rightarrow>
          let op' = (NewOp (Some code))
                \<lparr>Lines := ParseNum_value (if lines \<noteq> [] then lines else lit ''0''),
                 Chars := ParseNum_value chars, Attribs := attribs\<rparr>
          in bind_result (DeserializeOps rest) (\<lambda>opsToReturn. Inr (op' # opsToReturn))
      | None \<Rightarrow>
          if c = newline then DeserializeOps s
          else if c = 36 then DeserializeOps s
          else Inl (Err ''invalid op string''))"
  by pat_completeness auto
termination
  by (relation "measure length") (auto dest: length_scan_op)

subsection \<open>Pack and Unpack\<close>

record Changeset =
  OldLen :: int
  NewLen :: int
  Ops :: gostring
  CharBank :: gostring

definition Pack :: "int \<Rightarrow> int \<Rightarrow> gostring \<Rightarrow> gostring \<Rightarrow> gostring" where
  "Pack oldLen newLen opStr bank =
     (let lenDiff = newLen - oldLen;
          lenDiffStr = (if lenDiff \<ge> 0 then lit ''>'' @ NumToString lenDiff
                        else lit ''<'' @ NumToString (- lenDiff))
      in concat [lit ''Z:'', NumToString oldLen, lenDiffStr, opStr, lit ''$'', bank])"

definition Identity :: "int \<Rightarrow> gostring" where
  "Identity n = Pack n n [] []"

text \<open>
  The pattern \<^verbatim>\<open>Z:([0-9a-z]+)([><])([0-9a-z]+)|\<close> has an empty second alternative: where no
  header starts at the beginning of the string it matches the empty string there, with empty groups.
\<close>

definition scan_header :: "gostring \<Rightarrow> (gostring \<times> gostring \<times> gostring \<times> gostring) option" where
  "scan_header cs =
     (if has_prefix cs (lit ''Z:'')
      then let t = drop 2 cs; d1 = takeWhile alnum36 t; t1 = dropWhile alnum36 t
           in if d1 = [] \<or> t1 = [] \<or> hd t1 \<notin> {60, 62} then None
              else let d2 = takeWhile alnum36 (tl t1)
                   in if d2 = [] then None
                      else Some (lit ''Z:'' @ d1 @ [hd t1] @ d2, d1, [hd t1], d2)
      else None)"

definition find_header :: "gostring \<Rightarrow> (gostring \<times> gostring \<times> gostring \<times> gostring) option" where
  "find_header cs = (case scan_header cs of None \<Rightarrow> Some ([], [], [], []) | Some m \<Rightarrow> Some m)"

definition Unpack :: "gostring \<Rightarrow> Changeset result" where
  "Unpack cs =
     (case find_header cs of
        None \<Rightarrow> Inl (Err ''no valid header found'')
      | Some (header, oldNum, sign, mag) \<Rightarrow>
          let oldLen = ParseNum_value oldNum;
              changeSign = (if sign = lit ''>'' then 1 else -1);
              changeMag = ParseNum_value mag;
              newLen = oldLen + changeSign * changeMag;
              opsStart = RuneCount header;
              opsEnd0 = RuneIndex cs (lit ''$'');
              opsEnd = (if opsEnd0 < 0 then RuneCount cs else opsEnd0)
          in Inr \<lparr>OldLen = oldLen, NewLen = newLen,
                  Ops = RuneSlice cs opsStart opsEnd,
                  CharBank = RuneSlice cs (opsEnd + 1) (RuneCount cs)\<rparr>)"

definition OldLen_of :: "gostring \<Rightarrow> int result" where
  "OldLen_of cs = (case Unpack cs of Inl err \<Rightarrow> Inl err | Inr unpacked \<Rightarrow> Inr (OldLen unpacked))"

subsection \<open>Printing and parsing operations\<close>

text \<open>A tail that does not extend the run of digits before it.\<close>

definition stops_digits :: "gostring \<Rightarrow> bool" where
  "stops_digits t \<longleftrightarrow> t = [] \<or> \<not> alnum36 (hd t)"

lemma takeWhile_digits:
  "list_all alnum36 d \<Longrightarrow> stops_digits t \<Longrightarrow> takeWhile alnum36 (d @ t) = d"
  by (induction d) (cases t, auto simp: stops_digits_def)

lemma dropWhile_digits:
  "list_all alnum36 d \<Longrightarrow> stops_digits t \<Longrightarrow> dropWhile alnum36 (d @ t) = t"
  by (induction d) (cases t, auto simp: stops_digits_def)

lemmas scan_digits = takeWhile_digits dropWhile_digits

lemma NumToString_digits [simp]:
  "0 \<le> n \<Longrightarrow> stops_digits t \<Longrightarrow> takeWhile alnum36 (NumToString n @ t) = NumToString n"
  "0 \<le> n \<Longrightarrow> stops_digits t \<Longrightarrow> dropWhile alnum36 (NumToString n @ t) = t"
  by (simp_all add: scan_digits NumToString_alnum)

text \<open>An attribute string is a sequence of \<^verbatim>\<open>*\<close> and digits, read completely by the parser.\<close>

definition attribs_wf :: "gostring \<Rightarrow> bool" where
  "attribs_wf a \<longleftrightarrow> scan_attribs a = (a, [])"

lemma attribs_wf_Nil [simp]: "attribs_wf []"
  by (simp add: attribs_wf_def)

lemma scan_attribs_step:
  "list_all alnum36 d \<Longrightarrow> d \<noteq> [] \<Longrightarrow> stops_digits t \<Longrightarrow>
   scan_attribs (42 # d @ t) = (let (a, r) = scan_attribs t in (42 # d @ a, r))"
  by (simp add: scan_digits)

lemma attribs_wf_stops: "attribs_wf a \<Longrightarrow> stops_digits a"
proof (cases a)
  case (Cons c s)
  moreover assume "attribs_wf a"
  ultimately have "c = 42" by (auto simp: attribs_wf_def split: if_splits)
  with Cons show ?thesis by (simp add: stops_digits_def alnum36_def)
qed (simp add: stops_digits_def)

lemma attribs_wf_induct [consumes 1, case_names Nil Cons]:
  assumes "attribs_wf a" "P []"
    and step: "\<And>d a. list_all alnum36 d \<Longrightarrow> d \<noteq> [] \<Longrightarrow> attribs_wf a \<Longrightarrow> P a \<Longrightarrow> P (42 # d @ a)"
  shows "P a"
  using assms(1)
proof (induction a rule: scan_attribs.induct)
  case (2 c s)
  let ?d = "takeWhile alnum36 s"
  obtain a r where r: "scan_attribs (dropWhile alnum36 s) = (a, r)" by fastforce
  have c: "c = 42" "?d \<noteq> []" and eq: "(42 # ?d @ a, r) = (c # s, [])"
    using 2(2) r by (auto simp: attribs_wf_def split: if_splits)
  from eq have "?d @ a = ?d @ dropWhile alnum36 s" by simp
  then have a: "a = dropWhile alnum36 s" by (simp only: same_append_eq)
  with r eq have wf: "attribs_wf (dropWhile alnum36 s)" by (simp add: attribs_wf_def)
  then have "P (dropWhile alnum36 s)" using 2(1) c by simp
  moreover have "list_all alnum36 ?d" by (auto simp: list_all_iff dest: set_takeWhileD)
  ultimately have "P (42 # ?d @ dropWhile alnum36 s)" using step c(2) wf by blast
  then show ?case using c(1) by simp
qed (use assms(2) in simp)

lemma attribs_wf_step: "list_all alnum36 d \<Longrightarrow> d \<noteq> [] \<Longrightarrow> attribs_wf a \<Longrightarrow> attribs_wf (42 # d @ a)"
  using attribs_wf_stops[of a] by (simp add: attribs_wf_def scan_attribs_step del: scan_attribs.simps)

text \<open>A tail that starts neither a digit nor another attribute.\<close>

definition stops_attribs :: "gostring \<Rightarrow> bool" where
  "stops_attribs t \<longleftrightarrow> t = [] \<or> (\<not> alnum36 (hd t) \<and> hd t \<noteq> 42)"

lemma scan_attribs_append: "attribs_wf a \<Longrightarrow> stops_attribs t \<Longrightarrow> scan_attribs (a @ t) = (a, t)"
proof (induction a rule: attribs_wf_induct)
  case Nil
  then show ?case by (cases t) (auto simp: stops_attribs_def)
next
  case (Cons d a)
  have "stops_digits (a @ t)"
    using attribs_wf_stops[OF Cons(3)] Cons(5)
    by (cases a) (auto simp: stops_digits_def stops_attribs_def)
  with Cons scan_attribs_step[of d "a @ t"] show ?case by simp
qed

lemma attribs_wf_append: "attribs_wf a \<Longrightarrow> attribs_wf b \<Longrightarrow> attribs_wf (a @ b)"
proof (induction a rule: attribs_wf_induct)
  case (Cons d a)
  then show ?case using attribs_wf_step[of d "a @ b"] by simp
qed simp

lemma scan_attribs_wf: "scan_attribs s = (a, r) \<Longrightarrow> attribs_wf a"
proof (induction s arbitrary: a r rule: scan_attribs.induct)
  case (2 c s)
  show ?case
  proof (cases "c = 42 \<and> takeWhile alnum36 s \<noteq> []")
    case True
    obtain a' r' where r': "scan_attribs (dropWhile alnum36 s) = (a', r')" by fastforce
    with True 2 have "attribs_wf a'" "a = 42 # takeWhile alnum36 s @ a'" by auto
    moreover have "list_all alnum36 (takeWhile alnum36 s)" by (auto simp: list_all_iff dest: set_takeWhileD)
    ultimately show ?thesis using True attribs_wf_step by blast
  next
    case False
    with 2(2) show ?thesis by (auto split: if_splits)
  qed
qed simp

definition op_wf :: "Op \<Rightarrow> bool" where
  "op_wf op' \<longleftrightarrow> OpCode op' \<noteq> NoCode \<and> 0 \<le> Chars op' \<and> Chars op' < 2 ^ 63 \<and>
     0 \<le> Lines op' \<and> Lines op' < 2 ^ 63 \<and> attribs_wf (Attribs op')"

text \<open>The first character of a printed operation ends whatever precedes it.\<close>

lemma stops_digits_Op_String:
  assumes "op_wf op'" shows "stops_digits (Op_String op' @ t)"
  using assms attribs_wf_stops[of "Attribs op'"]
  by (cases "Attribs op'"; cases "OpCode op'")
    (auto simp: op_wf_def Op_String_def Let_def opcode_string_def stops_digits_def alnum36_def)

lemma stops_digits_ops:
  "list_all op_wf ops \<Longrightarrow> stops_digits (concat (map Op_String ops))"
  by (cases ops) (auto simp: stops_digits_Op_String, simp add: stops_digits_def)

lemma scan_lines_none: "t = [] \<or> hd t \<noteq> 124 \<Longrightarrow> scan_lines t = ([], t)"
  by (auto simp: scan_lines_def)

lemma scan_lines_some:
  "0 \<le> n \<Longrightarrow> stops_digits t \<Longrightarrow> scan_lines (124 # NumToString n @ t) = (NumToString n, t)"
  by (simp add: scan_lines_def)

lemma opcode_of_string:
  assumes "c \<noteq> NoCode"
  obtains r where "opcode_string c = [r]" "opcode_of_rune r = Some c" "\<not> alnum36 r" "r \<noteq> 42" "r \<noteq> 124"
  using assms by (cases c) (auto simp: opcode_string_def opcode_of_rune_def alnum36_def)

lemma scan_op_Op_String:
  assumes op: "op_wf op'" and t: "stops_digits t"
  shows "scan_op (Op_String op' @ t) =
     Some (Attribs op', if Lines op' = 0 then [] else NumToString (Lines op'), OpCode op',
           NumToString (Chars op'), t)"
proof -
  from op obtain r where r: "opcode_string (OpCode op') = [r]" "opcode_of_rune r = Some (OpCode op')"
    "\<not> alnum36 r" "r \<noteq> 42" "r \<noteq> 124" by (auto simp: op_wf_def elim: opcode_of_string)
  let ?num = "NumToString (Chars op') @ t"
  let ?tail = "(if Lines op' = 0 then [] else 124 # NumToString (Lines op')) @ r # ?num"
  have "stops_attribs ?tail"
    using r by (auto simp: stops_attribs_def alnum36_def)
  then have 1: "scan_attribs (Op_String op' @ t) = (Attribs op', ?tail)"
    using scan_attribs_append[of "Attribs op'" ?tail] op r(1) by (simp add: op_wf_def Op_String_def)
  have 2: "scan_lines ?tail = (if Lines op' = 0 then [] else NumToString (Lines op'), r # ?num)"
    using r op scan_lines_some[of "Lines op'" "r # ?num"] scan_lines_none[of "r # ?num"]
    by (simp add: op_wf_def stops_digits_def)
  show ?thesis using 1 2 r op t by (simp add: scan_op_def op_wf_def)
qed

lemma Op_String_nonempty [simp]: "Op_String op' \<noteq> []"
  by (simp add: Op_String_def)

lemma DeserializeOps_Some:
  assumes "scan_op s = Some (a, l, c, n, r)"
  shows "DeserializeOps s = bind_result (DeserializeOps r)
     (\<lambda>ops. Inr (\<lparr>OpCode = c, Chars = ParseNum_value n,
        Lines = ParseNum_value (if l \<noteq> [] then l else lit ''0''), Attribs = a\<rparr> # ops))"
  using assms by (cases s) (auto simp: scan_op_def scan_lines_def NewOp_def Let_def)

declare DeserializeOps.simps(2) [simp del]

lemma Op_eta [simp]:
  "\<lparr>OpCode = OpCode op', Chars = Chars op', Lines = Lines op', Attribs = Attribs op'\<rparr> = (op' :: Op)"
  by (cases op') simp

lemma ParseNum_value_0 [simp]: "ParseNum_value [48] = 0"
  by (simp add: ParseNum_value_def ParseNum_def ParseInt_def digit_val_def)

lemma DeserializeOps_Cons:
  assumes "op_wf op'" "stops_digits t"
  shows "DeserializeOps (Op_String op' @ t) = bind_result (DeserializeOps t) (\<lambda>ops. Inr (op' # ops))"
proof -
  let ?l = "if Lines op' = 0 then [] else NumToString (Lines op')"
  have l: "ParseNum_value (if ?l \<noteq> [] then ?l else lit ''0'') = Lines op'"
    and n: "ParseNum_value (NumToString (Chars op')) = Chars op'"
    using assms(1) by (simp_all add: op_wf_def ParseNum_value_NumToString)
  show ?thesis
    unfolding DeserializeOps_Some[OF scan_op_Op_String[OF assms]] l n by simp
qed

lemma DeserializeOps_print [codec_simps]:
  "list_all op_wf ops \<Longrightarrow> DeserializeOps (concat (map Op_String ops)) = Inr ops"
  by (induction ops) (simp_all add: DeserializeOps_Cons stops_digits_ops)

text \<open>The parser yields well-formed operations only, so printing them loses nothing.\<close>

lemma scan_op_wf:
  assumes "scan_op s = Some (a, l, c, n, r)"
  shows "attribs_wf a" "list_all alnum36 l" "c \<noteq> NoCode" "list_all alnum36 n"
proof -
  obtain s1 where 1: "scan_attribs s = (a, s1)"
    using assms by (auto simp: scan_op_def split: prod.splits list.splits option.splits if_splits)
  then show "attribs_wf a" by (rule scan_attribs_wf)
  obtain l' s2 where 2: "scan_lines s1 = (l', s2)" by fastforce
  with assms 1 have "l = l'" by (auto simp: scan_op_def split: list.splits option.splits if_splits)
  with 2 show "list_all alnum36 l" by (auto simp: scan_lines_def list_all_iff dest: set_takeWhileD split: if_splits)
  show "c \<noteq> NoCode" "list_all alnum36 n"
    using assms 1 2 by (auto simp: scan_op_def opcode_of_rune_def list_all_iff dest: set_takeWhileD
        split: list.splits option.splits if_splits)
qed

lemma DeserializeOps_wf: "DeserializeOps s = Inr ops \<Longrightarrow> list_all op_wf ops"
proof (induction s arbitrary: ops rule: DeserializeOps.induct)
  case (2 c s)
  show ?case
  proof (cases "scan_op (c # s)")
    case None
    with 2 show ?thesis by (auto simp: DeserializeOps.simps(2) split: if_splits)
  next
    case (Some m)
    obtain a l code n r where m: "m = (a, l, code, n, r)" by (cases m) auto
    note wf = scan_op_wf[OF Some[unfolded m]]
    from 2(4) obtain ops' where rest: "DeserializeOps r = Inr ops'"
      and ops: "ops = \<lparr>OpCode = code, Chars = ParseNum_value n,
        Lines = ParseNum_value (if l \<noteq> [] then l else lit ''0''), Attribs = a\<rparr> # ops'"
      by (auto simp: DeserializeOps_Some[OF Some[unfolded m]] bind_result_Inr_iff)
    have "list_all op_wf ops'"
      by (rule 2(3)[OF Some]) (use m rest in auto)
    then show ?thesis
      using wf ParseNum_value_bounds[OF wf(4)] ParseNum_value_bounds[OF wf(2)]
      by (simp add: ops op_wf_def[of "Op.make _ _ _ _"] Op.make_def) (simp add: op_wf_def)
  qed
qed simp

text \<open>A parsed string and the print of its operations parse alike.\<close>

lemma DeserializeOps_normal:
  "DeserializeOps s = Inr ops \<Longrightarrow> DeserializeOps (concat (map Op_String ops)) = Inr ops"
  by (simp add: DeserializeOps_print DeserializeOps_wf)

subsection \<open>The envelope\<close>

definition fits :: "int \<Rightarrow> bool" where
  "fits n \<longleftrightarrow> 0 \<le> n \<and> n < 2 ^ 63"

lemma fitsD [dest]: "fits n \<Longrightarrow> 0 \<le> n"
  by (simp add: fits_def)

definition sign_rune :: "int \<Rightarrow> rune" where
  "sign_rune d = (if d \<ge> 0 then 62 else 60)"

lemma Pack_eq:
  "Pack o' n' ops bank =
     lit ''Z:'' @ NumToString o' @ sign_rune (n' - o') # NumToString \<bar>n' - o'\<bar> @ ops @ 36 # bank"
  by (simp add: Pack_def sign_rune_def Let_def abs_if)

lemma NumToString_alnum_set: "0 \<le> n \<Longrightarrow> r \<in> set (NumToString n) \<Longrightarrow> alnum36 r"
  using NumToString_alnum[of n] by (auto simp: list_all_iff)

lemma scan_header_Pack:
  assumes "0 \<le> o'" "stops_digits ops"
  shows "scan_header (Pack o' n' ops bank) =
     Some (lit ''Z:'' @ NumToString o' @ [sign_rune (n' - o')] @ NumToString \<bar>n' - o'\<bar>,
           NumToString o', [sign_rune (n' - o')], NumToString \<bar>n' - o'\<bar>)"
proof -
  let ?rest = "ops @ 36 # bank"
  let ?t = "sign_rune (n' - o') # NumToString \<bar>n' - o'\<bar> @ ?rest"
  have "stops_digits ?t" "stops_digits ?rest"
    using assms(2) by (cases ops; auto simp: stops_digits_def sign_rune_def alnum36_def)+
  then have d1: "takeWhile alnum36 (NumToString o' @ ?t) = NumToString o'"
    and t1: "dropWhile alnum36 (NumToString o' @ ?t) = ?t"
    and d2: "takeWhile alnum36 (NumToString \<bar>n' - o'\<bar> @ ?rest) = NumToString \<bar>n' - o'\<bar>"
    using assms(1) by simp_all
  have t: "drop 2 (Pack o' n' ops bank) = NumToString o' @ ?t"
    and pre: "has_prefix (Pack o' n' ops bank) (lit ''Z:'')"
    by (simp_all add: Pack_eq has_prefix_def numeral_2_eq_2)
  show ?thesis
    unfolding scan_header_def t Let_def d1 t1 list.sel d2 using pre by (simp add: sign_rune_def)
qed

lemma RuneIndex_Pack:
  assumes "0 \<le> o'" "36 \<notin> set ops"
  shows "RuneIndex (Pack o' n' ops bank) [36] =
     RuneCount (lit ''Z:'' @ NumToString o' @ [sign_rune (n' - o')] @ NumToString \<bar>n' - o'\<bar>) + RuneCount ops"
proof -
  let ?pre = "lit ''Z:'' @ NumToString o' @ sign_rune (n' - o') # NumToString \<bar>n' - o'\<bar> @ ops"
  have "36 \<notin> set ?pre"
    using assms NumToString_alnum_set[of o' 36] NumToString_alnum_set[of "\<bar>n' - o'\<bar>" 36]
    by (auto simp: sign_rune_def alnum36_def)
  then show ?thesis
    using RuneIndex_append[of 36 ?pre bank] by (simp add: Pack_eq RuneCount_def)
qed

lemma RuneSlice_middle: "RuneSlice (h @ x @ t) (RuneCount h) (RuneCount h + RuneCount x) = x"
  by (simp add: RuneSlice_eq RuneCount_def)

lemma RuneSlice_last: "RuneSlice (h @ t) (RuneCount h) (RuneCount (h @ t)) = t"
  by (simp add: RuneSlice_eq RuneCount_def)

lemma Unpack_Pack [codec_simps]:
  assumes o': "fits o'" and d: "\<bar>n' - o'\<bar> < 2 ^ 63" and ops: "stops_digits ops" "36 \<notin> set ops"
  shows "Unpack (Pack o' n' ops bank) =
     Inr \<lparr>OldLen = o', NewLen = n', Ops = ops, CharBank = bank\<rparr>"
proof -
  define h where "h = lit ''Z:'' @ NumToString o' @ [sign_rune (n' - o')] @ NumToString \<bar>n' - o'\<bar>"
  let ?cs = "Pack o' n' ops bank"
  have cs: "?cs = h @ ops @ 36 # bank" by (simp add: Pack_eq h_def)
  have idx: "RuneIndex ?cs (lit ''$'') = RuneCount h + RuneCount ops"
    using RuneIndex_Pack[of o' ops n' bank] o' ops(2) by (simp add: h_def fitsD)
  have 1: "RuneSlice ?cs (RuneCount h) (RuneCount h + RuneCount ops) = ops"
    unfolding cs by (rule RuneSlice_middle)
  have 2: "RuneSlice ?cs (RuneCount h + RuneCount ops + 1) (RuneCount ?cs) = bank"
    using RuneSlice_last[of "h @ ops @ [36]" bank] by (simp add: cs RuneCount_def ac_simps)
  have f: "find_header ?cs = Some (h, NumToString o', [sign_rune (n' - o')], NumToString \<bar>n' - o'\<bar>)"
    using scan_header_Pack[of o' ops n' bank] o' ops(1) by (simp add: find_header_def h_def fitsD)
  have n: "ParseNum_value (NumToString o') = o'" "ParseNum_value (NumToString \<bar>n' - o'\<bar>) = \<bar>n' - o'\<bar>"
    using o' d by (simp_all add: fits_def ParseNum_value_NumToString)
  have nonneg: "\<not> RuneCount h + RuneCount ops < 0" by (simp add: linorder_not_less)
  show ?thesis
    unfolding Unpack_def f option.case prod.case Let_def n idx if_not_P[OF nonneg] 1 2
    by (simp add: sign_rune_def)
qed

lemma Unpack_total: "\<exists>u. Unpack cs = Inr u"
  by (auto simp: Unpack_def find_header_def Let_def split: option.splits)

lemma OldLen_nonneg:
  assumes "Unpack cs = Inr u" shows "fits (OldLen u)"
proof -
  obtain h a g m where f: "find_header cs = Some (h, a, g, m)"
    by (cases "find_header cs") (auto simp: find_header_def split: option.splits)
  then have "list_all alnum36 a"
    by (auto simp: find_header_def scan_header_def Let_def list_all_iff dest: set_takeWhileD
        split: option.splits if_splits)
  with assms f ParseNum_value_bounds[of a] show ?thesis
    by (auto simp: Unpack_def Let_def fits_def)
qed

text \<open>Printed operations contain no \<^verbatim>\<open>$\<close>, so they survive the envelope.\<close>

lemma attribs_wf_set: "attribs_wf a \<Longrightarrow> r \<in> set a \<Longrightarrow> r = 42 \<or> alnum36 r"
  by (induction a rule: attribs_wf_induct) (auto simp: list_all_iff)

lemma Op_String_no_dollar: "op_wf op' \<Longrightarrow> 36 \<notin> set (Op_String op')"
  using attribs_wf_set[of "Attribs op'" 36] NumToString_alnum_set[of _ 36]
  by (cases "OpCode op'") (auto simp: op_wf_def Op_String_def Let_def opcode_string_def alnum36_def)

lemma ops_no_dollar: "list_all op_wf ops \<Longrightarrow> 36 \<notin> set (concat (map Op_String ops))"
  by (auto simp: list_all_iff Op_String_no_dollar)

lemma Unpack_Pack_ops:
  "fits o' \<Longrightarrow> \<bar>n' - o'\<bar> < 2 ^ 63 \<Longrightarrow> list_all op_wf ops \<Longrightarrow>
   Unpack (Pack o' n' (concat (map Op_String ops)) bank) =
     Inr \<lparr>OldLen = o', NewLen = n', Ops = concat (map Op_String ops), CharBank = bank\<rparr>"
  by (rule Unpack_Pack[OF _ _ stops_digits_ops ops_no_dollar])

lemma copyOp_same [simp]: "copyOp op1 op2 = op1"
  by (simp add: copyOp_def)

end
