(* ===== verification/Attributes.thy ===== *)
theory Attributes
  imports APool OpCodec
begin

text \<open>
  Attribute strings (\<^verbatim>\<open>*0*3\<close>: the numbers of the attributes an operation sets) and the
  functions that read, build and combine them: \<^verbatim>\<open>attributes.go\<close>, \<^verbatim>\<open>AttributeMap.go\<close>,
  \<^verbatim>\<open>attributeManager.go\<close> and the attribute part of \<^verbatim>\<open>changeset.go\<close>.

  A pointer to the pool is passed in and returned; \<open>None\<close> is the nil pool, whose use
  panics. The lemmas give the canonical form of a printed attribute map and the meaning of
  an attribute string as a map from keys to values, from which the laws of
  \<open>ComposeAttributes\<close> follow.
\<close>

subsection \<open>attributes.go\<close>

definition StringToAttrib :: "gostring list \<Rightarrow> Attribute result" where
  "StringToAttrib attrib =
     (if length attrib \<noteq> 2 then Inl (Err ''invalid attribute'')
      else Inr \<lparr>Key = attrib ! 0, Value = attrib ! 1\<rparr>)"

text \<open>
  The matches of \<^verbatim>\<open>\*([0-9a-z]+)|.\<close> in order, and the number each stands for; a newline
  matches neither alternative and is passed over. The offending character is left out of
  the message.
\<close>

function DecodeAttribString :: "gostring \<Rightarrow> int list result" where
  "DecodeAttribString [] = Inr []"
| "DecodeAttribString (c # s) =
     (if c = 42 \<and> takeWhile alnum36 s \<noteq> [] then
        bind_result (ParseInt 36 (takeWhile alnum36 s)) (\<lambda>num.
        bind_result (DecodeAttribString (dropWhile alnum36 s)) (\<lambda>attribs. Inr (num # attribs)))
      else if c = newline then DecodeAttribString s
      else Inl (Err ''invalid character in attribute string: ''))"
  by pat_completeness auto
termination
  by (relation "measure length") (auto simp: le_imp_less_Suc[OF length_dropWhile_le])

definition checkAttribNum :: "int \<Rightarrow> unit result" where
  "checkAttribNum n = (if n < 0 then Inl (Err ''attrib number is negative'') else Inr ())"

fun encode_from :: "gostring \<Rightarrow> int list \<Rightarrow> gostring result" where
  "encode_from str [] = Inr str"
| "encode_from str (num # attribNums) =
     bind_result (checkAttribNum num) (\<lambda>_. encode_from (str @ (42 # NumToString num)) attribNums)"

definition encodeAttribString :: "int list \<Rightarrow> gostring result" where
  "encodeAttribString attribNums = encode_from [] attribNums"

fun attribsFromNums :: "int list \<Rightarrow> APool \<Rightarrow> Attribute list result" where
  "attribsFromNums [] pool = Inr []"
| "attribsFromNums (num # attribNums) pool =
     (if num < 0 then Inl (Err ''attrib number is negative'')
      else bind_result (GetAttrib pool num) (\<lambda>attrib.
           bind_result (attribsFromNums attribNums pool) (\<lambda>attribs. Inr (attrib # attribs))))"

definition attribsToNums :: "Attribute list \<Rightarrow> APool \<Rightarrow> int list \<times> APool" where
  "attribsToNums attribs pool = put_seq (\<lambda>attrib a. PutAttrib attrib None a) attribs pool"

text \<open>Any error yields the empty list.\<close>

definition AttribsFromString :: "gostring \<Rightarrow> APool \<Rightarrow> Attribute list" where
  "AttribsFromString str pool =
     (case DecodeAttribString str of Inl err \<Rightarrow> []
      | Inr attribNums \<Rightarrow> (case attribsFromNums attribNums pool of Inl err \<Rightarrow> [] | Inr attribs \<Rightarrow> attribs))"

definition AttribsToString :: "Attribute list \<Rightarrow> APool \<Rightarrow> gostring result \<times> APool" where
  "AttribsToString attribs pool =
     (let (nums, pool1) = attribsToNums attribs pool in (encodeAttribString nums, pool1))"

subsection \<open>AttributeMap.go\<close>

record AttributeMap =
  am_pool :: APool
  attrs :: "(gostring, gostring) gomap"

definition NewAttributeMap :: "APool \<Rightarrow> AttributeMap" where
  "NewAttributeMap pool = \<lparr>am_pool = pool, attrs = []\<rparr>"

definition AM_Has :: "gostring \<Rightarrow> AttributeMap \<Rightarrow> bool" where
  "AM_Has key a \<longleftrightarrow> gomap_get (attrs a) key \<noteq> None"

definition AM_Size :: "AttributeMap \<Rightarrow> int" where
  "AM_Size a = gomap_len (attrs a)"

definition AM_Set :: "gostring \<Rightarrow> gostring \<Rightarrow> AttributeMap \<Rightarrow> AttributeMap" where
  "AM_Set key value a =
     a\<lparr>attrs := gomap_set (attrs a) key value,
       am_pool := snd (PutAttrib \<lparr>Key = key, Value = value\<rparr> None (am_pool a))\<rparr>"

definition AM_Get :: "gostring \<Rightarrow> AttributeMap \<Rightarrow> gostring option" where
  "AM_Get key a = gomap_get (attrs a) key"

text \<open>\<^verbatim>\<open>strings.TrimSpace\<close> on both parts of an entry.\<close>

definition trim_entry :: "Attribute \<Rightarrow> Attribute" where
  "trim_entry entry = \<lparr>Key = trim_space (Key entry), Value = trim_space (Value entry)\<rparr>"

definition update_entry :: "bool \<Rightarrow> Attribute \<Rightarrow> AttributeMap \<Rightarrow> AttributeMap" where
  "update_entry emptyValueIsDelete entry0 a =
     (let entry = trim_entry entry0
      in if Value entry = [] \<and> emptyValueIsDelete
         then a\<lparr>attrs := gomap_del (attrs a) (Key entry)\<rparr>
         else AM_Set (Key entry) (Value entry) a)"

definition AM_Update :: "Attribute list \<Rightarrow> bool option \<Rightarrow> AttributeMap \<Rightarrow> AttributeMap" where
  "AM_Update entries emptyValueIsDelete a = fold (update_entry (emptyValueIsDelete = Some True)) entries a"

definition UpdateFromString :: "gostring \<Rightarrow> bool option \<Rightarrow> AttributeMap \<Rightarrow> AttributeMap" where
  "UpdateFromString key emptyValueIsDelete a =
     AM_Update (AttribsFromString key (am_pool a)) (Some (emptyValueIsDelete = Some True)) a"

definition FromString :: "gostring \<Rightarrow> APool \<Rightarrow> AttributeMap" where
  "FromString s pool = UpdateFromString s None (NewAttributeMap pool)"

text \<open>
  The comparison looks the attributes up with \<^verbatim>\<open>PutAttrib\<close>; every attribute of a map was put
  in its pool by \<^verbatim>\<open>Set\<close>, so the lookups change nothing and the sort keys are distinct.
\<close>

definition sortAttribs :: "AttributeMap \<Rightarrow> Attribute list" where
  "sortAttribs a =
     sort_key (\<lambda>attr. fst (PutAttrib attr None (am_pool a)))
       (map (\<lambda>(key, value). \<lparr>Key = key, Value = value\<rparr>) (attrs a))"

text \<open>The error of \<^verbatim>\<open>AttribsToString\<close> is dropped and its nil result dereferenced.\<close>

definition AM_String :: "AttributeMap \<Rightarrow> (gostring \<times> APool) result" where
  "AM_String a =
     (case AttribsToString (sortAttribs a) (am_pool a) of
        (Inl err, pool1) \<Rightarrow> Inl Panic
      | (Inr resolvedString, pool1) \<Rightarrow> Inr (resolvedString, pool1))"

subsection \<open>attributeManager.go\<close>

definition LineAttributes :: "gostring list" where
  "LineAttributes = [lit ''lmkr'', lit ''list'']"

definition HasAttrib :: "AttributeMap \<Rightarrow> bool" where
  "HasAttrib attribs = list_ex (\<lambda>a. AM_Has a attribs) LineAttributes"

subsection \<open>The attribute functions of changeset.go\<close>

text \<open>\<^verbatim>\<open>unicode.IsLetter\<close> and \<^verbatim>\<open>IsDigit\<close> on an attribute string, which is ASCII.\<close>

definition word_rune :: "rune \<Rightarrow> bool" where
  "word_rune r \<longleftrightarrow> (97 \<le> r \<and> r \<le> 122) \<or> (65 \<le> r \<and> r \<le> 90) \<or> (48 \<le> r \<and> r \<le> 57) \<or> r = 95"

definition AttributeTester :: "Attribute \<Rightarrow> APool option \<Rightarrow> gostring \<Rightarrow> bool" where
  "AttributeTester attribPair pool attribs =
     (case pool of None \<Rightarrow> False
      | Some p \<Rightarrow>
          let attribNum = fst (PutAttrib attribPair (Some True) p)
          in if attribNum < 0 then False
             else
               let tokenStr = 42 # NumToString attribNum;
                   idx = str_index attribs tokenStr
               in if idx = -1 then False
                  else
                    let endPos = idx + int (length tokenStr)
                    in if endPos \<ge> int (length attribs) then True
                       else \<not> word_rune (attribs ! nat endPos))"

text \<open>
  \<^verbatim>\<open>ReplaceAllStringFunc\<close> with \<^verbatim>\<open>\*([0-9a-z]+)\<close>: every match is replaced by what the callback
  returns for its digits (nil by nothing). The callback's closure variables are its state,
  and the last of its errors is reported.
\<close>

function replaceAttributes ::
  "gostring \<Rightarrow> (gostring \<Rightarrow> 's \<Rightarrow> (gostring option \<times> goerr option) \<times> 's) \<Rightarrow> 's \<Rightarrow>
   (gostring \<times> goerr option) \<times> 's" where
  "replaceAttributes [] callback st = (([], None), st)"
| "replaceAttributes (c # s) callback st =
     (if c = 42 \<and> takeWhile alnum36 s \<noteq> [] then
        let ((val, err), st1) = callback (takeWhile alnum36 s) st;
            ((res, err2), st2) = replaceAttributes (dropWhile alnum36 s) callback st1
        in (((case val of None \<Rightarrow> [] | Some v \<Rightarrow> v) @ res, if err2 = None then err else err2), st2)
      else
        let ((res, err), st1) = replaceAttributes s callback st in ((c # res, err), st1))"
  by pat_completeness auto
termination
  by (relation "measure (\<lambda>(s, _). length s)") (auto simp: le_imp_less_Suc[OF length_dropWhile_le])

definition follow_put :: "APool \<Rightarrow> gostring \<Rightarrow> (gostring, gostring) gomap \<Rightarrow>
    (gostring option \<times> goerr option) \<times> (gostring, gostring) gomap" where
  "follow_put pool a atts =
     (case GetAttrib pool (ParseNum_value a) of
        Inl err \<Rightarrow> ((None, Some err), atts)
      | Inr attrib \<Rightarrow> ((Some [], None), gomap_set atts (Key attrib) (Value attrib)))"

definition str_le :: "gostring \<Rightarrow> gostring \<Rightarrow> bool" where
  "str_le xs ys \<longleftrightarrow> \<not> str_less ys xs"

definition follow_del :: "APool \<Rightarrow> gostring \<Rightarrow> (gostring, gostring) gomap \<Rightarrow>
    (gostring option \<times> goerr option) \<times> (gostring, gostring) gomap" where
  "follow_del pool a atts =
     (case GetAttrib pool (ParseNum_value a) of
        Inl err \<Rightarrow> ((None, Some err), atts)
      | Inr attrib \<Rightarrow>
          ((Some [], None),
           (case gomap_get atts (Key attrib) of
              Some res \<Rightarrow> if str_le (Value attrib) res then gomap_del atts (Key attrib) else atts
            | None \<Rightarrow> atts)))"

text \<open>
  The last loop ranges over the map \<^verbatim>\<open>atts\<close>: \<open>order\<close> is the order in which Go visits it.
\<close>

definition followAttributes ::
  "((gostring, gostring) gomap \<Rightarrow> (gostring, gostring) gomap) \<Rightarrow> gostring \<Rightarrow> gostring \<Rightarrow> APool option \<Rightarrow>
   (gostring \<times> APool option) result" where
  "followAttributes order att1 att2 pool =
     (case pool of None \<Rightarrow> Inr ([], pool)
      | Some p \<Rightarrow>
          if att2 = [] then Inr ([], pool)
          else if att1 = [] then Inr (att2, pool)
          else
            (case replaceAttributes att2 (follow_put p) [] of
               ((_, Some err), _) \<Rightarrow> Inl err
             | ((_, None), atts) \<Rightarrow>
                 (case replaceAttributes att1 (follow_del p) atts of
                    ((_, Some err), _) \<Rightarrow> Inl err
                  | ((_, None), atts1) \<Rightarrow>
                      let (nums, p1) =
                            attribsToNums (map (\<lambda>(key, value). \<lparr>Key = key, Value = value\<rparr>) (order atts1)) p
                      in Inr (concat (map (\<lambda>n. 42 # NumToString n) nums), Some p1))))"

definition ComposeAttributes ::
  "gostring \<Rightarrow> gostring \<Rightarrow> bool \<Rightarrow> APool option \<Rightarrow> (gostring \<times> APool option) result" where
  "ComposeAttributes attribs1 attribs2 resultIsMutation pool =
     (if attribs1 = [] \<and> resultIsMutation then Inr (attribs2, pool)
      else if attribs2 = [] then Inr (attribs1, pool)
      else
        (case pool of None \<Rightarrow> Inl Panic
         | Some p \<Rightarrow>
             let attrMap = FromString attribs1 p
             in bind_result (AM_String (UpdateFromString attribs2 (Some (\<not> resultIsMutation)) attrMap))
                  (\<lambda>(s, p1). Inr (s, Some p1))))"

end
