(* ===== verification/OpSemantics.thy ===== *)
theory OpSemantics
  imports OpCodec
begin

text \<open>
  What a sequence of operations does to a text: the abstract specification against which
  the assemblers, \<^verbatim>\<open>ApplyToText\<close>, \<^verbatim>\<open>MakeSplice\<close> and \<^verbatim>\<open>Compose\<close> are proved.

  \<open>runs n ops bank text out bank' text'\<close>: the operations take their insertions from the
  front of the bank and their kept and deleted characters from the front of the text, write
  \<open>out\<close>, and leave \<open>bank'\<close> and \<open>text'\<close>. An operation applies to a piece of
  exactly its length whose newlines are as many as its line count says.
\<close>

definition spans :: "bool \<Rightarrow> Op \<Rightarrow> gostring \<Rightarrow> bool" where
  "spans n op' x \<longleftrightarrow> RuneCount x = Chars op' \<and> CountLines x newline = Lines op' \<and>
     (n \<and> Lines op' \<noteq> 0 \<longrightarrow> x \<noteq> [] \<and> last x = newline)"

inductive runs :: "bool \<Rightarrow> Op list \<Rightarrow> gostring \<Rightarrow> gostring \<Rightarrow> gostring \<Rightarrow> gostring \<Rightarrow> gostring \<Rightarrow> bool" for n where
  runs_Nil: "runs n [] b t [] b t"
| runs_Plus: "OpCode op' = Plus \<Longrightarrow> spans n op' x \<Longrightarrow> runs n ops b t out b' t' \<Longrightarrow>
     runs n (op' # ops) (x @ b) t (x @ out) b' t'"
| runs_Minus: "OpCode op' = Minus \<Longrightarrow> spans n op' x \<Longrightarrow> runs n ops b t out b' t' \<Longrightarrow>
     runs n (op' # ops) b (x @ t) out b' t'"
| runs_Keep: "OpCode op' = Keep \<Longrightarrow> spans n op' x \<Longrightarrow> runs n ops b t out b' t' \<Longrightarrow>
     runs n (op' # ops) b (x @ t) (x @ out) b' t'"

inductive_simps runs_Nil_iff [simp]: "runs n [] b t out b' t'"
inductive_simps runs_Cons_iff: "runs n (op' # ops) b t out b' t'"

lemma runs_Cons_PlusE:
  assumes "runs n (op' # ops) b t out b' t'" "OpCode op' = Plus"
  obtains x b1 out1 where "spans n op' x" "b = x @ b1" "out = x @ out1" "runs n ops b1 t out1 b' t'"
  using assms by (auto simp: runs_Cons_iff)

lemma runs_Cons_MinusE:
  assumes "runs n (op' # ops) b t out b' t'" "OpCode op' = Minus"
  obtains x t1 where "spans n op' x" "t = x @ t1" "runs n ops b t1 out b' t'"
  using assms by (auto simp: runs_Cons_iff)

lemma runs_Cons_KeepE:
  assumes "runs n (op' # ops) b t out b' t'" "OpCode op' = Keep"
  obtains x t1 out1 where "spans n op' x" "t = x @ t1" "out = x @ out1" "runs n ops b t1 out1 b' t'"
  using assms by (auto simp: runs_Cons_iff)

text \<open>The three rules as equations, once the code of the first operation is known.\<close>

lemma runs_Cons_code:
  "OpCode op' = Plus \<Longrightarrow> runs n (op' # ops) b t out b' t' \<longleftrightarrow>
     (\<exists>x b1 o1. spans n op' x \<and> b = x @ b1 \<and> out = x @ o1 \<and> runs n ops b1 t o1 b' t')"
  "OpCode op' = Minus \<Longrightarrow> runs n (op' # ops) b t out b' t' \<longleftrightarrow>
     (\<exists>x t1. spans n op' x \<and> t = x @ t1 \<and> runs n ops b t1 out b' t')"
  "OpCode op' = Keep \<Longrightarrow> runs n (op' # ops) b t out b' t' \<longleftrightarrow>
     (\<exists>x t1 o1. spans n op' x \<and> t = x @ t1 \<and> out = x @ o1 \<and> runs n ops b t1 o1 b' t')"
  "OpCode op' = NoCode \<Longrightarrow> \<not> runs n (op' # ops) b t out b' t'"
  by (auto simp: runs_Cons_iff)

lemma runs_append:
  "runs n (xs @ ys) b t out b' t' \<longleftrightarrow>
     (\<exists>o1 o2 b1 t1. runs n xs b t o1 b1 t1 \<and> runs n ys b1 t1 o2 b' t' \<and> out = o1 @ o2)"
proof (induction xs arbitrary: b t out)
  case (Cons op' xs)
  show ?case
  proof (cases "OpCode op'")
    case Plus
    show ?thesis by (simp add: runs_Cons_code(1)[OF Plus] Cons.IH) (metis append_assoc)
  next
    case Minus
    show ?thesis by (simp add: runs_Cons_code(2)[OF Minus] Cons.IH) metis
  next
    case Keep
    show ?thesis by (simp add: runs_Cons_code(3)[OF Keep] Cons.IH) (metis append_assoc)
  qed (simp add: runs_Cons_code)
qed simp

lemma runs_appendI:
  "runs n xs b t o1 b1 t1 \<Longrightarrow> runs n ys b1 t1 o2 b' t' \<Longrightarrow> runs n (xs @ ys) b t (o1 @ o2) b' t'"
  by (auto simp: runs_append)

text \<open>The whole effect on a text: what is left of it is kept.\<close>

definition applies :: "bool \<Rightarrow> Op list \<Rightarrow> gostring \<Rightarrow> gostring \<Rightarrow> gostring \<Rightarrow> gostring \<Rightarrow> bool" where
  "applies n ops bank bank' doc res \<longleftrightarrow> (\<exists>out rest. runs n ops bank doc out bank' rest \<and> res = out @ rest)"

lemma runs_weaken: "runs n ops b t out b' t' \<Longrightarrow> runs False ops b t out b' t'"
  by (induction rule: runs.induct) (auto intro: runs.intros simp: spans_def)

lemma applies_weaken: "applies n ops b b' t r \<Longrightarrow> applies False ops b b' t r"
  by (auto simp: applies_def dest: runs_weaken)

subsection \<open>Determinism and lengths\<close>

lemma spans_unique: "spans n op' x \<Longrightarrow> spans n op' y \<Longrightarrow> x @ u = y @ v \<Longrightarrow> x = y \<and> u = v"
  by (simp add: spans_def RuneCount_def append_eq_append_conv)

lemma runs_deterministic:
  "runs n ops b t out b' t' \<Longrightarrow> runs n ops b t out2 b2 t2 \<Longrightarrow> out = out2 \<and> b' = b2 \<and> t' = t2"
proof (induction arbitrary: out2 rule: runs.induct)
  case (runs_Plus op' x ops b t out b' t')
  from runs_Plus.prems runs_Plus.hyps(1) obtain y b1 o1 where
    "spans n op' y" "x @ b = y @ b1" "out2 = y @ o1" "runs n ops b1 t o1 b2 t2"
    by (rule runs_Cons_PlusE)
  with spans_unique[of n op' x y b b1] runs_Plus.hyps(2) runs_Plus.IH[of o1] show ?case by simp
next
  case (runs_Minus op' x ops b t out b' t')
  from runs_Minus.prems runs_Minus.hyps(1) obtain y t1 where
    "spans n op' y" "x @ t = y @ t1" "runs n ops b t1 out2 b2 t2"
    by (rule runs_Cons_MinusE)
  with spans_unique[of n op' x y t t1] runs_Minus.hyps(2) runs_Minus.IH[of out2] show ?case by simp
next
  case (runs_Keep op' x ops b t out b' t')
  from runs_Keep.prems runs_Keep.hyps(1) obtain y t1 o1 where
    "spans n op' y" "x @ t = y @ t1" "out2 = y @ o1" "runs n ops b t1 o1 b2 t2"
    by (rule runs_Cons_KeepE)
  with spans_unique[of n op' x y t t1] runs_Keep.hyps(2) runs_Keep.IH[of o1] show ?case by simp
qed simp

lemma applies_deterministic: "applies n ops b b' t r \<Longrightarrow> applies n ops b b' t r' \<Longrightarrow> r = r'"
  by (auto simp: applies_def dest: runs_deterministic)

text \<open>The characters an operation list takes from the text, writes, and takes from the bank.\<close>

definition old_chars :: "Op list \<Rightarrow> int" where
  "old_chars ops = sum_list (map Chars (filter (\<lambda>op'. OpCode op' \<in> {Minus, Keep}) ops))"

definition new_chars :: "Op list \<Rightarrow> int" where
  "new_chars ops = sum_list (map Chars (filter (\<lambda>op'. OpCode op' \<in> {Plus, Keep}) ops))"

definition bank_chars :: "Op list \<Rightarrow> int" where
  "bank_chars ops = sum_list (map Chars (filter (\<lambda>op'. OpCode op' = Plus) ops))"

lemma chars_simps [simp]:
  "old_chars [] = 0" "new_chars [] = 0" "bank_chars [] = 0"
  "old_chars (op' # ops) = (if OpCode op' \<in> {Minus, Keep} then Chars op' else 0) + old_chars ops"
  "new_chars (op' # ops) = (if OpCode op' \<in> {Plus, Keep} then Chars op' else 0) + new_chars ops"
  "bank_chars (op' # ops) = (if OpCode op' = Plus then Chars op' else 0) + bank_chars ops"
  by (simp_all add: old_chars_def new_chars_def bank_chars_def)

lemma chars_append [simp]:
  "old_chars (xs @ ys) = old_chars xs + old_chars ys"
  "new_chars (xs @ ys) = new_chars xs + new_chars ys"
  "bank_chars (xs @ ys) = bank_chars xs + bank_chars ys"
  by (simp_all add: old_chars_def new_chars_def bank_chars_def)

lemma runs_lengths:
  "runs n ops b t out b' t' \<Longrightarrow>
     RuneCount t = old_chars ops + RuneCount t' \<and> RuneCount out = new_chars ops \<and>
     RuneCount b = bank_chars ops + RuneCount b'"
  by (induction rule: runs.induct) (auto simp: spans_def)

lemma applies_length:
  "applies n ops b b' t r \<Longrightarrow> RuneCount r = RuneCount t - old_chars ops + new_chars ops"
  by (auto simp: applies_def dest!: runs_lengths)

lemma spans_nonneg: "spans n op' x \<Longrightarrow> 0 \<le> Lines op' \<and> Lines op' \<le> Chars op'"
  by (metis CountLines_le CountLines_nonneg spans_def)

lemma runs_ops_nonneg:
  "runs n ops b t out b' t' \<Longrightarrow> op' \<in> set ops \<Longrightarrow> OpCode op' \<noteq> NoCode \<and> 0 \<le> Lines op' \<and> Lines op' \<le> Chars op'"
  by (induction rule: runs.induct) (auto dest: spans_nonneg)

subsection \<open>Refinement of operation lists\<close>

text \<open>\<open>refines xs ys\<close>: wherever \<open>xs\<close> runs, \<open>ys\<close> runs n with the same effect.\<close>

definition refines :: "Op list \<Rightarrow> Op list \<Rightarrow> bool" where
  "refines xs ys \<longleftrightarrow> (\<forall>n b t out b' t'. runs n xs b t out b' t' \<longrightarrow> runs n ys b t out b' t')"

lemma refines_refl [simp]: "refines xs xs"
  by (simp add: refines_def)

lemma refines_trans [trans]: "refines xs ys \<Longrightarrow> refines ys zs \<Longrightarrow> refines xs zs"
  by (simp add: refines_def)

lemma refines_append: "refines xs xs' \<Longrightarrow> refines ys ys' \<Longrightarrow> refines (xs @ ys) (xs' @ ys')"
  unfolding refines_def runs_append by blast

lemma refines_Cons: "refines xs ys \<Longrightarrow> refines (op' # xs) (op' # ys)"
  using refines_append[of "[op']" "[op']" xs ys] by simp

lemma refines_applies: "refines xs ys \<Longrightarrow> applies n xs b b' t r \<Longrightarrow> applies n ys b b' t r"
  unfolding refines_def applies_def by blast

text \<open>Two neighbours with the same code act as one operation over both pieces.\<close>

definition joined :: "Op \<Rightarrow> Op \<Rightarrow> Op \<Rightarrow> bool" where
  "joined o1 o2 j \<longleftrightarrow> OpCode o1 = OpCode j \<and> OpCode o2 = OpCode j \<and>
     Chars j = Chars o1 + Chars o2 \<and> Lines j = Lines o1 + Lines o2 \<and>
     (0 < Lines o2 \<or> Lines o1 = 0)"

lemma spans_join: "joined o1 o2 j \<Longrightarrow> spans n o1 x \<Longrightarrow> spans n o2 y \<Longrightarrow> spans n j (x @ y)"
  by (auto simp: joined_def spans_def)

lemma refines_join:
  assumes j: "joined o1 o2 j" shows "refines [o1, o2] [j]"
  unfolding refines_def
proof (intro allI impI)
  fix n b t out b' t' assume r: "runs n [o1, o2] b t out b' t'"
  have code: "OpCode o1 = OpCode j" "OpCode o2 = OpCode j" using j by (simp_all add: joined_def)
  show "runs n [j] b t out b' t'"
  proof (cases "OpCode j")
    case NoCode
    with r code show ?thesis by (simp add: runs_Cons_iff)
  next
    case Plus
    with r code obtain x y where "spans n o1 x" "spans n o2 y" "b = x @ y @ b'" "out = x @ y" "t = t'"
      by (auto elim!: runs_Cons_PlusE)
    with Plus spans_join[OF j] runs.runs_Plus[of j n "x @ y" "[]" b' t' "[]" b' t'] show ?thesis by simp
  next
    case Minus
    with r code obtain x y where "spans n o1 x" "spans n o2 y" "t = x @ y @ t'" "out = []" "b = b'"
      by (auto elim!: runs_Cons_MinusE)
    with Minus spans_join[OF j] runs.runs_Minus[of j n "x @ y" "[]" b' t' "[]" b' t'] show ?thesis by simp
  next
    case Keep
    with r code obtain x y where "spans n o1 x" "spans n o2 y" "t = x @ y @ t'" "out = x @ y" "b = b'"
      by (auto elim!: runs_Cons_KeepE)
    with Keep spans_join[OF j] runs.runs_Keep[of j n "x @ y" "[]" b' t' "[]" b' t'] show ?thesis by simp
  qed
qed

text \<open>An operation on no characters does nothing.\<close>

lemma refines_empty:
  assumes "Chars op' \<le> 0" shows "refines [op'] []"
proof -
  have "spans n op' x \<Longrightarrow> x = []" for n x
    using assms RuneCount_nonneg[of x] by (auto simp: spans_def)
  then show ?thesis by (auto simp: refines_def runs_Cons_iff)
qed

text \<open>Insertions and deletions do not see each other.\<close>

lemma refines_plus_minus:
  assumes "OpCode p = Plus" "OpCode m = Minus" shows "refines [p, m] [m, p]"
  using assms by (auto simp: refines_def runs_Cons_code)

lemma refines_pluses_minus:
  "OpCode m = Minus \<Longrightarrow> list_all (\<lambda>p. OpCode p = Plus) ps \<Longrightarrow> refines (ps @ [m]) (m # ps)"
proof (induction ps)
  case (Cons p ps)
  then have "refines (p # ps @ [m]) ([p, m] @ ps)"
    using refines_Cons[of "ps @ [m]" "m # ps" p] by simp
  also have "refines ([p, m] @ ps) ([m, p] @ ps)"
    using Cons.prems by (intro refines_append refines_plus_minus) auto
  finally show ?case by simp
qed simp

text \<open>A last plain keep may be left implicit.\<close>

lemma applies_drop_keeps:
  assumes "list_all (\<lambda>k. OpCode k = Keep) ks" "applies n (ops @ ks) b b' t r"
  shows "applies n ops b b' t r"
proof -
  have "runs n ks b t out b' t' \<Longrightarrow> out @ t' = t \<and> b' = b" if "list_all (\<lambda>k. OpCode k = Keep) ks" for b t out b' t'
    using that by (induction ks arbitrary: t out) (auto elim!: runs_Cons_KeepE)
  with assms show ?thesis by (fastforce simp: applies_def runs_append)
qed

end
