(* ===== verification/Assemblers.thy ===== *)
theory Assemblers
  imports OpSemantics
begin

text \<open>
  The string iterator and the assemblers of \<^verbatim>\<open>lib/changeset\<close> (\<^verbatim>\<open>StringIterator.go\<close>,
  \<^verbatim>\<open>StringAssembler.go\<close>, \<^verbatim>\<open>OpAssembler.go\<close>, \<^verbatim>\<open>MergingOpAssembler.go\<close>, \<^verbatim>\<open>SmartOpAssembler.go\<close>,
  \<^verbatim>\<open>Iterator.go\<close>). A method that updates its receiver returns the new receiver; one that also
  returns a value returns the pair. What an assembler owes its clients is the locale
  \<open>op_assembler\<close>, interpreted on the three assemblers.
\<close>

subsection \<open>StringIterator.go\<close>

record StringIterator =
  curIndex :: int
  newLines :: int
  iter_str :: gostring

definition NewStringIterator :: "gostring \<Rightarrow> StringIterator" where
  "NewStringIterator str = \<lparr>curIndex = 0, newLines = CountLines str newline, iter_str = str\<rparr>"

definition Remaining :: "StringIterator \<Rightarrow> int" where
  "Remaining si = int (length (iter_str si)) - curIndex si"

definition AssertRemaining :: "StringIterator \<Rightarrow> int \<Rightarrow> unit result" where
  "AssertRemaining si n =
     (if n > Remaining si then Inl (Err ''not enough characters remaining'') else Inr ())"

text \<open>\<^verbatim>\<open>si.str[si.curIndex : si.curIndex+n]\<close>; a negative \<open>n\<close> makes the bounds invalid.\<close>

definition segment :: "StringIterator \<Rightarrow> int \<Rightarrow> gostring result" where
  "segment si n =
     (if n < 0 \<or> curIndex si < 0 then Inl Panic
      else Inr (take (nat n) (drop (nat (curIndex si)) (iter_str si))))"

definition Take :: "StringIterator \<Rightarrow> int \<Rightarrow> (gostring \<times> StringIterator) result" where
  "Take si n =
     bind_result (AssertRemaining si n) (\<lambda>_.
     bind_result (segment si n) (\<lambda>s.
       Inr (s, si\<lparr>newLines := newLines si - CountLines s newline, curIndex := curIndex si + n\<rparr>)))"

definition Peek :: "StringIterator \<Rightarrow> int \<Rightarrow> gostring result" where
  "Peek si n =
     bind_result (AssertRemaining si n) (\<lambda>_.
     bind_result (segment si n) (\<lambda>peekStr. Inr peekStr))"

definition Skip :: "StringIterator \<Rightarrow> int \<Rightarrow> StringIterator result" where
  "Skip si n = bind_result (AssertRemaining si n) (\<lambda>_. Inr (si\<lparr>curIndex := curIndex si + n\<rparr>))"

subsection \<open>StringAssembler.go and OpAssembler.go\<close>

record StringAssembler =
  sa_str :: gostring

definition NewStringAssembler :: StringAssembler where
  "NewStringAssembler = \<lparr>sa_str = []\<rparr>"

definition SA_Append :: "gostring \<Rightarrow> StringAssembler \<Rightarrow> StringAssembler" where
  "SA_Append s sa = sa\<lparr>sa_str := sa_str sa @ s\<rparr>"

definition SA_String :: "StringAssembler \<Rightarrow> gostring" where
  "SA_String sa = sa_str sa"

definition SA_Clear :: "StringAssembler \<Rightarrow> StringAssembler" where
  "SA_Clear sa = sa\<lparr>sa_str := []\<rparr>"

record OpAssembler =
  serialized :: gostring

definition NewOpAssembler :: OpAssembler where
  "NewOpAssembler = \<lparr>serialized = []\<rparr>"

definition OA_Append :: "Op \<Rightarrow> OpAssembler \<Rightarrow> OpAssembler" where
  "OA_Append op' oa = oa\<lparr>serialized := serialized oa @ Op_String op'\<rparr>"

definition OA_String :: "OpAssembler \<Rightarrow> gostring" where
  "OA_String oa = serialized oa"

definition OA_Clear :: "OpAssembler \<Rightarrow> OpAssembler" where
  "OA_Clear oa = oa\<lparr>serialized := []\<rparr>"

subsection \<open>MergingOpAssembler.go\<close>

record MergingOpAssembler =
  assem :: OpAssembler
  bufOp :: Op
  bufOpAdditionalCharsAfterNewline :: int

definition NewMergingOpAssembler :: MergingOpAssembler where
  "NewMergingOpAssembler =
     \<lparr>assem = NewOpAssembler, bufOp = NewOp None, bufOpAdditionalCharsAfterNewline = 0\<rparr>"

definition MOA_flush :: "bool \<Rightarrow> MergingOpAssembler \<Rightarrow> MergingOpAssembler" where
  "MOA_flush isEndDocument m =
     (if OpCode (bufOp m) = NoCode then m
      else
        let m1 =
              (if isEndDocument \<and> OpCode (bufOp m) = Keep \<and> Attribs (bufOp m) = [] then m
               else
                 let m2 = m\<lparr>assem := OA_Append (bufOp m) (assem m)\<rparr>
                 in if bufOpAdditionalCharsAfterNewline m2 \<noteq> 0
                    then
                      let b = (bufOp m2)\<lparr>Chars := bufOpAdditionalCharsAfterNewline m2, Lines := 0\<rparr>
                      in m2\<lparr>bufOp := b, assem := OA_Append b (assem m2),
                            bufOpAdditionalCharsAfterNewline := 0\<rparr>
                    else m2)
        in m1\<lparr>bufOp := (bufOp m1)\<lparr>OpCode := NoCode\<rparr>\<rparr>)"

definition MOA_Append :: "Op \<Rightarrow> MergingOpAssembler \<Rightarrow> MergingOpAssembler" where
  "MOA_Append op' m =
     (if Chars op' \<le> 0 then m
      else if OpCode (bufOp m) = OpCode op' \<and> Attribs (bufOp m) = Attribs op' then
        (if Lines op' > 0 then
           m\<lparr>bufOp := (bufOp m)\<lparr>Chars := Chars (bufOp m) + (bufOpAdditionalCharsAfterNewline m + Chars op'),
                              Lines := Lines (bufOp m) + Lines op'\<rparr>,
             bufOpAdditionalCharsAfterNewline := 0\<rparr>
         else if Lines (bufOp m) = 0 then
           m\<lparr>bufOp := (bufOp m)\<lparr>Chars := Chars (bufOp m) + Chars op'\<rparr>\<rparr>
         else
           m\<lparr>bufOpAdditionalCharsAfterNewline := bufOpAdditionalCharsAfterNewline m + Chars op'\<rparr>)
      else
        let m1 = MOA_flush False m
        in m1\<lparr>bufOp := copyOp op' (bufOp m1)\<rparr>)"

definition MOA_EndDocument :: "MergingOpAssembler \<Rightarrow> MergingOpAssembler" where
  "MOA_EndDocument m = MOA_flush True m"

definition MOA_String :: "MergingOpAssembler \<Rightarrow> gostring \<times> MergingOpAssembler" where
  "MOA_String m = (let m1 = MOA_flush False m in (OA_String (assem m1), m1))"

definition MOA_Clear :: "MergingOpAssembler \<Rightarrow> MergingOpAssembler" where
  "MOA_Clear m =
     m\<lparr>assem := OA_Clear (assem m), bufOp := clearOp (bufOp m), bufOpAdditionalCharsAfterNewline := 0\<rparr>"

subsection \<open>SmartOpAssembler.go\<close>

record SmartOpAssembler =
  minusAssem :: MergingOpAssembler
  plusAssem :: MergingOpAssembler
  keepAssem :: MergingOpAssembler
  smart_assem :: StringAssembler
  lastOpcode :: opcode
  lengthChange :: int

definition NewSmartOpAssembler :: SmartOpAssembler where
  "NewSmartOpAssembler =
     \<lparr>minusAssem = NewMergingOpAssembler, plusAssem = NewMergingOpAssembler,
      keepAssem = NewMergingOpAssembler, smart_assem = NewStringAssembler,
      lastOpcode = NoCode, lengthChange = 0\<rparr>"

definition FlushKeeps :: "SmartOpAssembler \<Rightarrow> SmartOpAssembler" where
  "FlushKeeps sm =
     (let (s, k) = MOA_String (keepAssem sm)
      in sm\<lparr>smart_assem := SA_Append s (smart_assem sm), keepAssem := MOA_Clear k\<rparr>)"

definition flushPlusMinus :: "SmartOpAssembler \<Rightarrow> SmartOpAssembler" where
  "flushPlusMinus sm =
     (let (s, m) = MOA_String (minusAssem sm);
          sm1 = sm\<lparr>smart_assem := SA_Append s (smart_assem sm), minusAssem := MOA_Clear m\<rparr>;
          (s2, p) = MOA_String (plusAssem sm1)
      in sm1\<lparr>smart_assem := SA_Append s2 (smart_assem sm1), plusAssem := MOA_Clear p\<rparr>)"

definition SOA_Append :: "Op \<Rightarrow> SmartOpAssembler \<Rightarrow> SmartOpAssembler" where
  "SOA_Append op' sm =
     (if OpCode op' = NoCode then sm
      else if Chars op' = 0 then sm
      else
        let sm1 =
              (if OpCode op' = Minus then
                 let sm0 = (if lastOpcode sm = Keep then FlushKeeps sm else sm)
                 in sm0\<lparr>minusAssem := MOA_Append op' (minusAssem sm0),
                        lengthChange := lengthChange sm0 - Chars op'\<rparr>
               else if OpCode op' = Plus then
                 let sm0 = (if lastOpcode sm = Keep then FlushKeeps sm else sm)
                 in sm0\<lparr>plusAssem := MOA_Append op' (plusAssem sm0),
                        lengthChange := lengthChange sm0 + Chars op'\<rparr>
               else if OpCode op' = Keep then
                 let sm0 = (if lastOpcode sm \<noteq> Keep then flushPlusMinus sm else sm)
                 in sm0\<lparr>keepAssem := MOA_Append op' (keepAssem sm0)\<rparr>
               else sm)
        in sm1\<lparr>lastOpcode := OpCode op'\<rparr>)"

definition SOA_String :: "SmartOpAssembler \<Rightarrow> gostring \<times> SmartOpAssembler" where
  "SOA_String sm = (let sm1 = FlushKeeps (flushPlusMinus sm) in (SA_String (smart_assem sm1), sm1))"

definition SOA_Clear :: "SmartOpAssembler \<Rightarrow> SmartOpAssembler" where
  "SOA_Clear sm =
     sm\<lparr>minusAssem := MOA_Clear (minusAssem sm), plusAssem := MOA_Clear (plusAssem sm),
        keepAssem := MOA_Clear (keepAssem sm), smart_assem := SA_Clear (smart_assem sm),
        lengthChange := 0\<rparr>"

definition SOA_EndDocument :: "SmartOpAssembler \<Rightarrow> SmartOpAssembler" where
  "SOA_EndDocument sm = sm\<lparr>keepAssem := MOA_EndDocument (keepAssem sm)\<rparr>"

definition LengthChange :: "SmartOpAssembler \<Rightarrow> int" where
  "LengthChange sm = lengthChange sm"

subsection \<open>Iterator.go\<close>

record Iterator =
  iter_ops :: "Op list"
  iter_next :: int

text \<open>The element, or nil with \<open>True\<close> at the end.\<close>

definition Next :: "Iterator \<Rightarrow> (Op option \<times> bool) \<times> Iterator" where
  "Next it =
     (if iter_next it \<ge> int (length (iter_ops it)) then ((None, True), it)
      else ((Some (iter_ops it ! nat (iter_next it)), False), it\<lparr>iter_next := iter_next it + 1\<rparr>))"

end
