(* ===== verification/Changesets.thy ===== *)
theory Changesets
  imports Attributes Assemblers
begin

text \<open>
  \<^verbatim>\<open>lib/changeset/changeset.go\<close>: building, checking and applying changesets, with the
  splitting of texts and attribution strings into lines, and the validation of
  \<^verbatim>\<open>validate.go\<close>. Loops over operation lists are recursive functions whose arguments are the
  loop's variables.
\<close>

subsection \<open>OpsFromText and OpsFromAText\<close>

record KeepArgs =
  stringAttribs :: "gostring option"
  apoolAttribs :: "Attribute list option"

text \<open>
  \<^verbatim>\<open>NewAttributeMap(pool).Update(entries, flag).String()\<close>: with a nil pool the first \<^verbatim>\<open>Set\<close> panics.
\<close>

definition update_string :: "Attribute list \<Rightarrow> bool option \<Rightarrow> APool option \<Rightarrow> (gostring \<times> APool option) result" where
  "update_string entries emptyValueIsDelete pool =
     (case pool of
        Some p \<Rightarrow>
          bind_result (AM_String (AM_Update entries emptyValueIsDelete (NewAttributeMap p)))
            (\<lambda>(s, p1). Inr (s, Some p1))
      | None \<Rightarrow>
          if list_all (\<lambda>e. Value (trim_entry e) = [] \<and> emptyValueIsDelete = Some True) entries
          then Inr ([], None) else Inl Panic)"

definition text_ops :: "opcode \<Rightarrow> gostring \<Rightarrow> gostring \<Rightarrow> Op list" where
  "text_ops opcode attribs text =
     (let op' = (NewOp (Some opcode))\<lparr>Attribs := attribs\<rparr>;
          lastNewLinePos = RuneLastIndex text [newline]
      in if lastNewLinePos < 0 then [op'\<lparr>Chars := RuneCount text, Lines := 0\<rparr>]
         else
           let op1 = op'\<lparr>Chars := lastNewLinePos + 1, Lines := CountLines text newline\<rparr>
           in [op1, op1\<lparr>Chars := RuneCount text - (lastNewLinePos + 1), Lines := 0\<rparr>])"

definition OpsFromText ::
  "opcode \<Rightarrow> gostring \<Rightarrow> KeepArgs option \<Rightarrow> APool option \<Rightarrow> (Op list \<times> APool option) result" where
  "OpsFromText opcode text attribs0 pool =
     (let attribs = (case attribs0 of None \<Rightarrow> \<lparr>stringAttribs = None, apoolAttribs = Some []\<rparr> | Some a \<Rightarrow> a)
      in bind_result
           (case stringAttribs attribs of
              Some s \<Rightarrow> Inr (s, pool)
            | None \<Rightarrow>
                (case apoolAttribs attribs of
                   Some entries \<Rightarrow> update_string entries (Some (opcode = Plus)) pool
                 | None \<Rightarrow> Inr ([], pool)))
           (\<lambda>(s, pool1). Inr (text_ops opcode s text, pool1)))"

text \<open>\<^verbatim>\<open>nil\<close> is \<open>None\<close>.\<close>

definition OpsFromAText :: "AText \<Rightarrow> Op list option" where
  "OpsFromAText atext =
     (case DeserializeOps (ATAttribs atext) of
        Inl err \<Rightarrow> None
      | Inr attribs \<Rightarrow>
          if attribs = [] then None
          else
            let opsToReturn = butlast attribs; lastOp = last attribs;
                (opsToReturn, lastOp) =
                  (if Lines lastOp \<le> 1 then (opsToReturn, lastOp\<lparr>Lines := 0, Chars := Chars lastOp - 1\<rparr>)
                   else
                     let lastNewlineIndex = RuneLastIndex (Text atext) [newline];
                         nextToLastNewlineEnd =
                           RuneLastIndex (RuneSlice (Text atext) 0 lastNewlineIndex) [newline] + 1;
                         lastLineLength = RuneCount (Text atext) - nextToLastNewlineEnd - 1;
                         op1 = lastOp\<lparr>Lines := Lines lastOp - 1, Chars := Chars lastOp - (lastLineLength + 1)\<rparr>
                     in (opsToReturn @ [op1], op1\<lparr>Lines := 0, Chars := lastLineLength\<rparr>))
            in Some (if Chars lastOp \<noteq> 0 then opsToReturn @ [lastOp] else opsToReturn))"

subsection \<open>MakeSplice\<close>

definition string_args :: "gostring \<Rightarrow> KeepArgs" where
  "string_args s = \<lparr>stringAttribs = Some s, apoolAttribs = None\<rparr>"

definition MakeSplice ::
  "gostring \<Rightarrow> int \<Rightarrow> int \<Rightarrow> gostring \<Rightarrow> gostring option \<Rightarrow> APool option \<Rightarrow> gostring result" where
  "MakeSplice orig start0 ndel0 ins attribs0 pool =
     (if start0 < 0 then Inl (Err ''start is negative'')
      else if ndel0 < 0 then Inl (Err ''ndel is negative'')
      else
        let start = (if start0 > RuneCount orig then RuneCount orig else start0);
            ndel = (if ndel0 > RuneCount orig - start then RuneCount orig - start else ndel0);
            deleted = RuneSlice orig start (start + ndel);
            attribs = (case attribs0 of None \<Rightarrow> [] | Some a \<Rightarrow> a)
        in bind_result (OpsFromText Keep (RuneSlice orig 0 start) (Some (string_args [])) None) (\<lambda>(equalOps, _).
           bind_result (OpsFromText Minus deleted (Some (string_args [])) None) (\<lambda>(deletedOps, _).
           bind_result (OpsFromText Plus ins (Some (string_args attribs)) pool) (\<lambda>(insertedOps, _).
             let opsGenerated = equalOps @ deletedOps @ insertedOps;
                 assem = SOA_EndDocument (fold SOA_Append opsGenerated NewSmartOpAssembler)
             in Inr (Pack (RuneCount orig) (RuneCount orig + RuneCount ins - ndel)
                       (fst (SOA_String assem)) ins)))))"

subsection \<open>ApplyToText\<close>

definition newlines_of :: "gostring \<Rightarrow> int" where
  "newlines_of s = int (length (str_split s newline)) - 1"

definition apply_op ::
  "Op \<Rightarrow> StringIterator \<times> StringIterator \<times> StringAssembler \<Rightarrow>
   (StringIterator \<times> StringIterator \<times> StringAssembler) result" where
  "apply_op op' = (\<lambda>(bankIter, strIter, assem).
     (case OpCode op' of
        Plus \<Rightarrow>
          bind_result (Peek bankIter (Chars op')) (\<lambda>peekedChars.
            if Lines op' \<noteq> newlines_of peekedChars
            then Inl (Err ''newline count is wrong in op +; cs:${cs} and text:${str}'')
            else bind_result (Take bankIter (Chars op')) (\<lambda>(takenAssem, bankIter1).
              Inr (bankIter1, strIter, SA_Append takenAssem assem)))
      | Minus \<Rightarrow>
          bind_result (Peek strIter (Chars op')) (\<lambda>peekedStr.
            if Lines op' \<noteq> newlines_of peekedStr
            then Inl (Err ''newline count is wrong in op -; cs:${cs} and text:${str}'')
            else bind_result (Skip strIter (Chars op')) (\<lambda>strIter1. Inr (bankIter, strIter1, assem)))
      | Keep \<Rightarrow>
          bind_result (Peek strIter (Chars op')) (\<lambda>peekedStr.
            if Lines op' \<noteq> newlines_of peekedStr
            then Inl (Err ''newline count is wrong in op -; cs:${cs} and text:${str}'')
            else bind_result (Take strIter (Chars op')) (\<lambda>(iter, strIter1).
              Inr (bankIter, strIter1, SA_Append iter assem)))
      | NoCode \<Rightarrow> Inl (Err ''invalid op type'')))"

fun apply_ops ::
  "Op list \<Rightarrow> StringIterator \<times> StringIterator \<times> StringAssembler \<Rightarrow>
   (StringIterator \<times> StringIterator \<times> StringAssembler) result" where
  "apply_ops [] st = Inr st"
| "apply_ops (op' # ops) st = bind_result (apply_op op' st) (apply_ops ops)"

definition ApplyToText :: "gostring \<Rightarrow> gostring \<Rightarrow> gostring result" where
  "ApplyToText cs text =
     bind_result (Unpack cs) (\<lambda>unpacked.
       if RuneCount text \<noteq> OldLen unpacked then Inl (Err ''mismatched text length'')
       else
         let bankIter = NewStringIterator (CharBank unpacked);
             strIter = NewStringIterator text;
             assem = NewStringAssembler
         in bind_result (DeserializeOps (Ops unpacked)) (\<lambda>deserializedOp.
            bind_result (apply_ops deserializedOp (bankIter, strIter, assem)) (\<lambda>(bankIter1, strIter1, assem1).
            bind_result (Take strIter1 (Remaining strIter1)) (\<lambda>(takenRemaining, strIter2).
              Inr (SA_String (SA_Append takenRemaining assem1))))))"

subsection \<open>CheckRep\<close>

definition check_op ::
  "int \<Rightarrow> int \<Rightarrow> Op \<Rightarrow> int \<times> int \<times> gostring \<times> SmartOpAssembler \<Rightarrow>
   (int \<times> int \<times> gostring \<times> SmartOpAssembler) result" where
  "check_op oldLen newLen o' = (\<lambda>(oldPos, calcNewLen, charBank, assem).
     (case OpCode o' of
        Keep \<Rightarrow> Inr (oldPos + Chars o', calcNewLen + Chars o', charBank, SOA_Append o' assem)
      | Minus \<Rightarrow>
          if \<not> oldPos + Chars o' \<le> oldLen then Inl (Err ''oldPos > oldLen in changeset'')
          else Inr (oldPos + Chars o', calcNewLen, charBank, SOA_Append o' assem)
      | Plus \<Rightarrow>
          if int (length charBank) < Chars o'
          then Inl (Err ''invalid changeset: not enough chars in charBank'')
          else if Chars o' < 0 then Inl Panic
          else
            let chars = take (nat (Chars o')) charBank;
                nlines = CountLinesRunes chars newline
            in if nlines \<noteq> Lines o'
               then Inl (Err ''invalid changeset: number of newlines in insert op does not match the charBank'')
               else if \<not> (Lines o' = 0 \<or> EndsWithNewLine chars)
               then Inl (Err ''invalid changeset: multiline insert op does not end with a new line'')
               else if calcNewLen + Chars o' > newLen then Inl (Err ''CalcNewLen > NewLen in cs'')
               else Inr (oldPos, calcNewLen + Chars o', drop (nat (Chars o')) charBank, SOA_Append o' assem)
      | NoCode \<Rightarrow> Inl (Err ''invalid changeset: Unknown opcode'')))"

fun check_ops ::
  "int \<Rightarrow> int \<Rightarrow> Op list \<Rightarrow> int \<times> int \<times> gostring \<times> SmartOpAssembler \<Rightarrow>
   (int \<times> int \<times> gostring \<times> SmartOpAssembler) result" where
  "check_ops oldLen newLen [] st = Inr st"
| "check_ops oldLen newLen (o' # ops) st =
     bind_result (check_op oldLen newLen o' st) (check_ops oldLen newLen ops)"

definition CheckRep :: "gostring \<Rightarrow> gostring result" where
  "CheckRep cs =
     bind_result (Unpack cs) (\<lambda>unpacked.
       let oldLen = OldLen unpacked; newLen = NewLen unpacked
       in bind_result (DeserializeOps (Ops unpacked)) (\<lambda>extractedOps.
          bind_result (check_ops oldLen newLen extractedOps (0, 0, CharBank unpacked, NewSmartOpAssembler))
            (\<lambda>(oldPos, calcNewLen0, charBank, assem).
              let calcNewLen = calcNewLen0 + (oldLen - oldPos)
              in if calcNewLen \<noteq> newLen
                 then Inl (Err ''invalid changeset claimed length does not match actual length'')
                 else if charBank \<noteq> [] then Inl (Err ''Invalid changeset excess characters in the charbank'')
                 else
                   let assem1 = SOA_EndDocument assem;
                       normalized = Pack oldLen calcNewLen (fst (SOA_String assem1)) (CharBank unpacked)
                   in if normalized \<noteq> cs then Inl (Err ''invalid changeset: not in canonical form'')
                      else Inr cs)))"

subsection \<open>Attributed texts\<close>

definition MakeAttribution :: "gostring \<Rightarrow> gostring result" where
  "MakeAttribution text =
     bind_result (OpsFromText Plus text None None) (\<lambda>(ops, _).
       Inr (fst (SOA_String (fold SOA_Append ops NewSmartOpAssembler))))"

definition MakeAText :: "gostring \<Rightarrow> gostring option \<Rightarrow> AText result" where
  "MakeAText str attribs =
     bind_result (case attribs of Some a \<Rightarrow> Inr a | None \<Rightarrow> MakeAttribution str)
       (\<lambda>aTextAttrib. Inr \<lparr>Text = str, ATAttribs = aTextAttrib\<rparr>)"

definition CloneAText :: "AText \<Rightarrow> AText" where
  "CloneAText atext = \<lparr>Text = Text atext, ATAttribs = ATAttribs atext\<rparr>"

subsection \<open>Lines\<close>

text \<open>The matches of \<^verbatim>\<open>[^\n]*\n|[^\n]+$\<close>.\<close>

function SplitTextLines :: "gostring \<Rightarrow> gostring list" where
  "SplitTextLines text =
     (if text = [] then []
      else
        let line = takeWhile (\<lambda>r. r \<noteq> newline) text; rest = dropWhile (\<lambda>r. r \<noteq> newline) text
        in if rest = [] then [line] else (line @ [newline]) # SplitTextLines (tl rest))"
  by pat_completeness auto
termination
proof (relation "measure length")
  fix s line rest :: gostring
  assume "s \<noteq> []" "rest = dropWhile (\<lambda>r. r \<noteq> newline) s" "rest \<noteq> []"
  then show "(tl rest, s) \<in> measure length"
    using length_dropWhile_le[of "\<lambda>r. r \<noteq> newline" s] by (cases s) (auto simp: le_less_trans)
qed simp

declare SplitTextLines.simps [simp del]

text \<open>The variables the closure \<^verbatim>\<open>appendOp\<close> updates: the assembler, the lines and the position.\<close>

definition append_line_op ::
  "Op \<Rightarrow> MergingOpAssembler \<times> gostring list \<times> int \<Rightarrow> MergingOpAssembler \<times> gostring list \<times> int" where
  "append_line_op op' = (\<lambda>(assem, lines, pos).
     (let assem1 = MOA_Append op' assem
      in if Lines op' > 0
         then let (s, assem2) = MOA_String assem1 in (MOA_Clear assem2, lines @ [s], pos + Chars op')
         else (assem1, lines, pos + Chars op')))"

text \<open>The inner loop: one operation per line while more than one line is left.\<close>

function split_op_lines ::
  "gostring \<Rightarrow> Op \<Rightarrow> int \<Rightarrow> int \<Rightarrow> MergingOpAssembler \<times> gostring list \<times> int \<Rightarrow>
   (Op \<times> int \<times> int \<times> (MergingOpAssembler \<times> gostring list \<times> int)) result" where
  "split_op_lines text op' numChars numLines st =
     (if numLines > 1 then
        let pos = snd (snd st);
            rest = RuneSlice text pos (RuneCount text);
            relIdx = RuneIndex rest [newline]
        in if \<not> relIdx \<ge> 0 then Inl (Err ''newLineEnd <= 0 in splitAttributionLines'')
           else
             let newlineEnd = pos + relIdx + 1;
                 op1 = op'\<lparr>Chars := newlineEnd - pos, Lines := 1\<rparr>
             in split_op_lines text op1 (numChars - Chars op1) (numLines - Lines op1) (append_line_op op1 st)
      else Inr (op', numChars, numLines, st))"
  by pat_completeness auto
termination
  by (relation "measure (\<lambda>(text, op', numChars, numLines, st). nat numLines)") auto

declare split_op_lines.simps [simp del]

fun split_ops_lines ::
  "gostring \<Rightarrow> Op list \<Rightarrow> MergingOpAssembler \<times> gostring list \<times> int \<Rightarrow>
   (MergingOpAssembler \<times> gostring list \<times> int) result" where
  "split_ops_lines text [] st = Inr st"
| "split_ops_lines text (op' # ops) st =
     bind_result (split_op_lines text op' (Chars op') (Lines op') st) (\<lambda>(op1, numChars, numLines, st1).
       let op2 = (if numLines = 1 then op1\<lparr>Chars := numChars, Lines := 1\<rparr> else op1)
       in split_ops_lines text ops (append_line_op op2 st1))"

definition SplitAttributionLines :: "gostring \<Rightarrow> gostring \<Rightarrow> gostring list result" where
  "SplitAttributionLines attrOps text =
     bind_result (DeserializeOps attrOps) (\<lambda>deserializedOps.
     bind_result (split_ops_lines text deserializedOps (NewMergingOpAssembler, [], 0)) (\<lambda>(assem, lines, pos).
       Inr lines))"

text \<open>The error is dropped and the nil result dereferenced.\<close>

fun join_lines :: "gostring list \<Rightarrow> MergingOpAssembler \<Rightarrow> MergingOpAssembler result" where
  "join_lines [] m = Inr m"
| "join_lines (line # theAlines) m =
     (case DeserializeOps line of Inl err \<Rightarrow> Inl Panic
      | Inr deserializedOps \<Rightarrow> join_lines theAlines (fold MOA_Append deserializedOps m))"

definition JoinAttributionLines :: "gostring list \<Rightarrow> gostring result" where
  "JoinAttributionLines theAlines =
     bind_result (join_lines theAlines NewMergingOpAssembler) (\<lambda>assem. Inr (fst (MOA_String assem)))"

subsection \<open>Moving a changeset to another pool\<close>

text \<open>
  One match: a number without an attribute in the old pool is dropped (the diagnostics the
  code prints are left out), the others are renumbered by the new pool.
\<close>

definition move_attrib :: "APool \<Rightarrow> gostring \<Rightarrow> APool \<Rightarrow> (gostring option \<times> goerr option) \<times> APool" where
  "move_attrib oldPool a newPool =
     (case ParseNum a of
        Inl err \<Rightarrow> ((Some [], None), newPool)
      | Inr oldNum \<Rightarrow>
          (case GetAttrib oldPool oldNum of
             Inl err \<Rightarrow> ((Some [], None), newPool)
           | Inr pair \<Rightarrow>
               let (newNum, newPool1) = PutAttrib pair None newPool
               in ((Some (42 # NumToString newNum), None), newPool1)))"

definition MoveOpsToNewPool :: "gostring \<Rightarrow> APool \<Rightarrow> APool \<Rightarrow> gostring \<times> APool" where
  "MoveOpsToNewPool cs oldPool newPool =
     (let dollarPos0 = RuneIndex cs (lit ''$'');
          dollarPos = (if dollarPos0 < 0 then RuneCount cs else dollarPos0);
          upToDollar = RuneSlice cs 0 dollarPos;
          fromDollar = RuneSlice cs dollarPos (RuneCount cs);
          ((result, _), newPool1) = replaceAttributes upToDollar (move_attrib oldPool) newPool
      in (result @ fromDollar, newPool1))"

record PrepareForWireStruct =
  Translated :: gostring
  WirePool :: APool

definition PrepareForWire :: "gostring \<Rightarrow> APool \<Rightarrow> PrepareForWireStruct" where
  "PrepareForWire cs pool =
     (let (newCS, newPool) = MoveOpsToNewPool cs pool NewAPool
      in \<lparr>Translated = newCS, WirePool = newPool\<rparr>)"

subsection \<open>validate.go\<close>

text \<open>The constant part of the messages.\<close>

fun validate_ops :: "gostring \<Rightarrow> Op list \<Rightarrow> int \<Rightarrow> int result" where
  "validate_ops bankRunes [] bankPos = Inr bankPos"
| "validate_ops bankRunes (op' # ops) bankPos =
     (if Chars op' < Lines op' then Inl (Err ''op: chars < lines'')
      else if OpCode op' = Plus then
        (if bankPos + Chars op' > int (length bankRunes) then Inl (Err ''op: char bank underflow'')
         else if Chars op' < 0 then Inl Panic
         else
           let nls = CountLines (take (nat (Chars op')) (drop (nat bankPos) bankRunes)) newline
           in if nls \<noteq> Lines op' then Inl (Err ''op: char bank slice has newline(s), op declares'')
              else validate_ops bankRunes ops (bankPos + Chars op'))
      else validate_ops bankRunes ops bankPos)"

definition ValidateWellFormed :: "gostring \<Rightarrow> unit result" where
  "ValidateWellFormed cs =
     bind_result (Unpack cs) (\<lambda>unpacked.
     bind_result (DeserializeOps (Ops unpacked)) (\<lambda>ops.
     bind_result (validate_ops (CharBank unpacked) ops 0) (\<lambda>bankPos.
       if bankPos \<noteq> int (length (CharBank unpacked)) then Inl (Err ''char bank length mismatch'')
       else Inr ())))"

definition truncate_text :: "gostring \<Rightarrow> int \<Rightarrow> gostring" where
  "truncate_text s limit = (if RuneCount s \<le> limit then s else RuneSlice s 0 limit @ [0x2026])"

subsection \<open>Builder.go\<close>

record Builder =
  b_oldLen :: int
  b_assem :: SmartOpAssembler
  b_op :: Op
  b_charBank :: StringAssembler

definition NewBuilder :: "int \<Rightarrow> Builder" where
  "NewBuilder oldLen =
     \<lparr>b_oldLen = oldLen, b_assem = NewSmartOpAssembler, b_op = NewOp None, b_charBank = NewStringAssembler\<rparr>"

definition Builder_Keep ::
  "int \<Rightarrow> int \<Rightarrow> KeepArgs \<Rightarrow> APool option \<Rightarrow> Builder \<Rightarrow> (Builder \<times> APool option) result" where
  "Builder_Keep N L attribs pool b =
     bind_result
       (case stringAttribs attribs of
          Some s \<Rightarrow> Inr (s, pool)
        | None \<Rightarrow>
            update_string (case apoolAttribs attribs of None \<Rightarrow> [] | Some entries \<Rightarrow> entries) None pool)
       (\<lambda>(s, pool1).
         let o' = (b_op b)\<lparr>OpCode := Keep, Attribs := s, Chars := N, Lines := (if L > 0 then L else 0)\<rparr>
         in Inr (b\<lparr>b_op := o', b_assem := SOA_Append o' (b_assem b)\<rparr>, pool1))"

definition Builder_KeepText ::
  "gostring \<Rightarrow> KeepArgs option \<Rightarrow> APool option \<Rightarrow> Builder \<Rightarrow> (Builder \<times> APool option) result" where
  "Builder_KeepText text attribs pool b =
     bind_result (OpsFromText Keep text attribs pool) (\<lambda>(ops, pool1).
       Inr (b\<lparr>b_assem := fold SOA_Append ops (b_assem b)\<rparr>, pool1))"

definition Builder_Insert ::
  "gostring \<Rightarrow> KeepArgs \<Rightarrow> APool option \<Rightarrow> Builder \<Rightarrow> (Builder \<times> APool option) result" where
  "Builder_Insert text attribs pool b =
     bind_result (OpsFromText Plus text (Some attribs) pool) (\<lambda>(ops, pool1).
       Inr (b\<lparr>b_assem := fold SOA_Append ops (b_assem b),
              b_charBank := SA_Append text (b_charBank b)\<rparr>, pool1))"

definition Builder_Remove :: "int \<Rightarrow> int \<Rightarrow> Builder \<Rightarrow> Builder" where
  "Builder_Remove N L b =
     (let o' = (b_op b)\<lparr>OpCode := Minus, Attribs := [], Chars := N, Lines := (if L > 0 then L else 0)\<rparr>
      in b\<lparr>b_op := o', b_assem := SOA_Append o' (b_assem b)\<rparr>)"

definition Builder_ToString :: "Builder \<Rightarrow> gostring \<times> Builder" where
  "Builder_ToString b =
     (let assem1 = SOA_EndDocument (b_assem b);
          newLen = b_oldLen b + LengthChange assem1;
          (s, assem2) = SOA_String assem1
      in (Pack (b_oldLen b) newLen s (SA_String (b_charBank b)), b\<lparr>b_assem := assem2\<rparr>))"

end
