(* ===== verification/TextLines.thy ===== *)
theory TextLines
  imports Changesets
begin

text \<open>
  The line-based editor of lib/changeset/TextLinesMutator.go and its clients
  \<^verbatim>\<open>MutateTextLines\<close> (lib/changeset/changeset.go) and \<^verbatim>\<open>ValidateRoundTrip\<close>
  (lib/changeset/validate.go).

  The slice \<^verbatim>\<open>curSplice\<close> of the code holds the start index, the number of deleted lines and
  then the new lines; it is the three fields \<open>splice_start\<close>, \<open>splice_del\<close> and \<open>splice_lines\<close>.
  An index into \<^verbatim>\<open>curSplice\<close> is two more than the index into \<open>splice_lines\<close>. The lines
  are mutated through a pointer; the mutated lines are returned, and on an error they are
  dropped, as the callers do. A slice expression beyond the length of \<^verbatim>\<open>lines\<close> panics, as it
  does when the slice has no spare capacity.
\<close>

subsection \<open>TextLinesMutator.go\<close>

record TextLinesMutator =
  mut_lines :: "gostring list"
  splice_start :: int
  splice_del :: int
  splice_lines :: "gostring list"
  inSplice :: bool
  curLine :: int
  curCol :: int

definition NewTextLinesMutator :: "gostring list \<Rightarrow> TextLinesMutator" where
  "NewTextLinesMutator ls =
     \<lparr>mut_lines = ls, splice_start = 0, splice_del = 0, splice_lines = [], inSplice = False,
      curLine = 0, curCol = 0\<rparr>"

definition linesGet :: "int \<Rightarrow> TextLinesMutator \<Rightarrow> gostring" where
  "linesGet idx m =
     (if idx \<ge> 0 \<and> idx < int (length (mut_lines m)) then mut_lines m ! nat idx else [])"

definition linesSlice :: "int \<Rightarrow> int \<Rightarrow> TextLinesMutator \<Rightarrow> gostring list" where
  "linesSlice start stop m =
     (let start1 = (if start < 0 then 0 else start);
          stop1 = (if stop > int (length (mut_lines m)) then int (length (mut_lines m)) else stop)
      in if start1 \<ge> stop1 then [] else take (nat (stop1 - start1)) (drop (nat start1) (mut_lines m)))"

definition linesLength :: "TextLinesMutator \<Rightarrow> int" where
  "linesLength m = int (length (mut_lines m))"

definition isCurLineInSplice :: "TextLinesMutator \<Rightarrow> bool" where
  "isCurLineInSplice m \<longleftrightarrow> curLine m - splice_start m < int (length (splice_lines m))"

text \<open>The index returned is an index into \<open>splice_lines\<close>.\<close>

definition putCurLineInSplice :: "TextLinesMutator \<Rightarrow> int \<times> TextLinesMutator" where
  "putCurLineInSplice m =
     (let m1 = (if \<not> isCurLineInSplice m
                then m\<lparr>splice_lines := splice_lines m @ [linesGet (splice_start m + splice_del m) m],
                       splice_del := splice_del m + 1\<rparr>
                else m)
      in (curLine m1 - splice_start m1, m1))"

definition enterSplice :: "TextLinesMutator \<Rightarrow> TextLinesMutator" where
  "enterSplice m =
     (let m1 = m\<lparr>splice_start := curLine m, splice_del := 0\<rparr>;
          m2 = (if curCol m1 > 0 then snd (putCurLineInSplice m1) else m1)
      in m2\<lparr>inSplice := True\<rparr>)"

definition leaveSplice :: "TextLinesMutator \<Rightarrow> TextLinesMutator result" where
  "leaveSplice m =
     (let startIdx = splice_start m; deleteCount = splice_del m; newLines = splice_lines m;
          n = int (length (mut_lines m));
          endIdx = (if startIdx + deleteCount > n then n else startIdx + deleteCount)
      in if n - deleteCount + int (length newLines) < 0 \<or> startIdx < 0 \<or> startIdx > n \<or> endIdx < 0
         then Inl Panic
         else Inr (m\<lparr>mut_lines := take (nat startIdx) (mut_lines m) @ newLines @ drop (nat endIdx) (mut_lines m),
                     splice_start := 0, splice_del := 0, splice_lines := [], inSplice := False\<rparr>))"

definition entered :: "TextLinesMutator \<Rightarrow> TextLinesMutator" where
  "entered m = (if \<not> inSplice m then enterSplice m else m)"

text \<open>The loop of \<^verbatim>\<open>SkipLines\<close> that puts \<open>L\<close> lines into the splice.\<close>

fun put_lines :: "nat \<Rightarrow> TextLinesMutator \<Rightarrow> TextLinesMutator" where
  "put_lines 0 m = m"
| "put_lines (Suc n) m =
     put_lines n (let m1 = snd (putCurLineInSplice (m\<lparr>curCol := 0\<rparr>)) in m1\<lparr>curLine := curLine m1 + 1\<rparr>)"

definition SkipLines :: "int \<Rightarrow> bool \<Rightarrow> TextLinesMutator \<Rightarrow> TextLinesMutator result" where
  "SkipLines L includeInSplice m =
     (if L = 0 then Inr m
      else if includeInSplice then Inr (put_lines (nat L) (entered m))
      else
        bind_result
          (if inSplice m then (if L > 1 then leaveSplice m else Inr (snd (putCurLineInSplice m))) else Inr m)
          (\<lambda>m1. Inr (m1\<lparr>curLine := curLine m1 + L, curCol := 0\<rparr>)))"

definition Mut_Skip :: "int \<Rightarrow> int \<Rightarrow> bool \<Rightarrow> TextLinesMutator \<Rightarrow> TextLinesMutator result" where
  "Mut_Skip N L includeInSplice m =
     (if N = 0 then Inr m
      else if L > 0 then SkipLines L includeInSplice m
      else
        let m1 = (if includeInSplice \<and> \<not> inSplice m then enterSplice m else m);
            m2 = (if inSplice m1 then snd (putCurLineInSplice m1) else m1)
        in Inr (m2\<lparr>curCol := curCol m2 + N\<rparr>))"

definition nextKLinesText :: "int \<Rightarrow> TextLinesMutator \<Rightarrow> gostring" where
  "nextKLinesText k m =
     (let start = splice_start m + splice_del m in concat (linesSlice start (start + k) m))"

text \<open>
  Without a line in the splice the last element of \<^verbatim>\<open>curSplice\<close> is the deletion count, and its
  type assertion panics.
\<close>

definition RemoveLines :: "int \<Rightarrow> TextLinesMutator \<Rightarrow> (gostring \<times> TextLinesMutator) result" where
  "RemoveLines L m0 =
     (if L = 0 then Inr ([], m0)
      else
        let m = entered m0
        in if isCurLineInSplice m then
             (if splice_lines m = [] then Inl Panic
              else if curCol m = 0 then
                let m1 = m\<lparr>splice_lines := butlast (splice_lines m)\<rparr>;
                    removed = last (splice_lines m) @ nextKLinesText (L - 1) m1
                in Inr (removed, m1\<lparr>splice_del := splice_del m1 + L - 1\<rparr>)
              else
                let removed = nextKLinesText (L - 1) m;
                    m1 = m\<lparr>splice_del := splice_del m + L - 1\<rparr>;
                    slineStr = last (splice_lines m1);
                    newLine = RuneSlice slineStr 0 (curCol m1) @ linesGet (splice_start m1 + splice_del m1) m1
                in Inr (RuneSlice slineStr (curCol m1) (RuneCount slineStr) @ removed,
                        m1\<lparr>splice_lines := butlast (splice_lines m1) @ [newLine],
                           splice_del := splice_del m1 + 1\<rparr>))
           else Inr (nextKLinesText L m, m\<lparr>splice_del := splice_del m + L\<rparr>))"

text \<open>\<^verbatim>\<open>curSplice[sline].(string)\<close> and the assignment to it.\<close>

definition in_splice :: "int \<Rightarrow> TextLinesMutator \<Rightarrow> bool" where
  "in_splice sline m \<longleftrightarrow> 0 \<le> sline \<and> sline < int (length (splice_lines m))"

definition Mut_Remove :: "int \<Rightarrow> int \<Rightarrow> TextLinesMutator \<Rightarrow> (gostring \<times> TextLinesMutator) result" where
  "Mut_Remove N L m =
     (if N = 0 then Inr ([], m)
      else if L > 0 then RemoveLines L m
      else
        let (sline, m1) = putCurLineInSplice (entered m)
        in if \<not> in_splice sline m1 then Inl Panic
           else
             let slineStr = splice_lines m1 ! nat sline;
                 slineRuneLen = RuneCount slineStr;
                 endCol = (if curCol m1 + N > slineRuneLen then slineRuneLen else curCol m1 + N)
             in Inr (RuneSlice slineStr (curCol m1) endCol,
                     m1\<lparr>splice_lines := (splice_lines m1)[nat sline :=
                          RuneSlice slineStr 0 (curCol m1) @ RuneSlice slineStr endCol slineRuneLen]\<rparr>))"

definition Mut_Insert :: "gostring \<Rightarrow> int \<Rightarrow> TextLinesMutator \<Rightarrow> TextLinesMutator result" where
  "Mut_Insert s L m0 =
     (if s = [] then Inr m0
      else
        let m = entered m0
        in if L > 0 then
             (let newLines = SplitTextLines s
              in if isCurLineInSplice m then
                   (if splice_lines m = [] \<or> newLines = [] then Inl Panic
                    else
                      let theLine = last (splice_lines m); lineCol = curCol m
                      in Inr (m\<lparr>splice_lines := butlast (splice_lines m) @
                                  [RuneSlice theLine 0 lineCol @ hd newLines] @ tl newLines @
                                  [RuneSlice theLine lineCol (RuneCount theLine)],
                                curLine := curLine m + 1 + int (length (tl newLines)),
                                curCol := 0\<rparr>))
                 else Inr (m\<lparr>splice_lines := splice_lines m @ newLines,
                             curLine := curLine m + int (length newLines)\<rparr>))
           else
             (let (sline, m1) = putCurLineInSplice m
              in if sline \<ge> int (length (splice_lines m1)) then Inl (Err ''curSplice[sline] not populated'')
                 else if sline < 0 then Inl Panic
                 else
                   let slineStr = splice_lines m1 ! nat sline
                   in Inr (m1\<lparr>splice_lines := (splice_lines m1)[nat sline :=
                                RuneSlice slineStr 0 (curCol m1) @ s @ RuneSlice slineStr (curCol m1) (RuneCount slineStr)],
                              curCol := curCol m1 + RuneCount s\<rparr>)))"

definition HasMore :: "TextLinesMutator \<Rightarrow> bool" where
  "HasMore m \<longleftrightarrow>
     curLine m < linesLength m + (if inSplice m then int (length (splice_lines m)) - splice_del m else 0)"

definition Mut_Close :: "TextLinesMutator \<Rightarrow> TextLinesMutator result" where
  "Mut_Close m = (if inSplice m then leaveSplice m else Inr m)"

definition GetLines :: "TextLinesMutator \<Rightarrow> gostring list" where
  "GetLines m = mut_lines m"

subsection \<open>MutateTextLines\<close>

definition mutate_op :: "Op \<Rightarrow> StringIterator \<times> TextLinesMutator \<Rightarrow> (StringIterator \<times> TextLinesMutator) result" where
  "mutate_op csOp = (\<lambda>(bankIter, mut).
     (case OpCode csOp of
        Plus \<Rightarrow>
          bind_result (Take bankIter (Chars csOp)) (\<lambda>(takenChars, bankIter1).
          bind_result (Mut_Insert takenChars (Lines csOp) mut) (\<lambda>mut1. Inr (bankIter1, mut1)))
      | Minus \<Rightarrow> bind_result (Mut_Remove (Chars csOp) (Lines csOp) mut) (\<lambda>(_, mut1). Inr (bankIter, mut1))
      | Keep \<Rightarrow>
          bind_result (Mut_Skip (Chars csOp) (Lines csOp) (length (Attribs csOp) > 0) mut)
            (\<lambda>mut1. Inr (bankIter, mut1))
      | NoCode \<Rightarrow> Inr (bankIter, mut)))"

fun mutate_ops :: "Op list \<Rightarrow> StringIterator \<times> TextLinesMutator \<Rightarrow> (StringIterator \<times> TextLinesMutator) result" where
  "mutate_ops [] st = Inr st"
| "mutate_ops (csOp # csOps) st = bind_result (mutate_op csOp st) (mutate_ops csOps)"

definition MutateTextLines :: "gostring \<Rightarrow> gostring list \<Rightarrow> gostring list result" where
  "MutateTextLines cs ls =
     bind_result (Unpack cs) (\<lambda>unpacked.
     bind_result (DeserializeOps (Ops unpacked)) (\<lambda>csOps.
     bind_result (mutate_ops csOps (NewStringIterator (CharBank unpacked), NewTextLinesMutator ls))
       (\<lambda>(_, mut). bind_result (Mut_Close mut) (\<lambda>mut1. Inr (GetLines mut1)))))"

subsection \<open>ValidateRoundTrip\<close>

text \<open>\<^verbatim>\<open>recover\<close> turns a panic into an error.\<close>

definition safeMutateTextLines :: "gostring \<Rightarrow> gostring list \<Rightarrow> gostring list result" where
  "safeMutateTextLines cs textLines =
     (case MutateTextLines cs textLines of
        Inl Panic \<Rightarrow> Inl (Err ''MutateTextLines panicked: '')
      | r \<Rightarrow> r)"

text \<open>The error of \<^verbatim>\<open>ValidateRoundTrip\<close>, if any.\<close>

definition ValidateRoundTrip :: "gostring \<Rightarrow> gostring list \<Rightarrow> gostring list \<Rightarrow> goerr option" where
  "ValidateRoundTrip backward postForward preForward =
     (case safeMutateTextLines backward postForward of
        Inl err \<Rightarrow> Some (Err ''apply backward: '')
      | Inr res \<Rightarrow>
          if length res \<noteq> length preForward then Some (Err ''round-trip line count mismatch'')
          else if \<not> list_all2 (=) res preForward then Some (Err ''round-trip text mismatch at line'')
          else None)"

end
