(* ===== verification/AttributesSpec.thy ===== *)
theory AttributesSpec
  imports Attributes "HOL-Library.Multiset"
begin

text \<open>
  What attribute strings mean and what the functions of \<open>Attributes\<close> do to the meaning: a
  string denotes the map from keys to values that reading it into an empty attribute map
  yields, and a printed map is the canonical string of its entries, whatever the order in
  which Go's map was visited.
\<close>

subsection \<open>Numbers and strings\<close>

definition attr_token :: "int \<Rightarrow> gostring" where
  "attr_token n = 42 # NumToString n"

definition attr_string :: "int list \<Rightarrow> gostring" where
  "attr_string nums = concat (map attr_token nums)"

lemma attr_string_simps [simp]:
  "attr_string [] = []" "attr_string (n # nums) = 42 # NumToString n @ attr_string nums"
  by (simp_all add: attr_string_def attr_token_def)

lemma stops_attr_string: "stops_digits (attr_string nums)"
  by (cases nums) (simp_all add: stops_digits_def alnum36_def)

lemma encode_from_eq: "list_all (\<lambda>n. 0 \<le> n) nums \<Longrightarrow> encode_from str nums = Inr (str @ attr_string nums)"
  by (induction nums arbitrary: str) (simp_all add: checkAttribNum_def)

lemma encodeAttribString_eq [codec_simps]:
  "list_all (\<lambda>n. 0 \<le> n) nums \<Longrightarrow> encodeAttribString nums = Inr (attr_string nums)"
  by (simp add: encodeAttribString_def encode_from_eq)

lemma encode_from_Inr:
  "encode_from str nums = Inr s \<Longrightarrow> list_all (\<lambda>n. 0 \<le> n) nums \<and> s = str @ attr_string nums"
  by (induction nums arbitrary: str) (fastforce simp: checkAttribNum_def split: if_splits)+

lemma encodeAttribString_Inr:
  "encodeAttribString nums = Inr s \<longleftrightarrow> list_all (\<lambda>n. 0 \<le> n) nums \<and> s = attr_string nums"
  using encode_from_Inr[of "[]" nums s] by (auto simp: encodeAttribString_def encode_from_eq)

lemma ParseInt_NumToString: "fits n \<Longrightarrow> ParseInt 36 (NumToString n) = Inr n"
  using ParseNum_NumToString[of n] by (auto simp: fits_def ParseNum_def split: sum.splits)

lemma DecodeAttribString_attr_string [codec_simps]:
  "list_all fits nums \<Longrightarrow> DecodeAttribString (attr_string nums) = Inr nums"
  by (induction nums) (simp_all add: ParseInt_NumToString stops_attr_string fitsD)

lemma attribs_wf_attr_string: "list_all (\<lambda>n. 0 \<le> n) nums \<Longrightarrow> attribs_wf (attr_string nums)"
  by (induction nums) (simp_all add: attribs_wf_step NumToString_alnum)

lemma attr_string_inj:
  "list_all fits ms \<Longrightarrow> list_all fits ns \<Longrightarrow> attr_string ms = attr_string ns \<Longrightarrow> ms = ns"
  by (metis DecodeAttribString_attr_string sum.inject(2))

lemma replaceAttributes_step:
  "0 \<le> n \<Longrightarrow> stops_digits t \<Longrightarrow>
   replaceAttributes (42 # NumToString n @ t) cb st =
     (let ((val, err), st1) = cb (NumToString n) st;
          ((res, err2), st2) = replaceAttributes t cb st1
      in (((case val of None \<Rightarrow> [] | Some v \<Rightarrow> v) @ res, if err2 = None then err else err2), st2))"
  by simp

declare replaceAttributes.simps(2) [simp del] DecodeAttribString.simps(2) [simp del]

subsection \<open>Reading attributes from a pool\<close>

lemma attribsFromNums_Inr:
  "list_all (\<lambda>n. 0 \<le> n) nums \<Longrightarrow>
   attribsFromNums nums p = Inr as \<longleftrightarrow> map (\<lambda>n. gomap_get (NumToAttrib p) n) nums = map Some as"
  by (induction nums arbitrary: as) (auto simp: bind_result_Inr_iff GetAttrib_Inr Cons_eq_map_conv)

lemma AttribsFromString_attr_string:
  assumes "list_all fits nums" "map (\<lambda>n. gomap_get (NumToAttrib p) n) nums = map Some as"
  shows "AttribsFromString (attr_string nums) p = as"
proof -
  have "list_all (\<lambda>n. 0 \<le> n) nums" using assms(1) by (auto simp: list_all_iff)
  with assms show ?thesis
    by (simp add: AttribsFromString_def DecodeAttribString_attr_string attribsFromNums_Inr[THEN iffD2])
qed

lemma attribsFromNums_in:
  "attribsFromNums nums p = Inr as \<Longrightarrow> attr \<in> set as \<Longrightarrow> \<exists>n. gomap_get (NumToAttrib p) n = Some attr"
  by (induction nums arbitrary: as) (auto simp: bind_result_Inr_iff GetAttrib_Inr split: if_splits)

lemma AttribsFromString_in:
  "attr \<in> set (AttribsFromString s p) \<Longrightarrow> \<exists>n. gomap_get (NumToAttrib p) n = Some attr"
  by (auto simp: AttribsFromString_def split: sum.splits) (metis attribsFromNums_in)

text \<open>Numbers handed out by the pool survive the trip through a string.\<close>

lemma pool_num_fits: "pool_ok p \<Longrightarrow> pool_fits p \<Longrightarrow> gomap_get (NumToAttrib p) n = Some attr \<Longrightarrow> fits n"
  using pool_num_bounds[of p n attr] by (auto simp: fits_def pool_fits_def)

lemma AttribsToString_known:
  assumes "pool_ok p" "map (\<lambda>n. gomap_get (NumToAttrib p) n) nums = map Some as"
  shows "AttribsToString as p = (Inr (attr_string nums), p)"
proof -
  have "list_all (\<lambda>n. 0 \<le> n) nums"
    using assms pool_num_bounds[OF assms(1)] by (fastforce simp: list_all_iff map_eq_conv in_set_conv_nth list_eq_iff_nth_eq)
  with assms show ?thesis
    by (simp add: AttribsToString_def attribsToNums_def apool.put_seq_known encodeAttribString_eq)
qed

subsection \<open>Attribute maps\<close>

definition am_ok :: "AttributeMap \<Rightarrow> bool" where
  "am_ok a \<longleftrightarrow> pool_ok (am_pool a) \<and> gomap_ok (attrs a) \<and>
     (\<forall>k v. gomap_get (attrs a) k = Some v \<longrightarrow>
        (\<exists>n. gomap_get (NumToAttrib (am_pool a)) n = Some \<lparr>Key = k, Value = v\<rparr>))"

lemma am_ok_new: "pool_ok p \<Longrightarrow> am_ok (NewAttributeMap p)"
  by (simp add: am_ok_def NewAttributeMap_def)

lemma am_ok_Set: "am_ok a \<Longrightarrow> am_ok (AM_Set k v a)"
  using apool.get_put[of "am_pool a" "\<lparr>Key = k, Value = v\<rparr>"] apool.put_keeps[of "am_pool a"]
    pool_ok_PutAttrib[of "am_pool a"]
  by (auto simp: am_ok_def AM_Set_def) metis

lemma am_ok_update_entry: "am_ok a \<Longrightarrow> am_ok (update_entry d e a)"
  using am_ok_Set[of a] by (auto simp: update_entry_def Let_def) (simp add: am_ok_def)

lemma am_ok_Update: "am_ok a \<Longrightarrow> am_ok (AM_Update es d a)"
proof -
  have "am_ok a \<Longrightarrow> am_ok (fold (update_entry b) es a)" for b
    by (induction es arbitrary: a) (auto simp: am_ok_update_entry)
  then show "am_ok a \<Longrightarrow> am_ok (AM_Update es d a)" by (simp add: AM_Update_def)
qed

lemma am_ok_UpdateFromString: "am_ok a \<Longrightarrow> am_ok (UpdateFromString s d a)"
  by (simp add: UpdateFromString_def am_ok_Update)

lemma am_ok_FromString: "pool_ok p \<Longrightarrow> am_ok (FromString s p)"
  by (simp add: FromString_def am_ok_UpdateFromString am_ok_new)

lemma in_entries:
  "e \<in> set (map (\<lambda>(key, value). \<lparr>Key = key, Value = value\<rparr>) xs) \<longleftrightarrow> (Key e, Value e) \<in> set xs"
  by (cases e) force

text \<open>
  The canonical string of a map: the numbers of its entries in increasing order. It does
  not mention the order of the entries.
\<close>

definition entry_nums :: "APool \<Rightarrow> (gostring \<Rightarrow> gostring option) \<Rightarrow> int set" where
  "entry_nums p m = {n. \<exists>attr. gomap_get (NumToAttrib p) n = Some attr \<and> m (Key attr) = Some (Value attr)}"

definition canon :: "APool \<Rightarrow> (gostring \<Rightarrow> gostring option) \<Rightarrow> gostring" where
  "canon p m = attr_string (sorted_list_of_set (entry_nums p m))"

lemma finite_entry_nums [simp]: "finite (entry_nums p m)"
  by (rule finite_subset[OF _ gomap_finite_dom[of "NumToAttrib p"]]) (auto simp: entry_nums_def)

definition entry_num :: "APool \<Rightarrow> Attribute \<Rightarrow> int" where
  "entry_num p attr = fst (PutAttrib attr None p)"

lemma entry_num_known:
  "pool_ok p \<Longrightarrow> gomap_get (NumToAttrib p) n = Some attr \<Longrightarrow> entry_num p attr = n"
  using apool.put_known[of p n attr] by (simp add: entry_num_def)

text \<open>The entries of a map that is in the pool, as attributes and as numbers.\<close>

definition in_pool :: "APool \<Rightarrow> (gostring \<Rightarrow> gostring option) \<Rightarrow> bool" where
  "in_pool p m \<longleftrightarrow> (\<forall>k v. m k = Some v \<longrightarrow> (\<exists>n. gomap_get (NumToAttrib p) n = Some \<lparr>Key = k, Value = v\<rparr>))"

lemma entries_nums:
  assumes p: "pool_ok p" and m: "in_pool p m" and d: "distinct E"
    and E: "\<And>e. e \<in> set E \<longleftrightarrow> m (Key e) = Some (Value e)"
  shows "map (\<lambda>n. gomap_get (NumToAttrib p) n) (map (entry_num p) E) = map Some E"
    and "distinct (map (entry_num p) E)" and "entry_num p ` set E = entry_nums p m"
    and "list_all (\<lambda>n. 0 \<le> n) (map (entry_num p) E)"
proof -
  have num: "gomap_get (NumToAttrib p) (entry_num p e) = Some e" if "e \<in> set E" for e
  proof -
    from that E have "m (Key e) = Some (Value e)" by blast
    with m obtain n where "gomap_get (NumToAttrib p) n = Some \<lparr>Key = Key e, Value = Value e\<rparr>"
      unfolding in_pool_def by blast
    with entry_num_known[OF p] show ?thesis by simp
  qed
  then show "map (\<lambda>n. gomap_get (NumToAttrib p) n) (map (entry_num p) E) = map Some E" by simp
  have "inj_on (entry_num p) (set E)" by (rule inj_onI) (metis num option.inject)
  with d show "distinct (map (entry_num p) E)" by (simp add: distinct_map)
  show "entry_num p ` set E = entry_nums p m"
  proof (intro set_eqI iffI)
    fix n assume "n \<in> entry_num p ` set E"
    with num E show "n \<in> entry_nums p m" unfolding entry_nums_def by blast
  next
    fix n assume "n \<in> entry_nums p m"
    then obtain e where "gomap_get (NumToAttrib p) n = Some e" "e \<in> set E"
      using E unfolding entry_nums_def by blast
    with entry_num_known[OF p] show "n \<in> entry_num p ` set E" by blast
  qed
  show "list_all (\<lambda>n. 0 \<le> n) (map (entry_num p) E)"
    using num pool_num_bounds[OF p] by (simp add: list_all_iff)
qed

lemma distinct_entries: "gomap_ok xs \<Longrightarrow> distinct (map (\<lambda>(key, value). \<lparr>Key = key, Value = value\<rparr>) xs)"
  by (auto simp: gomap_ok_def distinct_map inj_on_def)

lemma AM_String_canon:
  assumes ok: "am_ok a"
  shows "AM_String a = Inr (canon (am_pool a) (gomap_get (attrs a)), am_pool a)"
proof -
  let ?p = "am_pool a" and ?m = "gomap_get (attrs a)"
  have p: "pool_ok ?p" and m: "gomap_ok (attrs a)" and i: "in_pool ?p ?m"
    using ok by (auto simp: am_ok_def in_pool_def)
  have d: "distinct (sortAttribs a)" using distinct_entries[OF m] by (simp add: sortAttribs_def)
  have E: "e \<in> set (sortAttribs a) \<longleftrightarrow> ?m (Key e) = Some (Value e)" for e
    unfolding sortAttribs_def set_sort in_entries by (rule gomap_ok_in[OF m])
  note nums = entries_nums[OF p i d E]
  have "sorted (map (entry_num ?p) (sortAttribs a))"
    unfolding sortAttribs_def entry_num_def[abs_def] by (rule sorted_sort_key)
  with nums(2,3) have "map (entry_num ?p) (sortAttribs a) = sorted_list_of_set (entry_nums ?p ?m)"
    by (metis set_map sorted_list_of_set.idem_if_sorted_distinct)
  with AttribsToString_known[OF p nums(1)] show ?thesis
    by (simp add: AM_String_def canon_def)
qed

subsection \<open>The meaning of an attribute string\<close>

definition attr_map :: "APool \<Rightarrow> gostring \<Rightarrow> gostring \<Rightarrow> gostring option" where
  "attr_map p s = gomap_get (attrs (FromString s p))"

text \<open>A pool whose attributes \<^verbatim>\<open>Update\<close> finds already trimmed.\<close>

definition pool_trimmed :: "APool \<Rightarrow> bool" where
  "pool_trimmed p \<longleftrightarrow> (\<forall>n attr. gomap_get (NumToAttrib p) n = Some attr \<longrightarrow> trim_entry attr = attr)"

definition pool_wf :: "APool \<Rightarrow> bool" where
  "pool_wf p \<longleftrightarrow> pool_ok p \<and> pool_fits p \<and> pool_trimmed p"

lemma pool_wf_NewAPool: "pool_wf NewAPool"
  by (simp add: pool_wf_def pool_ok_NewAPool pool_fits_def pool_trimmed_def) (simp add: NewAPool_def)

lemma pool_wfD: "pool_wf p \<Longrightarrow> pool_ok p" "pool_wf p \<Longrightarrow> pool_fits p" "pool_wf p \<Longrightarrow> pool_trimmed p"
  by (simp_all add: pool_wf_def)

lemma PutAttrib_known: "pool_ok p \<Longrightarrow> gomap_get (NumToAttrib p) n = Some attr \<Longrightarrow> PutAttrib attr None p = (n, p)"
  by (rule apool.put_known)

text \<open>The last entry of a key wins.\<close>

definition last_entry :: "Attribute list \<Rightarrow> gostring \<Rightarrow> gostring option" where
  "last_entry es = map_of (rev (map (\<lambda>e. (Key e, Value e)) es))"

definition compose_map :: "bool \<Rightarrow> (gostring \<Rightarrow> gostring option) \<Rightarrow> (gostring \<Rightarrow> gostring option) \<Rightarrow>
    gostring \<Rightarrow> gostring option" where
  "compose_map mutation m1 m2 =
     (if mutation then m1 ++ m2
      else (\<lambda>k. case m2 k of None \<Rightarrow> m1 k | Some v \<Rightarrow> if v = [] then None else Some v))"

lemma last_entry_simps:
  "last_entry [] = (\<lambda>k. None)" "last_entry (e # es) = [Key e \<mapsto> Value e] ++ last_entry es"
  by (simp_all add: last_entry_def map_add_def[symmetric])

lemma update_entries:
  "pool_wf p \<Longrightarrow> am_pool a = p \<Longrightarrow> (\<And>e. e \<in> set es \<Longrightarrow> \<exists>n. gomap_get (NumToAttrib p) n = Some e) \<Longrightarrow>
   gomap_get (attrs (fold (update_entry d) es a)) = compose_map (\<not> d) (gomap_get (attrs a)) (last_entry es) \<and>
   am_pool (fold (update_entry d) es a) = p"
proof (induction es arbitrary: a)
  case Nil
  then show ?case by (auto simp: last_entry_simps compose_map_def fun_eq_iff)
next
  case (Cons e es)
  then obtain n where n: "gomap_get (NumToAttrib p) n = Some e" by auto
  with Cons.prems(1) have "trim_entry e = e" "PutAttrib e None p = (n, p)"
    by (auto simp: pool_wf_def pool_trimmed_def PutAttrib_known)
  then have "am_pool (update_entry d e a) = p"
    "gomap_get (attrs (update_entry d e a)) = compose_map (\<not> d) (gomap_get (attrs a)) [Key e \<mapsto> Value e]"
    using Cons.prems(2)
    by (auto simp: update_entry_def AM_Set_def Let_def compose_map_def fun_eq_iff split: option.splits)
  with Cons.IH[of "update_entry d e a"] Cons.prems show ?case
    by (auto simp: last_entry_simps compose_map_def fun_eq_iff map_add_def split: option.splits)
qed

lemma UpdateFromString_meaning:
  assumes "pool_wf p" "am_pool a = p"
  shows "gomap_get (attrs (UpdateFromString s d a)) =
           compose_map (d \<noteq> Some True) (gomap_get (attrs a)) (last_entry (AttribsFromString s p))"
    and "am_pool (UpdateFromString s d a) = p"
  using update_entries[OF assms AttribsFromString_in[of _ s p], where d = "d = Some True"] assms(2)
  by (simp_all add: UpdateFromString_def AM_Update_def)

lemma attr_map_entries: "pool_wf p \<Longrightarrow> attr_map p s = last_entry (AttribsFromString s p)"
  by (simp add: attr_map_def FromString_def UpdateFromString_meaning NewAttributeMap_def compose_map_def fun_eq_iff
      map_add_def split: option.splits)

lemma FromString_pool: "pool_wf p \<Longrightarrow> am_pool (FromString s p) = p"
  by (simp add: FromString_def UpdateFromString_meaning NewAttributeMap_def)

lemma attr_map_Nil [simp]: "attr_map p [] = Map.empty"
  by (simp add: attr_map_def FromString_def UpdateFromString_def AttribsFromString_def AM_Update_def
      NewAttributeMap_def fun_eq_iff)

lemma attr_map_range:
  "pool_wf p \<Longrightarrow> attr_map p s k = Some v \<Longrightarrow> \<exists>n. gomap_get (NumToAttrib p) n = Some \<lparr>Key = k, Value = v\<rparr>"
  using am_ok_FromString[OF pool_wfD(1), of p s] by (auto simp: am_ok_def attr_map_def FromString_pool)

text \<open>Reading a canonical string gives back the map it was printed from.\<close>

lemma last_entry_distinct:
  "distinct (map Key es) \<Longrightarrow> last_entry es k = Some v \<longleftrightarrow> \<lparr>Key = k, Value = v\<rparr> \<in> set es"
proof -
  assume "distinct (map Key es)"
  then have "distinct (map fst (rev (map (\<lambda>e. (Key e, Value e)) es)))" by (simp add: rev_map[symmetric] comp_def)
  then have "last_entry es k = Some v \<longleftrightarrow> (k, v) \<in> (\<lambda>e. (Key e, Value e)) ` set es"
    by (simp add: last_entry_def)
  also have "\<dots> \<longleftrightarrow> \<lparr>Key = k, Value = v\<rparr> \<in> set es" by (force simp: image_iff)
  finally show ?thesis .
qed

lemma in_pool_attr_map: "pool_wf p \<Longrightarrow> in_pool p (attr_map p s)"
  by (simp add: in_pool_def attr_map_range)

lemma in_pool_compose: "in_pool p m1 \<Longrightarrow> in_pool p m2 \<Longrightarrow> in_pool p (compose_map b m1 m2)"
  by (auto simp: in_pool_def compose_map_def map_add_def split: option.splits if_splits)

text \<open>Any list of distinct numbers that lists exactly the entries of a map denotes it.\<close>

lemma attr_map_nums:
  assumes p: "pool_wf p" and m: "in_pool p m" and nums: "distinct nums" "set nums = entry_nums p m"
  shows "attr_map p (attr_string nums) = m"
proof -
  let ?get = "\<lambda>n. gomap_get (NumToAttrib p) n"
  let ?es = "map (\<lambda>n. the (?get n)) nums"
  have get: "\<exists>attr. ?get n = Some attr \<and> m (Key attr) = Some (Value attr)" if "n \<in> set nums" for n
    using that nums(2) by (auto simp: entry_nums_def)
  have "list_all fits nums"
    using get pool_num_fits[OF pool_wfD(1)[OF p] pool_wfD(2)[OF p]] by (fastforce simp: list_all_iff)
  moreover have "map ?get nums = map Some ?es" using get by fastforce
  ultimately have es: "AttribsFromString (attr_string nums) p = ?es" by (rule AttribsFromString_attr_string)
  have "inj_on (\<lambda>n. Key (the (?get n))) (set nums)"
  proof (rule inj_onI)
    fix i j assume ij: "i \<in> set nums" "j \<in> set nums" "Key (the (?get i)) = Key (the (?get j))"
    obtain a b where ab: "?get i = Some a" "m (Key a) = Some (Value a)" "?get j = Some b" "m (Key b) = Some (Value b)"
      using get ij by blast
    with ij(3) have "a = b" by (cases a; cases b) simp
    with ab have "?get i = Some a" "?get j = Some a" by simp_all
    then show "i = j" using apool.number_unique[OF pool_wfD(1)[OF p]] by blast
  qed
  with nums(1) have d: "distinct (map Key ?es)" by (simp add: distinct_map comp_def)
  have "\<lparr>Key = k, Value = v\<rparr> \<in> set ?es \<longleftrightarrow> m k = Some v" for k v
  proof
    assume "\<lparr>Key = k, Value = v\<rparr> \<in> set ?es"
    then obtain n where "n \<in> set nums" "the (?get n) = \<lparr>Key = k, Value = v\<rparr>" by auto
    with get[of n] show "m k = Some v" by auto
  next
    assume "m k = Some v"
    with m obtain n where n: "?get n = Some \<lparr>Key = k, Value = v\<rparr>" by (auto simp: in_pool_def)
    with \<open>m k = Some v\<close> nums(2) have "n \<in> set nums" by (auto simp: entry_nums_def)
    with n show "\<lparr>Key = k, Value = v\<rparr> \<in> set ?es" by (force simp: image_iff)
  qed
  then show ?thesis
    using attr_map_entries[OF p] es last_entry_distinct[OF d]
    by (metis (no_types, lifting) ext option.exhaust)
qed

lemma attr_map_canon: "pool_wf p \<Longrightarrow> in_pool p m \<Longrightarrow> attr_map p (canon p m) = m"
  unfolding canon_def by (rule attr_map_nums) simp_all

lemma canon_empty [simp]: "canon p Map.empty = []"
  by (simp add: canon_def entry_nums_def)

lemma canon_wf: "pool_wf p \<Longrightarrow> attribs_wf (canon p m)"
  unfolding canon_def
  using finite_entry_nums[of p m]
  by (intro attribs_wf_attr_string) (auto simp: list_all_iff, auto simp: entry_nums_def dest: pool_num_bounds[OF pool_wfD(1)])

lemma canon_Nil_iff:
  assumes "in_pool p m" shows "canon p m = [] \<longleftrightarrow> m = Map.empty"
proof
  assume "canon p m = []"
  then have "sorted_list_of_set (entry_nums p m) = []" by (cases "sorted_list_of_set (entry_nums p m)") (simp_all add: canon_def)
  then have "entry_nums p m = {}" by (metis finite_entry_nums sorted_list_of_set.set_sorted_key_list_of_set set_empty2)
  then have "m k = None" for k
    using assms by (cases "m k") (fastforce simp: in_pool_def entry_nums_def)+
  then show "m = Map.empty" by (simp add: fun_eq_iff)
qed simp

subsection \<open>ComposeAttributes\<close>

text \<open>A canonical string is the one its own meaning prints.\<close>

definition attr_canon :: "APool \<Rightarrow> gostring \<Rightarrow> bool" where
  "attr_canon p s \<longleftrightarrow> s = canon p (attr_map p s)"

lemma attr_canon_wf: "pool_wf p \<Longrightarrow> attr_canon p s \<Longrightarrow> attribs_wf s"
  by (metis attr_canon_def canon_wf)

lemma ComposeAttributes_eq:
  assumes p: "pool_wf p"
  shows "ComposeAttributes a1 a2 mutation (Some p) =
    Inr (if a1 = [] \<and> mutation then a2 else if a2 = [] then a1
         else canon p (compose_map mutation (attr_map p a1) (attr_map p a2)), Some p)"
proof -
  let ?a = "UpdateFromString a2 (Some (\<not> mutation)) (FromString a1 p)"
  have "am_ok ?a" by (intro am_ok_UpdateFromString am_ok_FromString pool_wfD(1)[OF p])
  moreover have "am_pool ?a = p" "gomap_get (attrs ?a) = compose_map mutation (attr_map p a1) (attr_map p a2)"
    using UpdateFromString_meaning[OF p FromString_pool[OF p]]
    by (simp_all add: attr_map_entries[OF p]) (simp_all add: attr_map_entries[OF p, symmetric] attr_map_def)
  ultimately show ?thesis by (auto simp: ComposeAttributes_def AM_String_canon)
qed

lemma ComposeAttributes_map:
  assumes p: "pool_wf p"
  shows "\<exists>r. ComposeAttributes a1 a2 mutation (Some p) = Inr (r, Some p) \<and>
    attr_map p r = compose_map mutation (attr_map p a1) (attr_map p a2)"
proof -
  have "attr_map p (canon p (compose_map mutation (attr_map p a1) (attr_map p a2))) =
      compose_map mutation (attr_map p a1) (attr_map p a2)"
    by (intro attr_map_canon[OF p] in_pool_compose in_pool_attr_map[OF p])
  then show ?thesis
    by (simp add: ComposeAttributes_eq[OF p]) (auto simp: compose_map_def fun_eq_iff)
qed

lemma ComposeAttributes_canon:
  assumes p: "pool_wf p" and "attr_canon p a1" "attr_canon p a2"
  shows "ComposeAttributes a1 a2 mutation (Some p) =
    Inr (canon p (compose_map mutation (attr_map p a1) (attr_map p a2)), Some p)"
proof -
  have "canon p (compose_map mutation Map.empty (attr_map p a2)) = a2" if mutation
    using that assms(3) by (simp add: compose_map_def attr_canon_def)
  moreover have "canon p (compose_map mutation (attr_map p a1) Map.empty) = a1"
    using assms(2) by (auto simp: compose_map_def attr_canon_def)
  ultimately show ?thesis by (auto simp: ComposeAttributes_eq[OF p])
qed

lemma attr_canon_canon: "pool_wf p \<Longrightarrow> in_pool p m \<Longrightarrow> attr_canon p (canon p m)"
  by (simp add: attr_canon_def attr_map_canon)

lemma compose_map_assoc:
  "compose_map b (compose_map b m1 m2) m3 = compose_map b m1 (compose_map True m2 m3)"
  by (auto simp: compose_map_def fun_eq_iff map_add_def split: option.splits)

subsection \<open>followAttributes\<close>

lemma str_le_refl [simp]: "str_le xs xs"
proof -
  have "\<not> str_less xs xs" by (induction xs) simp_all
  then show ?thesis by (simp add: str_le_def)
qed

lemma str_less_Nil [simp]: "str_less [] ys \<longleftrightarrow> ys \<noteq> []"
  by (cases ys) simp_all

lemma str_less_linear: "str_less xs ys \<or> xs = ys \<or> str_less ys xs"
  by (induction xs ys rule: str_less.induct) auto

lemma str_less_asym: "str_less xs ys \<Longrightarrow> \<not> str_less ys xs"
  by (induction xs ys rule: str_less.induct) auto

lemma str_le_antisym: "str_le xs ys \<Longrightarrow> str_le ys xs \<Longrightarrow> xs = ys"
  using str_less_linear by (auto simp: str_le_def)

lemma str_le_total: "str_le xs ys \<or> str_le ys xs"
  using str_less_asym by (auto simp: str_le_def)

text \<open>The changes of the second map that survive the first.\<close>

definition follow_map :: "(gostring \<Rightarrow> gostring option) \<Rightarrow> (gostring \<Rightarrow> gostring option) \<Rightarrow>
    gostring \<Rightarrow> gostring option" where
  "follow_map m1 m2 k =
     (case m2 k of None \<Rightarrow> None
      | Some v \<Rightarrow> (case m1 k of None \<Rightarrow> Some v | Some u \<Rightarrow> if str_le u v then None else Some v))"

lemma follow_map_converges: "compose_map True m1 (follow_map m1 m2) = compose_map True m2 (follow_map m2 m1)"
  using str_le_antisym str_le_total
  by (fastforce simp: compose_map_def follow_map_def map_add_def fun_eq_iff split: option.splits)

lemma replace_put:
  "list_all fits nums \<Longrightarrow> map (\<lambda>n. gomap_get (NumToAttrib p) n) nums = map Some as \<Longrightarrow>
   replaceAttributes (attr_string nums) (follow_put p) atts =
     (([], None), fold (\<lambda>e m. gomap_set m (Key e) (Value e)) as atts)"
proof (induction nums arbitrary: as atts)
  case (Cons n nums)
  then obtain e as' where as: "as = e # as'" "gomap_get (NumToAttrib p) n = Some e"
    "map (\<lambda>n. gomap_get (NumToAttrib p) n) nums = map Some as'" by auto
  have "follow_put p (NumToString n) atts = ((Some [], None), gomap_set atts (Key e) (Value e))"
    using Cons.prems(1) as(2) by (auto simp: follow_put_def GetAttrib_def ParseNum_value_NumToString fits_def)
  with Cons as show ?case by (simp add: replaceAttributes_step stops_attr_string fitsD)
qed simp

definition del_entry :: "Attribute \<Rightarrow> (gostring, gostring) gomap \<Rightarrow> (gostring, gostring) gomap" where
  "del_entry e m =
     (case gomap_get m (Key e) of
        Some res \<Rightarrow> if str_le (Value e) res then gomap_del m (Key e) else m | None \<Rightarrow> m)"

lemma replace_del:
  "list_all fits nums \<Longrightarrow> map (\<lambda>n. gomap_get (NumToAttrib p) n) nums = map Some as \<Longrightarrow>
   replaceAttributes (attr_string nums) (follow_del p) atts = (([], None), fold del_entry as atts)"
proof (induction nums arbitrary: as atts)
  case (Cons n nums)
  then obtain e as' where as: "as = e # as'" "gomap_get (NumToAttrib p) n = Some e"
    "map (\<lambda>n. gomap_get (NumToAttrib p) n) nums = map Some as'" by auto
  have "follow_del p (NumToString n) atts = ((Some [], None), del_entry e atts)"
    using Cons.prems(1) as(2)
    by (auto simp: follow_del_def GetAttrib_def ParseNum_value_NumToString fits_def del_entry_def)
  with Cons as show ?case by (simp add: replaceAttributes_step stops_attr_string fitsD)
qed simp

lemma fold_put_map:
  "gomap_get (fold (\<lambda>e m. gomap_set m (Key e) (Value e)) es m) = gomap_get m ++ last_entry es"
  by (induction es arbitrary: m) (simp_all add: last_entry_simps gomap_get_set_fun map_add_def fun_eq_iff split: option.splits)

lemma fold_put_ok: "gomap_ok m \<Longrightarrow> gomap_ok (fold (\<lambda>e m. gomap_set m (Key e) (Value e)) es m)"
  by (induction es arbitrary: m) simp_all

lemma del_entry_map: "gomap_get (del_entry e m) = follow_map [Key e \<mapsto> Value e] (gomap_get m)"
  by (auto simp: del_entry_def follow_map_def fun_eq_iff split: option.splits)

lemma last_entry_notin: "k \<notin> Key ` set es \<Longrightarrow> last_entry es k = None"
  by (induction es) (auto simp: last_entry_simps map_add_def)

lemma fold_del_map:
  "distinct (map Key es) \<Longrightarrow> gomap_get (fold del_entry es m) = follow_map (last_entry es) (gomap_get m)"
proof (induction es arbitrary: m)
  case Nil
  then show ?case by (auto simp: last_entry_simps follow_map_def fun_eq_iff split: option.splits)
next
  case (Cons e es)
  have "follow_map (last_entry es) (follow_map [Key e \<mapsto> Value e] f) = follow_map (last_entry (e # es)) f" for f
    using Cons.prems last_entry_notin[of "Key e" es]
    by (auto simp: follow_map_def last_entry_simps map_add_def fun_eq_iff split: option.splits)
  with Cons show ?case by (simp add: del_entry_map)
qed

lemma fold_del_ok: "gomap_ok m \<Longrightarrow> gomap_ok (fold del_entry es m)"
  by (induction es arbitrary: m) (auto simp: del_entry_def split: option.splits)

text \<open>A canonical string as the numbers and attributes it lists.\<close>

lemma attr_canonE:
  assumes p: "pool_wf p" and "attr_canon p s"
  obtains nums as where "s = attr_string nums" "list_all fits nums"
    "map (\<lambda>n. gomap_get (NumToAttrib p) n) nums = map Some as" "distinct (map Key as)" "attr_map p s = last_entry as"
proof -
  let ?nums = "sorted_list_of_set (entry_nums p (attr_map p s))" and ?get = "\<lambda>n. gomap_get (NumToAttrib p) n"
  let ?as = "map (\<lambda>n. the (?get n)) ?nums"
  have s: "s = attr_string ?nums" using assms(2) by (simp add: attr_canon_def canon_def)
  have get: "\<exists>a. ?get n = Some a \<and> attr_map p s (Key a) = Some (Value a)" if "n \<in> set ?nums" for n
    using that finite_entry_nums[of p "attr_map p s"] by (simp add: entry_nums_def)
  have f: "list_all fits ?nums"
    using get pool_num_fits[OF pool_wfD(1)[OF p] pool_wfD(2)[OF p]] by (fastforce simp: list_all_iff)
  have g: "map ?get ?nums = map Some ?as" using get by fastforce
  have "inj_on (\<lambda>n. Key (the (?get n))) (set ?nums)"
  proof (rule inj_onI)
    fix i j assume ij: "i \<in> set ?nums" "j \<in> set ?nums" "Key (the (?get i)) = Key (the (?get j))"
    from get[OF ij(1)] obtain a where a: "?get i = Some a" "attr_map p s (Key a) = Some (Value a)" by blast
    from get[OF ij(2)] obtain b where b: "?get j = Some b" "attr_map p s (Key b) = Some (Value b)" by blast
    from a b ij(3) have "a = b" by (cases a; cases b) simp
    with a b show "i = j" using apool.number_unique[OF pool_wfD(1)[OF p]] by blast
  qed
  then have "distinct (map Key ?as)" by (simp add: distinct_map comp_def)
  moreover have "attr_map p s = last_entry ?as"
    using attr_map_entries[OF p] AttribsFromString_attr_string[OF f g] s by metis
  ultimately show ?thesis using that s f g by blast
qed

lemma follow_map_sub: "follow_map m1 m2 k = Some v \<Longrightarrow> m2 k = Some v"
  by (auto simp: follow_map_def split: option.splits if_splits)

lemma followAttributes_map:
  assumes p: "pool_wf p" and c: "attr_canon p a1" "attr_canon p a2" and order: "\<And>m. mset (order m) = mset m"
  shows "\<exists>r. followAttributes order a1 a2 (Some p) = Inr (r, Some p) \<and> attribs_wf r \<and>
    attr_map p r = follow_map (attr_map p a1) (attr_map p a2) \<and> (a1 = [] \<longrightarrow> r = a2)"
proof (cases "a1 = [] \<or> a2 = []")
  case True
  then show ?thesis
    using attr_canon_wf[OF p c(2)] by (auto simp: followAttributes_def follow_map_def fun_eq_iff split: option.splits)
next
  case False
  from attr_canonE[OF p c(1)] obtain n1 as1 where 1: "a1 = attr_string n1" "list_all fits n1"
    "map (\<lambda>n. gomap_get (NumToAttrib p) n) n1 = map Some as1" "distinct (map Key as1)" "attr_map p a1 = last_entry as1" .
  from attr_canonE[OF p c(2)] obtain n2 as2 where 2: "a2 = attr_string n2" "list_all fits n2"
    "map (\<lambda>n. gomap_get (NumToAttrib p) n) n2 = map Some as2" "attr_map p a2 = last_entry as2" by metis
  let ?atts = "fold del_entry as1 (fold (\<lambda>e m. gomap_set m (Key e) (Value e)) as2 [])"
  let ?E = "map (\<lambda>(key, value). \<lparr>Key = key, Value = value\<rparr>) (order ?atts)"
  let ?m = "follow_map (attr_map p a1) (attr_map p a2)"
  have m: "gomap_get ?atts = ?m"
    using 1 2 fold_put_map[of as2 "[]"] by (simp add: fold_del_map map_add_def fun_eq_iff)
      (simp add: follow_map_def split: option.splits)
  have ok: "gomap_ok ?atts" by (simp add: fold_del_ok fold_put_ok)
  have set: "set (order ?atts) = set ?atts" using order[of ?atts] by (rule mset_eq_setD)
  have "mset (map fst (order ?atts)) = mset (map fst ?atts)" by (simp only: mset_map order)
  then have dist: "distinct (map fst (order ?atts))"
    using ok mset_eq_imp_distinct_iff unfolding gomap_ok_def by blast
  have E: "e \<in> set ?E \<longleftrightarrow> ?m (Key e) = Some (Value e)" for e
    unfolding in_entries using set gomap_ok_in[OF ok] m by simp
  have inp: "in_pool p ?m"
    using in_pool_attr_map[OF p, of a2] follow_map_sub unfolding in_pool_def by blast
  have "gomap_ok (order ?atts)" using dist by (simp only: gomap_ok_def)
  note nums = entries_nums[OF pool_wfD(1)[OF p] inp distinct_entries[OF this] E]
  let ?nums = "map (entry_num p) ?E"
  have s: "set ?nums = entry_nums p ?m" unfolding set_map[of "entry_num p"] by (rule nums(3))
  have "list_all (\<lambda>n. 0 \<le> n) ?nums" by (rule nums(4))
  then have "attribs_wf (attr_string ?nums)" by (rule attribs_wf_attr_string)
  moreover have "followAttributes order a1 a2 (Some p) = Inr (attr_string ?nums, Some p)"
  proof -
    have "replaceAttributes a2 (follow_put p) [] = (([], None), fold (\<lambda>e m. gomap_set m (Key e) (Value e)) as2 [])"
      using 2(1) replace_put[OF 2(2) 2(3)] by simp
    moreover have "replaceAttributes a1 (follow_del p) atts = (([], None), fold del_entry as1 atts)" for atts
      using 1(1) replace_del[OF 1(2) 1(3)] by simp
    moreover have "attribsToNums ?E p = (?nums, p)"
      unfolding attribsToNums_def by (rule apool.put_seq_known[OF pool_wfD(1)[OF p] nums(1)])
    moreover have "attr_string ?nums = concat (map (\<lambda>n. 42 # NumToString n) ?nums)"
      by (simp only: attr_string_def attr_token_def[abs_def])
    ultimately show ?thesis using False by (simp only: followAttributes_def option.case prod.case Let_def if_False de_Morgan_disj)
  qed
  moreover have "attr_map p (attr_string ?nums) = ?m" by (rule attr_map_nums[OF p inp nums(2) s])
  ultimately show ?thesis using False by blast
qed

end
