(* ===== verification/AssemblerSpec.thy ===== *)
theory AssemblerSpec
  imports Assemblers
begin

text \<open>
  What the assemblers print, as functions on operation lists, and why it is safe: the
  printed operations parse back, and they do to a text what the given ones did. The proofs
  are functional refinements: a concrete assembler is the image of a list of operations.
\<close>

subsection \<open>Operations an assembler can be given\<close>

definition op_plain :: "Op \<Rightarrow> bool" where
  "op_plain op' \<longleftrightarrow> OpCode op' \<noteq> NoCode \<and> 0 \<le> Lines op' \<and> Lines op' \<le> Chars op' \<and> attribs_wf (Attribs op')"

definition total :: "Op list \<Rightarrow> int" where
  "total ops = sum_list (map Chars ops)"

definition ops_plain :: "Op list \<Rightarrow> bool" where
  "ops_plain ops \<longleftrightarrow> list_all op_plain ops \<and> total ops < 2 ^ 63"

lemma total_simps [simp]:
  "total [] = 0" "total (op' # ops) = Chars op' + total ops" "total (xs @ ys) = total xs + total ys"
  by (simp_all add: total_def)

lemma total_nonneg: "list_all op_plain ops \<Longrightarrow> 0 \<le> total ops"
  by (induction ops) (auto simp: op_plain_def)

lemma ops_plain_wf: "ops_plain ops \<Longrightarrow> list_all op_wf ops"
proof (induction ops)
  case (Cons op' ops)
  then have "list_all op_plain ops" "op_plain op'" "Chars op' + total ops < 2 ^ 63"
    by (simp_all add: ops_plain_def)
  with total_nonneg[of ops] Cons show ?case by (simp add: ops_plain_def op_wf_def op_plain_def)
qed simp

lemma ops_plain_le: "list_all op_plain ys \<Longrightarrow> total ys \<le> total xs \<Longrightarrow> ops_plain xs \<Longrightarrow> ops_plain ys"
  by (simp add: ops_plain_def)

lemma runs_plain:
  "runs n ops b t out b' t' \<Longrightarrow> list_all (\<lambda>op'. attribs_wf (Attribs op')) ops \<Longrightarrow> list_all op_plain ops"
  using runs_ops_nonneg by (fastforce simp: list_all_iff op_plain_def)

lemma refines_ifI:
  assumes "list_all (\<lambda>op'. OpCode op' \<noteq> NoCode \<and> 0 \<le> Lines op') xs \<Longrightarrow> refines xs ys"
  shows "refines xs ys"
  unfolding refines_def
proof (intro allI impI)
  fix n b t out b' t' assume r: "runs n xs b t out b' t'"
  then have "list_all (\<lambda>op'. OpCode op' \<noteq> NoCode \<and> 0 \<le> Lines op') xs"
    using runs_ops_nonneg[OF r] by (auto simp: list_all_iff)
  with assms r show "runs n ys b t out b' t'" by (simp add: refines_def)
qed

subsection \<open>The merging assembler\<close>

text \<open>The buffered operation and the characters held back after its last newline.\<close>

definition flushed :: "Op \<Rightarrow> int \<Rightarrow> Op list" where
  "flushed b x =
     (if OpCode b = NoCode then [] else b # (if x \<noteq> 0 then [b\<lparr>Chars := x, Lines := 0\<rparr>] else []))"

fun merge_from :: "bool \<Rightarrow> Op \<Rightarrow> int \<Rightarrow> Op list \<Rightarrow> Op list" where
  "merge_from fin b x [] =
     (if fin \<and> OpCode b = Keep \<and> Attribs b = [] then [] else flushed b x)"
| "merge_from fin b x (op' # ops) =
     (if Chars op' \<le> 0 then merge_from fin b x ops
      else if OpCode b = OpCode op' \<and> Attribs b = Attribs op' then
        (if Lines op' > 0 then
           merge_from fin (b\<lparr>Chars := Chars b + (x + Chars op'), Lines := Lines b + Lines op'\<rparr>) 0 ops
         else if Lines b = 0 then merge_from fin (b\<lparr>Chars := Chars b + Chars op'\<rparr>) x ops
         else merge_from fin b (x + Chars op') ops)
      else flushed b x @ merge_from fin op' 0 ops)"

definition merge_ops :: "bool \<Rightarrow> Op list \<Rightarrow> Op list" where
  "merge_ops fin ops = merge_from fin (NewOp None) 0 ops"

lemma MOA_flush_False:
  "(OpCode (bufOp m) = NoCode \<longrightarrow> bufOpAdditionalCharsAfterNewline m = 0) \<Longrightarrow>
   serialized (assem (MOA_flush False m)) = serialized (assem m) @
     concat (map Op_String (flushed (bufOp m) (bufOpAdditionalCharsAfterNewline m))) \<and>
   bufOpAdditionalCharsAfterNewline (MOA_flush False m) = 0"
  by (auto simp: MOA_flush_def flushed_def Let_def OA_Append_def)

lemma MOA_String_from:
  "(OpCode (bufOp m) = NoCode \<longrightarrow> bufOpAdditionalCharsAfterNewline m = 0) \<Longrightarrow>
   list_all (\<lambda>op'. OpCode op' \<noteq> NoCode) ops \<Longrightarrow>
   fst (MOA_String ((if fin then MOA_EndDocument else id) (fold MOA_Append ops m))) =
     serialized (assem m) @ concat (map Op_String (merge_from fin (bufOp m) (bufOpAdditionalCharsAfterNewline m) ops))"
proof (induction ops arbitrary: m)
  case Nil
  then show ?case
    by (auto simp: MOA_String_def MOA_EndDocument_def OA_String_def MOA_flush_False)
      (auto simp: MOA_flush_def flushed_def Let_def OA_Append_def)
next
  case (Cons op' ops)
  let ?m = "MOA_Append op' m"
  have "OpCode (bufOp ?m) = NoCode \<longrightarrow> bufOpAdditionalCharsAfterNewline ?m = 0"
    using Cons.prems MOA_flush_False[OF Cons.prems(1)] by (auto simp: MOA_Append_def Let_def)
  with Cons.IH[of ?m] Cons.prems show ?case
    using MOA_flush_False[OF Cons.prems(1)] by (auto simp: MOA_Append_def Let_def)
qed

lemma MOA_new [simp]:
  "assem NewMergingOpAssembler = NewOpAssembler" "bufOp NewMergingOpAssembler = NewOp None"
  "bufOpAdditionalCharsAfterNewline NewMergingOpAssembler = 0" "serialized NewOpAssembler = []"
  by (simp_all add: NewMergingOpAssembler_def NewOpAssembler_def)

lemma MOA_String_ops:
  "list_all (\<lambda>op'. OpCode op' \<noteq> NoCode) ops \<Longrightarrow>
   fst (MOA_String (fold MOA_Append ops NewMergingOpAssembler)) = concat (map Op_String (merge_ops False ops))"
  using MOA_String_from[of NewMergingOpAssembler ops False] by (simp add: merge_ops_def)

lemma MOA_EndDocument_ops:
  "list_all (\<lambda>op'. OpCode op' \<noteq> NoCode) ops \<Longrightarrow>
   fst (MOA_String (MOA_EndDocument (fold MOA_Append ops NewMergingOpAssembler))) =
     concat (map Op_String (merge_ops True ops))"
  using MOA_String_from[of NewMergingOpAssembler ops True] by (simp add: merge_ops_def)

lemma MOA_Clear_new [simp]: "MOA_Clear m = NewMergingOpAssembler"
  by (cases m) (simp add: MOA_Clear_def NewMergingOpAssembler_def OA_Clear_def NewOpAssembler_def
      clearOp_def NewOp_def OpAssembler.defs MergingOpAssembler.defs Op.defs)

subsection \<open>Merging is a refinement\<close>

lemma refines_flushed_op:
  assumes inv: "OpCode b = NoCode \<longrightarrow> x = 0" "x \<noteq> 0 \<longrightarrow> Lines b \<noteq> 0" and op': "0 \<le> Lines op'"
    and same: "OpCode b = OpCode op'" "Attribs b = Attribs op'" "OpCode op' \<noteq> NoCode"
  shows "refines (flushed b x @ [op'])
    (if Lines op' > 0 then [b\<lparr>Chars := Chars b + (x + Chars op'), Lines := Lines b + Lines op'\<rparr>]
     else if Lines b = 0 then [b\<lparr>Chars := Chars b + Chars op'\<rparr>] else flushed b (x + Chars op'))"
    (is "refines _ ?rhs")
proof -
  let ?bx = "b\<lparr>Chars := x, Lines := 0\<rparr>"
  have bx: "OpCode ?bx = OpCode b" by simp
  consider (last) "0 < Lines op'" | (line) "Lines op' = 0" "Lines b = 0" | (tail) "Lines op' = 0" "Lines b \<noteq> 0"
    using op' by linarith
  then show ?thesis
  proof cases
    case last
    let ?j = "b\<lparr>Chars := Chars b + (x + Chars op'), Lines := Lines b + Lines op'\<rparr>"
    show ?thesis
    proof (cases "x = 0")
      case True
      with last same have "refines [b, op'] [?j]" by (intro refines_join) (simp add: joined_def)
      with last True same show ?thesis by (simp add: flushed_def)
    next
      case False
      let ?k = "b\<lparr>Chars := x + Chars op', Lines := Lines op'\<rparr>"
      have "refines [?bx, op'] [?k]" using same by (intro refines_join) (simp add: joined_def)
      then have "refines ([b] @ [?bx, op']) ([b] @ [?k])" by (intro refines_append) simp_all
      also have "refines ([b] @ [?k]) [?j]" using same last by (simp) (intro refines_join, simp add: joined_def)
      finally show ?thesis using last False same by (simp add: flushed_def)
    qed
  next
    case line
    with inv have "x = 0" by auto
    with line same have "refines [b, op'] [b\<lparr>Chars := Chars b + Chars op'\<rparr>]"
      by (intro refines_join) (simp add: joined_def)
    with line \<open>x = 0\<close> same show ?thesis by (simp add: flushed_def)
  next
    case tail
    show ?thesis
    proof (cases "x = 0")
      case True
      have "refines [op'] [b\<lparr>Chars := Chars op', Lines := 0\<rparr>]"
        using same tail by (auto simp: refines_def runs_Cons_iff spans_def)
      then have "refines ([b] @ [op']) ([b] @ [b\<lparr>Chars := Chars op', Lines := 0\<rparr>])"
        by (intro refines_append) simp_all
      moreover have "refines ([b] @ [op']) [b]" if "Chars op' = 0"
        using refines_append[of "[b]" "[b]" "[op']" "[]"] refines_empty[of op'] that by simp
      ultimately show ?thesis using tail True same by (simp add: flushed_def)
    next
      case False
      let ?k = "b\<lparr>Chars := x + Chars op', Lines := 0\<rparr>"
      have "refines [?bx, op'] [?k]" using same tail by (intro refines_join) (simp add: joined_def)
      then have k: "refines ([b] @ [?bx, op']) ([b] @ [?k])" by (intro refines_append) simp_all
      moreover have "refines ([b] @ [?k]) [b]" if "x + Chars op' = 0"
        using refines_append[of "[b]" "[b]" "[?k]" "[]"] refines_empty[of ?k] that by simp
      ultimately show ?thesis using tail False same by (auto simp: flushed_def intro: refines_trans)
    qed
  qed
qed

lemma refines_merge_from:
  assumes "OpCode b = NoCode \<longrightarrow> x = 0" "x \<noteq> 0 \<longrightarrow> Lines b \<noteq> 0" "0 \<le> x" "0 \<le> Lines b"
    and "list_all (\<lambda>op'. OpCode op' \<noteq> NoCode \<and> 0 \<le> Lines op') ops"
  shows "refines (flushed b x @ ops) (merge_from False b x ops)"
  using assms
proof (induction ops arbitrary: b x)
  case (Cons op' ops)
  have op': "OpCode op' \<noteq> NoCode" "0 \<le> Lines op'" using Cons.prems by simp_all
  consider (none) "Chars op' \<le> 0"
    | (same) "0 < Chars op'" "OpCode b = OpCode op'" "Attribs b = Attribs op'"
    | (other) "0 < Chars op'" "\<not> (OpCode b = OpCode op' \<and> Attribs b = Attribs op')" by linarith
  then show ?case
  proof cases
    case none
    have "refines (flushed b x @ [op'] @ ops) (flushed b x @ [] @ ops)"
      using none by (intro refines_append refines_empty) simp_all
    with Cons none show ?thesis by (auto intro: refines_trans)
  next
    case same
    let ?mid = "if Lines op' > 0 then [b\<lparr>Chars := Chars b + (x + Chars op'), Lines := Lines b + Lines op'\<rparr>]
     else if Lines b = 0 then [b\<lparr>Chars := Chars b + Chars op'\<rparr>] else flushed b (x + Chars op')"
    have "refines ((flushed b x @ [op']) @ ops) (?mid @ ops)"
      using Cons.prems op' same by (intro refines_append refines_flushed_op) simp_all
    moreover have "refines (?mid @ ops) (merge_from False b x (op' # ops))"
    proof -
      consider (last) "0 < Lines op'" | (line) "Lines op' = 0" "Lines b = 0" | (tail) "Lines op' = 0" "Lines b \<noteq> 0"
        using op'(2) by linarith
      then show ?thesis
      proof cases
        case last
        with Cons.IH[of "b\<lparr>Chars := Chars b + (x + Chars op'), Lines := Lines b + Lines op'\<rparr>" 0] Cons.prems same op'
        show ?thesis by (simp add: flushed_def)
      next
        case line
        with Cons.prems have "x = 0" by auto
        with Cons.IH[of "b\<lparr>Chars := Chars b + Chars op'\<rparr>" 0] Cons.prems same op' line
        show ?thesis by (simp add: flushed_def)
      next
        case tail
        with Cons.IH[of b "x + Chars op'"] Cons.prems same op'
        show ?thesis by simp
      qed
    qed
    ultimately show ?thesis by (auto intro: refines_trans)
  next
    case other
    with Cons.IH[of op' 0] Cons.prems op' have "refines (op' # ops) (merge_from False op' 0 ops)"
      by (simp add: flushed_def)
    with other show ?thesis by (auto intro: refines_append)
  qed
qed simp

lemma refines_merge_ops: "refines ops (merge_ops False ops)"
proof (rule refines_ifI)
  assume "list_all (\<lambda>op'. OpCode op' \<noteq> NoCode \<and> 0 \<le> Lines op') ops"
  then show "refines ops (merge_ops False ops)"
    using refines_merge_from[of "NewOp None" 0 ops] by (simp add: merge_ops_def flushed_def NewOp_def)
qed

text \<open>Ending the document drops a last plain keep and nothing else.\<close>

definition plain_keeps :: "Op list \<Rightarrow> bool" where
  "plain_keeps ks \<longleftrightarrow> list_all (\<lambda>k. OpCode k = Keep \<and> Attribs k = []) ks"

lemma merge_from_fin:
  "\<exists>ks. merge_from False b x ops = merge_from True b x ops @ ks \<and> plain_keeps ks"
proof (induction ops arbitrary: b x)
  case Nil
  then show ?case by (auto simp: plain_keeps_def flushed_def)
qed auto

lemma merge_ops_fin: "\<exists>ks. merge_ops False ops = merge_ops True ops @ ks \<and> plain_keeps ks"
  using merge_from_fin by (simp add: merge_ops_def)

lemma plain_keeps_Keep: "plain_keeps ks \<Longrightarrow> list_all (\<lambda>k. OpCode k = Keep) ks"
  by (auto simp: plain_keeps_def list_all_iff)

lemma merge_from_plain:
  "OpCode b \<noteq> NoCode \<longrightarrow> op_plain b \<Longrightarrow> 0 \<le> x \<Longrightarrow> list_all op_plain ops \<Longrightarrow>
   list_all op_plain (merge_from fin b x ops) \<and>
   total (merge_from fin b x ops) \<le> (if OpCode b = NoCode then 0 else Chars b + x) + total ops"
proof (induction ops arbitrary: b x)
  case Nil
  then show ?case by (auto simp: flushed_def op_plain_def)
next
  case (Cons op' ops)
  have op': "op_plain op'" using Cons.prems by simp
  have nn: "0 \<le> total ops" using Cons.prems by (simp add: total_nonneg)
  show ?case
  proof (cases "Chars op' \<le> 0")
    case True
    with op' have "Chars op' = 0" by (simp add: op_plain_def)
    with Cons show ?thesis by simp
  next
    case False
    note pos = this
    show ?thesis
    proof (cases "OpCode b = OpCode op' \<and> Attribs b = Attribs op'")
      case True
      with op' Cons.prems have b: "op_plain b" "OpCode b \<noteq> NoCode" by (auto simp: op_plain_def)
      let ?b1 = "b\<lparr>Chars := Chars b + (x + Chars op'), Lines := Lines b + Lines op'\<rparr>"
      let ?b2 = "b\<lparr>Chars := Chars b + Chars op'\<rparr>"
      have "op_plain ?b1" "op_plain ?b2" using b op' Cons.prems(2) by (auto simp: op_plain_def)
      then show ?thesis
        using Cons.IH[of ?b1 0] Cons.IH[of ?b2 x] Cons.IH[of b "x + Chars op'"] Cons.prems b True pos
        by (simp add: algebra_simps)
    next
      case False
      have f: "list_all op_plain (flushed b x)" "total (flushed b x) \<le> (if OpCode b = NoCode then 0 else Chars b + x)"
        using Cons.prems by (auto simp: flushed_def op_plain_def)
      have "OpCode op' \<noteq> NoCode" using op' by (simp add: op_plain_def)
      with Cons.IH[of op' 0] Cons.prems op' have
        "list_all op_plain (merge_from fin op' 0 ops)" "total (merge_from fin op' 0 ops) \<le> Chars op' + total ops"
        by simp_all
      moreover have "merge_from fin b x (op' # ops) = flushed b x @ merge_from fin op' 0 ops"
        using pos False by auto
      ultimately show ?thesis using f by simp
    qed
  qed
qed

lemma merge_ops_plain:
  "list_all op_plain ops \<Longrightarrow> list_all op_plain (merge_ops fin ops) \<and> total (merge_ops fin ops) \<le> total ops"
  using merge_from_plain[of "NewOp None" 0 ops fin] by (simp add: merge_ops_def NewOp_def)

subsection \<open>The smart assembler\<close>

text \<open>
  Its state as lists of operations: those already printed, and those given to each of the
  three merging assemblers since it was last cleared.
\<close>

record smart_abs =
  printed :: "Op list"
  minuses :: "Op list"
  pluses :: "Op list"
  keeps :: "Op list"
  last_code :: opcode

definition smart_init :: smart_abs where
  "smart_init = \<lparr>printed = [], minuses = [], pluses = [], keeps = [], last_code = NoCode\<rparr>"

definition print_keeps :: "smart_abs \<Rightarrow> smart_abs" where
  "print_keeps a = a\<lparr>printed := printed a @ merge_ops False (keeps a), keeps := []\<rparr>"

definition print_plus_minus :: "smart_abs \<Rightarrow> smart_abs" where
  "print_plus_minus a =
     a\<lparr>printed := printed a @ merge_ops False (minuses a) @ merge_ops False (pluses a),
       minuses := [], pluses := []\<rparr>"

definition smart_append :: "Op \<Rightarrow> smart_abs \<Rightarrow> smart_abs" where
  "smart_append op' a =
     (if OpCode op' = NoCode \<or> Chars op' = 0 then a
      else
        (case OpCode op' of
           Minus \<Rightarrow> let a0 = (if last_code a = Keep then print_keeps a else a)
                    in a0\<lparr>minuses := minuses a0 @ [op'], last_code := Minus\<rparr>
         | Plus \<Rightarrow> let a0 = (if last_code a = Keep then print_keeps a else a)
                   in a0\<lparr>pluses := pluses a0 @ [op'], last_code := Plus\<rparr>
         | Keep \<Rightarrow> let a0 = (if last_code a \<noteq> Keep then print_plus_minus a else a)
                   in a0\<lparr>keeps := keeps a0 @ [op'], last_code := Keep\<rparr>
         | NoCode \<Rightarrow> a))"

definition smart_result :: "bool \<Rightarrow> smart_abs \<Rightarrow> Op list" where
  "smart_result fin a =
     printed a @ merge_ops False (minuses a) @ merge_ops False (pluses a) @ merge_ops fin (keeps a)"

definition smart_ops :: "bool \<Rightarrow> Op list \<Rightarrow> Op list" where
  "smart_ops fin ops = smart_result fin (fold smart_append ops smart_init)"

text \<open>Well-formedness of the abstract state: each list holds its own code.\<close>

definition smart_ok :: "smart_abs \<Rightarrow> bool" where
  "smart_ok a \<longleftrightarrow>
     list_all (\<lambda>op'. OpCode op' = Minus) (minuses a) \<and>
     list_all (\<lambda>op'. OpCode op' = Plus) (pluses a) \<and>
     list_all (\<lambda>op'. OpCode op' = Keep) (keeps a) \<and>
     (if last_code a = Keep then minuses a = [] \<and> pluses a = [] else keeps a = [])"

lemma smart_ok_init [simp]: "smart_ok smart_init"
  by (simp add: smart_ok_def smart_init_def)

lemma smart_ok_append: "smart_ok a \<Longrightarrow> smart_ok (smart_append op' a)"
  by (auto simp: smart_ok_def smart_append_def print_keeps_def print_plus_minus_def Let_def split: opcode.splits)

lemma smart_ok_fold: "smart_ok a \<Longrightarrow> smart_ok (fold smart_append ops a)"
  by (induction ops arbitrary: a) (auto simp: smart_ok_append)

text \<open>The concrete assembler that holds an abstract state, whatever its running length.\<close>

definition moa :: "Op list \<Rightarrow> MergingOpAssembler" where
  "moa ops = fold MOA_Append ops NewMergingOpAssembler"

lemma moa_Nil [simp]: "moa [] = NewMergingOpAssembler"
  by (simp add: moa_def)

lemma MOA_Append_moa [simp]: "MOA_Append op' (moa ops) = moa (ops @ [op'])"
  by (simp add: moa_def)

definition smart_conc :: "smart_abs \<Rightarrow> int \<Rightarrow> SmartOpAssembler" where
  "smart_conc a len =
     \<lparr>minusAssem = moa (minuses a), plusAssem = moa (pluses a), keepAssem = moa (keeps a),
      smart_assem = \<lparr>sa_str = concat (map Op_String (printed a))\<rparr>,
      lastOpcode = last_code a, lengthChange = len\<rparr>"

lemma smart_conc_init: "NewSmartOpAssembler = smart_conc smart_init 0"
  by (simp add: NewSmartOpAssembler_def smart_conc_def smart_init_def NewStringAssembler_def)

lemma code_list: "list_all (\<lambda>op'. OpCode op' = c) ops \<Longrightarrow> c \<noteq> NoCode \<Longrightarrow> list_all (\<lambda>op'. OpCode op' \<noteq> NoCode) ops"
  by (auto simp: list_all_iff)

lemma MOA_String_moa:
  "list_all (\<lambda>op'. OpCode op' = c) ops \<Longrightarrow> c \<noteq> NoCode \<Longrightarrow>
   \<exists>m. MOA_String (moa ops) = (concat (map Op_String (merge_ops False ops)), m)"
  using MOA_String_ops[OF code_list] by (metis moa_def prod.collapse)

lemma FlushKeeps_conc: "smart_ok a \<Longrightarrow> FlushKeeps (smart_conc a len) = smart_conc (print_keeps a) len"
proof -
  assume ok: "smart_ok a"
  then have "list_all (\<lambda>op'. OpCode op' = Keep) (keeps a)" by (simp add: smart_ok_def)
  then obtain m where "MOA_String (moa (keeps a)) = (concat (map Op_String (merge_ops False (keeps a))), m)"
    using MOA_String_moa by blast
  then show ?thesis by (simp add: FlushKeeps_def smart_conc_def print_keeps_def SA_Append_def)
qed

lemma flushPlusMinus_conc:
  "smart_ok a \<Longrightarrow> flushPlusMinus (smart_conc a len) = smart_conc (print_plus_minus a) len"
proof -
  assume ok: "smart_ok a"
  then obtain m p where "MOA_String (moa (minuses a)) = (concat (map Op_String (merge_ops False (minuses a))), m)"
    "MOA_String (moa (pluses a)) = (concat (map Op_String (merge_ops False (pluses a))), p)"
    using MOA_String_moa by (metis smart_ok_def opcode.distinct)
  then show ?thesis
    by (simp add: flushPlusMinus_def smart_conc_def print_plus_minus_def SA_Append_def)
qed

lemma SOA_Append_conc:
  assumes "smart_ok a"
  shows "\<exists>len'. SOA_Append op' (smart_conc a len) = smart_conc (smart_append op' a) len'"
proof (cases "OpCode op' = NoCode \<or> Chars op' = 0")
  case True
  then show ?thesis by (auto simp: SOA_Append_def smart_append_def)
next
  case False
  have last: "lastOpcode (smart_conc a len) = last_code a" by (simp add: smart_conc_def)
  show ?thesis
  proof (cases "OpCode op'")
    case Minus
    with False show ?thesis
      by (intro exI[of _ "len - Chars op'"])
        (simp add: SOA_Append_def smart_append_def last FlushKeeps_conc[OF assms] Let_def,
          simp add: smart_conc_def print_keeps_def)
  next
    case Plus
    with False show ?thesis
      by (intro exI[of _ "len + Chars op'"])
        (simp add: SOA_Append_def smart_append_def last FlushKeeps_conc[OF assms] Let_def,
          simp add: smart_conc_def print_keeps_def)
  next
    case Keep
    with False show ?thesis
      by (intro exI[of _ len])
        (simp add: SOA_Append_def smart_append_def last flushPlusMinus_conc[OF assms] Let_def,
          simp add: smart_conc_def print_plus_minus_def)
  qed (use False in simp)
qed

lemma SOA_fold_conc:
  "smart_ok a \<Longrightarrow> \<exists>len'. fold SOA_Append ops (smart_conc a len) = smart_conc (fold smart_append ops a) len'"
proof (induction ops arbitrary: a len)
  case (Cons op' ops)
  from SOA_Append_conc[OF Cons.prems] obtain len1
    where "SOA_Append op' (smart_conc a len) = smart_conc (smart_append op' a) len1" by blast
  with Cons.IH[OF smart_ok_append[OF Cons.prems], of op' len1] show ?case by simp
qed auto

lemma smart_print_ok: "smart_ok a \<Longrightarrow> smart_ok (print_plus_minus a)"
  by (auto simp: smart_ok_def print_plus_minus_def)

lemma SOA_String_conc:
  assumes "smart_ok a"
  shows "fst (SOA_String (smart_conc a len)) = concat (map Op_String (smart_result False a))"
  using assms smart_print_ok[OF assms]
  by (simp add: SOA_String_def flushPlusMinus_conc FlushKeeps_conc Let_def SA_String_def)
    (simp add: smart_conc_def print_keeps_def print_plus_minus_def smart_result_def)

lemma SOA_EndDocument_conc:
  assumes "smart_ok a"
  shows "fst (SOA_String (SOA_EndDocument (smart_conc a len))) = concat (map Op_String (smart_result True a))"
proof -
  from assms obtain m p where
    "MOA_String (moa (minuses a)) = (concat (map Op_String (merge_ops False (minuses a))), m)"
    "MOA_String (moa (pluses a)) = (concat (map Op_String (merge_ops False (pluses a))), p)"
    using MOA_String_moa by (metis smart_ok_def opcode.distinct)
  moreover have "list_all (\<lambda>op'. OpCode op' \<noteq> NoCode) (keeps a)"
    using assms by (auto simp: smart_ok_def list_all_iff)
  then obtain k where "MOA_String (MOA_EndDocument (moa (keeps a))) =
      (concat (map Op_String (merge_ops True (keeps a))), k)"
    using MOA_EndDocument_ops by (metis moa_def prod.collapse)
  ultimately show ?thesis
    by (simp add: SOA_String_def SOA_EndDocument_def flushPlusMinus_def FlushKeeps_def smart_conc_def
        SA_Append_def SA_String_def smart_result_def)
qed

lemma SOA_String_ops:
  "fst (SOA_String (fold SOA_Append ops NewSmartOpAssembler)) = concat (map Op_String (smart_ops False ops))"
  unfolding smart_conc_init smart_ops_def
  using SOA_fold_conc[OF smart_ok_init, of ops 0] SOA_String_conc[OF smart_ok_fold[OF smart_ok_init]] by auto

lemma SOA_EndDocument_ops:
  "fst (SOA_String (SOA_EndDocument (fold SOA_Append ops NewSmartOpAssembler))) =
     concat (map Op_String (smart_ops True ops))"
  unfolding smart_conc_init smart_ops_def
  using SOA_fold_conc[OF smart_ok_init, of ops 0] SOA_EndDocument_conc[OF smart_ok_fold[OF smart_ok_init]] by auto

subsection \<open>The smart assembler refines its input\<close>

lemma merge_from_code:
  "list_all (\<lambda>op'. OpCode op' = c) ops \<Longrightarrow> OpCode b \<in> {NoCode, c} \<Longrightarrow>
   list_all (\<lambda>op'. OpCode op' = c) (merge_from fin b x ops)"
  by (induction ops arbitrary: b x) (auto simp: flushed_def)

lemma merge_ops_code:
  "list_all (\<lambda>op'. OpCode op' = c) ops \<Longrightarrow> list_all (\<lambda>op'. OpCode op' = c) (merge_ops fin ops)"
  unfolding merge_ops_def by (rule merge_from_code) (auto simp: NewOp_def)

text \<open>What the assembler holds, in the order it will be printed.\<close>

definition pending :: "smart_abs \<Rightarrow> Op list" where
  "pending a = printed a @ minuses a @ pluses a @ keeps a"

lemma pending_init [simp]: "pending smart_init = []"
  by (simp add: pending_def smart_init_def)

lemma refines_middle: "refines ys zs \<Longrightarrow> refines (xs @ ys @ ws) (xs @ zs @ ws)"
  by (simp add: refines_append)

lemma refines_print_keeps: "smart_ok a \<Longrightarrow> minuses a = [] \<Longrightarrow> pluses a = [] \<Longrightarrow>
    refines (pending a) (pending (print_keeps a))"
  using refines_middle[OF refines_merge_ops, of "printed a" "keeps a" "[]"]
  by (simp add: pending_def print_keeps_def)

lemma refines_print_plus_minus: "refines (pending a) (pending (print_plus_minus a))"
  by (simp add: pending_def print_plus_minus_def refines_append refines_merge_ops)

lemma refines_add_minus:
  assumes "smart_ok a" "keeps a = []" "OpCode op' = Minus"
  shows "refines (pending a @ [op']) (printed a @ (minuses a @ [op']) @ pluses a)"
  using assms refines_append[OF refines_refl refines_pluses_minus, of op' "pluses a" "printed a @ minuses a"]
  by (simp add: pending_def smart_ok_def)

lemma refines_smart_append:
  assumes ok: "smart_ok a" shows "refines (pending a @ [op']) (pending (smart_append op' a))"
proof (cases "OpCode op' = NoCode \<or> Chars op' = 0")
  case True
  then have "refines [op'] []"
    by (metis refines_def runs_Cons_code(4) refines_empty order_refl)
  from refines_append[OF refines_refl this, of "pending a"] True show ?thesis
    by (simp add: smart_append_def)
next
  case False
  let ?a = "if last_code a = Keep then print_keeps a else a"
  have flush: "refines (pending a @ [op']) (pending ?a @ [op'])" "smart_ok a" "keeps ?a = []"
    "list_all (\<lambda>p. OpCode p = Plus) (pluses ?a)"
    using ok refines_append[OF refines_print_keeps[OF ok] refines_refl, of "[op']"]
    by (auto simp: smart_ok_def print_keeps_def)
  show ?thesis
  proof (cases "OpCode op'")
    case Minus
    have "refines (pending ?a @ [op']) (printed ?a @ (minuses ?a @ [op']) @ pluses ?a)"
      using flush Minus refines_append[OF refines_refl refines_pluses_minus, of op' "pluses ?a" "printed ?a @ minuses ?a"]
      by (simp add: pending_def)
    with refines_trans[OF flush(1) this] False Minus flush(3) show ?thesis
      by (simp add: smart_append_def pending_def Let_def)
  next
    case Plus
    with flush False show ?thesis by (auto simp: smart_append_def pending_def Let_def)
  next
    case Keep
    show ?thesis
      using False Keep refines_append[OF refines_print_plus_minus refines_refl, of a "[op']"]
      by (auto simp: smart_append_def pending_def print_plus_minus_def Let_def)
  qed (use False in simp)
qed

lemma refines_smart_fold:
  "smart_ok a \<Longrightarrow> refines (pending a @ ops) (pending (fold smart_append ops a))"
proof (induction ops arbitrary: a)
  case (Cons op' ops)
  have "refines ((pending a @ [op']) @ ops) (pending (smart_append op' a) @ ops)"
    using refines_append[OF refines_smart_append[OF Cons.prems]] by simp
  also note Cons.IH[OF smart_ok_append[OF Cons.prems]]
  finally show ?case by simp
qed simp

lemma refines_smart_ops: "refines ops (smart_ops False ops)"
proof -
  have "refines ops (pending (fold smart_append ops smart_init))"
    using refines_smart_fold[OF smart_ok_init, of ops] by simp
  also have "refines (pending a) (smart_result False a)" for a
    by (simp add: pending_def smart_result_def refines_append refines_merge_ops)
  finally show ?thesis by (simp add: smart_ops_def)
qed

lemma smart_ops_fin: "\<exists>ks. smart_ops False ops = smart_ops True ops @ ks \<and> plain_keeps ks"
  using merge_ops_fin[of "keeps (fold smart_append ops smart_init)"]
  by (auto simp: smart_ops_def smart_result_def)

lemma applies_smart_ops: "applies n ops b b' t r \<Longrightarrow> applies n (smart_ops fin ops) b b' t r"
proof -
  assume "applies n ops b b' t r"
  then have f: "applies n (smart_ops False ops) b b' t r" by (rule refines_applies[OF refines_smart_ops])
  obtain ks where "smart_ops False ops = smart_ops True ops @ ks" "plain_keeps ks"
    using smart_ops_fin by blast
  with f show ?thesis by (cases fin) (auto intro: applies_drop_keeps plain_keeps_Keep)
qed

lemma applies_merge_ops: "applies n ops b b' t r \<Longrightarrow> applies n (merge_ops fin ops) b b' t r"
proof -
  assume "applies n ops b b' t r"
  then have f: "applies n (merge_ops False ops) b b' t r" by (rule refines_applies[OF refines_merge_ops])
  obtain ks where "merge_ops False ops = merge_ops True ops @ ks" "plain_keeps ks"
    using merge_ops_fin by blast
  with f show ?thesis by (cases fin) (auto intro: applies_drop_keeps plain_keeps_Keep)
qed

text \<open>What it prints is printable: no longer in all than what it was given.\<close>

lemma merge_ops_le: "list_all op_plain ops \<Longrightarrow> list_all op_plain (merge_ops fin ops)"
  "list_all op_plain ops \<Longrightarrow> total (merge_ops fin ops) \<le> total ops"
  using merge_ops_plain by blast+

lemma smart_append_plain:
  assumes "op_plain op'" "list_all op_plain (pending a)"
  shows "list_all op_plain (pending (smart_append op' a)) \<and>
    total (pending (smart_append op' a)) \<le> total (pending a) + Chars op'"
proof -
  have "list_all op_plain (printed a)" "list_all op_plain (minuses a)" "list_all op_plain (pluses a)"
    "list_all op_plain (keeps a)" "0 \<le> Chars op'"
    using assms by (auto simp: pending_def op_plain_def)
  with assms(1) show ?thesis
    using merge_ops_le(2)[of "minuses a" False] merge_ops_le(2)[of "pluses a" False] merge_ops_le(2)[of "keeps a" False]
    by (auto simp: smart_append_def pending_def print_keeps_def print_plus_minus_def Let_def merge_ops_le(1)
        split: opcode.splits)
qed

lemma smart_fold_plain:
  "list_all op_plain ops \<Longrightarrow> list_all op_plain (pending a) \<Longrightarrow>
   list_all op_plain (pending (fold smart_append ops a)) \<and>
   total (pending (fold smart_append ops a)) \<le> total (pending a) + total ops"
proof (induction ops arbitrary: a)
  case (Cons op' ops)
  then have "op_plain op'" "list_all op_plain ops" by simp_all
  with smart_append_plain[of op' a] Cons.IH[of "smart_append op' a"] Cons.prems show ?case by simp
qed simp

lemma smart_ops_plain:
  assumes "list_all op_plain ops"
  shows "list_all op_plain (smart_ops fin ops) \<and> total (smart_ops fin ops) \<le> total ops"
proof -
  let ?a = "fold smart_append ops smart_init"
  have a: "list_all op_plain (pending ?a)" "total (pending ?a) \<le> total ops"
    using smart_fold_plain[OF assms, of smart_init] by simp_all
  then have "list_all op_plain (printed ?a)" "list_all op_plain (minuses ?a)" "list_all op_plain (pluses ?a)"
    "list_all op_plain (keeps ?a)" by (auto simp: pending_def)
  with a(2) show ?thesis
    using merge_ops_le(2)[of "minuses ?a" False] merge_ops_le(2)[of "pluses ?a" False] merge_ops_le(2)[of "keeps ?a" fin]
    by (simp add: smart_ops_def smart_result_def merge_ops_le(1) pending_def)
qed

subsection \<open>What an assembler owes its clients\<close>

text \<open>
  \<open>norm\<close> is the list of operations whose serialisation the assembler prints for a list of
  appended ones. Clients rely on three laws only: the printed string, that what is printed
  can be parsed back, and that its effect on a text is that of the appended operations.
\<close>

locale op_assembler =
  fixes new :: 'a and append :: "Op \<Rightarrow> 'a \<Rightarrow> 'a" and result :: "'a \<Rightarrow> gostring"
    and norm :: "Op list \<Rightarrow> Op list"
  assumes prints: "list_all op_plain ops \<Longrightarrow> result (fold append ops new) = concat (map Op_String (norm ops))"
    and norm_plain: "list_all op_plain ops \<Longrightarrow> list_all op_plain (norm ops) \<and> total (norm ops) \<le> total ops"
    and norm_applies: "applies n ops b b' t r \<Longrightarrow> applies n (norm ops) b b' t r"
begin

lemma norm_wf: "ops_plain ops \<Longrightarrow> list_all op_wf (norm ops)"
  using norm_plain[of ops] ops_plain_wf[OF ops_plain_le[of "norm ops" ops]] by (simp add: ops_plain_def)

lemma parses: "ops_plain ops \<Longrightarrow> DeserializeOps (result (fold append ops new)) = Inr (norm ops)"
  using norm_wf[of ops] prints[of ops] by (simp add: ops_plain_def DeserializeOps_print)

lemma unpacks:
  "ops_plain ops \<Longrightarrow> fits o' \<Longrightarrow> \<bar>n' - o'\<bar> < 2 ^ 63 \<Longrightarrow>
   Unpack (Pack o' n' (result (fold append ops new)) bank) =
     Inr \<lparr>OldLen = o', NewLen = n', Ops = result (fold append ops new), CharBank = bank\<rparr>"
  using norm_wf[of ops] prints[of ops] by (simp add: ops_plain_def Unpack_Pack_ops)

lemma effect:
  "ops_plain ops \<Longrightarrow> applies n ops b b' t r \<Longrightarrow>
   \<exists>ops'. DeserializeOps (result (fold append ops new)) = Inr ops' \<and> applies n ops' b b' t r"
  using parses norm_applies by blast

end

lemma plain_NoCode: "list_all op_plain ops \<Longrightarrow> list_all (\<lambda>op'. OpCode op' \<noteq> NoCode) ops"
  by (auto simp: list_all_iff op_plain_def)

lemma OA_String_ops:
  "OA_String (fold OA_Append ops oa) = serialized oa @ concat (map Op_String ops)"
  by (induction ops arbitrary: oa) (simp_all add: OA_String_def OA_Append_def)

interpretation op_asm: op_assembler NewOpAssembler OA_Append OA_String "\<lambda>ops. ops"
  by unfold_locales (simp_all add: OA_String_ops)

interpretation merging: op_assembler NewMergingOpAssembler MOA_Append "\<lambda>m. fst (MOA_String m)" "merge_ops False"
  by unfold_locales (simp_all add: MOA_String_ops plain_NoCode merge_ops_plain applies_merge_ops)

interpretation smart: op_assembler NewSmartOpAssembler SOA_Append "\<lambda>m. fst (SOA_String m)" "smart_ops False"
  by unfold_locales (simp_all add: SOA_String_ops smart_ops_plain applies_smart_ops)

interpretation smart_end: op_assembler NewSmartOpAssembler SOA_Append
  "\<lambda>m. fst (SOA_String (SOA_EndDocument m))" "smart_ops True"
  by unfold_locales (simp_all add: SOA_EndDocument_ops smart_ops_plain applies_smart_ops)

subsection \<open>The running length\<close>

definition length_change :: "Op list \<Rightarrow> int" where
  "length_change ops = sum_list (map (\<lambda>op'. if OpCode op' = Plus then Chars op'
     else if OpCode op' = Minus then - Chars op' else 0) ops)"

lemma length_change_simps [simp]:
  "length_change [] = 0" "length_change (xs @ ys) = length_change xs + length_change ys"
  "length_change (op' # ops) = (if OpCode op' = Plus then Chars op'
     else if OpCode op' = Minus then - Chars op' else 0) + length_change ops"
  by (simp_all add: length_change_def)

lemma LengthChange_flush [simp]:
  "lengthChange (FlushKeeps m) = lengthChange m" "lengthChange (flushPlusMinus m) = lengthChange m"
  by (simp_all add: FlushKeeps_def flushPlusMinus_def split_beta)

lemma LengthChange_Append:
  "lengthChange (SOA_Append op' m) = lengthChange m + length_change [op']"
  by (cases "OpCode op'") (auto simp: SOA_Append_def Let_def)

lemma LengthChange_fold:
  "LengthChange (fold SOA_Append ops m) = LengthChange m + length_change ops"
  unfolding LengthChange_def
  by (induction ops arbitrary: m) (simp_all add: LengthChange_Append)

lemma length_change_chars: "length_change ops = new_chars ops - old_chars ops"
  by (induction ops) (auto split: opcode.splits)

end
