(* ===== verification/Canonical.thy ===== *)
theory Canonical
  imports AssemblerSpec
begin

text \<open>
  The smart assembler prints a canonical form: giving it its own output prints the same
  again. This is what lets \<^verbatim>\<open>CheckRep\<close> compare a changeset with its reassembly.
\<close>

subsection \<open>Merged lists\<close>

definition same_kind :: "Op \<Rightarrow> Op \<Rightarrow> bool" where
  "same_kind a b \<longleftrightarrow> OpCode a = OpCode b \<and> Attribs a = Attribs b"

text \<open>
  In a merged list neighbours of one kind are a piece that ends in a newline and the rest of
  the line after it.
\<close>

fun merged :: "Op list \<Rightarrow> bool" where
  "merged [] \<longleftrightarrow> True"
| "merged [a] \<longleftrightarrow> 0 < Chars a \<and> 0 \<le> Lines a \<and> OpCode a \<noteq> NoCode"
| "merged (a # b # ops) \<longleftrightarrow> 0 < Chars a \<and> 0 \<le> Lines a \<and> OpCode a \<noteq> NoCode \<and>
     (same_kind a b \<longrightarrow> 0 < Lines a \<and> Lines b = 0) \<and> merged (b # ops)"

lemma merged_head: "merged (a # ops) \<Longrightarrow> 0 < Chars a \<and> 0 \<le> Lines a \<and> OpCode a \<noteq> NoCode \<and> merged ops"
  by (cases ops) auto

lemma merged_suffix: "merged (xs @ ys) \<Longrightarrow> merged ys"
  by (induction xs) (auto dest: merged_head)

lemma merge_from_hd:
  "OpCode b \<noteq> NoCode \<Longrightarrow> \<exists>b' ops'. merge_from False b x ops = b' # ops' \<and> same_kind b b'"
proof (induction ops arbitrary: b x)
  case Nil
  then show ?case by (simp add: flushed_def same_kind_def)
next
  case (Cons op' ops)
  obtain fs where f: "flushed b x = b # fs" using Cons.prems by (simp add: flushed_def)
  consider "Chars op' \<le> 0" | (same) "0 < Chars op'" "OpCode b = OpCode op' \<and> Attribs b = Attribs op'"
    | (other) "0 < Chars op'" "\<not> (OpCode b = OpCode op' \<and> Attribs b = Attribs op')" by linarith
  then show ?case
  proof cases
    case 1
    with Cons show ?thesis by simp
  next
    case same
    with Cons.IH[of "b\<lparr>Chars := Chars b + (x + Chars op'), Lines := Lines b + Lines op'\<rparr>" 0]
      Cons.IH[of "b\<lparr>Chars := Chars b + Chars op'\<rparr>" x] Cons.IH[of b "x + Chars op'"] Cons.prems
    show ?thesis by (simp add: same_kind_def)
  next
    case other
    then have "merge_from False b x (op' # ops) = b # fs @ merge_from False op' 0 ops" by (auto simp: f)
    then show ?thesis by (simp add: same_kind_def)
  qed
qed

lemma merged_append:
  "merged (xs @ [a]) \<Longrightarrow> merged (b # ops) \<Longrightarrow> \<not> same_kind a b \<Longrightarrow> merged (xs @ a # b # ops)"
proof (induction xs)
  case (Cons c xs)
  then show ?case by (cases xs) auto
qed simp

lemma merged_merge_from:
  assumes "OpCode b \<noteq> NoCode" "0 < Chars b" "0 \<le> Lines b" "0 \<le> x" "x \<noteq> 0 \<longrightarrow> 0 < Lines b"
    and "list_all op_plain ops"
  shows "merged (merge_from False b x ops)"
  using assms
proof (induction ops arbitrary: b x)
  case Nil
  then show ?case by (auto simp: flushed_def same_kind_def)
next
  case (Cons op' ops)
  have op': "op_plain op'" using Cons.prems by simp
  have code: "OpCode op' \<noteq> NoCode" "0 \<le> Lines op'" using op' by (auto simp: op_plain_def)
  consider "Chars op' \<le> 0" | (same) "0 < Chars op'" "OpCode b = OpCode op'" "Attribs b = Attribs op'"
    | (other) "0 < Chars op'" "\<not> (OpCode b = OpCode op' \<and> Attribs b = Attribs op')" by linarith
  then show ?case
  proof cases
    case 1
    with Cons show ?thesis by simp
  next
    case same
    with Cons.IH[of "b\<lparr>Chars := Chars b + (x + Chars op'), Lines := Lines b + Lines op'\<rparr>" 0]
      Cons.IH[of "b\<lparr>Chars := Chars b + Chars op'\<rparr>" x] Cons.IH[of b "x + Chars op'"] Cons.prems code
    show ?thesis by auto
  next
    case other
    then have eq: "merge_from False b x (op' # ops) = flushed b x @ merge_from False op' 0 ops" by auto
    from merge_from_hd[OF code(1)] obtain o1 os where o1: "merge_from False op' 0 ops = o1 # os" "same_kind op' o1"
      by blast
    have m: "merged (o1 # os)" using Cons.IH[of op' 0] Cons.prems other code o1(1) by simp
    let ?bx = "b\<lparr>Chars := x, Lines := 0\<rparr>"
    have ns: "\<not> same_kind b o1" "\<not> same_kind ?bx o1" using other o1(2) by (auto simp: same_kind_def)
    have b: "merged [b]" "x \<noteq> 0 \<Longrightarrow> merged [b, ?bx]" using Cons.prems by (auto simp: same_kind_def)
    show ?thesis
      unfolding eq o1(1)
      using merged_append[of "[]" b o1 os] merged_append[of "[b]" ?bx o1 os] ns b m Cons.prems(1)
      by (simp add: flushed_def)
  qed
qed

lemma merge_ops_Nil [simp]: "merge_ops fin [] = []"
  by (simp add: merge_ops_def flushed_def NewOp_def)

lemma merge_ops_Cons:
  "OpCode op' \<noteq> NoCode \<Longrightarrow>
   merge_ops fin (op' # ops) = (if 0 < Chars op' then merge_from fin op' 0 ops else merge_ops fin ops)"
  by (auto simp: merge_ops_def flushed_def NewOp_def)

lemma merged_merge_ops: "list_all op_plain ops \<Longrightarrow> merged (merge_ops False ops)"
proof (induction ops)
  case Nil
  then show ?case by simp
next
  case (Cons op' ops)
  then have "OpCode op' \<noteq> NoCode" "0 \<le> Lines op'" "list_all op_plain ops" by (simp_all add: op_plain_def[of op'])
  moreover from this have "0 < Chars op' \<Longrightarrow> merged (merge_from False op' 0 ops)"
    by (intro merged_merge_from) simp_all
  ultimately show ?case using Cons by (simp add: merge_ops_Cons)
qed

lemma merge_from_merged:
  assumes "merged (flushed b x @ ops)" "OpCode b \<noteq> NoCode"
  shows "merge_from False b x ops = flushed b x @ ops"
  using assms
proof (induction ops arbitrary: b x)
  case (Cons op' ops)
  have m: "merged (op' # ops)" using merged_suffix[OF Cons.prems(1)] .
  have op': "0 < Chars op'" "OpCode op' \<noteq> NoCode" using merged_head[OF m] by simp_all
  show ?case
  proof (cases "OpCode b = OpCode op' \<and> Attribs b = Attribs op'")
    case True
    have x: "x = 0"
    proof (rule ccontr)
      assume "x \<noteq> 0"
      then have "flushed b x = [b, b\<lparr>Chars := x, Lines := 0\<rparr>]" using Cons.prems(2) by (simp add: flushed_def)
      with Cons.prems(1) have "merged ([b] @ b\<lparr>Chars := x, Lines := 0\<rparr> # op' # ops)" by (simp only: append.simps)
      then have "merged (b\<lparr>Chars := x, Lines := 0\<rparr> # op' # ops)" by (rule merged_suffix)
      then show False using True by (simp add: same_kind_def)
    qed
    then have "flushed b x = [b]" using Cons.prems(2) by (simp add: flushed_def)
    with Cons.prems(1) have m2: "merged (b # op' # ops)" by (simp only: append.simps)
    with True have l: "0 < Lines b" "Lines op' = 0" by (simp_all add: same_kind_def)
    have eq: "b\<lparr>Chars := Chars op', Lines := 0\<rparr> = op'" using True l by (cases b; cases op') simp
    have "flushed b (Chars op') = [b, op']" using Cons.prems(2) op'(1) eq by (simp add: flushed_def)
    moreover from this have "merged (flushed b (Chars op') @ ops)"
      using m2 by simp
    ultimately have "merge_from False b (Chars op') ops = [b, op'] @ ops"
      using Cons.IH[of b "Chars op'"] Cons.prems(2) by simp
    then show ?thesis using True l x op'(1) \<open>flushed b x = [b]\<close> by simp
  next
    case False
    have "merge_from False op' 0 ops = op' # ops" using Cons.IH[of op' 0] op' m by (simp add: flushed_def)
    moreover have "merge_from False b x (op' # ops) = flushed b x @ merge_from False op' 0 ops"
      using False op'(1) by auto
    ultimately show ?thesis by simp
  qed
qed simp

lemma merge_ops_merged: "merged ops \<Longrightarrow> merge_ops False ops = ops"
proof (cases ops)
  case (Cons op' os)
  assume "merged ops"
  with Cons have m: "merged (op' # os)" by simp
  note op' = merged_head[OF m]
  then show ?thesis
    using merge_from_merged[of op' 0 os] Cons m by (simp add: merge_ops_Cons flushed_def)
qed simp

text \<open>The same at the end of the document, where no plain keep is left to drop.\<close>

definition plain_keep :: "Op \<Rightarrow> bool" where
  "plain_keep a \<longleftrightarrow> OpCode a = Keep \<and> Attribs a = []"

lemma last_flushed:
  "OpCode b \<noteq> NoCode \<Longrightarrow> plain_keep (last (flushed b x)) \<longleftrightarrow> plain_keep b"
  by (simp add: flushed_def plain_keep_def)

lemma merge_from_base:
  "merge_from fin b x [] = (if fin \<and> plain_keep b then [] else flushed b x)"
  by (simp add: plain_keep_def)

lemma flushed_nonempty: "OpCode b \<noteq> NoCode \<Longrightarrow> flushed b x \<noteq> []"
  by (simp add: flushed_def)

lemma plain_keep_update [simp]:
  "plain_keep (b\<lparr>Chars := n\<rparr>) = plain_keep b" "plain_keep (b\<lparr>Chars := n, Lines := l\<rparr>) = plain_keep b"
  by (simp_all add: plain_keep_def)

lemma merge_from_other:
  "0 < Chars op' \<Longrightarrow> \<not> (OpCode b = OpCode op' \<and> Attribs b = Attribs op') \<Longrightarrow>
   merge_from fin b x (op' # ops) = flushed b x @ merge_from fin op' 0 ops"
  by auto

text \<open>The three cases of a loop step, for inductions over the appended operations.\<close>

lemma merge_cases:
  obtains (skip) "Chars op' \<le> 0"
    | (same) "0 < Chars op'" "OpCode b = OpCode op'" "Attribs b = Attribs op'"
    | (other) "0 < Chars op'" "\<not> (OpCode b = OpCode op' \<and> Attribs b = Attribs op')"
  by linarith

lemma merge_from_True_Nil:
  "merge_from True b x ops = [] \<Longrightarrow> OpCode b \<noteq> NoCode \<Longrightarrow> plain_keep b"
proof (induction ops arbitrary: b x)
  case Nil
  then show ?case by (simp add: plain_keep_def flushed_def split: if_splits)
next
  case (Cons op' ops)
  show ?case
  proof (cases rule: merge_cases[where op' = op' and b = b])
    case other
    have "flushed b x = []" using Cons.prems(1) unfolding merge_from_other[OF other] by (rule append_is_Nil_conv[THEN iffD1, THEN conjunct1])
    with flushed_nonempty[OF Cons.prems(2)] show ?thesis by simp
  next
    case same
    with Cons.IH[of "b\<lparr>Chars := Chars b + (x + Chars op'), Lines := Lines b + Lines op'\<rparr>" 0]
      Cons.IH[of "b\<lparr>Chars := Chars b + Chars op'\<rparr>" x] Cons.IH[of b "x + Chars op'"] Cons.prems
    show ?thesis by (cases "0 < Lines op'"; cases "Lines b = 0") simp_all
  qed (use Cons in simp)
qed

lemma merge_from_True_last:
  "merge_from True b x ops \<noteq> [] \<Longrightarrow> OpCode b \<noteq> NoCode \<Longrightarrow> list_all (\<lambda>op'. OpCode op' \<noteq> NoCode) ops \<Longrightarrow>
   \<not> plain_keep (last (merge_from True b x ops))"
proof (induction ops arbitrary: b x)
  case Nil
  then show ?case by (auto simp: merge_from_base last_flushed simp del: merge_from.simps split: if_splits)
next
  case (Cons op' ops)
  show ?case
  proof (cases rule: merge_cases[where op' = op' and b = b])
    case other
    show ?thesis
    proof (cases "merge_from True op' 0 ops = []")
      case True
      with merge_from_True_Nil[OF True] Cons.prems have "plain_keep op'" by simp
      with other have "\<not> plain_keep b" by (simp add: plain_keep_def)
      with True Cons.prems(2) show ?thesis unfolding merge_from_other[OF other] by (simp add: last_flushed)
    next
      case False
      with Cons.IH[of op' 0] Cons.prems(3) show ?thesis unfolding merge_from_other[OF other] by simp
    qed
  next
    case same
    with Cons.IH[of "b\<lparr>Chars := Chars b + (x + Chars op'), Lines := Lines b + Lines op'\<rparr>" 0]
      Cons.IH[of "b\<lparr>Chars := Chars b + Chars op'\<rparr>" x] Cons.IH[of b "x + Chars op'"] Cons.prems
    show ?thesis by (cases "0 < Lines op'"; cases "Lines b = 0") simp_all
  qed (use Cons in simp)
qed

lemma merge_from_True_same:
  "\<not> plain_keep (last (merge_from False b x ops)) \<Longrightarrow> OpCode b \<noteq> NoCode \<Longrightarrow>
   list_all (\<lambda>op'. OpCode op' \<noteq> NoCode) ops \<Longrightarrow> merge_from True b x ops = merge_from False b x ops"
proof (induction ops arbitrary: b x)
  case Nil
  then show ?case by (simp add: merge_from_base last_flushed del: merge_from.simps)
next
  case (Cons op' ops)
  show ?case
  proof (cases rule: merge_cases[where op' = op' and b = b])
    case other
    have "merge_from False op' 0 ops \<noteq> []" using merge_from_hd[of op' 0 ops] Cons.prems by auto
    then have "\<not> plain_keep (last (merge_from False op' 0 ops))"
      using Cons.prems(1) unfolding merge_from_other[OF other] by simp
    with Cons.IH[of op' 0] Cons.prems(3) show ?thesis unfolding merge_from_other[OF other] by simp
  next
    case same
    with Cons.IH[of "b\<lparr>Chars := Chars b + (x + Chars op'), Lines := Lines b + Lines op'\<rparr>" 0]
      Cons.IH[of "b\<lparr>Chars := Chars b + Chars op'\<rparr>" x] Cons.IH[of b "x + Chars op'"] Cons.prems
    show ?thesis by (cases "0 < Lines op'"; cases "Lines b = 0") simp_all
  qed (use Cons in simp)
qed

lemma merged_prefix: "merged (xs @ ys) \<Longrightarrow> merged xs"
proof (induction xs rule: merged.induct)
  case (2 a)
  then show ?case using merged_head[of a ys] by simp
qed auto

lemma merge_ops_last:
  "merge_ops True ops \<noteq> [] \<Longrightarrow> list_all (\<lambda>op'. OpCode op' \<noteq> NoCode) ops \<Longrightarrow> \<not> plain_keep (last (merge_ops True ops))"
proof (induction ops)
  case (Cons op' ops)
  then show ?case using merge_from_True_last[of op' 0 ops] by (simp add: merge_ops_Cons split: if_splits)
qed simp

lemma merge_ops_True_same:
  "merged ops \<Longrightarrow> ops = [] \<or> \<not> plain_keep (last ops) \<Longrightarrow> merge_ops True ops = ops"
proof (cases ops)
  case (Cons op' os)
  assume m: "merged ops" and l: "ops = [] \<or> \<not> plain_keep (last ops)"
  have "list_all (\<lambda>op'. OpCode op' \<noteq> NoCode) ops"
    using m by (induction ops rule: merged.induct) auto
  with m l Cons merge_ops_merged[OF m] merge_from_True_same[of op' 0 os] merged_head[of op' os]
  show ?thesis by (simp add: merge_ops_Cons)
qed simp

lemma merge_ops_idem:
  assumes "list_all op_plain ops"
  shows "merge_ops fin (merge_ops fin ops) = merge_ops fin ops"
proof (cases fin)
  case True
  obtain ks where "merge_ops False ops = merge_ops True ops @ ks" using merge_ops_fin by blast
  then have "merged (merge_ops True ops)" using merged_merge_ops[OF assms] merged_prefix by metis
  with merge_ops_last[OF _ plain_NoCode[OF assms]] True show ?thesis
    by (cases "merge_ops True ops = []") (simp_all add: merge_ops_True_same)
next
  case False
  then show ?thesis using merge_ops_merged[OF merged_merge_ops[OF assms]] by simp
qed

subsection \<open>Reading back what the smart assembler printed\<close>

definition group :: "opcode \<Rightarrow> Op list \<Rightarrow> bool" where
  "group c ops \<longleftrightarrow> list_all (\<lambda>op'. OpCode op' = c \<and> op_plain op' \<and> 0 < Chars op') ops"

lemma group_simps [simp]:
  "group c []" "group c (op' # ops) \<longleftrightarrow> OpCode op' = c \<and> op_plain op' \<and> 0 < Chars op' \<and> group c ops"
  "group c (xs @ ys) \<longleftrightarrow> group c xs \<and> group c ys"
  by (simp_all add: group_def conj_assoc)

lemma group_plain: "group c ops \<Longrightarrow> list_all op_plain ops"
  by (auto simp: group_def list_all_iff)

lemma merged_pos: "merged ops \<Longrightarrow> list_all (\<lambda>op'. 0 < Chars op') ops"
  by (induction ops rule: merged.induct) auto

lemma group_merge: "group c ops \<Longrightarrow> group c (merge_ops fin ops)"
proof -
  assume g: "group c ops"
  have "list_all (\<lambda>op'. OpCode op' = c) ops" using g by (auto simp: group_def list_all_iff)
  then have c: "list_all (\<lambda>op'. OpCode op' = c) (merge_ops fin ops)" by (rule merge_ops_code)
  have "list_all (\<lambda>op'. 0 < Chars op') (merge_ops False ops)"
    by (rule merged_pos[OF merged_merge_ops[OF group_plain[OF g]]])
  moreover obtain ks where "merge_ops False ops = merge_ops True ops @ ks" using merge_ops_fin by blast
  ultimately have "list_all (\<lambda>op'. 0 < Chars op') (merge_ops fin ops)" by (cases fin) auto
  with c merge_ops_le(1)[OF group_plain[OF g], of fin] show ?thesis by (simp add: group_def list_all_iff)
qed

lemma merge_nonempty: "group c ops \<Longrightarrow> ops \<noteq> [] \<Longrightarrow> merge_ops False ops \<noteq> []"
proof (cases ops)
  case (Cons op' os)
  assume "group c ops"
  with Cons have "0 < Chars op'" "OpCode op' \<noteq> NoCode" by (auto simp: op_plain_def)
  with merge_from_hd[of op' 0 os] Cons show ?thesis by (auto simp: merge_ops_Cons)
qed simp

lemma append_code:
  "0 < Chars op' \<Longrightarrow> OpCode op' = Minus \<Longrightarrow> last_code r \<noteq> Keep \<Longrightarrow>
     smart_append op' r = r\<lparr>minuses := minuses r @ [op'], last_code := Minus\<rparr>"
  "0 < Chars op' \<Longrightarrow> OpCode op' = Plus \<Longrightarrow> last_code r \<noteq> Keep \<Longrightarrow>
     smart_append op' r = r\<lparr>pluses := pluses r @ [op'], last_code := Plus\<rparr>"
  "0 < Chars op' \<Longrightarrow> OpCode op' = Keep \<Longrightarrow> last_code r = Keep \<Longrightarrow>
     smart_append op' r = r\<lparr>keeps := keeps r @ [op'], last_code := Keep\<rparr>"
  by (simp_all add: smart_append_def)

lemma append_switch:
  "0 < Chars op' \<Longrightarrow> OpCode op' \<in> {Minus, Plus} \<Longrightarrow> last_code r = Keep \<Longrightarrow>
     smart_append op' r = smart_append op' (print_keeps r\<lparr>last_code := NoCode\<rparr>)"
  "0 < Chars op' \<Longrightarrow> OpCode op' = Keep \<Longrightarrow> last_code r \<noteq> Keep \<Longrightarrow>
     smart_append op' r = smart_append op' (print_plus_minus r\<lparr>last_code := Keep\<rparr>)"
  by (auto simp: smart_append_def print_keeps_def print_plus_minus_def)

lemma fold_minus:
  "group Minus ms \<Longrightarrow> last_code r \<noteq> Keep \<Longrightarrow> \<exists>c. c \<noteq> Keep \<and>
   fold smart_append ms r = r\<lparr>minuses := minuses r @ ms, last_code := c\<rparr>"
proof (induction ms arbitrary: r)
  case Nil
  then show ?case by (intro exI[of _ "last_code r"]) simp
next
  case (Cons m ms)
  then show ?case
    using Cons.IH[of "r\<lparr>minuses := minuses r @ [m], last_code := Minus\<rparr>"] by (simp add: append_code)
qed

lemma fold_plus:
  "group Plus ps \<Longrightarrow> last_code r \<noteq> Keep \<Longrightarrow> \<exists>c. c \<noteq> Keep \<and>
   fold smart_append ps r = r\<lparr>pluses := pluses r @ ps, last_code := c\<rparr>"
proof (induction ps arbitrary: r)
  case Nil
  then show ?case by (intro exI[of _ "last_code r"]) simp
next
  case (Cons m ms)
  then show ?case
    using Cons.IH[of "r\<lparr>pluses := pluses r @ [m], last_code := Plus\<rparr>"] by (simp add: append_code)
qed

lemma fold_keep:
  "group Keep ks \<Longrightarrow> last_code r = Keep \<Longrightarrow> fold smart_append ks r = r\<lparr>keeps := keeps r @ ks\<rparr>"
  by (induction ks arbitrary: r) (simp_all add: append_code)

text \<open>Reading a whole group of deletions and insertions, or of keeps.\<close>

lemma read_plus_minus:
  assumes g: "group Minus ms" "group Plus ps" "ms @ ps \<noteq> []" and r: "smart_ok r" "last_code r = Keep \<or> r = smart_init"
  shows "\<exists>c. c \<noteq> Keep \<and> fold smart_append (ms @ ps) r =
    \<lparr>printed = printed r @ merge_ops False (keeps r), minuses = ms, pluses = ps, keeps = [], last_code = c\<rparr>"
proof -
  define r0 where "r0 = print_keeps r\<lparr>last_code := NoCode\<rparr>"
  have r0: "r0 = \<lparr>printed = printed r @ merge_ops False (keeps r), minuses = [], pluses = [], keeps = [], last_code = NoCode\<rparr>"
    using r by (cases r) (auto simp: r0_def print_keeps_def smart_ok_def smart_init_def)
  obtain op' os where ops: "ms @ ps = op' # os" using g(3) by (cases "ms @ ps") auto
  then have op': "0 < Chars op'" "OpCode op' \<in> {Minus, Plus}" using g by (cases ms; auto)+
  have "smart_append op' r = smart_append op' r0"
    using r(2) append_switch(1)[OF op', of r] by (auto simp: r0_def print_keeps_def smart_init_def)
  then have "fold smart_append (ms @ ps) r = fold smart_append (ms @ ps) r0" by (simp only: ops fold_simps)
  also obtain c where "fold smart_append ms r0 = r0\<lparr>minuses := minuses r0 @ ms, last_code := c\<rparr>" "c \<noteq> Keep"
    using fold_minus[OF g(1), of r0] r0 by auto
  moreover from this obtain c' where "c' \<noteq> Keep" "fold smart_append ps (r0\<lparr>minuses := minuses r0 @ ms, last_code := c\<rparr>) =
      r0\<lparr>minuses := minuses r0 @ ms, last_code := c\<rparr>\<lparr>pluses := pluses r0 @ ps, last_code := c'\<rparr>"
    using fold_plus[OF g(2), of "r0\<lparr>minuses := minuses r0 @ ms, last_code := c\<rparr>"] by auto
  ultimately show ?thesis by (auto simp: r0)
qed

lemma read_keeps:
  assumes g: "group Keep ks" "ks \<noteq> []" and r: "smart_ok r" "last_code r \<noteq> Keep"
  shows "fold smart_append ks r =
    \<lparr>printed = printed r @ merge_ops False (minuses r) @ merge_ops False (pluses r), minuses = [], pluses = [],
     keeps = ks, last_code = Keep\<rparr>"
proof -
  define r0 where "r0 = print_plus_minus r\<lparr>last_code := Keep\<rparr>"
  obtain op' os where ops: "ks = op' # os" using g(2) by (cases ks) auto
  then have "smart_append op' r = smart_append op' r0"
    using r(2) g(1) append_switch(2)[of op' r] by (simp add: r0_def)
  then have "fold smart_append ks r = fold smart_append ks r0" by (simp only: ops fold_simps)
  also have "\<dots> = r0\<lparr>keeps := keeps r0 @ ks\<rparr>" using fold_keep[OF g(1), of r0] by (simp add: r0_def)
  finally show ?thesis
    using r by (cases r) (simp add: r0_def print_plus_minus_def smart_ok_def)
qed

text \<open>
  What a reachable state has printed reads back as itself, up to the group that is still open.
\<close>

definition groups_ok :: "smart_abs \<Rightarrow> bool" where
  "groups_ok a \<longleftrightarrow> group Minus (minuses a) \<and> group Plus (pluses a) \<and> group Keep (keeps a)"

definition reads_back :: "smart_abs \<Rightarrow> smart_abs \<Rightarrow> bool" where
  "reads_back a r \<longleftrightarrow> r = fold smart_append (printed a) smart_init \<and> smart_ok r \<and>
     smart_result False r = printed a \<and>
     (last_code a = Keep \<longrightarrow> last_code r \<noteq> Keep \<and> keeps a \<noteq> []) \<and>
     (last_code a \<in> {Minus, Plus} \<longrightarrow> (last_code r = Keep \<or> r = smart_init) \<and> minuses a @ pluses a \<noteq> []) \<and>
     (last_code a = NoCode \<longrightarrow> a = smart_init)"

definition stable :: "smart_abs \<Rightarrow> bool" where
  "stable a \<longleftrightarrow> smart_ok a \<and> groups_ok a \<and> reads_back a (fold smart_append (printed a) smart_init)"

lemma smart_result_init [simp]: "smart_result fin smart_init = []"
  by (simp add: smart_result_def smart_init_def)

lemma smart_init_fields [simp]:
  "printed smart_init = []" "minuses smart_init = []" "pluses smart_init = []" "keeps smart_init = []"
  "last_code smart_init = NoCode"
  by (simp_all add: smart_init_def)

lemma stable_init: "stable smart_init"
  by (simp add: stable_def groups_ok_def reads_back_def)

lemma result_keep: "smart_ok r \<Longrightarrow> last_code r = Keep \<Longrightarrow> smart_result fin r = printed r @ merge_ops fin (keeps r)"
  by (simp add: smart_result_def smart_ok_def)

lemma result_other:
  "smart_ok r \<Longrightarrow> last_code r \<noteq> Keep \<Longrightarrow>
   smart_result fin r = printed r @ merge_ops False (minuses r) @ merge_ops False (pluses r)"
  by (simp add: smart_result_def smart_ok_def)

text \<open>Printing the open group keeps what is printed readable.\<close>

lemma reads_keeps:
  assumes a: "stable a" "last_code a = Keep"
  shows "\<exists>r. r = fold smart_append (printed (print_keeps a)) smart_init \<and> smart_ok r \<and> last_code r = Keep \<and>
    smart_result False r = printed (print_keeps a)"
proof -
  let ?r = "fold smart_append (printed a) smart_init" and ?ks = "merge_ops False (keeps a)"
  have r: "smart_ok ?r" "last_code ?r \<noteq> Keep" "smart_result False ?r = printed a" "keeps a \<noteq> []"
    and g: "group Keep (keeps a)"
    using a by (auto simp: stable_def reads_back_def groups_ok_def)
  have ks: "group Keep ?ks" "?ks \<noteq> []" using group_merge[OF g] merge_nonempty[OF g r(4)] by auto
  have idem: "merge_ops False ?ks = ?ks" by (rule merge_ops_idem[OF group_plain[OF g]])
  let ?r' = "fold smart_append ?ks ?r"
  have r': "?r' = \<lparr>printed = printed a, minuses = [], pluses = [], keeps = ?ks, last_code = Keep\<rparr>"
    using read_keeps[OF ks r(1,2)] result_other[OF r(1,2), of False] r(3) by simp
  have "smart_ok ?r'" using r(1) by (rule smart_ok_fold)
  moreover have "smart_result False ?r' = printed a @ ?ks" by (simp add: r' smart_result_def idem)
  moreover have "last_code ?r' = Keep" by (simp add: r')
  ultimately show ?thesis by (intro exI[of _ ?r']) (simp add: print_keeps_def)
qed

lemma reads_plus_minus:
  assumes a: "stable a" "last_code a \<in> {Minus, Plus}"
  shows "\<exists>r. r = fold smart_append (printed (print_plus_minus a)) smart_init \<and> smart_ok r \<and> last_code r \<noteq> Keep \<and>
    smart_result False r = printed (print_plus_minus a)"
proof -
  let ?r = "fold smart_append (printed a) smart_init"
  let ?ms = "merge_ops False (minuses a)" and ?ps = "merge_ops False (pluses a)"
  have r: "smart_ok ?r" "last_code ?r = Keep \<or> ?r = smart_init" "smart_result False ?r = printed a"
    "minuses a @ pluses a \<noteq> []" and g: "group Minus (minuses a)" "group Plus (pluses a)"
    using a by (auto simp: stable_def reads_back_def groups_ok_def)
  have gs: "group Minus ?ms" "group Plus ?ps" "?ms @ ?ps \<noteq> []"
    using group_merge[OF g(1)] group_merge[OF g(2)] merge_nonempty[OF g(1)] merge_nonempty[OF g(2)] r(4) by auto
  have idem: "merge_ops False ?ms = ?ms" "merge_ops False ?ps = ?ps"
    using merge_ops_idem[OF group_plain[OF g(1)]] merge_ops_idem[OF group_plain[OF g(2)]] by auto
  have pr: "printed ?r @ merge_ops False (keeps ?r) = printed a"
    using r(2) result_keep[OF r(1), of False] r(3) by (auto simp: smart_init_def smart_result_def)
  obtain c where r': "fold smart_append (?ms @ ?ps) ?r =
      \<lparr>printed = printed a, minuses = ?ms, pluses = ?ps, keeps = [], last_code = c\<rparr>" "c \<noteq> Keep"
    using read_plus_minus[OF gs r(1,2)] pr by auto
  have "smart_ok (fold smart_append (?ms @ ?ps) ?r)" using r(1) by (rule smart_ok_fold)
  then show ?thesis
    using r' by (intro exI[of _ "fold smart_append (?ms @ ?ps) ?r"])
      (simp add: print_plus_minus_def smart_result_def idem)
qed

lemma stable_append:
  assumes a: "stable a" and op': "op_plain op'"
  shows "stable (smart_append op' a)"
proof (cases "Chars op' = 0")
  case True
  with a show ?thesis by (simp add: smart_append_def)
next
  case False
  with op' have pos: "0 < Chars op'" by (auto simp: op_plain_def)
  have ok: "smart_ok (smart_append op' a)" using a by (simp add: stable_def smart_ok_append)
  have g: "group Minus (minuses a)" "group Plus (pluses a)" "group Keep (keeps a)"
    using a by (auto simp: stable_def groups_ok_def)
  consider (open_keep) "OpCode op' \<in> {Minus, Plus}" "last_code a = Keep"
    | (minus) "OpCode op' = Minus" "last_code a \<noteq> Keep" | (plus) "OpCode op' = Plus" "last_code a \<noteq> Keep"
    | (keep) "OpCode op' = Keep" "last_code a = Keep" | (first) "OpCode op' = Keep" "last_code a = NoCode"
    | (open_other) "OpCode op' = Keep" "last_code a \<in> {Minus, Plus}"
    using op' by (cases "OpCode op'"; cases "last_code a") (auto simp: op_plain_def)
  then show ?thesis
  proof cases
    case open_keep
    obtain r where r: "r = fold smart_append (printed (print_keeps a)) smart_init" "smart_ok r"
      "last_code r = Keep" "smart_result False r = printed (print_keeps a)" using reads_keeps[OF a open_keep(2)] by blast
    have "minuses a = []" "pluses a = []" using a open_keep(2) by (auto simp: stable_def smart_ok_def)
    then have "smart_append op' a = \<lparr>printed = printed (print_keeps a), minuses = (if OpCode op' = Minus then [op'] else []),
        pluses = (if OpCode op' = Plus then [op'] else []), keeps = [], last_code = OpCode op'\<rparr>"
      using open_keep pos by (cases a) (auto simp: smart_append_def print_keeps_def)
    with r ok op' pos open_keep(1) show ?thesis
      by (auto simp: stable_def reads_back_def groups_ok_def)
  next
    case minus
    with a pos op' ok g show ?thesis
      by (cases "last_code a") (auto simp: stable_def reads_back_def groups_ok_def append_code smart_init_def)
  next
    case plus
    with a pos op' ok g show ?thesis
      by (cases "last_code a") (auto simp: stable_def reads_back_def groups_ok_def append_code smart_init_def)
  next
    case keep
    with a pos op' ok g show ?thesis
      by (auto simp: stable_def reads_back_def groups_ok_def append_code)
  next
    case first
    then have "a = smart_init" using a by (simp add: stable_def reads_back_def)
    then have eq: "smart_append op' a = \<lparr>printed = [], minuses = [], pluses = [], keeps = [op'], last_code = Keep\<rparr>"
      using first pos by (simp add: smart_append_def print_plus_minus_def)
    from ok first pos op' show ?thesis unfolding eq by (simp add: stable_def reads_back_def groups_ok_def)
  next
    case open_other
    obtain r where r: "r = fold smart_append (printed (print_plus_minus a)) smart_init" "smart_ok r"
      "last_code r \<noteq> Keep" "smart_result False r = printed (print_plus_minus a)"
      using reads_plus_minus[OF a open_other(2)] by blast
    have "keeps a = []" using a open_other(2) by (auto simp: stable_def smart_ok_def)
    then have eq: "smart_append op' a = \<lparr>printed = printed (print_plus_minus a), minuses = [], pluses = [],
        keeps = [op'], last_code = Keep\<rparr>"
      using open_other pos by (cases a) (auto simp: smart_append_def print_plus_minus_def)
    from r ok op' pos open_other(1) show ?thesis
      unfolding eq by (simp add: stable_def reads_back_def groups_ok_def)
  qed
qed

lemma stable_fold: "list_all op_plain ops \<Longrightarrow> stable a \<Longrightarrow> stable (fold smart_append ops a)"
  by (induction ops arbitrary: a) (simp_all add: stable_append)

text \<open>The canonical form of a canonical form is itself.\<close>

lemma stable_result:
  assumes a: "stable a"
  shows "smart_ops fin (smart_result fin a) = smart_result fin a"
proof -
  let ?r = "fold smart_append (printed a) smart_init"
  have r: "smart_ok ?r" "smart_result False ?r = printed a" and ok: "smart_ok a"
    and g: "group Minus (minuses a)" "group Plus (pluses a)" "group Keep (keeps a)"
    using a by (auto simp: stable_def reads_back_def groups_ok_def)
  consider (keep) "last_code a = Keep" | (other) "last_code a \<in> {Minus, Plus}" | (none) "last_code a = NoCode"
    by (cases "last_code a") auto
  then show ?thesis
  proof cases
    case none
    with a have "a = smart_init" by (simp add: stable_def reads_back_def)
    then show ?thesis by (simp add: smart_ops_def)
  next
    case other
    have fin: "smart_result fin a = printed (print_plus_minus a)"
      using ok other by (auto simp: print_plus_minus_def result_other)
    from reads_plus_minus[OF a other] show ?thesis
      unfolding fin by (auto simp: smart_ops_def result_other)
  next
    case keep
    let ?ks = "merge_ops fin (keeps a)"
    have fin: "smart_result fin a = printed a @ ?ks" using ok keep by (rule result_keep)
    have l: "last_code ?r \<noteq> Keep" using a keep by (simp add: stable_def reads_back_def)
    have pr: "printed ?r @ merge_ops False (minuses ?r) @ merge_ops False (pluses ?r) = printed a"
      using result_other[OF r(1) l, of False] r(2) by simp
    show ?thesis
    proof (cases "?ks = []")
      case True
      then show ?thesis using result_other[OF r(1) l, of fin] pr unfolding fin by (simp add: smart_ops_def)
    next
      case False
      have "fold smart_append ?ks ?r = \<lparr>printed = printed a, minuses = [], pluses = [], keeps = ?ks, last_code = Keep\<rparr>"
        using read_keeps[OF group_merge[OF g(3)] False r(1) l] pr by simp
      then show ?thesis
        unfolding fin by (simp add: smart_ops_def smart_result_def merge_ops_idem[OF group_plain[OF g(3)]])
    qed
  qed
qed

lemma smart_ops_idem: "list_all op_plain ops \<Longrightarrow> smart_ops fin (smart_ops fin ops) = smart_ops fin ops"
  using stable_result[OF stable_fold[OF _ stable_init]] by (simp add: smart_ops_def)

end
