(* ===== verification/ChangesetsSpec.thy ===== *)
theory ChangesetsSpec
  imports Changesets AttributesSpec Canonical
begin

text \<open>
  What the functions of \<open>Changesets\<close> compute: \<open>ApplyToText\<close> implements the effect of an
  operation list, splices and built changesets do what their arguments say, and what
  \<open>CheckRep\<close> accepts keeps the lengths it declares.
\<close>

subsection \<open>String iterators\<close>

definition iter_rest :: "StringIterator \<Rightarrow> gostring" where
  "iter_rest si = drop (nat (curIndex si)) (iter_str si)"

definition iter_ok :: "StringIterator \<Rightarrow> bool" where
  "iter_ok si \<longleftrightarrow> 0 \<le> curIndex si \<and> curIndex si \<le> int (length (iter_str si))"

lemma iter_new [simp]: "iter_ok (NewStringIterator s)" "iter_rest (NewStringIterator s) = s"
  by (simp_all add: iter_ok_def iter_rest_def NewStringIterator_def)

lemma iter_okE:
  assumes "iter_ok si"
  obtains pre where "iter_str si = pre @ iter_rest si" "curIndex si = int (length pre)"
proof
  show "iter_str si = take (nat (curIndex si)) (iter_str si) @ iter_rest si" by (simp add: iter_rest_def)
  show "curIndex si = int (length (take (nat (curIndex si)) (iter_str si)))"
    using assms by (auto simp: iter_ok_def min_def)
qed

lemma Remaining_rest: "iter_ok si \<Longrightarrow> Remaining si = RuneCount (iter_rest si)"
  by (elim iter_okE) (simp add: Remaining_def RuneCount_def)

lemma segment_rest: "iter_ok si \<Longrightarrow> segment si n = (if n < 0 then Inl Panic else Inr (take (nat n) (iter_rest si)))"
  by (simp add: segment_def iter_rest_def iter_ok_def)

lemma Peek_inv:
  assumes "iter_ok si" "Peek si n = Inr x" shows "RuneCount x = n \<and> (\<exists>t. iter_rest si = x @ t)"
proof -
  from assms have n: "0 \<le> n" "n \<le> RuneCount (iter_rest si)" and x: "x = take (nat n) (iter_rest si)"
    by (auto simp: Peek_def AssertRemaining_def Remaining_rest segment_rest bind_result_Inr_iff split: if_splits)
  have "iter_rest si = x @ drop (nat n) (iter_rest si)" by (simp add: x)
  moreover have "RuneCount x = n" using n by (simp add: x RuneCount_def)
  ultimately show ?thesis by blast
qed

lemma iter_split:
  assumes "iter_ok si" "iter_rest si = x @ t" "RuneCount x = n"
  shows "Peek si n = Inr x"
    and "\<exists>si'. Take si n = Inr (x, si') \<and> iter_ok si' \<and> iter_rest si' = t"
    and "\<exists>si'. Skip si n = Inr si' \<and> iter_ok si' \<and> iter_rest si' = t"
proof -
  from assms(1) obtain pre where pre: "iter_str si = pre @ x @ t" "curIndex si = int (length pre)"
    using assms(2) by (metis iter_okE)
  have n: "n = int (length x)" using assms(3) by (simp add: RuneCount_def)
  have ar: "AssertRemaining si n = Inr ()"
    using assms by (simp add: AssertRemaining_def Remaining_rest RuneCount_def)
  have seg: "segment si n = Inr x" using assms by (simp add: segment_rest n)
  have nx: "nat (curIndex si + n) = length pre + length x" by (simp add: pre n)
  show "Peek si n = Inr x" using ar seg by (simp add: Peek_def)
  show "\<exists>si'. Take si n = Inr (x, si') \<and> iter_ok si' \<and> iter_rest si' = t"
    using ar seg nx by (simp add: Take_def iter_ok_def iter_rest_def pre n)
  show "\<exists>si'. Skip si n = Inr si' \<and> iter_ok si' \<and> iter_rest si' = t"
    using ar nx by (simp add: Skip_def iter_ok_def iter_rest_def pre n)
qed

subsection \<open>ApplyToText implements the effect of the operations\<close>

lemma newlines_of_eq [simp]: "newlines_of s = CountLines s newline"
  by (simp add: newlines_of_def lines_by_split)

lemma SA_Append_simps [simp]: "sa_str (SA_Append s sa) = sa_str sa @ s"
  by (simp add: SA_Append_def)

lemma apply_op_complete:
  assumes "runs False [op'] (iter_rest bi) (iter_rest ti) out b' t'" "iter_ok bi" "iter_ok ti"
  shows "\<exists>bi' ti' sa'. apply_op op' (bi, ti, sa) = Inr (bi', ti', sa') \<and> iter_ok bi' \<and> iter_ok ti' \<and>
    iter_rest bi' = b' \<and> iter_rest ti' = t' \<and> sa_str sa' = sa_str sa @ out"
proof (cases "OpCode op'")
  case NoCode
  with assms(1) show ?thesis by (simp add: runs_Cons_code)
next
  case Plus
  with assms(1) obtain x where "spans False op' x" "iter_rest bi = x @ b'" "out = x" "t' = iter_rest ti"
    by (auto simp: runs_Cons_code)
  with iter_split[OF assms(2), of x b' "Chars op'"] Plus assms(3) show ?thesis
    by (auto simp: apply_op_def spans_def)
next
  case Minus
  with assms(1) obtain x where "spans False op' x" "iter_rest ti = x @ t'" "out = []" "b' = iter_rest bi"
    by (auto simp: runs_Cons_code)
  with iter_split[OF assms(3), of x t' "Chars op'"] Minus assms(2) show ?thesis
    by (auto simp: apply_op_def spans_def)
next
  case Keep
  with assms(1) obtain x where "spans False op' x" "iter_rest ti = x @ t'" "out = x" "b' = iter_rest bi"
    by (auto simp: runs_Cons_code)
  with iter_split[OF assms(3), of x t' "Chars op'"] Keep assms(2) show ?thesis
    by (auto simp: apply_op_def spans_def)
qed

lemma apply_op_sound:
  assumes "apply_op op' (bi, ti, sa) = Inr (bi', ti', sa')" "iter_ok bi" "iter_ok ti"
  shows "\<exists>out. runs False [op'] (iter_rest bi) (iter_rest ti) out (iter_rest bi') (iter_rest ti') \<and>
    sa_str sa' = sa_str sa @ out \<and> iter_ok bi' \<and> iter_ok ti'"
proof -
  have "\<exists>out b' t'. runs False [op'] (iter_rest bi) (iter_rest ti) out b' t'"
  proof (cases "OpCode op'")
    case NoCode
    with assms(1) show ?thesis by (simp add: apply_op_def)
  next
    case Plus
    with assms(1) obtain x where "Peek bi (Chars op') = Inr x" "Lines op' = CountLines x newline"
      by (auto simp: apply_op_def bind_result_Inr_iff split: if_splits)
    with Peek_inv[OF assms(2)] Plus show ?thesis by (auto simp: runs_Cons_code spans_def) blast
  next
    case Minus
    with assms(1) obtain x where "Peek ti (Chars op') = Inr x" "Lines op' = CountLines x newline"
      by (auto simp: apply_op_def bind_result_Inr_iff split: if_splits)
    with Peek_inv[OF assms(3)] Minus show ?thesis by (auto simp: runs_Cons_code spans_def) blast
  next
    case Keep
    with assms(1) obtain x where "Peek ti (Chars op') = Inr x" "Lines op' = CountLines x newline"
      by (auto simp: apply_op_def bind_result_Inr_iff split: if_splits)
    with Peek_inv[OF assms(3)] Keep show ?thesis by (auto simp: runs_Cons_code spans_def) blast
  qed
  then obtain out b' t' where r: "runs False [op'] (iter_rest bi) (iter_rest ti) out b' t'" by blast
  from apply_op_complete[OF this assms(2,3), of sa] assms(1) r show ?thesis by auto
qed

lemma runs_Cons_split: "runs False (op' # ops) b t out b' t' \<longleftrightarrow>
    (\<exists>o1 o2 b1 t1. runs False [op'] b t o1 b1 t1 \<and> runs False ops b1 t1 o2 b' t' \<and> out = o1 @ o2)"
  using runs_append[of False "[op']" ops] by simp

lemma apply_ops_complete:
  "runs False ops (iter_rest bi) (iter_rest ti) out b' t' \<Longrightarrow> iter_ok bi \<Longrightarrow> iter_ok ti \<Longrightarrow>
   \<exists>bi' ti' sa'. apply_ops ops (bi, ti, sa) = Inr (bi', ti', sa') \<and> iter_ok ti' \<and>
     iter_rest ti' = t' \<and> sa_str sa' = sa_str sa @ out"
proof (induction ops arbitrary: bi ti sa out)
  case (Cons op' ops)
  from Cons.prems(1) obtain o1 o2 b1 t1 where s: "runs False [op'] (iter_rest bi) (iter_rest ti) o1 b1 t1"
    "runs False ops b1 t1 o2 b' t'" "out = o1 @ o2" unfolding runs_Cons_split[of op' ops] by blast
  from apply_op_complete[OF s(1) Cons.prems(2,3), of sa] obtain bi1 ti1 sa1 where
    1: "apply_op op' (bi, ti, sa) = Inr (bi1, ti1, sa1)" "iter_ok bi1" "iter_ok ti1" "iter_rest bi1 = b1"
    "iter_rest ti1 = t1" "sa_str sa1 = sa_str sa @ o1" by blast
  with Cons.IH[of bi1 ti1 o2 sa1] s show ?case by simp
qed auto

lemma apply_ops_sound:
  "apply_ops ops (bi, ti, sa) = Inr (bi', ti', sa') \<Longrightarrow> iter_ok bi \<Longrightarrow> iter_ok ti \<Longrightarrow>
   \<exists>out. runs False ops (iter_rest bi) (iter_rest ti) out (iter_rest bi') (iter_rest ti') \<and>
     sa_str sa' = sa_str sa @ out \<and> iter_ok ti'"
proof (induction ops arbitrary: bi ti sa)
  case (Cons op' ops)
  from Cons.prems(1) obtain bi1 ti1 sa1 where
    1: "apply_op op' (bi, ti, sa) = Inr (bi1, ti1, sa1)" "apply_ops ops (bi1, ti1, sa1) = Inr (bi', ti', sa')"
    by (auto simp: bind_result_Inr_iff)
  from apply_op_sound[OF 1(1) Cons.prems(2,3)] obtain o1 where
    2: "runs False [op'] (iter_rest bi) (iter_rest ti) o1 (iter_rest bi1) (iter_rest ti1)"
    "sa_str sa1 = sa_str sa @ o1" "iter_ok bi1" "iter_ok ti1" by blast
  from Cons.IH[OF 1(2) 2(3,4)] obtain o2 where
    3: "runs False ops (iter_rest bi1) (iter_rest ti1) o2 (iter_rest bi') (iter_rest ti')"
    "sa_str sa' = sa_str sa1 @ o2" "iter_ok ti'" by blast
  show ?case using 2 3 unfolding runs_Cons_split[of op' ops] by auto
qed auto

lemma Take_all: "iter_ok ti \<Longrightarrow> \<exists>ti'. Take ti (Remaining ti) = Inr (iter_rest ti, ti')"
  using iter_split(2)[of ti "iter_rest ti" "[]" "Remaining ti"] by (auto simp: Remaining_rest)

lemma ApplyToText_applies:
  assumes u: "Unpack cs = Inr u" and ops: "DeserializeOps (Ops u) = Inr ops"
  shows "ApplyToText cs doc = Inr r \<longleftrightarrow> RuneCount doc = OldLen u \<and> (\<exists>b'. applies False ops (CharBank u) b' doc r)"
proof
  assume "ApplyToText cs doc = Inr r"
  then obtain bi' ti' sa' rest ti'' where len: "RuneCount doc = OldLen u" and
    "apply_ops ops (NewStringIterator (CharBank u), NewStringIterator doc, NewStringAssembler) = Inr (bi', ti', sa')"
    "Take ti' (Remaining ti') = Inr (rest, ti'')" "r = sa_str sa' @ rest"
    using u ops by (auto simp: ApplyToText_def bind_result_Inr_iff SA_String_def split: if_splits)
  with apply_ops_sound[OF this(2)] Take_all[of ti'] show "RuneCount doc = OldLen u \<and> (\<exists>b'. applies False ops (CharBank u) b' doc r)"
    by (auto simp: applies_def NewStringAssembler_def)
next
  assume "RuneCount doc = OldLen u \<and> (\<exists>b'. applies False ops (CharBank u) b' doc r)"
  then obtain out b' t' where "RuneCount doc = OldLen u" "runs False ops (CharBank u) doc out b' t'" "r = out @ t'"
    by (auto simp: applies_def)
  with apply_ops_complete[of ops "NewStringIterator (CharBank u)" "NewStringIterator doc" out b' t' NewStringAssembler]
    Take_all u ops show "ApplyToText cs doc = Inr r"
    by (fastforce simp: ApplyToText_def SA_String_def NewStringAssembler_def)
qed

text \<open>A packed changeset acts as the operations that were given to its assembler.\<close>

context op_assembler
begin

lemma apply_packed:
  assumes "ops_plain ops" "fits o'" "\<bar>n' - o'\<bar> < 2 ^ 63" "RuneCount doc = o'" "applies n ops bank bank' doc r"
  shows "ApplyToText (Pack o' n' (result (fold append ops new)) bank) doc = Inr r"
proof -
  note u = unpacks[OF assms(1-3), of bank]
  have "DeserializeOps (Ops \<lparr>OldLen = o', NewLen = n', Ops = result (fold append ops new), CharBank = bank\<rparr>) =
      Inr (norm ops)"
    using parses[OF assms(1)] by simp
  from ApplyToText_applies[OF u this, of doc r] assms(4) applies_weaken[OF norm_applies[OF assms(5)]]
  show ?thesis by auto
qed

end

subsection \<open>Operations from a text\<close>

lemma count_list_last: "r \<notin> set v \<Longrightarrow> count_list (u @ r # v) r = count_list u r + 1"
  by (simp add: count_list_0_iff)

text \<open>The operations of a text span the text, piece by piece.\<close>

lemma text_ops_pieces:
  obtains xs where "concat xs = doc" "list_all2 (spans n) (text_ops c a doc) xs"
    "list_all (\<lambda>op'. OpCode op' = c) (text_ops c a doc)" "list_all (\<lambda>op'. Attribs op' = a) (text_ops c a doc)"
proof (cases "newline \<in> set doc")
  case False
  then have "CountLines doc newline = 0" by (simp add: CountLines_count count_list_0_iff)
  with False that[of "[doc]"] show ?thesis
    by (simp add: text_ops_def RuneLastIndex_single_neg spans_def NewOp_def)
next
  case True
  from RuneLastIndex_single[OF this] obtain u v where
    t: "doc = u @ newline # v" "newline \<notin> set v" "RuneLastIndex doc [newline] = int (length u)" .
  from t(2) have "CountLines v newline = 0" by (simp add: CountLines_count count_list_0_iff)
  with t that[of "[u @ [newline], v]"] show ?thesis
    by (auto simp: text_ops_def spans_def NewOp_def Let_def RuneCount_def)
qed

lemma spans_plain: "spans n op' x \<Longrightarrow> OpCode op' \<noteq> NoCode \<Longrightarrow> attribs_wf (Attribs op') \<Longrightarrow> op_plain op'"
  by (auto simp: op_plain_def dest: spans_nonneg)

lemma pieces_plain:
  "list_all2 (spans n) ops xs \<Longrightarrow> list_all (\<lambda>op'. OpCode op' = c) ops \<Longrightarrow> list_all (\<lambda>op'. Attribs op' = a) ops \<Longrightarrow>
   c \<noteq> NoCode \<Longrightarrow> attribs_wf a \<Longrightarrow> list_all op_plain ops \<and> total ops = RuneCount (concat xs)"
proof (induction ops xs rule: list_all2_induct)
  case (Cons op' ops x xs)
  then have "op_plain op'" by (intro spans_plain) auto
  with Cons show ?case by (simp add: spans_def)
qed simp

lemma pieces_runs:
  "list_all2 (spans n) ops xs \<Longrightarrow> list_all (\<lambda>op'. OpCode op' = Plus) ops \<Longrightarrow> runs n ops (concat xs @ b) t (concat xs) b t"
  "list_all2 (spans n) ops xs \<Longrightarrow> list_all (\<lambda>op'. OpCode op' = Minus) ops \<Longrightarrow> runs n ops b (concat xs @ t) [] b t"
  "list_all2 (spans n) ops xs \<Longrightarrow> list_all (\<lambda>op'. OpCode op' = Keep) ops \<Longrightarrow> runs n ops b (concat xs @ t) (concat xs) b t"
  by (induction ops xs rule: list_all2_induct) (auto intro: runs.intros)

lemma text_ops_runs:
  "runs n (text_ops Plus a doc) (doc @ b) t doc b t"
  "runs n (text_ops Minus a doc) b (doc @ t) [] b t"
  "runs n (text_ops Keep a doc) b (doc @ t) doc b t"
proof -
  show "runs n (text_ops Plus a doc) (doc @ b) t doc b t"
    by (rule text_ops_pieces[of doc n Plus a]) (metis pieces_runs(1))
  show "runs n (text_ops Minus a doc) b (doc @ t) [] b t"
    by (rule text_ops_pieces[of doc n Minus a]) (metis pieces_runs(2))
  show "runs n (text_ops Keep a doc) b (doc @ t) doc b t"
    by (rule text_ops_pieces[of doc n Keep a]) (metis pieces_runs(3))
qed

lemma text_ops_plain:
  assumes "c \<noteq> NoCode" "attribs_wf a"
  shows "list_all op_plain (text_ops c a doc)" "total (text_ops c a doc) = RuneCount doc"
  using pieces_plain[OF _ _ _ assms] by (rule_tac text_ops_pieces[of doc False c a], metis)+

lemma OpsFromText_string [simp]:
  "OpsFromText c doc (Some (string_args a)) pool = Inr (text_ops c a doc, pool)"
  by (simp add: OpsFromText_def string_args_def)

subsection \<open>MakeSplice\<close>

definition splice_ops :: "gostring \<Rightarrow> nat \<Rightarrow> nat \<Rightarrow> gostring \<Rightarrow> gostring \<Rightarrow> Op list" where
  "splice_ops orig i n ins a =
     text_ops Keep [] (take i orig) @ text_ops Minus [] (take n (drop i orig)) @ text_ops Plus a ins"

lemma splice_ops_applies: "applies m (splice_ops orig i n ins a) ins [] orig (take i orig @ ins @ drop (i + n) orig)"
proof -
  let ?t = "drop (i + n) orig"
  have "orig = take i orig @ take n (drop i orig) @ ?t"
    by (metis append_take_drop_id drop_drop add.commute)
  moreover have "runs m (splice_ops orig i n ins a) (ins @ []) (take i orig @ take n (drop i orig) @ ?t) (take i orig @ [] @ ins) [] ?t"
    unfolding splice_ops_def by (rule runs_appendI[OF text_ops_runs(3) runs_appendI[OF text_ops_runs(2) text_ops_runs(1)]])
  ultimately show ?thesis unfolding applies_def by (metis append.right_neutral append.assoc append_Nil)
qed

lemma splice_ops_plain:
  assumes "attribs_wf a" "RuneCount orig + RuneCount ins < 2 ^ 63"
  shows "ops_plain (splice_ops orig i n ins a)"
proof -
  have "length (take i orig) + length (take n (drop i orig)) \<le> length orig" by simp
  then have "RuneCount (take i orig) + RuneCount (take n (drop i orig)) \<le> RuneCount orig"
    unfolding RuneCount_def by linarith
  with assms show ?thesis by (simp add: ops_plain_def splice_ops_def text_ops_plain)
qed

lemma MakeSplice_eq:
  assumes "0 \<le> start" "0 \<le> ndel"
  shows "MakeSplice orig start ndel ins attribs pool =
    Inr (Pack (RuneCount orig)
      (RuneCount orig + RuneCount ins - RuneCount (take (nat ndel) (drop (nat start) orig)))
      (fst (SOA_String (SOA_EndDocument (fold SOA_Append
        (splice_ops orig (nat start) (nat ndel) ins (case attribs of None \<Rightarrow> [] | Some a \<Rightarrow> a)) NewSmartOpAssembler)))) ins)"
proof -
  let ?s = "if start > RuneCount orig then RuneCount orig else start"
  let ?n = "if ndel > RuneCount orig - ?s then RuneCount orig - ?s else ndel"
  have keep: "RuneSlice orig 0 ?s = take (nat start) orig"
    by (simp add: RuneSlice_upto RuneCount_def)
  have del: "RuneSlice orig ?s (?s + ?n) = take (nat ndel) (drop (nat start) orig)"
    using assms by (auto simp: RuneSlice_eq RuneCount_def nat_add_distrib nat_diff_distrib)
  have len: "RuneCount (take (nat ndel) (drop (nat start) orig)) = ?n"
    using assms by (auto simp: RuneCount_def min_def)
  show ?thesis
    using assms unfolding MakeSplice_def Let_def
    by (simp only: keep del len splice_ops_def OpsFromText_string bind_result.simps prod.case fold_append
        if_False linorder_not_less[symmetric] simp_thms)
qed

lemma MakeSplice_applies:
  assumes "0 \<le> start" "0 \<le> ndel" "RuneCount orig + RuneCount ins < 2 ^ 63"
    and a: "attribs_wf (case attribs of None \<Rightarrow> [] | Some a \<Rightarrow> a)"
  shows "\<exists>cs. MakeSplice orig start ndel ins attribs pool = Inr cs \<and>
    ApplyToText cs orig = Inr (take (nat start) orig @ ins @ drop (nat start + nat ndel) orig)"
proof -
  let ?d = "take (nat ndel) (drop (nat start) orig)"
  have d: "0 \<le> RuneCount ?d" "RuneCount ?d \<le> RuneCount orig" by (simp_all add: RuneCount_def)
  have "fits (RuneCount orig)" using assms(3) RuneCount_nonneg[of ins] by (simp add: fits_def RuneCount_def)
  moreover have "\<bar>RuneCount orig + RuneCount ins - RuneCount ?d - RuneCount orig\<bar> < 2 ^ 63"
    using assms(3) d RuneCount_nonneg[of ins] RuneCount_nonneg[of orig] by linarith
  ultimately show ?thesis
    unfolding MakeSplice_eq[OF assms(1,2)]
    by (metis smart_end.apply_packed[OF splice_ops_plain[OF a assms(3)] _ _ refl splice_ops_applies])
qed

end
