(* ===== verification/TextLinesSpec.thy ===== *)
theory TextLinesSpec
  imports TextLines ChangesetsSpec
begin

text \<open>
  The line editor edits the text the lines make up: every operation of
  \<^verbatim>\<open>TextLinesMutator\<close> moves through the concatenation of the lines exactly as the same
  operation of a changeset moves through a text, and the lines stay lines (all but the last
  end in their only newline).
\<close>

subsection \<open>Lines\<close>

definition closed_line :: "gostring \<Rightarrow> bool" where
  "closed_line l \<longleftrightarrow> l \<noteq> [] \<and> last l = newline \<and> newline \<notin> set (butlast l)"

fun neat_lines :: "gostring list \<Rightarrow> bool" where
  "neat_lines [] \<longleftrightarrow> True"
| "neat_lines [l] \<longleftrightarrow> newline \<notin> set (butlast l)"
| "neat_lines (l # ls) \<longleftrightarrow> closed_line l \<and> neat_lines ls"

lemma not_closed_line: "newline \<notin> set u \<Longrightarrow> \<not> closed_line u"
  by (cases u rule: rev_cases) (auto simp: closed_line_def)

lemma closed_line_append [simp]: "newline \<notin> set u \<Longrightarrow> closed_line (u @ v) \<longleftrightarrow> closed_line v"
  using not_closed_line[of u] not_closed_line[of "[]"]
  by (cases "v = []") (simp, auto simp: closed_line_def butlast_append)

lemma neat_lines_Cons: "neat_lines (l # ls) \<longleftrightarrow> newline \<notin> set (butlast l) \<and> (ls \<noteq> [] \<longrightarrow> closed_line l \<and> neat_lines ls)"
  by (cases ls) (auto simp: closed_line_def)

lemma neat_lines_tl [simp]: "neat_lines (l # ls) \<Longrightarrow> neat_lines ls"
  by (cases ls) auto

lemma neat_lines_append: "list_all closed_line ls \<Longrightarrow> neat_lines (ls @ ms) \<longleftrightarrow> neat_lines ms"
  by (induction ls) (auto simp: neat_lines_Cons closed_line_def)

lemma neat_lines_closed: "list_all closed_line ls \<Longrightarrow> neat_lines ls"
  using neat_lines_append[of ls "[]"] by simp

lemma neat_lines_prefix [simp]: "newline \<notin> set u \<Longrightarrow> neat_lines ((u @ v) # ls) \<longleftrightarrow> neat_lines (v # ls)"
  using not_closed_line[of u] not_closed_line[of "[]"]
  by (cases "v = []") (auto simp: neat_lines_Cons butlast_append dest: in_set_butlastD)

lemma newline_split:
  assumes "newline \<notin> set (butlast l)" "l @ s = x @ r" "x \<noteq> []" "last x = newline"
  shows "\<exists>x'. x = l @ x' \<and> s = x' @ r"
proof -
  from assms(2) consider (pre) us where "l = x @ us" "us @ s = r" | (ext) us where "x = l @ us" "s = us @ r"
    by (auto simp: append_eq_append_conv2)
  then show ?thesis
  proof cases
    case pre
    moreover have "us = []"
    proof (rule ccontr)
      assume "us \<noteq> []"
      then have "newline \<in> set (butlast l)"
        using pre(1) assms(3,4) last_in_set[of x] by (simp add: butlast_append)
      with assms(1) show False ..
    qed
    ultimately show ?thesis by simp
  next
    case ext
    then show ?thesis by blast
  qed
qed

lemma lines_split:
  assumes "neat_lines ls" "concat ls = x @ r" "x \<noteq> []" "last x = newline"
  shows "\<exists>xs rs. ls = xs @ rs \<and> x = concat xs \<and> r = concat rs \<and> list_all closed_line xs \<and> neat_lines rs \<and>
    int (length xs) = CountLines x newline \<and> xs \<noteq> []"
  using assms
proof (induction ls arbitrary: x)
  case Nil
  then show ?case by simp
next
  case (Cons l ls)
  then obtain x' where x': "x = l @ x'" "concat ls = x' @ r"
    using newline_split[of l "concat ls" x r] by (auto simp: neat_lines_Cons)
  have closed: "closed_line l \<and> CountLines l newline = 1"
  proof -
    have c: "closed_line l"
    proof (cases "ls = []")
      case True
      with x'(2) have "x' = []" by simp
      with x'(1) Cons.prems show ?thesis by (simp add: closed_line_def neat_lines_Cons)
    next
      case False
      with Cons.prems(1) show ?thesis by (simp add: neat_lines_Cons)
    qed
    then obtain l' where "l = l' @ [newline]" "newline \<notin> set l'"
      by (metis append_butlast_last_id closed_line_def)
    with c show ?thesis by (simp add: CountLines_count count_notin)
  qed
  show ?case
  proof (cases "x' = []")
    case True
    with x' closed Cons.prems(1) show ?thesis by (intro exI[of _ "[l]"] exI[of _ ls]) simp
  next
    case False
    with Cons.IH[of x'] Cons.prems x' obtain xs rs where
      "ls = xs @ rs" "x' = concat xs" "r = concat rs" "list_all closed_line xs" "neat_lines rs"
      "int (length xs) = CountLines x' newline" by auto
    with x'(1) closed show ?thesis by (intro exI[of _ "l # xs"] exI[of _ rs]) simp
  qed
qed

lemma line_split:
  assumes "neat_lines (l # ls)" "l @ concat ls = x @ r" "newline \<notin> set x"
  shows "\<exists>v. l = x @ v \<and> r = v @ concat ls \<and> neat_lines (v # ls)"
proof -
  from assms(2) consider (pre) us where "l = x @ us" "r = us @ concat ls" | (ext) us where "x = l @ us" "concat ls = us @ r"
    by (auto simp: append_eq_append_conv2)
  then show ?thesis
  proof cases
    case pre
    with assms(1,3) show ?thesis by auto
  next
    case ext
    then have "ls = []"
      using assms(1,3) by (auto simp: neat_lines_Cons closed_line_def dest: last_in_set)
    with ext assms(1) show ?thesis by simp
  qed
qed

lemma SplitTextLines_spec: "concat (SplitTextLines s) = s \<and> neat_lines (SplitTextLines s)"
proof (induction s rule: SplitTextLines.induct)
  case (1 s)
  let ?line = "takeWhile (\<lambda>r. r \<noteq> newline) s" and ?rest = "dropWhile (\<lambda>r. r \<noteq> newline) s"
  have s: "s = ?line @ ?rest" by simp
  have nl: "newline \<notin> set ?line" by (auto dest: set_takeWhileD)
  show ?case
  proof (cases "s = [] \<or> ?rest = []")
    case True
    with nl s show ?thesis
      by (auto simp: SplitTextLines.simps[of s] dest: in_set_butlastD)
  next
    case False
    then have hd: "hd ?rest = newline" using hd_dropWhile[of "\<lambda>r. r \<noteq> newline" s] by simp
    with False have rest: "?rest = newline # tl ?rest" by (metis list.collapse)
    from False have "SplitTextLines s = (?line @ [newline]) # SplitTextLines (tl ?rest)"
      by (subst SplitTextLines.simps) (simp add: Let_def)
    moreover have "closed_line (?line @ [newline])" using nl by (simp add: closed_line_def)
    moreover have "?line @ newline # tl ?rest = s" using rest s by metis
    ultimately show ?thesis using 1[OF _ refl refl] False nl by (auto simp: neat_lines_Cons closed_line_def)
  qed
qed

lemmas SplitTextLines_concat [simp] = SplitTextLines_spec[THEN conjunct1]
lemmas SplitTextLines_neat [simp] = SplitTextLines_spec[THEN conjunct2]

lemma SplitTextLines_closed:
  assumes "s \<noteq> []" "last s = newline"
  shows "list_all closed_line (SplitTextLines s) \<and> SplitTextLines s \<noteq> []"
proof -
  from lines_split[OF SplitTextLines_neat, of s s "[]"] assms obtain xs rs where
    x: "SplitTextLines s = xs @ rs" "concat rs = []" "s = concat xs" "list_all closed_line xs" "xs \<noteq> []" by auto
  have "[] \<notin> set (SplitTextLines t)" for t
  proof (induction t rule: SplitTextLines.induct)
    case (1 t)
    have "takeWhile (\<lambda>r. r \<noteq> newline) t \<noteq> []" if "t \<noteq> []" "dropWhile (\<lambda>r. r \<noteq> newline) t = []"
      using that by (cases t) (auto split: if_splits)
    with 1[OF _ refl refl] show ?case by (subst SplitTextLines.simps) (auto simp: Let_def simp del: dropWhile_eq_Nil_conv)
  qed
  with x have "rs = []" by (metis Un_iff concat_eq_Nil_conv last_in_set set_append)
  with x show ?thesis by simp
qed

subsection \<open>The position of the editor in the text\<close>

text \<open>
  \<open>mut_at m out rest\<close>: the lines the editor stands for make up \<open>out @ rest\<close>, and it stands
  between the two: before the lines \<open>B\<close> (\<open>between\<close>) or inside a line \<open>u @ v\<close> (\<open>on\<close>), with
  no splice open or with a splice that replaces the lines \<open>D\<close> by \<open>S\<close>.
\<close>

definition splice_at :: "TextLinesMutator \<Rightarrow> gostring list \<Rightarrow> gostring list \<Rightarrow> gostring list \<Rightarrow> gostring list \<Rightarrow> bool" where
  "splice_at m A D S B \<longleftrightarrow> inSplice m \<and> splice_start m = int (length A) \<and> mut_lines m = A @ D @ B \<and>
     splice_del m = int (length D) \<and> list_all closed_line A \<and> list_all closed_line S"

text \<open>Inside a line of the splice. A line put there at the end of the text counts as deleted too.\<close>

definition on_line ::
  "TextLinesMutator \<Rightarrow> gostring list \<Rightarrow> gostring list \<Rightarrow> gostring list \<Rightarrow> gostring \<Rightarrow> gostring \<Rightarrow> gostring list \<Rightarrow> bool" where
  "on_line m A D S u v B \<longleftrightarrow> inSplice m \<and> splice_start m = int (length A) \<and> mut_lines m = A @ D @ B \<and>
     (splice_del m = int (length D) \<or> splice_del m = int (length D) + 1 \<and> v = [] \<and> B = []) \<and>
     list_all closed_line A \<and> list_all closed_line S \<and> splice_lines m = S @ [u @ v] \<and>
     curLine m = int (length A) + int (length S) \<and> curCol m = int (length u) \<and> newline \<notin> set u \<and> neat_lines (v # B)"

inductive mut_at :: "TextLinesMutator \<Rightarrow> gostring \<Rightarrow> gostring \<Rightarrow> bool" where
  between: "\<not> inSplice m \<Longrightarrow> splice_lines m = [] \<Longrightarrow> mut_lines m = A @ B \<Longrightarrow> curLine m = int (length A) \<Longrightarrow>
     curCol m = 0 \<Longrightarrow> list_all closed_line A \<Longrightarrow> neat_lines B \<Longrightarrow> mut_at m (concat A) (concat B)"
| on: "\<not> inSplice m \<Longrightarrow> splice_lines m = [] \<Longrightarrow> mut_lines m = A @ (u @ v) # B \<Longrightarrow> curLine m = int (length A) \<Longrightarrow>
     curCol m = int (length u) \<Longrightarrow> newline \<notin> set u \<Longrightarrow> list_all closed_line A \<Longrightarrow> neat_lines (v # B) \<Longrightarrow>
     mut_at m (concat A @ u) (v @ concat B)"
| splice_between: "splice_at m A D S B \<Longrightarrow> splice_lines m = S \<Longrightarrow> curLine m = int (length A) + int (length S) \<Longrightarrow>
     curCol m = 0 \<Longrightarrow> neat_lines B \<Longrightarrow> mut_at m (concat A @ concat S) (concat B)"
| splice_on: "on_line m A D S u v B \<Longrightarrow> mut_at m (concat A @ concat S @ u) (v @ concat B)"

lemmas mut_at_intros = between on splice_between splice_on

lemma mut_at_new: "neat_lines ls \<Longrightarrow> mut_at (NewTextLinesMutator ls) [] (concat ls)"
  using between[of "NewTextLinesMutator ls" "[]" ls] by (simp add: NewTextLinesMutator_def)

text \<open>In a splice there are two positions.\<close>

lemma mut_at_splice_cases [consumes 2, case_names between on]:
  assumes "mut_at m out rest" "inSplice m"
  obtains A D S B where "splice_at m A D S B" "splice_lines m = S" "curLine m = int (length A) + int (length S)"
      "curCol m = 0" "neat_lines B" "out = concat A @ concat S" "rest = concat B"
    | A D S u v B where "on_line m A D S u v B" "out = concat A @ concat S @ u" "rest = v @ concat B"
  using assms by cases auto

lemma linesGet_append [simp]: "mut_lines m = A @ B \<Longrightarrow> linesGet (int (length A)) m = (case B of [] \<Rightarrow> [] | l # _ \<Rightarrow> l)"
  by (cases B) (auto simp: linesGet_def nth_append)

lemma linesGet_append2 [simp]:
  "mut_lines m = A @ D @ B \<Longrightarrow> linesGet (int (length A) + int (length D)) m = (case B of [] \<Rightarrow> [] | l # _ \<Rightarrow> l)"
  using linesGet_append[of m "A @ D" B] by simp

lemma entered_at:
  assumes "mut_at m out rest"
  shows "mut_at (entered m) out rest \<and> inSplice (entered m)"
  using assms
proof cases
  case (between A B)
  then have "splice_at (enterSplice m) A [] [] B" "splice_lines (enterSplice m) = []"
    "curLine (enterSplice m) = int (length A)" "curCol (enterSplice m) = 0"
    by (simp_all add: enterSplice_def splice_at_def)
  with splice_between[of "enterSplice m" A "[]" "[]" B] between show ?thesis by (simp add: entered_def splice_at_def)
next
  case (on A u v B)
  show ?thesis
  proof (cases "u = []")
    case True
    with on have "splice_at (enterSplice m) A [] [] (v # B)" "splice_lines (enterSplice m) = []"
      "curLine (enterSplice m) = int (length A)" "curCol (enterSplice m) = 0"
      by (simp_all add: enterSplice_def splice_at_def)
    with splice_between[of "enterSplice m" A "[]" "[]" "v # B"] on True show ?thesis by (simp add: entered_def splice_at_def)
  next
    case False
    with on have "on_line (enterSplice m) A [u @ v] [] u v B"
      by (simp add: on_line_def enterSplice_def putCurLineInSplice_def isCurLineInSplice_def linesGet_def nth_append)
    with splice_on[of "enterSplice m" A "[u @ v]" "[]" u v B] on show ?thesis by (simp add: entered_def on_line_def)
  qed
qed (auto simp: entered_def splice_at_def on_line_def intro: mut_at_intros)

text \<open>Putting the current line into the splice.\<close>

lemma putCurLine_at:
  assumes "mut_at m out rest" "inSplice m"
  shows "\<exists>A D S u v B. on_line (snd (putCurLineInSplice m)) A D S u v B \<and> fst (putCurLineInSplice m) = int (length S) \<and>
    out = concat A @ concat S @ u \<and> rest = v @ concat B \<and> curCol m = int (length u)"
  using assms
proof (cases rule: mut_at_splice_cases)
  case (between A D S B)
  let ?m = "snd (putCurLineInSplice m)"
  show ?thesis
  proof (cases B)
    case Nil
    with between have "on_line ?m A D S [] [] []"
      by (simp add: splice_at_def on_line_def putCurLineInSplice_def isCurLineInSplice_def)
    with between Nil show ?thesis
      by (intro exI[where x=A] exI[where x=D] exI[where x=S] exI[where x="[]"])
        (auto simp: splice_at_def putCurLineInSplice_def isCurLineInSplice_def)
  next
    case (Cons l B')
    with between have "on_line ?m A (D @ [l]) S [] l B'"
      by (simp add: splice_at_def on_line_def putCurLineInSplice_def isCurLineInSplice_def)
    with between Cons show ?thesis
      by (intro exI[where x=A] exI[where x="D @ [l]"] exI[where x=S] exI[where x="[]"] exI[where x=l] exI[where x=B'])
        (auto simp: splice_at_def putCurLineInSplice_def isCurLineInSplice_def)
  qed
next
  case (on A D S u v B)
  then have "putCurLineInSplice m = (int (length S), m)" "curCol m = int (length u)"
    by (simp_all add: on_line_def putCurLineInSplice_def isCurLineInSplice_def)
  with on show ?thesis
    by (intro exI[where x=A] exI[where x=D] exI[where x=S] exI[where x=u] exI[where x=v] exI[where x=B]) simp
qed

subsection \<open>The operations of the editor\<close>

lemma lines_in_splice [simp]:
  "splice_at m A D S B \<Longrightarrow> splice_lines m = S \<Longrightarrow> curLine m = int (length A) + int (length S) \<Longrightarrow> \<not> isCurLineInSplice m"
  "on_line m A D S u v B \<Longrightarrow> isCurLineInSplice m"
  by (simp_all add: splice_at_def on_line_def isCurLineInSplice_def)

lemma RuneSlice_around [simp]:
  "RuneSlice (u @ v) 0 (int (length u)) = u"
  "RuneSlice (u @ v) (int (length u)) (RuneCount u + RuneCount v) = v"
  "RuneSlice (u @ x @ v) (int (length u)) (int (length u) + RuneCount x) = x"
  "RuneSlice (u @ x @ v) (int (length u) + RuneCount x) (RuneCount u + (RuneCount x + RuneCount v)) = v"
  using RuneSlice_middle[of "[]" u v] RuneSlice_last[of u v] RuneSlice_middle[of u x v] RuneSlice_last[of "u @ x" v]
  by (simp_all add: RuneCount_def)

lemma Mut_Insert_at:
  assumes "mut_at m out rest" "CountLines s newline = L" "L \<noteq> 0 \<longrightarrow> s \<noteq> [] \<and> last s = newline"
  shows "\<exists>m'. Mut_Insert s L m = Inr m' \<and> mut_at m' (out @ s) rest"
proof (cases "s = []")
  case True
  with assms show ?thesis by (simp add: Mut_Insert_def)
next
  case False
  let ?m = "entered m"
  from entered_at[OF assms(1)] have e: "mut_at ?m out rest" "inSplice ?m" by simp_all
  have "0 \<le> L" using assms(2) by force
  then consider (lines) "L > 0" | (chars) "L = 0" by linarith
  then show ?thesis
  proof cases
    case lines
    with assms(3) SplitTextLines_closed[of s] have split: "list_all closed_line (SplitTextLines s)" "SplitTextLines s \<noteq> []"
      by auto
    then obtain l ls where ls: "SplitTextLines s = l # ls" by (cases "SplitTextLines s") auto
    with SplitTextLines_concat[of s] have s: "s = l @ concat ls" by simp
    from e show ?thesis
    proof (cases rule: mut_at_splice_cases)
      case (between A D S B)
      let ?m' = "?m\<lparr>splice_lines := S @ SplitTextLines s, curLine := curLine ?m + int (length (SplitTextLines s))\<rparr>"
      have "mut_at ?m' (concat A @ concat (S @ SplitTextLines s)) (concat B)"
        using between split by (intro splice_between[where D=D]) (simp_all add: splice_at_def)
      with between lines False show ?thesis by (simp add: Mut_Insert_def Let_def)
    next
      case (on A D S u v B)
      let ?S = "S @ (u @ l) # ls"
      let ?m' = "?m\<lparr>splice_lines := ?S @ [v], curLine := curLine ?m + 1 + int (length ls), curCol := 0\<rparr>"
      have "mut_at ?m' (concat A @ concat ?S @ []) (v @ concat B)"
        using on split ls by (intro splice_on[where D=D]) (simp add: on_line_def)
      moreover have "Mut_Insert s L m = Inr ?m'"
        using on lines False ls by (simp add: Mut_Insert_def Let_def on_line_def isCurLineInSplice_def)
      ultimately show ?thesis using on s by simp
    qed
  next
    case chars
    from putCurLine_at[OF e] obtain A D S u v B where on: "on_line (snd (putCurLineInSplice ?m)) A D S u v B"
      "fst (putCurLineInSplice ?m) = int (length S)" "out = concat A @ concat S @ u" "rest = v @ concat B"
      "curCol ?m = int (length u)" by blast
    obtain i m1 where m1: "putCurLineInSplice ?m = (i, m1)" by (cases "putCurLineInSplice ?m")
    let ?m' = "m1\<lparr>splice_lines := S @ [u @ s @ v], curCol := curCol m1 + RuneCount s\<rparr>"
    have "newline \<notin> set s" using chars assms(2) by (simp add: CountLines_count count_list_0_iff)
    then have "on_line ?m' A D S (u @ s) v B"
      using on(1) m1 by (simp add: on_line_def RuneCount_def)
    from splice_on[OF this] have "mut_at ?m' (out @ s) rest" using on by simp
    moreover have "Mut_Insert s L m = Inr ?m'"
      using chars False m1 on(1,2) by (simp add: Mut_Insert_def on_line_def nth_append)
    ultimately show ?thesis by simp
  qed
qed

lemma linesSlice_append:
  assumes "mut_lines m = A @ D @ xs @ rs"
  shows "linesSlice (int (length A) + int (length D)) (int (length A) + int (length D) + int (length xs)) m = xs"
  using assms by (auto simp: linesSlice_def Let_def nat_add_distrib)

lemma linesSlice_empty [simp]: "linesSlice i i m = []"
  by (auto simp: linesSlice_def Let_def)

lemma RemoveLines_at:
  assumes "mut_at m out (x @ r)" "CountLines x newline = L" "L > 0" "x \<noteq> []" "last x = newline"
  shows "\<exists>m'. RemoveLines L m = Inr (x, m') \<and> mut_at m' out r"
proof -
  let ?m = "entered m"
  from entered_at[OF assms(1)] have "mut_at ?m out (x @ r)" "inSplice ?m" by simp_all
  then show ?thesis
  proof (cases rule: mut_at_splice_cases)
    case (between A D S B)
    from lines_split[OF between(5), of x r] between(7) assms obtain xs rs where
      x: "B = xs @ rs" "x = concat xs" "r = concat rs" "neat_lines rs" "int (length xs) = L" by auto
    let ?m' = "?m\<lparr>splice_del := splice_del ?m + L\<rparr>"
    have "mut_at ?m' (concat A @ concat S) (concat rs)"
      using between x by (intro splice_between[where D="D @ xs"]) (simp_all add: splice_at_def)
    moreover have "RemoveLines L m = Inr (x, ?m')"
      using between x assms(3) linesSlice_append[of ?m A D xs rs]
      by (simp add: RemoveLines_def Let_def nextKLinesText_def splice_at_def isCurLineInSplice_def add.assoc)
    ultimately show ?thesis using between x by simp
  next
    case (on A D S u v B)
    have "neat_lines (v # B)" "concat (v # B) = x @ r" using on by (simp_all add: on_line_def)
    from lines_split[OF this, of ] assms(2,4,5) obtain ys rs where
      y: "v # B = ys @ rs" "x = concat ys" "r = concat rs" "neat_lines rs" "int (length ys) = L" "ys \<noteq> []"
      "list_all closed_line ys" by auto
    then obtain xs where xs: "ys = v # xs" "B = xs @ rs" by (cases ys) auto
    have del: "splice_del ?m = int (length D)" and "v \<noteq> []"
      using on y(7) xs by (auto simp: on_line_def closed_line_def)
    have slice: "nextKLinesText (L - 1) m2 = concat xs"
      if "mut_lines m2 = mut_lines ?m" "splice_del m2 = splice_del ?m" "splice_start m2 = splice_start ?m" for m2
      using that linesSlice_append[of m2 A D xs rs] on xs y(5) del
      by (auto simp: nextKLinesText_def Let_def on_line_def add.assoc)
    show ?thesis
    proof (cases "u = []")
      case True
      let ?m' = "?m\<lparr>splice_lines := S, splice_del := splice_del ?m + L - 1\<rparr>"
      have "mut_at ?m' (concat A @ concat S) (concat rs)"
        using on y xs True del by (intro splice_between[where D="D @ xs"]) (auto simp: splice_at_def on_line_def)
      moreover have "RemoveLines L m = Inr (x, ?m')"
        using on y xs True assms(3) slice[of "?m\<lparr>splice_lines := S\<rparr>"]
        by (simp add: RemoveLines_def Let_def on_line_def isCurLineInSplice_def)
      ultimately show ?thesis using on y True by simp
    next
      case False
      let ?l = "case rs of [] \<Rightarrow> [] | l # _ \<Rightarrow> l"
      let ?m' = "?m\<lparr>splice_lines := S @ [u @ ?l], splice_del := splice_del ?m + L - 1 + 1\<rparr>"
      have "on_line ?m' A (D @ xs @ take 1 rs) S u ?l (tl rs)"
        using on y xs del by (cases rs) (auto simp: on_line_def)
      from splice_on[OF this] have "mut_at ?m' out r" using on y(3) by (cases rs) auto
      moreover have "linesGet (int (length A) + (splice_del ?m + L - 1)) m2 = ?l" if "mut_lines m2 = mut_lines ?m" for m2
        using linesGet_append2[of m2 A "D @ xs" rs] that on xs y(5) del by (auto simp: on_line_def algebra_simps)
      then have "RemoveLines L m = Inr (x, ?m')"
        using on y xs False assms(3) slice[of ?m] by (simp add: RemoveLines_def Let_def on_line_def isCurLineInSplice_def)
      ultimately show ?thesis by blast
    qed
  qed
qed

text \<open>An operation without newlines stays in the line of the splice.\<close>

lemma in_line:
  assumes "on_line m A D S u v B" "v @ concat B = x @ r" "CountLines x newline = 0"
  shows "\<exists>v'. v = x @ v' \<and> r = v' @ concat B \<and> neat_lines (v' # B) \<and> newline \<notin> set x"
proof -
  have "newline \<notin> set x" using assms(3) by (simp add: CountLines_count count_list_0_iff)
  with line_split[of v B x r] assms show ?thesis by (auto simp: on_line_def)
qed

lemma Mut_Remove_at:
  assumes "mut_at m out (x @ r)" "RuneCount x = N" "CountLines x newline = L" "L \<noteq> 0 \<longrightarrow> x \<noteq> [] \<and> last x = newline"
  shows "\<exists>m'. Mut_Remove N L m = Inr (x, m') \<and> mut_at m' out r"
proof (cases "x = []")
  case True
  with assms show ?thesis by (simp add: Mut_Remove_def RuneCount_def)
next
  case False
  then have N: "N \<noteq> 0" using assms(2) by (auto simp: RuneCount_def)
  have "0 \<le> L" using assms(3) by force
  then consider (lines) "L > 0" | (chars) "L = 0" by linarith
  then show ?thesis
  proof cases
    case lines
    with RemoveLines_at[OF assms(1,3)] assms(4) N show ?thesis by (simp add: Mut_Remove_def)
  next
    case chars
    from entered_at[OF assms(1)] have e: "mut_at (entered m) out (x @ r)" "inSplice (entered m)" by simp_all
    from putCurLine_at[OF e] obtain A D S u v B where on: "on_line (snd (putCurLineInSplice (entered m))) A D S u v B"
      "fst (putCurLineInSplice (entered m)) = int (length S)" "out = concat A @ concat S @ u" "x @ r = v @ concat B" by blast
    obtain i m1 where m1: "putCurLineInSplice (entered m) = (i, m1)" by (cases "putCurLineInSplice (entered m)")
    from in_line[OF on(1) on(4)[symmetric]] assms(3) chars obtain v' where
      v': "v = x @ v'" "r = v' @ concat B" "neat_lines (v' # B)" by auto
    let ?m' = "m1\<lparr>splice_lines := S @ [u @ v']\<rparr>"
    have "on_line ?m' A D S u v' B" using on(1) m1 v' False by (auto simp: on_line_def)
    from splice_on[OF this] have "mut_at ?m' out r" using on v' by simp
    moreover have inside: "\<not> RuneCount u + (RuneCount x + RuneCount v') < int (length u) + RuneCount x"
      by (simp add: RuneCount_def)
    have "Mut_Remove N L m = Inr (x, ?m')"
      using chars N m1 on(1,2) v'(1) inside unfolding assms(2)[symmetric]
      by (simp add: Mut_Remove_def on_line_def in_splice_def nth_append Let_def)
    ultimately show ?thesis by blast
  qed
qed

lemma leaveSplice_at:
  assumes "mut_at m out rest" "inSplice m"
  shows "\<exists>m'. leaveSplice m = Inr m' \<and> mut_at m' out rest \<and> \<not> inSplice m'"
  using assms
proof (cases rule: mut_at_splice_cases)
  case (between A D S B)
  let ?m' = "m\<lparr>mut_lines := A @ S @ B, splice_start := 0, splice_del := 0, splice_lines := [], inSplice := False\<rparr>"
  have "leaveSplice m = Inr ?m'" using between by (simp add: leaveSplice_def splice_at_def Let_def nat_add_distrib)
  moreover have "mut_at ?m' (concat (A @ S)) (concat B)"
    using between by (intro mut_at.between) (simp_all add: splice_at_def)
  ultimately show ?thesis using between by simp
next
  case (on A D S u v B)
  let ?m' = "m\<lparr>mut_lines := A @ S @ (u @ v) # B, splice_start := 0, splice_del := 0, splice_lines := [], inSplice := False\<rparr>"
  have "leaveSplice m = Inr ?m'" using on by (auto simp: leaveSplice_def on_line_def Let_def nat_add_distrib)
  moreover have "mut_at ?m' (concat (A @ S) @ u) (v @ concat B)"
    using on by (intro mut_at.on) (simp_all add: on_line_def)
  ultimately show ?thesis using on by simp
qed

text \<open>Moving over whole lines inside the splice.\<close>

definition before :: "TextLinesMutator \<Rightarrow> gostring \<Rightarrow> gostring list \<Rightarrow> bool" where
  "before m out B \<longleftrightarrow> (\<exists>A D S. splice_at m A D S B \<and> splice_lines m = S \<and>
     curLine m = int (length A) + int (length S) \<and> curCol m = 0 \<and> neat_lines B \<and> out = concat A @ concat S)"

lemma before_at: "before m out B \<Longrightarrow> mut_at m out (concat B) \<and> inSplice m"
  by (auto simp: before_def splice_at_def intro: splice_between)

lemma put_curCol: "putCurLineInSplice (m\<lparr>curCol := c\<rparr>) = (fst (putCurLineInSplice m), snd (putCurLineInSplice m)\<lparr>curCol := c\<rparr>)"
  by (simp add: putCurLineInSplice_def isCurLineInSplice_def linesGet_def)

definition next_line :: "TextLinesMutator \<Rightarrow> TextLinesMutator" where
  "next_line m = (let m1 = snd (putCurLineInSplice m) in m1\<lparr>curLine := curLine m1 + 1, curCol := 0\<rparr>)"

lemma put_lines_next: "put_lines (Suc n) m = put_lines n (next_line m)"
proof -
  have swap: "q\<lparr>curCol := 0, curLine := l\<rparr> = q\<lparr>curLine := l, curCol := 0\<rparr>" for q :: TextLinesMutator and l by simp
  show ?thesis by (simp add: next_line_def put_curCol Let_def swap)
qed

lemma next_line_before:
  assumes "before m out (l # B)" "closed_line l"
  shows "before (next_line m) (out @ l) B"
proof -
  from assms obtain A D S where m: "splice_at m A D S (l # B)" "splice_lines m = S" "curLine m = int (length A) + int (length S)"
    "curCol m = 0" "neat_lines (l # B)" "out = concat A @ concat S" by (auto simp: before_def)
  then have "splice_at (next_line m) A (D @ [l]) (S @ [l]) B"
    using assms(2) by (simp add: next_line_def Let_def putCurLineInSplice_def splice_at_def isCurLineInSplice_def)
  with m assms(2) show ?thesis unfolding before_def
    by (intro exI[where x=A] exI[where x="D @ [l]"] exI[where x="S @ [l]"])
      (simp add: next_line_def Let_def putCurLineInSplice_def splice_at_def isCurLineInSplice_def)
qed

lemma put_lines_before:
  "before m out (xs @ rs) \<Longrightarrow> list_all closed_line xs \<Longrightarrow> before (put_lines (length xs) m) (out @ concat xs) rs"
proof (induction xs arbitrary: m out)
  case (Cons l xs)
  then have "before (put_lines (length xs) (next_line m)) ((out @ l) @ concat xs) rs"
    by (intro Cons.IH next_line_before) simp_all
  then show ?case by (simp add: put_lines_next del: put_lines.simps)
qed simp

lemma next_line_at:
  assumes "mut_at m out (x @ r)" "inSplice m" "CountLines x newline > 0" "last x = newline"
  shows "\<exists>l xs rs. x = l @ concat xs \<and> r = concat rs \<and> before (next_line m) (out @ l) (xs @ rs) \<and>
    list_all closed_line xs \<and> int (length xs) + 1 = CountLines x newline"
proof -
  have x: "x \<noteq> []" using assms(3) by auto
  from assms(1,2) show ?thesis
  proof (cases rule: mut_at_splice_cases)
    case (between A D S B)
    from lines_split[OF between(5), of x r] between(7) x assms(4) obtain ys rs where
      y: "B = ys @ rs" "x = concat ys" "r = concat rs" "list_all closed_line ys" "int (length ys) = CountLines x newline" "ys \<noteq> []"
      by auto
    then obtain l xs where "ys = l # xs" by (cases ys) auto
    with between y have "before m out (l # xs @ rs)" "closed_line l" unfolding before_def by auto
    from next_line_before[OF this] y \<open>ys = l # xs\<close> show ?thesis by (intro exI[where x=l] exI[where x=xs] exI[where x=rs]) auto
  next
    case (on A D S u v B)
    have "neat_lines (v # B)" "concat (v # B) = x @ r" using on by (simp_all add: on_line_def)
    from lines_split[OF this x assms(4)] obtain ys rs where
      y: "v # B = ys @ rs" "x = concat ys" "r = concat rs" "list_all closed_line ys" "int (length ys) = CountLines x newline" "ys \<noteq> []"
      by auto
    then obtain xs where xs: "ys = v # xs" "B = xs @ rs" by (cases ys) auto
    have v: "v \<noteq> []" "closed_line v" using y(4) xs by (auto simp: closed_line_def)
    have "splice_at (next_line m) A D (S @ [u @ v]) B" "splice_lines (next_line m) = S @ [u @ v]"
      "curLine (next_line m) = int (length A) + int (length (S @ [u @ v]))" "curCol (next_line m) = 0" "neat_lines B"
      using on(1) v by (auto simp: next_line_def Let_def putCurLineInSplice_def splice_at_def isCurLineInSplice_def on_line_def)
    then have "before (next_line m) (out @ v) (xs @ rs)" unfolding before_def
      using on xs by (intro exI[where x=A] exI[where x=D] exI[where x="S @ [u @ v]"]) simp
    with xs y show ?thesis by (intro exI[where x=v] exI[where x=xs] exI[where x=rs]) auto
  qed
qed

lemma SkipLines_splice:
  assumes "mut_at m out (x @ r)" "inSplice m" "CountLines x newline = L" "L > 0" "last x = newline"
  shows "mut_at (put_lines (nat L) m) (out @ x) r"
proof -
  from next_line_at[OF assms(1,2)] assms(3-5) obtain l xs rs where
    l: "x = l @ concat xs" "r = concat rs" "before (next_line m) (out @ l) (xs @ rs)" "list_all closed_line xs"
    "int (length xs) + 1 = L" by auto
  then have "nat L = Suc (length xs)" by simp
  with before_at[OF put_lines_before[OF l(3,4)]] l(1,2) show ?thesis by (simp add: put_lines_next del: put_lines.simps)
qed

text \<open>Moving over whole lines with no splice open.\<close>

lemma jump_lines_at:
  assumes "mut_at m out (x @ r)" "\<not> inSplice m" "CountLines x newline = L" "L > 0" "last x = newline"
  shows "mut_at (m\<lparr>curLine := curLine m + L, curCol := 0\<rparr>) (out @ x) r"
proof -
  have x: "x \<noteq> []" using assms(3,4) by auto
  from assms(1,2) show ?thesis
  proof cases
    case (between A B)
    from lines_split[OF between(9), of x r] between(2) x assms(3,5) obtain ys rs where
      y: "B = ys @ rs" "x = concat ys" "r = concat rs" "list_all closed_line ys" "int (length ys) = L" "neat_lines rs" by auto
    have "mut_at (m\<lparr>curLine := curLine m + L, curCol := 0\<rparr>) (concat (A @ ys)) (concat rs)"
      using between y by (intro mut_at.between) simp_all
    with between y show ?thesis by simp
  next
    case (on A u v B)
    from lines_split[OF on(10), of x r] on(2) x assms(3,5) obtain ys rs where
      y: "v # B = ys @ rs" "x = concat ys" "r = concat rs" "list_all closed_line ys" "int (length ys) = L" "ys \<noteq> []" "neat_lines rs"
      by auto
    then obtain xs where xs: "ys = v # xs" "B = xs @ rs" by (cases ys) auto
    have "mut_at (m\<lparr>curLine := curLine m + L, curCol := 0\<rparr>) (concat (A @ (u @ v) # xs)) (concat rs)"
      using on y xs by (intro mut_at.between) simp_all
    with on y xs show ?thesis by simp
  qed (simp_all add: splice_at_def on_line_def)
qed

lemma SkipLines_at:
  assumes "mut_at m out (x @ r)" "CountLines x newline = L" "L > 0" "last x = newline"
  shows "\<exists>m'. SkipLines L inc m = Inr m' \<and> mut_at m' (out @ x) r"
proof -
  consider (put) "inc" | (jump) "\<not> inc" "\<not> inSplice m" | (leave) "\<not> inc" "inSplice m" "L > 1" | (one) "\<not> inc" "inSplice m" "L = 1"
    using assms(3) by linarith
  then show ?thesis
  proof cases
    case put
    with SkipLines_splice[OF _ _ assms(2-4)] entered_at[OF assms(1)] assms(3) show ?thesis by (simp add: SkipLines_def)
  next
    case jump
    with jump_lines_at[OF assms(1) _ assms(2-4)] assms(3) show ?thesis by (simp add: SkipLines_def)
  next
    case leave
    from leaveSplice_at[OF assms(1) leave(2)] obtain m1 where
      m1: "leaveSplice m = Inr m1" "mut_at m1 out (x @ r)" "\<not> inSplice m1" by blast
    with jump_lines_at[OF m1(2,3) assms(2-4)] leave assms(3) show ?thesis by (simp add: SkipLines_def)
  next
    case one
    from next_line_at[OF assms(1) one(2)] assms(2-4) one(3) obtain l rs where
      l: "x = l" "r = concat rs" "before (next_line m) (out @ l) rs" by auto
    moreover have "SkipLines L inc m = Inr (next_line m)"
      using one by (simp add: SkipLines_def next_line_def Let_def)
    ultimately show ?thesis using before_at by blast
  qed
qed

lemma Skip_in_line:
  assumes "mut_at m out (x @ r)" "CountLines x newline = 0" "x \<noteq> []"
  shows "mut_at (let m2 = (if inSplice m then snd (putCurLineInSplice m) else m) in m2\<lparr>curCol := curCol m2 + RuneCount x\<rparr>)
    (out @ x) r"
proof (cases "inSplice m")
  case True
  from putCurLine_at[OF assms(1) True] obtain A D S u v B where
    on: "on_line (snd (putCurLineInSplice m)) A D S u v B" "out = concat A @ concat S @ u" "x @ r = v @ concat B" by blast
  let ?m = "snd (putCurLineInSplice m)"
  from in_line[OF on(1) on(3)[symmetric] assms(2)] obtain v' where
    v': "v = x @ v'" "r = v' @ concat B" "neat_lines (v' # B)" "newline \<notin> set x" by blast
  have "on_line (?m\<lparr>curCol := curCol ?m + RuneCount x\<rparr>) A D S (u @ x) v' B"
    using on(1) v' assms(3) by (auto simp: on_line_def RuneCount_def)
  from splice_on[OF this] show ?thesis using True on v' by (simp add: Let_def)
next
  case False
  from assms(2) have nl: "newline \<notin> set x" by (simp add: CountLines_count count_list_0_iff)
  from assms(1) show ?thesis
  proof cases
    case (between A B)
    with assms(3) obtain l B' where B: "B = l # B'" by (cases B) auto
    with line_split[of l B' x r] between nl obtain v' where v': "l = x @ v'" "r = v' @ concat B'" "neat_lines (v' # B')" by auto
    have "mut_at (m\<lparr>curCol := curCol m + RuneCount x\<rparr>) (concat A @ x) (v' @ concat B')"
      using between B v' nl by (intro mut_at.on) (simp_all add: RuneCount_def)
    with between v' show ?thesis by simp
  next
    case (on A u v B)
    with line_split[of v B x r] nl obtain v' where v': "v = x @ v'" "r = v' @ concat B" "neat_lines (v' # B)" by auto
    have "mut_at (m\<lparr>curCol := curCol m + RuneCount x\<rparr>) (concat A @ (u @ x)) (v' @ concat B)"
      using on v' nl by (intro mut_at.on) (simp_all add: RuneCount_def)
    with on v' show ?thesis by simp
  qed (use False in \<open>simp_all add: splice_at_def on_line_def\<close>)
qed

lemma Mut_Skip_at:
  assumes "mut_at m out (x @ r)" "RuneCount x = N" "CountLines x newline = L" "L \<noteq> 0 \<longrightarrow> x \<noteq> [] \<and> last x = newline"
  shows "\<exists>m'. Mut_Skip N L inc m = Inr m' \<and> mut_at m' (out @ x) r"
proof (cases "x = []")
  case True
  with assms show ?thesis by (simp add: Mut_Skip_def RuneCount_def)
next
  case False
  then have N: "N \<noteq> 0" using assms(2) by (auto simp: RuneCount_def)
  have "0 \<le> L" using assms(3) by force
  then consider (lines) "L > 0" | (chars) "L = 0" by linarith
  then show ?thesis
  proof cases
    case lines
    with SkipLines_at[OF assms(1,3)] assms(4) N show ?thesis by (simp add: Mut_Skip_def)
  next
    case chars
    let ?m = "if inc \<and> \<not> inSplice m then enterSplice m else m"
    have "mut_at ?m out (x @ r)" using entered_at[OF assms(1)] assms(1) by (auto simp: entered_def split: if_splits)
    from Skip_in_line[OF this _ False] assms(2,3) chars N show ?thesis by (simp add: Mut_Skip_def Let_def)
  qed
qed

lemma Mut_Close_at:
  assumes "mut_at m out rest"
  shows "\<exists>m'. Mut_Close m = Inr m' \<and> concat (GetLines m') = out @ rest \<and> neat_lines (GetLines m')"
proof -
  have final: "concat (mut_lines m') = out @ rest \<and> neat_lines (mut_lines m')" if "mut_at m' out rest" "\<not> inSplice m'" for m'
    using that by cases (auto simp: neat_lines_append splice_at_def on_line_def)
  show ?thesis
  proof (cases "inSplice m")
    case True
    with leaveSplice_at[OF assms] final show ?thesis by (auto simp: Mut_Close_def GetLines_def)
  next
    case False
    with final assms show ?thesis by (simp add: Mut_Close_def GetLines_def)
  qed
qed

subsection \<open>MutateTextLines\<close>

lemma mutate_ops_at:
  "runs True ops b t out' b' t' \<Longrightarrow> iter_ok bi \<Longrightarrow> iter_rest bi = b \<Longrightarrow> mut_at m out t \<Longrightarrow>
   \<exists>bi' m'. mutate_ops ops (bi, m) = Inr (bi', m') \<and> mut_at m' (out @ out') t'"
proof (induction arbitrary: bi m out rule: runs.induct)
  case (runs_Nil b t)
  then show ?case by simp
next
  case (runs_Plus op' x ops b t out' b' t')
  from iter_split(2)[OF runs_Plus.prems(1), of x b] runs_Plus.prems(2) runs_Plus.hyps(2) obtain bi1 where
    b1: "Take bi (Chars op') = Inr (x, bi1)" "iter_ok bi1" "iter_rest bi1 = b" by (auto simp: spans_def)
  from Mut_Insert_at[OF runs_Plus.prems(3), of x] runs_Plus.hyps(2) obtain m1 where
    m1: "Mut_Insert x (Lines op') m = Inr m1" "mut_at m1 (out @ x) t" by (auto simp: spans_def)
  from runs_Plus.IH[OF b1(2,3) m1(2)] b1 m1 runs_Plus.hyps(1) show ?case by (auto simp: mutate_op_def)
next
  case (runs_Minus op' x ops b t out' b' t')
  from Mut_Remove_at[OF runs_Minus.prems(3)] runs_Minus.hyps(2) obtain m1 where
    m1: "Mut_Remove (Chars op') (Lines op') m = Inr (x, m1)" "mut_at m1 out t" unfolding spans_def by blast
  from runs_Minus.IH[OF runs_Minus.prems(1,2) m1(2)] m1 runs_Minus.hyps(1) show ?case by (auto simp: mutate_op_def)
next
  case (runs_Keep op' x ops b t out' b' t')
  from Mut_Skip_at[OF runs_Keep.prems(3), where inc="Attribs op' \<noteq> []"] runs_Keep.hyps(2) obtain m1 where
    m1: "Mut_Skip (Chars op') (Lines op') (Attribs op' \<noteq> []) m = Inr m1" "mut_at m1 (out @ x) t" unfolding spans_def by blast
  from runs_Keep.IH[OF runs_Keep.prems(1,2) m1(2)] m1 runs_Keep.hyps(1) show ?case by (auto simp: mutate_op_def)
qed

lemma MutateTextLines_applies:
  assumes "Unpack cs = Inr u" "DeserializeOps (Ops u) = Inr ops" "applies True ops (CharBank u) b' (concat ls) res" "neat_lines ls"
  shows "\<exists>ls'. MutateTextLines cs ls = Inr ls' \<and> concat ls' = res \<and> neat_lines ls'"
proof -
  from assms(3) obtain out rest where r: "runs True ops (CharBank u) (concat ls) out b' rest" "res = out @ rest"
    by (auto simp: applies_def)
  from mutate_ops_at[OF r(1) _ _ mut_at_new[OF assms(4)], of "NewStringIterator (CharBank u)"] obtain bi m where
    m: "mutate_ops ops (NewStringIterator (CharBank u), NewTextLinesMutator ls) = Inr (bi, m)" "mut_at m out rest" by auto
  from Mut_Close_at[OF m(2)] m(1) assms(1,2) r(2) show ?thesis by (auto simp: MutateTextLines_def)
qed

end
