(* ===== verification/Zip.thy ===== *)
theory Zip
  imports Changesets
begin

text \<open>
  \<^verbatim>\<open>ApplyZip\<close> of \<^verbatim>\<open>changeset.go\<close> and its callbacks: \<^verbatim>\<open>SlicerZipperFunc\<close>, \<^verbatim>\<open>Compose\<close>, \<^verbatim>\<open>Follow\<close>,
  \<^verbatim>\<open>ApplyToAttribution\<close>, \<^verbatim>\<open>ApplyToAText\<close> and \<^verbatim>\<open>Subattribution\<close>.

  A callback gets the two current operations and its closure's state and returns the operation
  to output, the two operations as it left them, and the state. The loop is a partial function
  in the option monad: \<open>None\<close> would be a loop that never returns, which the contract
  \<open>zip_callback\<close> rules out.
\<close>

subsection \<open>SlicerZipperFunc\<close>

type_synonym zipped = "Op \<times> Op \<times> Op"

definition slice_code :: "opcode \<Rightarrow> opcode \<Rightarrow> opcode" where
  "slice_code attCode csCode =
     (if attCode = Plus then (if csCode = Minus then NoCode else if csCode = Keep then Plus else NoCode)
      else if attCode = Keep then (if csCode = Minus then Minus else if csCode = Keep then Keep else NoCode)
      else NoCode)"

text \<open>
  The two operations of the general case, as fully and partially consumed. \<open>attFirst\<close> says
  that \<open>attOp\<close> is the shorter one.
\<close>

definition consume :: "bool \<Rightarrow> Op \<Rightarrow> Op \<Rightarrow> Op \<times> Op" where
  "consume attFirst attOp csOp =
     (let (full, part) = (if attFirst then (attOp, csOp) else (csOp, attOp));
          part1 = part\<lparr>Chars := Chars part - Chars full, Lines := Lines part - Lines full\<rparr>;
          part2 = (if Chars part1 = 0 then part1\<lparr>OpCode := NoCode\<rparr> else part1);
          full1 = full\<lparr>OpCode := NoCode\<rparr>
      in if attFirst then (full1, part2) else (part2, full1))"

definition SlicerZipperFunc :: "Op \<Rightarrow> Op \<Rightarrow> APool option \<Rightarrow> (zipped \<times> APool option) result" where
  "SlicerZipperFunc attOp csOp pool =
     (if OpCode attOp = NoCode then
        Inr ((copyOp csOp (NewOp None), attOp, csOp\<lparr>OpCode := NoCode\<rparr>), pool)
      else if OpCode csOp = NoCode then
        Inr ((copyOp attOp (NewOp None), attOp\<lparr>OpCode := NoCode\<rparr>, csOp), pool)
      else if OpCode attOp = Minus then
        Inr ((copyOp attOp (NewOp None), attOp\<lparr>OpCode := NoCode\<rparr>, csOp), pool)
      else if OpCode csOp = Plus then
        Inr ((copyOp csOp (NewOp None), attOp, csOp\<lparr>OpCode := NoCode\<rparr>), pool)
      else if \<not> Chars attOp \<ge> Lines attOp \<or> \<not> Chars csOp \<ge> Lines csOp then
        Inl (Err ''op has more characters than lines'')
      else if \<not> (if Chars attOp < Chars csOp then Lines attOp \<le> Lines csOp
                 else if Chars attOp > Chars csOp then Lines attOp \<ge> Lines csOp
                 else Lines attOp = Lines csOp) then
        Inl (Err ''line count mismatch when composing changesets A*B; '')
      else if \<not> (OpCode attOp = Keep \<or> OpCode attOp = Plus) then Inl (Err ''unexpected opcode in op: '')
      else if \<not> (OpCode csOp = Keep \<or> OpCode csOp = Minus) then Inl (Err ''unexpected opcode in op: '')
      else
        let attFirst = (\<not> Chars attOp > Chars csOp);
            full = (if attFirst then attOp else csOp)
        in bind_result
             (if OpCode csOp = Minus then Inr (Attribs csOp, pool)
              else ComposeAttributes (Attribs attOp) (Attribs csOp) (OpCode attOp = Keep) pool)
             (\<lambda>(attribs, pool1).
               let opOut = (NewOp None)\<lparr>OpCode := slice_code (OpCode attOp) (OpCode csOp),
                             Chars := Chars full, Lines := Lines full, Attribs := attribs\<rparr>;
                   (attOp1, csOp1) = consume attFirst attOp csOp
               in Inr ((opOut, attOp1, csOp1), pool1)))"

subsection \<open>ApplyZip\<close>

text \<open>
  A side of the zip: the current operation, whether the iterator is exhausted, and the
  iterator. The pointer \<^verbatim>\<open>Next\<close> returns at the end is nil; it is replaced before it is read.
\<close>

type_synonym zip_side = "Op \<times> bool \<times> Iterator"

definition next_side :: "Iterator \<Rightarrow> zip_side" where
  "next_side it =
     (case Next it of
        ((Some op', done'), it1) \<Rightarrow> (op', done', it1)
      | ((None, done'), it1) \<Rightarrow> (NewOp None, done', it1))"

definition advance_side :: "zip_side \<Rightarrow> zip_side" where
  "advance_side = (\<lambda>(op', done', it).
     (let (op1, done1, it1) = (if \<not> done' \<and> OpCode op' = NoCode then next_side it else (op', done', it))
      in (if done1 then NewOp None else op1, done1, it1)))"

type_synonym 's zip_callback_fun = "Op \<Rightarrow> Op \<Rightarrow> 's \<Rightarrow> (zipped \<times> 's) result"

partial_function (option) zip_loop ::
  "'s zip_callback_fun \<Rightarrow> zip_side \<Rightarrow> zip_side \<Rightarrow> SmartOpAssembler \<Rightarrow> 's \<Rightarrow>
   (SmartOpAssembler \<times> 's) result option" where
  "zip_loop callback side1 side2 asm st =
     (if fst (snd side1) \<and> fst (snd side2) then Some (Inr (asm, st))
      else
        let (op1, done1, it1) = advance_side side1; (op2, done2, it2) = advance_side side2
        in if OpCode op1 = NoCode \<and> OpCode op2 = NoCode then Some (Inr (asm, st))
           else
             (case callback op1 op2 st of
                Inl err \<Rightarrow> Some (Inl err)
              | Inr ((opOut, op1', op2'), st1) \<Rightarrow>
                  zip_loop callback (op1', done1, it1) (op2', done2, it2)
                    (if OpCode opOut \<noteq> NoCode then SOA_Append opOut asm else asm) st1))"

declare zip_loop.simps [code]

definition new_iterator :: "Op list \<Rightarrow> Iterator" where
  "new_iterator ops = \<lparr>iter_ops = ops, iter_next = 0\<rparr>"

definition ApplyZip ::
  "gostring \<Rightarrow> gostring \<Rightarrow> 's zip_callback_fun \<Rightarrow> 's \<Rightarrow> (gostring \<times> 's) result option" where
  "ApplyZip in1 in2 callback st =
     bind_run (Some (DeserializeOps in1)) (\<lambda>ops1.
     bind_run (Some (DeserializeOps in2)) (\<lambda>ops2.
     bind_run (zip_loop callback (next_side (new_iterator ops1)) (next_side (new_iterator ops2))
                 NewSmartOpAssembler st) (\<lambda>(asm, st1).
       Some (Inr (fst (SOA_String (SOA_EndDocument asm)), st1)))))"

subsection \<open>Compose\<close>

text \<open>The variables of \<^verbatim>\<open>Compose\<close> its callback uses: both bank iterators, the new bank, the pool.\<close>

type_synonym compose_state = "StringIterator \<times> StringIterator \<times> StringAssembler \<times> APool option"

definition compose_callback :: "compose_state zip_callback_fun" where
  "compose_callback op1 op2 = (\<lambda>(bankIter1, bankIter2, bankAssem, pool).
     bind_result
       (if OpCode op1 = Plus \<and> OpCode op2 = Minus then Skip bankIter1 (min (Chars op1) (Chars op2))
        else Inr bankIter1) (\<lambda>bankIter1a.
     bind_result (SlicerZipperFunc op1 op2 pool) (\<lambda>((opOut, op1', op2'), pool1).
       if OpCode opOut = Plus then
         (if OpCode op2 = Plus then
            bind_result (Take bankIter2 (Chars opOut)) (\<lambda>(taken, bankIter2a).
              Inr ((opOut, op1', op2'), (bankIter1a, bankIter2a, SA_Append taken bankAssem, pool1)))
          else
            bind_result (Take bankIter1a (Chars opOut)) (\<lambda>(taken, bankIter1b).
              Inr ((opOut, op1', op2'), (bankIter1b, bankIter2, SA_Append taken bankAssem, pool1))))
       else Inr ((opOut, op1', op2'), (bankIter1a, bankIter2, bankAssem, pool1)))))"

definition Compose :: "gostring \<Rightarrow> gostring \<Rightarrow> APool option \<Rightarrow> (gostring \<times> APool option) result option" where
  "Compose cs1 cs2 pool =
     bind_run (Some (Unpack cs1)) (\<lambda>unpacked1.
     bind_run (Some (Unpack cs2)) (\<lambda>unpacked2.
       let len1 = OldLen unpacked1; len2 = NewLen unpacked1; len3 = NewLen unpacked2
       in if len2 \<noteq> OldLen unpacked2 then Some (Inl (Err ''mismatched lengths in compose''))
          else
            bind_run (ApplyZip (Ops unpacked1) (Ops unpacked2) compose_callback
              (NewStringIterator (CharBank unpacked1), NewStringIterator (CharBank unpacked2),
               NewStringAssembler, pool)) (\<lambda>(newOps, (_, _, bankAssem, pool1)).
              Some (Inr (Pack len1 len3 newOps (SA_String bankAssem), pool1)))))"

subsection \<open>Applying a changeset to attributions\<close>

definition attribution_callback :: "APool option zip_callback_fun" where
  "attribution_callback op1 op2 pool = SlicerZipperFunc op1 op2 pool"

text \<open>
  The pool is passed by value: its maps are the caller's maps, its \<^verbatim>\<open>NextNum\<close> is a copy. The
  second result is the caller's pool after the call. \<^verbatim>\<open>Unpack\<close>'s error is dropped and its nil
  result would be dereferenced.
\<close>

definition caller_pool :: "APool \<Rightarrow> APool option \<Rightarrow> APool" where
  "caller_pool pool local = (case local of None \<Rightarrow> pool | Some p \<Rightarrow> p\<lparr>NextNum := NextNum pool\<rparr>)"

definition ApplyToAttribution :: "gostring \<Rightarrow> gostring \<Rightarrow> APool \<Rightarrow> (gostring \<times> APool) result option" where
  "ApplyToAttribution cs astr pool =
     (case Unpack cs of Inl err \<Rightarrow> Some (Inl Panic)
      | Inr unpacked \<Rightarrow>
          bind_run (ApplyZip astr (Ops unpacked) attribution_callback (Some pool)) (\<lambda>(res, local).
            Some (Inr (res, caller_pool pool local))))"

definition ApplyToAText :: "gostring \<Rightarrow> AText \<Rightarrow> APool \<Rightarrow> (AText \<times> APool) result option" where
  "ApplyToAText cs atext pool =
     bind_run (Some (ApplyToText cs (Text atext))) (\<lambda>txt.
     bind_run (ApplyToAttribution cs (ATAttribs atext) pool) (\<lambda>(attribs, pool1).
       Some (Inr (\<lparr>Text = txt, ATAttribs = attribs\<rparr>, pool1))))"

subsection \<open>Follow\<close>

text \<open>Which of the two changesets goes first when at least one inserts: 1 or 2.\<close>

definition which_to_do ::
  "bool \<Rightarrow> APool option \<Rightarrow> Op \<Rightarrow> Op \<Rightarrow> StringIterator \<Rightarrow> StringIterator \<Rightarrow> int result" where
  "which_to_do reverseInsertOrder pool op1 op2 chars1 chars2 =
     (if OpCode op2 \<noteq> Plus then Inr 1
      else if OpCode op1 \<noteq> Plus then Inr 2
      else
        bind_result (Peek chars1 1) (\<lambda>firstChar1.
        bind_result (Peek chars2 1) (\<lambda>firstChar2.
          let insertOrder = \<lparr>Key = lit ''insertorder'', Value = lit ''first''\<rparr>;
              insertFirst1 = AttributeTester insertOrder pool (Attribs op1);
              insertFirst2 = AttributeTester insertOrder pool (Attribs op2)
          in Inr (if insertFirst1 \<and> \<not> insertFirst2 then 1
                  else if insertFirst2 \<and> \<not> insertFirst1 then 2
                  else if firstChar1 = [newline] \<and> firstChar2 \<noteq> [newline] then 2
                  else if firstChar1 \<noteq> [newline] \<and> firstChar2 = [newline] then 1
                  else if reverseInsertOrder then 2
                  else 1))))"

text \<open>The variables of \<^verbatim>\<open>Follow\<close> its callback uses: both bank iterators, the two lengths, the pool.\<close>

record follow_state =
  chars1 :: StringIterator
  chars2 :: StringIterator
  oldPos :: int
  newLen :: int
  follow_pool :: "APool option"

definition cleared :: "Op \<Rightarrow> Op" where
  "cleared op' = op'\<lparr>OpCode := NoCode\<rparr>"

definition shortened :: "Op \<Rightarrow> Op \<Rightarrow> Op" where
  "shortened op' by' = op'\<lparr>Chars := Chars op' - Chars by', Lines := Lines op' - Lines by'\<rparr>"

definition cleared_if_empty :: "Op \<Rightarrow> Op" where
  "cleared_if_empty op' = (if Chars op' = 0 then cleared op' else op')"

definition follow_ops ::
  "((gostring, gostring) gomap \<Rightarrow> (gostring, gostring) gomap) \<Rightarrow> bool \<Rightarrow> follow_state zip_callback_fun" where
  "follow_ops order reverseInsertOrder op1 op2 st =
     (let opOut = NewOp None
      in if OpCode op1 = Plus \<or> OpCode op2 = Plus then
           bind_result (which_to_do reverseInsertOrder (follow_pool st) op1 op2 (chars1 st) (chars2 st)) (\<lambda>whichToDo.
             if whichToDo = 1 then
               bind_result (Skip (chars1 st) (Chars op1)) (\<lambda>c1.
                 Inr ((\<lparr>OpCode = Keep, Chars = Chars op1, Lines = Lines op1, Attribs = []\<rparr>, cleared op1, op2),
                      st\<lparr>chars1 := c1\<rparr>))
             else
               bind_result (Skip (chars2 st) (Chars op2)) (\<lambda>c2.
                 Inr ((copyOp op2 opOut, op1, cleared op2), st\<lparr>chars2 := c2\<rparr>)))
         else if OpCode op1 = Minus then
           (if OpCode op2 = NoCode then Inr ((opOut, cleared op1, op2), st)
            else if Chars op1 \<le> Chars op2 then
              Inr ((opOut, cleared op1, cleared_if_empty (shortened op2 op1)), st)
            else Inr ((opOut, shortened op1 op2, cleared op2), st))
         else if OpCode op2 = Minus then
           (let opOut1 = copyOp op2 opOut
            in if OpCode op1 = NoCode then Inr ((opOut1, op1, cleared op2), st)
               else if Chars op2 \<le> Chars op1 then
                 Inr ((opOut1, cleared_if_empty (shortened op1 op2), cleared op2), st)
               else
                 Inr ((opOut1\<lparr>Lines := Lines op1, Chars := Chars op1\<rparr>, cleared op1, shortened op2 op1), st))
         else if OpCode op1 = NoCode then Inr ((copyOp op2 opOut, op1, cleared op2), st)
         else if OpCode op2 = NoCode then Inr ((opOut, cleared op1, op2), st)
         else
           bind_result (followAttributes order (Attribs op1) (Attribs op2) (follow_pool st)) (\<lambda>(opOutAttrib, pool1).
             let opOut1 = opOut\<lparr>OpCode := Keep, Attribs := opOutAttrib\<rparr>; st1 = st\<lparr>follow_pool := pool1\<rparr>
             in if Chars op1 \<le> Chars op2 then
                  Inr ((opOut1\<lparr>Chars := Chars op1, Lines := Lines op1\<rparr>, cleared op1,
                        cleared_if_empty (shortened op2 op1)), st1)
                else
                  Inr ((opOut1\<lparr>Chars := Chars op2, Lines := Lines op2\<rparr>, shortened op1 op2, cleared op2), st1)))"

definition follow_callback ::
  "((gostring, gostring) gomap \<Rightarrow> (gostring, gostring) gomap) \<Rightarrow> bool \<Rightarrow> follow_state zip_callback_fun" where
  "follow_callback order reverseInsertOrder op1 op2 st =
     bind_result (follow_ops order reverseInsertOrder op1 op2 st) (\<lambda>((opOut, op1', op2'), st1).
       let st2 = (if OpCode opOut = Keep then
                    st1\<lparr>oldPos := oldPos st1 + Chars opOut, newLen := newLen st1 + Chars opOut\<rparr>
                  else if OpCode opOut = Minus then st1\<lparr>oldPos := oldPos st1 + Chars opOut\<rparr>
                  else if OpCode opOut = Plus then st1\<lparr>newLen := newLen st1 + Chars opOut\<rparr>
                  else st1)
       in Inr ((opOut, op1', op2'), st2))"

definition Follow ::
  "((gostring, gostring) gomap \<Rightarrow> (gostring, gostring) gomap) \<Rightarrow> gostring \<Rightarrow> gostring \<Rightarrow> bool \<Rightarrow> APool option \<Rightarrow>
   (gostring \<times> APool option) result option" where
  "Follow order c rebasedChangeset reverseInsertOrder pool =
     bind_run (Some (Unpack c)) (\<lambda>unpacked1.
     bind_run (Some (Unpack rebasedChangeset)) (\<lambda>unpacked2.
       if OldLen unpacked1 \<noteq> OldLen unpacked2 then Some (Inl (Err ''mismatched lengths in Follow''))
       else
         let oldLen = NewLen unpacked1
         in bind_run (ApplyZip (Ops unpacked1) (Ops unpacked2) (follow_callback order reverseInsertOrder)
                \<lparr>chars1 = NewStringIterator (CharBank unpacked1), chars2 = NewStringIterator (CharBank unpacked2),
                 oldPos = 0, newLen = 0, follow_pool = pool\<rparr>) (\<lambda>(newOps, st).
              Some (Inr (Pack oldLen (newLen st + (oldLen - oldPos st)) newOps (CharBank unpacked2),
                         follow_pool st)))))"

end
