(* ===== verification/AttributionLines.thy ===== *)
theory AttributionLines
  imports TextLines Zip
begin

text \<open>
  The operations of lib/changeset/changeset.go on attribution lines: \<^verbatim>\<open>MutateAttributionLines\<close>,
  \<^verbatim>\<open>Subattribution\<close> and \<^verbatim>\<open>Inverse\<close>. The variables their closures share are the fields of one
  state record each; a loop is the iteration of its body, which says whether to go on.

  \<^verbatim>\<open>Inverse\<close> of lib/changeset/changeset.go: the changeset that undoes another one on a
  document given by its text lines and attribution lines. The cursor the closures
  \<^verbatim>\<open>consumeAttribRuns\<close> and \<^verbatim>\<open>skip\<close> share is the record \<open>cursor\<close>; the callback of
  \<^verbatim>\<open>consumeAttribRuns\<close> is a function on the caller's state \<^typ>\<open>'s\<close>. The changesets the
  handlers invert come with the pad's pool, so the pool is not nil; \<open>order\<close> is the order in
  which Go's \<^verbatim>\<open>range\<close> visits a map.
\<close>

section \<open>Lines of attributes\<close>

datatype 's step = Continue 's | Break 's

partial_function (option) loop :: "('s \<Rightarrow> 's step result) \<Rightarrow> 's \<Rightarrow> 's result option" where
  "loop body st =
     (case body st of
        Inl err \<Rightarrow> Some (Inl err)
      | Inr (Break st1) \<Rightarrow> Some (Inr st1)
      | Inr (Continue st1) \<Rightarrow> loop body st1)"

declare loop.simps [code]

subsection \<open>MutateAttributionLines\<close>

record mutation =
  ma_ops :: "Op list"
  ma_opsIdx :: nat
  ma_bank :: gostring
  ma_bankIndex :: int
  ma_mut :: TextLinesMutator
  ma_lineOps :: "Op list option"
  ma_lineOpsIdx :: nat
  ma_lineAssem :: "MergingOpAssembler option"
  ma_csOp :: Op
  ma_attOp :: Op
  ma_pool :: "APool option"

definition lineOpsHasNext :: "mutation \<Rightarrow> bool" where
  "lineOpsHasNext st \<longleftrightarrow>
     (case ma_lineOps st of None \<Rightarrow> False | Some ops \<Rightarrow> ma_lineOpsIdx st < length ops)"

definition isNextMutOp :: "mutation \<Rightarrow> bool" where
  "isNextMutOp st \<longleftrightarrow> lineOpsHasNext st \<or> HasMore (ma_mut st)"

text \<open>The error of \<^verbatim>\<open>DeserializeOps\<close> is dropped; its ops are nil then.\<close>

definition next_line_ops :: "mutation \<Rightarrow> mutation result" where
  "next_line_ops st =
     (if \<not> lineOpsHasNext st \<and> HasMore (ma_mut st) then
        bind_result (RemoveLines 1 (ma_mut st)) (\<lambda>(line, mut1).
          Inr (st\<lparr>ma_mut := mut1,
                  ma_lineOps := (case DeserializeOps line of Inl err \<Rightarrow> None | Inr ops \<Rightarrow> Some ops),
                  ma_lineOpsIdx := 0\<rparr>))
      else Inr st)"

definition nextMutOp :: "mutation \<Rightarrow> (Op \<times> mutation) result" where
  "nextMutOp st =
     bind_result (next_line_ops st) (\<lambda>st1.
       if \<not> lineOpsHasNext st1 then Inr (NewOp None, st1)
       else Inr (the (ma_lineOps st1) ! ma_lineOpsIdx st1, st1\<lparr>ma_lineOpsIdx := ma_lineOpsIdx st1 + 1\<rparr>))"

definition outputMutOp :: "Op \<Rightarrow> mutation \<Rightarrow> mutation result" where
  "outputMutOp op' st =
     (let lineAssem = (case ma_lineAssem st of None \<Rightarrow> NewMergingOpAssembler | Some a \<Rightarrow> a);
          lineAssem1 = MOA_Append op' lineAssem;
          st1 = st\<lparr>ma_lineAssem := Some lineAssem1\<rparr>
      in if Lines op' \<le> 0 then Inr st1
         else if Lines op' \<noteq> 1 then Inl (Err ''can't have op.lines in attribution lines'')
         else bind_result (Mut_Insert (fst (MOA_String lineAssem1)) 1 (ma_mut st1)) (\<lambda>mut1.
                Inr (st1\<lparr>ma_mut := mut1, ma_lineAssem := None\<rparr>)))"

definition mutation_more :: "mutation \<Rightarrow> bool" where
  "mutation_more st \<longleftrightarrow>
     OpCode (ma_csOp st) \<noteq> NoCode \<or> ma_opsIdx st < length (ma_ops st) \<or>
     OpCode (ma_attOp st) \<noteq> NoCode \<or> isNextMutOp st"

definition next_csOp :: "mutation \<Rightarrow> mutation" where
  "next_csOp st =
     (if OpCode (ma_csOp st) = NoCode \<and> ma_opsIdx st < length (ma_ops st)
      then st\<lparr>ma_csOp := ma_ops st ! ma_opsIdx st, ma_opsIdx := ma_opsIdx st + 1\<rparr> else st)"

text \<open>The branch of an insertion: its next line goes to the output.\<close>

definition mutation_insert :: "mutation \<Rightarrow> mutation result" where
  "mutation_insert st =
     (let csOp = ma_csOp st;
          firstLineLen = RuneIndex (RuneSlice (ma_bank st) (ma_bankIndex st) (RuneCount (ma_bank st))) [newline] + 1;
          opOut = copyOp csOp (NewOp None);
          (opOut1, csOp1) =
            (if Lines csOp > 1
             then (opOut\<lparr>Lines := 1, Chars := firstLineLen\<rparr>,
                   csOp\<lparr>Chars := Chars csOp - firstLineLen, Lines := Lines csOp - 1\<rparr>)
             else (opOut, csOp\<lparr>OpCode := NoCode\<rparr>))
      in bind_result (outputMutOp opOut1 (st\<lparr>ma_csOp := csOp1\<rparr>)) (\<lambda>st1.
           Inr (st1\<lparr>ma_bankIndex := ma_bankIndex st1 + Chars opOut1\<rparr>)))"

text \<open>The last branch: the operation is zipped with the attributes of the current line.\<close>

definition mutation_zip :: "mutation \<Rightarrow> mutation result" where
  "mutation_zip st =
     bind_result
       (if OpCode (ma_attOp st) = NoCode \<and> isNextMutOp st
        then bind_result (nextMutOp st) (\<lambda>(op', st1). Inr (st1\<lparr>ma_attOp := op'\<rparr>)) else Inr st)
       (\<lambda>st1.
         bind_result (SlicerZipperFunc (ma_attOp st1) (ma_csOp st1) (ma_pool st1))
           (\<lambda>((opOut, attOp1, csOp1), pool1).
             let st2 = st1\<lparr>ma_attOp := attOp1, ma_csOp := csOp1, ma_pool := pool1\<rparr>
             in if OpCode opOut \<noteq> NoCode then outputMutOp opOut st2 else Inr st2))"

definition at_line_start :: "mutation \<Rightarrow> bool" where
  "at_line_start st \<longleftrightarrow> OpCode (ma_attOp st) = NoCode \<and> ma_lineAssem st = None \<and> \<not> lineOpsHasNext st"

definition mutation_body :: "mutation \<Rightarrow> mutation step result" where
  "mutation_body st0 =
     (if \<not> mutation_more st0 then Inr (Break st0)
      else
        let st = next_csOp st0; csOp = ma_csOp st
        in if OpCode csOp = NoCode \<and> at_line_start st then Inr (Break st)
           else if OpCode csOp = Keep \<and> Lines csOp > 0 \<and> Attribs csOp = [] \<and> at_line_start st then
             bind_result (SkipLines (Lines csOp) False (ma_mut st)) (\<lambda>mut1.
               Inr (Continue (st\<lparr>ma_mut := mut1, ma_csOp := csOp\<lparr>OpCode := NoCode\<rparr>\<rparr>)))
           else bind_result (if OpCode csOp = Plus then mutation_insert st else mutation_zip st)
                  (\<lambda>st1. Inr (Continue st1)))"

definition MutateAttributionLines ::
  "gostring \<Rightarrow> gostring list \<Rightarrow> APool option \<Rightarrow> (gostring list \<times> APool option) result option" where
  "MutateAttributionLines cs ls pool =
     bind_run (Some (Unpack cs)) (\<lambda>unpacked.
     bind_run (Some (DeserializeOps (Ops unpacked))) (\<lambda>csOps.
     bind_run (loop mutation_body
       \<lparr>ma_ops = csOps, ma_opsIdx = 0, ma_bank = CharBank unpacked, ma_bankIndex = 0,
        ma_mut = NewTextLinesMutator ls, ma_lineOps = None, ma_lineOpsIdx = 0, ma_lineAssem = None,
        ma_csOp = NewOp None, ma_attOp = NewOp None, ma_pool = pool\<rparr>) (\<lambda>st.
     if ma_lineAssem st \<noteq> None then Some (Inl (Err ''line assembler not finished: ''))
     else bind_run (Some (Mut_Close (ma_mut st))) (\<lambda>mut1. Some (Inr (GetLines mut1, ma_pool st))))))"

subsection \<open>Subattribution\<close>

record subattribution =
  sub_ops :: "Op list"
  sub_idx :: nat
  sub_att :: Op
  sub_cs :: Op
  sub_assem :: SmartOpAssembler

definition nextAttOp :: "subattribution \<Rightarrow> subattribution" where
  "nextAttOp st =
     (if sub_idx st < length (sub_ops st)
      then st\<lparr>sub_att := sub_ops st ! sub_idx st, sub_idx := sub_idx st + 1\<rparr>
      else st\<lparr>sub_att := NewOp None\<rparr>)"

definition sub_body :: "subattribution \<Rightarrow> subattribution step result" where
  "sub_body st0 =
     (if \<not> (OpCode (sub_cs st0) \<noteq> NoCode \<and> (OpCode (sub_att st0) \<noteq> NoCode \<or> sub_idx st0 < length (sub_ops st0)))
      then Inr (Break st0)
      else
        let st = (if OpCode (sub_att st0) = NoCode then nextAttOp st0 else st0);
            att = sub_att st; cs = sub_cs st;
            cs1 = (if OpCode cs \<noteq> NoCode \<and> OpCode att \<noteq> NoCode \<and> Chars cs \<ge> Chars att \<and> Lines att > 0 \<and> Lines cs \<le> 0
                   then cs\<lparr>Lines := Lines cs + 1\<rparr> else cs)
        in bind_result (SlicerZipperFunc att cs1 None) (\<lambda>((opOut, att1, cs2), _).
             Inr (Continue (st\<lparr>sub_att := att1, sub_cs := cs2,
               sub_assem := (if OpCode opOut \<noteq> NoCode then SOA_Append opOut (sub_assem st) else sub_assem st)\<rparr>))))"

definition doCsOp :: "subattribution \<Rightarrow> subattribution result option" where
  "doCsOp st = (if Chars (sub_cs st) = 0 then Some (Inr st) else loop sub_body st)"

definition Subattribution :: "gostring \<Rightarrow> int \<Rightarrow> int option \<Rightarrow> gostring result option" where
  "Subattribution astr start optEnd =
     bind_run (Some (DeserializeOps astr)) (\<lambda>ops.
     bind_run (doCsOp \<lparr>sub_ops = ops, sub_idx = 0, sub_att = NewOp None,
                 sub_cs = (NewOp None)\<lparr>OpCode := Minus, Chars := start\<rparr>, sub_assem = NewSmartOpAssembler\<rparr>) (\<lambda>st.
     bind_run
       (case optEnd of
          None \<Rightarrow>
            let asm = (if OpCode (sub_att st) \<noteq> NoCode then SOA_Append (sub_att st) (sub_assem st) else sub_assem st)
            in Some (Inr (fold SOA_Append (drop (sub_idx st) ops) asm))
        | Some stop \<Rightarrow>
            if stop < start then Some (Inl (Err ''optEnd < start''))
            else bind_run (doCsOp (st\<lparr>sub_cs := (sub_cs st)\<lparr>OpCode := Keep, Chars := stop - start\<rparr>\<rparr>))
                   (\<lambda>st1. Some (Inr (sub_assem st1))))
       (\<lambda>asm. Some (Inr (fst (SOA_String asm))))))"

section \<open>The inverse of a changeset\<close>

record cursor =
  cur_line :: int
  cur_char :: int
  cur_ops :: "Op list option"
  cur_opsLine :: int
  cur_opsNext :: int
  cur_nextOp :: Op

definition slice_at :: "'a list \<Rightarrow> int \<Rightarrow> 'a result" where
  "slice_at xs idx = (if 0 \<le> idx \<and> idx < int (length xs) then Inr (xs ! nat idx) else Inl Panic)"

definition inv_linesGet :: "gostring list \<Rightarrow> int \<Rightarrow> gostring result" where
  "inv_linesGet ls idx = (if length ls = 0 then Inr [] else slice_at ls idx)"

subsection \<open>consumeAttribRuns\<close>

text \<open>The loop that finds the operation at \<open>curChar\<close>; the operation before it is kept if there is none.\<close>

fun seek_op :: "int \<Rightarrow> Op list \<Rightarrow> int \<Rightarrow> int \<Rightarrow> Op \<Rightarrow> Op \<times> int" where
  "seek_op curChar [] indexIntoLine nextIdx nextOp = (nextOp, nextIdx)"
| "seek_op curChar (op' # ops) indexIntoLine nextIdx nextOp =
     (if indexIntoLine + Chars op' \<ge> curChar
      then (op'\<lparr>Chars := Chars op' - (curChar - indexIntoLine)\<rparr>, nextIdx + 1)
      else seek_op curChar ops (indexIntoLine + Chars op') (nextIdx + 1) op')"

definition load_line :: "gostring list \<Rightarrow> cursor \<Rightarrow> cursor result" where
  "load_line alines c =
     (if cur_ops c = None \<or> cur_opsLine c \<noteq> cur_line c then
        bind_result (slice_at alines (cur_line c)) (\<lambda>aline.
        bind_result (DeserializeOps aline) (\<lambda>ops.
          let (nextOp, nextIdx) = seek_op (cur_char c) ops 0 0 (cur_nextOp c)
          in Inr (c\<lparr>cur_ops := Some ops, cur_opsNext := nextIdx, cur_opsLine := cur_line c, cur_nextOp := nextOp\<rparr>)))
      else Inr c)"

definition ops_left :: "cursor \<Rightarrow> bool" where
  "ops_left c \<longleftrightarrow> (case cur_ops c of None \<Rightarrow> False | Some ops \<Rightarrow> cur_opsNext c < int (length ops))"

text \<open>The part of the loop before the callback: the next operation with characters left.\<close>

definition fetch_op :: "gostring list \<Rightarrow> cursor \<Rightarrow> cursor result" where
  "fetch_op alines c =
     bind_result
       (if Chars (cur_nextOp c) = 0 \<and> \<not> ops_left c then
          bind_result (slice_at alines (cur_line c + 1)) (\<lambda>aline.
          bind_result (DeserializeOps aline) (\<lambda>ops.
            Inr (c\<lparr>cur_line := cur_line c + 1, cur_char := 0, cur_opsLine := cur_line c + 1,
                   cur_nextOp := NewOp None, cur_ops := Some ops, cur_opsNext := 0\<rparr>)))
        else Inr c)
       (\<lambda>c1.
         if Chars (cur_nextOp c1) = 0 then
           (if \<not> ops_left c1 then Inr (c1\<lparr>cur_nextOp := NewOp None\<rparr>)
            else bind_result (slice_at (the (cur_ops c1)) (cur_opsNext c1)) (\<lambda>op'.
                   Inr (c1\<lparr>cur_nextOp := op', cur_opsNext := cur_opsNext c1 + 1\<rparr>)))
         else Inr c1)"

type_synonym 's run_callback = "int \<Rightarrow> gostring \<Rightarrow> bool \<Rightarrow> 's \<Rightarrow> 's result"

definition consume_body ::
  "gostring list \<Rightarrow> 's run_callback \<Rightarrow> int \<times> cursor \<times> 's \<Rightarrow> (int \<times> cursor \<times> 's) step result" where
  "consume_body alines callback = (\<lambda>(numChars, c, s).
     if \<not> numChars > 0 then Inr (Break (numChars, c, s))
     else
       bind_result (fetch_op alines c) (\<lambda>c1.
         let op' = cur_nextOp c1; charsToUse = min numChars (Chars op')
         in bind_result (callback charsToUse (Attribs op') (charsToUse = Chars op' \<and> Lines op' > 0) s) (\<lambda>s1.
              Inr (Continue (numChars - charsToUse,
                c1\<lparr>cur_nextOp := op'\<lparr>Chars := Chars op' - charsToUse\<rparr>, cur_char := cur_char c1 + charsToUse\<rparr>,
                s1)))))"

definition end_line :: "cursor \<Rightarrow> cursor" where
  "end_line c =
     (if Chars (cur_nextOp c) = 0 \<and> \<not> ops_left c then c\<lparr>cur_line := cur_line c + 1, cur_char := 0\<rparr> else c)"

definition consumeAttribRuns ::
  "gostring list \<Rightarrow> int \<Rightarrow> 's run_callback \<Rightarrow> cursor \<times> 's \<Rightarrow> (cursor \<times> 's) result option" where
  "consumeAttribRuns alines numChars callback = (\<lambda>(c, s).
     bind_run (Some (load_line alines c)) (\<lambda>c1.
     bind_run (loop (consume_body alines callback) (numChars, c1, s)) (\<lambda>(_, c2, s1).
       Some (Inr (end_line c2, s1)))))"

definition inv_skip :: "gostring list \<Rightarrow> int \<Rightarrow> int \<Rightarrow> cursor \<Rightarrow> cursor result option" where
  "inv_skip alines n l c =
     (if l > 0 then Some (Inr (c\<lparr>cur_line := cur_line c + l, cur_char := 0, cur_ops := None, cur_nextOp := NewOp None\<rparr>))
      else if cur_ops c \<noteq> None \<and> cur_opsLine c = cur_line c then
        bind_run (consumeAttribRuns alines n (\<lambda>_ _ _ s. Inr s) (c, ())) (\<lambda>(c1, _). Some (Inr c1))
      else Some (Inr (c\<lparr>cur_char := cur_char c + n\<rparr>)))"

subsection \<open>nextText\<close>

text \<open>The lines from the second one on, until \<open>needed\<close> characters are there.\<close>

fun more_text :: "int \<Rightarrow> gostring list \<Rightarrow> gostring result" where
  "more_text needed [] = (if needed > 0 then Inl Panic else Inr [])"
| "more_text needed (l # ls) =
     (if needed > 0 then bind_result (more_text (needed - RuneCount l) ls) (\<lambda>s. Inr (l @ s)) else Inr [])"

definition nextText :: "gostring list \<Rightarrow> cursor \<Rightarrow> int \<Rightarrow> gostring result" where
  "nextText ls c numChars =
     (if length ls = 0 then Inr []
      else
        bind_result (inv_linesGet ls (cur_line c)) (\<lambda>l.
          let firstString = RuneSlice l (cur_char c) (RuneCount l)
          in bind_result (more_text (numChars - RuneCount firstString) (drop (nat (cur_line c + 1)) ls)) (\<lambda>s.
               Inr (RuneSlice (firstString @ s) 0 numChars))))"

subsection \<open>The attributes that undo a change\<close>

text \<open>The value of \<^verbatim>\<open>oldAttribs.attrs[key]\<close> is the empty string when the key is missing.\<close>

definition undo_entry :: "AttributeMap \<Rightarrow> gostring \<times> gostring \<Rightarrow> AttributeMap \<Rightarrow> AttributeMap" where
  "undo_entry oldAttribs = (\<lambda>(key, value) backAttribs.
     let oldValue = (case gomap_get (attrs oldAttribs) key of Some val \<Rightarrow> val | None \<Rightarrow> [])
     in if oldValue \<noteq> value then AM_Set key oldValue backAttribs else backAttribs)"

definition back_attribs ::
  "((gostring \<times> gostring) list \<Rightarrow> (gostring \<times> gostring) list) \<Rightarrow> AttributeMap \<Rightarrow> gostring \<Rightarrow> APool \<Rightarrow>
   (gostring \<times> APool) result" where
  "back_attribs order attribs oldAttribsStr pool =
     (let oldAttribs = FromString oldAttribsStr pool
      in AM_String (fold (undo_entry oldAttribs) (order (attrs attribs)) (NewAttributeMap (am_pool oldAttribs))))"

text \<open>\<^verbatim>\<open>cachedStrFunc\<close>: the cache is a map from the argument to the result.\<close>

type_synonym undo_cache = "(gostring, gostring) gomap"

definition undoBackToAttribs ::
  "((gostring \<times> gostring) list \<Rightarrow> (gostring \<times> gostring) list) \<Rightarrow> AttributeMap \<Rightarrow> gostring \<Rightarrow>
   undo_cache \<times> APool \<Rightarrow> (gostring \<times> undo_cache \<times> APool) result" where
  "undoBackToAttribs order attribs s = (\<lambda>(cache, pool).
     (case gomap_get cache s of
        Some v \<Rightarrow> Inr (v, cache, pool)
      | None \<Rightarrow> bind_result (back_attribs order attribs s pool) (\<lambda>(v, pool1). Inr (v, gomap_set cache s v, pool1))))"

subsection \<open>Inverse\<close>

definition undo_keep ::
  "((gostring \<times> gostring) list \<Rightarrow> (gostring \<times> gostring) list) \<Rightarrow> AttributeMap \<Rightarrow>
   (Builder \<times> undo_cache \<times> APool) run_callback" where
  "undo_keep order attribs = (\<lambda>length' attribs' endsLine (b, cache, pool).
     bind_result (undoBackToAttribs order attribs attribs' (cache, pool)) (\<lambda>(undoArgs, cache1, pool1).
     bind_result (Builder_Keep length' (if endsLine then 1 else 0) (string_args undoArgs) None b) (\<lambda>(b1, _).
       Inr (b1, cache1, pool1))))"

definition undo_remove :: "gostring \<Rightarrow> (Builder \<times> int) run_callback" where
  "undo_remove textBank = (\<lambda>length' attribs' endsLine (b, textBankIndex).
     bind_result (Builder_Insert (RuneSlice textBank textBankIndex (textBankIndex + length')) (string_args attribs') None b)
       (\<lambda>(b1, _). Inr (b1, textBankIndex + length')))"

type_synonym inverse_state = "cursor \<times> Builder \<times> APool"

definition inverse_op ::
  "((gostring \<times> gostring) list \<Rightarrow> (gostring \<times> gostring) list) \<Rightarrow> gostring list \<Rightarrow> gostring list \<Rightarrow> Op \<Rightarrow>
   inverse_state \<Rightarrow> inverse_state result option" where
  "inverse_op order ls alines csOp = (\<lambda>(c, b, pool).
     (if OpCode csOp = Keep then
        (if Attribs csOp \<noteq> [] then
           let attribs = FromString (Attribs csOp) pool
           in bind_run (consumeAttribRuns alines (Chars csOp) (undo_keep order attribs) (c, b, [], am_pool attribs))
                (\<lambda>(c1, b1, _, pool1). Some (Inr (c1, b1, pool1)))
         else
           bind_run (inv_skip alines (Chars csOp) (Lines csOp) c) (\<lambda>c1.
           bind_run (Some (Builder_Keep (Chars csOp) (Lines csOp) (string_args []) None b)) (\<lambda>(b1, _).
             Some (Inr (c1, b1, pool)))))
      else if OpCode csOp = Plus then Some (Inr (c, Builder_Remove (Chars csOp) (Lines csOp) b, pool))
      else if OpCode csOp = Minus then
        bind_run (Some (nextText ls c (Chars csOp))) (\<lambda>textBank.
        bind_run (consumeAttribRuns alines (Chars csOp) (undo_remove textBank) (c, b, 0)) (\<lambda>(c1, b1, _).
          Some (Inr (c1, b1, pool))))
      else Some (Inr (c, b, pool))))"

fun inverse_ops ::
  "((gostring \<times> gostring) list \<Rightarrow> (gostring \<times> gostring) list) \<Rightarrow> gostring list \<Rightarrow> gostring list \<Rightarrow> Op list \<Rightarrow>
   inverse_state \<Rightarrow> inverse_state result option" where
  "inverse_ops order ls alines [] st = Some (Inr st)"
| "inverse_ops order ls alines (csOp # csOps) st =
     bind_run (inverse_op order ls alines csOp st) (inverse_ops order ls alines csOps)"

definition Inverse ::
  "((gostring \<times> gostring) list \<Rightarrow> (gostring \<times> gostring) list) \<Rightarrow> gostring \<Rightarrow> gostring list \<Rightarrow> gostring list \<Rightarrow>
   APool \<Rightarrow> (gostring \<times> APool) result option" where
  "Inverse order cs ls alines pool =
     bind_run (Some (Unpack cs)) (\<lambda>unpacked.
     bind_run (Some (DeserializeOps (Ops unpacked))) (\<lambda>csOps.
     bind_run (inverse_ops order ls alines csOps
       (\<lparr>cur_line = 0, cur_char = 0, cur_ops = None, cur_opsLine = -1, cur_opsNext = 0, cur_nextOp = NewOp (Some Plus)\<rparr>,
        NewBuilder (NewLen unpacked), pool)) (\<lambda>(_, b, pool1).
     bind_run (Some (CheckRep (fst (Builder_ToString b)))) (\<lambda>r. Some (Inr (r, pool1))))))"

end
