(* ===== verification/CheckSpec.thy ===== *)
theory CheckSpec
  imports ChangesetsSpec
begin

text \<open>
  \<open>CheckRep\<close> and the producers it judges: what an accepted changeset guarantees, that every
  packed result of the smart assembler is accepted, and the \<open>Builder\<close> driven by a list of
  edits.
\<close>

subsection \<open>What CheckRep accepts\<close>

lemma check_ops_sound:
  "check_ops oldLen newLen ops (p, c, bank, a) = Inr (p', c', bank', a') \<Longrightarrow>
   p' = p + old_chars ops \<and> c' = c + new_chars ops \<and> a' = fold SOA_Append ops a \<and>
   RuneCount bank = bank_chars ops + RuneCount bank' \<and> list_all (\<lambda>op'. OpCode op' \<noteq> NoCode) ops"
proof (induction ops arbitrary: p c bank a)
  case (Cons op' ops)
  then obtain p1 c1 bank1 a1 where 1: "check_op oldLen newLen op' (p, c, bank, a) = Inr (p1, c1, bank1, a1)"
    "check_ops oldLen newLen ops (p1, c1, bank1, a1) = Inr (p', c', bank', a')"
    by (auto simp: bind_result_Inr_iff)
  have "p1 = p + old_chars [op'] \<and> c1 = c + new_chars [op'] \<and> a1 = SOA_Append op' a \<and>
      RuneCount bank = bank_chars [op'] + RuneCount bank1 \<and> OpCode op' \<noteq> NoCode"
    using 1(1) by (cases "OpCode op'") (auto simp: check_op_def RuneCount_def Let_def split: if_splits)
  with Cons.IH[OF 1(2)] show ?case by auto
qed simp

lemma CheckRep_sound:
  assumes "CheckRep cs = Inr r"
  shows "r = cs \<and> (\<exists>u ops. Unpack cs = Inr u \<and> DeserializeOps (Ops u) = Inr ops \<and>
    NewLen u = OldLen u + length_change ops \<and> bank_chars ops = RuneCount (CharBank u) \<and>
    cs = Pack (OldLen u) (NewLen u) (concat (map Op_String (smart_ops True ops))) (CharBank u))"
proof -
  from assms obtain u ops p c bank a where 1: "Unpack cs = Inr u" "DeserializeOps (Ops u) = Inr ops"
    "check_ops (OldLen u) (NewLen u) ops (0, 0, CharBank u, NewSmartOpAssembler) = Inr (p, c, bank, a)"
    "c + (OldLen u - p) = NewLen u" "bank = []" "r = cs"
    "Pack (OldLen u) (c + (OldLen u - p)) (fst (SOA_String (SOA_EndDocument a))) (CharBank u) = cs"
    by (auto simp: CheckRep_def bind_result_Inr_iff Let_def split: if_splits)
  from check_ops_sound[OF 1(3)] have 2: "p = old_chars ops" "c = new_chars ops"
    "a = fold SOA_Append ops NewSmartOpAssembler" "RuneCount (CharBank u) = bank_chars ops + RuneCount bank"
    by simp_all
  have "cs = Pack (OldLen u) (NewLen u) (concat (map Op_String (smart_ops True ops))) (CharBank u)"
    using 1(4,7) SOA_EndDocument_ops[of ops] by (simp add: 2(3))
  with 1 2 show ?thesis by (auto simp: length_change_chars)
qed

lemma CheckRep_length:
  assumes "CheckRep cs = Inr cs" "ApplyToText cs doc = Inr r" "Unpack cs = Inr u"
  shows "RuneCount r = NewLen u"
proof -
  from CheckRep_sound[OF assms(1)] assms(3) obtain ops where
    ops: "DeserializeOps (Ops u) = Inr ops" "NewLen u = OldLen u + length_change ops" by auto
  from assms(2) ApplyToText_applies[OF assms(3) ops(1)] obtain b' where
    "RuneCount doc = OldLen u" "applies False ops (CharBank u) b' doc r" by blast
  with applies_length[OF this(2)] ops(2) show ?thesis by (simp add: length_change_chars)
qed

lemma EndsWithNewLine_last: "EndsWithNewLine s \<longleftrightarrow> s \<noteq> [] \<and> last s = newline"
  by (auto simp: EndsWithNewLine_def last_conv_nth)

lemma chars_nonneg:
  "list_all (\<lambda>op'. 0 \<le> Chars op') ops \<Longrightarrow> 0 \<le> old_chars ops \<and> 0 \<le> new_chars ops"
  by (induction ops) auto

lemma runs_chars: "runs n ops b t out b' t' \<Longrightarrow> list_all (\<lambda>op'. 0 \<le> Chars op') ops"
  using runs_ops_nonneg by (fastforce simp: list_all_iff)

lemma check_ops_complete:
  "runs True ops bank t out bank' t' \<Longrightarrow> p + old_chars ops \<le> oldLen \<Longrightarrow> c + new_chars ops \<le> newLen \<Longrightarrow>
   check_ops oldLen newLen ops (p, c, bank, a) = Inr (p + old_chars ops, c + new_chars ops, bank', fold SOA_Append ops a)"
proof (induction ops arbitrary: bank t out p c a)
  case (Cons op' ops)
  from Cons.prems(1) have nn: "0 \<le> old_chars ops" "0 \<le> new_chars ops"
    using chars_nonneg[of ops] runs_chars[OF Cons.prems(1)] by auto
  show ?case
  proof (cases "OpCode op'")
    case NoCode
    with Cons.prems(1) show ?thesis by (simp add: runs_Cons_code)
  next
    case Plus
    with Cons.prems(1) obtain x b1 o1 where x: "spans True op' x" "bank = x @ b1" "runs True ops b1 t o1 bank' t'"
      by (auto simp: runs_Cons_code)
    have "check_op oldLen newLen op' (p, c, bank, a) = Inr (p, c + Chars op', b1, SOA_Append op' a)"
      using x(1) Cons.prems(3) nn Plus
      by (auto simp: check_op_def x(2) spans_def RuneCount_def EndsWithNewLine_last CountLinesRunes_def Let_def)
    with Cons.IH[OF x(3), of p "c + Chars op'" "SOA_Append op' a"] Cons.prems Plus show ?thesis by simp
  next
    case Minus
    with Cons.prems(1) obtain x t1 where x: "spans True op' x" "runs True ops bank t1 out bank' t'"
      by (auto simp: runs_Cons_code)
    have "check_op oldLen newLen op' (p, c, bank, a) = Inr (p + Chars op', c, bank, SOA_Append op' a)"
      using Cons.prems(2) nn Minus by (simp add: check_op_def)
    with Cons.IH[OF x(2), of "p + Chars op'" c "SOA_Append op' a"] Cons.prems Minus show ?thesis by simp
  next
    case Keep
    with Cons.prems(1) obtain x t1 o1 where x: "spans True op' x" "runs True ops bank t1 o1 bank' t'"
      by (auto simp: runs_Cons_code)
    have "check_op oldLen newLen op' (p, c, bank, a) = Inr (p + Chars op', c + Chars op', bank, SOA_Append op' a)"
      using Keep by (simp add: check_op_def)
    with Cons.IH[OF x(2), of "p + Chars op'" "c + Chars op'" "SOA_Append op' a"] Cons.prems Keep
    show ?thesis by simp
  qed
qed simp

abbreviation smart_string :: "Op list \<Rightarrow> gostring" where
  "smart_string ops \<equiv> fst (SOA_String (SOA_EndDocument (fold SOA_Append ops NewSmartOpAssembler)))"

text \<open>Every packed output of the smart assembler that uses up its bank is accepted.\<close>

lemma CheckRep_packed:
  assumes "ops_plain ops" "applies True ops bank [] doc r" "fits (RuneCount doc)"
    "\<bar>RuneCount r - RuneCount doc\<bar> < 2 ^ 63"
  shows "CheckRep (Pack (RuneCount doc) (RuneCount r) (smart_string ops) bank) =
    Inr (Pack (RuneCount doc) (RuneCount r) (smart_string ops) bank)"
proof -
  let ?norm = "smart_ops True ops" and ?o = "RuneCount doc" and ?n = "RuneCount r"
  have u: "Unpack (Pack ?o ?n (smart_string ops) bank) =
      Inr \<lparr>OldLen = ?o, NewLen = ?n, Ops = smart_string ops, CharBank = bank\<rparr>"
    using assms by (intro smart_end.unpacks)
  have d: "DeserializeOps (smart_string ops) = Inr ?norm" using assms(1) by (rule smart_end.parses)
  have app: "applies True ?norm bank [] doc r" using assms(2) by (rule smart_end.norm_applies)
  then obtain out rest where run: "runs True ?norm bank doc out [] rest" "r = out @ rest" by (auto simp: applies_def)
  from runs_lengths[OF run(1)] have len: "?o = old_chars ?norm + RuneCount rest" "RuneCount out = new_chars ?norm" by simp_all
  then have c: "check_ops ?o ?n ?norm (0, 0, bank, NewSmartOpAssembler) =
      Inr (old_chars ?norm, new_chars ?norm, [], fold SOA_Append ?norm NewSmartOpAssembler)"
    using check_ops_complete[OF run(1), of 0 ?o 0 ?n NewSmartOpAssembler] run(2) by (simp add: RuneCount_nonneg)
  have plain: "list_all op_plain ops" using assms(1) by (simp add: ops_plain_def)
  have "smart_string ?norm = concat (map Op_String (smart_ops True ?norm))" by (rule SOA_EndDocument_ops)
  also have "\<dots> = smart_string ops" by (simp add: smart_ops_idem[OF plain] SOA_EndDocument_ops)
  finally have canon: "smart_string ?norm = smart_string ops" .
  have n: "new_chars ?norm + (?o - old_chars ?norm) = ?n" using len run(2) by simp
  show ?thesis
    by (simp add: CheckRep_def u d c n canon)
qed

lemma MakeSplice_CheckRep:
  assumes "0 \<le> start" "0 \<le> ndel" "RuneCount orig + RuneCount ins < 2 ^ 63"
    and a: "attribs_wf (case attribs of None \<Rightarrow> [] | Some a \<Rightarrow> a)"
    and cs: "MakeSplice orig start ndel ins attribs pool = Inr cs"
  shows "CheckRep cs = Inr cs"
proof -
  let ?d = "take (nat ndel) (drop (nat start) orig)"
  let ?r = "take (nat start) orig @ ins @ drop (nat start + nat ndel) orig"
  have "orig = take (nat start) orig @ ?d @ drop (nat start + nat ndel) orig"
    by (metis append_take_drop_id drop_drop add.commute)
  then have "RuneCount orig = RuneCount (take (nat start) orig) + RuneCount ?d + RuneCount (drop (nat start + nat ndel) orig)"
    by (metis RuneCount_append add.assoc)
  then have r: "RuneCount orig + RuneCount ins - RuneCount ?d = RuneCount ?r" by simp
  have d: "0 \<le> RuneCount ?d" "RuneCount ?d \<le> RuneCount orig" by (simp_all add: RuneCount_def)
  have "fits (RuneCount orig)" "\<bar>RuneCount ?r - RuneCount orig\<bar> < 2 ^ 63"
    using assms(3) d r RuneCount_nonneg[of ins] RuneCount_nonneg[of orig] by (simp_all add: fits_def, linarith+)
  then show ?thesis
    using cs CheckRep_packed[OF splice_ops_plain[OF a assms(3)] splice_ops_applies]
    unfolding MakeSplice_eq[OF assms(1,2)] r by blast
qed

subsection \<open>A builder driven by edits\<close>

text \<open>
  The calls a client makes while it walks the old text: keep a stretch (with its counts, or
  handing the text over), insert a text, remove a stretch; attributes are strings.
\<close>

datatype edit =
    EKeep gostring gostring
  | EKeepText gostring gostring
  | EInsert gostring gostring
  | ERemove gostring

fun run_edit :: "edit \<Rightarrow> Builder \<Rightarrow> Builder result" where
  "run_edit (EKeep x a) b =
     bind_result (Builder_Keep (RuneCount x) (CountLines x newline) (string_args a) None b) (\<lambda>(b1, _). Inr b1)"
| "run_edit (EKeepText x a) b =
     bind_result (Builder_KeepText x (Some (string_args a)) None b) (\<lambda>(b1, _). Inr b1)"
| "run_edit (EInsert x a) b = bind_result (Builder_Insert x (string_args a) None b) (\<lambda>(b1, _). Inr b1)"
| "run_edit (ERemove x) b = Inr (Builder_Remove (RuneCount x) (CountLines x newline) b)"

fun run_edits :: "edit list \<Rightarrow> Builder \<Rightarrow> Builder result" where
  "run_edits [] b = Inr b"
| "run_edits (e # es) b = bind_result (run_edit e b) (run_edits es)"

fun edit_old :: "edit \<Rightarrow> gostring" where
  "edit_old (EKeep x a) = x" | "edit_old (EKeepText x a) = x" | "edit_old (EInsert x a) = []" | "edit_old (ERemove x) = x"

fun edit_new :: "edit \<Rightarrow> gostring" where
  "edit_new (EKeep x a) = x" | "edit_new (EKeepText x a) = x" | "edit_new (EInsert x a) = x" | "edit_new (ERemove x) = []"

fun edit_bank :: "edit \<Rightarrow> gostring" where
  "edit_bank (EInsert x a) = x" | "edit_bank e = []"

fun edit_attribs :: "edit \<Rightarrow> gostring" where
  "edit_attribs (EKeep x a) = a" | "edit_attribs (EKeepText x a) = a" | "edit_attribs (EInsert x a) = a"
| "edit_attribs (ERemove x) = []"

text \<open>A stretch given by its counts ends with its last newline.\<close>

definition neat_text :: "gostring \<Rightarrow> bool" where
  "neat_text x \<longleftrightarrow> (newline \<in> set x \<longrightarrow> x \<noteq> [] \<and> last x = newline)"

fun edit_neat :: "edit \<Rightarrow> bool" where
  "edit_neat (EKeep x a) = neat_text x" | "edit_neat (ERemove x) = neat_text x"
| "edit_neat (EKeepText x a) = True" | "edit_neat (EInsert x a) = True"

fun edit_ops :: "edit \<Rightarrow> Op list" where
  "edit_ops (EKeep x a) = [\<lparr>OpCode = Keep, Chars = RuneCount x, Lines = CountLines x newline, Attribs = a\<rparr>]"
| "edit_ops (EKeepText x a) = text_ops Keep a x"
| "edit_ops (EInsert x a) = text_ops Plus a x"
| "edit_ops (ERemove x) = [\<lparr>OpCode = Minus, Chars = RuneCount x, Lines = CountLines x newline, Attribs = []\<rparr>]"

definition built :: "int \<Rightarrow> Op list \<Rightarrow> gostring \<Rightarrow> Builder \<Rightarrow> bool" where
  "built old ops bank b \<longleftrightarrow> b_oldLen b = old \<and> b_assem b = fold SOA_Append ops NewSmartOpAssembler \<and>
     sa_str (b_charBank b) = bank"

lemma Op_updates [simp]:
  "op'\<lparr>OpCode := c, Chars := n, Lines := l, Attribs := a\<rparr> = \<lparr>OpCode = c, Chars = n, Lines = l, Attribs = a\<rparr>"
  "op'\<lparr>OpCode := c, Attribs := a, Chars := n, Lines := l\<rparr> = \<lparr>OpCode = c, Chars = n, Lines = l, Attribs = a\<rparr>"
  by (cases op'; simp)+

lemma CountLines_max [simp]: "(if 0 < CountLines x r then CountLines x r else 0) = CountLines x r"
  by (auto simp: not_less intro: antisym)

lemma string_args_sel [simp]: "stringAttribs (string_args a) = Some a"
  by (simp add: string_args_def)

lemma run_edit_built:
  "built old ops bank b \<Longrightarrow> \<exists>b'. run_edit e b = Inr b' \<and> built old (ops @ edit_ops e) (bank @ edit_bank e) b'"
  by (cases e) (auto simp: built_def Builder_Keep_def Builder_KeepText_def Builder_Insert_def Builder_Remove_def Let_def
      simp del: SOA_Append_def split del: if_split)

lemma run_edits_built:
  "built old ops bank b \<Longrightarrow> \<exists>b'. run_edits es b = Inr b' \<and>
     built old (ops @ concat (map edit_ops es)) (bank @ concat (map edit_bank es)) b'"
proof (induction es arbitrary: ops bank b)
  case (Cons e es)
  from run_edit_built[OF Cons.prems, of e] obtain b1 where
    1: "run_edit e b = Inr b1" "built old (ops @ edit_ops e) (bank @ edit_bank e) b1" by blast
  from Cons.IH[OF 1(2)] 1(1) show ?case by auto
qed simp

lemma built_new: "built n [] [] (NewBuilder n)"
  by (simp add: built_def NewBuilder_def NewStringAssembler_def)

lemma LengthChange_EndDocument [simp]: "LengthChange (SOA_EndDocument m) = LengthChange m"
  by (simp add: LengthChange_def SOA_EndDocument_def)

lemma built_ToString:
  "built old ops bank b \<Longrightarrow> fst (Builder_ToString b) = Pack old (old + length_change ops) (smart_string ops) bank"
  using LengthChange_fold[of ops NewSmartOpAssembler]
  by (simp add: built_def Builder_ToString_def split_beta Let_def SA_String_def)
    (simp add: LengthChange_def NewSmartOpAssembler_def)

text \<open>The operations of an edit, on the stretch it names.\<close>

lemma neat_spans: "n \<longrightarrow> neat_text x \<Longrightarrow> spans n \<lparr>OpCode = c, Chars = RuneCount x, Lines = CountLines x newline, Attribs = a\<rparr> x"
  by (auto simp: spans_def neat_text_def CountLines_count count_list_0_iff)

lemma edit_ops_runs: "n \<longrightarrow> edit_neat e \<Longrightarrow> runs n (edit_ops e) (edit_bank e @ b) (edit_old e @ t) (edit_new e) b t"
proof (cases e)
  case (EKeep x a)
  assume "n \<longrightarrow> edit_neat e"
  with EKeep runs.runs_Keep[of "\<lparr>OpCode = Keep, Chars = RuneCount x, Lines = CountLines x newline, Attribs = a\<rparr>" n x "[]" b t "[]" b t]
    neat_spans[of n x Keep a] show ?thesis by simp
next
  case (ERemove x)
  assume "n \<longrightarrow> edit_neat e"
  with ERemove runs.runs_Minus[of "\<lparr>OpCode = Minus, Chars = RuneCount x, Lines = CountLines x newline, Attribs = []\<rparr>" n x "[]" b t "[]" b t]
    neat_spans[of n x Minus "[]"] show ?thesis by simp
qed (simp_all add: text_ops_runs)

lemma edits_run:
  "n \<longrightarrow> list_all edit_neat es \<Longrightarrow> runs n (concat (map edit_ops es)) (concat (map edit_bank es) @ b)
     (concat (map edit_old es) @ t) (concat (map edit_new es)) b t"
proof (induction es)
  case (Cons e es)
  then have "runs n (edit_ops e) (edit_bank e @ concat (map edit_bank es) @ b) (edit_old e @ concat (map edit_old es) @ t)
      (edit_new e) (concat (map edit_bank es) @ b) (concat (map edit_old es) @ t)"
    by (intro edit_ops_runs) simp
  from runs_appendI[OF this Cons.IH] Cons.prems show ?case by simp
qed simp

lemma edits_apply:
  "n \<longrightarrow> list_all edit_neat es \<Longrightarrow> applies n (concat (map edit_ops es)) (concat (map edit_bank es)) []
     (concat (map edit_old es) @ t) (concat (map edit_new es) @ t)"
  using edits_run[of n es "[]" t] by (auto simp: applies_def)

lemma edit_ops_plain:
  "attribs_wf (edit_attribs e) \<Longrightarrow> list_all op_plain (edit_ops e) \<and>
     total (edit_ops e) = RuneCount (edit_old e) + RuneCount (edit_bank e)"
  by (cases e) (auto simp: text_ops_plain op_plain_def CountLines_le)

lemma edits_plain:
  "list_all (\<lambda>e. attribs_wf (edit_attribs e)) es \<Longrightarrow> list_all op_plain (concat (map edit_ops es)) \<and>
     total (concat (map edit_ops es)) = RuneCount (concat (map edit_old es)) + RuneCount (concat (map edit_bank es))"
  by (induction es) (auto dest!: edit_ops_plain)

lemma edits_length: "length_change (concat (map edit_ops es)) =
    RuneCount (concat (map edit_new es)) - RuneCount (concat (map edit_old es))"
  using runs_lengths[OF edits_run[of False es "[]" "[]"]] by (simp add: length_change_chars)

lemma edits_new_le: "RuneCount (concat (map edit_new es)) \<le>
    RuneCount (concat (map edit_old es)) + RuneCount (concat (map edit_bank es))"
proof (induction es)
  case (Cons e es)
  have "RuneCount (edit_new e) \<le> RuneCount (edit_old e) + RuneCount (edit_bank e)"
    by (cases e) simp_all
  with Cons show ?case by simp
qed simp

lemma Builder_correct:
  assumes wf: "list_all (\<lambda>e. attribs_wf (edit_attribs e)) es" and doc: "doc = concat (map edit_old es) @ rest"
    and size: "RuneCount doc + RuneCount (concat (map edit_bank es)) < 2 ^ 63"
  shows "\<exists>b. run_edits es (NewBuilder (RuneCount doc)) = Inr b \<and>
    ApplyToText (fst (Builder_ToString b)) doc = Inr (concat (map edit_new es) @ rest) \<and>
    (list_all edit_neat es \<longrightarrow> CheckRep (fst (Builder_ToString b)) = Inr (fst (Builder_ToString b)))"
proof -
  let ?ops = "concat (map edit_ops es)" and ?bank = "concat (map edit_bank es)" and ?r = "concat (map edit_new es) @ rest"
  obtain b where b: "run_edits es (NewBuilder (RuneCount doc)) = Inr b" "built (RuneCount doc) ?ops ?bank b"
    using run_edits_built[OF built_new, of es] by auto
  have pos: "0 \<le> RuneCount rest" "0 \<le> RuneCount ?bank" "0 \<le> RuneCount doc" "0 \<le> RuneCount (concat (map edit_new es))"
    "0 \<le> RuneCount (concat (map edit_old es))"
    by (simp_all add: RuneCount_nonneg)
  have plain: "ops_plain ?ops" using edits_plain[OF wf] size pos(1) unfolding ops_plain_def doc RuneCount_append by linarith
  have n: "RuneCount doc + length_change ?ops = RuneCount ?r" by (simp add: edits_length doc)
  have fits: "fits (RuneCount doc)" "\<bar>RuneCount ?r - RuneCount doc\<bar> < 2 ^ 63"
    using size pos edits_new_le[of es] unfolding fits_def doc RuneCount_append abs_less_iff by linarith+
  note str = built_ToString[OF b(2), unfolded n]
  have app: "applies m ?ops ?bank [] doc ?r" if "m \<longrightarrow> list_all edit_neat es" for m
    using edits_apply[OF that] by (simp add: doc)
  have "ApplyToText (fst (Builder_ToString b)) doc = Inr ?r"
    unfolding str using smart_end.apply_packed[OF plain fits refl app[of False]] by simp
  moreover have "CheckRep (fst (Builder_ToString b)) = Inr (fst (Builder_ToString b))" if "list_all edit_neat es"
    unfolding str using that by (intro CheckRep_packed[OF plain app fits]) simp
  ultimately show ?thesis using b(1) by blast
qed

end
