(* ===== verification/ZipSpec.thy ===== *)
theory ZipSpec
  imports Zip CheckSpec
begin

text \<open>
  The loop of \<open>ApplyZip\<close> on operation lists: \<open>zip_runs\<close> is the sequence of callback calls it
  makes, and a callback that uses up one of its two operations in every call makes it return.
  The second fact is the contract \<open>zip_callback\<close>, met by the three callbacks.
\<close>

subsection \<open>The loop as a relation on lists\<close>

definition head_op :: "Op list \<Rightarrow> Op" where
  "head_op xs = (case xs of [] \<Rightarrow> NewOp None | x # _ \<Rightarrow> x)"

definition put_back :: "Op \<Rightarrow> Op list \<Rightarrow> Op list" where
  "put_back op' xs = (case xs of [] \<Rightarrow> [] | _ # rest \<Rightarrow> if OpCode op' = NoCode then rest else op' # rest)"

lemma head_put_simps [simp]:
  "head_op [] = NewOp None" "head_op (x # xs) = x" "put_back op' [] = []"
  "put_back op' (x # xs) = (if OpCode op' = NoCode then xs else op' # xs)" "OpCode (NewOp None) = NoCode"
  by (simp_all add: head_op_def put_back_def NewOp_def)

inductive zip_runs :: "'s zip_callback_fun \<Rightarrow> Op list \<Rightarrow> Op list \<Rightarrow> 's \<Rightarrow> Op list \<Rightarrow> 's \<Rightarrow> bool" for cb where
  zip_done: "zip_runs cb [] [] st [] st"
| zip_step: "xs \<noteq> [] \<or> ys \<noteq> [] \<Longrightarrow> cb (head_op xs) (head_op ys) st = Inr ((out, op1, op2), st1) \<Longrightarrow>
     zip_runs cb (put_back op1 xs) (put_back op2 ys) st1 outs st2 \<Longrightarrow>
     zip_runs cb xs ys st (if OpCode out \<noteq> NoCode then out # outs else outs) st2"

definition coded :: "Op list \<Rightarrow> bool" where
  "coded ops \<longleftrightarrow> list_all (\<lambda>op'. OpCode op' \<noteq> NoCode) ops"

lemma coded_simps [simp]: "coded []" "coded (x # xs) \<longleftrightarrow> OpCode x \<noteq> NoCode \<and> coded xs"
  by (simp_all add: coded_def)

lemma coded_put_back: "coded xs \<Longrightarrow> coded (put_back op' xs)"
  by (cases xs) simp_all

text \<open>What is left of a side: its current operation, if any, and the rest of its iterator.\<close>

fun side_ops :: "zip_side \<Rightarrow> Op list" where
  "side_ops (op', dn, it) =
     (if dn then [] else if OpCode op' = NoCode then drop (nat (iter_next it)) (iter_ops it)
      else op' # drop (nat (iter_next it)) (iter_ops it))"

fun side_ok :: "zip_side \<Rightarrow> bool" where
  "side_ok (op', dn, it) \<longleftrightarrow> 0 \<le> iter_next it \<and> coded (side_ops (op', dn, it))"

lemma next_side_ops:
  assumes "0 \<le> iter_next it" "rest = drop (nat (iter_next it)) (iter_ops it)" "coded rest"
  shows "side_ops (next_side it) = rest \<and> side_ok (next_side it) \<and>
    (rest = [] \<longrightarrow> next_side it = (NewOp None, True, it)) \<and>
    (\<forall>x xs. rest = x # xs \<longrightarrow> (\<exists>it1. next_side it = (x, False, it1) \<and> 0 \<le> iter_next it1 \<and>
       drop (nat (iter_next it1)) (iter_ops it1) = xs))"
proof (cases rest)
  case Nil
  then have "int (length (iter_ops it)) \<le> iter_next it" using assms by simp
  with Nil assms(1) show ?thesis by (simp add: next_side_def Next_def)
next
  case (Cons x xs)
  then have lt: "nat (iter_next it) < length (iter_ops it)" using assms(2) by (cases "nat (iter_next it) < length (iter_ops it)") auto
  then have "drop (nat (iter_next it)) (iter_ops it) = iter_ops it ! nat (iter_next it) # drop (Suc (nat (iter_next it))) (iter_ops it)"
    by (simp add: Cons_nth_drop_Suc)
  with Cons assms have "x = iter_ops it ! nat (iter_next it)" "xs = drop (nat (iter_next it + 1)) (iter_ops it)"
    by (simp_all add: nat_add_distrib)
  moreover have "\<not> iter_next it \<ge> int (length (iter_ops it))" using lt assms(1) by linarith
  ultimately show ?thesis using Cons assms by (auto simp: next_side_def Next_def)
qed

text \<open>Advancing shows the head of what is left and exhausts an empty side.\<close>

lemma advance_side_ops:
  assumes "side_ok s"
  shows "\<exists>dn it. advance_side s = (head_op (side_ops s), dn, it) \<and> (dn \<longleftrightarrow> side_ops s = []) \<and>
    (\<forall>op'. side_ops (op', dn, it) = put_back op' (side_ops s) \<and> side_ok (op', dn, it))"
proof -
  obtain op' dn it where s: "s = (op', dn, it)" by (cases s)
  show ?thesis
  proof (cases "\<not> dn \<and> OpCode op' = NoCode")
    case True
    let ?rest = "drop (nat (iter_next it)) (iter_ops it)"
    have ok: "0 \<le> iter_next it" "coded ?rest" using assms True by (auto simp: s)
    from next_side_ops[OF ok(1) refl ok(2)] show ?thesis
      using True ok by (cases ?rest) (auto simp: s advance_side_def)
  next
    case False
    then show ?thesis using assms by (auto simp: s advance_side_def)
  qed
qed

lemma zip_loop_runs:
  "zip_runs cb xs ys st outs st' \<Longrightarrow> side_ok s1 \<Longrightarrow> side_ok s2 \<Longrightarrow> side_ops s1 = xs \<Longrightarrow> side_ops s2 = ys \<Longrightarrow>
   zip_loop cb s1 s2 asm st = Some (Inr (fold SOA_Append outs asm, st'))"
proof (induction arbitrary: s1 s2 asm rule: zip_runs.induct)
  case (zip_done st)
  from advance_side_ops[OF zip_done(1)] advance_side_ops[OF zip_done(2)] zip_done
  show ?case by (subst zip_loop.simps) (auto simp: Let_def)
next
  case (zip_step xs ys st out op1 op2 st1 outs st2)
  from advance_side_ops[OF zip_step.prems(1)] zip_step.prems(3) obtain d1 i1 where
    1: "advance_side s1 = (head_op xs, d1, i1)" "side_ops (op1, d1, i1) = put_back op1 xs" "side_ok (op1, d1, i1)" by blast
  from advance_side_ops[OF zip_step.prems(2)] zip_step.prems(4) obtain d2 i2 where
    2: "advance_side s2 = (head_op ys, d2, i2)" "side_ops (op2, d2, i2) = put_back op2 ys" "side_ok (op2, d2, i2)" by blast
  have "\<not> (fst (snd s1) \<and> fst (snd s2))" using zip_step.hyps(1) zip_step.prems(3,4) by (cases s1; cases s2) auto
  moreover have "\<not> (OpCode (head_op xs) = NoCode \<and> OpCode (head_op ys) = NoCode)"
    using zip_step.hyps(1) zip_step.prems by (cases s1; cases s2; cases xs; cases ys) auto
  ultimately show ?case
    using zip_step.IH[OF 1(3) 2(3) 1(2) 2(2)] zip_step.hyps(2) 1(1) 2(1)
    by (subst zip_loop.simps) (auto simp: Let_def)
qed

lemma new_side: "coded ops \<Longrightarrow> side_ok (next_side (new_iterator ops)) \<and> side_ops (next_side (new_iterator ops)) = ops"
  using next_side_ops[of "new_iterator ops" ops] by (simp add: new_iterator_def)

lemma ApplyZip_runs:
  assumes "DeserializeOps in1 = Inr ops1" "DeserializeOps in2 = Inr ops2" "zip_runs cb ops1 ops2 st outs st'"
  shows "ApplyZip in1 in2 cb st = Some (Inr (smart_string outs, st'))"
proof -
  have "coded ops1" "coded ops2"
    using DeserializeOps_wf[OF assms(1)] DeserializeOps_wf[OF assms(2)] by (auto simp: coded_def list_all_iff op_wf_def)
  with zip_loop_runs[OF assms(3)] new_side[of ops1] new_side[of ops2] assms(1,2) show ?thesis
    by (simp add: ApplyZip_def)
qed

subsection \<open>The contract of a callback\<close>

locale zip_callback =
  fixes cb :: "'s zip_callback_fun"
  assumes uses_up: "cb op1 op2 st = Inr ((out, op1', op2'), st') \<Longrightarrow> OpCode op1 \<noteq> NoCode \<or> OpCode op2 \<noteq> NoCode \<Longrightarrow>
    (OpCode op1 \<noteq> NoCode \<and> OpCode op1' = NoCode) \<or> (OpCode op2 \<noteq> NoCode \<and> OpCode op2' = NoCode)"
begin

lemma step_shorter:
  assumes "cb (head_op xs) (head_op ys) st = Inr ((out, op1, op2), st1)" "xs \<noteq> [] \<or> ys \<noteq> []" "coded xs" "coded ys"
  shows "length (put_back op1 xs) + length (put_back op2 ys) < length xs + length ys"
  using uses_up[OF assms(1)] assms(2-4) by (cases xs; cases ys) auto

lemma loop_returns: "side_ok s1 \<Longrightarrow> side_ok s2 \<Longrightarrow> \<exists>r. zip_loop cb s1 s2 asm st = Some r"
proof (induction "length (side_ops s1) + length (side_ops s2)" arbitrary: s1 s2 asm st rule: less_induct)
  case less
  from advance_side_ops[OF less.prems(1)] obtain d1 i1 where
    1: "advance_side s1 = (head_op (side_ops s1), d1, i1)"
    "\<forall>op'. side_ops (op', d1, i1) = put_back op' (side_ops s1) \<and> side_ok (op', d1, i1)" by blast
  from advance_side_ops[OF less.prems(2)] obtain d2 i2 where
    2: "advance_side s2 = (head_op (side_ops s2), d2, i2)"
    "\<forall>op'. side_ops (op', d2, i2) = put_back op' (side_ops s2) \<and> side_ok (op', d2, i2)" by blast
  have coded: "coded (side_ops s1)" "coded (side_ops s2)" using less.prems by (cases s1; cases s2; simp)+
  show ?case
  proof (cases "side_ops s1 = [] \<and> side_ops s2 = []")
    case True
    then show ?thesis by (subst zip_loop.simps) (simp add: 1(1) 2(1) Let_def)
  next
    case False
    show ?thesis
    proof (cases "cb (head_op (side_ops s1)) (head_op (side_ops s2)) st")
      case (Inl e)
      then show ?thesis by (subst zip_loop.simps) (simp add: 1(1) 2(1) Let_def)
    next
      case (Inr r)
      obtain out op1 op2 st1 where r: "r = ((out, op1, op2), st1)" by (cases r) auto
      have "length (side_ops (op1, d1, i1)) + length (side_ops (op2, d2, i2)) < length (side_ops s1) + length (side_ops s2)"
        using step_shorter[of "side_ops s1" "side_ops s2"] Inr r False coded 1(2) 2(2) by auto
      from less.hyps[OF this] 1(2) 2(2)
      have "\<exists>r. zip_loop cb (op1, d1, i1) (op2, d2, i2) asm' st1 = Some r" for asm' by blast
      then show ?thesis by (subst zip_loop.simps) (simp add: 1(1) 2(1) Inr r Let_def)
    qed
  qed
qed

lemma ApplyZip_returns: "\<exists>r. ApplyZip in1 in2 cb st = Some r"
proof (cases "DeserializeOps in1")
  case (Inr ops1)
  show ?thesis
  proof (cases "DeserializeOps in2")
    case (Inr ops2)
    have "coded ops1" "coded ops2"
      using DeserializeOps_wf[OF \<open>DeserializeOps in1 = Inr ops1\<close>] DeserializeOps_wf[OF Inr]
      by (auto simp: coded_def list_all_iff op_wf_def)
    then obtain r where "zip_loop cb (next_side (new_iterator ops1)) (next_side (new_iterator ops2)) NewSmartOpAssembler st = Some r"
      using loop_returns new_side by blast
    then show ?thesis using Inr \<open>DeserializeOps in1 = Inr ops1\<close> by (cases r) (auto simp: ApplyZip_def)
  qed (use Inr in \<open>simp add: ApplyZip_def\<close>)
qed (simp add: ApplyZip_def)

end

subsection \<open>The three callbacks meet it\<close>

lemma consume_codes: "(OpCode (fst (consume b attOp csOp)) = NoCode) \<or> (OpCode (snd (consume b attOp csOp)) = NoCode)"
  by (simp add: consume_def Let_def)

lemma SlicerZipperFunc_uses_up:
  assumes "SlicerZipperFunc attOp csOp pool = Inr ((out, op1', op2'), pool')" "OpCode attOp \<noteq> NoCode \<or> OpCode csOp \<noteq> NoCode"
  shows "(OpCode attOp \<noteq> NoCode \<and> OpCode op1' = NoCode) \<or> (OpCode csOp \<noteq> NoCode \<and> OpCode op2' = NoCode)"
  using assms consume_codes[of "\<not> Chars attOp > Chars csOp" attOp csOp]
  by (auto simp: SlicerZipperFunc_def Let_def bind_result_Inr_iff split: if_splits prod.splits)

interpretation attribution_zip: zip_callback attribution_callback
  by unfold_locales (rule SlicerZipperFunc_uses_up, simp_all add: attribution_callback_def)

lemma compose_callback_slicer:
  "compose_callback op1 op2 (b1, b2, ba, pool) = Inr ((out, op1', op2'), st') \<Longrightarrow>
   \<exists>pool'. SlicerZipperFunc op1 op2 pool = Inr ((out, op1', op2'), pool')"
  by (auto simp: compose_callback_def bind_result_Inr_iff split: if_splits)

interpretation compose_zip: zip_callback compose_callback
proof
  fix op1 op2 out op1' op2' :: Op and st st' :: compose_state
  assume "compose_callback op1 op2 st = Inr ((out, op1', op2'), st')" "OpCode op1 \<noteq> NoCode \<or> OpCode op2 \<noteq> NoCode"
  then show "(OpCode op1 \<noteq> NoCode \<and> OpCode op1' = NoCode) \<or> (OpCode op2 \<noteq> NoCode \<and> OpCode op2' = NoCode)"
    using SlicerZipperFunc_uses_up by (cases st) (metis compose_callback_slicer)
qed

lemma cleared_code [simp]: "OpCode (cleared op') = NoCode"
  by (simp add: cleared_def)

lemma which_to_do_code:
  "which_to_do rio pool op1 op2 c1 c2 = Inr w \<Longrightarrow> OpCode op1 = Plus \<or> OpCode op2 = Plus \<Longrightarrow>
   if w = 1 then OpCode op1 = Plus else OpCode op2 = Plus"
  by (auto simp: which_to_do_def bind_result_Inr_iff Let_def split: if_splits)

lemma follow_ops_insert:
  assumes "follow_ops order rio op1 op2 st = Inr ((out, op1', op2'), st')" "OpCode op1 = Plus \<or> OpCode op2 = Plus"
  shows "(OpCode op1 = Plus \<and> OpCode op1' = NoCode) \<or> (OpCode op2 = Plus \<and> OpCode op2' = NoCode)"
proof -
  from assms obtain w where w: "which_to_do rio (follow_pool st) op1 op2 (chars1 st) (chars2 st) = Inr w"
    "w = 1 \<longrightarrow> op1' = cleared op1" "w \<noteq> 1 \<longrightarrow> op2' = cleared op2"
    by (auto simp: follow_ops_def bind_result_Inr_iff split: if_splits)
  with which_to_do_code[OF w(1) assms(2)] show ?thesis by (cases "w = 1") simp_all
qed

lemma follow_ops_uses_up:
  assumes "follow_ops order rio op1 op2 st = Inr ((out, op1', op2'), st')" "OpCode op1 \<noteq> NoCode \<or> OpCode op2 \<noteq> NoCode"
  shows "(OpCode op1 \<noteq> NoCode \<and> OpCode op1' = NoCode) \<or> (OpCode op2 \<noteq> NoCode \<and> OpCode op2' = NoCode)"
proof (cases "OpCode op1 = Plus \<or> OpCode op2 = Plus")
  case True
  with follow_ops_insert[OF assms(1)] show ?thesis by auto
next
  case False
  then show ?thesis
    using assms unfolding follow_ops_def Let_def
    by (cases "OpCode op1"; cases "OpCode op2") (auto simp: bind_result_Inr_iff split: if_splits)
qed

lemma follow_callback_ops:
  "follow_callback order rio op1 op2 st = Inr (z, st') \<Longrightarrow> \<exists>st1. follow_ops order rio op1 op2 st = Inr (z, st1)"
  by (auto simp: follow_callback_def bind_result_Inr_iff Let_def)

interpretation follow_zip: zip_callback "follow_callback order rio" for order rio
proof
  fix op1 op2 out op1' op2' :: Op and st st' :: follow_state
  assume "follow_callback order rio op1 op2 st = Inr ((out, op1', op2'), st')" "OpCode op1 \<noteq> NoCode \<or> OpCode op2 \<noteq> NoCode"
  then show "(OpCode op1 \<noteq> NoCode \<and> OpCode op1' = NoCode) \<or> (OpCode op2 \<noteq> NoCode \<and> OpCode op2' = NoCode)"
    by (metis follow_callback_ops follow_ops_uses_up)
qed

lemma Compose_returns: "\<exists>r. Compose cs1 cs2 pool = Some r"
proof -
  obtain u1 u2 where u: "Unpack cs1 = Inr u1" "Unpack cs2 = Inr u2" using Unpack_total by metis
  have "\<exists>r. bind_run (ApplyZip (Ops u1) (Ops u2) compose_callback st) (\<lambda>x. Some (f x)) = Some r"
    for st :: compose_state and f :: "gostring \<times> compose_state \<Rightarrow> (gostring \<times> APool option) result"
  proof -
    obtain r where "ApplyZip (Ops u1) (Ops u2) compose_callback st = Some r" using compose_zip.ApplyZip_returns by blast
    then show ?thesis by (cases r) auto
  qed
  then show ?thesis by (simp add: Compose_def u Let_def case_prod_unfold)
qed

lemma Follow_returns: "\<exists>r. Follow order cs1 cs2 rio pool = Some r"
proof -
  obtain u1 u2 where u: "Unpack cs1 = Inr u1" "Unpack cs2 = Inr u2" using Unpack_total by metis
  have "\<exists>r. bind_run (ApplyZip (Ops u1) (Ops u2) (follow_callback order rio) st) (\<lambda>x. Some (f x)) = Some r"
    for st and f :: "gostring \<times> follow_state \<Rightarrow> (gostring \<times> APool option) result"
  proof -
    obtain r where "ApplyZip (Ops u1) (Ops u2) (follow_callback order rio) st = Some r"
      using follow_zip.ApplyZip_returns by blast
    then show ?thesis by (cases r) auto
  qed
  then show ?thesis by (simp add: Follow_def u Let_def case_prod_unfold)
qed

end
