(* ===== verification/ComposeSpec.thy ===== *)
theory ComposeSpec
  imports ZipSpec
begin

text \<open>
  \<open>Compose\<close> is sequential composition: where the first changeset and then the second apply to
  a text, the composed one applies and gives the same result. One callback step is proved
  to keep the two operation lists, the banks and the texts in step (\<open>zipping\<close>); the loop
  follows by induction on the operations left.
\<close>

subsection \<open>Cutting an operation\<close>

lemma runs_bank_frame: "runs n ops b t out b' t' \<Longrightarrow> runs n ops (b @ c) t out (b' @ c) t'"
  by (induction rule: runs.induct) (auto intro: runs.intros)

definition cut_op :: "Op \<Rightarrow> int \<Rightarrow> int \<Rightarrow> Op" where
  "cut_op op' k l =
     (let p = op'\<lparr>Chars := Chars op' - k, Lines := Lines op' - l\<rparr>
      in if Chars p = 0 then p\<lparr>OpCode := NoCode\<rparr> else p)"

lemma cut_op_sel [simp]:
  "Chars (cut_op op' k l) = Chars op' - k" "Lines (cut_op op' k l) = Lines op' - l"
  "Attribs (cut_op op' k l) = Attribs op'"
  "OpCode (cut_op op' k l) = (if Chars op' - k = 0 then NoCode else OpCode op')"
  by (simp_all add: cut_op_def Let_def)

lemma spans_cut:
  assumes "spans n op' (u @ v)" "v \<noteq> []"
  shows "spans n (cut_op op' (RuneCount u) (CountLines u newline)) v"
  using assms CountLines_nonneg[of u newline] CountLines_nonneg[of v newline]
  by (auto simp: spans_def simp del: CountLines_nonneg)

lemma spans_cut_empty: "spans n op' (u @ v) \<Longrightarrow> Chars op' - RuneCount u = 0 \<longleftrightarrow> v = []"
  by (auto simp: spans_def)

text \<open>The rest of an operation acts on the rest of its piece.\<close>

lemma runs_cut:
  assumes "spans n op' (u @ v)" "runs n rest b t out b' t'"
  defines "ops \<equiv> put_back (cut_op op' (RuneCount u) (CountLines u newline)) (op' # rest)"
  shows "OpCode op' = Plus \<Longrightarrow> runs n ops (v @ b) t (v @ out) b' t'"
    and "OpCode op' = Minus \<Longrightarrow> runs n ops b (v @ t) out b' t'"
    and "OpCode op' = Keep \<Longrightarrow> runs n ops b (v @ t) (v @ out) b' t'"
  using spans_cut[OF assms(1)] spans_cut_empty[OF assms(1)] assms(2)
  by (auto simp: ops_def intro: runs.intros)

lemma consume_cut:
  "consume True attOp csOp = (attOp\<lparr>OpCode := NoCode\<rparr>, cut_op csOp (Chars attOp) (Lines attOp))"
  "consume False attOp csOp = (cut_op attOp (Chars csOp) (Lines csOp), csOp\<lparr>OpCode := NoCode\<rparr>)"
  by (simp_all add: consume_def cut_op_def Let_def)

subsection \<open>SlicerZipperFunc on two pieces of a text\<close>

lemma count_prefix_le: "CountLines u newline \<le> CountLines (u @ v) newline"
  by simp

lemma slicer_pieces:
  assumes codes: "OpCode a \<in> {Plus, Keep}" "OpCode c \<in> {Minus, Keep}" and p: "pool_wf p"
    and sp: "spans n a x" "spans n c y" and wf: "attribs_wf (Attribs a)" "attribs_wf (Attribs c)"
    and first: "first \<longleftrightarrow> RuneCount x \<le> RuneCount y" and pre: "if first then \<exists>v. y = x @ v else \<exists>v. x = y @ v"
  shows "\<exists>attribs. attribs_wf attribs \<and> SlicerZipperFunc a c (Some p) =
    Inr ((\<lparr>OpCode = slice_code (OpCode a) (OpCode c), Chars = Chars (if first then a else c),
           Lines = Lines (if first then a else c), Attribs = attribs\<rparr>,
          fst (consume first a c), snd (consume first a c)), Some p)"
proof -
  have le: "Lines a \<le> Chars a" "Lines c \<le> Chars c" using sp[THEN spans_nonneg] by simp_all
  have chars: "Chars a = RuneCount x" "Chars c = RuneCount y" "Lines a = CountLines x newline" "Lines c = CountLines y newline"
    using sp by (simp_all add: spans_def)
  have lines: "if Chars a < Chars c then Lines a \<le> Lines c else if Chars a > Chars c then Lines a \<ge> Lines c else Lines a = Lines c"
  proof (cases first)
    case True
    with pre obtain v where v: "y = x @ v" by auto
    then have "\<not> RuneCount v < 0" by (simp add: not_less)
    with v show ?thesis unfolding chars by (cases "v = []") simp_all
  next
    case False
    with pre obtain v where v: "x = y @ v" by auto
    with False first show ?thesis unfolding chars by simp
  qed
  have f: "Chars c < Chars a \<longleftrightarrow> \<not> first" using first by (auto simp: chars)
  obtain attribs where at: "attribs_wf attribs" "(if OpCode c = Minus then Inr (Attribs c, Some p)
      else ComposeAttributes (Attribs a) (Attribs c) (OpCode a = Keep) (Some p)) = Inr (attribs, Some p)"
  proof (cases "OpCode c = Minus")
    case False
    have "attribs_wf (if Attribs a = [] \<and> OpCode a = Keep then Attribs c else if Attribs c = [] then Attribs a
         else canon p (compose_map (OpCode a = Keep) (attr_map p (Attribs a)) (attr_map p (Attribs c))))"
      using wf canon_wf[OF p] by simp
    with False that ComposeAttributes_eq[OF p, of "Attribs a" "Attribs c" "OpCode a = Keep"] show ?thesis by simp
  qed (use wf in simp)
  have "SlicerZipperFunc a c (Some p) = Inr ((\<lparr>OpCode = slice_code (OpCode a) (OpCode c), Chars = Chars (if first then a else c),
           Lines = Lines (if first then a else c), Attribs = attribs\<rparr>,
          fst (consume first a c), snd (consume first a c)), Some p)"
    using codes le lines at(2)
    by (auto simp: SlicerZipperFunc_def f NewOp_def Let_def split_beta)
  with at(1) show ?thesis by blast
qed

subsection \<open>One step of Compose\<close>

text \<open>
  The first list turns \<open>t\<close> into \<open>o1 @ t1\<close>, the second turns that into \<open>r\<close>.
\<close>

definition zipping :: "bool \<Rightarrow> Op list \<Rightarrow> Op list \<Rightarrow> gostring \<Rightarrow> gostring \<Rightarrow> gostring \<Rightarrow> gostring \<Rightarrow> bool" where
  "zipping n xs ys b1 b2 t r \<longleftrightarrow>
     (\<exists>o1 b1' t1 o2 b2' m. runs n xs b1 t o1 b1' t1 \<and> runs n ys b2 (o1 @ t1) o2 b2' m \<and> r = o2 @ m)"

lemma zippingI: "runs n xs b1 t oa ba ta \<Longrightarrow> runs n ys b2 (oa @ ta) ob bb m \<Longrightarrow> r = ob @ m \<Longrightarrow>
    zipping n xs ys b1 b2 t r"
  unfolding zipping_def by blast

text \<open>What a callback call outputs, and what it leaves to do.\<close>

definition out_list :: "Op \<Rightarrow> Op list" where
  "out_list out = (if OpCode out = NoCode then [] else [out])"

definition compose_step :: "bool \<Rightarrow> APool \<Rightarrow> Op list \<Rightarrow> Op list \<Rightarrow> StringIterator \<Rightarrow> StringIterator \<Rightarrow>
    StringAssembler \<Rightarrow> gostring \<Rightarrow> gostring \<Rightarrow> bool" where
  "compose_step n p xs ys bi1 bi2 ba t r \<longleftrightarrow>
     (\<exists>out op1 op2 bi1' bi2' ba' B w t' r'.
        compose_callback (head_op xs) (head_op ys) (bi1, bi2, ba, Some p) = Inr ((out, op1, op2), (bi1', bi2', ba', Some p)) \<and>
        iter_ok bi1' \<and> iter_ok bi2' \<and> sa_str ba' = sa_str ba @ B \<and>
        runs n (out_list out) B t w [] t' \<and> r = w @ r' \<and>
        zipping n (put_back op1 xs) (put_back op2 ys) (iter_rest bi1') (iter_rest bi2') t' r' \<and>
        attribs_wf (Attribs out) \<and> Attribs op1 = Attribs (head_op xs) \<and> Attribs op2 = Attribs (head_op ys) \<and>
        total (out_list out) + total (put_back op1 xs) + total (put_back op2 ys) \<le> total xs + total ys)"

lemma compose_stepI:
  "compose_callback (head_op xs) (head_op ys) (bi1, bi2, ba, Some p) = Inr ((out, op1, op2), (bi1', bi2', ba', Some p)) \<Longrightarrow>
   runs n (out_list out) B t w [] t' \<Longrightarrow>
   zipping n (put_back op1 xs) (put_back op2 ys) (iter_rest bi1') (iter_rest bi2') t' r' \<Longrightarrow> r = w @ r' \<Longrightarrow>
   iter_ok bi1' \<Longrightarrow> iter_ok bi2' \<Longrightarrow> sa_str ba' = sa_str ba @ B \<Longrightarrow>
   attribs_wf (Attribs out) \<Longrightarrow> Attribs op1 = Attribs (head_op xs) \<Longrightarrow> Attribs op2 = Attribs (head_op ys) \<Longrightarrow>
   total (out_list out) + total (put_back op1 xs) + total (put_back op2 ys) \<le> total xs + total ys \<Longrightarrow>
   compose_step n p xs ys bi1 bi2 ba t r"
  unfolding compose_step_def by blast

text \<open>An operation that is copied to the output.\<close>

lemma copied_first:
  assumes "iter_ok bi1" "iter_ok bi2" "runs n (a # xs) (iter_rest bi1) t o1 b1' t1" "runs n ys (iter_rest bi2) (o1 @ t1) o2 b2' m"
    and "ys = [] \<or> OpCode a = Minus" "attribs_wf (Attribs a)"
  shows "compose_step n p (a # xs) ys bi1 bi2 ba t (o2 @ m)"
proof -
  have code: "OpCode a \<noteq> NoCode" using assms(3) by (auto simp: runs_Cons_code)
  have ys: "coded ys" using runs_ops_nonneg[OF assms(4)] by (auto simp: coded_def list_all_iff)
  have sz: "SlicerZipperFunc a (head_op ys) (Some p) = Inr ((a, a\<lparr>OpCode := NoCode\<rparr>, head_op ys), Some p)"
    using code assms(5) ys by (cases ys) (auto simp: SlicerZipperFunc_def)
  have pb: "put_back (a\<lparr>OpCode := NoCode\<rparr>) (a # xs) = xs" "put_back (head_op ys) ys = ys"
    using ys by (cases ys; simp)+
  show ?thesis
  proof (cases "OpCode a")
    case NoCode
    with code show ?thesis by simp
  next
    case Plus
    then have Nil: "ys = []" using assms(5) by simp
    from Plus assms(3) obtain x b o' where x: "spans n a x" "iter_rest bi1 = x @ b" "o1 = x @ o'" "runs n xs b t o' b1' t1"
      by (auto simp: runs_Cons_code)
    from iter_split(2)[OF assms(1) x(2), of "Chars a"] x(1) obtain bi1' where
      tk: "Take bi1 (Chars a) = Inr (x, bi1')" "iter_ok bi1'" "iter_rest bi1' = b" by (auto simp: spans_def)
    have cb: "compose_callback (head_op (a # xs)) (head_op ys) (bi1, bi2, ba, Some p) =
        Inr ((a, a\<lparr>OpCode := NoCode\<rparr>, head_op ys), (bi1', bi2, SA_Append x ba, Some p))"
      using sz tk(1) Plus Nil by (simp add: compose_callback_def)
    have "runs n (out_list a) x t x [] t" using Plus x(1) runs.runs_Plus[of a n x "[]" "[]" t "[]" "[]" t] by (simp add: out_list_def)
    moreover have "zipping n xs ys b (iter_rest bi2) t (o' @ t1)"
      using x(4) Nil by (intro zippingI[where ob = "[]" and m = "o' @ t1"]) simp_all
    moreover have "o2 @ m = x @ (o' @ t1)" using assms(4) Nil x(3) by simp
    ultimately show ?thesis
      by (intro compose_stepI[OF cb]) (use tk(2,3) assms(2,6) pb Plus in \<open>simp_all add: out_list_def\<close>)
  next
    case Minus
    then obtain x t' where x: "spans n a x" "t = x @ t'" "runs n xs (iter_rest bi1) t' o1 b1' t1"
      using assms(3) by (auto simp: runs_Cons_code)
    have cb: "compose_callback (head_op (a # xs)) (head_op ys) (bi1, bi2, ba, Some p) =
        Inr ((a, a\<lparr>OpCode := NoCode\<rparr>, head_op ys), (bi1, bi2, ba, Some p))"
      using sz Minus by (simp add: compose_callback_def)
    have "runs n (out_list a) [] t [] [] t'"
      using Minus x(1,2) runs.runs_Minus[of a n x "[]" "[]" t' "[]" "[]" t'] by (simp add: out_list_def)
    moreover have "zipping n xs ys (iter_rest bi1) (iter_rest bi2) t' (o2 @ m)"
      using x(3) assms(4) by (intro zippingI) simp_all
    ultimately show ?thesis
      by (intro compose_stepI[OF cb, where w = "[]" and t' = t']) (use assms(1,2,6) pb Minus in \<open>simp_all add: out_list_def\<close>)
  next
    case Keep
    then have Nil: "ys = []" using assms(5) by simp
    from Keep assms(3) obtain x t' o' where x: "spans n a x" "t = x @ t'" "o1 = x @ o'" "runs n xs (iter_rest bi1) t' o' b1' t1"
      by (auto simp: runs_Cons_code)
    have cb: "compose_callback (head_op (a # xs)) (head_op ys) (bi1, bi2, ba, Some p) =
        Inr ((a, a\<lparr>OpCode := NoCode\<rparr>, head_op ys), (bi1, bi2, ba, Some p))"
      using sz Keep by (simp add: compose_callback_def)
    have "runs n (out_list a) [] t x [] t'"
      using Keep x(1,2) runs.runs_Keep[of a n x "[]" "[]" t' "[]" "[]" t'] by (simp add: out_list_def)
    moreover have "zipping n xs ys (iter_rest bi1) (iter_rest bi2) t' (o' @ t1)"
      using x(4) Nil by (intro zippingI[where ob = "[]" and m = "o' @ t1"]) simp_all
    moreover have "o2 @ m = x @ (o' @ t1)" using assms(4) Nil x(3) by simp
    ultimately show ?thesis
      by (intro compose_stepI[OF cb]) (use assms(1,2,6) pb Keep in \<open>simp_all add: out_list_def\<close>)
  qed
qed

lemma copied_second:
  assumes "iter_ok bi1" "iter_ok bi2" "runs n xs (iter_rest bi1) t o1 b1' t1" "runs n (c # ys) (iter_rest bi2) (o1 @ t1) o2 b2' m"
    and "xs = [] \<or> OpCode c = Plus \<and> OpCode (head_op xs) \<noteq> Minus" "attribs_wf (Attribs c)"
  shows "compose_step n p xs (c # ys) bi1 bi2 ba t (o2 @ m)"
proof -
  have code: "OpCode c \<noteq> NoCode" using assms(4) by (auto simp: runs_Cons_code)
  have xs: "coded xs" using runs_ops_nonneg[OF assms(3)] by (auto simp: coded_def list_all_iff)
  have sz: "SlicerZipperFunc (head_op xs) c (Some p) = Inr ((c, head_op xs, c\<lparr>OpCode := NoCode\<rparr>), Some p)"
    using code assms(5) xs by (cases xs) (auto simp: SlicerZipperFunc_def)
  have pb: "put_back (c\<lparr>OpCode := NoCode\<rparr>) (c # ys) = ys" "put_back (head_op xs) xs = xs"
    using xs by (cases xs; simp)+
  show ?thesis
  proof (cases "OpCode c")
    case NoCode
    with code show ?thesis by simp
  next
    case Plus
    from Plus assms(4) obtain y b o' where y: "spans n c y" "iter_rest bi2 = y @ b" "o2 = y @ o'" "runs n ys b (o1 @ t1) o' b2' m"
      by (auto simp: runs_Cons_code)
    from iter_split(2)[OF assms(2) y(2), of "Chars c"] y(1) obtain bi2' where
      tk: "Take bi2 (Chars c) = Inr (y, bi2')" "iter_ok bi2'" "iter_rest bi2' = b" by (auto simp: spans_def)
    have cb: "compose_callback (head_op xs) (head_op (c # ys)) (bi1, bi2, ba, Some p) =
        Inr ((c, head_op xs, c\<lparr>OpCode := NoCode\<rparr>), (bi1, bi2', SA_Append y ba, Some p))"
      using sz tk(1) Plus by (simp add: compose_callback_def)
    have "runs n (out_list c) y t y [] t" using Plus y(1) runs.runs_Plus[of c n y "[]" "[]" t "[]" "[]" t] by (simp add: out_list_def)
    moreover have "zipping n xs ys (iter_rest bi1) b t (o' @ m)"
      using assms(3) y(4) by (intro zippingI) simp_all
    ultimately show ?thesis
      by (intro compose_stepI[OF cb, where w = y and t' = t and r' = "o' @ m"])
        (use tk(2,3) assms(1,6) pb y(3) Plus in \<open>simp_all add: out_list_def\<close>)
  next
    case Minus
    then have Nil: "o1 = []" "t1 = t" "xs = []" using assms(3,5) by auto
    from Minus assms(4) obtain y t' where y: "spans n c y" "t = y @ t'" "runs n ys (iter_rest bi2) t' o2 b2' m"
      unfolding Nil by (auto simp: runs_Cons_code)
    have cb: "compose_callback (head_op xs) (head_op (c # ys)) (bi1, bi2, ba, Some p) =
        Inr ((c, head_op xs, c\<lparr>OpCode := NoCode\<rparr>), (bi1, bi2, ba, Some p))"
      using sz Minus Nil by (simp add: compose_callback_def)
    have "runs n (out_list c) [] t [] [] t'"
      using Minus y(1,2) runs.runs_Minus[of c n y "[]" "[]" t' "[]" "[]" t'] by (simp add: out_list_def)
    moreover have "zipping n xs ys (iter_rest bi1) (iter_rest bi2) t' (o2 @ m)"
      using y(3) Nil by (intro zippingI[where oa = "[]" and ta = t']) simp_all
    ultimately show ?thesis
      by (intro compose_stepI[OF cb, where w = "[]" and t' = t' and r' = "o2 @ m"])
        (use assms(1,2,6) pb Minus in \<open>simp_all add: out_list_def\<close>)
  next
    case Keep
    then have Nil: "o1 = []" "t1 = t" "xs = []" using assms(3,5) by auto
    from Keep assms(4) obtain y t' o' where y: "spans n c y" "t = y @ t'" "o2 = y @ o'" "runs n ys (iter_rest bi2) t' o' b2' m"
      unfolding Nil by (auto simp: runs_Cons_code)
    have cb: "compose_callback (head_op xs) (head_op (c # ys)) (bi1, bi2, ba, Some p) =
        Inr ((c, head_op xs, c\<lparr>OpCode := NoCode\<rparr>), (bi1, bi2, ba, Some p))"
      using sz Keep Nil by (simp add: compose_callback_def)
    have "runs n (out_list c) [] t y [] t'"
      using Keep y(1,2) runs.runs_Keep[of c n y "[]" "[]" t' "[]" "[]" t'] by (simp add: out_list_def)
    moreover have "zipping n xs ys (iter_rest bi1) (iter_rest bi2) t' (o' @ m)"
      using y(4) Nil by (intro zippingI[where oa = "[]" and ta = t']) simp_all
    ultimately show ?thesis
      by (intro compose_stepI[OF cb, where w = y and t' = t' and r' = "o' @ m"])
        (use assms(1,2,6) pb y(3) Keep in \<open>simp_all add: out_list_def\<close>)
  qed
qed

text \<open>The general case: a piece of the intermediate text that both operations cover.\<close>

lemma runs_source:
  assumes "runs n (a # xs) b t out b' t1" "OpCode a \<in> {Plus, Keep}"
  obtains x b1 t' o' where "spans n a x" "out = x @ o'" "runs n xs b1 t' o' b' t1"
    "if OpCode a = Plus then b = x @ b1 \<and> t' = t else b = b1 \<and> t = x @ t'"
  using assms by (cases "OpCode a") (auto simp: runs_Cons_code)

lemma runs_target:
  assumes "runs n (c # ys) b t out b' m" "OpCode c \<in> {Minus, Keep}"
  obtains y t' o' where "spans n c y" "t = y @ t'" "runs n ys b t' o' b' m" "out = (if OpCode c = Keep then y else []) @ o'"
  using assms by (cases "OpCode c") (auto simp: runs_Cons_code)

lemma compose_callback_pieces:
  assumes codes: "OpCode a \<in> {Plus, Keep}" "OpCode c \<in> {Minus, Keep}"
    and sz: "SlicerZipperFunc a c pool = Inr ((out, op1, op2), pool')"
    and out: "OpCode out = slice_code (OpCode a) (OpCode c)" "Chars out = RuneCount u"
    and u: "min (Chars a) (Chars c) = RuneCount u" "OpCode a = Plus \<longrightarrow> iter_rest bi1 = u @ rest" and ok: "iter_ok bi1"
  shows "\<exists>bi1' ba'. compose_callback a c (bi1, bi2, ba, pool) = Inr ((out, op1, op2), (bi1', bi2, ba', pool')) \<and>
    iter_ok bi1' \<and> iter_rest bi1' = (if OpCode a = Plus then rest else iter_rest bi1) \<and>
    sa_str ba' = sa_str ba @ (if OpCode a = Plus \<and> OpCode c = Keep then u else [])"
proof (cases "OpCode a = Plus")
  case True
  with u have r: "iter_rest bi1 = u @ rest" by simp
  from iter_split(2,3)[OF ok r refl] obtain b1 b2 where "Take bi1 (RuneCount u) = Inr (u, b1)" "iter_ok b1" "iter_rest b1 = rest"
    "Skip bi1 (RuneCount u) = Inr b2" "iter_ok b2" "iter_rest b2 = rest" by auto
  then show ?thesis using True codes(2) sz out u by (auto simp: compose_callback_def slice_code_def)
next
  case False
  then show ?thesis using codes sz out ok by (auto simp: compose_callback_def slice_code_def)
qed

lemma append_prefix_cases:
  assumes "x @ s = y @ t"
  obtains (first) v where "y = x @ v" "s = v @ t" "RuneCount x \<le> RuneCount y"
    | (second) v where "x = y @ v" "t = v @ s" "v \<noteq> []" "\<not> RuneCount x \<le> RuneCount y"
proof (cases "length x \<le> length y")
  case True
  with assms obtain v where "y = x @ v" by (metis append_eq_append_conv_if append_take_drop_id)
  with assms first[of v] show ?thesis by simp
next
  case False
  with assms obtain v where v: "x = y @ v" by (metis append_eq_append_conv_if append_take_drop_id nle_le)
  with False have "v \<noteq> []" by auto
  moreover from this have "0 < RuneCount v" by (simp add: RuneCount_def)
  ultimately show ?thesis using assms v second[of v] by simp
qed

text \<open>The output of the general case does to the old text what both operations do to the piece.\<close>

lemma runs_out:
  assumes codes: "OpCode a \<in> {Plus, Keep}" "OpCode c \<in> {Minus, Keep}"
    and sp: "spans n full u" and t: "if OpCode a = Plus then t' = t else t = u @ t'"
    and out: "OpCode out = slice_code (OpCode a) (OpCode c)" "Chars out = Chars full" "Lines out = Lines full"
  shows "runs n (out_list out) (if OpCode a = Plus \<and> OpCode c = Keep then u else []) t
    (if OpCode c = Keep then u else []) [] t'"
proof -
  have sp': "spans n out u" using sp out by (simp add: spans_def)
  consider (ins) "OpCode a = Plus" "OpCode c = Keep" | (gone) "OpCode a = Plus" "OpCode c = Minus"
    | (keep) "OpCode a = Keep" "OpCode c = Keep" | (del) "OpCode a = Keep" "OpCode c = Minus"
    using codes by auto
  then show ?thesis
  proof cases
    case ins
    then have "OpCode out = Plus" using out(1) by (simp add: slice_code_def)
    then show ?thesis using ins t runs.runs_Plus[OF _ sp' runs_Nil, of "[]" t] by (simp add: out_list_def)
  next
    case gone
    then show ?thesis using out(1) t by (simp add: slice_code_def out_list_def)
  next
    case keep
    then have "OpCode out = Keep" using out(1) by (simp add: slice_code_def)
    then show ?thesis using keep t runs.runs_Keep[OF _ sp' runs_Nil, of "[]" t'] by (simp add: out_list_def)
  next
    case del
    then have "OpCode out = Minus" using out(1) by (simp add: slice_code_def)
    then show ?thesis using del t runs.runs_Minus[OF _ sp' runs_Nil, of "[]" t'] by (simp add: out_list_def)
  qed
qed

lemma total_put_back:
  "OpCode a \<noteq> NoCode \<Longrightarrow> total (put_back (cut_op a k l) (a # xs)) = Chars a - k + total xs"
  "total (put_back (a\<lparr>OpCode := NoCode\<rparr>) (a # xs)) = total xs"
  by simp_all

lemma total_out_list: "0 \<le> Chars out \<Longrightarrow> total (out_list out) \<le> Chars out"
  by (simp add: out_list_def)

lemma general_step:
  assumes p: "pool_wf p" and ok: "iter_ok bi1" "iter_ok bi2" and wf: "attribs_wf (Attribs a)" "attribs_wf (Attribs c)"
    and codes: "OpCode a \<in> {Plus, Keep}" "OpCode c \<in> {Minus, Keep}"
    and run: "runs n (a # xs) (iter_rest bi1) t o1 b1' t1" "runs n (c # ys) (iter_rest bi2) (o1 @ t1) o2 b2' m"
  shows "compose_step n p (a # xs) (c # ys) bi1 bi2 ba t (o2 @ m)"
proof -
  from runs_source[OF run(1) codes(1)] obtain x b tr o' where
    x: "spans n a x" "o1 = x @ o'" "runs n xs b tr o' b1' t1"
    "if OpCode a = Plus then iter_rest bi1 = x @ b \<and> tr = t else iter_rest bi1 = b \<and> t = x @ tr" .
  from runs_target[OF run(2) codes(2)] obtain y mid o2' where
    y: "spans n c y" "o1 @ t1 = y @ mid" "runs n ys (iter_rest bi2) mid o2' b2' m"
    "o2 = (if OpCode c = Keep then y else []) @ o2'" .
  have chars: "Chars a = RuneCount x" "Chars c = RuneCount y" "Lines a = CountLines x newline" "Lines c = CountLines y newline"
    using x(1) y(1) by (simp_all add: spans_def)
  from y(2) x(2) have mid: "x @ (o' @ t1) = y @ mid" by simp
  then show ?thesis
  proof (cases rule: append_prefix_cases)
    case (first v)
    from slicer_pieces[OF codes p x(1) y(1) wf, of True] first(1,3) obtain attribs where
      at: "attribs_wf attribs" and sz: "SlicerZipperFunc a c (Some p) =
        Inr ((\<lparr>OpCode = slice_code (OpCode a) (OpCode c), Chars = Chars a, Lines = Lines a, Attribs = attribs\<rparr>,
              a\<lparr>OpCode := NoCode\<rparr>, cut_op c (Chars a) (Lines a)), Some p)"
      by (auto simp: consume_cut)
    let ?out = "\<lparr>OpCode = slice_code (OpCode a) (OpCode c), Chars = Chars a, Lines = Lines a, Attribs = attribs\<rparr>"
    have src: "OpCode a = Plus \<longrightarrow> iter_rest bi1 = x @ b" using x(4) by auto
    have "min (Chars a) (Chars c) = RuneCount x" using first(3) by (simp add: chars)
    from compose_callback_pieces[OF codes sz _ _ this src ok(1), of bi2 ba] chars obtain bi1' ba' where
      cb: "compose_callback (head_op (a # xs)) (head_op (c # ys)) (bi1, bi2, ba, Some p) =
        Inr ((?out, a\<lparr>OpCode := NoCode\<rparr>, cut_op c (Chars a) (Lines a)), (bi1', bi2, ba', Some p))"
      and bi: "iter_ok bi1'" "iter_rest bi1' = (if OpCode a = Plus then b else iter_rest bi1)"
      "sa_str ba' = sa_str ba @ (if OpCode a = Plus \<and> OpCode c = Keep then x else [])" by auto
    have b: "iter_rest bi1' = b" using bi(2) x(4) by auto
    have out: "runs n (out_list ?out) (if OpCode a = Plus \<and> OpCode c = Keep then x else []) t
        (if OpCode c = Keep then x else []) [] tr"
      using x(4) by (intro runs_out[OF codes x(1)]) auto
    have c: "spans n c (x @ v)" using y(1) first(1) by simp
    have zip: "zipping n xs (put_back (cut_op c (Chars a) (Lines a)) (c # ys)) b (iter_rest bi2) tr
        ((if OpCode c = Keep then v else []) @ o2' @ m)"
      using x(3) runs_cut(2,3)[OF c y(3)] codes(2) first(2)
      by (intro zippingI[where oa = o' and ta = t1 and ob = "(if OpCode c = Keep then v else []) @ o2'"]) (auto simp: chars)
    have zip': "zipping n (put_back (a\<lparr>OpCode := NoCode\<rparr>) (a # xs)) (put_back (cut_op c (Chars a) (Lines a)) (c # ys))
        (iter_rest bi1') (iter_rest bi2) tr ((if OpCode c = Keep then v else []) @ o2' @ m)"
      using zip b by simp
    have r: "o2 @ m = (if OpCode c = Keep then x else []) @ (if OpCode c = Keep then v else []) @ o2' @ m"
      using y(4) first(1) by simp
    have "total (out_list ?out) \<le> Chars a" using total_out_list[of ?out] RuneCount_nonneg[of x] by (simp add: chars)
    moreover have "OpCode c \<noteq> NoCode" using codes(2) by auto
    moreover have "0 \<le> Chars a" by (simp add: chars)
    ultimately have tot: "total (out_list ?out) + total (put_back (a\<lparr>OpCode := NoCode\<rparr>) (a # xs)) +
        total (put_back (cut_op c (Chars a) (Lines a)) (c # ys)) \<le> total (a # xs) + total (c # ys)"
      using total_put_back(1)[of c "Chars a" "Lines a" ys] unfolding total_put_back(2) total_simps by linarith
    show ?thesis
      using compose_stepI[OF cb out zip' r bi(1) ok(2) bi(3) _ _ _ tot] at(1) by simp
  next
    case (second v)
    from slicer_pieces[OF codes p x(1) y(1) wf, of False] second(1,4) obtain attribs where
      at: "attribs_wf attribs" and sz: "SlicerZipperFunc a c (Some p) =
        Inr ((\<lparr>OpCode = slice_code (OpCode a) (OpCode c), Chars = Chars c, Lines = Lines c, Attribs = attribs\<rparr>,
              cut_op a (Chars c) (Lines c), c\<lparr>OpCode := NoCode\<rparr>), Some p)"
      by (auto simp: consume_cut)
    let ?out = "\<lparr>OpCode = slice_code (OpCode a) (OpCode c), Chars = Chars c, Lines = Lines c, Attribs = attribs\<rparr>"
    have src: "OpCode a = Plus \<longrightarrow> iter_rest bi1 = y @ (v @ b)" using x(4) second(1) by auto
    have "min (Chars a) (Chars c) = RuneCount y" using second(4) by (simp add: chars)
    from compose_callback_pieces[OF codes sz _ _ this src ok(1), of bi2 ba] chars obtain bi1' ba' where
      cb: "compose_callback (head_op (a # xs)) (head_op (c # ys)) (bi1, bi2, ba, Some p) =
        Inr ((?out, cut_op a (Chars c) (Lines c), c\<lparr>OpCode := NoCode\<rparr>), (bi1', bi2, ba', Some p))"
      and bi: "iter_ok bi1'" "iter_rest bi1' = (if OpCode a = Plus then v @ b else iter_rest bi1)"
      "sa_str ba' = sa_str ba @ (if OpCode a = Plus \<and> OpCode c = Keep then y else [])" by auto
    let ?t = "if OpCode a = Plus then t else v @ tr"
    have out: "runs n (out_list ?out) (if OpCode a = Plus \<and> OpCode c = Keep then y else []) t
        (if OpCode c = Keep then y else []) [] ?t"
      using x(4) second(1) by (intro runs_out[OF codes y(1)]) auto
    have a: "spans n a (y @ v)" using x(1) second(1) by simp
    have zip: "zipping n (put_back (cut_op a (Chars c) (Lines c)) (a # xs)) ys (iter_rest bi1') (iter_rest bi2) ?t (o2' @ m)"
    proof (rule zippingI)
      show "runs n (put_back (cut_op a (Chars c) (Lines c)) (a # xs)) (iter_rest bi1') ?t (v @ o') b1' t1"
      proof (cases "OpCode a = Plus")
        case True
        with runs_cut(1)[OF a x(3)] x(4) bi(2) show ?thesis by (simp add: chars)
      next
        case False
        with codes(1) have "OpCode a = Keep" by simp
        with runs_cut(3)[OF a x(3)] x(4) bi(2) show ?thesis by (simp add: chars)
      qed
      show "runs n ys (iter_rest bi2) ((v @ o') @ t1) o2' b2' m" using y(3) second(2) by simp
    qed simp
    have zip': "zipping n (put_back (cut_op a (Chars c) (Lines c)) (a # xs)) (put_back (c\<lparr>OpCode := NoCode\<rparr>) (c # ys))
        (iter_rest bi1') (iter_rest bi2) ?t (o2' @ m)"
      using zip by simp
    have r: "o2 @ m = (if OpCode c = Keep then y else []) @ o2' @ m" using y(4) by simp
    have "total (out_list ?out) \<le> Chars c" using total_out_list[of ?out] RuneCount_nonneg[of y] by (simp add: chars)
    moreover have "OpCode a \<noteq> NoCode" using codes(1) by auto
    moreover have "0 \<le> Chars c" by (simp add: chars)
    ultimately have tot: "total (out_list ?out) + total (put_back (cut_op a (Chars c) (Lines c)) (a # xs)) +
        total (put_back (c\<lparr>OpCode := NoCode\<rparr>) (c # ys)) \<le> total (a # xs) + total (c # ys)"
      using total_put_back(1)[of a "Chars c" "Lines c" xs] unfolding total_put_back(2) total_simps by linarith
    show ?thesis
      using compose_stepI[OF cb out zip' r bi(1) ok(2) bi(3) _ _ _ tot] at(1) by simp
  qed
qed

subsection \<open>The loop and the whole function\<close>

definition wf_attribs :: "Op list \<Rightarrow> bool" where
  "wf_attribs ops \<longleftrightarrow> list_all (\<lambda>op'. attribs_wf (Attribs op')) ops"

lemma wf_attribs_simps [simp]:
  "wf_attribs []" "wf_attribs (x # xs) \<longleftrightarrow> attribs_wf (Attribs x) \<and> wf_attribs xs"
  "wf_attribs (xs @ ys) \<longleftrightarrow> wf_attribs xs \<and> wf_attribs ys"
  by (simp_all add: wf_attribs_def)

lemma wf_put_back: "wf_attribs xs \<Longrightarrow> Attribs op' = Attribs (head_op xs) \<Longrightarrow> wf_attribs (put_back op' xs)"
  by (cases xs) simp_all

lemma runs_coded: "runs n xs b t out b' t' \<Longrightarrow> coded xs"
  using runs_ops_nonneg by (fastforce simp: coded_def list_all_iff)

lemma compose_steps:
  assumes p: "pool_wf p" and z: "zipping n xs ys (iter_rest bi1) (iter_rest bi2) t r" and ok: "iter_ok bi1" "iter_ok bi2"
    and wf: "wf_attribs xs" "wf_attribs ys" and ne: "xs \<noteq> [] \<or> ys \<noteq> []"
  shows "compose_step n p xs ys bi1 bi2 ba t r"
proof -
  from z obtain o1 b1' t1 o2 b2' m where
    run: "runs n xs (iter_rest bi1) t o1 b1' t1" "runs n ys (iter_rest bi2) (o1 @ t1) o2 b2' m" and r: "r = o2 @ m"
    unfolding zipping_def by blast
  note coded = runs_coded[OF run(1)] runs_coded[OF run(2)]
  show ?thesis
  proof (cases xs)
    case Nil
    then obtain c ys' where "ys = c # ys'" using ne by (cases ys) auto
    then show ?thesis using copied_second[of bi1 bi2 n xs t o1 b1' t1 c ys' o2 b2' m p ba] ok run wf r Nil by simp
  next
    case (Cons a xs')
    note xs = this
    show ?thesis
    proof (cases ys)
      case Nil
      then show ?thesis using copied_first[of bi1 bi2 n a xs' t o1 b1' t1 ys o2 b2' m p ba] ok run wf r xs by simp
    next
      case (Cons c ys')
      consider "OpCode a = Minus" | "OpCode a \<noteq> Minus" "OpCode c = Plus"
        | (gen) "OpCode a \<in> {Plus, Keep}" "OpCode c \<in> {Minus, Keep}"
        using coded xs Cons by (cases "OpCode a"; cases "OpCode c") auto
      then show ?thesis
      proof cases
        case 1
        then show ?thesis using copied_first[of bi1 bi2 n a xs' t o1 b1' t1 ys o2 b2' m p ba] ok run wf r xs by simp
      next
        case 2
        then show ?thesis
          using copied_second[of bi1 bi2 n xs t o1 b1' t1 c ys' o2 b2' m p ba] ok run wf r xs Cons by simp
      next
        case gen
        then show ?thesis
          using general_step[OF p ok _ _ gen, of n xs' t o1 b1' t1 ys' o2 b2' m ba] run wf r xs Cons by simp
      qed
    qed
  qed
qed

lemma compose_run:
  "pool_wf p \<Longrightarrow> zipping n xs ys (iter_rest bi1) (iter_rest bi2) t r \<Longrightarrow> iter_ok bi1 \<Longrightarrow> iter_ok bi2 \<Longrightarrow>
   wf_attribs xs \<Longrightarrow> wf_attribs ys \<Longrightarrow>
   \<exists>outs bi1' bi2' ba' B w t'. zip_runs compose_callback xs ys (bi1, bi2, ba, Some p) outs (bi1', bi2', ba', Some p) \<and>
     sa_str ba' = sa_str ba @ B \<and> runs n outs B t w [] t' \<and> r = w @ t' \<and> wf_attribs outs \<and> total outs \<le> total xs + total ys"
proof (induction "length xs + length ys" arbitrary: xs ys bi1 bi2 ba t r rule: less_induct)
  case less
  show ?case
  proof (cases "xs = [] \<and> ys = []")
    case True
    then have "r = t" using less.prems(2) by (simp add: zipping_def)
    with True show ?thesis
      by (intro exI[of _ "[]"] exI[of _ bi1] exI[of _ bi2] exI[of _ ba] exI[of _ t]) (simp add: zip_runs.zip_done)
  next
    case False
    have coded: "coded xs" "coded ys" using less.prems(2) by (auto simp: zipping_def dest: runs_coded)
    from compose_steps[OF less.prems(1-6), of ba] False obtain out op1 op2 bi1' bi2' ba' B w t' r' where
      cb: "compose_callback (head_op xs) (head_op ys) (bi1, bi2, ba, Some p) = Inr ((out, op1, op2), (bi1', bi2', ba', Some p))"
      and ok: "iter_ok bi1'" "iter_ok bi2'" and ba: "sa_str ba' = sa_str ba @ B" and out: "runs n (out_list out) B t w [] t'"
      and r: "r = w @ r'" and z: "zipping n (put_back op1 xs) (put_back op2 ys) (iter_rest bi1') (iter_rest bi2') t' r'"
      and wf: "attribs_wf (Attribs out)" "Attribs op1 = Attribs (head_op xs)" "Attribs op2 = Attribs (head_op ys)"
      and tot: "total (out_list out) + total (put_back op1 xs) + total (put_back op2 ys) \<le> total xs + total ys"
      unfolding compose_step_def by auto
    have "length (put_back op1 xs) + length (put_back op2 ys) < length xs + length ys"
      using compose_zip.step_shorter[OF cb] False coded by blast
    from less.hyps[OF this less.prems(1) z ok wf_put_back[OF less.prems(5) wf(2)] wf_put_back[OF less.prems(6) wf(3)], of ba']
    obtain outs b1 b2 ba2 B' w' t2 where
      ih: "zip_runs compose_callback (put_back op1 xs) (put_back op2 ys) (bi1', bi2', ba', Some p) outs (b1, b2, ba2, Some p)"
      "sa_str ba2 = sa_str ba' @ B'" "runs n outs B' t' w' [] t2" "r' = w' @ t2" "wf_attribs outs"
      "total outs \<le> total (put_back op1 xs) + total (put_back op2 ys)" by blast
    let ?outs = "if OpCode out \<noteq> NoCode then out # outs else outs"
    have outs: "?outs = out_list out @ outs" by (simp add: out_list_def)
    have "zip_runs compose_callback xs ys (bi1, bi2, ba, Some p) ?outs (b1, b2, ba2, Some p)"
      using False cb ih(1) by (intro zip_runs.zip_step) auto
    moreover have "runs n ?outs (B @ B') t (w @ w') [] t2"
      unfolding outs using runs_appendI[OF runs_bank_frame[OF out, of B']] ih(3) by simp
    moreover have "wf_attribs ?outs" using wf(1) ih(5) by simp
    moreover have "total ?outs \<le> total xs + total ys" unfolding outs using ih(6) tot by simp
    moreover have "sa_str ba2 = sa_str ba @ (B @ B')" "r = (w @ w') @ t2" using ba ih(2,4) r by simp_all
    ultimately show ?thesis by blast
  qed
qed

text \<open>Operations the parser returned have well-formed attribute strings.\<close>

lemma parsed_attribs: "DeserializeOps s = Inr ops \<Longrightarrow> wf_attribs ops"
  using DeserializeOps_wf by (fastforce simp: wf_attribs_def op_wf_def list_all_iff)

lemma Compose_applies:
  assumes p: "pool_wf p"
    and u: "Unpack cs1 = Inr u1" "Unpack cs2 = Inr u2" "NewLen u1 = OldLen u2"
    and ops: "DeserializeOps (Ops u1) = Inr ops1" "DeserializeOps (Ops u2) = Inr ops2"
    and size: "total ops1 + total ops2 < 2 ^ 63" "\<bar>NewLen u2 - OldLen u1\<bar> < 2 ^ 63"
    and app: "applies n ops1 (CharBank u1) b1' t mid" "applies n ops2 (CharBank u2) b2' mid r"
    and len: "RuneCount t = OldLen u1"
  shows "\<exists>outs B. Compose cs1 cs2 (Some p) = Some (Inr (Pack (OldLen u1) (NewLen u2) (smart_string outs) B, Some p)) \<and>
    ops_plain outs \<and> applies n outs B [] t r \<and>
    ApplyToText (Pack (OldLen u1) (NewLen u2) (smart_string outs) B) t = Inr r"
proof -
  let ?i1 = "NewStringIterator (CharBank u1)" and ?i2 = "NewStringIterator (CharBank u2)"
  from app obtain o1 t1 o2 m where run: "runs n ops1 (CharBank u1) t o1 b1' t1" "mid = o1 @ t1"
    "runs n ops2 (CharBank u2) mid o2 b2' m" "r = o2 @ m" by (auto simp: applies_def)
  then have z: "zipping n ops1 ops2 (iter_rest ?i1) (iter_rest ?i2) t r"
    by (auto intro: zippingI)
  from compose_run[OF p z iter_new(1) iter_new(1) parsed_attribs[OF ops(1)] parsed_attribs[OF ops(2)], of NewStringAssembler]
  obtain outs i1 i2 ba B w t' where
    zr: "zip_runs compose_callback ops1 ops2 (?i1, ?i2, NewStringAssembler, Some p) outs (i1, i2, ba, Some p)"
    and ba: "sa_str ba = B" and out: "runs n outs B t w [] t'" "r = w @ t'" "wf_attribs outs" "total outs \<le> total ops1 + total ops2"
    by (auto simp: NewStringAssembler_def)
  have cs: "Compose cs1 cs2 (Some p) = Some (Inr (Pack (OldLen u1) (NewLen u2) (smart_string outs) B, Some p))"
    using ApplyZip_runs[OF ops zr] u ba by (simp add: Compose_def Let_def SA_String_def)
  have plain: "ops_plain outs"
    using runs_plain[OF out(1)] out(3,4) size(1) by (simp add: ops_plain_def wf_attribs_def)
  have app': "applies n outs B [] t r" using out(1,2) by (auto simp: applies_def)
  have "ApplyToText (Pack (OldLen u1) (NewLen u2) (smart_string outs) B) t = Inr r"
    by (rule smart_end.apply_packed[OF plain OldLen_nonneg[OF u(1)] size(2) len app'])
  with cs plain app' show ?thesis by blast
qed

lemma applied_total:
  "runs n ops b t out b' t' \<Longrightarrow> total ops = old_chars ops + bank_chars ops"
  by (induction rule: runs.induct) auto

lemma applies_total:
  assumes "applies n ops b b' t r" shows "total ops \<le> RuneCount t + RuneCount b"
proof -
  from assms obtain out rest where r: "runs n ops b t out b' rest" by (auto simp: applies_def)
  from runs_lengths[OF r] applied_total[OF r] RuneCount_nonneg[of b'] RuneCount_nonneg[of rest] show ?thesis by linarith
qed

end
