(* ===== verification/ChangesetProperties.thy ===== *)
theory ChangesetProperties
  imports TextLinesSpec AttributionLines ComposeSpec
begin

text \<open>
  The properties of the changeset library, each with a witness at concrete documents.
  Then the properties of the line editor and of the functions built on it.
\<close>

section \<open>Changesets\<close>



text \<open>
  C4. \<open>ApplyToText\<close> succeeds with a result exactly when the text has the declared length and
  the parsed operations, taking their insertions from the bank, turn it into that result,
  every operation spanning as many characters and newlines as it declares.
\<close>

theorem ApplyToText_effect:
  assumes "Unpack cs = Inr u" "DeserializeOps (Ops u) = Inr ops"
  shows "ApplyToText cs doc = Inr r \<longleftrightarrow>
    RuneCount doc = OldLen u \<and> (\<exists>bank'. applies False ops (CharBank u) bank' doc r)"
  by (rule ApplyToText_applies[OF assms])

lemma ApplyToText_effect_witness:
  "\<exists>bank'. applies False [\<lparr>OpCode = Plus, Chars = 1, Lines = 0, Attribs = []\<rparr>] (lit ''c'') bank' (lit ''ab'') (lit ''cab'')"
proof -
  have 1: "Unpack (lit ''Z:2>1+1$c'') = Inr \<lparr>OldLen = 2, NewLen = 3, Ops = lit ''+1'', CharBank = lit ''c''\<rparr>"
    and 2: "DeserializeOps (Ops \<lparr>OldLen = 2, NewLen = 3, Ops = lit ''+1'', CharBank = lit ''c''\<rparr>) =
      Inr [\<lparr>OpCode = Plus, Chars = 1, Lines = 0, Attribs = []\<rparr>]"
    and 3: "ApplyToText (lit ''Z:2>1+1$c'') (lit ''ab'') = Inr (lit ''cab'')" by code_simp+
  from ApplyToText_effect[OF 1 2, of "lit ''ab''" "lit ''cab''"] 3 show ?thesis by simp
qed

text \<open>
  C20. \<open>MakeSplice\<close> never fails on a non-negative range, and the changeset it makes replaces
  the range (clipped to the text) by the inserted text and passes \<open>CheckRep\<close>.
\<close>

theorem MakeSplice_splices:
  assumes "0 \<le> start" "0 \<le> ndel" "RuneCount orig + RuneCount ins < 2 ^ 63"
    and "attribs_wf (case attribs of None \<Rightarrow> [] | Some a \<Rightarrow> a)"
  shows "\<exists>cs. MakeSplice orig start ndel ins attribs pool = Inr cs \<and> CheckRep cs = Inr cs \<and>
    ApplyToText cs orig = Inr (take (nat start) orig @ ins @ drop (nat start + nat ndel) orig)"
proof -
  from MakeSplice_applies[OF assms] obtain cs where
    cs: "MakeSplice orig start ndel ins attribs pool = Inr cs"
    "ApplyToText cs orig = Inr (take (nat start) orig @ ins @ drop (nat start + nat ndel) orig)" by blast
  from MakeSplice_CheckRep[OF assms cs(1)] cs show ?thesis by blast
qed

lemma MakeSplice_splices_witness:
  "\<exists>cs. MakeSplice (lit ''abcd'') 1 2 (lit ''xyz'') (Some (lit ''*0'')) None = Inr cs \<and> CheckRep cs = Inr cs \<and>
     ApplyToText cs (lit ''abcd'') = Inr (lit ''axyzd'')"
proof -
  have "attribs_wf (lit ''*0'')" by code_simp
  then show ?thesis
    using MakeSplice_splices[of 1 2 "lit ''abcd''" "lit ''xyz''" "Some (lit ''*0'')" None] by (simp add: RuneCount_def numeral_2_eq_2)
qed

text \<open>
  C21. A \<open>Builder\<close> driven over a text by keeps, insertions and removals (with well-formed
  attribute strings) returns a changeset that makes exactly those edits and keeps the rest
  of the text; it passes \<open>CheckRep\<close> when the stretches given by their counts end with
  their last newline.
\<close>

theorem Builder_edits:
  assumes "list_all (\<lambda>e. attribs_wf (edit_attribs e)) es" "doc = concat (map edit_old es) @ rest"
    and "RuneCount doc + RuneCount (concat (map edit_bank es)) < 2 ^ 63"
  shows "\<exists>b. run_edits es (NewBuilder (RuneCount doc)) = Inr b \<and>
    ApplyToText (fst (Builder_ToString b)) doc = Inr (concat (map edit_new es) @ rest) \<and>
    (list_all edit_neat es \<longrightarrow> CheckRep (fst (Builder_ToString b)) = Inr (fst (Builder_ToString b)))"
  by (rule Builder_correct[OF assms])

lemma Builder_edits_witness:
  "\<exists>b. run_edits [EKeep (lit ''ab'') [], ERemove (lit ''c''), EInsert (lit ''xy'') (lit ''*0*1'')] (NewBuilder 4) = Inr b \<and>
     ApplyToText (fst (Builder_ToString b)) (lit ''abcd'') = Inr (lit ''abxyd'')"
proof -
  have "attribs_wf (lit ''*0*1'')" by code_simp
  then show ?thesis
    using Builder_edits[of "[EKeep (lit ''ab'') [], ERemove (lit ''c''), EInsert (lit ''xy'') (lit ''*0*1'')]"
        "lit ''abcd''" "lit ''d''"] by (auto simp: RuneCount_def simp del: run_edits.simps)
qed

text \<open>
  C16. What the smart assembler prints parses, and the parsed operations do to every text and
  bank what the appended ones did: its buffering, merging and reordering lose nothing.
\<close>

theorem SmartOpAssembler_effect:
  assumes "ops_plain ops"
  shows "\<exists>ops'. DeserializeOps (fst (SOA_String (fold SOA_Append ops NewSmartOpAssembler))) = Inr ops' \<and>
    (\<forall>n bank bank' doc r. applies n ops bank bank' doc r \<longrightarrow> applies n ops' bank bank' doc r)"
  using smart.parses[OF assms] smart.norm_applies by blast

lemma SmartOpAssembler_effect_witness:
  "\<exists>ops'. DeserializeOps (fst (SOA_String (fold SOA_Append
      [\<lparr>OpCode = Plus, Chars = 1, Lines = 0, Attribs = []\<rparr>, \<lparr>OpCode = Minus, Chars = 2, Lines = 1, Attribs = []\<rparr>]
      NewSmartOpAssembler))) = Inr ops' \<and>
    (\<forall>n bank bank' doc r.
      applies n [\<lparr>OpCode = Plus, Chars = 1, Lines = 0, Attribs = []\<rparr>, \<lparr>OpCode = Minus, Chars = 2, Lines = 1, Attribs = []\<rparr>]
        bank bank' doc r \<longrightarrow> applies n ops' bank bank' doc r)"
  by (rule SmartOpAssembler_effect) (simp add: ops_plain_def op_plain_def)

text \<open>
  C29. The form the smart assembler prints at the end of a document is canonical: parsing it and
  appending the result to a fresh assembler prints the same string again.
\<close>

theorem SmartOpAssembler_canonical:
  assumes "ops_plain ops" "DeserializeOps (smart_string ops) = Inr ops'"
  shows "smart_string ops' = smart_string ops"
proof -
  have "list_all op_plain ops" using assms(1) by (simp add: ops_plain_def)
  moreover have "ops' = smart_ops True ops" using smart_end.parses[OF assms(1)] assms(2) by simp
  ultimately show ?thesis by (simp add: SOA_EndDocument_ops smart_ops_idem)
qed

lemma SmartOpAssembler_canonical_witness:
  "smart_string [\<lparr>OpCode = Minus, Chars = 2, Lines = 0, Attribs = []\<rparr>] =
   smart_string [\<lparr>OpCode = Minus, Chars = 1, Lines = 0, Attribs = []\<rparr>, \<lparr>OpCode = Minus, Chars = 1, Lines = 0, Attribs = []\<rparr>,
     \<lparr>OpCode = Keep, Chars = 4, Lines = 0, Attribs = []\<rparr>]"
proof (rule SmartOpAssembler_canonical)
  show "ops_plain [\<lparr>OpCode = Minus, Chars = 1, Lines = 0, Attribs = []\<rparr>, \<lparr>OpCode = Minus, Chars = 1, Lines = 0, Attribs = []\<rparr>,
     \<lparr>OpCode = Keep, Chars = 4, Lines = 0, Attribs = []\<rparr>]" by (simp add: ops_plain_def op_plain_def)
  show "DeserializeOps (smart_string [\<lparr>OpCode = Minus, Chars = 1, Lines = 0, Attribs = []\<rparr>,
     \<lparr>OpCode = Minus, Chars = 1, Lines = 0, Attribs = []\<rparr>, \<lparr>OpCode = Keep, Chars = 4, Lines = 0, Attribs = []\<rparr>]) =
     Inr [\<lparr>OpCode = Minus, Chars = 2, Lines = 0, Attribs = []\<rparr>]" by code_simp
qed

text \<open>
  C17. What \<open>CheckRep\<close> accepts, it returns unchanged; its insertions use up the bank exactly, and
  every text it applies to has the declared old length and becomes one of the declared
  new length.
\<close>

theorem CheckRep_guarantees:
  assumes "CheckRep cs = Inr r" "Unpack cs = Inr u"
  shows "r = cs \<and> (\<exists>ops. DeserializeOps (Ops u) = Inr ops \<and> bank_chars ops = RuneCount (CharBank u)) \<and>
    (\<forall>doc res. ApplyToText cs doc = Inr res \<longrightarrow> RuneCount doc = OldLen u \<and> RuneCount res = NewLen u)"
proof -
  from CheckRep_sound[OF assms(1)] assms(2) obtain ops where
    ops: "r = cs" "DeserializeOps (Ops u) = Inr ops" "bank_chars ops = RuneCount (CharBank u)" by auto
  have "RuneCount doc = OldLen u \<and> RuneCount res = NewLen u" if "ApplyToText cs doc = Inr res" for doc res
    using that CheckRep_length[of cs doc res u] assms ops(1) ApplyToText_applies[OF assms(2) ops(2)] by simp
  with ops show ?thesis by blast
qed

lemma CheckRep_guarantees_witness:
  "ApplyToText (lit ''Z:2>1=1+1$b'') (lit ''ac'') = Inr (lit ''abc'') \<and> RuneCount (lit ''ac'') = 2 \<and> RuneCount (lit ''abc'') = 3"
proof -
  have "CheckRep (lit ''Z:2>1=1+1$b'') = Inr (lit ''Z:2>1=1+1$b'')"
    "Unpack (lit ''Z:2>1=1+1$b'') = Inr \<lparr>OldLen = 2, NewLen = 3, Ops = lit ''=1+1'', CharBank = lit ''b''\<rparr>"
    "ApplyToText (lit ''Z:2>1=1+1$b'') (lit ''ac'') = Inr (lit ''abc'')" by code_simp+
  with CheckRep_guarantees[OF this(1,2)] show ?thesis by simp
qed

text \<open>
  C18. \<open>ComposeAttributes\<close> is associative in the way \<open>Compose\<close> needs: on canonical attribute
  strings, applying two mutations one after the other (to attributes or to a mutation) is
  applying their composition, and all of it leaves the pool alone.
\<close>

theorem ComposeAttributes_assoc:
  assumes "pool_wf p" "attr_canon p a1" "attr_canon p a2" "attr_canon p a3"
  shows "\<exists>a12 a23 r. ComposeAttributes a1 a2 m (Some p) = Inr (a12, Some p) \<and>
    ComposeAttributes a2 a3 True (Some p) = Inr (a23, Some p) \<and>
    ComposeAttributes a12 a3 m (Some p) = Inr (r, Some p) \<and>
    ComposeAttributes a1 a23 m (Some p) = Inr (r, Some p)"
proof -
  note p = assms(1)
  let ?m = "attr_map p"
  have i: "in_pool p (compose_map m (?m a1) (?m a2))" "in_pool p (compose_map True (?m a2) (?m a3))"
    by (intro in_pool_compose in_pool_attr_map[OF p])+
  note c12 = ComposeAttributes_canon[OF p assms(2,3), of m] and c23 = ComposeAttributes_canon[OF p assms(3,4), of True]
  note c = attr_canon_canon[OF p i(1)] attr_canon_canon[OF p i(2)]
  show ?thesis
    using c12 c23 ComposeAttributes_canon[OF p c(1) assms(4), of m] ComposeAttributes_canon[OF p assms(2) c(2), of m]
    by (simp add: attr_map_canon[OF p i(1)] attr_map_canon[OF p i(2)] compose_map_assoc)
qed

text \<open>A small pool: 0 is bold=true, 1 is bold= (the removal), 2 is author=x.\<close>

definition sample_pool :: APool where
  "sample_pool = snd (PutAttrib \<lparr>Key = lit ''author'', Value = lit ''x''\<rparr> None
     (snd (PutAttrib \<lparr>Key = lit ''bold'', Value = []\<rparr> None
     (snd (PutAttrib \<lparr>Key = lit ''bold'', Value = lit ''true''\<rparr> None NewAPool)))))"

lemma pool_ok_sample: "pool_ok sample_pool"
  unfolding sample_pool_def by (intro pool_ok_PutAttrib pool_ok_NewAPool)

lemma sample_nums:
  "gomap_get (NumToAttrib sample_pool) n =
     (if n = 0 then Some \<lparr>Key = lit ''bold'', Value = lit ''true''\<rparr>
      else if n = 1 then Some \<lparr>Key = lit ''bold'', Value = []\<rparr>
      else if n = 2 then Some \<lparr>Key = lit ''author'', Value = lit ''x''\<rparr> else None)"
  by (simp add: sample_pool_def PutAttrib_def NewAPool_def)

lemma pool_wf_sample: "pool_wf sample_pool"
proof -
  have "NextNum sample_pool = 3" by (simp add: sample_pool_def PutAttrib_def NewAPool_def)
  moreover have "pool_trimmed sample_pool"
    by (auto simp: pool_trimmed_def sample_nums trim_entry_def trim_space_def is_space_def split: if_splits)
  ultimately show ?thesis by (simp add: pool_wf_def pool_ok_sample pool_fits_def)
qed

lemma sample_canon:
  "attr_canon sample_pool []" "attr_canon sample_pool (lit ''*0'')" "attr_canon sample_pool (lit ''*1'')"
  "attr_canon sample_pool (lit ''*2'')" "attr_canon sample_pool (lit ''*0*2'')"
proof -
  have "canon sample_pool (attr_map sample_pool s) = s" if "AM_String (FromString s sample_pool) = Inr (s, sample_pool)" for s
    using that AM_String_canon[OF am_ok_FromString[OF pool_ok_sample]] FromString_pool[OF pool_wf_sample]
    by (simp add: attr_map_def)
  moreover have "AM_String (FromString [] sample_pool) = Inr ([], sample_pool)"
    "AM_String (FromString (lit ''*0'') sample_pool) = Inr (lit ''*0'', sample_pool)"
    "AM_String (FromString (lit ''*1'') sample_pool) = Inr (lit ''*1'', sample_pool)"
    "AM_String (FromString (lit ''*2'') sample_pool) = Inr (lit ''*2'', sample_pool)"
    "AM_String (FromString (lit ''*0*2'') sample_pool) = Inr (lit ''*0*2'', sample_pool)" by code_simp+
  ultimately show "attr_canon sample_pool []" "attr_canon sample_pool (lit ''*0'')" "attr_canon sample_pool (lit ''*1'')"
    "attr_canon sample_pool (lit ''*2'')" "attr_canon sample_pool (lit ''*0*2'')" unfolding attr_canon_def by metis+
qed

lemma ComposeAttributes_assoc_witness:
  "\<exists>a12 a23 r. ComposeAttributes (lit ''*0*2'') (lit ''*1'') False (Some sample_pool) = Inr (a12, Some sample_pool) \<and>
    ComposeAttributes (lit ''*1'') (lit ''*0'') True (Some sample_pool) = Inr (a23, Some sample_pool) \<and>
    ComposeAttributes a12 (lit ''*0'') False (Some sample_pool) = Inr (r, Some sample_pool) \<and>
    ComposeAttributes (lit ''*0*2'') a23 False (Some sample_pool) = Inr (r, Some sample_pool)"
  by (rule ComposeAttributes_assoc[OF pool_wf_sample sample_canon(5) sample_canon(3) sample_canon(2)])



text \<open>
  C26. \<open>Compose\<close> returns on every pair of strings and every pool, with a changeset, an error or
  a panic: its zip loop cannot run forever.
\<close>

theorem Compose_terminates: "\<exists>r. Compose cs1 cs2 pool = Some r"
  by (rule Compose_returns)

text \<open>
  C25. \<open>Follow\<close> returns on every pair of strings and every pool, whatever the insertion order
  and the map order.
\<close>

theorem Follow_terminates: "\<exists>r. Follow order c rebased reverseInsertOrder pool = Some r"
  by (rule Follow_returns)

text \<open>
  C27. Parsing is the inverse of printing on well-formed operations, and what the parser
  accepts are well-formed operations, so printing them and parsing again changes nothing.
\<close>

theorem DeserializeOps_inverse:
  "(\<forall>ops. list_all op_wf ops \<longrightarrow> DeserializeOps (concat (map Op_String ops)) = Inr ops) \<and>
   (\<forall>s ops. DeserializeOps s = Inr ops \<longrightarrow> list_all op_wf ops \<and> DeserializeOps (concat (map Op_String ops)) = Inr ops)"
  using DeserializeOps_print DeserializeOps_wf by blast

lemma DeserializeOps_inverse_witness:
  "DeserializeOps (concat (map Op_String [\<lparr>OpCode = Keep, Chars = 36, Lines = 2, Attribs = lit ''*a''\<rparr>])) =
     Inr [\<lparr>OpCode = Keep, Chars = 36, Lines = 2, Attribs = lit ''*a''\<rparr>]"
proof -
  have "DeserializeOps (lit ''*a|2=10'') = Inr [\<lparr>OpCode = Keep, Chars = 36, Lines = 2, Attribs = lit ''*a''\<rparr>]" by code_simp
  with DeserializeOps_inverse show ?thesis by blast
qed

text \<open>
  C28. \<open>Unpack\<close> recovers the two lengths, the operations and the bank that \<open>Pack\<close> put together,
  for operations printed by an assembler and lengths that fit Go's \<^verbatim>\<open>int\<close>.
\<close>

theorem Unpack_inverse:
  assumes "fits m" "\<bar>n - m\<bar> < 2 ^ 63" "list_all op_wf ops"
  shows "Unpack (Pack m n (concat (map Op_String ops)) bank) =
    Inr \<lparr>OldLen = m, NewLen = n, Ops = concat (map Op_String ops), CharBank = bank\<rparr>"
  by (rule Unpack_Pack_ops[OF assms])

lemma Unpack_inverse_witness:
  "Unpack (Pack 40 4 (concat (map Op_String [\<lparr>OpCode = Minus, Chars = 36, Lines = 1, Attribs = []\<rparr>])) (lit ''$'')) =
     Inr \<lparr>OldLen = 40, NewLen = 4, Ops = concat (map Op_String [\<lparr>OpCode = Minus, Chars = 36, Lines = 1, Attribs = []\<rparr>]), CharBank = lit ''$''\<rparr>"
  by (rule Unpack_inverse) (simp_all add: fits_def op_wf_def)

text \<open>
  \<open>Unpack\<close> returns a changeset for every string: the alternation in its pattern has an empty
  branch, so the header always matches and the error return cannot be reached.
\<close>

theorem Unpack_never_fails: "\<exists>u. Unpack cs = Inr u"
  by (rule Unpack_total)



text \<open>
  C38. Putting an attribute into a pool keeps its two tables each other's inverse on the numbers
  below \<open>NextNum\<close>, yields a number under which it is found, moves no other number, and changes
  nothing when it is put again.
\<close>

theorem PutAttrib_interns:
  assumes "pool_ok a"
  shows "pool_ok (snd (PutAttrib attr flag a)) \<and>
    GetAttrib (snd (PutAttrib attr None a)) (fst (PutAttrib attr None a)) = Inr attr \<and>
    (\<forall>n attr'. GetAttrib a n = Inr attr' \<longrightarrow> GetAttrib (snd (PutAttrib attr None a)) n = Inr attr') \<and>
    PutAttrib attr None (snd (PutAttrib attr None a)) = PutAttrib attr None a"
  using pool_ok_PutAttrib[OF assms] apool.get_put[OF assms, of attr] apool.put_keeps[OF assms] apool.put_again[OF assms]
  by (auto simp: GetAttrib_Inr)

lemma PutAttrib_interns_witness:
  "GetAttrib (snd (PutAttrib \<lparr>Key = lit ''bold'', Value = lit ''x''\<rparr> None sample_pool))
     (fst (PutAttrib \<lparr>Key = lit ''bold'', Value = lit ''x''\<rparr> None sample_pool)) = Inr \<lparr>Key = lit ''bold'', Value = lit ''x''\<rparr>"
  using PutAttrib_interns[OF pool_ok_sample, of "\<lparr>Key = lit ''bold'', Value = lit ''x''\<rparr>" None] by blast

text \<open>
  C39. A pool written to the database form and read back into a new pool holds the same
  attributes under the same numbers and continues with the same next number.
\<close>

theorem APool_stored:
  assumes "pool_ok a" "pool_fits a"
  shows "\<exists>p. FromDB NewAPool (ToPadDB a) = Inr p \<and> NumToAttrib p = NumToAttrib a \<and>
    (\<forall>attr. gomap_get (AttribToNum p) attr = gomap_get (AttribToNum a) attr) \<and> NextNum p = NextNum a"
  using FromDB_ToPadDB[OF assms] by (auto simp: fun_eq_iff)

lemma APool_stored_witness:
  "\<exists>p. FromDB NewAPool (ToPadDB sample_pool) = Inr p \<and> NumToAttrib p = NumToAttrib sample_pool \<and>
    (\<forall>attr. gomap_get (AttribToNum p) attr = gomap_get (AttribToNum sample_pool) attr) \<and> NextNum p = NextNum sample_pool"
  by (rule APool_stored[OF pool_ok_sample pool_wfD(2)[OF pool_wf_sample]])

text \<open>
  Numbers survive the base-36 wire format, and the digits it uses are the lower-case
  characters the changeset grammar allows.
\<close>

theorem NumToString_inverse:
  assumes "0 \<le> n" "n < 2 ^ 63"
  shows "ParseNum (NumToString n) = Inr n \<and> NumToString n \<noteq> [] \<and>
    list_all (\<lambda>r. (48 \<le> r \<and> r \<le> 57) \<or> (97 \<le> r \<and> r \<le> 122)) (NumToString n)"
  using ParseNum_NumToString[OF assms] NumToString_alnum[OF assms(1)] by (simp add: alnum36_def[abs_def])

lemma NumToString_inverse_witness: "ParseNum (NumToString 46655) = Inr 46655 \<and> NumToString 46655 = lit ''zzz''"
proof -
  have "NumToString 46655 = lit ''zzz''" by (simp add: NumToString_def text_base.simps digit36_def)
  with NumToString_inverse[of 46655] show ?thesis by simp
qed

text \<open>
  The builder's running length is the difference it is packed with: the \<open>LengthChange\<close> of a
  smart assembler is the number of characters its operations insert less those they remove.
\<close>

theorem LengthChange_counts:
  assumes "applies n ops bank bank' doc r"
  shows "LengthChange (fold SOA_Append ops NewSmartOpAssembler) = RuneCount r - RuneCount doc"
proof -
  have "LengthChange (fold SOA_Append ops NewSmartOpAssembler) = length_change ops"
    using LengthChange_fold[of ops NewSmartOpAssembler] by (simp add: LengthChange_def NewSmartOpAssembler_def)
  with applies_length[OF assms] show ?thesis by (simp add: length_change_chars)
qed

lemma LengthChange_counts_witness:
  "LengthChange (fold SOA_Append [\<lparr>OpCode = Minus, Chars = 2, Lines = 0, Attribs = []\<rparr>] NewSmartOpAssembler) =
     RuneCount (lit ''c'') - RuneCount (lit ''abc'')"
proof (rule LengthChange_counts)
  let ?op = "\<lparr>OpCode = Minus, Chars = 2, Lines = 0, Attribs = []\<rparr>"
  have "runs False [?op] [] (lit ''ab'' @ lit ''c'') [] [] (lit ''c'')"
    by (rule runs_Minus) (simp_all add: spans_def RuneCount_def)
  moreover have "lit ''ab'' @ lit ''c'' = lit ''abc''" by simp
  ultimately have "runs False [?op] [] (lit ''abc'') [] [] (lit ''c'')" by metis
  then show "applies False [?op] [] [] (lit ''abc'') (lit ''c'')"
    unfolding applies_def by (intro exI[where x="[]"] exI[where x="lit ''c''"]) simp
qed

section \<open>Lines\<close>

text \<open>
  C10. \<open>MutateTextLines\<close> edits a document held as lines exactly as \<open>ApplyToText\<close> edits its text:
  if the operations fit the text (each piece with newlines ends in one), both succeed, the
  resulting lines make up the resulting text, and each of them but the last ends in its
  only newline.
\<close>

theorem MutateTextLines_edits:
  assumes "Unpack cs = Inr u" "DeserializeOps (Ops u) = Inr ops" "RuneCount doc = OldLen u"
    "applies True ops (CharBank u) b' doc res"
  shows "\<exists>ls. MutateTextLines cs (SplitTextLines doc) = Inr ls \<and> ApplyToText cs doc = Inr (concat ls) \<and> concat ls = res \<and>
    neat_lines ls"
proof -
  have "ApplyToText cs doc = Inr res"
    using ApplyToText_applies[OF assms(1,2)] applies_weaken[OF assms(4)] assms(3) by blast
  with MutateTextLines_applies[OF assms(1,2), of b' "SplitTextLines doc" res] assms(4) show ?thesis by auto
qed

lemma MutateTextLines_edits_witness:
  "\<exists>ls. MutateTextLines (lit ''Z:2>1=1+1$b'') (SplitTextLines [97, newline]) = Inr ls \<and>
    ApplyToText (lit ''Z:2>1=1+1$b'') [97, newline] = Inr (concat ls) \<and> concat ls = [97, 98, newline] \<and> neat_lines ls"
proof (rule MutateTextLines_edits)
  let ?ops = "[\<lparr>OpCode = Keep, Chars = 1, Lines = 0, Attribs = []\<rparr>, \<lparr>OpCode = Plus, Chars = 1, Lines = 0, Attribs = []\<rparr>]"
  show "Unpack (lit ''Z:2>1=1+1$b'') = Inr \<lparr>OldLen = 2, NewLen = 3, Ops = lit ''=1+1'', CharBank = lit ''b''\<rparr>" by code_simp
  show "DeserializeOps (Ops \<lparr>OldLen = 2, NewLen = 3, Ops = lit ''=1+1'', CharBank = lit ''b''\<rparr>) = Inr ?ops" by code_simp
  show "RuneCount [97, newline] = OldLen \<lparr>OldLen = 2, NewLen = 3, Ops = lit ''=1+1'', CharBank = lit ''b''\<rparr>"
    by (simp add: RuneCount_def)
  have "runs True ?ops ([98] @ []) ([97] @ [newline]) ([97] @ ([98] @ [])) [] [newline]"
    by (intro runs_Keep runs_Plus runs_Nil) (simp_all add: spans_def RuneCount_def)
  then show "applies True ?ops (CharBank \<lparr>OldLen = 2, NewLen = 3, Ops = lit ''=1+1'', CharBank = lit ''b''\<rparr>) []
      [97, newline] [97, 98, newline]"
    unfolding applies_def by (intro exI[where x="[97, 98]"] exI[where x="[newline]"]) simp
qed


end
