(* ===== verification/Sheet.thy ===== *)
theory Sheet
  imports GoMap InternPool "HOL-Library.List_Lexorder" "HOL-Library.Product_Lexorder"
begin

text \<open>
  The spreadsheet documents of lib/sheet: cells, styles, sheets and workbooks
  (cell.go, style.go, sheet.go) and their snapshots (snapshot.go). Pointers to sheets are
  the positions of the sheets in the workbook, each held once; a method that mutates its
  receiver returns it.
\<close>

subsection \<open>cell.go\<close>

record CellRef =
  Row :: int
  Col :: int

datatype CellKind = KindValue | KindFormula

record Cell =
  Raw :: gostring
  CellValue :: gostring
  ValueType :: gostring
  StyleId :: int

definition zero_cell :: Cell where
  "zero_cell = \<lparr>Raw = [], CellValue = [], ValueType = [], StyleId = 0\<rparr>"

definition Cell_Kind :: "Cell \<Rightarrow> CellKind" where
  "Cell_Kind c = (if length (Raw c) > 0 \<and> hd (Raw c) = 61 then KindFormula else KindValue)"

definition Cell_IsEmpty :: "Cell \<Rightarrow> bool" where
  "Cell_IsEmpty c \<longleftrightarrow> Raw c = [] \<and> StyleId c = 0 \<and> CellValue c = []"

subsection \<open>style.go\<close>

type_synonym props = "(gostring, gostring) gomap"

record Style =
  Props :: props

text \<open>\<^verbatim>\<open>sort.Strings\<close> orders by code points, as the library's lexicographic order on lists does.\<close>

definition prop_keys :: "props \<Rightarrow> gostring list" where
  "prop_keys m = sort (map fst m)"

definition canonicalKey :: "Style \<Rightarrow> gostring" where
  "canonicalKey s =
     (if gomap_len (Props s) = 0 then []
      else concat (map (\<lambda>k. k @ [0] @ (case gomap_get (Props s) k of Some v \<Rightarrow> v | None \<Rightarrow> []) @ [1])
             (prop_keys (Props s))))"

record StylePool =
  IdToStyle :: "(int, Style) gomap"
  keyToId :: "(gostring, int) gomap"
  NextId :: int

definition NewStylePool :: StylePool where
  "NewStylePool = \<lparr>IdToStyle = [], keyToId = [([], 0)], NextId = 1\<rparr>"

definition Style_Put :: "Style \<Rightarrow> StylePool \<Rightarrow> int \<times> StylePool" where
  "Style_Put s p =
     (let key = canonicalKey s
      in case gomap_get (keyToId p) key of
           Some ident \<Rightarrow> (ident, p)
         | None \<Rightarrow>
             let ident = NextId p
             in (ident, p\<lparr>NextId := NextId p + 1, IdToStyle := gomap_set (IdToStyle p) ident \<lparr>Props = Props s\<rparr>,
                        keyToId := gomap_set (keyToId p) key ident\<rparr>))"

definition Style_Get :: "StylePool \<Rightarrow> int \<Rightarrow> Style option" where
  "Style_Get p ident = (if ident = 0 then Some \<lparr>Props = []\<rparr> else gomap_get (IdToStyle p) ident)"

definition rebuildIndex :: "StylePool \<Rightarrow> StylePool" where
  "rebuildIndex p =
     p\<lparr>keyToId := fold (\<lambda>(ident, s) m. gomap_set m (canonicalKey s) ident) (IdToStyle p) [([], 0)]\<rparr>"

definition StylePool_clone :: "StylePool \<Rightarrow> StylePool" where
  "StylePool_clone p =
     rebuildIndex \<lparr>IdToStyle = gomap_rebuild (\<lambda>ident s. ident) (\<lambda>ident s. \<lparr>Props = Props s\<rparr>) (IdToStyle p),
                   keyToId = [], NextId = NextId p\<rparr>"

subsection \<open>The coordinate arithmetic of transform.go\<close>

definition shiftCoord :: "int \<Rightarrow> int \<Rightarrow> int \<Rightarrow> int" where
  "shiftCoord coord index delta =
     (if delta \<ge> 0 then (if coord \<ge> index then coord + delta else coord)
      else
        let band = - delta
        in if coord < index then coord else if coord < index + band then index else coord - band)"

subsection \<open>sheet.go\<close>

record Span =
  SpanRows :: int
  SpanCols :: int

record Sheet =
  SheetId :: gostring
  SheetName :: gostring
  Cells :: "(CellRef, Cell) gomap"
  ColWidths :: "(int, int) gomap"
  RowHeights :: "(int, int) gomap"
  FrozenRows :: int
  FrozenCols :: int
  Merges :: "(CellRef, Span) gomap"

definition NewSheet :: "gostring \<Rightarrow> gostring \<Rightarrow> Sheet" where
  "NewSheet ident name =
     \<lparr>SheetId = ident, SheetName = name, Cells = [], ColWidths = [], RowHeights = [], FrozenRows = 0,
      FrozenCols = 0, Merges = []\<rparr>"

definition SetCell :: "CellRef \<Rightarrow> Cell \<Rightarrow> Sheet \<Rightarrow> Sheet" where
  "SetCell ref c s =
     (if Cell_IsEmpty c then s\<lparr>Cells := gomap_del (Cells s) ref\<rparr> else s\<lparr>Cells := gomap_set (Cells s) ref c\<rparr>)"

definition GetCell :: "CellRef \<Rightarrow> Sheet \<Rightarrow> Cell" where
  "GetCell ref s = (case gomap_get (Cells s) ref of Some c \<Rightarrow> c | None \<Rightarrow> zero_cell)"

definition Sheet_clone :: "Sheet \<Rightarrow> Sheet" where
  "Sheet_clone s =
     \<lparr>SheetId = SheetId s, SheetName = SheetName s, Cells = gomap_rebuild (\<lambda>r c. r) (\<lambda>r c. c) (Cells s),
      ColWidths = ColWidths s, RowHeights = RowHeights s, FrozenRows = FrozenRows s, FrozenCols = FrozenCols s,
      Merges = Merges s\<rparr>"

definition shiftDims :: "(int, int) gomap \<Rightarrow> int \<Rightarrow> int \<Rightarrow> (int, int) gomap" where
  "shiftDims m index delta =
     (if gomap_len m = 0 then m
      else gomap_rebuild (\<lambda>i v. shiftCoord i index delta) (\<lambda>i v. v)
             (filter (\<lambda>(i, v). \<not> (delta < 0 \<and> i \<ge> index \<and> i < index - delta)) m))"

definition intersects :: "CellRef \<Rightarrow> Span \<Rightarrow> int \<Rightarrow> int \<Rightarrow> int \<Rightarrow> int \<Rightarrow> bool" where
  "intersects anchor sp r0 c0 r1 c1 \<longleftrightarrow>
     Row anchor \<le> r1 \<and> Row anchor + SpanRows sp - 1 \<ge> r0 \<and> Col anchor \<le> c1 \<and> Col anchor + SpanCols sp - 1 \<ge> c0"

definition shiftEnd :: "int \<Rightarrow> int \<Rightarrow> int \<Rightarrow> int" where
  "shiftEnd coord index delta = (if delta \<ge> 0 \<and> coord = index then coord else shiftCoord coord index delta)"

datatype axis = AxisRow | AxisCol

text \<open>One turn of the loop of \<^verbatim>\<open>shiftMerges\<close>: the shifted entry, or none if it is dropped.\<close>

definition shift_merge :: "axis \<Rightarrow> int \<Rightarrow> int \<Rightarrow> CellRef \<times> Span \<Rightarrow> (CellRef \<times> Span) option" where
  "shift_merge ax index delta = (\<lambda>(a, sp).
     (let (lo, span) = (if ax = AxisCol then (Col a, SpanCols sp) else (Row a, SpanRows sp));
          nlo = shiftCoord lo index delta;
          nspan = shiftEnd (lo + span) index delta - nlo
      in if nspan \<le> 0 then None
         else
           let (na, nsp) = (if ax = AxisCol then (a\<lparr>Col := nlo\<rparr>, sp\<lparr>SpanCols := nspan\<rparr>)
                            else (a\<lparr>Row := nlo\<rparr>, sp\<lparr>SpanRows := nspan\<rparr>))
           in if SpanRows nsp \<le> 1 \<and> SpanCols nsp \<le> 1 then None else Some (na, nsp)))"

definition shiftMerges :: "(CellRef, Span) gomap \<Rightarrow> axis \<Rightarrow> int \<Rightarrow> int \<Rightarrow> (CellRef, Span) gomap" where
  "shiftMerges m ax index delta =
     (if gomap_len m = 0 then m
      else fold (\<lambda>e out. case shift_merge ax index delta e of None \<Rightarrow> out | Some (a, sp) \<Rightarrow> gomap_set out a sp) m [])"

definition remap :: "(CellRef \<Rightarrow> CellRef \<times> bool) \<Rightarrow> Sheet \<Rightarrow> Sheet" where
  "remap fn s =
     s\<lparr>Cells := fold (\<lambda>(ref, c) out. let (nref, keep) = fn ref in if keep then gomap_set out nref c else out) (Cells s) []\<rparr>"

record Workbook =
  Sheets :: "Sheet list"
  Styles :: StylePool

definition NewWorkbook :: Workbook where
  "NewWorkbook = \<lparr>Sheets = [], Styles = NewStylePool\<rparr>"

definition AddSheet :: "gostring \<Rightarrow> gostring \<Rightarrow> Workbook \<Rightarrow> Workbook" where
  "AddSheet ident name w = w\<lparr>Sheets := Sheets w @ [NewSheet ident name]\<rparr>"

definition SheetByID :: "gostring \<Rightarrow> Workbook \<Rightarrow> Sheet option" where
  "SheetByID ident w = find (\<lambda>s. SheetId s = ident) (Sheets w)"

definition Workbook_Clone :: "Workbook \<Rightarrow> Workbook" where
  "Workbook_Clone w = \<lparr>Sheets = map Sheet_clone (Sheets w), Styles = StylePool_clone (Styles w)\<rparr>"

subsection \<open>snapshot.go\<close>

record CellSnapshot =
  cs_row :: int
  cs_col :: int
  cs_raw :: gostring
  cs_value :: gostring
  cs_valueType :: gostring
  cs_styleId :: int

record MergeSnapshot =
  ms_row :: int
  ms_col :: int
  ms_rows :: int
  ms_cols :: int

record SheetSnapshot =
  ss_id :: gostring
  ss_name :: gostring
  ss_cells :: "CellSnapshot list"
  ss_colWidths :: "(int, int) gomap"
  ss_rowHeights :: "(int, int) gomap"
  ss_frozenRows :: int
  ss_frozenCols :: int
  ss_merges :: "MergeSnapshot list"

record WorkbookSnapshot =
  ws_sheets :: "SheetSnapshot list"
  ws_styles :: "StylePool option"

text \<open>No two cells and no two anchors have the same position, so the order of \<^verbatim>\<open>sort.Slice\<close> is determined.\<close>

definition snapshot_sheet :: "Sheet \<Rightarrow> SheetSnapshot" where
  "snapshot_sheet s =
     \<lparr>ss_id = SheetId s, ss_name = SheetName s,
      ss_cells = sort_key (\<lambda>c. (cs_row c, cs_col c))
        (map (\<lambda>(ref, c). \<lparr>cs_row = Row ref, cs_col = Col ref, cs_raw = Raw c, cs_value = CellValue c,
                          cs_valueType = ValueType c, cs_styleId = StyleId c\<rparr>) (Cells s)),
      ss_colWidths = ColWidths s, ss_rowHeights = RowHeights s, ss_frozenRows = FrozenRows s,
      ss_frozenCols = FrozenCols s,
      ss_merges = sort_key (\<lambda>m. (ms_row m, ms_col m))
        (map (\<lambda>(a, sp). \<lparr>ms_row = Row a, ms_col = Col a, ms_rows = SpanRows sp, ms_cols = SpanCols sp\<rparr>) (Merges s))\<rparr>"

definition Snapshot :: "Workbook \<Rightarrow> WorkbookSnapshot" where
  "Snapshot w = \<lparr>ws_sheets = map snapshot_sheet (Sheets w), ws_styles = Some (Styles w)\<rparr>"

definition sheet_from_snapshot :: "SheetSnapshot \<Rightarrow> Sheet" where
  "sheet_from_snapshot ss =
     (let sh = NewSheet (ss_id ss) (ss_name ss)
      in sh\<lparr>Cells := fold (\<lambda>c m. gomap_set m \<lparr>Row = cs_row c, Col = cs_col c\<rparr>
                 \<lparr>Raw = cs_raw c, CellValue = cs_value c, ValueType = cs_valueType c, StyleId = cs_styleId c\<rparr>)
               (ss_cells ss) (Cells sh),
            ColWidths := gomap_rebuild (\<lambda>i v. i) (\<lambda>i v. v) (ss_colWidths ss),
            RowHeights := gomap_rebuild (\<lambda>i v. i) (\<lambda>i v. v) (ss_rowHeights ss),
            FrozenRows := ss_frozenRows ss, FrozenCols := ss_frozenCols ss,
            Merges := fold (\<lambda>m out. gomap_set out \<lparr>Row = ms_row m, Col = ms_col m\<rparr>
                 \<lparr>SpanRows = ms_rows m, SpanCols = ms_cols m\<rparr>) (ss_merges ss) (Merges sh)\<rparr>)"

text \<open>A nil map of styles is empty.\<close>

definition WorkbookFromSnapshot :: "WorkbookSnapshot \<Rightarrow> Workbook" where
  "WorkbookFromSnapshot snap =
     \<lparr>Sheets = map sheet_from_snapshot (ws_sheets snap),
      Styles = (case ws_styles snap of
          None \<Rightarrow> NewStylePool
        | Some p \<Rightarrow> rebuildIndex (if NextId p = 0 then p\<lparr>NextId := 1\<rparr> else p))\<rparr>"

end
