(* ===== verification/SheetOps.thy ===== *)
theory SheetOps
  imports Sheet RuneUtils
begin

text \<open>
  The operations of spreadsheet documents: op.go (the operations and their validation),
  apply.go (what they do to a workbook), transform.go (rebasing) and reconcile.go (the
  server's document, which orders and logs the operations).
\<close>

subsection \<open>op.go\<close>

datatype OpType =
    OpSetCell | OpSetStyle | OpClearRange | OpInsertRows | OpDeleteRows | OpInsertCols | OpDeleteCols
  | OpAddSheet | OpRenameSheet | OpDeleteSheet | OpMoveSheet | OpSetDimension | OpSetFreeze
  | OpMergeCells | OpUnmergeCells | OtherOp gostring

record SheetOp =
  o_type :: OpType
  o_sheet :: gostring
  o_baseRev :: int
  o_row :: int
  o_col :: int
  o_endRow :: int
  o_endCol :: int
  o_raw :: "gostring option"
  o_value :: "gostring option"
  o_valueType :: "gostring option"
  o_styleId :: "int option"
  o_props :: "props option"
  o_index :: int
  o_count :: int
  o_name :: gostring
  o_toIndex :: int
  o_axis :: gostring
  o_size :: int
  o_frozenRows :: int
  o_frozenCols :: int

definition isStructural :: "SheetOp \<Rightarrow> bool" where
  "isStructural op' \<longleftrightarrow> o_type op' \<in> {OpInsertRows, OpDeleteRows, OpInsertCols, OpDeleteCols}"

text \<open>The patterns \<^verbatim>\<open>hexColorRe\<close>, \<^verbatim>\<open>numFmtRe\<close> and \<^verbatim>\<open>fontSizeRe\<close>.\<close>

definition is_digit :: "rune \<Rightarrow> bool" where
  "is_digit r \<longleftrightarrow> 48 \<le> r \<and> r \<le> 57"

definition is_hex :: "rune \<Rightarrow> bool" where
  "is_hex r \<longleftrightarrow> is_digit r \<or> (97 \<le> r \<and> r \<le> 102) \<or> (65 \<le> r \<and> r \<le> 70)"

definition hexColor_match :: "gostring \<Rightarrow> bool" where
  "hexColor_match v \<longleftrightarrow> v \<noteq> [] \<and> hd v = 35 \<and> list_all is_hex (tl v) \<and> (length (tl v) = 3 \<or> length (tl v) = 6)"

definition numFmt_match :: "gostring \<Rightarrow> bool" where
  "numFmt_match v \<longleftrightarrow> v \<in> {lit ''general'', lit ''text'', lit ''date''} \<or>
     list_ex (\<lambda>p. has_prefix v p \<and>
       (let suffix = drop (length p) v
        in suffix = [] \<or> hd suffix = 58 \<and> list_all is_digit (tl suffix) \<and> length (tl suffix) \<in> {1, 2}))
       [lit ''number'', lit ''currency'', lit ''percent'']"

definition fontSize_match :: "gostring \<Rightarrow> bool" where
  "fontSize_match v \<longleftrightarrow> length v \<in> {1, 2} \<and> 49 \<le> hd v \<and> hd v \<le> 57 \<and> list_all is_digit (tl v)"

definition fontFamilies :: "gostring list" where
  "fontFamilies = map lit [''Calibri'', ''Arial'', ''Times New Roman'', ''Courier New'', ''Georgia'', ''Verdana'']"

text \<open>The decision for one property; \<open>None\<close> is an unknown key.\<close>

definition prop_ok :: "gostring \<Rightarrow> gostring \<Rightarrow> bool option" where
  "prop_ok k v =
     (if k \<in> {lit ''bold'', lit ''italic'', lit ''underline'', lit ''strike''} then Some (v = lit ''1'')
      else if k \<in> {lit ''color'', lit ''bg''} then Some (hexColor_match v)
      else if k = lit ''align'' then Some (v \<in> {lit ''left'', lit ''center'', lit ''right''})
      else if k = lit ''valign'' then Some (v \<in> {lit ''top'', lit ''middle'', lit ''bottom''})
      else if k = lit ''border'' then Some (v = lit ''all'')
      else if k = lit ''numFmt'' then Some (numFmt_match v)
      else if k = lit ''fontFamily'' then Some (v \<in> set fontFamilies)
      else if k = lit ''fontSize'' then
        Some (if fontSize_match v then (case ParseInt 10 v of Inr n \<Rightarrow> n \<ge> 6 \<and> n \<le> 96 | Inl _ \<Rightarrow> False) else False)
      else if k = lit ''wrap'' then Some (v = lit ''1'')
      else None)"

text \<open>The error, if any.\<close>

fun ValidateProps :: "props \<Rightarrow> goerr option" where
  "ValidateProps [] = None"
| "ValidateProps ((k, v) # ps) =
     (case prop_ok k v of
        None \<Rightarrow> Some (Err ''props: unknown key'')
      | Some ok \<Rightarrow> if \<not> ok then Some (Err ''props: invalid value'') else ValidateProps ps)"

text \<open>\<^verbatim>\<open>len\<close> of a string counts the bytes of its UTF-8 form.\<close>

definition utf8_len :: "rune \<Rightarrow> int" where
  "utf8_len r = (if r < 0x80 then 1 else if r < 0x800 then 2 else if r < 0x10000 then 3 else 4)"

definition byte_len :: "gostring \<Rightarrow> int" where
  "byte_len s = sum_list (map utf8_len s)"

text \<open>A nil map of properties has nothing to validate.\<close>

definition validate_props :: "props option \<Rightarrow> goerr option" where
  "validate_props m = (case m of None \<Rightarrow> None | Some ps \<Rightarrow> ValidateProps ps)"

definition Validate :: "SheetOp \<Rightarrow> goerr option" where
  "Validate op' =
     (if o_sheet op' = [] then Some (Err ''op missing sheet id'')
      else
        (case o_type op' of
           OpSetCell \<Rightarrow>
             (if o_raw op' = None \<and> o_styleId op' = None \<and> o_props op' = None
              then Some (Err ''setCell needs raw, styleId, and/or props'')
              else if o_row op' < 0 \<or> o_col op' < 0 then Some (Err ''setCell negative coord'')
              else validate_props (o_props op'))
         | OpSetStyle \<Rightarrow>
             (if o_styleId op' = None \<and> o_props op' = None then Some (Err ''setStyle needs styleId or props'')
              else if o_row op' < 0 \<or> o_col op' < 0 then Some (Err ''setStyle negative coord'')
              else validate_props (o_props op'))
         | OpDeleteSheet \<Rightarrow> None
         | OpMoveSheet \<Rightarrow> (if o_toIndex op' < 0 then Some (Err ''moveSheet negative toIndex'') else None)
         | OpSetDimension \<Rightarrow>
             (if o_axis op' \<noteq> lit ''col'' \<and> o_axis op' \<noteq> lit ''row'' then Some (Err ''setDimension axis must be col or row'')
              else if o_index op' < 0 then Some (Err ''setDimension negative index'')
              else if o_size op' \<le> 0 \<or> o_size op' > 4096 then Some (Err ''setDimension size out of range'')
              else None)
         | OpSetFreeze \<Rightarrow>
             (if o_frozenRows op' < 0 \<or> o_frozenRows op' > 1 \<or> o_frozenCols op' < 0 \<or> o_frozenCols op' > 1
              then Some (Err ''setFreeze supports only 0 or 1 frozen rows/cols'') else None)
         | OtherOp _ \<Rightarrow> Some (Err ''unknown op type'')
         | ty \<Rightarrow>
             (if ty \<in> {OpClearRange, OpMergeCells, OpUnmergeCells} then
                (if o_row op' < 0 \<or> o_col op' < 0 \<or> o_endRow op' < o_row op' \<or> o_endCol op' < o_col op'
                 then Some (Err ''invalid bounds'') else None)
              else if ty \<in> {OpAddSheet, OpRenameSheet} then
                (if o_name op' = [] then Some (Err ''needs a name'')
                 else if byte_len (o_name op') > 128 then Some (Err ''name too long'')
                 else if o_index op' < 0 then Some (Err ''negative index'') else None)
              else
                (if o_index op' < 0 then Some (Err ''negative index'')
                 else if o_count op' \<le> 0 then Some (Err ''count must be > 0'') else None))))"

subsection \<open>transform.go\<close>

definition hasRange :: "OpType \<Rightarrow> bool" where
  "hasRange t \<longleftrightarrow> t = OpClearRange \<or> t = OpMergeCells \<or> t = OpUnmergeCells"

definition shiftRows :: "SheetOp \<Rightarrow> int \<Rightarrow> int \<Rightarrow> SheetOp" where
  "shiftRows in0 index delta =
     (let in1 = in0\<lparr>o_row := shiftCoord (o_row in0) index delta\<rparr>;
          in2 = (if hasRange (o_type in1) then in1\<lparr>o_endRow := shiftCoord (o_endRow in1) index delta\<rparr> else in1);
          in3 = (if o_type in2 = OpInsertRows \<or> o_type in2 = OpDeleteRows
                 then in2\<lparr>o_index := shiftCoord (o_index in2) index delta\<rparr> else in2)
      in if o_type in3 = OpSetDimension \<and> o_axis in3 = lit ''row''
         then in3\<lparr>o_index := shiftCoord (o_index in3) index delta\<rparr> else in3)"

definition shiftCols :: "SheetOp \<Rightarrow> int \<Rightarrow> int \<Rightarrow> SheetOp" where
  "shiftCols in0 index delta =
     (let in1 = in0\<lparr>o_col := shiftCoord (o_col in0) index delta\<rparr>;
          in2 = (if hasRange (o_type in1) then in1\<lparr>o_endCol := shiftCoord (o_endCol in1) index delta\<rparr> else in1);
          in3 = (if o_type in2 = OpInsertCols \<or> o_type in2 = OpDeleteCols
                 then in2\<lparr>o_index := shiftCoord (o_index in2) index delta\<rparr> else in2)
      in if o_type in3 = OpSetDimension \<and> o_axis in3 = lit ''col''
         then in3\<lparr>o_index := shiftCoord (o_index in3) index delta\<rparr> else in3)"

definition Transform :: "SheetOp \<Rightarrow> SheetOp \<Rightarrow> SheetOp" where
  "Transform in0 applied =
     (if o_sheet in0 \<noteq> o_sheet applied \<or> \<not> isStructural applied then in0
      else
        (case o_type applied of
           OpInsertRows \<Rightarrow> shiftRows in0 (o_index applied) (o_count applied)
         | OpDeleteRows \<Rightarrow> shiftRows in0 (o_index applied) (- o_count applied)
         | OpInsertCols \<Rightarrow> shiftCols in0 (o_index applied) (o_count applied)
         | OpDeleteCols \<Rightarrow> shiftCols in0 (o_index applied) (- o_count applied)
         | _ \<Rightarrow> in0))"

subsection \<open>apply.go\<close>

text \<open>\<^verbatim>\<open>slices.Insert(list, i, x)\<close> and the update of the first sheet with an id.\<close>

definition slices_insert :: "'a list \<Rightarrow> int \<Rightarrow> 'a \<Rightarrow> 'a list" where
  "slices_insert xs i x = take (nat i) xs @ [x] @ drop (nat i) xs"

fun update_sheet :: "gostring \<Rightarrow> (Sheet \<Rightarrow> Sheet) \<Rightarrow> Sheet list \<Rightarrow> Sheet list" where
  "update_sheet ident f [] = []"
| "update_sheet ident f (s # ss) = (if SheetId s = ident then f s # ss else s # update_sheet ident f ss)"

fun remove_sheet :: "gostring \<Rightarrow> Sheet list \<Rightarrow> Sheet list" where
  "remove_sheet ident [] = []"
| "remove_sheet ident (s # ss) = (if SheetId s = ident then ss else s # remove_sheet ident ss)"

definition op_ref :: "SheetOp \<Rightarrow> CellRef" where
  "op_ref op' = \<lparr>Row = o_row op', Col = o_col op'\<rparr>"

text \<open>The style of a cell operation: its properties win over its style id.\<close>

definition op_style :: "SheetOp \<Rightarrow> Cell \<Rightarrow> StylePool \<Rightarrow> Cell \<times> StylePool" where
  "op_style op' cur p =
     (case o_props op' of
        Some ps \<Rightarrow> let (ident, p1) = Style_Put \<lparr>Props = ps\<rparr> p in (cur\<lparr>StyleId := ident\<rparr>, p1)
      | None \<Rightarrow> (case o_styleId op' of Some ident \<Rightarrow> (cur\<lparr>StyleId := ident\<rparr>, p) | None \<Rightarrow> (cur, p)))"

definition set_content :: "SheetOp \<Rightarrow> Cell \<Rightarrow> Cell" where
  "set_content op' cur =
     (let c1 = (case o_raw op' of Some r \<Rightarrow> cur\<lparr>Raw := r, CellValue := [], ValueType := []\<rparr> | None \<Rightarrow> cur);
          c2 = (case o_value op' of Some v \<Rightarrow> c1\<lparr>CellValue := v\<rparr> | None \<Rightarrow> c1)
      in (case o_valueType op' of Some v \<Rightarrow> c2\<lparr>ValueType := v\<rparr> | None \<Rightarrow> c2))"

definition insert_rows :: "int \<Rightarrow> int \<Rightarrow> Sheet \<Rightarrow> Sheet" where
  "insert_rows index count s =
     (let s1 = remap (\<lambda>r. if Row r \<ge> index then (r\<lparr>Row := Row r + count\<rparr>, True) else (r, True)) s
      in s1\<lparr>RowHeights := shiftDims (RowHeights s1) index count, Merges := shiftMerges (Merges s1) AxisRow index count\<rparr>)"

definition delete_rows :: "int \<Rightarrow> int \<Rightarrow> Sheet \<Rightarrow> Sheet" where
  "delete_rows index count s =
     (let s1 = remap (\<lambda>r. if Row r \<ge> index \<and> Row r < index + count then (r, False)
                          else if Row r \<ge> index + count then (r\<lparr>Row := Row r - count\<rparr>, True) else (r, True)) s
      in s1\<lparr>RowHeights := shiftDims (RowHeights s1) index (- count),
            Merges := shiftMerges (Merges s1) AxisRow index (- count)\<rparr>)"

definition insert_cols :: "int \<Rightarrow> int \<Rightarrow> Sheet \<Rightarrow> Sheet" where
  "insert_cols index count s =
     (let s1 = remap (\<lambda>r. if Col r \<ge> index then (r\<lparr>Col := Col r + count\<rparr>, True) else (r, True)) s
      in s1\<lparr>ColWidths := shiftDims (ColWidths s1) index count, Merges := shiftMerges (Merges s1) AxisCol index count\<rparr>)"

definition delete_cols :: "int \<Rightarrow> int \<Rightarrow> Sheet \<Rightarrow> Sheet" where
  "delete_cols index count s =
     (let s1 = remap (\<lambda>r. if Col r \<ge> index \<and> Col r < index + count then (r, False)
                          else if Col r \<ge> index + count then (r\<lparr>Col := Col r - count\<rparr>, True) else (r, True)) s
      in s1\<lparr>ColWidths := shiftDims (ColWidths s1) index (- count),
            Merges := shiftMerges (Merges s1) AxisCol index (- count)\<rparr>)"

definition in_range :: "SheetOp \<Rightarrow> CellRef \<Rightarrow> bool" where
  "in_range op' ref \<longleftrightarrow> Row ref \<ge> o_row op' \<and> Row ref \<le> o_endRow op' \<and> Col ref \<ge> o_col op' \<and> Col ref \<le> o_endCol op'"

definition absorb :: "SheetOp \<Rightarrow> (CellRef, Span) gomap \<Rightarrow> (CellRef, Span) gomap" where
  "absorb op' m =
     filter (\<lambda>(a, sp). \<not> intersects a sp (o_row op') (o_col op') (o_endRow op') (o_endCol op')) m"

text \<open>The second \<^verbatim>\<open>switch\<close> of \<^verbatim>\<open>Apply\<close>, on the sheet the operation names.\<close>

definition apply_sheet :: "SheetOp \<Rightarrow> Sheet \<Rightarrow> StylePool \<Rightarrow> (Sheet \<times> StylePool) result" where
  "apply_sheet op' s p =
     (case o_type op' of
        OpSetCell \<Rightarrow>
          let (cur, p1) = op_style op' (set_content op' (GetCell (op_ref op') s)) p
          in Inr (SetCell (op_ref op') cur s, p1)
      | OpSetStyle \<Rightarrow>
          if o_props op' = None \<and> o_styleId op' = None then Inl Panic
          else let (cur, p1) = op_style op' (GetCell (op_ref op') s) p in Inr (SetCell (op_ref op') cur s, p1)
      | OpClearRange \<Rightarrow> Inr (s\<lparr>Cells := filter (\<lambda>(ref, c). \<not> in_range op' ref) (Cells s)\<rparr>, p)
      | OpSetDimension \<Rightarrow>
          Inr (if o_axis op' = lit ''col'' then s\<lparr>ColWidths := gomap_set (ColWidths s) (o_index op') (o_size op')\<rparr>
               else s\<lparr>RowHeights := gomap_set (RowHeights s) (o_index op') (o_size op')\<rparr>, p)
      | OpSetFreeze \<Rightarrow> Inr (s\<lparr>FrozenRows := o_frozenRows op', FrozenCols := o_frozenCols op'\<rparr>, p)
      | OpMergeCells \<Rightarrow>
          Inr (if o_endRow op' = o_row op' \<and> o_endCol op' = o_col op' then s
               else s\<lparr>Merges := gomap_set (absorb op' (Merges s)) (op_ref op')
                        \<lparr>SpanRows = o_endRow op' - o_row op' + 1, SpanCols = o_endCol op' - o_col op' + 1\<rparr>\<rparr>, p)
      | OpUnmergeCells \<Rightarrow> Inr (s\<lparr>Merges := absorb op' (Merges s)\<rparr>, p)
      | OpInsertRows \<Rightarrow> Inr (insert_rows (o_index op') (o_count op') s, p)
      | OpDeleteRows \<Rightarrow> Inr (delete_rows (o_index op') (o_count op') s, p)
      | OpInsertCols \<Rightarrow> Inr (insert_cols (o_index op') (o_count op') s, p)
      | OpDeleteCols \<Rightarrow> Inr (delete_cols (o_index op') (o_count op') s, p)
      | _ \<Rightarrow> Inl (Err ''apply: unhandled op type''))"

definition Apply :: "SheetOp \<Rightarrow> Workbook \<Rightarrow> Workbook result" where
  "Apply op' w =
     (case Validate op' of Some err \<Rightarrow> Inl err
      | None \<Rightarrow>
        (case o_type op' of
           OpAddSheet \<Rightarrow>
             Inr (if SheetByID (o_sheet op') w \<noteq> None then w
                  else w\<lparr>Sheets := slices_insert (Sheets w) (min (o_index op') (int (length (Sheets w))))
                           (NewSheet (o_sheet op') (o_name op'))\<rparr>)
         | OpDeleteSheet \<Rightarrow>
             Inr (if length (Sheets w) \<le> 1 then w else w\<lparr>Sheets := remove_sheet (o_sheet op') (Sheets w)\<rparr>)
         | OpRenameSheet \<Rightarrow>
             Inr (w\<lparr>Sheets := update_sheet (o_sheet op') (\<lambda>s. s\<lparr>SheetName := o_name op'\<rparr>) (Sheets w)\<rparr>)
         | OpMoveSheet \<Rightarrow>
             Inr (case SheetByID (o_sheet op') w of None \<Rightarrow> w
                  | Some s \<Rightarrow>
                      let rest = remove_sheet (o_sheet op') (Sheets w)
                      in w\<lparr>Sheets := slices_insert rest (min (o_toIndex op') (int (length rest))) s\<rparr>)
         | _ \<Rightarrow>
             (case SheetByID (o_sheet op') w of None \<Rightarrow> Inr w
              | Some s \<Rightarrow>
                  bind_result (apply_sheet op' s (Styles w)) (\<lambda>(s1, p1).
                    Inr (w\<lparr>Sheets := update_sheet (o_sheet op') (\<lambda>_. s1) (Sheets w), Styles := p1\<rparr>)))))"

subsection \<open>reconcile.go\<close>

record Document =
  doc_wb :: Workbook
  doc_log :: "SheetOp list"
  doc_head :: int

definition NewDocument :: "Workbook \<Rightarrow> Document" where
  "NewDocument wb = \<lparr>doc_wb = wb, doc_log = [], doc_head = 0\<rparr>"

definition NewDocumentAt :: "Workbook \<Rightarrow> SheetOp list \<Rightarrow> Document" where
  "NewDocumentAt wb log = \<lparr>doc_wb = wb, doc_log = log, doc_head = int (length log)\<rparr>"

text \<open>\<^verbatim>\<open>d.log[i]\<close> for \<open>i\<close> from \<open>BaseRev\<close> up to \<open>head\<close>; the head is the length of the log.\<close>

definition rebase_over :: "SheetOp \<Rightarrow> Document \<Rightarrow> SheetOp result" where
  "rebase_over op' d =
     (if doc_head d > int (length (doc_log d)) \<and> o_baseRev op' < doc_head d then Inl Panic
      else Inr (fold (\<lambda>applied rebased. Transform rebased applied)
             (take (nat (doc_head d - o_baseRev op')) (drop (nat (o_baseRev op')) (doc_log d))) op'))"

definition Submit :: "SheetOp \<Rightarrow> Document \<Rightarrow> (int \<times> Document) result" where
  "Submit op' d =
     (case Validate op' of Some err \<Rightarrow> Inl err
      | None \<Rightarrow>
        if o_baseRev op' < 0 \<or> o_baseRev op' > doc_head d then Inl (Err ''submit: baseRev out of range'')
        else
          bind_result (rebase_over op' d) (\<lambda>rebased0.
            let rebased = rebased0\<lparr>o_baseRev := doc_head d\<rparr>
            in bind_result (Apply rebased (doc_wb d)) (\<lambda>wb1.
                 Inr (doc_head d + 1, d\<lparr>doc_wb := wb1, doc_log := doc_log d @ [rebased], doc_head := doc_head d + 1\<rparr>))))"

end
