(* ===== verification/SheetMerges.thy ===== *)
theory SheetMerges
  imports SheetOps
begin

text \<open>
  Rows and columns move without losing or mixing anything: where each cell, dimension and
  merged range is after an insertion or a deletion, and that a deletion undoes the
  insertion it follows.

  Merged ranges: they never overlap and never cover a single cell, whatever is inserted,
  deleted, merged or unmerged, and a deletion undoes the insertion it follows.
\<close>

section \<open>The grid\<close>

subsection \<open>Coordinates\<close>

definition kept :: "int \<Rightarrow> int \<Rightarrow> int \<Rightarrow> bool" where
  "kept coord index delta \<longleftrightarrow> \<not> (delta < 0 \<and> index \<le> coord \<and> coord < index - delta)"

text \<open>The coordinate that moves to \<open>coord\<close>; none if \<open>coord\<close> is in an inserted band.\<close>

definition unshift :: "int \<Rightarrow> int \<Rightarrow> int \<Rightarrow> int option" where
  "unshift coord index delta =
     (if coord < index then Some coord else if coord < index + delta then None else Some (coord - delta))"

lemma unshift_iff: "unshift l index delta = Some k \<longleftrightarrow> kept k index delta \<and> shiftCoord k index delta = l"
  by (auto simp: unshift_def kept_def shiftCoord_def Let_def)

lemma shiftCoord_mono: "a \<le> b \<Longrightarrow> shiftCoord a index delta \<le> shiftCoord b index delta"
  by (auto simp: shiftCoord_def Let_def)

lemma shiftCoord_nonneg: "0 \<le> coord \<Longrightarrow> 0 \<le> index \<Longrightarrow> 0 \<le> shiftCoord coord index delta"
  by (auto simp: shiftCoord_def Let_def)

lemma shiftEnd_le: "a \<le> b \<Longrightarrow> shiftEnd a index delta \<le> shiftCoord b index delta"
  by (auto simp: shiftEnd_def shiftCoord_def Let_def)

lemma shift_back:
  "0 \<le> n \<Longrightarrow> shiftCoord (shiftCoord c index n) index (- n) = c"
  "0 \<le> n \<Longrightarrow> shiftEnd (shiftEnd c index n) index (- n) = c"
  by (auto simp: shiftEnd_def shiftCoord_def Let_def)

lemma unshift_back: "0 \<le> n \<Longrightarrow> Option.bind (unshift c index (- n)) (\<lambda>d. unshift d index n) = Some c"
  by (auto simp: unshift_def)

lemma shiftEnd_larger: "0 \<le> delta \<Longrightarrow> lo < hi \<Longrightarrow> hi - lo \<le> shiftEnd hi index delta - shiftCoord lo index delta"
  by (auto simp: shiftEnd_def shiftCoord_def)

subsection \<open>Rebuilding a map\<close>

lemma rebuild_lookup:
  assumes "gomap_ok m" "\<And>k l. pre l = Some k \<longleftrightarrow> keep k \<and> f k = l"
  shows "gomap_get (gomap_rebuild (\<lambda>k v. f k) (\<lambda>k v. v) (filter (\<lambda>(k, v). keep k) m)) l =
    Option.bind (pre l) (gomap_get m)"
proof -
  let ?m = "filter (\<lambda>(k, v). keep k) m"
  have ok: "gomap_ok ?m" using assms(1) by (simp add: gomap_ok_def distinct_map_filter)
  have get: "gomap_get ?m k = (if keep k then gomap_get m k else None)" for k
    by (auto simp: gomap_get_def map_of_filter_in intro!: map_of_eq_None_iff[THEN iffD2] split: if_splits)
      (induction m, auto)
  show ?thesis
  proof (cases "gomap_get (gomap_rebuild (\<lambda>k v. f k) (\<lambda>k v. v) ?m) l")
    case None
    have "Option.bind (pre l) (gomap_get m) = None"
    proof (rule ccontr)
      assume "Option.bind (pre l) (gomap_get m) \<noteq> None"
      then obtain k v where k: "pre l = Some k" "gomap_get m k = Some v" by (cases "pre l") auto
      with assms(2)[of l k] have "keep k" "f k = l" by auto
      with k get[of k] gomap_rebuild_get[OF ok, of "\<lambda>k v. f k" k v "\<lambda>k v. v"] assms(2) None show False
        by (simp add: get) (metis option.inject option.simps(3))
    qed
    with None show ?thesis by simp
  next
    case (Some w)
    from gomap_rebuild_dom[OF this] obtain k where k: "(k, w) \<in> set ?m" "l = f k" by auto
    then have "gomap_get m k = Some w" "keep k" using assms(1) by (auto simp: gomap_ok_in)
    with k(2) assms(2)[of l k] Some show ?thesis by simp
  qed
qed

lemma remap_rebuild:
  "Cells (remap fn s) = gomap_rebuild (\<lambda>r c. fst (fn r)) (\<lambda>r c. c) (filter (\<lambda>(r, c). snd (fn r)) (Cells s))"
proof -
  have "fold (\<lambda>(ref, c) out. let (nref, keep) = fn ref in if keep then gomap_set out nref c else out) m out =
      fold (\<lambda>(k, v) out. gomap_set out (fst (fn k)) v) (filter (\<lambda>(r, c). snd (fn r)) m) out" for m out
    by (induction m arbitrary: out) (auto simp: case_prod_unfold Let_def)
  then show ?thesis by (simp add: remap_def gomap_rebuild_def)
qed

lemma remap_fields [simp]:
  "SheetId (remap fn s) = SheetId s" "SheetName (remap fn s) = SheetName s" "ColWidths (remap fn s) = ColWidths s"
  "RowHeights (remap fn s) = RowHeights s" "FrozenRows (remap fn s) = FrozenRows s" "FrozenCols (remap fn s) = FrozenCols s"
  "Merges (remap fn s) = Merges s"
  by (simp_all add: remap_def)

text \<open>Moving the rows, or the columns, of a sheet.\<close>

definition move_rows :: "int \<Rightarrow> int \<Rightarrow> Sheet \<Rightarrow> Sheet" where
  "move_rows index delta = remap (\<lambda>r. (r\<lparr>Row := shiftCoord (Row r) index delta\<rparr>, kept (Row r) index delta))"

definition move_cols :: "int \<Rightarrow> int \<Rightarrow> Sheet \<Rightarrow> Sheet" where
  "move_cols index delta = remap (\<lambda>r. (r\<lparr>Col := shiftCoord (Col r) index delta\<rparr>, kept (Col r) index delta))"

lemma remap_cong:
  assumes "\<And>r. snd (fn r) = snd (fn' r)" "\<And>r. snd (fn r) \<Longrightarrow> fst (fn r) = fst (fn' r)"
  shows "remap fn s = remap fn' s"
proof -
  have "(\<lambda>(ref, c::Cell) out. let (nref, keep) = fn ref in if keep then gomap_set out nref c else out) =
      (\<lambda>(ref, c::Cell) out. let (nref, keep) = fn' ref in if keep then gomap_set out nref c else out)"
    using assms by (auto simp: fun_eq_iff case_prod_unfold Let_def)
  then show ?thesis by (simp only: remap_def)
qed

lemma insert_rows_eq: "0 \<le> n \<Longrightarrow> insert_rows i n s =
    (move_rows i n s)\<lparr>RowHeights := shiftDims (RowHeights s) i n, Merges := shiftMerges (Merges s) AxisRow i n\<rparr>"
  unfolding insert_rows_def move_rows_def Let_def
  by (subst remap_cong[where fn'="\<lambda>r. (r\<lparr>Row := shiftCoord (Row r) i n\<rparr>, kept (Row r) i n)"])
    (auto simp: shiftCoord_def kept_def)

lemma delete_rows_eq: "0 < n \<Longrightarrow> delete_rows i n s =
    (move_rows i (- n) s)\<lparr>RowHeights := shiftDims (RowHeights s) i (- n), Merges := shiftMerges (Merges s) AxisRow i (- n)\<rparr>"
  unfolding delete_rows_def move_rows_def Let_def
  by (subst remap_cong[where fn'="\<lambda>r. (r\<lparr>Row := shiftCoord (Row r) i (- n)\<rparr>, kept (Row r) i (- n))"])
    (auto simp: shiftCoord_def kept_def)

lemma insert_cols_eq: "0 \<le> n \<Longrightarrow> insert_cols i n s =
    (move_cols i n s)\<lparr>ColWidths := shiftDims (ColWidths s) i n, Merges := shiftMerges (Merges s) AxisCol i n\<rparr>"
  unfolding insert_cols_def move_cols_def Let_def
  by (subst remap_cong[where fn'="\<lambda>r. (r\<lparr>Col := shiftCoord (Col r) i n\<rparr>, kept (Col r) i n)"])
    (auto simp: shiftCoord_def kept_def)

lemma delete_cols_eq: "0 < n \<Longrightarrow> delete_cols i n s =
    (move_cols i (- n) s)\<lparr>ColWidths := shiftDims (ColWidths s) i (- n), Merges := shiftMerges (Merges s) AxisCol i (- n)\<rparr>"
  unfolding delete_cols_def move_cols_def Let_def
  by (subst remap_cong[where fn'="\<lambda>r. (r\<lparr>Col := shiftCoord (Col r) i (- n)\<rparr>, kept (Col r) i (- n))"])
    (auto simp: shiftCoord_def kept_def)

lemmas grid_ops = insert_rows_eq delete_rows_eq insert_cols_eq delete_cols_eq

lemma move_rows_get:
  assumes "gomap_ok (Cells s)"
  shows "gomap_get (Cells (move_rows i d s)) ref =
    Option.bind (unshift (Row ref) i d) (\<lambda>r. gomap_get (Cells s) (ref\<lparr>Row := r\<rparr>))"
proof -
  let ?pre = "\<lambda>ref. map_option (\<lambda>r. ref\<lparr>Row := r\<rparr>) (unshift (Row ref) i d)"
  have "?pre l = Some k \<longleftrightarrow> kept (Row k) i d \<and> k\<lparr>Row := shiftCoord (Row k) i d\<rparr> = l" for k l
    using unshift_iff[of "Row l" i d "Row k"] by (cases k; cases l) (auto simp: unshift_iff)
  from rebuild_lookup[OF assms this, of ref] show ?thesis
    by (simp add: move_rows_def remap_rebuild bind_map_option comp_def)
qed

lemma move_cols_get:
  assumes "gomap_ok (Cells s)"
  shows "gomap_get (Cells (move_cols i d s)) ref =
    Option.bind (unshift (Col ref) i d) (\<lambda>c. gomap_get (Cells s) (ref\<lparr>Col := c\<rparr>))"
proof -
  let ?pre = "\<lambda>ref. map_option (\<lambda>c. ref\<lparr>Col := c\<rparr>) (unshift (Col ref) i d)"
  have "?pre l = Some k \<longleftrightarrow> kept (Col k) i d \<and> k\<lparr>Col := shiftCoord (Col k) i d\<rparr> = l" for k l
    using unshift_iff[of "Col l" i d "Col k"] by (cases k; cases l) (auto simp: unshift_iff)
  from rebuild_lookup[OF assms this, of ref] show ?thesis
    by (simp add: move_cols_def remap_rebuild bind_map_option comp_def)
qed

lemma shiftDims_get:
  assumes "gomap_ok m"
  shows "gomap_get (shiftDims m i d) k = Option.bind (unshift k i d) (gomap_get m)"
proof -
  have "shiftDims m i d = gomap_rebuild (\<lambda>k v. shiftCoord k i d) (\<lambda>k v. v) (filter (\<lambda>(k, v). kept k i d) m)"
    by (auto simp: shiftDims_def kept_def gomap_len_def gomap_rebuild_def not_less not_le case_prod_unfold
        intro!: arg_cong[where f="\<lambda>l. fold _ l []"] filter_cong)
  with rebuild_lookup[OF assms, of "\<lambda>l. unshift l i d" "\<lambda>k. kept k i d" "\<lambda>k. shiftCoord k i d" k] show ?thesis
    by (simp add: unshift_iff)
qed

lemma remap_ok [simp]: "gomap_ok (Cells (remap fn s))"
  by (simp add: remap_rebuild)

lemma move_ok [simp]: "gomap_ok (Cells (move_rows i d s))" "gomap_ok (Cells (move_cols i d s))"
  by (simp_all add: move_rows_def move_cols_def)

lemma shiftDims_ok [simp]: "gomap_ok m \<Longrightarrow> gomap_ok (shiftDims m i d)"
  by (simp add: shiftDims_def)

section \<open>Merges\<close>

type_synonym merge = "CellRef \<times> Span"

definition merge_ok :: "merge \<Rightarrow> bool" where
  "merge_ok = (\<lambda>(a, sp). SpanRows sp \<ge> 1 \<and> SpanCols sp \<ge> 1 \<and> \<not> (SpanRows sp = 1 \<and> SpanCols sp = 1))"

definition overlap :: "merge \<Rightarrow> merge \<Rightarrow> bool" where
  "overlap = (\<lambda>(a, sp) (b, sq).
     intersects a sp (Row b) (Col b) (Row b + SpanRows sq - 1) (Col b + SpanCols sq - 1))"

definition merges_ok :: "(CellRef, Span) gomap \<Rightarrow> bool" where
  "merges_ok m \<longleftrightarrow> gomap_ok m \<and> list_all merge_ok m \<and>
     (\<forall>e\<in>set m. \<forall>e'\<in>set m. overlap e e' \<longrightarrow> e = e')"

lemma overlap_same_anchor: "merge_ok (a, sp) \<Longrightarrow> merge_ok (a, sq) \<Longrightarrow> overlap (a, sp) (a, sq)"
  by (simp add: merge_ok_def overlap_def intersects_def)

lemma merges_okI:
  assumes "distinct m" "list_all merge_ok m" "\<And>e e'. e \<in> set m \<Longrightarrow> e' \<in> set m \<Longrightarrow> overlap e e' \<Longrightarrow> e = e'"
  shows "merges_ok m"
proof -
  have "inj_on fst (set m)"
  proof (rule inj_onI)
    fix e e' assume e: "e \<in> set m" "e' \<in> set m" "fst e = fst e'"
    with assms(2) overlap_same_anchor[of "fst e" "snd e" "snd e'"] assms(3)[of e e'] show "e = e'"
      by (cases e; cases e') (auto simp: list_all_iff)
  qed
  with assms show ?thesis by (simp add: merges_ok_def gomap_ok_def distinct_map)
qed

lemma merges_ok_filter: "merges_ok m \<Longrightarrow> merges_ok (filter P m)"
  by (simp add: merges_ok_def gomap_ok_def distinct_map_filter list_all_iff)

subsection \<open>Insertion and deletion\<close>

lemma shift_merge_row: "shift_merge AxisRow i d (a, sp) =
   (let nlo = shiftCoord (Row a) i d; n = shiftEnd (Row a + SpanRows sp) i d - nlo
    in if n \<le> 0 \<or> n \<le> 1 \<and> SpanCols sp \<le> 1 then None else Some (a\<lparr>Row := nlo\<rparr>, sp\<lparr>SpanRows := n\<rparr>))"
  by (simp add: shift_merge_def Let_def)

lemma shift_merge_col: "shift_merge AxisCol i d (a, sp) =
   (let nlo = shiftCoord (Col a) i d; n = shiftEnd (Col a + SpanCols sp) i d - nlo
    in if n \<le> 0 \<or> SpanRows sp \<le> 1 \<and> n \<le> 1 then None else Some (a\<lparr>Col := nlo\<rparr>, sp\<lparr>SpanCols := n\<rparr>))"
  by (auto simp: shift_merge_def Let_def)

lemma shift_merge_ok: "merge_ok e \<Longrightarrow> shift_merge ax i d e = Some e' \<Longrightarrow> merge_ok e'"
  by (cases ax; cases e) (auto simp: shift_merge_row shift_merge_col merge_ok_def Let_def split: if_splits)

text \<open>Two intervals that do not meet are still apart after the shift.\<close>

lemma shift_apart: "hi \<le> lo' \<Longrightarrow> shiftEnd hi i d - shiftCoord lo' i d \<le> 0"
  using shiftEnd_le[of hi lo' i d] by simp

lemma shift_merge_overlap:
  assumes "merge_ok e" "merge_ok f" "shift_merge ax i d e = Some e'" "shift_merge ax i d f = Some f'" "overlap e' f'"
  shows "overlap e f"
proof -
  obtain a sp b sq where e: "e = (a, sp)" "f = (b, sq)" by (cases e, cases f) auto
  show ?thesis
  proof (cases ax)
    case AxisRow
    with assms e have 1: "e' = (a\<lparr>Row := shiftCoord (Row a) i d\<rparr>, sp\<lparr>SpanRows := shiftEnd (Row a + SpanRows sp) i d - shiftCoord (Row a) i d\<rparr>)"
      "f' = (b\<lparr>Row := shiftCoord (Row b) i d\<rparr>, sq\<lparr>SpanRows := shiftEnd (Row b + SpanRows sq) i d - shiftCoord (Row b) i d\<rparr>)"
      by (auto simp: shift_merge_row Let_def split: if_splits)
    with assms(5) e shift_apart[of "Row a + SpanRows sp" "Row b" i d] shift_apart[of "Row b + SpanRows sq" "Row a" i d]
    show ?thesis by (fastforce simp: overlap_def intersects_def)
  next
    case AxisCol
    with assms e have 1: "e' = (a\<lparr>Col := shiftCoord (Col a) i d\<rparr>, sp\<lparr>SpanCols := shiftEnd (Col a + SpanCols sp) i d - shiftCoord (Col a) i d\<rparr>)"
      "f' = (b\<lparr>Col := shiftCoord (Col b) i d\<rparr>, sq\<lparr>SpanCols := shiftEnd (Col b + SpanCols sq) i d - shiftCoord (Col b) i d\<rparr>)"
      by (auto simp: shift_merge_col Let_def split: if_splits)
    with assms(5) e shift_apart[of "Col a + SpanCols sp" "Col b" i d] shift_apart[of "Col b + SpanCols sq" "Col a" i d]
    show ?thesis by (fastforce simp: overlap_def intersects_def)
  qed
qed

lemma overlap_refl: "merge_ok e \<Longrightarrow> overlap e e"
  by (cases e) (simp add: overlap_same_anchor)

lemma in_map_filter: "y \<in> set (List.map_filter f xs) \<longleftrightarrow> (\<exists>x\<in>set xs. f x = Some y)"
  by (induction xs) (auto simp: map_filter_simps split: option.splits)

text \<open>No two ranges move to the same anchor, so the map is rebuilt entry by entry.\<close>

lemma fold_set_filter:
  "distinct (map fst (List.map_filter f m)) \<Longrightarrow> fst ` set out \<inter> fst ` set (List.map_filter f m) = {} \<Longrightarrow>
   fold (\<lambda>e out. case f e of None \<Rightarrow> out | Some (a, sp) \<Rightarrow> gomap_set out a sp) m out = out @ List.map_filter f m"
proof (induction m arbitrary: out)
  case (Cons e m)
  show ?case
  proof (cases "f e")
    case None
    with Cons show ?thesis by (simp add: map_filter_simps)
  next
    case (Some e')
    obtain a sp where e': "e' = (a, sp)" by fastforce
    have "gomap_set out a sp = out @ [(a, sp)]"
      using Cons.prems Some e' by (intro update_new) (auto simp: map_filter_simps)
    with Cons.IH[of "out @ [(a, sp)]"] Cons.prems Some e' show ?thesis by (auto simp: map_filter_simps)
  qed
qed (simp add: map_filter_simps)

lemma shiftMerges_ok_list:
  assumes "merges_ok m"
  shows "shiftMerges m ax i d = List.map_filter (shift_merge ax i d) m \<and> merges_ok (List.map_filter (shift_merge ax i d) m)"
proof -
  let ?f = "shift_merge ax i d"
  let ?m = "List.map_filter ?f m"
  have ok: "list_all merge_ok m" "distinct m" using assms by (auto simp: merges_ok_def gomap_ok_def distinct_map)
  have in_m: "e' \<in> set ?m \<longleftrightarrow> (\<exists>e\<in>set m. ?f e = Some e')" for e'
    by (rule in_map_filter)
  have inj: "e = f" if e: "e \<in> set m" "f \<in> set m" "?f e = Some e'" "?f f = Some f'" "overlap e' f'" for e f e' f'
    using assms shift_merge_overlap[OF _ _ e(3-5)] e(1,2) by (auto simp: merges_ok_def list_all_iff)
  have "distinct ?m"
    using ok inj
  proof (induction m)
    case (Cons e m)
    have IH: "distinct (List.map_filter ?f m)" using Cons.prems by (intro Cons.IH) auto
    show ?case
    proof (cases "?f e")
      case None
      with IH show ?thesis by (simp add: map_filter_simps)
    next
      case (Some e')
      have "e' \<notin> set (List.map_filter ?f m)"
      proof
        assume "e' \<in> set (List.map_filter ?f m)"
        then obtain f where f: "f \<in> set m" "?f f = Some e'" by (force simp: map_filter_def)
        have "overlap e' e'" using Cons.prems(1) Some shift_merge_ok[of e ax i d e'] by (simp add: overlap_refl)
        with Cons.prems(3)[of e f e' e'] f Some have "e = f" by simp
        with f Cons.prems(2) show False by simp
      qed
      with IH Some show ?thesis by (simp add: map_filter_simps)
    qed
  qed (simp add: map_filter_simps)
  moreover have "list_all merge_ok ?m"
  proof (unfold list_all_iff, rule ballI)
    fix e' assume "e' \<in> set ?m"
    with in_m[of e'] obtain e where "e \<in> set m" "?f e = Some e'" by auto
    with ok(1) shift_merge_ok[of e ax i d e'] show "merge_ok e'" by (simp add: list_all_iff)
  qed
  ultimately have m: "merges_ok ?m"
  proof (rule merges_okI)
    fix e' f' assume e': "e' \<in> set ?m" "f' \<in> set ?m" "overlap e' f'"
    then obtain e f where "e \<in> set m" "?f e = Some e'" "f \<in> set m" "?f f = Some f'" using in_m by blast
    with inj[of e f e' f'] e'(3) show "e' = f'" by simp
  qed
  moreover have "shiftMerges m ax i d = ?m"
    using fold_set_filter[of ?f m "[]"] m by (auto simp: shiftMerges_def merges_ok_def gomap_ok_def gomap_len_def map_filter_simps)
  ultimately show ?thesis by simp
qed

lemmas shiftMerges_eq = shiftMerges_ok_list[THEN conjunct1]

lemma shiftMerges_ok: "merges_ok m \<Longrightarrow> merges_ok (shiftMerges m ax i d)"
  using shiftMerges_ok_list[of m ax i d] by simp

lemma shift_merge_back:
  assumes "merge_ok e" "0 \<le> n"
  shows "\<exists>e'. shift_merge ax i n e = Some e' \<and> shift_merge ax i (- n) e' = Some e"
proof -
  obtain a sp where e: "e = (a, sp)" by fastforce
  show ?thesis
  proof (cases ax)
    case AxisRow
    with assms e shiftEnd_larger[of n "Row a" "Row a + SpanRows sp" i] shift_back[OF assms(2), of _ i] show ?thesis
      by (cases a; cases sp) (auto simp: shift_merge_row Let_def merge_ok_def)
  next
    case AxisCol
    with assms e shiftEnd_larger[of n "Col a" "Col a + SpanCols sp" i] shift_back[OF assms(2), of _ i] show ?thesis
      by (cases a; cases sp) (auto simp: shift_merge_col Let_def merge_ok_def)
  qed
qed

lemma shiftMerges_back:
  assumes "merges_ok m" "0 \<le> n"
  shows "shiftMerges (shiftMerges m ax i n) ax i (- n) = m"
proof -
  have "list_all merge_ok m \<Longrightarrow>
      List.map_filter (shift_merge ax i (- n)) (List.map_filter (shift_merge ax i n) m) = m" for m
  proof (induction m)
    case (Cons e m)
    then obtain e' where "shift_merge ax i n e = Some e'" "shift_merge ax i (- n) e' = Some e"
      using shift_merge_back[OF _ assms(2)] by (metis list.pred_inject(2))
    with Cons show ?case by (simp add: map_filter_simps)
  qed (simp add: map_filter_simps)
  with assms(1) shiftMerges_ok_list[OF assms(1), of ax i n] shiftMerges_eq[of "List.map_filter (shift_merge ax i n) m" ax i "- n"]
  show ?thesis by (simp add: merges_ok_def)
qed

text \<open>What an insertion does to one range.\<close>

definition inserted_merge :: "int \<Rightarrow> int \<Rightarrow> merge \<Rightarrow> merge" where
  "inserted_merge i n = (\<lambda>(a, sp).
     if i \<le> Row a then (a\<lparr>Row := Row a + n\<rparr>, sp)
     else if i < Row a + SpanRows sp then (a, sp\<lparr>SpanRows := SpanRows sp + n\<rparr>) else (a, sp))"

lemma shift_merge_insert: "merge_ok e \<Longrightarrow> 0 < n \<Longrightarrow> shift_merge AxisRow i n e = Some (inserted_merge i n e)"
proof -
  obtain a sp where e: "e = (a, sp)" by fastforce
  assume "merge_ok e" "0 < n"
  with e show ?thesis
    by (cases a; cases sp) (auto simp: shift_merge_row inserted_merge_def merge_ok_def shiftCoord_def shiftEnd_def)
qed

lemma shiftMerges_insert: "merges_ok m \<Longrightarrow> 0 < n \<Longrightarrow> shiftMerges m AxisRow i n = map (inserted_merge i n) m"
proof -
  assume m: "merges_ok m" "0 < n"
  have "list_all merge_ok m \<Longrightarrow> List.map_filter (shift_merge AxisRow i n) m = map (inserted_merge i n) m" for m
    by (induction m) (simp_all add: map_filter_simps shift_merge_insert[OF _ m(2)])
  with m shiftMerges_eq[OF m(1)] show ?thesis by (simp add: merges_ok_def)
qed

subsection \<open>Merging and unmerging\<close>

lemma absorb_ok: "merges_ok m \<Longrightarrow> merges_ok (absorb op' m)"
  by (simp add: absorb_def merges_ok_filter)

lemma overlap_sym: "overlap e f \<Longrightarrow> overlap f e"
  by (cases e; cases f) (auto simp: overlap_def intersects_def)

lemma merge_cells_ok:
  assumes "merges_ok m" "o_row op' \<le> o_endRow op'" "o_col op' \<le> o_endCol op'"
    "\<not> (o_endRow op' = o_row op' \<and> o_endCol op' = o_col op')"
  shows "merges_ok (gomap_set (absorb op' m) (op_ref op')
    \<lparr>SpanRows = o_endRow op' - o_row op' + 1, SpanCols = o_endCol op' - o_col op' + 1\<rparr>)"
proof -
  let ?new = "(op_ref op', \<lparr>SpanRows = o_endRow op' - o_row op' + 1, SpanCols = o_endCol op' - o_col op' + 1\<rparr>)"
  let ?m = "absorb op' m"
  have ok: "merge_ok ?new" using assms(2-4) by (auto simp: merge_ok_def)
  have apart: "\<not> overlap e ?new" if "e \<in> set ?m" for e
    using that by (auto simp: absorb_def overlap_def op_ref_def)
  have "op_ref op' \<notin> fst ` set ?m"
  proof
    assume "op_ref op' \<in> fst ` set ?m"
    then obtain sp where sp: "(op_ref op', sp) \<in> set ?m" by auto
    with assms(1) have "merge_ok (op_ref op', sp)" by (auto simp: absorb_def merges_ok_def list_all_iff)
    with overlap_same_anchor[OF this ok] apart[OF sp] show False by simp
  qed
  from update_new[OF this] have set: "gomap_set ?m (op_ref op') (snd ?new) = ?m @ [?new]" by simp
  have m: "merges_ok ?m" using assms(1) by (rule absorb_ok)
  have "merges_ok (?m @ [?new])"
  proof (rule merges_okI)
    show "distinct (?m @ [?new])" using m apart[of ?new] overlap_refl[OF ok] by (auto simp: merges_ok_def gomap_ok_def distinct_map)
    show "list_all merge_ok (?m @ [?new])" using m ok by (simp add: merges_ok_def)
    show "e = e'" if "e \<in> set (?m @ [?new])" "e' \<in> set (?m @ [?new])" "overlap e e'" for e e'
    proof -
      from that(1,2) have "e \<in> set ?m \<or> e = ?new" "e' \<in> set ?m \<or> e' = ?new" by auto
      with that(3) m apart overlap_sym show ?thesis unfolding merges_ok_def by metis
    qed
  qed
  with set show ?thesis by simp
qed

end
