(* ===== verification/SheetStyles.thy ===== *)
theory SheetStyles
  imports SheetOps
begin

text \<open>
  The style pool: it interns styles up to their canonical keys, as the attribute pool interns
  attributes (the same contract \<open>intern_pool\<close>), and for properties that pass validation the
  canonical key determines the properties. Rebuilding the index of a stored pool gives back
  the index.
\<close>

definition style_ok :: "StylePool \<Rightarrow> bool" where
  "style_ok p \<longleftrightarrow> gomap_ok (IdToStyle p) \<and> gomap_ok (keyToId p) \<and> 1 \<le> NextId p \<and> gomap_get (keyToId p) [] = Some 0 \<and>
     (\<forall>ident s. gomap_get (IdToStyle p) ident = Some s \<longrightarrow> 1 \<le> ident \<and> ident < NextId p \<and> canonicalKey s \<noteq> [] \<and>
        gomap_get (keyToId p) (canonicalKey s) = Some ident) \<and>
     (\<forall>key ident. gomap_get (keyToId p) key = Some ident \<longrightarrow>
        key = [] \<and> ident = 0 \<or> (\<exists>s. gomap_get (IdToStyle p) ident = Some s \<and> canonicalKey s = key))"

lemma style_ok_new [simp]: "style_ok NewStylePool"
  by (simp add: style_ok_def NewStylePool_def gomap_get_Cons gomap_ok_def)

lemma Style_eta [simp]: "\<lparr>Props = Props s\<rparr> = s"
  by (cases s) simp

definition style_key :: "StylePool \<Rightarrow> int \<Rightarrow> gostring option" where
  "style_key p ident = map_option canonicalKey (Style_Get p ident)"

lemma canonicalKey_empty [simp]: "canonicalKey \<lparr>Props = []\<rparr> = []"
  by (simp add: canonicalKey_def gomap_len_def)

lemma style_key_index:
  assumes "style_ok p"
  shows "style_key p ident = Some key \<longleftrightarrow> gomap_get (keyToId p) key = Some ident"
proof
  assume "style_key p ident = Some key"
  with assms show "gomap_get (keyToId p) key = Some ident"
    by (auto simp: style_key_def Style_Get_def style_ok_def split: if_splits)
next
  assume k: "gomap_get (keyToId p) key = Some ident"
  with assms consider "key = []" "ident = 0" | s where "gomap_get (IdToStyle p) ident = Some s" "canonicalKey s = key"
    unfolding style_ok_def by blast
  then show "style_key p ident = Some key"
  proof cases
    case 2
    with assms have "ident \<noteq> 0" by (fastforce simp: style_ok_def)
    with 2 show ?thesis by (simp add: style_key_def Style_Get_def)
  qed (simp add: style_key_def Style_Get_def)
qed

lemma Style_Put_known: "gomap_get (keyToId p) (canonicalKey s) = Some ident \<Longrightarrow> Style_Put s p = (ident, p)"
  by (simp add: Style_Put_def Let_def)

lemma style_ok_Put:
  assumes "style_ok p"
  shows "style_ok (snd (Style_Put s p))"
proof (cases "gomap_get (keyToId p) (canonicalKey s)")
  case (Some ident)
  with assms show ?thesis by (simp add: Style_Put_known)
next
  case None
  let ?p = "snd (Style_Put s p)"
  have p: "IdToStyle ?p = gomap_set (IdToStyle p) (NextId p) s" "keyToId ?p = gomap_set (keyToId p) (canonicalKey s) (NextId p)"
    "NextId ?p = NextId p + 1" using None by (simp_all add: Style_Put_def Let_def)
  from assms None have key: "canonicalKey s \<noteq> []" by (auto simp: style_ok_def)
  have old: "ident \<noteq> NextId p" if "gomap_get (IdToStyle p) ident = Some t" for ident t
    using assms that by (fastforce simp: style_ok_def)
  have entry: "1 \<le> ident \<and> ident < NextId p + 1 \<and> canonicalKey t \<noteq> [] \<and>
      gomap_get (gomap_set (keyToId p) (canonicalKey s) (NextId p)) (canonicalKey t) = Some ident"
    if t: "gomap_get (gomap_set (IdToStyle p) (NextId p) s) ident = Some t" for ident t
  proof (cases "ident = NextId p")
    case True
    with t assms key show ?thesis by (simp add: style_ok_def)
  next
    case False
    with t assms have "1 \<le> ident \<and> ident < NextId p \<and> canonicalKey t \<noteq> [] \<and>
        gomap_get (keyToId p) (canonicalKey t) = Some ident" by (simp add: style_ok_def)
    with None show ?thesis by auto
  qed
  have index: "k = [] \<and> ident = 0 \<or> (\<exists>t. gomap_get (gomap_set (IdToStyle p) (NextId p) s) ident = Some t \<and> canonicalKey t = k)"
    if k: "gomap_get (gomap_set (keyToId p) (canonicalKey s) (NextId p)) k = Some ident" for k ident
  proof (cases "k = canonicalKey s")
    case False
    with k have "gomap_get (keyToId p) k = Some ident" by simp
    with assms consider "k = [] \<and> ident = 0" | t where "gomap_get (IdToStyle p) ident = Some t" "canonicalKey t = k"
      unfolding style_ok_def by blast
    then show ?thesis by cases (use old in auto)
  qed (use k in auto)
  from assms key have "gomap_ok (gomap_set (IdToStyle p) (NextId p) s)" "gomap_ok (gomap_set (keyToId p) (canonicalKey s) (NextId p))"
    "1 \<le> NextId p + 1" "gomap_get (gomap_set (keyToId p) (canonicalKey s) (NextId p)) [] = Some 0"
    by (auto simp: style_ok_def)
  with entry index show ?thesis unfolding style_ok_def p by blast
qed

lemma style_get_put:
  assumes "style_ok p"
  shows "style_key (snd (Style_Put s p)) (fst (Style_Put s p)) = Some (canonicalKey s)"
  unfolding style_key_index[OF style_ok_Put[OF assms]]
  by (cases "gomap_get (keyToId p) (canonicalKey s)") (simp_all add: Style_Put_def Let_def)

lemma style_put_keeps:
  assumes "style_ok p" "style_key p n = Some k"
  shows "style_key (snd (Style_Put s p)) n = Some k"
proof (cases "gomap_get (keyToId p) (canonicalKey s)")
  case (Some ident)
  with assms show ?thesis by (simp add: Style_Put_known)
next
  case None
  with assms style_key_index[OF assms(1), of n k] have "k \<noteq> canonicalKey s" by auto
  with None assms style_key_index[OF style_ok_Put[OF assms(1)], of s n k] style_key_index[OF assms(1), of n k] show ?thesis
    by (simp add: Style_Put_def Let_def)
qed

interpretation styles: intern_pool Style_Put style_key canonicalKey style_ok
  by unfold_locales (auto simp: style_ok_Put style_get_put style_put_keeps style_key_index Style_Put_known)

subsection \<open>Canonical keys\<close>

text \<open>Strings without the two separators.\<close>

definition plain_text :: "gostring \<Rightarrow> bool" where
  "plain_text s \<longleftrightarrow> 0 \<notin> set s \<and> 1 \<notin> set s"

lemma plain_text_simps [simp]: "plain_text []" "plain_text (c # s) \<longleftrightarrow> c \<noteq> 0 \<and> c \<noteq> 1 \<and> plain_text s"
  by (auto simp: plain_text_def)

definition key_entry :: "gostring \<times> gostring \<Rightarrow> gostring" where
  "key_entry = (\<lambda>(k, v). k @ [0] @ v @ [1])"

lemma until_separator:
  "x \<notin> set k \<Longrightarrow> x \<notin> set k' \<Longrightarrow> k @ x # s = k' @ x # s' \<longleftrightarrow> k = k' \<and> s = s'"
  by (induction k arbitrary: k') (auto simp: append_eq_Cons_conv Cons_eq_append_conv; case_tac k'; auto)+

lemma key_entry_inject:
  "plain_text k \<Longrightarrow> plain_text v \<Longrightarrow> plain_text k' \<Longrightarrow> plain_text v' \<Longrightarrow>
   key_entry (k, v) @ s = key_entry (k', v') @ s' \<longleftrightarrow> k = k' \<and> v = v' \<and> s = s'"
  by (auto simp: key_entry_def plain_text_def until_separator)

lemma key_entries_inject:
  "list_all (\<lambda>(k, v). plain_text k \<and> plain_text v) ps \<Longrightarrow> list_all (\<lambda>(k, v). plain_text k \<and> plain_text v) qs \<Longrightarrow>
   concat (map key_entry ps) = concat (map key_entry qs) \<Longrightarrow> ps = qs"
proof (induction ps arbitrary: qs)
  case Nil
  then show ?case by (cases qs) (auto simp: key_entry_def split: prod.splits)
next
  case (Cons p ps)
  then obtain q qs' where qs: "qs = q # qs'" by (cases qs) (auto simp: key_entry_def split: prod.splits)
  obtain k v k' v' where e: "p = (k, v)" "q = (k', v')" by (cases p, cases q) auto
  have "p = q \<and> concat (map key_entry ps) = concat (map key_entry qs')"
    using Cons.prems qs e key_entry_inject[of k v k' v' "concat (map key_entry ps)" "concat (map key_entry qs')"] by simp
  with Cons.IH[of qs'] Cons.prems qs show ?case by simp
qed

definition plain_props :: "props \<Rightarrow> bool" where
  "plain_props m \<longleftrightarrow> gomap_ok m \<and> list_all (\<lambda>(k, v). plain_text k \<and> plain_text v) m"

definition prop_entries :: "props \<Rightarrow> (gostring \<times> gostring) list" where
  "prop_entries m = map (\<lambda>k. (k, case gomap_get m k of Some v \<Rightarrow> v | None \<Rightarrow> [])) (prop_keys m)"

lemma canonicalKey_entries: "canonicalKey s = concat (map key_entry (prop_entries (Props s)))"
  by (auto simp: canonicalKey_def prop_entries_def prop_keys_def key_entry_def gomap_len_def comp_def)

lemma prop_entries_get:
  assumes "gomap_ok m"
  shows "map_of (prop_entries m) = gomap_get m"
proof
  fix k
  have k: "k \<in> set (prop_keys m) \<longleftrightarrow> gomap_get m k \<noteq> None"
    by (auto simp: prop_keys_def gomap_get_def map_of_eq_None_iff)
  show "map_of (prop_entries m) k = gomap_get m k"
    using k by (auto simp: prop_entries_def map_of_map_restrict restrict_map_def split: option.splits)
qed

lemma prop_entries_plain: "plain_props m \<Longrightarrow> list_all (\<lambda>(k, v). plain_text k \<and> plain_text v) (prop_entries m)"
  by (fastforce simp: plain_props_def prop_entries_def prop_keys_def list_all_iff gomap_ok_in dest!: gomap_get_in split: option.splits)

lemma canonicalKey_inject:
  assumes "plain_props (Props s)" "plain_props (Props t)" "canonicalKey s = canonicalKey t"
  shows "gomap_get (Props s) = gomap_get (Props t)"
proof -
  have "prop_entries (Props s) = prop_entries (Props t)"
    using assms key_entries_inject[OF prop_entries_plain prop_entries_plain] by (simp add: canonicalKey_entries)
  with assms(1,2) show ?thesis by (metis plain_props_def prop_entries_get)
qed

lemma canonicalKey_cong:
  assumes "gomap_ok (Props s)" "gomap_ok (Props t)" "gomap_get (Props s) = gomap_get (Props t)"
  shows "canonicalKey s = canonicalKey t"
proof -
  have "set (map fst (Props s)) = set (map fst (Props t))" using assms(3) gomap_dom[of "Props s"] gomap_dom[of "Props t"] by simp
  with assms(1,2) have "prop_keys (Props s) = prop_keys (Props t)"
    unfolding prop_keys_def gomap_ok_def by (metis sorted_distinct_set_unique distinct_sort set_sort sorted_sort)
  with assms(3) show ?thesis by (simp add: canonicalKey_entries prop_entries_def)
qed

text \<open>Validated properties have no separators.\<close>

lemma digits_plain: "list_all is_digit s \<Longrightarrow> plain_text s" "list_all is_hex s \<Longrightarrow> plain_text s"
  by (auto simp: plain_text_def list_all_iff is_digit_def is_hex_def)

lemma plain_text_append [simp]: "plain_text (s @ t) \<longleftrightarrow> plain_text s \<and> plain_text t"
  by (auto simp: plain_text_def)

lemma hexColor_plain: "hexColor_match v \<Longrightarrow> plain_text v"
  by (cases v) (auto simp: hexColor_match_def digits_plain)

lemma fontSize_plain: "fontSize_match v \<Longrightarrow> plain_text v"
  by (cases v) (auto simp: fontSize_match_def digits_plain)

lemma numFmt_plain:
  assumes "numFmt_match v"
  shows "plain_text v"
proof -
  have suffix: "plain_text v" if "has_prefix v p" "plain_text p"
    "drop (length p) v = [] \<or> hd (drop (length p) v) = 58 \<and> list_all is_digit (tl (drop (length p) v))" for p
  proof -
    from that(1) have v: "v = p @ drop (length p) v" by (metis append_take_drop_id has_prefix_def)
    have "plain_text (drop (length p) v)" using that(3) by (cases "drop (length p) v") (auto simp: digits_plain)
    with that(2) v show ?thesis by (metis plain_text_append)
  qed
  from assms consider "v \<in> {lit ''general'', lit ''text'', lit ''date''}" |
    p where "p \<in> {lit ''number'', lit ''currency'', lit ''percent''}" "has_prefix v p"
      "drop (length p) v = [] \<or> hd (drop (length p) v) = 58 \<and> list_all is_digit (tl (drop (length p) v))"
    unfolding numFmt_match_def Let_def list_ex_iff list.set by (simp only: insert_iff empty_iff) blast
  then show ?thesis
  proof cases
    case 2
    from 2(1) have "plain_text p" by auto
    with suffix[of p] 2 show ?thesis by blast
  next
    case 1
    then show ?thesis by (elim insertE) simp_all
  qed
qed

lemma plain_words:
  "\<forall>w\<in>{''bold'', ''italic'', ''underline'', ''strike'', ''color'', ''bg'', ''align'', ''valign'', ''border'', ''numFmt'',
     ''fontFamily'', ''fontSize'', ''wrap'', ''1'', ''left'', ''center'', ''right'', ''top'', ''middle'', ''bottom'', ''all'',
     ''Calibri'', ''Arial'', ''Times New Roman'', ''Courier New'', ''Georgia'', ''Verdana''}. plain_text (lit w)"
  by simp

lemma prop_ok_cases:
  assumes "prop_ok k v = Some True"
  shows "k \<in> {lit ''bold'', lit ''italic'', lit ''underline'', lit ''strike''} \<and> v = lit ''1'' \<or>
    k \<in> {lit ''color'', lit ''bg''} \<and> hexColor_match v \<or>
    k = lit ''align'' \<and> v \<in> {lit ''left'', lit ''center'', lit ''right''} \<or>
    k = lit ''valign'' \<and> v \<in> {lit ''top'', lit ''middle'', lit ''bottom''} \<or>
    k = lit ''border'' \<and> v = lit ''all'' \<or> k = lit ''numFmt'' \<and> numFmt_match v \<or>
    k = lit ''fontFamily'' \<and> v \<in> set fontFamilies \<or> k = lit ''fontSize'' \<and> fontSize_match v \<or>
    k = lit ''wrap'' \<and> v = lit ''1''"
  using assms unfolding prop_ok_def by (simp del: lit_simps insert_iff split: if_split_asm)

lemma prop_ok_plain:
  assumes "prop_ok k v = Some True"
  shows "plain_text k \<and> plain_text v"
  using prop_ok_cases[OF assms] plain_words
  by (elim disjE; simp add: fontFamilies_def hexColor_plain fontSize_plain numFmt_plain del: lit_simps; blast)

lemma ValidateProps_plain: "gomap_ok m \<Longrightarrow> ValidateProps m = None \<Longrightarrow> plain_props m"
  by (induction m rule: ValidateProps.induct)
    (auto simp: plain_props_def gomap_ok_def split: option.splits if_splits dest: prop_ok_plain)

end
