(* ===== verification/SheetSpec.thy ===== *)
theory SheetSpec
  imports SheetMerges SheetStyles "HOL-Library.Multiset"
begin

text \<open>
  What \<^verbatim>\<open>Apply\<close>, \<^verbatim>\<open>Transform\<close> and \<^verbatim>\<open>Submit\<close> keep: a well-formed workbook stays well-formed, a
  valid operation is never refused, and the server's document is the replay of its log.
\<close>

subsection \<open>Well-formed workbooks\<close>

definition cells_ok :: "(CellRef, Cell) gomap \<Rightarrow> bool" where
  "cells_ok m \<longleftrightarrow> gomap_ok m \<and>
     (\<forall>ref c. gomap_get m ref = Some c \<longrightarrow> \<not> Cell_IsEmpty c \<and> 0 \<le> Row ref \<and> 0 \<le> Col ref)"

definition sheet_ok :: "Sheet \<Rightarrow> bool" where
  "sheet_ok s \<longleftrightarrow> cells_ok (Cells s) \<and> gomap_ok (ColWidths s) \<and> gomap_ok (RowHeights s) \<and> merges_ok (Merges s) \<and>
     FrozenRows s \<in> {0, 1} \<and> FrozenCols s \<in> {0, 1}"

definition wb_ok :: "Workbook \<Rightarrow> bool" where
  "wb_ok w \<longleftrightarrow> distinct (map SheetId (Sheets w)) \<and> list_all sheet_ok (Sheets w) \<and> style_ok (Styles w)"

lemma sheet_ok_new [simp]: "sheet_ok (NewSheet ident name)"
  by (simp add: sheet_ok_def cells_ok_def NewSheet_def merges_ok_def)

lemma wb_ok_new [simp]: "wb_ok NewWorkbook"
  by (simp add: wb_ok_def NewWorkbook_def)

lemma sheet_ok_cells: "sheet_ok s \<Longrightarrow> gomap_ok (Cells s)"
  by (simp add: sheet_ok_def cells_ok_def)

lemma cells_ok_set: "cells_ok m \<Longrightarrow> \<not> Cell_IsEmpty c \<Longrightarrow> 0 \<le> Row ref \<Longrightarrow> 0 \<le> Col ref \<Longrightarrow> cells_ok (gomap_set m ref c)"
  by (auto simp: cells_ok_def split: if_splits)

lemma cells_ok_del: "cells_ok m \<Longrightarrow> cells_ok (gomap_del m ref)"
  by (auto simp: cells_ok_def split: if_splits)

lemma gomap_get_filter:
  "gomap_ok m \<Longrightarrow> gomap_get (filter P m) k = (case gomap_get m k of Some v \<Rightarrow> if P (k, v) then Some v else None | None \<Rightarrow> None)"
proof (induction m)
  case (Cons e m)
  then have "gomap_ok m" "fst e \<notin> fst ` set m" by (auto simp: gomap_ok_def)
  with Cons.IH show ?case
    by (cases e) (auto simp: gomap_get_Cons gomap_get_def map_of_eq_None_iff image_iff split: option.splits)
qed simp

lemma gomap_ok_filter [simp]: "gomap_ok m \<Longrightarrow> gomap_ok (filter P m)"
  by (simp add: gomap_ok_def distinct_map_filter)

lemma cells_ok_filter: "cells_ok m \<Longrightarrow> cells_ok (filter P m)"
  by (auto simp: cells_ok_def gomap_get_filter split: option.splits if_splits)

lemma SetCell_ok: "sheet_ok s \<Longrightarrow> 0 \<le> Row ref \<Longrightarrow> 0 \<le> Col ref \<Longrightarrow> sheet_ok (SetCell ref c s)"
  by (auto simp: sheet_ok_def SetCell_def cells_ok_set cells_ok_del)

lemma unshift_nonneg: "unshift r i d = Some r' \<Longrightarrow> 0 \<le> r' \<Longrightarrow> 0 \<le> i \<Longrightarrow> 0 \<le> r"
  by (auto simp: unshift_def split: if_splits)

lemma move_cells_ok:
  assumes "cells_ok (Cells s)" "0 \<le> i"
  shows "cells_ok (Cells (move_rows i d s))" "cells_ok (Cells (move_cols i d s))"
proof -
  have ok: "gomap_ok (Cells s)" using assms(1) by (simp add: cells_ok_def)
  have c: "\<not> Cell_IsEmpty c \<and> 0 \<le> Row ref \<and> 0 \<le> Col ref" if "gomap_get (Cells s) ref = Some c" for ref c
    using assms(1) that by (simp add: cells_ok_def)
  show "cells_ok (Cells (move_rows i d s))" unfolding cells_ok_def move_rows_get[OF ok]
    using c unshift_nonneg[OF _ _ assms(2)] by (fastforce simp: bind_eq_Some_conv)
  show "cells_ok (Cells (move_cols i d s))" unfolding cells_ok_def move_cols_get[OF ok]
    using c unshift_nonneg[OF _ _ assms(2)] by (fastforce simp: bind_eq_Some_conv)
qed

lemma move_fields [simp]:
  "FrozenRows (move_rows i d s) = FrozenRows s" "FrozenCols (move_rows i d s) = FrozenCols s"
  "ColWidths (move_rows i d s) = ColWidths s" "RowHeights (move_rows i d s) = RowHeights s"
  "SheetId (move_rows i d s) = SheetId s" "SheetName (move_rows i d s) = SheetName s" "Merges (move_rows i d s) = Merges s"
  "FrozenRows (move_cols i d s) = FrozenRows s" "FrozenCols (move_cols i d s) = FrozenCols s"
  "ColWidths (move_cols i d s) = ColWidths s" "RowHeights (move_cols i d s) = RowHeights s"
  "SheetId (move_cols i d s) = SheetId s" "SheetName (move_cols i d s) = SheetName s" "Merges (move_cols i d s) = Merges s"
  by (simp_all add: move_rows_def move_cols_def)

lemma grid_ok:
  assumes "sheet_ok s" "0 \<le> i" "0 < n"
  shows "sheet_ok (insert_rows i n s)" "sheet_ok (delete_rows i n s)" "sheet_ok (insert_cols i n s)" "sheet_ok (delete_cols i n s)"
  using assms by (simp_all add: grid_ops sheet_ok_def move_cells_ok shiftMerges_ok)

lemma apply_sheet_id: "apply_sheet op' s p = Inr (s', p') \<Longrightarrow> SheetId s' = SheetId s"
  by (auto simp: apply_sheet_def SetCell_def insert_rows_def delete_rows_def insert_cols_def delete_cols_def Let_def
      split: OpType.splits if_splits prod.splits)

lemma op_style_ok: "style_ok p \<Longrightarrow> style_ok (snd (op_style op' c p))"
  by (auto simp: op_style_def Let_def case_prod_unfold style_ok_Put split: option.splits)

text \<open>The operations that work on one sheet.\<close>

lemma apply_sheet_total:
  assumes "Validate op' = None" "o_type op' \<notin> {OpAddSheet, OpDeleteSheet, OpRenameSheet, OpMoveSheet}"
  shows "\<exists>s' p'. apply_sheet op' s p = Inr (s', p') \<and> (sheet_ok s \<longrightarrow> sheet_ok s') \<and> (style_ok p \<longrightarrow> style_ok p')"
proof (cases "o_type op'")
  case OpSetCell
  with assms(1) have "0 \<le> o_row op'" "0 \<le> o_col op'" by (auto simp: Validate_def split: if_splits)
  with OpSetCell SetCell_ok[of s "op_ref op'"] op_style_ok[of p op'] show ?thesis
    by (auto simp: apply_sheet_def op_ref_def Let_def case_prod_unfold)
next
  case OpSetStyle
  with assms(1) have "0 \<le> o_row op'" "0 \<le> o_col op'" "\<not> (o_props op' = None \<and> o_styleId op' = None)"
    by (auto simp: Validate_def split: if_splits)
  with OpSetStyle SetCell_ok[of s "op_ref op'"] op_style_ok[of p op'] show ?thesis
    by (auto simp: apply_sheet_def op_ref_def Let_def case_prod_unfold)
next
  case OpClearRange
  then show ?thesis by (auto simp: apply_sheet_def sheet_ok_def cells_ok_filter)
next
  case OpInsertRows
  with assms(1) have "0 \<le> o_index op'" "0 < o_count op'" by (auto simp: Validate_def split: if_splits)
  with OpInsertRows grid_ok show ?thesis by (auto simp: apply_sheet_def)
next
  case OpDeleteRows
  with assms(1) have "0 \<le> o_index op'" "0 < o_count op'" by (auto simp: Validate_def split: if_splits)
  with OpDeleteRows grid_ok show ?thesis by (auto simp: apply_sheet_def)
next
  case OpInsertCols
  with assms(1) have "0 \<le> o_index op'" "0 < o_count op'" by (auto simp: Validate_def split: if_splits)
  with OpInsertCols grid_ok show ?thesis by (auto simp: apply_sheet_def)
next
  case OpDeleteCols
  with assms(1) have "0 \<le> o_index op'" "0 < o_count op'" by (auto simp: Validate_def split: if_splits)
  with OpDeleteCols grid_ok show ?thesis by (auto simp: apply_sheet_def)
next
  case OpSetDimension
  then show ?thesis by (auto simp: apply_sheet_def sheet_ok_def)
next
  case OpSetFreeze
  with assms(1) show ?thesis by (auto simp: apply_sheet_def sheet_ok_def Validate_def split: if_splits)
next
  case OpMergeCells
  with assms(1) have b: "o_row op' \<le> o_endRow op'" "o_col op' \<le> o_endCol op'" by (auto simp: Validate_def split: if_splits)
  with OpMergeCells merge_cells_ok[OF _ b, of "Merges s"] show ?thesis by (auto simp: apply_sheet_def sheet_ok_def)
next
  case OpUnmergeCells
  then show ?thesis by (auto simp: apply_sheet_def sheet_ok_def absorb_ok)
next
  case (OtherOp x)
  with assms(1) show ?thesis by (simp add: Validate_def split: if_splits)
qed (use assms(2) in simp_all)

lemma update_sheet_ids: "(\<And>s. SheetId s = ident \<Longrightarrow> SheetId (f s) = ident) \<Longrightarrow> map SheetId (update_sheet ident f ss) = map SheetId ss"
  by (induction ss) auto

lemma update_sheet_all: "list_all P ss \<Longrightarrow> (\<And>s. P s \<Longrightarrow> P (f s)) \<Longrightarrow> list_all P (update_sheet ident f ss)"
  by (induction ss) auto

lemma remove_sheet_subset: "set (remove_sheet ident ss) \<subseteq> set ss"
  by (induction ss) auto

lemma remove_sheet_distinct:
  "distinct (map SheetId ss) \<Longrightarrow> distinct (map SheetId (remove_sheet ident ss)) \<and> ident \<notin> SheetId ` set (remove_sheet ident ss)"
proof (induction ss)
  case (Cons s ss)
  have "SheetId s \<notin> SheetId ` set (remove_sheet ident ss)"
    using Cons.prems remove_sheet_subset[of ident ss] by auto
  with Cons show ?case by auto
qed simp

lemma slices_insert_mset: "mset (slices_insert xs i x) = add_mset x (mset xs)"
proof -
  have "mset xs = mset (take (nat i) xs) + mset (drop (nat i) xs)" by (metis append_take_drop_id mset_append)
  then show ?thesis by (simp add: slices_insert_def)
qed

lemma slices_insert_set [simp]: "set (slices_insert xs i x) = insert x (set xs)"
  by (metis set_mset_add_mset_insert set_mset_mset slices_insert_mset)

lemma slices_insert_distinct:
  "distinct (map g (slices_insert xs i x)) \<longleftrightarrow> distinct (map g xs) \<and> g x \<notin> g ` set xs"
proof -
  have "mset (map g (slices_insert xs i x)) = mset (map g (x # xs))" by (simp add: slices_insert_mset)
  then have "distinct (map g (slices_insert xs i x)) = distinct (map g (x # xs))" by (rule mset_eq_imp_distinct_iff)
  then show ?thesis by auto
qed

lemma SheetByID_Some: "SheetByID ident w = Some s \<Longrightarrow> s \<in> set (Sheets w) \<and> SheetId s = ident"
  by (auto simp: SheetByID_def find_Some_iff)

lemma SheetByID_None: "SheetByID ident w = None \<longleftrightarrow> ident \<notin> SheetId ` set (Sheets w)"
  by (auto simp: SheetByID_def find_None_iff)

lemma Apply_total:
  assumes "Validate op' = None"
  shows "\<exists>w'. Apply op' w = Inr w' \<and> (wb_ok w \<longrightarrow> wb_ok w') \<and> (Sheets w \<noteq> [] \<longrightarrow> Sheets w' \<noteq> [])"
proof -
  consider (add) "o_type op' = OpAddSheet" | (delete) "o_type op' = OpDeleteSheet" | (rename) "o_type op' = OpRenameSheet"
    | (move) "o_type op' = OpMoveSheet" | (sheet) "o_type op' \<notin> {OpAddSheet, OpDeleteSheet, OpRenameSheet, OpMoveSheet}" by auto
  then show ?thesis
  proof cases
    case add
    have "SheetId (NewSheet i n) = i" for i n by (simp add: NewSheet_def)
    then have "wb_ok (w\<lparr>Sheets := slices_insert (Sheets w) k (NewSheet (o_sheet op') n)\<rparr>)"
      if "wb_ok w" "SheetByID (o_sheet op') w = None" for k n
      using that by (auto simp: wb_ok_def slices_insert_distinct SheetByID_None list_all_iff)
    moreover have "slices_insert xs k s \<noteq> []" for xs k and s :: Sheet by (simp add: slices_insert_def)
    ultimately show ?thesis using assms add by (simp add: Apply_def)
  next
    case delete
    have "remove_sheet i ss \<noteq> []" if "length ss > 1" for i ss using that by (induction ss) auto
    then show ?thesis
      using assms delete remove_sheet_distinct[of "Sheets w" "o_sheet op'"] remove_sheet_subset[of "o_sheet op'" "Sheets w"]
      by (auto simp: Apply_def wb_ok_def list_all_iff)
  next
    case rename
    have "update_sheet i f ss = [] \<longleftrightarrow> ss = []" for i f ss by (cases ss) auto
    moreover have "sheet_ok (s\<lparr>SheetName := n\<rparr>) = sheet_ok s" for s n by (simp add: sheet_ok_def)
    then have "list_all sheet_ok (Sheets w) \<Longrightarrow> list_all sheet_ok (update_sheet i (\<lambda>s. s\<lparr>SheetName := n\<rparr>) (Sheets w))" for i n
      by (intro update_sheet_all) simp_all
    ultimately show ?thesis using assms rename by (simp add: Apply_def wb_ok_def update_sheet_ids)
  next
    case move
    show ?thesis
    proof (cases "SheetByID (o_sheet op') w")
      case None
      with assms move show ?thesis by (simp add: Apply_def)
    next
      case (Some s)
      from SheetByID_Some[OF this] have s: "s \<in> set (Sheets w)" "SheetId s = o_sheet op'" by simp_all
      let ?rest = "remove_sheet (o_sheet op') (Sheets w)"
      have "wb_ok (w\<lparr>Sheets := slices_insert ?rest k s\<rparr>)" if "wb_ok w" for k
        using that s remove_sheet_distinct[of "Sheets w" "o_sheet op'"] remove_sheet_subset[of "o_sheet op'" "Sheets w"]
        by (auto simp: wb_ok_def slices_insert_distinct list_all_iff)
      moreover have "slices_insert xs k s \<noteq> []" for xs k by (simp add: slices_insert_def)
      ultimately show ?thesis using assms move Some by (simp add: Apply_def Let_def)
    qed
  next
    case sheet
    then have on_sheet: "Apply op' w = (case SheetByID (o_sheet op') w of None \<Rightarrow> Inr w
        | Some s \<Rightarrow> bind_result (apply_sheet op' s (Styles w)) (\<lambda>(s1, p1).
            Inr (w\<lparr>Sheets := update_sheet (o_sheet op') (\<lambda>_. s1) (Sheets w), Styles := p1\<rparr>)))"
      using assms by (cases "o_type op'") (simp_all add: Apply_def)
    show ?thesis
    proof (cases "SheetByID (o_sheet op') w")
      case None
      with on_sheet show ?thesis by simp
    next
      case (Some s)
      from SheetByID_Some[OF this] have s: "s \<in> set (Sheets w)" "SheetId s = o_sheet op'" by simp_all
      from apply_sheet_total[OF assms sheet, of s "Styles w"] obtain s' p' where
        s': "apply_sheet op' s (Styles w) = Inr (s', p')" "sheet_ok s \<longrightarrow> sheet_ok s'" "style_ok (Styles w) \<longrightarrow> style_ok p'" by blast
      have "update_sheet i f ss = [] \<longleftrightarrow> ss = []" for i f ss by (cases ss) auto
      moreover have "wb_ok (w\<lparr>Sheets := update_sheet (o_sheet op') (\<lambda>_. s') (Sheets w), Styles := p'\<rparr>)" if "wb_ok w"
      proof -
        have "sheet_ok s'" using that s(1) s'(2) by (auto simp: wb_ok_def list_all_iff)
        with that have "list_all sheet_ok (update_sheet (o_sheet op') (\<lambda>_. s') (Sheets w))"
          by (intro update_sheet_all) (simp_all add: wb_ok_def)
        with that s(2) s'(3) apply_sheet_id[OF s'(1)] show ?thesis by (simp add: wb_ok_def update_sheet_ids)
      qed
      ultimately show ?thesis using on_sheet Some s'(1) by simp
    qed
  qed
qed

end
