(* ===== verification/SheetRebase.thy ===== *)
theory SheetRebase
  imports SheetSpec
begin

text \<open>
  Rebasing. \<^verbatim>\<open>Transform\<close> keeps operations valid, so what \<^verbatim>\<open>Submit\<close> accepts it also applies; the
  document is the replay of its log; a cell operation and an insertion commute through
  \<^verbatim>\<open>Transform\<close>; and a deletion undoes the insertion it follows.
\<close>

subsection \<open>Transform keeps operations valid\<close>

lemma shiftRows_fields [simp]:
  "o_type (shiftRows in0 i d) = o_type in0" "o_sheet (shiftRows in0 i d) = o_sheet in0"
  "o_baseRev (shiftRows in0 i d) = o_baseRev in0"
  "o_raw (shiftRows in0 i d) = o_raw in0" "o_styleId (shiftRows in0 i d) = o_styleId in0" "o_value (shiftRows in0 i d) = o_value in0"
  "o_valueType (shiftRows in0 i d) = o_valueType in0"
  "o_props (shiftRows in0 i d) = o_props in0" "o_row (shiftRows in0 i d) = shiftCoord (o_row in0) i d"
  "o_col (shiftRows in0 i d) = o_col in0" "o_endCol (shiftRows in0 i d) = o_endCol in0"
  "o_count (shiftRows in0 i d) = o_count in0" "o_name (shiftRows in0 i d) = o_name in0"
  "o_toIndex (shiftRows in0 i d) = o_toIndex in0" "o_axis (shiftRows in0 i d) = o_axis in0" "o_size (shiftRows in0 i d) = o_size in0"
  "o_frozenRows (shiftRows in0 i d) = o_frozenRows in0" "o_frozenCols (shiftRows in0 i d) = o_frozenCols in0"
  by (simp_all add: shiftRows_def Let_def)

lemma shiftCols_fields [simp]:
  "o_type (shiftCols in0 i d) = o_type in0" "o_sheet (shiftCols in0 i d) = o_sheet in0"
  "o_baseRev (shiftCols in0 i d) = o_baseRev in0"
  "o_raw (shiftCols in0 i d) = o_raw in0" "o_styleId (shiftCols in0 i d) = o_styleId in0" "o_value (shiftCols in0 i d) = o_value in0"
  "o_valueType (shiftCols in0 i d) = o_valueType in0"
  "o_props (shiftCols in0 i d) = o_props in0" "o_col (shiftCols in0 i d) = shiftCoord (o_col in0) i d"
  "o_row (shiftCols in0 i d) = o_row in0" "o_endRow (shiftCols in0 i d) = o_endRow in0"
  "o_count (shiftCols in0 i d) = o_count in0" "o_name (shiftCols in0 i d) = o_name in0"
  "o_toIndex (shiftCols in0 i d) = o_toIndex in0" "o_axis (shiftCols in0 i d) = o_axis in0" "o_size (shiftCols in0 i d) = o_size in0"
  "o_frozenRows (shiftCols in0 i d) = o_frozenRows in0" "o_frozenCols (shiftCols in0 i d) = o_frozenCols in0"
  by (simp_all add: shiftCols_def Let_def)

lemma shift_index:
  "0 \<le> i \<Longrightarrow> 0 \<le> o_index in0 \<Longrightarrow> 0 \<le> o_index (shiftRows in0 i d)"
  "0 \<le> i \<Longrightarrow> 0 \<le> o_index in0 \<Longrightarrow> 0 \<le> o_index (shiftCols in0 i d)"
  by (simp_all add: shiftRows_def shiftCols_def Let_def shiftCoord_nonneg)

lemma shift_end:
  "hasRange (o_type in0) \<Longrightarrow> o_endRow (shiftRows in0 i d) = shiftCoord (o_endRow in0) i d"
  "hasRange (o_type in0) \<Longrightarrow> o_endCol (shiftCols in0 i d) = shiftCoord (o_endCol in0) i d"
  by (auto simp: shiftRows_def shiftCols_def Let_def hasRange_def)

lemma valid_iff: "Validate op' = None \<longleftrightarrow> o_sheet op' \<noteq> [] \<and>
  (case o_type op' of
     OpSetCell \<Rightarrow> (o_raw op' \<noteq> None \<or> o_styleId op' \<noteq> None \<or> o_props op' \<noteq> None) \<and> 0 \<le> o_row op' \<and> 0 \<le> o_col op' \<and>
       validate_props (o_props op') = None
   | OpSetStyle \<Rightarrow> (o_styleId op' \<noteq> None \<or> o_props op' \<noteq> None) \<and> 0 \<le> o_row op' \<and> 0 \<le> o_col op' \<and>
       validate_props (o_props op') = None
   | OpDeleteSheet \<Rightarrow> True
   | OpMoveSheet \<Rightarrow> 0 \<le> o_toIndex op'
   | OpSetDimension \<Rightarrow> (o_axis op' = lit ''col'' \<or> o_axis op' = lit ''row'') \<and> 0 \<le> o_index op' \<and> 0 < o_size op' \<and> o_size op' \<le> 4096
   | OpSetFreeze \<Rightarrow> 0 \<le> o_frozenRows op' \<and> o_frozenRows op' \<le> 1 \<and> 0 \<le> o_frozenCols op' \<and> o_frozenCols op' \<le> 1
   | OtherOp _ \<Rightarrow> False
   | ty \<Rightarrow>
     if hasRange ty then 0 \<le> o_row op' \<and> 0 \<le> o_col op' \<and> o_row op' \<le> o_endRow op' \<and> o_col op' \<le> o_endCol op'
     else if ty = OpAddSheet \<or> ty = OpRenameSheet then o_name op' \<noteq> [] \<and> byte_len (o_name op') \<le> 128 \<and> 0 \<le> o_index op'
     else 0 \<le> o_index op' \<and> 0 < o_count op')"
  by (cases "o_type op'"; simp add: Validate_def hasRange_def not_less not_le de_Morgan_disj del: lit_simps; blast?)

lemma Validate_shift:
  assumes "Validate in0 = None" "0 \<le> i"
  shows "Validate (shiftRows in0 i d) = None" "Validate (shiftCols in0 i d) = None"
proof -
  note nonneg = shiftCoord_nonneg[OF _ assms(2)]
  note mono = shiftCoord_mono[of _ _ i d]
  show "Validate (shiftRows in0 i d) = None"
    using assms(1) unfolding valid_iff shiftRows_fields
    by (cases "o_type in0"; simp add: nonneg mono shift_index assms(2) shift_end hasRange_def del: lit_simps)
  show "Validate (shiftCols in0 i d) = None"
    using assms(1) unfolding valid_iff shiftCols_fields
    by (cases "o_type in0"; simp add: nonneg mono shift_index assms(2) shift_end hasRange_def del: lit_simps)
qed

lemma Validate_Transform:
  assumes "Validate in0 = None" "Validate applied = None"
  shows "Validate (Transform in0 applied) = None"
proof -
  have "0 \<le> o_index applied" if "isStructural applied"
    using that assms(2) unfolding valid_iff isStructural_def by (auto simp: hasRange_def)
  with Validate_shift[OF assms(1), of "o_index applied"] assms(1) show ?thesis
    by (auto simp: Transform_def split: OpType.splits)
qed

lemma Transform_sheet [simp]: "o_sheet (Transform in0 applied) = o_sheet in0" "o_type (Transform in0 applied) = o_type in0"
  by (simp_all add: Transform_def split: OpType.splits)

subsection \<open>Submit\<close>

text \<open>Replaying a log on a workbook, as the clients do.\<close>

fun replay :: "SheetOp list \<Rightarrow> Workbook \<Rightarrow> Workbook result" where
  "replay [] w = Inr w"
| "replay (op' # ops) w = bind_result (Apply op' w) (replay ops)"

lemma replay_append: "replay (xs @ ys) w = bind_result (replay xs w) (replay ys)"
proof (induction xs arbitrary: w)
  case (Cons x xs)
  then show ?case by (cases "Apply x w") auto
qed simp

definition doc_ok :: "Workbook \<Rightarrow> Document \<Rightarrow> bool" where
  "doc_ok w0 d \<longleftrightarrow> doc_head d = int (length (doc_log d)) \<and> list_all (\<lambda>op'. Validate op' = None) (doc_log d) \<and>
     replay (doc_log d) w0 = Inr (doc_wb d) \<and> wb_ok (doc_wb d)"

lemma doc_ok_new: "wb_ok w \<Longrightarrow> doc_ok w (NewDocument w)"
  by (simp add: doc_ok_def NewDocument_def)

lemma Validate_rebased:
  "list_all (\<lambda>op'. Validate op' = None) ops \<Longrightarrow> Validate op' = None \<Longrightarrow>
   Validate (fold (\<lambda>applied rebased. Transform rebased applied) ops op') = None"
  by (induction ops arbitrary: op') (simp_all add: Validate_Transform)

lemma Validate_baseRev [simp]: "Validate (op'\<lparr>o_baseRev := n\<rparr>) = Validate op'"
  by (cases op') (simp only: Validate_def SheetOp.select_convs SheetOp.update_convs)

lemma Submit_total:
  assumes "doc_ok w0 d" "Validate op' = None" "0 \<le> o_baseRev op'" "o_baseRev op' \<le> doc_head d"
  shows "\<exists>d'. Submit op' d = Inr (doc_head d + 1, d') \<and> doc_ok w0 d' \<and>
    (\<exists>rebased. doc_log d' = doc_log d @ [rebased] \<and> o_baseRev rebased = doc_head d)"
proof -
  let ?r = "fold (\<lambda>applied rebased. Transform rebased applied)
     (take (nat (doc_head d - o_baseRev op')) (drop (nat (o_baseRev op')) (doc_log d))) op'"
  have "list_all (\<lambda>op'. Validate op' = None) (take m (drop n (doc_log d)))" for m n
    using assms(1) by (auto simp: doc_ok_def list_all_iff dest!: in_set_takeD in_set_dropD)
  then have v: "Validate (?r\<lparr>o_baseRev := doc_head d\<rparr>) = None" by (simp add: Validate_rebased assms(2))
  from Apply_total[OF this, of "doc_wb d"] obtain w where
    w: "Apply (?r\<lparr>o_baseRev := doc_head d\<rparr>) (doc_wb d) = Inr w" "wb_ok (doc_wb d) \<longrightarrow> wb_ok w" by blast
  let ?d = "d\<lparr>doc_wb := w, doc_log := doc_log d @ [?r\<lparr>o_baseRev := doc_head d\<rparr>], doc_head := doc_head d + 1\<rparr>"
  have "Submit op' d = Inr (doc_head d + 1, ?d)"
    using assms w(1) by (simp add: Submit_def rebase_over_def doc_ok_def Let_def)
  moreover have "doc_ok w0 ?d" using assms(1) v w by (simp add: doc_ok_def replay_append)
  ultimately show ?thesis by simp
qed

lemma Submit_refuses:
  assumes "Submit op' d = Inl err" "doc_ok w0 d"
  shows "Validate op' = Some err \<or> o_baseRev op' < 0 \<or> o_baseRev op' > doc_head d"
proof (cases "Validate op'")
  case None
  with Submit_total[OF assms(2) None] assms(1) show ?thesis by (metis not_less sum.distinct(1))
next
  case (Some e)
  with assms(1) show ?thesis by (simp add: Submit_def)
qed

subsection \<open>Deleting what was inserted\<close>

lemma bind_back: "0 \<le> n \<Longrightarrow> Option.bind (unshift r i (- n)) (\<lambda>k. Option.bind (unshift k i n) f) = f r"
  using unshift_back[of n r i] by (cases "unshift r i (- n)") auto

lemma shiftDims_back: "gomap_ok m \<Longrightarrow> 0 \<le> n \<Longrightarrow> gomap_get (shiftDims (shiftDims m i n) i (- n)) = gomap_get m"
proof -
  assume m: "gomap_ok m" "0 \<le> n"
  then have "gomap_get (shiftDims m i n) = (\<lambda>k. Option.bind (unshift k i n) (gomap_get m))"
    by (simp add: fun_eq_iff shiftDims_get)
  with m show "gomap_get (shiftDims (shiftDims m i n) i (- n)) = gomap_get m"
    by (intro ext) (simp add: shiftDims_get bind_back)
qed

definition sheet_same :: "Sheet \<Rightarrow> Sheet \<Rightarrow> bool" where
  "sheet_same s t \<longleftrightarrow> SheetId s = SheetId t \<and> SheetName s = SheetName t \<and> gomap_get (Cells s) = gomap_get (Cells t) \<and>
     gomap_get (ColWidths s) = gomap_get (ColWidths t) \<and> gomap_get (RowHeights s) = gomap_get (RowHeights t) \<and>
     FrozenRows s = FrozenRows t \<and> FrozenCols s = FrozenCols t \<and> gomap_get (Merges s) = gomap_get (Merges t)"

lemma delete_inserted_rows:
  assumes "sheet_ok s" "0 < n"
  shows "sheet_same (delete_rows i n (insert_rows i n s)) s"
proof -
  have ok: "gomap_ok (Cells s)" using assms(1) by (rule sheet_ok_cells)
  have "gomap_get (Cells (move_rows i (- n) (insert_rows i n s))) ref = gomap_get (Cells s) ref" for ref
    using ok assms(2) bind_back[of n "Row ref" i "\<lambda>r. gomap_get (Cells s) (ref\<lparr>Row := r\<rparr>)"]
    by (simp add: grid_ops move_rows_get)
  with assms show ?thesis
    by (simp add: delete_rows_eq sheet_same_def fun_eq_iff insert_rows_eq sheet_ok_def shiftMerges_back shiftDims_back)
qed

lemma delete_inserted_cols:
  assumes "sheet_ok s" "0 < n"
  shows "sheet_same (delete_cols i n (insert_cols i n s)) s"
proof -
  have ok: "gomap_ok (Cells s)" using assms(1) by (rule sheet_ok_cells)
  have "gomap_get (Cells (move_cols i (- n) (insert_cols i n s))) ref = gomap_get (Cells s) ref" for ref
    using ok assms(2) bind_back[of n "Col ref" i "\<lambda>r. gomap_get (Cells s) (ref\<lparr>Col := r\<rparr>)"]
    by (simp add: grid_ops move_cols_get)
  with assms show ?thesis
    by (simp add: delete_cols_eq sheet_same_def fun_eq_iff insert_cols_eq sheet_ok_def shiftMerges_back shiftDims_back)
qed

subsection \<open>Cell operations and structural operations commute\<close>

definition wb_same :: "Workbook \<Rightarrow> Workbook \<Rightarrow> bool" where
  "wb_same v w \<longleftrightarrow> list_all2 sheet_same (Sheets v) (Sheets w) \<and> Styles v = Styles w"

lemma sheet_same_refl [simp]: "sheet_same s s"
  by (simp add: sheet_same_def)

lemma wb_same_refl [simp]: "wb_same w w"
  by (simp add: wb_same_def list_all2_same)

definition cell_op :: "SheetOp \<Rightarrow> bool" where
  "cell_op op' \<longleftrightarrow> o_type op' = OpSetCell \<or> o_type op' = OpSetStyle"

definition op_delta :: "SheetOp \<Rightarrow> int" where
  "op_delta op' = (if o_type op' = OpInsertRows \<or> o_type op' = OpInsertCols then o_count op' else - o_count op')"

text \<open>The row or column of the cell is not among the deleted ones.\<close>

definition survives :: "SheetOp \<Rightarrow> SheetOp \<Rightarrow> bool" where
  "survives in0 applied \<longleftrightarrow>
     (o_type applied \<in> {OpInsertRows, OpDeleteRows} \<longrightarrow> kept (o_row in0) (o_index applied) (op_delta applied)) \<and>
     (o_type applied \<in> {OpInsertCols, OpDeleteCols} \<longrightarrow> kept (o_col in0) (o_index applied) (op_delta applied))"

definition grid :: "SheetOp \<Rightarrow> Sheet \<Rightarrow> Sheet" where
  "grid op' s =
     (if o_type op' \<in> {OpInsertRows, OpDeleteRows}
      then (move_rows (o_index op') (op_delta op') s)\<lparr>RowHeights := shiftDims (RowHeights s) (o_index op') (op_delta op'),
             Merges := shiftMerges (Merges s) AxisRow (o_index op') (op_delta op')\<rparr>
      else (move_cols (o_index op') (op_delta op') s)\<lparr>ColWidths := shiftDims (ColWidths s) (o_index op') (op_delta op'),
             Merges := shiftMerges (Merges s) AxisCol (o_index op') (op_delta op')\<rparr>)"

lemma apply_structural:
  assumes "isStructural op'" "Validate op' = None"
  shows "apply_sheet op' s p = Inr (grid op' s, p)"
proof -
  have "0 < o_count op'" using assms unfolding valid_iff isStructural_def by (auto simp: hasRange_def)
  with assms(1) show ?thesis by (auto simp: isStructural_def apply_sheet_def grid_def grid_ops op_delta_def)
qed

lemma SetCell_fields [simp]:
  "SheetId (SetCell ref c s) = SheetId s" "SheetName (SetCell ref c s) = SheetName s" "ColWidths (SetCell ref c s) = ColWidths s"
  "RowHeights (SetCell ref c s) = RowHeights s" "FrozenRows (SetCell ref c s) = FrozenRows s"
  "FrozenCols (SetCell ref c s) = FrozenCols s" "Merges (SetCell ref c s) = Merges s"
  by (simp_all add: SetCell_def)

lemma SetCell_get: "gomap_get (Cells (SetCell ref c s)) = (gomap_get (Cells s))(ref := if Cell_IsEmpty c then None else Some c)"
  by (auto simp: SetCell_def)

lemma SetCell_gomap_ok: "gomap_ok (Cells s) \<Longrightarrow> gomap_ok (Cells (SetCell ref c s))"
  by (simp add: SetCell_def)

definition moved_ref :: "SheetOp \<Rightarrow> CellRef \<Rightarrow> CellRef" where
  "moved_ref applied ref =
     (if o_type applied \<in> {OpInsertRows, OpDeleteRows} then ref\<lparr>Row := shiftCoord (Row ref) (o_index applied) (op_delta applied)\<rparr>
      else ref\<lparr>Col := shiftCoord (Col ref) (o_index applied) (op_delta applied)\<rparr>)"

lemma unshift_kept: "kept k i d \<Longrightarrow> unshift (shiftCoord k i d) i d = Some k"
  by (simp add: unshift_iff)

lemma grid_GetCell:
  assumes "gomap_ok (Cells s)" "isStructural applied" "survives in0 applied"
  shows "GetCell (moved_ref applied (op_ref in0)) (grid applied s) = GetCell (op_ref in0) s"
  using assms
  by (auto simp: GetCell_def grid_def moved_ref_def move_rows_get move_cols_get survives_def isStructural_def op_ref_def unshift_kept)

lemma bind_unshift_upd:
  assumes "kept k i d"
  shows "Option.bind (unshift r i d) (f(k := v)) = (if r = shiftCoord k i d then v else Option.bind (unshift r i d) f)"
  using unshift_iff[of r i d] assms by (cases "unshift r i d") (auto simp: unshift_kept)

lemma grid_SetCell:
  assumes "gomap_ok (Cells s)" "isStructural applied" "survives in0 applied"
  shows "sheet_same (grid applied (SetCell (op_ref in0) c s)) (SetCell (moved_ref applied (op_ref in0)) c (grid applied s))"
proof -
  let ?v = "if Cell_IsEmpty c then None else Some c"
  have ok: "gomap_ok (Cells (SetCell (op_ref in0) c s))" using assms(1) by (rule SetCell_gomap_ok)
  have "gomap_get (Cells (grid applied (SetCell (op_ref in0) c s))) ref =
      gomap_get (Cells (SetCell (moved_ref applied (op_ref in0)) c (grid applied s))) ref" for ref
  proof (cases "o_type applied \<in> {OpInsertRows, OpDeleteRows}")
    case True
    with assms(3) have k: "kept (o_row in0) (o_index applied) (op_delta applied)" by (auto simp: survives_def)
    have upd: "(\<lambda>r. ((gomap_get (Cells s))(op_ref in0 := ?v)) (ref\<lparr>Row := r\<rparr>)) =
        (if Col ref = o_col in0 then (\<lambda>r. gomap_get (Cells s) (ref\<lparr>Row := r\<rparr>))(o_row in0 := ?v) else (\<lambda>r. gomap_get (Cells s) (ref\<lparr>Row := r\<rparr>)))"
      by (cases ref) (auto simp: op_ref_def fun_eq_iff)
    have eq: "ref = moved_ref applied (op_ref in0) \<longleftrightarrow> Row ref = shiftCoord (o_row in0) (o_index applied) (op_delta applied) \<and> Col ref = o_col in0"
      using True by (cases ref) (auto simp: moved_ref_def op_ref_def)
    have "gomap_get (Cells (move_rows (o_index applied) (op_delta applied) (SetCell (op_ref in0) c s))) ref =
        (if ref = moved_ref applied (op_ref in0) then ?v
         else gomap_get (Cells (move_rows (o_index applied) (op_delta applied) s)) ref)"
      by (simp add: move_rows_get[OF ok] SetCell_get upd bind_unshift_upd[OF k] eq move_rows_get[OF assms(1)] del: fun_upd_apply)
    with True show ?thesis by (simp add: grid_def SetCell_get)
  next
    case False
    with assms(2,3) have k: "kept (o_col in0) (o_index applied) (op_delta applied)" by (auto simp: survives_def isStructural_def)
    have upd: "(\<lambda>r. ((gomap_get (Cells s))(op_ref in0 := ?v)) (ref\<lparr>Col := r\<rparr>)) =
        (if Row ref = o_row in0 then (\<lambda>r. gomap_get (Cells s) (ref\<lparr>Col := r\<rparr>))(o_col in0 := ?v) else (\<lambda>r. gomap_get (Cells s) (ref\<lparr>Col := r\<rparr>)))"
      by (cases ref) (auto simp: op_ref_def fun_eq_iff)
    have eq: "ref = moved_ref applied (op_ref in0) \<longleftrightarrow> Row ref = o_row in0 \<and> Col ref = shiftCoord (o_col in0) (o_index applied) (op_delta applied)"
      using False by (cases ref) (auto simp: moved_ref_def op_ref_def)
    have "gomap_get (Cells (move_cols (o_index applied) (op_delta applied) (SetCell (op_ref in0) c s))) ref =
        (if ref = moved_ref applied (op_ref in0) then ?v
         else gomap_get (Cells (move_cols (o_index applied) (op_delta applied) s)) ref)"
      by (simp add: move_cols_get[OF ok] SetCell_get upd bind_unshift_upd[OF k] eq move_cols_get[OF assms(1)] del: fun_upd_apply)
    with False show ?thesis by (simp add: grid_def SetCell_get)
  qed
  then show ?thesis by (simp add: sheet_same_def fun_eq_iff) (simp add: grid_def)
qed

definition cell_content :: "SheetOp \<Rightarrow> Cell \<Rightarrow> Cell" where
  "cell_content op' = (if o_type op' = OpSetCell then set_content op' else (\<lambda>c. c))"

lemma apply_cell:
  assumes "cell_op op'" "Validate op' = None"
  shows "apply_sheet op' s p =
    (let (cur, p1) = op_style op' (cell_content op' (GetCell (op_ref op') s)) p in Inr (SetCell (op_ref op') cur s, p1))"
  using assms unfolding valid_iff cell_op_def by (auto simp: apply_sheet_def cell_content_def)

lemma Transform_structural:
  assumes "isStructural applied" "o_sheet in0 = o_sheet applied"
  shows "Transform in0 applied =
    (if o_type applied \<in> {OpInsertRows, OpDeleteRows} then shiftRows in0 (o_index applied) (op_delta applied)
     else shiftCols in0 (o_index applied) (op_delta applied))"
  using assms by (auto simp: Transform_def isStructural_def op_delta_def)

lemma Transform_cell:
  assumes "isStructural applied" "o_sheet in0 = o_sheet applied"
  shows "op_ref (Transform in0 applied) = moved_ref applied (op_ref in0)"
    "cell_content (Transform in0 applied) = cell_content in0"
    "op_style (Transform in0 applied) = op_style in0"
  using assms by (auto simp: Transform_structural op_ref_def moved_ref_def cell_content_def set_content_def op_style_def fun_eq_iff
      split: option.split)

lemma apply_sheet_commutes:
  assumes "gomap_ok (Cells s)" "cell_op in0" "Validate in0 = None" "isStructural applied" "Validate applied = None"
    "o_sheet in0 = o_sheet applied" "survives in0 applied"
  shows "\<exists>s1 p1 s2. apply_sheet in0 s p = Inr (s1, p1) \<and> apply_sheet applied s1 p1 = Inr (grid applied s1, p1) \<and>
    apply_sheet applied s p = Inr (grid applied s, p) \<and>
    apply_sheet (Transform in0 applied) (grid applied s) p = Inr (s2, p1) \<and> sheet_same (grid applied s1) s2"
proof -
  let ?t = "Transform in0 applied"
  have t: "cell_op ?t" "Validate ?t = None" using assms by (simp_all add: cell_op_def Validate_Transform)
  have get: "GetCell (op_ref ?t) (grid applied s) = GetCell (op_ref in0) s"
    using grid_GetCell[OF assms(1,4,7)] by (simp add: Transform_cell[OF assms(4,6)])
  obtain cur p1 where c: "op_style in0 (cell_content in0 (GetCell (op_ref in0) s)) p = (cur, p1)" by fastforce
  have "apply_sheet in0 s p = Inr (SetCell (op_ref in0) cur s, p1)" by (simp add: apply_cell[OF assms(2,3)] c)
  moreover have "apply_sheet ?t (grid applied s) p = Inr (SetCell (op_ref ?t) cur (grid applied s), p1)"
    by (simp add: apply_cell[OF t] get) (simp add: Transform_cell[OF assms(4,6)] c)
  moreover have "sheet_same (grid applied (SetCell (op_ref in0) cur s)) (SetCell (op_ref ?t) cur (grid applied s))"
    using grid_SetCell[OF assms(1,4,7)] by (simp add: Transform_cell[OF assms(4,6)])
  ultimately show ?thesis using apply_structural[OF assms(4,5)] by simp
qed

text \<open>From a sheet to the workbook that holds it.\<close>

lemma Apply_sheet:
  assumes "Validate op' = None" "o_type op' \<notin> {OpAddSheet, OpDeleteSheet, OpRenameSheet, OpMoveSheet}"
  shows "Apply op' w = (case SheetByID (o_sheet op') w of None \<Rightarrow> Inr w
    | Some s \<Rightarrow> bind_result (apply_sheet op' s (Styles w)) (\<lambda>(s1, p1).
        Inr (w\<lparr>Sheets := update_sheet (o_sheet op') (\<lambda>_. s1) (Sheets w), Styles := p1\<rparr>)))"
  using assms by (cases "o_type op'") (simp_all add: Apply_def)

lemma find_update_sheet:
  "find (\<lambda>s. SheetId s = ident) ss = Some s \<Longrightarrow> SheetId s1 = ident \<Longrightarrow>
   find (\<lambda>s. SheetId s = ident) (update_sheet ident (\<lambda>_. s1) ss) = Some s1"
  by (induction ss) auto

lemma SheetByID_update:
  "SheetByID ident w = Some s \<Longrightarrow> SheetId s1 = ident \<Longrightarrow>
   SheetByID ident (w\<lparr>Sheets := update_sheet ident (\<lambda>_. s1) (Sheets w), Styles := p\<rparr>) = Some s1"
  "SheetByID ident w = Some s \<Longrightarrow> SheetId s1 = ident \<Longrightarrow>
   SheetByID ident (w\<lparr>Sheets := update_sheet ident (\<lambda>_. s1) (Sheets w)\<rparr>) = Some s1"
  by (simp_all add: SheetByID_def find_update_sheet)

lemma update_sheet_twice:
  "SheetId s1 = ident \<Longrightarrow> update_sheet ident (\<lambda>_. s2) (update_sheet ident (\<lambda>_. s1) ss) = update_sheet ident (\<lambda>_. s2) ss"
  by (induction ss) auto

lemma update_sheet_same: "sheet_same s1 s2 \<Longrightarrow> list_all2 sheet_same (update_sheet ident (\<lambda>_. s1) ss) (update_sheet ident (\<lambda>_. s2) ss)"
  by (induction ss) (auto simp: list_all2_same)

lemma Apply_commutes:
  assumes "wb_ok w" "cell_op in0" "Validate in0 = None" "isStructural applied" "Validate applied = None"
    "o_sheet in0 = o_sheet applied" "survives in0 applied"
  shows "\<exists>w1 a w2 b. Apply in0 w = Inr w1 \<and> Apply applied w1 = Inr a \<and>
    Apply applied w = Inr w2 \<and> Apply (Transform in0 applied) w2 = Inr b \<and> wb_same a b"
proof -
  let ?t = "Transform in0 applied" and ?i = "o_sheet applied"
  have v: "Validate ?t = None" using assms by (simp add: Validate_Transform)
  have ty: "o_type in0 \<notin> {OpAddSheet, OpDeleteSheet, OpRenameSheet, OpMoveSheet}"
    "o_type applied \<notin> {OpAddSheet, OpDeleteSheet, OpRenameSheet, OpMoveSheet}"
    using assms(2,4) by (auto simp: cell_op_def isStructural_def)
  then have tt: "o_type ?t \<notin> {OpAddSheet, OpDeleteSheet, OpRenameSheet, OpMoveSheet}" by simp
  note step = Apply_sheet[OF assms(3) ty(1)] Apply_sheet[OF assms(5) ty(2)] Apply_sheet[OF v tt]
  show ?thesis
  proof (cases "SheetByID ?i w")
    case None
    with assms(6) show ?thesis by (simp add: step)
  next
    case (Some s)
    from SheetByID_Some[OF this] assms(1) have s: "SheetId s = ?i" "gomap_ok (Cells s)"
      by (auto simp: wb_ok_def list_all_iff sheet_ok_def cells_ok_def)
    from apply_sheet_commutes[OF s(2) assms(2-7), of "Styles w"] obtain s1 p1 s2 where
      c: "apply_sheet in0 s (Styles w) = Inr (s1, p1)" "apply_sheet applied s1 p1 = Inr (grid applied s1, p1)"
      "apply_sheet applied s (Styles w) = Inr (grid applied s, Styles w)"
      "apply_sheet ?t (grid applied s) (Styles w) = Inr (s2, p1)" "sheet_same (grid applied s1) s2" by blast
    have ids: "SheetId s1 = ?i" "SheetId (grid applied s) = ?i"
      using apply_sheet_id[OF c(1)] apply_sheet_id[OF c(3)] s(1) by simp_all
    show ?thesis
      using Some assms(6) c ids by (simp add: step SheetByID_update update_sheet_twice wb_same_def update_sheet_same)
  qed
qed

end
