(* ===== verification/SheetSnapshots.thy ===== *)
theory SheetSnapshots
  imports SheetRebase
begin

text \<open>
  A workbook survives its snapshot: rebuilding a workbook from the snapshot of a well-formed
  one gives the same sheets, cells, dimensions, merged ranges and styles, with the index of
  the style pool recomputed.
\<close>

lemma find_SomeD: "find P xs = Some x \<Longrightarrow> x \<in> set xs \<and> P x"
  by (induction xs) (auto split: if_splits)

lemma fold_set_get:
  assumes "distinct (map key xs)"
  shows "gomap_get (fold (\<lambda>x m. gomap_set m (key x) (val x)) xs []) k =
    (case find (\<lambda>x. key x = k) xs of Some x \<Rightarrow> Some (val x) | None \<Rightarrow> None)"
proof -
  have "gomap_get (fold (\<lambda>x m. gomap_set m (key x) (val x)) xs m) k =
      (case find (\<lambda>x. key x = k) xs of Some x \<Rightarrow> Some (val x) | None \<Rightarrow> gomap_get m k)" for m
    using assms
  proof (induction xs arbitrary: m)
    case (Cons x xs)
    show ?case
    proof (cases "find (\<lambda>x. key x = k) xs")
      case None
      with Cons show ?thesis by simp
    next
      case (Some y)
      then have "y \<in> set xs" "key y = k" by (auto simp: find_Some_iff)
      with Cons.prems have "key x \<noteq> k" by auto
      with Cons Some show ?thesis by simp
    qed
  qed simp
  from this[of "[]"] show ?thesis by (simp only: gomap_get_Nil)
qed

lemma fold_set_entries:
  assumes "distinct (map key xs)" "\<And>k v. (k, v) \<in> set m \<longleftrightarrow> (\<exists>x\<in>set xs. key x = k \<and> val x = v)" "gomap_ok m"
  shows "gomap_get (fold (\<lambda>x m. gomap_set m (key x) (val x)) xs []) = gomap_get m"
proof
  fix k
  show "gomap_get (fold (\<lambda>x m. gomap_set m (key x) (val x)) xs []) k = gomap_get m k"
  proof (cases "find (\<lambda>x. key x = k) xs")
    case None
    then have "gomap_get m k = None"
      using assms(2) gomap_get_in[of m k] by (cases "gomap_get m k") (auto simp: find_None_iff)
    with None show ?thesis by (simp add: fold_set_get[OF assms(1)])
  next
    case (Some x)
    then have "x \<in> set xs" "key x = k" by (auto simp: find_Some_iff)
    with assms(2)[of k "val x"] assms(3) have "gomap_get m k = Some (val x)" by (auto simp: gomap_ok_in)
    with Some show ?thesis by (simp add: fold_set_get[OF assms(1)])
  qed
qed

lemma snapshot_cells:
  assumes "gomap_ok (Cells s)"
  shows "gomap_get (Cells (sheet_from_snapshot (snapshot_sheet s))) = gomap_get (Cells s)"
proof -
  let ?f = "\<lambda>(ref, c). \<lparr>cs_row = Row ref, cs_col = Col ref, cs_raw = Raw c, cs_value = CellValue c,
    cs_valueType = ValueType c, cs_styleId = StyleId c\<rparr>"
  let ?key = "\<lambda>c. \<lparr>Row = cs_row c, Col = cs_col c\<rparr>"
  let ?val = "\<lambda>c. \<lparr>Raw = cs_raw c, CellValue = cs_value c, ValueType = cs_valueType c, StyleId = cs_styleId c\<rparr>"
  let ?xs = "sort_key (\<lambda>c. (cs_row c, cs_col c)) (map ?f (Cells s))"
  have key: "?key (?f e) = fst e" "?val (?f e) = snd e" for e by (cases e; cases "fst e"; cases "snd e"; simp)+
  have "mset (map ?key ?xs) = mset (map ?key (map ?f (Cells s)))" by (simp only: mset_map mset_sort)
  then have "distinct (map ?key ?xs) = distinct (map ?key (map ?f (Cells s)))" by (rule mset_eq_imp_distinct_iff)
  then have d: "distinct (map ?key ?xs)" using assms key by (simp add: gomap_ok_def comp_def del: CellRef.simps)
  have e: "(k, v) \<in> set (Cells s) \<longleftrightarrow> (\<exists>x\<in>set ?xs. ?key x = k \<and> ?val x = v)" for k v
  proof -
    have "(\<exists>x\<in>set ?xs. ?key x = k \<and> ?val x = v) \<longleftrightarrow> (\<exists>e\<in>set (Cells s). ?key (?f e) = k \<and> ?val (?f e) = v)" by simp
    also have "\<dots> \<longleftrightarrow> (\<exists>e\<in>set (Cells s). fst e = k \<and> snd e = v)" unfolding key ..
    also have "\<dots> \<longleftrightarrow> (k, v) \<in> set (Cells s)" by force
    finally show ?thesis by simp
  qed
  from fold_set_entries[OF d e assms] show ?thesis
    by (simp add: sheet_from_snapshot_def snapshot_sheet_def NewSheet_def Let_def)
qed

lemma snapshot_merges:
  assumes "gomap_ok (Merges s)"
  shows "gomap_get (Merges (sheet_from_snapshot (snapshot_sheet s))) = gomap_get (Merges s)"
proof -
  let ?f = "\<lambda>(a, sp). \<lparr>ms_row = Row a, ms_col = Col a, ms_rows = SpanRows sp, ms_cols = SpanCols sp\<rparr>"
  let ?key = "\<lambda>m. \<lparr>Row = ms_row m, Col = ms_col m\<rparr>"
  let ?val = "\<lambda>m. \<lparr>SpanRows = ms_rows m, SpanCols = ms_cols m\<rparr>"
  let ?xs = "sort_key (\<lambda>m. (ms_row m, ms_col m)) (map ?f (Merges s))"
  have key: "?key (?f e) = fst e" "?val (?f e) = snd e" for e by (cases e; cases "fst e"; cases "snd e"; simp)+
  have "mset (map ?key ?xs) = mset (map ?key (map ?f (Merges s)))" by (simp only: mset_map mset_sort)
  then have "distinct (map ?key ?xs) = distinct (map ?key (map ?f (Merges s)))" by (rule mset_eq_imp_distinct_iff)
  then have d: "distinct (map ?key ?xs)" using assms key by (simp add: gomap_ok_def comp_def del: CellRef.simps)
  have e: "(k, v) \<in> set (Merges s) \<longleftrightarrow> (\<exists>x\<in>set ?xs. ?key x = k \<and> ?val x = v)" for k v
  proof -
    have "(\<exists>x\<in>set ?xs. ?key x = k \<and> ?val x = v) \<longleftrightarrow> (\<exists>e\<in>set (Merges s). ?key (?f e) = k \<and> ?val (?f e) = v)" by simp
    also have "\<dots> \<longleftrightarrow> (\<exists>e\<in>set (Merges s). fst e = k \<and> snd e = v)" unfolding key ..
    also have "\<dots> \<longleftrightarrow> (k, v) \<in> set (Merges s)" by force
    finally show ?thesis by simp
  qed
  from fold_set_entries[OF d e assms] show ?thesis
    by (simp add: sheet_from_snapshot_def snapshot_sheet_def NewSheet_def Let_def)
qed

lemma snapshot_sheet_same:
  assumes "sheet_ok s"
  shows "sheet_same (sheet_from_snapshot (snapshot_sheet s)) s"
proof -
  let ?s = "sheet_from_snapshot (snapshot_sheet s)"
  have "SheetId ?s = SheetId s" "SheetName ?s = SheetName s" "FrozenRows ?s = FrozenRows s" "FrozenCols ?s = FrozenCols s"
    "gomap_get (ColWidths ?s) = gomap_get (ColWidths s)" "gomap_get (RowHeights ?s) = gomap_get (RowHeights s)"
    using assms by (simp_all add: sheet_from_snapshot_def snapshot_sheet_def NewSheet_def Let_def sheet_ok_def gomap_rebuild_same)
  with assms show ?thesis
    by (simp add: sheet_same_def snapshot_cells snapshot_merges sheet_ok_def cells_ok_def merges_ok_def)
qed

subsection \<open>The style pool\<close>

lemma rebuildIndex_get:
  assumes "style_ok p"
  shows "gomap_get (keyToId (rebuildIndex p)) = gomap_get (keyToId p)"
proof
  fix key
  have d: "distinct (map fst (IdToStyle p))" using assms by (simp add: style_ok_def gomap_ok_def)
  have inj: "i = j" if "(i, s) \<in> set (IdToStyle p)" "(j, t) \<in> set (IdToStyle p)" "canonicalKey s = canonicalKey t" for i j s t
  proof -
    have ok: "gomap_ok (IdToStyle p)" using assms by (simp add: style_ok_def)
    with that(1,2) have "gomap_get (IdToStyle p) i = Some s" "gomap_get (IdToStyle p) j = Some t" by (simp_all add: gomap_ok_in)
    with assms have "gomap_get (keyToId p) (canonicalKey s) = Some i" "gomap_get (keyToId p) (canonicalKey t) = Some j"
      unfolding style_ok_def by blast+
    with that(3) show ?thesis by simp
  qed
  have get: "gomap_get (fold (\<lambda>(ident, s) m. gomap_set m (canonicalKey s) ident) xs m) key =
      (case find (\<lambda>(ident, s). canonicalKey s = key) xs of Some e \<Rightarrow> Some (fst e) | None \<Rightarrow> gomap_get m key)"
    if "set xs \<subseteq> set (IdToStyle p)" for xs m
    using that
  proof (induction xs arbitrary: m)
    case (Cons e xs)
    obtain i s where e: "e = (i, s)" by fastforce
    show ?case
    proof (cases "find (\<lambda>(ident, s). canonicalKey s = key) xs")
      case None
      with Cons e show ?thesis by simp
    next
      case (Some f)
      then have "f \<in> set xs" "canonicalKey (snd f) = key" by (auto dest!: find_SomeD)
      with Cons e inj[of i s "fst f" "snd f"] Some show ?thesis by (cases f) auto
    qed
  qed simp
  show "gomap_get (keyToId (rebuildIndex p)) key = gomap_get (keyToId p) key"
  proof (cases "find (\<lambda>(ident, s). canonicalKey s = key) (IdToStyle p)")
    case None
    then have none: "\<nexists>i s. gomap_get (IdToStyle p) i = Some s \<and> canonicalKey s = key"
      using gomap_get_in by (fastforce simp: find_None_iff)
    have "gomap_get (keyToId p) key = (if key = [] then Some 0 else None)"
    proof (cases "gomap_get (keyToId p) key")
      case (Some i)
      with assms none have "key = []" "i = 0" unfolding style_ok_def by blast+
      with Some show ?thesis by simp
    qed (use assms in \<open>auto simp: style_ok_def\<close>)
    with None get[OF subset_refl, of "[([], 0)]"] show ?thesis by (simp add: rebuildIndex_def gomap_get_Cons)
  next
    case (Some e)
    then have e: "e \<in> set (IdToStyle p)" "canonicalKey (snd e) = key" by (auto dest!: find_SomeD)
    with assms have "gomap_get (keyToId p) key = Some (fst e)" by (cases e) (auto simp: style_ok_def gomap_ok_in)
    with Some get[OF subset_refl, of "[([], 0)]"] show ?thesis by (simp add: rebuildIndex_def)
  qed
qed

lemma rebuildIndex_fields [simp]:
  "IdToStyle (rebuildIndex p) = IdToStyle p" "NextId (rebuildIndex p) = NextId p"
  by (simp_all add: rebuildIndex_def)

definition styles_same :: "StylePool \<Rightarrow> StylePool \<Rightarrow> bool" where
  "styles_same p q \<longleftrightarrow> gomap_get (IdToStyle p) = gomap_get (IdToStyle q) \<and>
     gomap_get (keyToId p) = gomap_get (keyToId q) \<and> NextId p = NextId q"

lemma Snapshot_back:
  assumes "wb_ok w"
  shows "list_all2 sheet_same (Sheets (WorkbookFromSnapshot (Snapshot w))) (Sheets w) \<and>
    styles_same (Styles (WorkbookFromSnapshot (Snapshot w))) (Styles w)"
proof -
  have "NextId (Styles w) \<noteq> 0" using assms by (auto simp: wb_ok_def style_ok_def)
  then have "Styles (WorkbookFromSnapshot (Snapshot w)) = rebuildIndex (Styles w)"
    by (simp add: WorkbookFromSnapshot_def Snapshot_def)
  moreover have "list_all2 sheet_same (map sheet_from_snapshot (map snapshot_sheet ss)) ss" if "list_all sheet_ok ss" for ss
    using that by (induction ss) (simp_all add: snapshot_sheet_same)
  ultimately show ?thesis using assms
    by (simp add: WorkbookFromSnapshot_def Snapshot_def styles_same_def rebuildIndex_get wb_ok_def)
qed

text \<open>The deep copy of a workbook.\<close>

lemma Clone_same:
  assumes "wb_ok w"
  shows "list_all2 sheet_same (Sheets (Workbook_Clone w)) (Sheets w) \<and> styles_same (Styles (Workbook_Clone w)) (Styles w)"
proof -
  have "sheet_same (Sheet_clone s) s" if "sheet_ok s" for s
    using that by (simp add: sheet_same_def Sheet_clone_def gomap_rebuild_same sheet_ok_def cells_ok_def)
  then have "list_all2 sheet_same (map Sheet_clone ss) ss" if "list_all sheet_ok ss" for ss
    using that by (induction ss) auto
  moreover have "styles_same (StylePool_clone p) p" if "style_ok p" for p
  proof -
    have "StylePool_clone p = rebuildIndex p"
      using that by (simp add: StylePool_clone_def rebuildIndex_def gomap_rebuild_same style_ok_def)
    with that show ?thesis by (simp add: styles_same_def rebuildIndex_get)
  qed
  ultimately show ?thesis using assms by (simp add: Workbook_Clone_def wb_ok_def)
qed

end
