(* ===== verification/SheetProperties.thy ===== *)
theory SheetProperties
  imports SheetSnapshots
begin

text \<open>
  The properties of spreadsheet documents, each with a witness that applies it to a small
  workbook of one sheet.
\<close>

definition sample_op :: SheetOp where
  "sample_op =
     \<lparr>o_type = OpInsertRows, o_sheet = lit ''s1'', o_baseRev = 0, o_row = 0, o_col = 0, o_endRow = 0, o_endCol = 0,
      o_raw = None, o_value = None, o_valueType = None, o_styleId = None, o_props = None, o_index = 0, o_count = 2,
      o_name = [], o_toIndex = 0, o_axis = [], o_size = 0, o_frozenRows = 0, o_frozenCols = 0\<rparr>"

definition sample_cell_op :: SheetOp where
  "sample_cell_op = sample_op\<lparr>o_type := OpSetCell, o_row := 1, o_raw := Some (lit ''x'')\<rparr>"

definition sample_delete :: SheetOp where
  "sample_delete = sample_op\<lparr>o_type := OpDeleteRows\<rparr>"

definition sample_workbook :: Workbook where
  "sample_workbook = AddSheet (lit ''s1'') (lit ''Sheet1'') NewWorkbook"

lemmas sample_defs = sample_op_def sample_cell_op_def sample_delete_def

lemma wb_ok_sample: "wb_ok sample_workbook"
  by (simp add: wb_ok_def sample_workbook_def AddSheet_def NewWorkbook_def)

lemma sample_valid:
  "Validate sample_op = None" "Validate sample_cell_op = None" "Validate sample_delete = None"
  by (simp_all add: sample_defs Validate_def validate_props_def)

lemma sample_kinds: "isStructural sample_op" "isStructural sample_delete" "cell_op sample_cell_op"
  "survives sample_cell_op sample_op" "o_sheet sample_cell_op = o_sheet sample_op"
  by (simp_all add: sample_defs isStructural_def cell_op_def survives_def kept_def op_delta_def)









text \<open>
  C31. A well-formed workbook is rebuilt from its snapshot: the same sheets in the same order,
  with the same cells, dimensions, frozen rows and merged ranges, and the same styles under
  the same numbers with the same index.
\<close>

theorem Snapshot_roundtrip:
  assumes "wb_ok w"
  shows "list_all2 sheet_same (Sheets (WorkbookFromSnapshot (Snapshot w))) (Sheets w) \<and>
    styles_same (Styles (WorkbookFromSnapshot (Snapshot w))) (Styles w)"
  by (rule Snapshot_back[OF assms])

lemma Snapshot_roundtrip_witness:
  "list_all2 sheet_same (Sheets (WorkbookFromSnapshot (Snapshot sample_workbook))) (Sheets sample_workbook) \<and>
   styles_same (Styles (WorkbookFromSnapshot (Snapshot sample_workbook))) (Styles sample_workbook)"
  by (rule Snapshot_roundtrip[OF wb_ok_sample])





text \<open>
  Two clients that delete the same rows at the same time delete twice as many: the second
  deletion is rebased onto itself unchanged, and takes the rows below the ones both meant.
\<close>

theorem concurrent_deletes_add_up:
  assumes "sheet_ok s" "Validate op' = None" "o_type op' = OpDeleteRows" "o_index op' \<le> Row ref"
  shows "Transform op' op' = op'\<lparr>o_row := shiftCoord (o_row op') (o_index op') (- o_count op')\<rparr> \<and>
    gomap_get (Cells (delete_rows (o_index op') (o_count op') (delete_rows (o_index op') (o_count op') s))) ref =
    gomap_get (Cells s) (ref\<lparr>Row := Row ref + 2 * o_count op'\<rparr>)"
proof
  have n: "0 < o_count op'" using assms(2,3) unfolding valid_iff by (simp add: hasRange_def)
  have "shiftCoord (o_index op') (o_index op') (- o_count op') = o_index op'" using n by (simp add: shiftCoord_def)
  then show "Transform op' op' = op'\<lparr>o_row := shiftCoord (o_row op') (o_index op') (- o_count op')\<rparr>"
    using assms(3) by (cases op') (simp add: Transform_def isStructural_def shiftRows_def hasRange_def)
  show "gomap_get (Cells (delete_rows (o_index op') (o_count op') (delete_rows (o_index op') (o_count op') s))) ref =
    gomap_get (Cells s) (ref\<lparr>Row := Row ref + 2 * o_count op'\<rparr>)"
    using n assms(4) sheet_ok_cells[OF assms(1)]
    by (simp add: delete_rows_eq move_rows_get unshift_def add.commute)
qed

lemma concurrent_deletes_add_up_witness:
  "gomap_get (Cells (delete_rows 0 2 (delete_rows 0 2 (NewSheet [] [])))) \<lparr>Row = 0, Col = 0\<rparr> = None"
  using concurrent_deletes_add_up[OF sheet_ok_new[of "[]" "[]"] sample_valid(3), of "\<lparr>Row = 0, Col = 0\<rparr>"]
  by (simp add: sample_defs NewSheet_def)



end
