(* ===== verification/Json.thy ===== *)
theory Json
  imports APool "HOL-Library.List_Lexorder"
begin

text \<open>
  The part of \<^verbatim>\<open>encoding/json\<close> the stored records go through: the compact form of
  \<^verbatim>\<open>json.Marshal\<close>, the parser of \<^verbatim>\<open>json.Unmarshal\<close> and the decoding of a parsed value into
  integers, strings, slices, maps and structs. Number literals are kept as text, since the
  code only decodes integers. The nesting limit of 10000 is left out.
\<close>

datatype json =
    JNull
  | JBool bool
  | JNum gostring
  | JString gostring
  | JArray "json list"
  | JObject "(gostring \<times> json) list"

subsection \<open>Printing\<close>

definition hex4 :: "rune \<Rightarrow> gostring" where
  "hex4 r = map (\<lambda>d. digit36 (nat (r div d mod 16))) [4096, 256, 16, 1]"

definition escape_rune :: "rune \<Rightarrow> gostring" where
  "escape_rune r =
     (if r = 34 \<or> r = 92 then [92, r]
      else if r = 8 then [92, 98]
      else if r = 12 then [92, 102]
      else if r = 10 then [92, 110]
      else if r = 13 then [92, 114]
      else if r = 9 then [92, 116]
      else if r < 32 \<or> r \<in> {38, 60, 62, 0x2028, 0x2029} then [92, 117] @ hex4 r
      else [r])"

definition quote :: "gostring \<Rightarrow> gostring" where
  "quote s = 34 # concat (map escape_rune s) @ [34]"

fun commas :: "gostring list \<Rightarrow> gostring" where
  "commas [] = []"
| "commas [x] = x"
| "commas (x # xs) = x @ 44 # commas xs"

fun print_json :: "json \<Rightarrow> gostring" where
  "print_json JNull = lit ''null''"
| "print_json (JBool b) = (if b then lit ''true'' else lit ''false'')"
| "print_json (JNum s) = s"
| "print_json (JString s) = quote s"
| "print_json (JArray xs) = 91 # commas (map print_json xs) @ [93]"
| "print_json (JObject ms) = 123 # commas (map (\<lambda>(k, v). quote k @ 58 # print_json v) ms) @ [125]"

subsection \<open>Parsing\<close>

definition json_space :: "rune \<Rightarrow> bool" where
  "json_space r \<longleftrightarrow> r = 32 \<or> r = 9 \<or> r = 10 \<or> r = 13"

definition skip_spaces :: "gostring \<Rightarrow> gostring" where
  "skip_spaces s = dropWhile json_space s"

definition hex_val :: "rune \<Rightarrow> int option" where
  "hex_val r = (case digit_val r of Some d \<Rightarrow> if d < 16 then Some d else None | None \<Rightarrow> None)"

fun read_hex4 :: "gostring \<Rightarrow> (rune \<times> gostring) option" where
  "read_hex4 (a # b # c # d # s) =
     (case (hex_val a, hex_val b, hex_val c, hex_val d) of
        (Some a', Some b', Some c', Some d') \<Rightarrow> Some (4096 * a' + 256 * b' + 16 * c' + d', s)
      | _ \<Rightarrow> None)"
| "read_hex4 _ = None"

text \<open>The rune after \<^verbatim>\<open>\u\<close>: a surrogate needs its second half, or it is the replacement character.\<close>

definition read_rune :: "gostring \<Rightarrow> (rune \<times> gostring) option" where
  "read_rune s =
     (case read_hex4 s of
        None \<Rightarrow> None
      | Some (h, t) \<Rightarrow>
          if h < 0xD800 \<or> 0xE000 \<le> h then Some (h, t)
          else if take 2 t = [92, 117] \<and> h < 0xDC00 then
            (case read_hex4 (drop 2 t) of
               Some (l, u) \<Rightarrow>
                 if 0xDC00 \<le> l \<and> l < 0xE000 then Some (0x10000 + (h - 0xD800) * 0x400 + (l - 0xDC00), u)
                 else Some (0xFFFD, t)
             | None \<Rightarrow> Some (0xFFFD, t))
          else Some (0xFFFD, t))"

fun read_escape :: "gostring \<Rightarrow> (rune \<times> gostring) option" where
  "read_escape [] = None"
| "read_escape (r # s) =
     (if r = 34 \<or> r = 92 \<or> r = 47 then Some (r, s)
      else if r = 98 then Some (8, s)
      else if r = 102 then Some (12, s)
      else if r = 110 then Some (10, s)
      else if r = 114 then Some (13, s)
      else if r = 116 then Some (9, s)
      else if r = 117 then read_rune s
      else None)"

lemma read_hex4_shorter: "read_hex4 s = Some (h, t) \<Longrightarrow> length t < length s"
  by (induction s rule: read_hex4.induct) (auto split: option.splits prod.splits)

lemma read_escape_shorter: "read_escape s = Some (r, t) \<Longrightarrow> length t < length s"
proof (induction s rule: read_escape.induct)
  case (2 r' s)
  have "length t < length s" if "read_rune s = Some (r, t)"
    using that by (auto simp: read_rune_def split: option.splits if_splits prod.splits dest!: read_hex4_shorter)
  with 2 show ?case by (auto split: if_splits)
qed simp

text \<open>The rest of a string literal after its opening quote.\<close>

function unquote :: "gostring \<Rightarrow> (gostring \<times> gostring) option" where
  "unquote [] = None"
| "unquote (r # s) =
     (if r = 34 then Some ([], s)
      else if r = 92 then
        (case read_escape s of
           None \<Rightarrow> None
         | Some (c, t) \<Rightarrow> (case unquote t of None \<Rightarrow> None | Some (x, u) \<Rightarrow> Some (c # x, u)))
      else if r < 32 then None
      else (case unquote s of None \<Rightarrow> None | Some (x, u) \<Rightarrow> Some (r # x, u)))"
  by pat_completeness auto
termination by (relation "measure length") (auto dest!: read_escape_shorter)

definition is_dec :: "rune \<Rightarrow> bool" where
  "is_dec r \<longleftrightarrow> 48 \<le> r \<and> r \<le> 57"

text \<open>The integer, fraction and exponent of a number.\<close>

definition read_digits :: "gostring \<Rightarrow> (gostring \<times> gostring) option" where
  "read_digits s = (if takeWhile is_dec s = [] then None else Some (takeWhile is_dec s, dropWhile is_dec s))"

definition read_integer :: "gostring \<Rightarrow> (gostring \<times> gostring) option" where
  "read_integer s = (if s \<noteq> [] \<and> hd s = 48 then Some ([48], tl s) else read_digits s)"

definition read_fraction :: "gostring \<Rightarrow> (gostring \<times> gostring) option" where
  "read_fraction s =
     (if s \<noteq> [] \<and> hd s = 46 then map_option (\<lambda>(x, t). (46 # x, t)) (read_digits (tl s)) else Some ([], s))"

definition read_exponent :: "gostring \<Rightarrow> (gostring \<times> gostring) option" where
  "read_exponent s =
     (if s \<noteq> [] \<and> (hd s = 69 \<or> hd s = 101) then
        (let sign = (if tl s \<noteq> [] \<and> (hd (tl s) = 43 \<or> hd (tl s) = 45) then [hd (tl s)] else [])
         in map_option (\<lambda>(x, t). (hd s # sign @ x, t)) (read_digits (drop (length sign) (tl s))))
      else Some ([], s))"

definition read_number :: "gostring \<Rightarrow> (gostring \<times> gostring) option" where
  "read_number s =
     (let sign = (if s \<noteq> [] \<and> hd s = 45 then [45] else [])
      in case read_integer (drop (length sign) s) of
           None \<Rightarrow> None
         | Some (i, t) \<Rightarrow>
             (case read_fraction t of
                None \<Rightarrow> None
              | Some (f, u) \<Rightarrow> map_option (\<lambda>(e, v). (sign @ i @ f @ e, v)) (read_exponent u)))"

definition read_word :: "gostring \<Rightarrow> (json \<times> gostring) option" where
  "read_word s =
     (if take 4 s = lit ''null'' then Some (JNull, drop 4 s)
      else if take 4 s = lit ''true'' then Some (JBool True, drop 4 s)
      else if take 5 s = lit ''false'' then Some (JBool False, drop 5 s)
      else map_option (\<lambda>(x, t). (JNum x, t)) (read_number s))"

text \<open>
  The recursion is bounded by a number of calls; \<open>parse_fuel\<close> below shows that twice the length
  of the text is always enough.
\<close>

fun parse_value :: "nat \<Rightarrow> gostring \<Rightarrow> (json \<times> gostring) option"
and parse_elements :: "nat \<Rightarrow> gostring \<Rightarrow> (json list \<times> gostring) option"
and parse_members :: "nat \<Rightarrow> gostring \<Rightarrow> ((gostring \<times> json) list \<times> gostring) option" where
  "parse_value 0 s = None"
| "parse_value (Suc n) s =
     (case skip_spaces s of
        [] \<Rightarrow> None
      | r # t \<Rightarrow>
          if r = 34 then map_option (\<lambda>(x, u). (JString x, u)) (unquote t)
          else if r = 91 then
            (if skip_spaces t \<noteq> [] \<and> hd (skip_spaces t) = 93 then Some (JArray [], tl (skip_spaces t))
             else map_option (\<lambda>(xs, u). (JArray xs, u)) (parse_elements n t))
          else if r = 123 then
            (if skip_spaces t \<noteq> [] \<and> hd (skip_spaces t) = 125 then Some (JObject [], tl (skip_spaces t))
             else map_option (\<lambda>(ms, u). (JObject ms, u)) (parse_members n t))
          else read_word (r # t))"
| "parse_elements 0 s = None"
| "parse_elements (Suc n) s =
     (case parse_value n s of
        None \<Rightarrow> None
      | Some (x, t) \<Rightarrow>
          (case skip_spaces t of
             [] \<Rightarrow> None
           | r # u \<Rightarrow>
               if r = 44 then map_option (\<lambda>(xs, v). (x # xs, v)) (parse_elements n u)
               else if r = 93 then Some ([x], u)
               else None))"
| "parse_members 0 s = None"
| "parse_members (Suc n) s =
     (case skip_spaces s of
        [] \<Rightarrow> None
      | q # s1 \<Rightarrow>
          if q \<noteq> 34 then None
          else case unquote s1 of
            None \<Rightarrow> None
          | Some (k, s2) \<Rightarrow>
              (case skip_spaces s2 of
                 [] \<Rightarrow> None
               | c # s3 \<Rightarrow>
                   if c \<noteq> 58 then None
                   else case parse_value n s3 of
                     None \<Rightarrow> None
                   | Some (x, t) \<Rightarrow>
                       (case skip_spaces t of
                          [] \<Rightarrow> None
                        | r # u \<Rightarrow>
                            if r = 44 then map_option (\<lambda>(ms, v). ((k, x) # ms, v)) (parse_members n u)
                            else if r = 125 then Some ([(k, x)], u)
                            else None)))"

definition parse_json :: "gostring \<Rightarrow> json result" where
  "parse_json s =
     (case parse_value (2 * length s + 2) s of
        Some (j, rest) \<Rightarrow> if skip_spaces rest = [] then Inr j else Inl (Err ''invalid character'')
      | None \<Rightarrow> Inl (Err ''invalid character''))"

subsection \<open>Decoding\<close>

text \<open>
  A decoder takes the value that is already there, which \<^verbatim>\<open>null\<close> leaves alone (pointers, slices
  and maps become nil). A value of another kind is an error, after which \<^verbatim>\<open>Unmarshal\<close> still fills
  the other fields, but every caller drops what it filled.
\<close>

type_synonym 'a decoder = "json \<Rightarrow> 'a \<Rightarrow> 'a result"

definition decode_int :: "int decoder" where
  "decode_int j old =
     (case j of JNull \<Rightarrow> Inr old
      | JNum s \<Rightarrow> (case ParseInt 10 s of Inl e \<Rightarrow> Inl (Err ''cannot unmarshal'') | Inr i \<Rightarrow> Inr i)
      | _ \<Rightarrow> Inl (Err ''cannot unmarshal''))"

definition decode_string :: "gostring decoder" where
  "decode_string j old =
     (case j of JNull \<Rightarrow> Inr old | JString s \<Rightarrow> Inr s | _ \<Rightarrow> Inl (Err ''cannot unmarshal''))"

definition decode_pointer :: "'a decoder \<Rightarrow> 'a \<Rightarrow> 'a option decoder" where
  "decode_pointer dec zero j old =
     (case j of JNull \<Rightarrow> Inr None | _ \<Rightarrow> map_sum id Some (dec j (case old of None \<Rightarrow> zero | Some x \<Rightarrow> x)))"

text \<open>The elements of a slice are decoded over the elements that are there.\<close>

fun decode_elements :: "'a decoder \<Rightarrow> 'a \<Rightarrow> json list \<Rightarrow> 'a list \<Rightarrow> 'a list result" where
  "decode_elements dec zero [] olds = Inr []"
| "decode_elements dec zero (x # xs) olds =
     bind_result (dec x (if olds = [] then zero else hd olds)) (\<lambda>y.
     bind_result (decode_elements dec zero xs (tl olds)) (\<lambda>ys. Inr (y # ys)))"

definition decode_slice :: "'a decoder \<Rightarrow> 'a \<Rightarrow> 'a list decoder" where
  "decode_slice dec zero j olds =
     (case j of JNull \<Rightarrow> Inr [] | JArray xs \<Rightarrow> decode_elements dec zero xs olds | _ \<Rightarrow> Inl (Err ''cannot unmarshal''))"

text \<open>A map is decoded into the entries that are there; \<open>key\<close> reads a key.\<close>

fun decode_entries :: "(gostring \<Rightarrow> 'k result) \<Rightarrow> 'a decoder \<Rightarrow> 'a \<Rightarrow> (gostring \<times> json) list \<Rightarrow> ('k, 'a) gomap decoder" where
  "decode_entries key dec zero [] j m = Inr m"
| "decode_entries key dec zero ((k, x) # ms) j m =
     bind_result (key k) (\<lambda>k'. bind_result (dec x zero) (\<lambda>y. decode_entries key dec zero ms j (gomap_set m k' y)))"

definition decode_map :: "(gostring \<Rightarrow> 'k result) \<Rightarrow> 'a decoder \<Rightarrow> 'a \<Rightarrow> ('k, 'a) gomap decoder" where
  "decode_map key dec zero j m =
     (case j of JNull \<Rightarrow> Inr [] | JObject ms \<Rightarrow> decode_entries key dec zero ms j m | _ \<Rightarrow> Inl (Err ''cannot unmarshal''))"

text \<open>
  Field names match without regard to the case of ASCII letters (and of the two runes that
  fold to one); the fields of an object are decoded in their order, unknown ones are skipped.
\<close>

definition fold_case :: "rune \<Rightarrow> rune" where
  "fold_case r = (if 65 \<le> r \<and> r \<le> 90 then r + 32 else if r = 0x17F then 115 else if r = 0x212A then 107 else r)"

definition named :: "gostring \<Rightarrow> string \<Rightarrow> bool" where
  "named k name \<longleftrightarrow> map fold_case k = map fold_case (lit name)"

fun decode_fields :: "(gostring \<Rightarrow> 'r decoder) \<Rightarrow> (gostring \<times> json) list \<Rightarrow> 'r \<Rightarrow> 'r result" where
  "decode_fields field [] r = Inr r"
| "decode_fields field ((k, x) # ms) r = bind_result (field k x r) (\<lambda>r'. decode_fields field ms r')"

definition decode_struct :: "(gostring \<Rightarrow> 'r decoder) \<Rightarrow> 'r decoder" where
  "decode_struct field j r =
     (case j of JNull \<Rightarrow> Inr r | JObject ms \<Rightarrow> decode_fields field ms r | _ \<Rightarrow> Inl (Err ''cannot unmarshal''))"

definition Unmarshal :: "'a decoder \<Rightarrow> 'a \<Rightarrow> gostring \<Rightarrow> 'a result" where
  "Unmarshal dec zero s = bind_result (parse_json s) (\<lambda>j. dec j zero)"

subsection \<open>Encoding\<close>

definition encode_int :: "int \<Rightarrow> json" where
  "encode_int i = JNum (Itoa i)"

text \<open>A member of a struct, and one that is left out when it is empty.\<close>

definition member :: "string \<Rightarrow> json \<Rightarrow> (gostring \<times> json) list" where
  "member name x = [(lit name, x)]"

definition omitempty :: "bool \<Rightarrow> string \<Rightarrow> json \<Rightarrow> (gostring \<times> json) list" where
  "omitempty skip name x = (if skip then [] else [(lit name, x)])"

text \<open>The keys of a map are written as strings, in the order of their text.\<close>

definition encode_map :: "('k \<Rightarrow> gostring) \<Rightarrow> ('a \<Rightarrow> json) \<Rightarrow> ('k, 'a) gomap \<Rightarrow> json" where
  "encode_map key enc m = JObject (sort_key fst (map (\<lambda>(k, x). (key k, enc x)) m))"

end
