(* ===== verification/DataStore.thy ===== *)
theory DataStore
  imports APool Attributes
begin

text \<open>
  The stored data of \<^verbatim>\<open>lib/models/db\<close> and the storage interface of \<^verbatim>\<open>lib/db/DataStore.go\<close>.

  A Go interface value is a table of methods: the record \<open>DataStore\<close> has the methods the
  modelled clients call, over a state \<open>'s\<close> of the implementation. A method that changes the
  state returns its error (nil is \<open>None\<close>) and the new state; a method that only reads
  returns a result. A method that reads the clock takes the reading as its first argument;
  \<^verbatim>\<open>time.Time\<close> is the number of nanoseconds since 1970.
\<close>

type_synonym time = int
type_synonym millis = int

text \<open>The zero \<^verbatim>\<open>time.Time\<close>, the first of January of the year 1.\<close>

definition zero_time :: time where
  "zero_time = - 62135596800 * 10 ^ 9"

text \<open>\<^verbatim>\<open>UnixNano() / int64(time.Millisecond)\<close> and \<^verbatim>\<open>Unix()\<close>.\<close>

definition millis_of :: "time \<Rightarrow> millis" where
  "millis_of t = (if 0 \<le> t then t div 10 ^ 6 else - ((- t) div 10 ^ 6))"

definition unix_of :: "time \<Rightarrow> int" where
  "unix_of t = t div 10 ^ 9"

subsection \<open>lib/models/db\<close>

record SavedRevision =
  sr_RevNum :: int
  sr_SavedBy :: gostring
  sr_Timestamp :: millis
  sr_Label :: "gostring option"
  sr_Id :: gostring

record PadDB =
  pdb_ID :: gostring
  pdb_Head :: int
  pdb_SavedRevisions :: "SavedRevision list"
  pdb_ReadOnlyId :: "gostring option"
  pdb_Pool :: RevPool
  pdb_ChatHead :: int
  pdb_PublicStatus :: bool
  pdb_DocumentType :: gostring
  pdb_ATextText :: gostring
  pdb_ATextAttribs :: gostring
  pdb_CreatedAt :: time
  pdb_UpdatedAt :: "time option"

record PadSingleRevision =
  rev_PadId :: gostring
  rev_RevNum :: int
  rev_Changeset :: gostring
  rev_AText :: AText
  rev_AuthorId :: "gostring option"
  rev_Timestamp :: millis
  rev_Pool :: "RevPool option"

record AuthorDB =
  adb_ID :: gostring
  adb_Name :: "gostring option"
  adb_ColorId :: gostring
  adb_Timestamp :: millis
  adb_Token :: "gostring option"
  adb_CreatedAt :: time

record ChatMessageDB =
  chat_PadId :: gostring
  chat_Head :: int
  chat_Message :: gostring
  chat_Time :: "millis option"
  chat_AuthorId :: "gostring option"

record ChatMessageDBWithDisplayName =
  ChatMessage :: ChatMessageDB
  DisplayName :: "gostring option"

record PadDBSearch =
  Padname :: gostring
  LastEdited :: millis
  RevisionNumber :: int

record PadDBSearchResult =
  TotalPads :: int
  Pads :: "PadDBSearch list"

record ServerVersion =
  Version :: gostring
  sv_UpdatedAt :: time

record SheetDB =
  sdb_ID :: gostring
  sdb_Head :: int
  sdb_Snapshot :: gostring
  sdb_CreatedAt :: time
  sdb_UpdatedAt :: "time option"

record SheetOpDB =
  sop_PadId :: gostring
  sop_Rev :: int
  sop_Op :: gostring
  sop_AuthorId :: "gostring option"
  sop_Timestamp :: millis

text \<open>\<^verbatim>\<open>lib/models/session\<close>: a browser session as it is stored.\<close>

record Session =
  session_Id :: gostring
  OriginalMaxAge :: int
  Expires :: gostring
  Secure :: bool
  HttpOnly :: bool
  Path :: gostring
  SameSite :: gostring
  Connections :: gostring

subsection \<open>lib/db/constants.go\<close>

definition PadDoesNotExistError :: string where
  "PadDoesNotExistError = ''pad not found''"

definition PadRevisionNotFoundError :: string where
  "PadRevisionNotFoundError = ''pad revision not found''"

definition PadReadOnlyIdNotFoundError :: string where
  "PadReadOnlyIdNotFoundError = ''pad read only id not found''"

definition AuthorNotFoundError :: string where
  "AuthorNotFoundError = ''author not found''"

definition SessionNotFoundError :: string where
  "SessionNotFoundError = ''session not found''"

definition SheetDoesNotExistError :: string where
  "SheetDoesNotExistError = ''sheet does not exist''"

subsection \<open>lib/db/DataStore.go\<close>

record 's DataStore =
  \<comment> \<open>\<^verbatim>\<open>PadMethods\<close>\<close>
  ds_DoesPadExist :: "gostring \<Rightarrow> 's \<Rightarrow> bool result"
  ds_RemovePad :: "gostring \<Rightarrow> 's \<Rightarrow> goerr option \<times> 's"
  ds_CreatePad :: "time \<Rightarrow> gostring \<Rightarrow> PadDB \<Rightarrow> 's \<Rightarrow> goerr option \<times> 's"
  ds_GetPadIds :: "'s \<Rightarrow> gostring list result"
  ds_SaveRevision :: "gostring \<Rightarrow> int \<Rightarrow> gostring \<Rightarrow> AText \<Rightarrow> RevPool \<Rightarrow> gostring option \<Rightarrow> millis \<Rightarrow>
    's \<Rightarrow> goerr option \<times> 's"
  ds_GetRevision :: "gostring \<Rightarrow> int \<Rightarrow> 's \<Rightarrow> PadSingleRevision result"
  ds_RemoveRevisionsOfPad :: "gostring \<Rightarrow> 's \<Rightarrow> goerr option \<times> 's"
  ds_GetRevisions :: "gostring \<Rightarrow> int \<Rightarrow> int \<Rightarrow> 's \<Rightarrow> PadSingleRevision list result"
  ds_GetPad :: "gostring \<Rightarrow> 's \<Rightarrow> PadDB result"
  ds_GetReadonlyPad :: "gostring \<Rightarrow> 's \<Rightarrow> gostring result"
  ds_SetReadOnlyId :: "time \<Rightarrow> gostring \<Rightarrow> gostring \<Rightarrow> 's \<Rightarrow> goerr option \<times> 's"
  ds_GetPadByReadOnlyId :: "gostring \<Rightarrow> 's \<Rightarrow> gostring option result"
  ds_SaveChatHeadOfPad :: "time \<Rightarrow> gostring \<Rightarrow> int \<Rightarrow> 's \<Rightarrow> goerr option \<times> 's"
  ds_QueryPad :: "int \<Rightarrow> int \<Rightarrow> gostring \<Rightarrow> bool \<Rightarrow> gostring \<Rightarrow> 's \<Rightarrow> PadDBSearchResult result"
  \<comment> \<open>\<^verbatim>\<open>AuthorMethods\<close>\<close>
  ds_GetAuthor :: "gostring \<Rightarrow> 's \<Rightarrow> AuthorDB result"
  ds_GetPadIdsOfAuthor :: "gostring \<Rightarrow> 's \<Rightarrow> gostring list result"
  ds_GetAuthorByToken :: "gostring \<Rightarrow> 's \<Rightarrow> gostring result"
  ds_SetAuthorByToken :: "time \<Rightarrow> gostring \<Rightarrow> gostring \<Rightarrow> 's \<Rightarrow> goerr option \<times> 's"
  ds_SaveAuthor :: "time \<Rightarrow> AuthorDB \<Rightarrow> 's \<Rightarrow> goerr option \<times> 's"
  ds_SaveAuthorName :: "gostring \<Rightarrow> gostring \<Rightarrow> 's \<Rightarrow> goerr option \<times> 's"
  ds_SaveAuthorColor :: "gostring \<Rightarrow> gostring \<Rightarrow> 's \<Rightarrow> goerr option \<times> 's"
  ds_GetAuthors :: "gostring list \<Rightarrow> 's \<Rightarrow> AuthorDB list result"
  ds_RemoveTokenOfAuthor :: "gostring \<Rightarrow> 's \<Rightarrow> goerr option \<times> 's"
  \<comment> \<open>\<^verbatim>\<open>ChatMethods\<close>\<close>
  ds_RemoveChat :: "gostring \<Rightarrow> 's \<Rightarrow> goerr option \<times> 's"
  ds_SaveChatMessage :: "gostring \<Rightarrow> int \<Rightarrow> gostring option \<Rightarrow> millis \<Rightarrow> gostring \<Rightarrow> 's \<Rightarrow> goerr option \<times> 's"
  ds_GetChatsOfPad :: "gostring \<Rightarrow> int \<Rightarrow> int \<Rightarrow> 's \<Rightarrow> ChatMessageDBWithDisplayName list result"
  ds_GetAuthorIdsOfPadChats :: "gostring \<Rightarrow> 's \<Rightarrow> gostring list result"
  ds_ClearChatAuthorship :: "gostring \<Rightarrow> 's \<Rightarrow> goerr option \<times> 's"
  \<comment> \<open>\<^verbatim>\<open>GroupMethods\<close> and \<^verbatim>\<open>ServerMethods\<close>\<close>
  ds_SaveGroup :: "gostring \<Rightarrow> 's \<Rightarrow> goerr option \<times> 's"
  ds_RemoveGroup :: "gostring \<Rightarrow> 's \<Rightarrow> goerr option \<times> 's"
  ds_GetGroup :: "gostring \<Rightarrow> 's \<Rightarrow> gostring result"
  ds_GetGroups :: "'s \<Rightarrow> gostring list result"
  ds_GetServerVersion :: "'s \<Rightarrow> ServerVersion option result"
  \<comment> \<open>\<^verbatim>\<open>OIDCMethods\<close>, the key-value part\<close>
  ds_GetOIDCStorageValue :: "gostring \<Rightarrow> 's \<Rightarrow> gostring option result"
  ds_SetOIDCStorageValue :: "gostring \<Rightarrow> gostring \<Rightarrow> 's \<Rightarrow> goerr option \<times> 's"
  ds_DeleteOIDCStorageValue :: "gostring \<Rightarrow> 's \<Rightarrow> goerr option \<times> 's"
  \<comment> \<open>\<^verbatim>\<open>SheetMethods\<close>\<close>
  ds_SaveSheet :: "time \<Rightarrow> gostring \<Rightarrow> int \<Rightarrow> gostring \<Rightarrow> 's \<Rightarrow> goerr option \<times> 's"
  ds_GetSheet :: "gostring \<Rightarrow> 's \<Rightarrow> SheetDB result"
  ds_DoesSheetExist :: "gostring \<Rightarrow> 's \<Rightarrow> bool result"
  ds_SaveSheetOp :: "gostring \<Rightarrow> int \<Rightarrow> gostring \<Rightarrow> gostring option \<Rightarrow> millis \<Rightarrow> 's \<Rightarrow> goerr option \<times> 's"
  ds_GetSheetOps :: "gostring \<Rightarrow> int \<Rightarrow> int \<Rightarrow> 's \<Rightarrow> SheetOpDB list result"
  ds_RemoveSheetOps :: "gostring \<Rightarrow> 's \<Rightarrow> goerr option \<times> 's"

end
