(* ===== verification/MemoryStore.thy ===== *)
theory MemoryStore
  imports DataStore
begin

text \<open>
  The in-memory implementation of the storage interface, \<^verbatim>\<open>lib/db/MemoryDataStore.go\<close> and
  \<^verbatim>\<open>lib/db/MemorySheet.go\<close>, method by method: pads, read-only ids, authors and revisions
  here, chat, groups, sessions, key-value storage and spreadsheets in \<open>ChatStore\<close>, and
  the token tables in \<open>TokenStore\<close>. Each method takes the store last; a Go map that is visited by \<^verbatim>\<open>range\<close> is
  visited in the order of its entry list, which stands for the unspecified order.
\<close>

record OAuthTokenRow =
  Signature :: gostring
  ClientID :: gostring
  RequestID :: gostring
  Scopes :: gostring
  GrantedScopes :: gostring
  FormData :: gostring
  SessionData :: gostring
  Active :: bool
  RequestedAt :: time
  ExpiresAt :: time

record OAuthRefreshTokenRow =
  TokenRow :: OAuthTokenRow
  AccessTokenSignature :: gostring

record memorySecretRow =
  secret_prefix :: gostring
  secret_payload :: gostring

record MemoryDataStore =
  padStore :: "(gostring, PadDB) gomap"
  padRevisions :: "(gostring, (int, PadSingleRevision) gomap) gomap"
  authorStore :: "(gostring, AuthorDB) gomap"
  chatPads :: "(gostring, ChatMessageDB) gomap"
  sessionStore :: "(gostring, Session) gomap"
  groupStore :: "(gostring, gostring) gomap"
  serverVersion :: "ServerVersion option"
  oidcStorage :: "(gostring, gostring) gomap"
  secretParams :: "(gostring, memorySecretRow) gomap"
  sheetStore :: "(gostring, SheetDB) gomap"
  sheetOps :: "(gostring, (int, SheetOpDB) gomap) gomap"
  accessTokenRequestIDs :: "(gostring, gostring) gomap"
  oauthAccessTokens :: "(gostring, OAuthTokenRow) gomap"
  oauthRefreshTokens :: "(gostring, OAuthRefreshTokenRow) gomap"
  oauthAuthCodes :: "(gostring, OAuthTokenRow) gomap"
  oauthPKCE :: "(gostring, OAuthTokenRow) gomap"
  oauthOIDCSessions :: "(gostring, OAuthTokenRow) gomap"

definition NewMemoryDataStore :: MemoryDataStore where
  "NewMemoryDataStore =
     \<lparr>padStore = [], padRevisions = [], authorStore = [], chatPads = [], sessionStore = [],
      groupStore = [], serverVersion = None, oidcStorage = [], secretParams = [], sheetStore = [],
      sheetOps = [], accessTokenRequestIDs = [], oauthAccessTokens = [], oauthRefreshTokens = [],
      oauthAuthCodes = [], oauthPKCE = [], oauthOIDCSessions = []\<rparr>"

text \<open>Indexing a map of maps: a missing inner map is nil, which reads as empty.\<close>

definition inner :: "('k, ('l, 'v) gomap) gomap \<Rightarrow> 'k \<Rightarrow> ('l, 'v) gomap" where
  "inner m k = (case gomap_get m k of None \<Rightarrow> [] | Some x \<Rightarrow> x)"

subsection \<open>Pads\<close>

definition Mem_CreatePad :: "time \<Rightarrow> gostring \<Rightarrow> PadDB \<Rightarrow> MemoryDataStore \<Rightarrow> goerr option \<times> MemoryDataStore" where
  "Mem_CreatePad now padID padDB m =
     (case gomap_get (padStore m) padID of
        Some existing \<Rightarrow>
          (None, m\<lparr>padStore := gomap_set (padStore m) padID
                    (padDB\<lparr>pdb_CreatedAt := pdb_CreatedAt existing, pdb_UpdatedAt := Some now\<rparr>)\<rparr>)
      | None \<Rightarrow>
          (None, m\<lparr>padRevisions := gomap_set (padRevisions m) padID [],
                   padStore := gomap_set (padStore m) padID
                    (padDB\<lparr>pdb_CreatedAt := now, pdb_UpdatedAt := Some now, pdb_ID := padID\<rparr>)\<rparr>))"

definition Mem_GetPad :: "gostring \<Rightarrow> MemoryDataStore \<Rightarrow> PadDB result" where
  "Mem_GetPad padID m =
     (case gomap_get (padStore m) padID of
        None \<Rightarrow> Inl (Err PadDoesNotExistError) | Some pad \<Rightarrow> Inr pad)"

definition Mem_DoesPadExist :: "gostring \<Rightarrow> MemoryDataStore \<Rightarrow> bool result" where
  "Mem_DoesPadExist padID m = Inr (gomap_get (padStore m) padID \<noteq> None)"

definition Mem_RemovePad :: "gostring \<Rightarrow> MemoryDataStore \<Rightarrow> goerr option \<times> MemoryDataStore" where
  "Mem_RemovePad padID m =
     (None, m\<lparr>padStore := gomap_del (padStore m) padID, padRevisions := gomap_del (padRevisions m) padID\<rparr>)"

definition Mem_GetPadIds :: "MemoryDataStore \<Rightarrow> gostring list result" where
  "Mem_GetPadIds m = Inr (map fst (padStore m))"

definition Mem_SaveChatHeadOfPad :: "time \<Rightarrow> gostring \<Rightarrow> int \<Rightarrow> MemoryDataStore \<Rightarrow> goerr option \<times> MemoryDataStore" where
  "Mem_SaveChatHeadOfPad now padId head m =
     (case gomap_get (padStore m) padId of
        None \<Rightarrow> (Some (Err PadDoesNotExistError), m)
      | Some pad \<Rightarrow>
          (None, m\<lparr>padStore := gomap_set (padStore m) padId
                    (pad\<lparr>pdb_ChatHead := head, pdb_UpdatedAt := Some now\<rparr>)\<rparr>))"

text \<open>
  The search of pads. The sort by time is not stable in Go; pads of the same time keep the order of
  the entry list, which stands for any order. The limits are added in floating point, exactly for
  the sizes of a store; a page that starts behind the last pad cannot be sliced.
\<close>

definition by_UpdatedAt :: "(gostring, PadDB) gomap \<Rightarrow> gostring \<Rightarrow> int option" where
  "by_UpdatedAt pads k = (case gomap_get pads k of None \<Rightarrow> None | Some pad \<Rightarrow> pdb_UpdatedAt pad)"

fun insert_by_time :: "(gostring, PadDB) gomap \<Rightarrow> gostring \<Rightarrow> gostring list \<Rightarrow> gostring list" where
  "insert_by_time pads k [] = [k]"
| "insert_by_time pads k (x # xs) =
     (case (by_UpdatedAt pads k, by_UpdatedAt pads x) of
        (Some t, Some u) \<Rightarrow> if t \<le> u then k # x # xs else x # insert_by_time pads k xs
      | (None, _) \<Rightarrow> k # x # xs
      | (Some t, None) \<Rightarrow> x # insert_by_time pads k xs)"

fun insert_by_name :: "gostring \<Rightarrow> gostring list \<Rightarrow> gostring list" where
  "insert_by_name k [] = [k]"
| "insert_by_name k (x # xs) = (if str_less x k then x # insert_by_name k xs else k # x # xs)"

fun search_rows :: "(gostring, PadDB) gomap \<Rightarrow> gostring list \<Rightarrow> PadDBSearch list result" where
  "search_rows pads [] = Inr []"
| "search_rows pads (k # ks) =
     (case gomap_get pads k of
        None \<Rightarrow> Inl Panic
      | Some pad \<Rightarrow>
          (case pdb_UpdatedAt pad of
             None \<Rightarrow> Inl Panic
           | Some t \<Rightarrow> bind_result (search_rows pads ks) (\<lambda>rest.
               Inr (\<lparr>Padname = k, LastEdited = t div 1000000, RevisionNumber = pdb_Head pad\<rparr> # rest))))"

definition Mem_QueryPad :: "int \<Rightarrow> int \<Rightarrow> gostring \<Rightarrow> bool \<Rightarrow> gostring \<Rightarrow> MemoryDataStore \<Rightarrow> PadDBSearchResult result" where
  "Mem_QueryPad offset limit sortBy is_ascending pattern m =
     (let found = filter (\<lambda>k. pattern = [] \<or> str_index k pattern \<ge> 0) (map fst (padStore m));
          sorted = (if sortBy = lit ''padName'' then foldr insert_by_name found []
                    else if sortBy = lit ''lastEdited'' then foldr (insert_by_time (padStore m)) found []
                    else found);
          padKeys = (if is_ascending then sorted else rev sorted);
          padEnd = min (int (length padKeys)) (offset + limit);
          padStart = max 0 offset
      in if padStart > padEnd then Inl Panic
         else bind_result (search_rows (padStore m) (drop (nat padStart) (take (nat padEnd) padKeys))) (\<lambda>padSearch.
                Inr \<lparr>TotalPads = int (length padKeys), Pads = padSearch\<rparr>))"

subsection \<open>Read-only ids\<close>

definition Mem_GetReadonlyPad :: "gostring \<Rightarrow> MemoryDataStore \<Rightarrow> gostring result" where
  "Mem_GetReadonlyPad padId m =
     (case gomap_get (padStore m) padId of
        None \<Rightarrow> Inl (Err PadDoesNotExistError)
      | Some pad \<Rightarrow>
          (case pdb_ReadOnlyId pad of
             None \<Rightarrow> Inl (Err PadReadOnlyIdNotFoundError) | Some ident \<Rightarrow> Inr ident))"

definition Mem_SetReadOnlyId :: "time \<Rightarrow> gostring \<Rightarrow> gostring \<Rightarrow> MemoryDataStore \<Rightarrow> goerr option \<times> MemoryDataStore" where
  "Mem_SetReadOnlyId now padId readonlyId m =
     (case gomap_get (padStore m) padId of
        None \<Rightarrow> (Some (Err PadDoesNotExistError), m)
      | Some pad \<Rightarrow>
          (None, m\<lparr>padStore := gomap_set (padStore m) padId
                    (pad\<lparr>pdb_ReadOnlyId := Some readonlyId, pdb_UpdatedAt := Some now\<rparr>)\<rparr>))"

definition Mem_GetPadByReadOnlyId :: "gostring \<Rightarrow> MemoryDataStore \<Rightarrow> gostring option result" where
  "Mem_GetPadByReadOnlyId readonlyId m =
     Inr (map_option fst (find (\<lambda>(padId, pad). pdb_ReadOnlyId pad = Some readonlyId) (padStore m)))"

definition Mem_CreatePad2ReadOnly :: "time \<Rightarrow> gostring \<Rightarrow> gostring \<Rightarrow> MemoryDataStore \<Rightarrow> goerr option \<times> MemoryDataStore" where
  "Mem_CreatePad2ReadOnly now padId readonlyId m = Mem_SetReadOnlyId now padId readonlyId m"

definition Mem_GetReadOnly2Pad :: "gostring \<Rightarrow> MemoryDataStore \<Rightarrow> gostring option result" where
  "Mem_GetReadOnly2Pad ident m = Mem_GetPadByReadOnlyId ident m"

subsection \<open>Authors\<close>

definition Mem_SaveAuthor :: "time \<Rightarrow> AuthorDB \<Rightarrow> MemoryDataStore \<Rightarrow> goerr option \<times> MemoryDataStore" where
  "Mem_SaveAuthor now author m =
     (if adb_ID author = [] then (Some (Err ''author ID is empty''), m)
      else
        let author1 =
          (case gomap_get (authorStore m) (adb_ID author) of
             Some existing \<Rightarrow>
               (if adb_Token author = None \<and> adb_Token existing \<noteq> None
                then author\<lparr>adb_Token := adb_Token existing\<rparr> else author)
               \<lparr>adb_CreatedAt := adb_CreatedAt existing\<rparr>
           | None \<Rightarrow> author\<lparr>adb_CreatedAt := now\<rparr>)
        in (None, m\<lparr>authorStore := gomap_set (authorStore m) (adb_ID author) author1\<rparr>))"

definition wrote :: "gostring \<Rightarrow> (int, PadSingleRevision) gomap \<Rightarrow> bool" where
  "wrote authorId revisions \<longleftrightarrow> (\<exists>(n, rev')\<in>set revisions. rev_AuthorId rev' = Some authorId)"

definition Mem_GetPadIdsOfAuthor :: "gostring \<Rightarrow> MemoryDataStore \<Rightarrow> gostring list result" where
  "Mem_GetPadIdsOfAuthor authorId m =
     Inr (map fst (filter (\<lambda>(padId, revisions). wrote authorId revisions) (padRevisions m)))"

text \<open>The pads that \<^verbatim>\<open>GetAuthor\<close> collects from the revisions are not part of its result.\<close>

definition Mem_GetAuthor :: "gostring \<Rightarrow> MemoryDataStore \<Rightarrow> AuthorDB result" where
  "Mem_GetAuthor authorId m =
     (case gomap_get (authorStore m) authorId of
        None \<Rightarrow> Inl (Err AuthorNotFoundError) | Some author \<Rightarrow> Inr author)"

fun Mem_GetAuthors :: "gostring list \<Rightarrow> MemoryDataStore \<Rightarrow> AuthorDB list result" where
  "Mem_GetAuthors [] m = Inr []"
| "Mem_GetAuthors (ident # ids) m =
     (case gomap_get (authorStore m) ident of
        None \<Rightarrow> Inl (Err AuthorNotFoundError)
      | Some author \<Rightarrow> bind_result (Mem_GetAuthors ids m) (\<lambda>authors. Inr (author # authors)))"

definition Mem_SetAuthorByToken :: "time \<Rightarrow> gostring \<Rightarrow> gostring \<Rightarrow> MemoryDataStore \<Rightarrow> goerr option \<times> MemoryDataStore" where
  "Mem_SetAuthorByToken now token authorId m =
     (case gomap_get (authorStore m) authorId of
        Some author \<Rightarrow> (None, m\<lparr>authorStore := gomap_set (authorStore m) authorId (author\<lparr>adb_Token := Some token\<rparr>)\<rparr>)
      | None \<Rightarrow>
          (None, m\<lparr>authorStore := gomap_set (authorStore m) authorId
             \<lparr>adb_ID = authorId, adb_Name = None, adb_ColorId = [], adb_Timestamp = 0,
              adb_Token = Some token, adb_CreatedAt = now\<rparr>\<rparr>))"

definition Mem_GetAuthorByToken :: "gostring \<Rightarrow> MemoryDataStore \<Rightarrow> gostring result" where
  "Mem_GetAuthorByToken token m =
     (case find (\<lambda>(ident, author). adb_Token author = Some token) (authorStore m) of
        None \<Rightarrow> Inl (Err AuthorNotFoundError) | Some (ident, author) \<Rightarrow> Inr ident)"

definition Mem_SaveAuthorName :: "gostring \<Rightarrow> gostring \<Rightarrow> MemoryDataStore \<Rightarrow> goerr option \<times> MemoryDataStore" where
  "Mem_SaveAuthorName authorId authorName m =
     (if authorId = [] then (Some (Err ''authorId is empty''), m)
      else case gomap_get (authorStore m) authorId of
        None \<Rightarrow> (Some (Err ''author not found''), m)
      | Some author \<Rightarrow>
          (None, m\<lparr>authorStore := gomap_set (authorStore m) authorId (author\<lparr>adb_Name := Some authorName\<rparr>)\<rparr>))"

definition Mem_SaveAuthorColor :: "gostring \<Rightarrow> gostring \<Rightarrow> MemoryDataStore \<Rightarrow> goerr option \<times> MemoryDataStore" where
  "Mem_SaveAuthorColor authorId authorColor m =
     (if authorId = [] then (Some (Err ''authorId is empty''), m)
      else case gomap_get (authorStore m) authorId of
        None \<Rightarrow> (Some (Err ''author not found''), m)
      | Some author \<Rightarrow>
          (None, m\<lparr>authorStore := gomap_set (authorStore m) authorId (author\<lparr>adb_ColorId := authorColor\<rparr>)\<rparr>))"

definition Mem_RemoveTokenOfAuthor :: "gostring \<Rightarrow> MemoryDataStore \<Rightarrow> goerr option \<times> MemoryDataStore" where
  "Mem_RemoveTokenOfAuthor authorId m =
     (case gomap_get (authorStore m) authorId of
        None \<Rightarrow> (None, m)
      | Some author \<Rightarrow>
          (None, m\<lparr>authorStore := gomap_set (authorStore m) authorId (author\<lparr>adb_Token := None\<rparr>)\<rparr>))"

subsection \<open>Revisions\<close>

definition Mem_SaveRevision ::
  "gostring \<Rightarrow> int \<Rightarrow> gostring \<Rightarrow> AText \<Rightarrow> RevPool \<Rightarrow> gostring option \<Rightarrow> millis \<Rightarrow>
   MemoryDataStore \<Rightarrow> goerr option \<times> MemoryDataStore" where
  "Mem_SaveRevision padId rev' changeset text' pool authorId timestamp m =
     (if gomap_get (padStore m) padId = None then (Some (Err PadDoesNotExistError), m)
      else if gomap_get (inner (padRevisions m) padId) rev' \<noteq> None
      then (None, m)
      else
        (None, m\<lparr>padRevisions := gomap_set (padRevisions m) padId
          (gomap_set (inner (padRevisions m) padId) rev'
            \<lparr>rev_PadId = padId, rev_RevNum = rev', rev_Changeset = changeset, rev_AText = text',
             rev_AuthorId = authorId, rev_Timestamp = timestamp, rev_Pool = Some pool\<rparr>)\<rparr>))"

definition Mem_GetRevision :: "gostring \<Rightarrow> int \<Rightarrow> MemoryDataStore \<Rightarrow> PadSingleRevision result" where
  "Mem_GetRevision padId rev' m =
     (if gomap_get (padStore m) padId = None then Inl (Err PadDoesNotExistError)
      else if gomap_get (padRevisions m) padId = None then Inl (Err PadRevisionNotFoundError)
      else case gomap_get (inner (padRevisions m) padId) rev' of
        None \<Rightarrow> Inl (Err PadRevisionNotFoundError)
      | Some r \<Rightarrow> Inr (r\<lparr>rev_PadId := padId, rev_RevNum := rev'\<rparr>))"

text \<open>The loop from \<^verbatim>\<open>startRev\<close> to \<^verbatim>\<open>endRev\<close>; the last test fails for an empty range of negative length.\<close>

fun collect_revisions :: "gostring \<Rightarrow> (int, PadSingleRevision) gomap \<Rightarrow> int list \<Rightarrow> PadSingleRevision list result" where
  "collect_revisions padId revisions [] = Inr []"
| "collect_revisions padId revisions (r # rs) =
     (case gomap_get revisions r of
        None \<Rightarrow> Inl (Err PadRevisionNotFoundError)
      | Some x \<Rightarrow>
          bind_result (collect_revisions padId revisions rs) (\<lambda>rest.
            Inr (x\<lparr>rev_PadId := padId, rev_RevNum := r\<rparr> # rest)))"

definition Mem_GetRevisions :: "gostring \<Rightarrow> int \<Rightarrow> int \<Rightarrow> MemoryDataStore \<Rightarrow> PadSingleRevision list result" where
  "Mem_GetRevisions padId startRev endRev m =
     (if gomap_get (padStore m) padId = None then Inl (Err PadDoesNotExistError)
      else if gomap_get (padRevisions m) padId = None then Inl (Err PadRevisionNotFoundError)
      else
        bind_result (collect_revisions padId (inner (padRevisions m) padId) [startRev..endRev]) (\<lambda>revs.
          if int (length revs) \<noteq> endRev - startRev + 1 then Inl (Err PadRevisionNotFoundError)
          else Inr revs))"

definition Mem_RemoveRevisionsOfPad :: "gostring \<Rightarrow> MemoryDataStore \<Rightarrow> goerr option \<times> MemoryDataStore" where
  "Mem_RemoveRevisionsOfPad padId m =
     (if gomap_get (padStore m) padId = None then (Some (Err PadDoesNotExistError), m)
      else (None, m\<lparr>padRevisions := gomap_set (padRevisions m) padId []\<rparr>))"

end
