(* ===== verification/ChatStore.thy ===== *)
theory ChatStore
  imports MemoryStore
begin

text \<open>
  The token tables of \<^verbatim>\<open>lib/db/MemoryDataStore.go\<close>: published secrets, OAuth access and
  refresh tokens, authorisation codes, PKCE requests and OpenID sessions.

  The rest of the in-memory store that the modelled components use: chat messages, groups,
  browser sessions, the server version, the key-value storage and the spreadsheet documents
  of \<^verbatim>\<open>lib/db/MemorySheet.go\<close>; then the method table of \<^verbatim>\<open>*MemoryDataStore\<close>.
\<close>

section \<open>Tokens\<close>

subsection \<open>Secrets\<close>

definition Mem_SaveSecretParams :: "gostring \<Rightarrow> gostring \<Rightarrow> gostring \<Rightarrow> MemoryDataStore \<Rightarrow> goerr option \<times> MemoryDataStore" where
  "Mem_SaveSecretParams ident prefix' payload m =
     (None, m\<lparr>secretParams := gomap_set (secretParams m) ident \<lparr>secret_prefix = prefix', secret_payload = payload\<rparr>\<rparr>)"

definition Mem_ListSecretParams :: "gostring \<Rightarrow> MemoryDataStore \<Rightarrow> (gostring, gostring) gomap result" where
  "Mem_ListSecretParams prefix' m =
     Inr (map (\<lambda>(ident, row). (ident, secret_payload row))
       (filter (\<lambda>(ident, row). secret_prefix row = prefix') (secretParams m)))"

definition Mem_DeleteSecretParams :: "gostring \<Rightarrow> MemoryDataStore \<Rightarrow> goerr option \<times> MemoryDataStore" where
  "Mem_DeleteSecretParams ident m = (None, m\<lparr>secretParams := gomap_del (secretParams m) ident\<rparr>)"

subsection \<open>Access tokens\<close>

definition Mem_CreateAccessToken ::
  "gostring \<Rightarrow> gostring \<Rightarrow> gostring \<Rightarrow> gostring \<Rightarrow> gostring \<Rightarrow> gostring \<Rightarrow> gostring \<Rightarrow> time \<Rightarrow> time \<Rightarrow>
   MemoryDataStore \<Rightarrow> goerr option \<times> MemoryDataStore" where
  "Mem_CreateAccessToken signature clientID requestID scopes grantedScopes formData sessionData requestedAt expiresAt m =
     (None, m\<lparr>oauthAccessTokens := gomap_set (oauthAccessTokens m) signature
       \<lparr>Signature = signature, ClientID = clientID, RequestID = requestID, Scopes = scopes,
        GrantedScopes = grantedScopes, FormData = formData, SessionData = sessionData, Active = False,
        RequestedAt = requestedAt, ExpiresAt = expiresAt\<rparr>\<rparr>)"

definition Mem_GetAccessToken :: "gostring \<Rightarrow> MemoryDataStore \<Rightarrow> OAuthTokenRow result" where
  "Mem_GetAccessToken signature m =
     (case gomap_get (oauthAccessTokens m) signature of
        None \<Rightarrow> Inl (Err ''access token not found'') | Some row \<Rightarrow> Inr row)"

definition Mem_DeleteAccessToken :: "gostring \<Rightarrow> MemoryDataStore \<Rightarrow> goerr option \<times> MemoryDataStore" where
  "Mem_DeleteAccessToken signature m = (None, m\<lparr>oauthAccessTokens := gomap_del (oauthAccessTokens m) signature\<rparr>)"

definition Mem_DeleteAccessTokensByRequestID :: "gostring \<Rightarrow> MemoryDataStore \<Rightarrow> goerr option \<times> MemoryDataStore" where
  "Mem_DeleteAccessTokensByRequestID requestID m =
     (None, m\<lparr>oauthAccessTokens := filter (\<lambda>(sig, row). RequestID row \<noteq> requestID) (oauthAccessTokens m)\<rparr>)"

subsection \<open>Refresh tokens\<close>

definition Mem_CreateRefreshToken ::
  "gostring \<Rightarrow> gostring \<Rightarrow> gostring \<Rightarrow> gostring \<Rightarrow> gostring \<Rightarrow> gostring \<Rightarrow> gostring \<Rightarrow> bool \<Rightarrow> gostring \<Rightarrow>
   time \<Rightarrow> time \<Rightarrow> MemoryDataStore \<Rightarrow> goerr option \<times> MemoryDataStore" where
  "Mem_CreateRefreshToken signature clientID requestID scopes grantedScopes formData sessionData active
      accessTokenSignature requestedAt expiresAt m =
     (None, m\<lparr>oauthRefreshTokens := gomap_set (oauthRefreshTokens m) signature
       \<lparr>TokenRow = \<lparr>Signature = signature, ClientID = clientID, RequestID = requestID, Scopes = scopes,
          GrantedScopes = grantedScopes, FormData = formData, SessionData = sessionData, Active = active,
          RequestedAt = requestedAt, ExpiresAt = expiresAt\<rparr>,
        AccessTokenSignature = accessTokenSignature\<rparr>\<rparr>)"

definition Mem_GetRefreshToken :: "gostring \<Rightarrow> MemoryDataStore \<Rightarrow> OAuthRefreshTokenRow result" where
  "Mem_GetRefreshToken signature m =
     (case gomap_get (oauthRefreshTokens m) signature of
        None \<Rightarrow> Inl (Err ''refresh token not found'') | Some row \<Rightarrow> Inr row)"

definition Mem_DeleteRefreshToken :: "gostring \<Rightarrow> MemoryDataStore \<Rightarrow> goerr option \<times> MemoryDataStore" where
  "Mem_DeleteRefreshToken signature m = (None, m\<lparr>oauthRefreshTokens := gomap_del (oauthRefreshTokens m) signature\<rparr>)"

definition deactivated :: "OAuthRefreshTokenRow \<Rightarrow> OAuthRefreshTokenRow" where
  "deactivated row = row\<lparr>TokenRow := (TokenRow row)\<lparr>Active := False\<rparr>\<rparr>"

definition Mem_RevokeRefreshToken :: "gostring \<Rightarrow> MemoryDataStore \<Rightarrow> goerr option \<times> MemoryDataStore" where
  "Mem_RevokeRefreshToken signature m =
     (case gomap_get (oauthRefreshTokens m) signature of
        None \<Rightarrow> (Some (Err ''refresh token not found''), m)
      | Some row \<Rightarrow> (None, m\<lparr>oauthRefreshTokens := gomap_set (oauthRefreshTokens m) signature (deactivated row)\<rparr>))"

definition Mem_RevokeRefreshTokensByRequestID :: "gostring \<Rightarrow> MemoryDataStore \<Rightarrow> goerr option \<times> MemoryDataStore" where
  "Mem_RevokeRefreshTokensByRequestID requestID m =
     (None, m\<lparr>oauthRefreshTokens := map (\<lambda>(sig, row).
       (sig, if RequestID (TokenRow row) = requestID then deactivated row else row)) (oauthRefreshTokens m)\<rparr>)"

subsection \<open>Authorisation codes\<close>

definition Mem_CreateAuthCode ::
  "gostring \<Rightarrow> gostring \<Rightarrow> gostring \<Rightarrow> gostring \<Rightarrow> gostring \<Rightarrow> gostring \<Rightarrow> gostring \<Rightarrow> time \<Rightarrow> time \<Rightarrow>
   MemoryDataStore \<Rightarrow> goerr option \<times> MemoryDataStore" where
  "Mem_CreateAuthCode signature clientID requestID scopes grantedScopes formData sessionData requestedAt expiresAt m =
     (None, m\<lparr>oauthAuthCodes := gomap_set (oauthAuthCodes m) signature
       \<lparr>Signature = signature, ClientID = clientID, RequestID = requestID, Scopes = scopes,
        GrantedScopes = grantedScopes, FormData = formData, SessionData = sessionData, Active = True,
        RequestedAt = requestedAt, ExpiresAt = expiresAt\<rparr>\<rparr>)"

definition Mem_GetAuthCode :: "gostring \<Rightarrow> MemoryDataStore \<Rightarrow> OAuthTokenRow result" where
  "Mem_GetAuthCode signature m =
     (case gomap_get (oauthAuthCodes m) signature of
        None \<Rightarrow> Inl (Err ''auth code not found'') | Some row \<Rightarrow> Inr row)"

definition Mem_InvalidateAuthCode :: "gostring \<Rightarrow> MemoryDataStore \<Rightarrow> goerr option \<times> MemoryDataStore" where
  "Mem_InvalidateAuthCode signature m =
     (case gomap_get (oauthAuthCodes m) signature of
        None \<Rightarrow> (Some (Err ''auth code not found''), m)
      | Some row \<Rightarrow> (None, m\<lparr>oauthAuthCodes := gomap_set (oauthAuthCodes m) signature (row\<lparr>Active := False\<rparr>)\<rparr>))"

subsection \<open>PKCE and OpenID sessions\<close>

definition Mem_CreatePKCE ::
  "gostring \<Rightarrow> gostring \<Rightarrow> gostring \<Rightarrow> gostring \<Rightarrow> gostring \<Rightarrow> gostring \<Rightarrow> gostring \<Rightarrow> time \<Rightarrow> time \<Rightarrow>
   MemoryDataStore \<Rightarrow> goerr option \<times> MemoryDataStore" where
  "Mem_CreatePKCE signature clientID requestID scopes grantedScopes formData sessionData requestedAt expiresAt m =
     (None, m\<lparr>oauthPKCE := gomap_set (oauthPKCE m) signature
       \<lparr>Signature = signature, ClientID = clientID, RequestID = requestID, Scopes = scopes,
        GrantedScopes = grantedScopes, FormData = formData, SessionData = sessionData, Active = False,
        RequestedAt = requestedAt, ExpiresAt = expiresAt\<rparr>\<rparr>)"

definition Mem_GetPKCE :: "gostring \<Rightarrow> MemoryDataStore \<Rightarrow> OAuthTokenRow result" where
  "Mem_GetPKCE signature m =
     (case gomap_get (oauthPKCE m) signature of None \<Rightarrow> Inl (Err ''PKCE not found'') | Some row \<Rightarrow> Inr row)"

definition Mem_DeletePKCE :: "gostring \<Rightarrow> MemoryDataStore \<Rightarrow> goerr option \<times> MemoryDataStore" where
  "Mem_DeletePKCE signature m = (None, m\<lparr>oauthPKCE := gomap_del (oauthPKCE m) signature\<rparr>)"

definition Mem_CreateOIDCSession ::
  "gostring \<Rightarrow> gostring \<Rightarrow> gostring \<Rightarrow> gostring \<Rightarrow> gostring \<Rightarrow> gostring \<Rightarrow> gostring \<Rightarrow> time \<Rightarrow> time \<Rightarrow>
   MemoryDataStore \<Rightarrow> goerr option \<times> MemoryDataStore" where
  "Mem_CreateOIDCSession signature clientID requestID scopes grantedScopes formData sessionData requestedAt expiresAt m =
     (None, m\<lparr>oauthOIDCSessions := gomap_set (oauthOIDCSessions m) signature
       \<lparr>Signature = signature, ClientID = clientID, RequestID = requestID, Scopes = scopes,
        GrantedScopes = grantedScopes, FormData = formData, SessionData = sessionData, Active = False,
        RequestedAt = requestedAt, ExpiresAt = expiresAt\<rparr>\<rparr>)"

definition Mem_GetOIDCSession :: "gostring \<Rightarrow> MemoryDataStore \<Rightarrow> OAuthTokenRow result" where
  "Mem_GetOIDCSession signature m =
     (case gomap_get (oauthOIDCSessions m) signature of
        None \<Rightarrow> Inl (Err ''OIDC session not found'') | Some row \<Rightarrow> Inr row)"

definition Mem_DeleteOIDCSession :: "gostring \<Rightarrow> MemoryDataStore \<Rightarrow> goerr option \<times> MemoryDataStore" where
  "Mem_DeleteOIDCSession signature m = (None, m\<lparr>oauthOIDCSessions := gomap_del (oauthOIDCSessions m) signature\<rparr>)"

definition Mem_GetAccessTokenRequestID :: "gostring \<Rightarrow> MemoryDataStore \<Rightarrow> gostring result" where
  "Mem_GetAccessTokenRequestID requestID m =
     (case gomap_get (accessTokenRequestIDs m) requestID of
        None \<Rightarrow> Inl (Err ''access token request ID not found'') | Some token \<Rightarrow> Inr token)"

definition Mem_SaveAccessTokenRequestID :: "gostring \<Rightarrow> gostring \<Rightarrow> MemoryDataStore \<Rightarrow> goerr option \<times> MemoryDataStore" where
  "Mem_SaveAccessTokenRequestID requestID token m =
     (None, m\<lparr>accessTokenRequestIDs := gomap_set (accessTokenRequestIDs m) requestID token\<rparr>)"

section \<open>Chat, groups, documents and the method table\<close>

subsection \<open>Chat\<close>

definition calcChatMessageKey :: "gostring \<Rightarrow> int \<Rightarrow> gostring" where
  "calcChatMessageKey padId head = padId @ lit '':'' @ Itoa head"

definition Mem_SaveChatMessage ::
  "gostring \<Rightarrow> int \<Rightarrow> gostring option \<Rightarrow> millis \<Rightarrow> gostring \<Rightarrow> MemoryDataStore \<Rightarrow> goerr option \<times> MemoryDataStore" where
  "Mem_SaveChatMessage padId head authorId timestamp text' m =
     (let key = calcChatMessageKey padId head
      in if gomap_get (chatPads m) key \<noteq> None then (None, m)
         else (None, m\<lparr>chatPads := gomap_set (chatPads m) key
           \<lparr>chat_PadId = padId, chat_Head = head, chat_Message = text', chat_Time = Some timestamp,
            chat_AuthorId = authorId\<rparr>\<rparr>))"

definition display_name :: "(gostring, AuthorDB) gomap \<Rightarrow> ChatMessageDB \<Rightarrow> gostring option" where
  "display_name authors msg =
     (case chat_AuthorId msg of None \<Rightarrow> None
      | Some ident \<Rightarrow> (case gomap_get authors ident of None \<Rightarrow> None | Some author \<Rightarrow> adb_Name author))"

definition Mem_GetChatsOfPad :: "gostring \<Rightarrow> int \<Rightarrow> int \<Rightarrow> MemoryDataStore \<Rightarrow> ChatMessageDBWithDisplayName list result" where
  "Mem_GetChatsOfPad padId start end' m =
     Inr (List.map_filter (\<lambda>head.
       map_option (\<lambda>msg. \<lparr>ChatMessage = msg, DisplayName = display_name (authorStore m) msg\<rparr>)
         (gomap_get (chatPads m) (calcChatMessageKey padId head))) [start..end'])"

definition Mem_GetAuthorIdsOfPadChats :: "gostring \<Rightarrow> MemoryDataStore \<Rightarrow> gostring list result" where
  "Mem_GetAuthorIdsOfPadChats ident m =
     Inr (remdups (List.map_filter (\<lambda>(k, msg).
       if has_prefix k (ident @ lit '':'') then chat_AuthorId msg else None) (chatPads m)))"

definition Mem_ClearChatAuthorship :: "gostring \<Rightarrow> MemoryDataStore \<Rightarrow> goerr option \<times> MemoryDataStore" where
  "Mem_ClearChatAuthorship authorId m =
     (None, m\<lparr>chatPads := map (\<lambda>(k, msg).
       (k, if chat_AuthorId msg = Some authorId then msg\<lparr>chat_AuthorId := None\<rparr> else msg)) (chatPads m)\<rparr>)"

definition Mem_RemoveChat :: "gostring \<Rightarrow> MemoryDataStore \<Rightarrow> goerr option \<times> MemoryDataStore" where
  "Mem_RemoveChat padId m =
     (None, m\<lparr>chatPads := filter (\<lambda>(k, msg). \<not> has_prefix k (padId @ lit '':'')) (chatPads m)\<rparr>)"

subsection \<open>Groups\<close>

definition Mem_SaveGroup :: "gostring \<Rightarrow> MemoryDataStore \<Rightarrow> goerr option \<times> MemoryDataStore" where
  "Mem_SaveGroup groupId m = (None, m\<lparr>groupStore := gomap_set (groupStore m) groupId groupId\<rparr>)"

definition Mem_RemoveGroup :: "gostring \<Rightarrow> MemoryDataStore \<Rightarrow> goerr option \<times> MemoryDataStore" where
  "Mem_RemoveGroup groupId m = (None, m\<lparr>groupStore := gomap_del (groupStore m) groupId\<rparr>)"

definition Mem_GetGroup :: "gostring \<Rightarrow> MemoryDataStore \<Rightarrow> gostring result" where
  "Mem_GetGroup groupId m =
     (case gomap_get (groupStore m) groupId of
        None \<Rightarrow> Inl (Err ''group not found'') | Some group' \<Rightarrow> Inr group')"

definition Mem_GetGroups :: "MemoryDataStore \<Rightarrow> gostring list result" where
  "Mem_GetGroups m = Inr (map fst (groupStore m))"

subsection \<open>Browser sessions\<close>

definition Mem_GetSessionById :: "gostring \<Rightarrow> MemoryDataStore \<Rightarrow> Session option result" where
  "Mem_GetSessionById sessionID m = Inr (gomap_get (sessionStore m) sessionID)"

definition Mem_SetSessionById :: "gostring \<Rightarrow> Session \<Rightarrow> MemoryDataStore \<Rightarrow> goerr option \<times> MemoryDataStore" where
  "Mem_SetSessionById sessionID session m = (None, m\<lparr>sessionStore := gomap_set (sessionStore m) sessionID session\<rparr>)"

definition Mem_RemoveSessionById :: "gostring \<Rightarrow> MemoryDataStore \<Rightarrow> goerr option \<times> MemoryDataStore" where
  "Mem_RemoveSessionById sessionID m =
     (if gomap_get (sessionStore m) sessionID = None then (Some (Err SessionNotFoundError), m)
      else (None, m\<lparr>sessionStore := gomap_del (sessionStore m) sessionID\<rparr>))"

subsection \<open>Server version and key-value storage\<close>

definition Mem_GetServerVersion :: "MemoryDataStore \<Rightarrow> ServerVersion option result" where
  "Mem_GetServerVersion m = Inr (serverVersion m)"

definition Mem_SaveServerVersion :: "time \<Rightarrow> gostring \<Rightarrow> MemoryDataStore \<Rightarrow> goerr option \<times> MemoryDataStore" where
  "Mem_SaveServerVersion now version m = (None, m\<lparr>serverVersion := Some \<lparr>Version = version, sv_UpdatedAt = now\<rparr>\<rparr>)"

definition Mem_GetOIDCStorageValue :: "gostring \<Rightarrow> MemoryDataStore \<Rightarrow> gostring option result" where
  "Mem_GetOIDCStorageValue key m = Inr (gomap_get (oidcStorage m) key)"

definition Mem_SetOIDCStorageValue :: "gostring \<Rightarrow> gostring \<Rightarrow> MemoryDataStore \<Rightarrow> goerr option \<times> MemoryDataStore" where
  "Mem_SetOIDCStorageValue key payload m = (None, m\<lparr>oidcStorage := gomap_set (oidcStorage m) key payload\<rparr>)"

definition Mem_DeleteOIDCStorageValue :: "gostring \<Rightarrow> MemoryDataStore \<Rightarrow> goerr option \<times> MemoryDataStore" where
  "Mem_DeleteOIDCStorageValue key m = (None, m\<lparr>oidcStorage := gomap_del (oidcStorage m) key\<rparr>)"

subsection \<open>Spreadsheets (lib/db/MemorySheet.go)\<close>

definition Mem_SaveSheet :: "time \<Rightarrow> gostring \<Rightarrow> int \<Rightarrow> gostring \<Rightarrow> MemoryDataStore \<Rightarrow> goerr option \<times> MemoryDataStore" where
  "Mem_SaveSheet now padId head snapshot m =
     (let created = (case gomap_get (sheetStore m) padId of None \<Rightarrow> now | Some existing \<Rightarrow> sdb_CreatedAt existing)
      in (None, m\<lparr>sheetStore := gomap_set (sheetStore m) padId
           \<lparr>sdb_ID = padId, sdb_Head = head, sdb_Snapshot = snapshot, sdb_CreatedAt = created,
            sdb_UpdatedAt = Some now\<rparr>\<rparr>))"

definition Mem_GetSheet :: "gostring \<Rightarrow> MemoryDataStore \<Rightarrow> SheetDB result" where
  "Mem_GetSheet padId m =
     (case gomap_get (sheetStore m) padId of None \<Rightarrow> Inl (Err SheetDoesNotExistError) | Some s \<Rightarrow> Inr s)"

definition Mem_DoesSheetExist :: "gostring \<Rightarrow> MemoryDataStore \<Rightarrow> bool result" where
  "Mem_DoesSheetExist padId m = Inr (gomap_get (sheetStore m) padId \<noteq> None)"

definition Mem_RemoveSheet :: "gostring \<Rightarrow> MemoryDataStore \<Rightarrow> goerr option \<times> MemoryDataStore" where
  "Mem_RemoveSheet padId m =
     (None, m\<lparr>sheetStore := gomap_del (sheetStore m) padId, sheetOps := gomap_del (sheetOps m) padId\<rparr>)"

definition Mem_SaveSheetOp ::
  "gostring \<Rightarrow> int \<Rightarrow> gostring \<Rightarrow> gostring option \<Rightarrow> millis \<Rightarrow> MemoryDataStore \<Rightarrow> goerr option \<times> MemoryDataStore" where
  "Mem_SaveSheetOp padId rev' op' authorId timestamp m =
     (let ops = inner (sheetOps m) padId
      in if gomap_get ops rev' \<noteq> None then (None, m)
         else (None, m\<lparr>sheetOps := gomap_set (sheetOps m) padId (gomap_set ops rev'
           \<lparr>sop_PadId = padId, sop_Rev = rev', sop_Op = op', sop_AuthorId = authorId, sop_Timestamp = timestamp\<rparr>)\<rparr>))"

definition Mem_RemoveSheetOps :: "gostring \<Rightarrow> MemoryDataStore \<Rightarrow> goerr option \<times> MemoryDataStore" where
  "Mem_RemoveSheetOps padId m = (None, m\<lparr>sheetOps := gomap_del (sheetOps m) padId\<rparr>)"

definition Mem_GetSheetOps :: "gostring \<Rightarrow> int \<Rightarrow> int \<Rightarrow> MemoryDataStore \<Rightarrow> SheetOpDB list result" where
  "Mem_GetSheetOps padId startRev endRev m =
     Inr (List.map_filter (gomap_get (inner (sheetOps m) padId)) [startRev..endRev])"

subsection \<open>The method table\<close>

definition memory_store :: "MemoryDataStore DataStore" where
  "memory_store =
     \<lparr>ds_DoesPadExist = Mem_DoesPadExist, ds_RemovePad = Mem_RemovePad, ds_CreatePad = Mem_CreatePad,
      ds_GetPadIds = Mem_GetPadIds, ds_SaveRevision = Mem_SaveRevision, ds_GetRevision = Mem_GetRevision,
      ds_RemoveRevisionsOfPad = Mem_RemoveRevisionsOfPad, ds_GetRevisions = Mem_GetRevisions,
      ds_GetPad = Mem_GetPad, ds_GetReadonlyPad = Mem_GetReadonlyPad, ds_SetReadOnlyId = Mem_SetReadOnlyId,
      ds_GetPadByReadOnlyId = Mem_GetPadByReadOnlyId, ds_SaveChatHeadOfPad = Mem_SaveChatHeadOfPad,
      ds_QueryPad = Mem_QueryPad,
      ds_GetAuthor = Mem_GetAuthor, ds_GetPadIdsOfAuthor = Mem_GetPadIdsOfAuthor,
      ds_GetAuthorByToken = Mem_GetAuthorByToken, ds_SetAuthorByToken = Mem_SetAuthorByToken,
      ds_SaveAuthor = Mem_SaveAuthor, ds_SaveAuthorName = Mem_SaveAuthorName,
      ds_SaveAuthorColor = Mem_SaveAuthorColor, ds_GetAuthors = Mem_GetAuthors,
      ds_RemoveTokenOfAuthor = Mem_RemoveTokenOfAuthor, ds_RemoveChat = Mem_RemoveChat,
      ds_SaveChatMessage = Mem_SaveChatMessage, ds_GetChatsOfPad = Mem_GetChatsOfPad,
      ds_GetAuthorIdsOfPadChats = Mem_GetAuthorIdsOfPadChats, ds_ClearChatAuthorship = Mem_ClearChatAuthorship,
      ds_SaveGroup = Mem_SaveGroup, ds_RemoveGroup = Mem_RemoveGroup, ds_GetGroup = Mem_GetGroup,
      ds_GetGroups = Mem_GetGroups, ds_GetServerVersion = Mem_GetServerVersion,
      ds_GetOIDCStorageValue = Mem_GetOIDCStorageValue, ds_SetOIDCStorageValue = Mem_SetOIDCStorageValue,
      ds_DeleteOIDCStorageValue = Mem_DeleteOIDCStorageValue, ds_SaveSheet = Mem_SaveSheet,
      ds_GetSheet = Mem_GetSheet, ds_DoesSheetExist = Mem_DoesSheetExist, ds_SaveSheetOp = Mem_SaveSheetOp,
      ds_GetSheetOps = Mem_GetSheetOps, ds_RemoveSheetOps = Mem_RemoveSheetOps\<rparr>"

lemma memory_store_methods [simp]:
  "ds_DoesPadExist memory_store = Mem_DoesPadExist" "ds_RemovePad memory_store = Mem_RemovePad"
  "ds_CreatePad memory_store = Mem_CreatePad" "ds_GetPadIds memory_store = Mem_GetPadIds"
  "ds_SaveRevision memory_store = Mem_SaveRevision" "ds_GetRevision memory_store = Mem_GetRevision"
  "ds_RemoveRevisionsOfPad memory_store = Mem_RemoveRevisionsOfPad" "ds_GetRevisions memory_store = Mem_GetRevisions"
  "ds_GetPad memory_store = Mem_GetPad" "ds_GetReadonlyPad memory_store = Mem_GetReadonlyPad"
  "ds_SetReadOnlyId memory_store = Mem_SetReadOnlyId" "ds_GetPadByReadOnlyId memory_store = Mem_GetPadByReadOnlyId"
  "ds_SaveChatHeadOfPad memory_store = Mem_SaveChatHeadOfPad" "ds_GetAuthor memory_store = Mem_GetAuthor"
  "ds_GetPadIdsOfAuthor memory_store = Mem_GetPadIdsOfAuthor" "ds_GetAuthorByToken memory_store = Mem_GetAuthorByToken"
  "ds_SetAuthorByToken memory_store = Mem_SetAuthorByToken" "ds_SaveAuthor memory_store = Mem_SaveAuthor"
  "ds_SaveAuthorName memory_store = Mem_SaveAuthorName" "ds_SaveAuthorColor memory_store = Mem_SaveAuthorColor"
  "ds_GetAuthors memory_store = Mem_GetAuthors" "ds_RemoveTokenOfAuthor memory_store = Mem_RemoveTokenOfAuthor"
  "ds_RemoveChat memory_store = Mem_RemoveChat" "ds_SaveChatMessage memory_store = Mem_SaveChatMessage"
  "ds_GetChatsOfPad memory_store = Mem_GetChatsOfPad" "ds_GetAuthorIdsOfPadChats memory_store = Mem_GetAuthorIdsOfPadChats"
  "ds_ClearChatAuthorship memory_store = Mem_ClearChatAuthorship"
  "ds_GetOIDCStorageValue memory_store = Mem_GetOIDCStorageValue"
  "ds_SetOIDCStorageValue memory_store = Mem_SetOIDCStorageValue"
  "ds_DeleteOIDCStorageValue memory_store = Mem_DeleteOIDCStorageValue" "ds_SaveSheet memory_store = Mem_SaveSheet"
  "ds_GetSheet memory_store = Mem_GetSheet" "ds_DoesSheetExist memory_store = Mem_DoesSheetExist"
  "ds_SaveSheetOp memory_store = Mem_SaveSheetOp" "ds_GetSheetOps memory_store = Mem_GetSheetOps"
  "ds_RemoveSheetOps memory_store = Mem_RemoveSheetOps" "ds_QueryPad memory_store = Mem_QueryPad"
  "ds_SaveGroup memory_store = Mem_SaveGroup" "ds_RemoveGroup memory_store = Mem_RemoveGroup"
  "ds_GetGroup memory_store = Mem_GetGroup" "ds_GetGroups memory_store = Mem_GetGroups"
  "ds_GetServerVersion memory_store = Mem_GetServerVersion"
  by (simp_all add: memory_store_def)

end
