(* ===== verification/Pad.thy ===== *)
theory Pad
  imports DataStore Zip RuneUtils
begin

text \<open>
  Text pads, \<^verbatim>\<open>lib/models/pad\<close>: the document of a pad with its pool, its head revision and
  its saved revisions, over the storage interface. A method takes the method table of the
  store, what it reads from outside (the clock, the default text, random strings), the pad
  and the store, and returns its result with both. A method that runs \<^verbatim>\<open>ApplyToAText\<close> has an
  optional result, as \<open>ApplyToAText\<close> has. Hooks are not modelled: a pad behaves as on a
  server without plugins, for which every hook call returns at once.
\<close>

subsection \<open>Pad ids\<close>

definition pad_rune :: "rune \<Rightarrow> bool" where
  "pad_rune r \<longleftrightarrow> r \<notin> {32, 9, 13, 10, 12, 11, 36}"

definition group_rune :: "rune \<Rightarrow> bool" where
  "group_rune r \<longleftrightarrow> (65 \<le> r \<and> r \<le> 90) \<or> (97 \<le> r \<and> r \<le> 122) \<or> (48 \<le> r \<and> r \<le> 57)"

definition pad_name :: "gostring \<Rightarrow> bool" where
  "pad_name s \<longleftrightarrow> 1 \<le> length s \<and> length s \<le> 50 \<and> list_all pad_rune s"

definition group_prefix :: "gostring \<Rightarrow> bool" where
  "group_prefix s \<longleftrightarrow> length s = 19 \<and> take 2 s = lit ''g.'' \<and> list_all group_rune (take 16 (drop 2 s)) \<and> s ! 18 = 36"

text \<open>The pattern \<^verbatim>\<open>^(g\.[A-Za-z0-9]{16}\$)?[^ \t\r\n\f\v$]{1,50}$\<close>.\<close>

definition IsValidPadId :: "gostring \<Rightarrow> bool" where
  "IsValidPadId padID \<longleftrightarrow> pad_name padID \<or> (group_prefix (take 19 padID) \<and> pad_name (drop 19 padID))"

definition SystemAuthorId :: gostring where
  "SystemAuthorId = lit ''a.etherpad-system''"

subsection \<open>The pad\<close>

record Pad =
  pad_Id :: gostring
  ChatHead :: int
  pad_Head :: int
  PublicStatus :: bool
  DocumentType :: gostring
  SavedRevisions :: "SavedRevision list"
  pad_Pool :: APool
  pad_AText :: AText
  ReadonlyId :: "gostring option"
  UpdatedAt :: "time option"
  CreatedAt :: time

definition NewPad :: "gostring \<Rightarrow> Pad result" where
  "NewPad ident =
     bind_result (MakeAText [newline] None) (\<lambda>atext.
       Inr \<lparr>pad_Id = ident, ChatHead = -1, pad_Head = -1, PublicStatus = False, DocumentType = lit ''text'',
            SavedRevisions = [], pad_Pool = NewAPool, pad_AText = atext, ReadonlyId = None,
            UpdatedAt = None, CreatedAt = zero_time\<rparr>)"

definition pad_text :: "Pad \<Rightarrow> gostring" where
  "pad_text p = Text (pad_AText p)"

definition getKeyRevisionNumber :: "int \<Rightarrow> int" where
  "getKeyRevisionNumber revNum = (if 0 \<le> revNum then revNum div 100 * 100 else - ((- revNum) div 100) * 100)"

subsection \<open>Saving and loading\<close>

definition Pad_Save :: "'s DataStore \<Rightarrow> time \<Rightarrow> Pad \<Rightarrow> 's \<Rightarrow> goerr option \<times> 's" where
  "Pad_Save D now p s =
     ds_CreatePad D now (pad_Id p)
       \<lparr>pdb_ID = pad_Id p, pdb_Head = pad_Head p, pdb_SavedRevisions = SavedRevisions p,
        pdb_ReadOnlyId = ReadonlyId p, pdb_Pool = ToRevDB (pad_Pool p), pdb_ChatHead = ChatHead p,
        pdb_PublicStatus = PublicStatus p, pdb_DocumentType = DocumentType p,
        pdb_ATextText = Text (pad_AText p), pdb_ATextAttribs = ATAttribs (pad_AText p),
        pdb_CreatedAt = CreatedAt p, pdb_UpdatedAt = Some now\<rparr> s"

definition mapDBPadToModel :: "PadDB \<Rightarrow> Pad \<Rightarrow> Pad result" where
  "mapDBPadToModel dbPad p =
     bind_result (FromDB NewAPool \<lparr>PadNumToAttrib = RevNumToAttrib (pdb_Pool dbPad),
                                   PadNextNum = RevNextNum (pdb_Pool dbPad)\<rparr>) (\<lambda>newPool.
       Inr (p\<lparr>ChatHead := pdb_ChatHead dbPad, pad_Head := pdb_Head dbPad, PublicStatus := pdb_PublicStatus dbPad,
              DocumentType := (if pdb_DocumentType dbPad = [] then lit ''text'' else pdb_DocumentType dbPad),
              CreatedAt := pdb_CreatedAt dbPad, UpdatedAt := pdb_UpdatedAt dbPad,
              ReadonlyId := pdb_ReadOnlyId dbPad, SavedRevisions := pdb_SavedRevisions dbPad,
              pad_Pool := newPool,
              pad_AText := \<lparr>Text = pdb_ATextText dbPad, ATAttribs = pdb_ATextAttribs dbPad\<rparr>\<rparr>))"

subsection \<open>Appending a revision\<close>

text \<open>The row of the reserved author, which no login creates.\<close>

definition system_author :: "time \<Rightarrow> AuthorDB" where
  "system_author now =
     \<lparr>adb_ID = SystemAuthorId, adb_Name = Some (lit ''System''), adb_ColorId = lit ''#808080'',
      adb_Timestamp = unix_of now, adb_Token = None, adb_CreatedAt = zero_time\<rparr>"

definition ensure_system_author :: "'s DataStore \<Rightarrow> time \<Rightarrow> gostring option \<Rightarrow> 's \<Rightarrow> goerr option \<times> 's" where
  "ensure_system_author D now authorId s =
     (if authorId = Some SystemAuthorId then
        (case ds_GetAuthor D SystemAuthorId s of
           Inr _ \<Rightarrow> (None, s)
         | Inl _ \<Rightarrow> ds_SaveAuthor D now (system_author now) s)
      else (None, s))"

definition put_author :: "gostring option \<Rightarrow> APool \<Rightarrow> APool" where
  "put_author authorId pool =
     (case authorId of None \<Rightarrow> pool
      | Some ident \<Rightarrow> snd (PutAttrib \<lparr>Key = lit ''author'', Value = ident\<rparr> None pool))"

text \<open>The part of \<^verbatim>\<open>AppendRevision\<close> after the new attributed text is known; the error of \<^verbatim>\<open>Save\<close> is dropped.\<close>

definition store_revision ::
  "'s DataStore \<Rightarrow> time \<Rightarrow> gostring \<Rightarrow> gostring option \<Rightarrow> AText \<Rightarrow> Pad \<Rightarrow> 's \<Rightarrow> int result \<times> Pad \<times> 's" where
  "store_revision D now cs authorId newAText p s =
     (let p1 = p\<lparr>pad_AText := CopyAText newAText (pad_AText p), pad_Head := pad_Head p + 1,
                  pad_Pool := put_author authorId (pad_Pool p)\<rparr>;
          (_, s1) = Pad_Save D now p1 s
      in case ensure_system_author D now authorId s1 of
           (Some _, s2) \<Rightarrow> (Inl (Err ''Error ensuring system author exists ''), p1, s2)
         | (None, s2) \<Rightarrow>
             (case ds_SaveRevision D (pad_Id p1) (pad_Head p1) cs (pad_AText p1) (ToRevDB (pad_Pool p1)) authorId
                     (millis_of now) s2 of
                (Some _, s3) \<Rightarrow> (Inl (Err ''Error saving revision during append ''), p1, s3)
              | (None, s3) \<Rightarrow> (Inr (pad_Head p1), p1, s3)))"

definition AppendRevision ::
  "'s DataStore \<Rightarrow> time \<Rightarrow> gostring \<Rightarrow> gostring option \<Rightarrow> Pad \<Rightarrow> 's \<Rightarrow> (int result \<times> Pad \<times> 's) option" where
  "AppendRevision D now cs authorId p s =
     (case ApplyToAText cs (pad_AText p) (pad_Pool p) of
        None \<Rightarrow> None
      | Some (Inl Panic) \<Rightarrow> Some (Inl Panic, p, s)
      | Some (Inl (Err _)) \<Rightarrow> Some (Inl (Err ''Error applying changeset to atext ''), p, s)
      | Some (Inr (newAText, pool1)) \<Rightarrow>
          let p1 = p\<lparr>pad_Pool := pool1\<rparr>
          in if Text newAText = Text (pad_AText p1) \<and> ATAttribs newAText = ATAttribs (pad_AText p1) \<and> pad_Head p1 \<noteq> -1
             then Some (Inr (pad_Head p1), p1, s)
             else Some (store_revision D now cs authorId newAText p1 s))"

subsection \<open>Editing the whole text\<close>

text \<open>
  The last \<^verbatim>\<open>ReplaceAll\<close> of \<^verbatim>\<open>CleanText\<close> replaces the byte \<open>0xA0\<close>. In valid UTF-8 that byte only
  occurs inside the encoding of a longer rune, which the replacement leaves invalid: there
  the result is not a rune list, and the model has none (\<open>None\<close>).
\<close>

fun replace_crlf :: "gostring \<Rightarrow> gostring" where
  "replace_crlf (c # d # s) = (if c = 13 \<and> d = 10 then 10 # replace_crlf s else c # replace_crlf (d # s))"
| "replace_crlf s = s"

definition CleanText :: "gostring \<Rightarrow> gostring option" where
  "CleanText context =
     (let c1 = replace_crlf context;
          c2 = map (\<lambda>r. if r = 13 then 10 else r) c1;
          c3 = concat (map (\<lambda>r. if r = 9 then replicate 8 32 else [r]) c2)
      in if 0xA0 \<in> set (bytes_of c3) then None else Some c3)"

text \<open>
  Positions are runes except in the last disjunct of \<^verbatim>\<open>willEndWithNewLine\<close>, where
  \<^verbatim>\<open>orig[start-1]\<close> is a byte.
\<close>

definition splice_text :: "gostring \<Rightarrow> int \<Rightarrow> int \<Rightarrow> gostring \<Rightarrow> gostring" where
  "splice_text orig start ndel ins =
     (if start + ndel < RuneCount orig \<or> has_suffix ins [newline] \<or>
         (ins = [] \<and> start > 0 \<and> bytes_of orig ! nat (start - 1) = newline)
      then ins else ins @ [newline])"

text \<open>The author of a splice: the reserved author stands in for a missing one.\<close>

definition splice_author :: "gostring \<Rightarrow> gostring option \<Rightarrow> gostring option" where
  "splice_author ins author =
     (if RuneCount ins > 0 \<and> (author = None \<or> author = Some []) then Some SystemAuthorId else author)"

definition splice_attribs :: "gostring option \<Rightarrow> Pad \<Rightarrow> gostring option \<times> Pad" where
  "splice_attribs author p =
     (case author of
        None \<Rightarrow> (None, p)
      | Some ident \<Rightarrow>
          if ident = [] then (None, p)
          else let (num, pool) = PutAttrib \<lparr>Key = lit ''author'', Value = ident\<rparr> None (pad_Pool p)
               in (Some (42 # NumToString num), p\<lparr>pad_Pool := pool\<rparr>))"

definition splice_revision ::
  "'s DataStore \<Rightarrow> time \<Rightarrow> int \<Rightarrow> int \<Rightarrow> gostring \<Rightarrow> gostring option \<Rightarrow> Pad \<Rightarrow> 's \<Rightarrow> (unit result \<times> Pad \<times> 's) option" where
  "splice_revision D now start ndel ins author p s =
     (let (attribs, p1) = splice_attribs author p;
          pool = (if attribs = None then None else Some (pad_Pool p1))
      in case MakeSplice (pad_text p) start ndel ins attribs pool of
           Inl err \<Rightarrow> Some (Inl err, p1, s)
         | Inr changesetFromSplice \<Rightarrow>
             map_option (\<lambda>(r, p2, s2). (case r of Inl err \<Rightarrow> Inl err | Inr _ \<Rightarrow> Inr (), p2, s2))
               (AppendRevision D now changesetFromSplice author p1 s))"

definition SpliceText ::
  "'s DataStore \<Rightarrow> time \<Rightarrow> int \<Rightarrow> int \<Rightarrow> gostring \<Rightarrow> gostring option \<Rightarrow> Pad \<Rightarrow> 's \<Rightarrow> (unit result \<times> Pad \<times> 's) option" where
  "SpliceText D now start ndel ins authorId p s =
     (if start < 0 then Some (Inl (Err ''start index must not be negative''), p, s)
      else if ndel < 0 then Some (Inl (Err ''characters to delete must be non-negative''), p, s)
      else
        let orig = pad_text p
        in if \<not> has_suffix orig [newline] then Some (Inl (Err ''text must end with a newline''), p, s)
           else if start + ndel > RuneCount orig then Some (Inl (Err ''splice out of bounds''), p, s)
           else
             (case CleanText ins of None \<Rightarrow> None
              | Some clean \<Rightarrow>
                  let ins1 = splice_text orig start ndel clean
                  in if ndel = 0 \<and> RuneCount ins1 = 0 then Some (Inr (), p, s)
                     else splice_revision D now start ndel ins1 (splice_author ins1 authorId) p s))"

definition SetText ::
  "'s DataStore \<Rightarrow> time \<Rightarrow> gostring \<Rightarrow> gostring option \<Rightarrow> Pad \<Rightarrow> 's \<Rightarrow> (unit result \<times> Pad \<times> 's) option" where
  "SetText D now newText authorId p s =
     SpliceText D now 0 (RuneCount (pad_text p)) newText
       (Some (case authorId of None \<Rightarrow> [] | Some ident \<Rightarrow> ident)) p s"

subsection \<open>Loading or creating the pad\<close>

text \<open>\<open>defaultText\<close> is \<^verbatim>\<open>settings.Displayed.DefaultPadText\<close>.\<close>

definition Init ::
  "'s DataStore \<Rightarrow> time \<Rightarrow> gostring \<Rightarrow> gostring option \<Rightarrow> gostring option \<Rightarrow> Pad \<Rightarrow> 's \<Rightarrow> (unit result \<times> Pad \<times> 's) option" where
  "Init D now defaultText text' author p s =
     (case ds_GetPad D (pad_Id p) s of
        Inr pad \<Rightarrow>
          (case ds_GetRevision D (pad_Id p) (pdb_Head pad) s of
             Inl err \<Rightarrow> Some (Inl (Err ''pad data is corrupted: missing revision''), p, s)
           | Inr _ \<Rightarrow>
               (case mapDBPadToModel pad p of
                  Inl err \<Rightarrow> Some (Inl err, p, s) | Inr p1 \<Rightarrow> Some (Inr (), p1, s)))
      | Inl err \<Rightarrow>
          let t = (case text' of None \<Rightarrow> defaultText | Some t \<Rightarrow> t);
              firstChangeset = (case MakeSplice [newline] 0 0 t None None of Inl _ \<Rightarrow> [] | Inr cs \<Rightarrow> cs)
          in map_option (\<lambda>(r, p1, s1). (case r of Inl e \<Rightarrow> Inl e | Inr _ \<Rightarrow> Inr (), p1, s1))
               (AppendRevision D now firstChangeset author p s))"

subsection \<open>Revisions\<close>

definition Pad_GetRevision :: "'s DataStore \<Rightarrow> int \<Rightarrow> Pad \<Rightarrow> 's \<Rightarrow> PadSingleRevision result" where
  "Pad_GetRevision D revNumber p s = ds_GetRevision D (pad_Id p) revNumber s"

definition Pad_GetRevisions :: "'s DataStore \<Rightarrow> int \<Rightarrow> int \<Rightarrow> Pad \<Rightarrow> 's \<Rightarrow> PadSingleRevision list result" where
  "Pad_GetRevisions D start end' p s = ds_GetRevisions D (pad_Id p) start end' s"

definition GetRevisionChangeset :: "'s DataStore \<Rightarrow> int \<Rightarrow> Pad \<Rightarrow> 's \<Rightarrow> gostring result" where
  "GetRevisionChangeset D revNum p s =
     bind_result (ds_GetRevision D (pad_Id p) revNum s) (\<lambda>r. Inr (rev_Changeset r))"

definition GetRevisionAuthor :: "'s DataStore \<Rightarrow> int \<Rightarrow> Pad \<Rightarrow> 's \<Rightarrow> gostring result" where
  "GetRevisionAuthor D revNum p s =
     bind_result (ds_GetRevision D (pad_Id p) revNum s) (\<lambda>r.
       Inr (case rev_AuthorId r of None \<Rightarrow> [] | Some ident \<Rightarrow> ident))"

definition GetRevisionDate :: "'s DataStore \<Rightarrow> int \<Rightarrow> Pad \<Rightarrow> 's \<Rightarrow> millis result" where
  "GetRevisionDate D revNum p s = bind_result (ds_GetRevision D (pad_Id p) revNum s) (\<lambda>r. Inr (rev_Timestamp r))"

definition getKeyRevisionAText :: "'s DataStore \<Rightarrow> int \<Rightarrow> Pad \<Rightarrow> 's \<Rightarrow> AText result" where
  "getKeyRevisionAText D revNum p s = bind_result (ds_GetRevision D (pad_Id p) revNum s) (\<lambda>r. Inr (rev_AText r))"

text \<open>
  The replay from the key revision. Every error makes the result nil; the pool is passed by
  value at each step.
\<close>

fun replay_revisions :: "'s DataStore \<Rightarrow> int list \<Rightarrow> AText \<Rightarrow> Pad \<Rightarrow> 's \<Rightarrow> (AText option \<times> Pad) option" where
  "replay_revisions D [] atext p s = Some (Some atext, p)"
| "replay_revisions D (i # is) atext p s =
     (case GetRevisionChangeset D i p s of
        Inl err \<Rightarrow> Some (None, p)
      | Inr cs \<Rightarrow>
          (case ApplyToAText cs atext (pad_Pool p) of
             None \<Rightarrow> None
           | Some (Inl err) \<Rightarrow> Some (None, p)
           | Some (Inr (atext1, pool1)) \<Rightarrow> replay_revisions D is atext1 (p\<lparr>pad_Pool := pool1\<rparr>) s))"

definition GetInternalRevisionAText :: "'s DataStore \<Rightarrow> int \<Rightarrow> Pad \<Rightarrow> 's \<Rightarrow> (AText option \<times> Pad) option" where
  "GetInternalRevisionAText D targetRev0 p s =
     (let keyRev = getKeyRevisionNumber targetRev0;
          targetRev = (if targetRev0 > pad_Head p then pad_Head p else targetRev0)
      in case getKeyRevisionAText D keyRev p s of
           Inl err \<Rightarrow> Some (None, p)
         | Inr keyAText \<Rightarrow> replay_revisions D [keyRev + 1..targetRev] keyAText p s)"

subsection \<open>Saved revisions, chat and authors\<close>

definition AddSavedRevision :: "'s DataStore \<Rightarrow> time \<Rightarrow> gostring \<Rightarrow> gostring \<Rightarrow> Pad \<Rightarrow> 's \<Rightarrow> goerr option \<times> Pad \<times> 's" where
  "AddSavedRevision D now random10 author p s =
     (if \<exists>savedRev\<in>set (SavedRevisions p). sr_RevNum savedRev = pad_Head p
      then (Some (Err ''saved revision already exists''), p, s)
      else
        let label = lit ''Revision '' @ Itoa (pad_Head p);
            p1 = p\<lparr>SavedRevisions := SavedRevisions p @
              [\<lparr>sr_RevNum = pad_Head p, sr_SavedBy = author, sr_Timestamp = millis_of now,
                sr_Label = Some label, sr_Id = random10\<rparr>]\<rparr>;
            (err, s1) = Pad_Save D now p1 s
        in (err, p1, s1))"

definition getSavedRevisionNumber :: "Pad \<Rightarrow> int" where
  "getSavedRevisionNumber p = int (length (SavedRevisions p))"

definition getSavedRevisionsList :: "Pad \<Rightarrow> int list" where
  "getSavedRevisionsList p = sort (map sr_RevNum (SavedRevisions p))"

definition AppendChatMessage ::
  "'s DataStore \<Rightarrow> time \<Rightarrow> gostring option \<Rightarrow> millis \<Rightarrow> gostring \<Rightarrow> Pad \<Rightarrow> 's \<Rightarrow> int result \<times> Pad \<times> 's" where
  "AppendChatMessage D now authorId timestamp text' p s =
     (let p1 = p\<lparr>ChatHead := ChatHead p + 1\<rparr>
      in case ds_SaveChatMessage D (pad_Id p1) (ChatHead p1) authorId timestamp text' s of
           (Some err, s1) \<Rightarrow> (Inl err, p1, s1)
         | (None, s1) \<Rightarrow>
             (case ds_SaveChatHeadOfPad D now (pad_Id p1) (ChatHead p1) s1 of
                (Some err, s2) \<Rightarrow> (Inl err, p1, s2)
              | (None, s2) \<Rightarrow> (Inr (ChatHead p1), p1, s2)))"

definition GetChatMessages :: "'s DataStore \<Rightarrow> int \<Rightarrow> int \<Rightarrow> Pad \<Rightarrow> 's \<Rightarrow> ChatMessageDBWithDisplayName list result" where
  "GetChatMessages D start end' p s = ds_GetChatsOfPad D (pad_Id p) start end' s"

definition GetAllChatters :: "'s DataStore \<Rightarrow> Pad \<Rightarrow> 's \<Rightarrow> gostring list result" where
  "GetAllChatters D p s = ds_GetAuthorIdsOfPadChats D (pad_Id p) s"

definition RemoveAllChats :: "'s DataStore \<Rightarrow> Pad \<Rightarrow> 's \<Rightarrow> goerr option \<times> 's" where
  "RemoveAllChats D p s = ds_RemoveChat D (pad_Id p) s"

definition RemoveAllSavedRevisions :: "'s DataStore \<Rightarrow> Pad \<Rightarrow> 's \<Rightarrow> goerr option \<times> 's" where
  "RemoveAllSavedRevisions D p s = ds_RemoveRevisionsOfPad D (pad_Id p) s"

definition GetAllAuthors :: "Pad \<Rightarrow> gostring list" where
  "GetAllAuthors p =
     map (\<lambda>(k, v). Value v)
       (filter (\<lambda>(k, v). Key v = lit ''author'' \<and> Value v \<noteq> []) (NumToAttrib (pad_Pool p)))"

end
