(* ===== verification/Authors.thy ===== *)
theory Authors
  imports DataStore
begin

text \<open>
  The managers of identities over the storage interface: authors and their tokens
  (\<^verbatim>\<open>lib/author/authorManager.go\<close>, \<^verbatim>\<open>mapper.go\<close>) and read-only pad ids
  (\<^verbatim>\<open>lib/pad/readOnlyManager.go\<close>). A manager is a struct with the store as its only field, so
  its methods take the method table and the state of the store. The strings of
  \<^verbatim>\<open>utils.RandomString\<close> and the random entry of the colour palette are arguments.
\<close>

subsection \<open>lib/author\<close>

record Author =
  author_Id :: gostring
  author_Name :: "gostring option"
  author_ColorId :: gostring
  author_Token :: "gostring option"
  author_Timestamp :: millis

definition MapToDB :: "Author \<Rightarrow> AuthorDB" where
  "MapToDB author =
     \<lparr>adb_ID = author_Id author, adb_Name = author_Name author, adb_ColorId = author_ColorId author,
      adb_Timestamp = author_Timestamp author, adb_Token = author_Token author, adb_CreatedAt = zero_time\<rparr>"

definition MapFromDB :: "AuthorDB \<Rightarrow> Author" where
  "MapFromDB authorDB =
     \<lparr>author_Id = adb_ID authorDB, author_Name = adb_Name authorDB, author_ColorId = adb_ColorId authorDB,
      author_Token = adb_Token authorDB, author_Timestamp = adb_Timestamp authorDB\<rparr>"

definition only_id :: "gostring \<Rightarrow> Author" where
  "only_id ident =
     \<lparr>author_Id = ident, author_Name = None, author_ColorId = [], author_Token = None, author_Timestamp = 0\<rparr>"

definition SetAuthorColor :: "'s DataStore \<Rightarrow> gostring \<Rightarrow> gostring \<Rightarrow> 's \<Rightarrow> goerr option \<times> 's" where
  "SetAuthorColor D author colorId s = ds_SaveAuthorColor D author colorId s"

definition SetAuthorName :: "'s DataStore \<Rightarrow> gostring \<Rightarrow> gostring \<Rightarrow> 's \<Rightarrow> goerr option \<times> 's" where
  "SetAuthorName D authorId authorName s = ds_SaveAuthorName D authorId authorName s"

text \<open>What a new author is drawn from: the random part of the id and the colour.\<close>

record drawn =
  drawn_id :: gostring
  drawn_color :: gostring

definition CreateAuthor :: "'s DataStore \<Rightarrow> time \<Rightarrow> drawn \<Rightarrow> gostring option \<Rightarrow> 's \<Rightarrow> Author result \<times> 's" where
  "CreateAuthor D now rnd name s =
     (let authorId = lit ''a.'' @ drawn_id rnd;
          author = \<lparr>author_Id = authorId, author_Name = name, author_ColorId = drawn_color rnd,
                    author_Token = None, author_Timestamp = unix_of now\<rparr>
      in case ds_SaveAuthor D now (MapToDB author) s of
           (Some err, s1) \<Rightarrow> (Inl err, s1)
         | (None, s1) \<Rightarrow> (Inr (only_id authorId), s1))"

definition mapAuthorWithDBKey :: "'s DataStore \<Rightarrow> time \<Rightarrow> drawn \<Rightarrow> gostring \<Rightarrow> 's \<Rightarrow> Author result \<times> 's" where
  "mapAuthorWithDBKey D now rnd token s =
     (case ds_GetAuthorByToken D token s of
        Inl err \<Rightarrow>
          (case CreateAuthor D now rnd None s of
             (Inl err1, s1) \<Rightarrow> (Inl err1, s1)
           | (Inr authorCreated, s1) \<Rightarrow>
               (case ds_SetAuthorByToken D now token (author_Id authorCreated) s1 of
                  (Some err2, s2) \<Rightarrow> (Inl err2, s2)
                | (None, s2) \<Rightarrow> (Inr (only_id (author_Id authorCreated)), s2)))
      | Inr author \<Rightarrow> (Inr (only_id author), s))"

definition GetAuthor4Token :: "'s DataStore \<Rightarrow> time \<Rightarrow> drawn \<Rightarrow> gostring \<Rightarrow> 's \<Rightarrow> Author result \<times> 's" where
  "GetAuthor4Token D now rnd token s = mapAuthorWithDBKey D now rnd token s"

definition GetAuthorId :: "'s DataStore \<Rightarrow> time \<Rightarrow> drawn \<Rightarrow> gostring \<Rightarrow> 's \<Rightarrow> Author result \<times> 's" where
  "GetAuthorId D now rnd token s = GetAuthor4Token D now rnd token s"

definition GetAuthorName :: "'s DataStore \<Rightarrow> gostring \<Rightarrow> 's \<Rightarrow> gostring option result" where
  "GetAuthorName D authorId s = bind_result (ds_GetAuthor D authorId s) (\<lambda>author. Inr (adb_Name author))"

definition ListPadsOfAuthor :: "'s DataStore \<Rightarrow> gostring \<Rightarrow> 's \<Rightarrow> gostring list result" where
  "ListPadsOfAuthor D authorId s =
     (case ds_GetAuthor D authorId s of
        Inl err \<Rightarrow> Inl (Err AuthorNotFoundError)
      | Inr _ \<Rightarrow> ds_GetPadIdsOfAuthor D authorId s)"

definition GetAuthors :: "'s DataStore \<Rightarrow> gostring list \<Rightarrow> 's \<Rightarrow> Author list result" where
  "GetAuthors D authorIds s = bind_result (ds_GetAuthors D authorIds s) (\<lambda>dbAuthors. Inr (map MapFromDB dbAuthors))"

definition GetAuthor :: "'s DataStore \<Rightarrow> gostring \<Rightarrow> 's \<Rightarrow> Author result" where
  "GetAuthor D authorId s = bind_result (ds_GetAuthor D authorId s) (\<lambda>author. Inr (MapFromDB author))"

definition GetPadsOfAuthor :: "'s DataStore \<Rightarrow> gostring \<Rightarrow> 's \<Rightarrow> gostring list result" where
  "GetPadsOfAuthor D authorId s = ds_GetPadIdsOfAuthor D authorId s"

definition AnonymizeAuthor :: "'s DataStore \<Rightarrow> time \<Rightarrow> gostring \<Rightarrow> 's \<Rightarrow> goerr option \<times> 's" where
  "AnonymizeAuthor D now authorId s =
     (case ds_GetAuthor D authorId s of
        Inl err \<Rightarrow> (Some (Err AuthorNotFoundError), s)
      | Inr _ \<Rightarrow>
          (case ds_RemoveTokenOfAuthor D authorId s of
             (Some err, s1) \<Rightarrow> (Some err, s1)
           | (None, s1) \<Rightarrow>
               (case ds_SaveAuthor D now (MapToDB \<lparr>author_Id = authorId, author_Name = None, author_ColorId = lit ''0'',
                                                author_Token = None, author_Timestamp = unix_of now\<rparr>) s1 of
                  (Some err, s2) \<Rightarrow> (Some err, s2)
                | (None, s2) \<Rightarrow> ds_ClearChatAuthorship D authorId s2)))"

subsection \<open>lib/pad/readOnlyManager.go\<close>

record IdRequest =
  ReadOnlyPadId :: gostring
  PadId :: gostring
  ReadOnly :: bool

definition IsReadOnlyID :: "gostring \<Rightarrow> bool" where
  "IsReadOnlyID ident \<longleftrightarrow> has_prefix ident (lit ''r.'')"

text \<open>The error of \<^verbatim>\<open>SetReadOnlyId\<close> is dropped.\<close>

definition GetReadOnlyId :: "'s DataStore \<Rightarrow> time \<Rightarrow> gostring \<Rightarrow> gostring \<Rightarrow> 's \<Rightarrow> gostring \<times> 's" where
  "GetReadOnlyId D now random16 pad s =
     (case ds_GetReadonlyPad D pad s of
        Inl err \<Rightarrow> let randomId = lit ''r.'' @ random16 in (randomId, snd (ds_SetReadOnlyId D now pad randomId s))
      | Inr readonlyId \<Rightarrow> (readonlyId, s))"

definition GetPadId :: "'s DataStore \<Rightarrow> gostring \<Rightarrow> 's \<Rightarrow> gostring option result" where
  "GetPadId D readonlyId s = ds_GetPadByReadOnlyId D readonlyId s"

definition GetIds :: "'s DataStore \<Rightarrow> time \<Rightarrow> gostring \<Rightarrow> gostring \<Rightarrow> 's \<Rightarrow> IdRequest result \<times> 's" where
  "GetIds D now random16 ident s =
     (if IsReadOnlyID ident then
        (case GetPadId D ident s of
           Inl err \<Rightarrow> (Inl err, s)
         | Inr None \<Rightarrow> (Inl (Err ''pad not found for readonly ID: ''), s)
         | Inr (Some padId) \<Rightarrow> (Inr \<lparr>ReadOnlyPadId = ident, PadId = padId, ReadOnly = True\<rparr>, s))
      else
        let (readOnlyPadId, s1) = GetReadOnlyId D now random16 ident s
        in (Inr \<lparr>ReadOnlyPadId = readOnlyPadId, PadId = ident, ReadOnly = False\<rparr>, s1))"

end
