(* ===== verification/PadManager.thy ===== *)
theory PadManager
  imports Pad Authors
begin

text \<open>
  The pad manager of \<^verbatim>\<open>lib/pad/padManager.go\<close>: the list of pad ids, the cache of loaded pads
  and the manager that loads, creates and removes pads. The cache maps an id to a pointer;
  here it holds the pad, and who changes a cached pad puts it back. \<^verbatim>\<open>removePad\<close> hooks are
  not modelled.
\<close>

subsection \<open>The list of pad ids\<close>

record PadList =
  cachedList :: "gostring list"
  padlist :: "(gostring, unit) gomap"
  loaded :: bool

definition NewList :: PadList where
  "NewList = \<lparr>cachedList = [], padlist = [], loaded = False\<rparr>"

definition AddPad :: "gostring \<Rightarrow> PadList \<Rightarrow> PadList" where
  "AddPad padID l =
     (if gomap_get (padlist l) padID = None
      then l\<lparr>padlist := gomap_set (padlist l) padID (), cachedList := cachedList l @ [padID]\<rparr> else l)"

definition List_RemovePad :: "gostring \<Rightarrow> PadList \<Rightarrow> PadList" where
  "List_RemovePad padID l =
     (if gomap_get (padlist l) padID \<noteq> None
      then l\<lparr>padlist := gomap_del (padlist l) padID, cachedList := remove1 padID (cachedList l)\<rparr> else l)"

definition GetPads :: "'s DataStore \<Rightarrow> 's \<Rightarrow> PadList \<Rightarrow> gostring list \<times> PadList" where
  "GetPads D s l =
     (if loaded l then (cachedList l, l)
      else case ds_GetPadIds D s of
        Inl err \<Rightarrow> (cachedList l, l)
      | Inr dbData \<Rightarrow> let l1 = fold AddPad dbData l in (cachedList l1, l1))"

subsection \<open>The manager\<close>

record Manager =
  globalPadCache :: "(gostring, Pad) gomap"
  padList :: PadList

definition NewManager :: Manager where
  "NewManager = \<lparr>globalPadCache = [], padList = NewList\<rparr>"

definition Cache_GetPad :: "gostring \<Rightarrow> Manager \<Rightarrow> Pad option" where
  "Cache_GetPad padID m = gomap_get (globalPadCache m) padID"

definition Cache_SetPad :: "gostring \<Rightarrow> Pad \<Rightarrow> Manager \<Rightarrow> Manager" where
  "Cache_SetPad padID pad m = m\<lparr>globalPadCache := gomap_set (globalPadCache m) padID pad\<rparr>"

definition Cache_DeletePad :: "gostring \<Rightarrow> Manager \<Rightarrow> Manager" where
  "Cache_DeletePad padID m = m\<lparr>globalPadCache := gomap_del (globalPadCache m) padID\<rparr>"

definition DoesPadExist :: "'s DataStore \<Rightarrow> gostring \<Rightarrow> 's \<Rightarrow> bool result" where
  "DoesPadExist D padID s = ds_DoesPadExist D padID s"

definition SanitizePadId :: "gostring \<Rightarrow> gostring result" where
  "SanitizePadId padID = (if IsValidPadId padID then Inr padID else Inl (Err ''invalid pad id''))"

definition Manager_RemovePad :: "'s DataStore \<Rightarrow> gostring \<Rightarrow> Manager \<times> 's \<Rightarrow> goerr option \<times> Manager \<times> 's" where
  "Manager_RemovePad D padID = (\<lambda>(m, s).
     (case ds_RemovePad D padID s of
        (Some err, s1) \<Rightarrow> (Some err, m, s1)
      | (None, s1) \<Rightarrow>
          let m1 = Cache_DeletePad padID m
          in (None, m1\<lparr>padList := List_RemovePad padID (padList m1)\<rparr>, s1)))"

definition UnloadPad :: "gostring \<Rightarrow> Manager \<Rightarrow> Manager" where
  "UnloadPad ident m =
     (let m1 = Cache_DeletePad ident m in m1\<lparr>padList := List_RemovePad ident (padList m1)\<rparr>)"

text \<open>
  \<open>defaultText\<close> is the default text of the settings. The error of \<^verbatim>\<open>Init\<close> is dropped and the
  pad is cached as \<^verbatim>\<open>Init\<close> left it; a panic in it is not caught.
\<close>

definition Manager_GetPad ::
  "'s DataStore \<Rightarrow> time \<Rightarrow> gostring \<Rightarrow> gostring \<Rightarrow> gostring option \<Rightarrow> gostring option \<Rightarrow> Manager \<times> 's \<Rightarrow>
   (Pad result \<times> Manager \<times> 's) option" where
  "Manager_GetPad D now defaultText padID text' authorId = (\<lambda>(m, s).
     (if \<not> IsValidPadId padID then Some (Inl (Err ''invalid pad id''), m, s)
      else if text' \<noteq> None \<and> RuneCount (the text') > 100000 then Some (Inl (Err ''text is too long''), m, s)
      else case Cache_GetPad padID m of
        Some cachedPad \<Rightarrow> Some (Inr cachedPad, m, s)
      | None \<Rightarrow>
          (case NewPad padID of
             Inl err \<Rightarrow> Some (Inl err, m, s)
           | Inr newPad \<Rightarrow>
               map_option (\<lambda>(r, pad, s1).
                 if r = Inl Panic then (Inl Panic, m, s1) else (Inr pad, Cache_SetPad padID pad m, s1))
                 (Init D now defaultText text' authorId newPad s))))"

definition GetTypedPad ::
  "'s DataStore \<Rightarrow> time \<Rightarrow> gostring \<Rightarrow> gostring \<Rightarrow> gostring \<Rightarrow> gostring option \<Rightarrow> Manager \<times> 's \<Rightarrow>
   (Pad result \<times> Manager \<times> 's) option" where
  "GetTypedPad D now defaultText padID documentType authorId = (\<lambda>(m, s).
     (if \<not> IsValidPadId padID then Some (Inl (Err ''invalid pad id''), m, s)
      else case Cache_GetPad padID m of
        Some cachedPad \<Rightarrow> Some (Inr cachedPad, m, s)
      | None \<Rightarrow>
          (case NewPad padID of
             Inl err \<Rightarrow> Some (Inl err, m, s)
           | Inr newPad \<Rightarrow>
               map_option (\<lambda>(r, pad, s1).
                 (case r of Inl err \<Rightarrow> (Inl err, m, s1) | Inr _ \<Rightarrow> (Inr pad, Cache_SetPad padID pad m, s1)))
                 (Init D now defaultText None authorId (newPad\<lparr>DocumentType := documentType\<rparr>) s))))"

end
