(* ===== verification/Access.thy ===== *)
theory Access
  imports Json ChatStore PadManager
begin

text \<open>
  The sessions of the HTTP API (\<^verbatim>\<open>lib/pad/SessionManager.go\<close>), which give an author access to
  the private pads of a group. They live as JSON texts in the key-value part of the store,
  next to two lists of ids per group and per author. Random strings are arguments.

  Who may open a pad: \<^verbatim>\<open>lib/pad/SecurityManager.go\<close> and the authorization levels of
  \<^verbatim>\<open>lib/pad/webaccess.go\<close>. The hooks of plugins are absent, but the context handed to them is
  built, which dereferences the pad id. The HTTP middleware itself is left out.
\<close>

section \<open>Sessions of the HTTP API\<close>

record ApiSessionInfo =
  GroupID :: gostring
  AuthorID :: gostring
  ValidUntil :: int

definition no_session :: ApiSessionInfo where
  "no_session = \<lparr>GroupID = [], AuthorID = [], ValidUntil = 0\<rparr>"

definition encode_session :: "ApiSessionInfo \<Rightarrow> json" where
  "encode_session info = JObject
     (member ''groupID'' (JString (GroupID info)) @ member ''authorID'' (JString (AuthorID info)) @
      member ''validUntil'' (encode_int (ValidUntil info)))"

definition session_field :: "gostring \<Rightarrow> ApiSessionInfo decoder" where
  "session_field k x info =
     (if named k ''groupID'' then map_sum id (\<lambda>v. info\<lparr>GroupID := v\<rparr>) (decode_string x (GroupID info))
      else if named k ''authorID'' then map_sum id (\<lambda>v. info\<lparr>AuthorID := v\<rparr>) (decode_string x (AuthorID info))
      else if named k ''validUntil'' then map_sum id (\<lambda>v. info\<lparr>ValidUntil := v\<rparr>) (decode_int x (ValidUntil info))
      else Inr info)"

definition decode_session :: "ApiSessionInfo decoder" where
  "decode_session = decode_struct session_field"

definition apiSessionKeyPrefix :: gostring where
  "apiSessionKeyPrefix = lit ''apisession:''"

definition groupSessionsPrefix :: gostring where
  "groupSessionsPrefix = lit ''apisessions:group:''"

definition authorSessionsKey :: gostring where
  "authorSessionsKey = lit ''apisessions:author:''"

subsection \<open>Lists of ids\<close>

definition loadIDList :: "'s DataStore \<Rightarrow> gostring \<Rightarrow> 's \<Rightarrow> gostring list result" where
  "loadIDList D key s =
     (case ds_GetOIDCStorageValue D key s of
        Inl err \<Rightarrow> Inl err
      | Inr None \<Rightarrow> Inr []
      | Inr (Some payload) \<Rightarrow> Unmarshal (decode_slice decode_string []) [] payload)"

definition saveIDList :: "'s DataStore \<Rightarrow> gostring \<Rightarrow> gostring list \<Rightarrow> 's \<Rightarrow> goerr option \<times> 's" where
  "saveIDList D key ids s = ds_SetOIDCStorageValue D key (print_json (JArray (map JString ids))) s"

definition addToIDList :: "'s DataStore \<Rightarrow> gostring \<Rightarrow> gostring \<Rightarrow> 's \<Rightarrow> goerr option \<times> 's" where
  "addToIDList D key i s =
     (case loadIDList D key s of
        Inl err \<Rightarrow> (Some err, s)
      | Inr ids \<Rightarrow> if i \<in> set ids then (None, s) else saveIDList D key (ids @ [i]) s)"

definition removeFromIDList :: "'s DataStore \<Rightarrow> gostring \<Rightarrow> gostring \<Rightarrow> 's \<Rightarrow> goerr option \<times> 's" where
  "removeFromIDList D key i s =
     (case loadIDList D key s of
        Inl err \<Rightarrow> (Some err, s)
      | Inr ids \<Rightarrow> saveIDList D key (filter (\<lambda>existing. existing \<noteq> i) ids) s)"

subsection \<open>Sessions\<close>

definition CreateSession ::
  "'s DataStore \<Rightarrow> gostring \<Rightarrow> gostring \<Rightarrow> gostring \<Rightarrow> int \<Rightarrow> 's \<Rightarrow> gostring result \<times> 's" where
  "CreateSession D random16 groupID authorID validUntil s =
     (let sessionID = lit ''s.'' @ random16;
          encoded = print_json (encode_session \<lparr>GroupID = groupID, AuthorID = authorID, ValidUntil = validUntil\<rparr>)
      in case ds_SetOIDCStorageValue D (apiSessionKeyPrefix @ sessionID) encoded s of
           (Some err, s1) \<Rightarrow> (Inl err, s1)
         | (None, s1) \<Rightarrow>
             (case addToIDList D (groupSessionsPrefix @ groupID) sessionID s1 of
                (Some err, s2) \<Rightarrow> (Inl err, s2)
              | (None, s2) \<Rightarrow>
                  (case addToIDList D (authorSessionsKey @ authorID) sessionID s2 of
                     (Some err, s3) \<Rightarrow> (Inl err, s3)
                   | (None, s3) \<Rightarrow> (Inr sessionID, s3))))"

definition GetSessionInfo :: "'s DataStore \<Rightarrow> gostring \<Rightarrow> 's \<Rightarrow> ApiSessionInfo option result" where
  "GetSessionInfo D sessionID s =
     (case ds_GetOIDCStorageValue D (apiSessionKeyPrefix @ sessionID) s of
        Inl err \<Rightarrow> Inl err
      | Inr None \<Rightarrow> Inr None
      | Inr (Some payload) \<Rightarrow> map_sum id Some (Unmarshal decode_session no_session payload))"

definition DeleteSession :: "'s DataStore \<Rightarrow> gostring \<Rightarrow> 's \<Rightarrow> bool result \<times> 's" where
  "DeleteSession D sessionID s =
     (case GetSessionInfo D sessionID s of
        Inl err \<Rightarrow> (Inl err, s)
      | Inr None \<Rightarrow> (Inr False, s)
      | Inr (Some info) \<Rightarrow>
          (case ds_DeleteOIDCStorageValue D (apiSessionKeyPrefix @ sessionID) s of
             (Some err, s1) \<Rightarrow> (Inl err, s1)
           | (None, s1) \<Rightarrow>
               (case removeFromIDList D (groupSessionsPrefix @ GroupID info) sessionID s1 of
                  (Some err, s2) \<Rightarrow> (Inl err, s2)
                | (None, s2) \<Rightarrow>
                    (case removeFromIDList D (authorSessionsKey @ AuthorID info) sessionID s2 of
                       (Some err, s3) \<Rightarrow> (Inl err, s3)
                     | (None, s3) \<Rightarrow> (Inr True, s3)))))"

fun collect_sessions :: "'s DataStore \<Rightarrow> gostring list \<Rightarrow> 's \<Rightarrow> (gostring, ApiSessionInfo) gomap \<Rightarrow> (gostring, ApiSessionInfo) gomap result" where
  "collect_sessions D [] s found = Inr found"
| "collect_sessions D (i # ids) s found =
     (case GetSessionInfo D i s of
        Inl err \<Rightarrow> Inl err
      | Inr None \<Rightarrow> collect_sessions D ids s found
      | Inr (Some info) \<Rightarrow> collect_sessions D ids s (gomap_set found i info))"

definition listSessions :: "'s DataStore \<Rightarrow> gostring \<Rightarrow> 's \<Rightarrow> (gostring, ApiSessionInfo) gomap result" where
  "listSessions D key s = bind_result (loadIDList D key s) (\<lambda>ids. collect_sessions D ids s [])"

definition ListSessionsOfGroup :: "'s DataStore \<Rightarrow> gostring \<Rightarrow> 's \<Rightarrow> (gostring, ApiSessionInfo) gomap result" where
  "ListSessionsOfGroup D groupID s = listSessions D (groupSessionsPrefix @ groupID) s"

definition ListSessionsOfAuthor :: "'s DataStore \<Rightarrow> gostring \<Rightarrow> 's \<Rightarrow> (gostring, ApiSessionInfo) gomap result" where
  "ListSessionsOfAuthor D authorID s = listSessions D (authorSessionsKey @ authorID) s"

definition DoesSessionExist :: "'s DataStore \<Rightarrow> gostring \<Rightarrow> 's \<Rightarrow> bool result" where
  "DoesSessionExist D sessionID s = map_sum id (\<lambda>info. info \<noteq> None) (GetSessionInfo D sessionID s)"

text \<open>\<^verbatim>\<open>cookieQuoteTrimmer\<close>: a quote at the start and one at the end.\<close>

definition trim_quotes :: "gostring \<Rightarrow> gostring" where
  "trim_quotes s =
     (let t = (if s \<noteq> [] \<and> hd s = 34 then tl s else s)
      in if t \<noteq> [] \<and> last t = 34 then butlast t else t)"

fun first_session :: "'s DataStore \<Rightarrow> int \<Rightarrow> gostring \<Rightarrow> gostring list \<Rightarrow> 's \<Rightarrow> gostring option" where
  "first_session D now groupID [] s = None"
| "first_session D now groupID (i # ids) s =
     (case GetSessionInfo D (trim_space i) s of
        Inr (Some info) \<Rightarrow>
          if GroupID info = groupID \<and> now < ValidUntil info then Some (AuthorID info)
          else first_session D now groupID ids s
      | _ \<Rightarrow> first_session D now groupID ids s)"

definition FindAuthorID :: "'s DataStore \<Rightarrow> time \<Rightarrow> gostring \<Rightarrow> gostring option \<Rightarrow> 's \<Rightarrow> gostring option" where
  "FindAuthorID D now groupID sessionCookie s =
     (case sessionCookie of
        None \<Rightarrow> None
      | Some cookie \<Rightarrow>
          if cookie = [] then None
          else first_session D (unix_of now) groupID (str_split (trim_quotes cookie) 44) s)"

section \<open>Access control\<close>

record SocketClientRequest =
  IsAdmin :: bool
  PadAuthorizations :: "(gostring, gostring) gomap option"
  sr_ReadOnly :: "bool option"
  Username :: "gostring option"
  CanCreate :: bool

text \<open>The settings the checks read.\<close>

record access_settings =
  EditOnly :: bool
  LoadTest :: bool
  RequireAuthentication :: bool
  RequireSession :: bool

datatype authz_level = LevelString gostring | LevelBool bool | OtherLevel

definition NormalizeAuthzLevel :: "authz_level \<Rightarrow> gostring result" where
  "NormalizeAuthzLevel level =
     (case level of
        LevelString s \<Rightarrow>
          if s \<in> {lit ''readOnly'', lit ''modify'', lit ''create''} then Inr s else Inl (Err ''access denied'')
      | LevelBool b \<Rightarrow> if b then Inr (lit ''create'') else Inl (Err ''access denied'')
      | OtherLevel \<Rightarrow> Inl (Err ''access denied''))"

definition UserCanModify :: "access_settings \<Rightarrow> gostring \<Rightarrow> SocketClientRequest option \<Rightarrow> bool result" where
  "UserCanModify cfg padId req =
     (if IsReadOnlyID padId then Inr False
      else if \<not> RequireAuthentication cfg then Inr True
      else case req of
        None \<Rightarrow> Inr False
      | Some r \<Rightarrow>
          (case sr_ReadOnly r of
             None \<Rightarrow> Inl Panic
           | Some readOnly \<Rightarrow>
               if readOnly then Inr False
               else case PadAuthorizations r of
                 None \<Rightarrow> Inr False
               | Some padMap \<Rightarrow>
                   (case NormalizeAuthzLevel (LevelString (case gomap_get padMap padId of None \<Rightarrow> [] | Some l \<Rightarrow> l)) of
                      Inl err \<Rightarrow> Inr False
                    | Inr level \<Rightarrow> Inr (level \<noteq> lit ''readOnly''))))"

text \<open>The pad id in a path: \<^verbatim>\<open>^/[ps]/([^/]*)\<close>.\<close>

definition extractEncodedPadId :: "gostring \<Rightarrow> gostring" where
  "extractEncodedPadId path =
     (if has_prefix path (lit ''/p/'') \<or> has_prefix path (lit ''/s/'') then takeWhile (\<lambda>r. r \<noteq> 47) (drop 3 path) else [])"

record GrantedAccess =
  AccessStatus :: gostring
  AuthorId :: gostring

text \<open>Without hooks, the author is the one of the token.\<close>

definition resolveAuthorId :: "'s DataStore \<Rightarrow> time \<Rightarrow> drawn \<Rightarrow> gostring option \<Rightarrow> 's \<Rightarrow> gostring result \<times> 's" where
  "resolveAuthorId D now rnd token s =
     (case GetAuthorId D now rnd (case token of None \<Rightarrow> [] | Some t \<Rightarrow> t) s of
        (Inl err, s1) \<Rightarrow> (Inl err, s1)
      | (Inr retrievedAuthor, s1) \<Rightarrow> (Inr (author_Id retrievedAuthor), s1))"

text \<open>The part for a server that requires a login: whether the user may create the pad.\<close>

definition authenticated :: "gostring \<Rightarrow> SocketClientRequest option \<Rightarrow> bool \<Rightarrow> bool result" where
  "authenticated padId userSettings canCreate =
     (case userSettings of
        None \<Rightarrow> Inl (Err ''userSettings is nil'')
      | Some user \<Rightarrow>
          let canCreate1 = (canCreate \<and> CanCreate user \<and> sr_ReadOnly user \<noteq> Some True);
              padAuthzs = (case PadAuthorizations user of None \<Rightarrow> [] | Some m \<Rightarrow> m);
              entry = (case gomap_get padAuthzs padId of None \<Rightarrow> [] | Some l \<Rightarrow> l)
          in bind_result (NormalizeAuthzLevel (LevelString entry)) (\<lambda>level.
               Inr (canCreate1 \<and> level = lit ''create'')))"

text \<open>A group pad: an existing one that is not public asks for a session of the group.\<close>

definition group_access ::
  "'s DataStore \<Rightarrow> time \<Rightarrow> gostring \<Rightarrow> gostring \<Rightarrow> bool \<Rightarrow> gostring option \<Rightarrow> GrantedAccess \<Rightarrow> Manager \<times> 's \<Rightarrow>
   (GrantedAccess result \<times> Manager \<times> 's) option" where
  "group_access D now defaultText padId padExists sessionAuthorID grantedAccess = (\<lambda>(m, s).
     (if 36 \<notin> set padId then Some (Inr grantedAccess, m, s)
      else if \<not> padExists then
        Some (if sessionAuthorID = None
              then Inl (Err ''access denied: must have an HTTP API session to create a group pad'') else Inr grantedAccess, m, s)
      else case Manager_GetPad D now defaultText padId None None (m, s) of
        None \<Rightarrow> None
      | Some (Inl err, m1, s1) \<Rightarrow> Some (Inl Panic, m1, s1)
      | Some (Inr pad, m1, s1) \<Rightarrow>
          Some (if \<not> PublicStatus pad \<and> sessionAuthorID = None
                then Inl (Err ''must have an HTTP API session to access private group pads'') else Inr grantedAccess, m1, s1)))"

definition check_access ::
  "'s DataStore \<Rightarrow> time \<Rightarrow> gostring \<Rightarrow> drawn \<Rightarrow> access_settings \<Rightarrow> gostring \<Rightarrow> bool \<Rightarrow> gostring option \<Rightarrow> gostring option \<Rightarrow>
   SocketClientRequest option \<Rightarrow> Manager \<times> 's \<Rightarrow> (GrantedAccess result \<times> Manager \<times> 's) option" where
  "check_access D now defaultText rnd cfg padId canCreate sessionCookie token userSettings = (\<lambda>(m, s).
     (if LoadTest cfg then
        (case resolveAuthorId D now rnd token s of
           (Inl err, s1) \<Rightarrow> Some (Inl (Err ''access denied: invalid author token''), m, s1)
         | (Inr authorId, s1) \<Rightarrow> Some (Inr \<lparr>AccessStatus = lit ''grant'', AuthorId = authorId\<rparr>, m, s1))
      else case (if RequireAuthentication cfg then authenticated padId userSettings canCreate else Inr canCreate) of
        Inl err \<Rightarrow> Some (Inl err, m, s)
      | Inr canCreate1 \<Rightarrow>
          (case DoesPadExist D padId s of
             Inl err \<Rightarrow> Some (Inl (Err ''internal error while checking pad existence''), m, s)
           | Inr padExists \<Rightarrow>
               if \<not> padExists \<and> \<not> canCreate1 then
                 Some (Inl (Err ''pad does not exist and can't be created due to settings''), m, s)
               else
                 let sessionAuthorID = FindAuthorID D now (takeWhile (\<lambda>r. r \<noteq> 36) padId) sessionCookie s
                 in if RequireSession cfg \<and> sessionAuthorID = None then
                      Some (Inl (Err ''access denied: HTTP API session is required''), m, s)
                    else if sessionAuthorID = None \<and> token \<noteq> None \<and> \<not> IsValidAuthorToken (the token) then
                      Some (Inl (Err ''invalid author token''), m, s)
                    else case resolveAuthorId D now rnd token s of
                      (Inl err, s1) \<Rightarrow> Some (Inl (Err ''access denied: invalid author token''), m, s1)
                    | (Inr authorId, s1) \<Rightarrow>
                        group_access D now defaultText padId padExists sessionAuthorID
                          \<lparr>AccessStatus = lit ''grant'', AuthorId = authorId\<rparr> (m, s1))))"

text \<open>The start: a read-only id stands for its pad; one that is not known leaves a nil pointer.\<close>

definition CheckAccess ::
  "'s DataStore \<Rightarrow> time \<Rightarrow> gostring \<Rightarrow> drawn \<Rightarrow> access_settings \<Rightarrow> gostring option \<Rightarrow> gostring option \<Rightarrow> gostring option \<Rightarrow>
   SocketClientRequest option \<Rightarrow> Manager \<times> 's \<Rightarrow> (GrantedAccess result \<times> Manager \<times> 's) option" where
  "CheckAccess D now defaultText rnd cfg padId sessionCookie token userSettings = (\<lambda>(m, s).
     (case padId of
        None \<Rightarrow> Some (Inl (Err ''padId is nil''), m, s)
      | Some i \<Rightarrow>
          if IsReadOnlyID i then
            (case GetPadId D i s of
               Inl err \<Rightarrow> Some (Inl (Err ''padId not found''), m, s)
             | Inr None \<Rightarrow> Some (Inl Panic, m, s)
             | Inr (Some realId) \<Rightarrow> check_access D now defaultText rnd cfg realId False sessionCookie token userSettings (m, s))
          else check_access D now defaultText rnd cfg i (\<not> EditOnly cfg) sessionCookie token userSettings (m, s)))"

text \<open>What the pages ask, with the pad and the token of the request; a failed check is no access.\<close>

definition HasPadAccess ::
  "'s DataStore \<Rightarrow> time \<Rightarrow> gostring \<Rightarrow> drawn \<Rightarrow> access_settings \<Rightarrow> gostring \<Rightarrow> gostring \<Rightarrow> Manager \<times> 's \<Rightarrow>
   (bool result \<times> Manager \<times> 's) option" where
  "HasPadAccess D now defaultText rnd cfg padId tokenCookie st =
     (case CheckAccess D now defaultText rnd cfg (Some padId) None (Some tokenCookie) None st of
        None \<Rightarrow> None
      | Some (Inl Panic, st1) \<Rightarrow> Some (Inl Panic, st1)
      | Some (Inl (Err e), st1) \<Rightarrow> Some (Inr False, st1)
      | Some (Inr accessStatus, st1) \<Rightarrow> Some (Inr (AccessStatus accessStatus = lit ''grant''), st1))"

end
