(* ===== verification/Rooms.thy ===== *)
theory Rooms
  imports PadManager SheetOps Json
begin

text \<open>
  The websocket rooms: connected clients with their outgoing messages (\<^verbatim>\<open>lib/ws/hub.go\<close>,
  \<^verbatim>\<open>client.go\<close>, \<^verbatim>\<open>WSMessage.go\<close>), the sessions of the clients (\<^verbatim>\<open>lib/ws/globals.go\<close>,
  \<^verbatim>\<open>lib/models/ws\<close>) and the broadcasts of \<^verbatim>\<open>lib/ws/PadMessageHandler.go\<close>.

  A client is a pointer, here a number; the hub holds the registered clients. A message is a
  value instead of its JSON text. A handler runs as one step of the server: the user changes
  of all pads go through one queue (the channel operator is keyed by \<^verbatim>\<open>Client.Room\<close>, which
  nothing sets), and edits that reach a pad beside that queue are steps of their own.
\<close>

subsection \<open>Messages\<close>

record NewChangesMessageData =
  NewRev :: int
  nc_Changeset :: gostring
  nc_APool :: APool
  nc_Author :: gostring
  CurrentTime :: millis
  TimeDelta :: millis

record ClientReconnectData =
  cr_HeadRev :: int
  cr_NewRev :: int
  cr_Changeset :: gostring
  cr_APool :: APool
  cr_Author :: gostring
  cr_CurrentTime :: millis

record ChatMessageSendEvent =
  cs_Text :: gostring
  cs_Time :: "millis option"
  cs_UserId :: "gostring option"
  cs_UserName :: "gostring option"

record UserNewInfoDat =
  ui_UserId :: gostring
  ui_Name :: "gostring option"
  ui_ColorId :: gostring

record ChangesetInfo =
  ForwardsChangesets :: "gostring list"
  BackwardsChangesets :: "gostring list"
  ActualEndNum :: int
  TimeDeltas :: "millis list"
  ci_Start :: int
  ci_Granularity :: int
  ci_APool :: APool
  RequestId :: int

text \<open>The message of a client to clients of its pad, relayed as it came.\<close>

record ClientMessageData =
  cm_Component :: gostring
  cm_Type :: gostring
  cm_DataType :: gostring
  cm_PayloadType :: gostring
  NewName :: gostring
  UnnamedId :: gostring
  cm_Options :: "(gostring \<times> json) list"

text \<open>The state a client starts from: the fields that depend on the pad, its session and its author.\<close>

record CollabAuthor =
  ca_Name :: "gostring option"
  ca_ColorId :: gostring

record ClientVars =
  cv_SavedRevisions :: "SavedRevision list"
  InitialText :: gostring
  InitialAttribs :: gostring
  cv_PadId :: gostring
  HistoricalAuthorData :: "(gostring, CollabAuthor) gomap"
  cv_NumToAttrib :: "(int, gostring list) gomap"
  cv_NextNum :: int
  IsInitialAuthor :: bool
  cv_Rev :: int
  cv_Time :: millis
  UserColor :: gostring
  InitialTitle :: gostring
  cv_ChatHead :: int
  NumConnectedUsers :: int
  cv_ReadOnlyId :: gostring
  cv_ReadOnly :: bool
  ServerTimeStamp :: millis
  UserName :: "gostring option"
  UserId :: gostring

text \<open>The messages about spreadsheets.\<close>

record SheetVarsData =
  sv_Snapshot :: WorkbookSnapshot
  sv_Head :: int
  sv_UserId :: gostring
  sv_UserColor :: gostring
  sv_ReadOnly :: bool

record SheetPresenceData =
  sp_UserId :: gostring
  sp_Name :: gostring
  sp_Color :: gostring
  sp_Sheet :: gostring
  sp_Row :: int
  sp_Col :: int
  Editing :: bool
  sp_Raw :: gostring
  FocusRow :: int
  FocusCol :: int

datatype Message =
    Disconnect gostring
  | AccessStatusMessage string
  | AcceptCommit int
  | NewChanges NewChangesMessageData
  | ClientReconnect ClientReconnectData
  | NoChanges int
  | ChatBroadCast ChatMessageSendEvent
  | ChatMessages "ChatMessageSendEvent list"
  | UserNewInfo UserNewInfoDat
  | UserLeave gostring gostring
  | ClientRelay ClientMessageData
  | ChangesetResponse ChangesetInfo
  | CustomMessage gostring millis
  | ClientVarsMessage ClientVars
  | SheetVarsMessage SheetVarsData
  | AcceptSheetOp int
  | NewSheetOp json int gostring
  | SheetPresence SheetPresenceData
  | SheetReload
  | AdminMessage json

subsection \<open>Clients and the hub\<close>

record Client =
  Send :: "Message list"
  SessionId :: gostring
  IntegratorSessionID :: gostring

type_synonym client = nat

type_synonym Hub = "(client, Client) gomap"

text \<open>
  The outgoing channel has room for 256 messages: a message to a full or closed channel is
  dropped. An unregistered client has a closed channel.
\<close>

definition send_room :: nat where
  "send_room = 256"

definition SafeSend :: "client \<Rightarrow> Message \<Rightarrow> Hub \<Rightarrow> Hub" where
  "SafeSend c message hub =
     (case gomap_get hub c of
        None \<Rightarrow> hub
      | Some cl \<Rightarrow> if length (Send cl) < send_room then gomap_set hub c (cl\<lparr>Send := Send cl @ [message]\<rparr>) else hub)"

definition Hub_Register :: "client \<Rightarrow> Client \<Rightarrow> Hub \<Rightarrow> Hub" where
  "Hub_Register c cl hub = gomap_set hub c cl"

definition Hub_Unregister :: "client \<Rightarrow> Hub \<Rightarrow> Hub" where
  "Hub_Unregister c hub = gomap_del hub c"

definition send_all :: "client list \<Rightarrow> Message \<Rightarrow> Hub \<Rightarrow> Hub" where
  "send_all cs message hub = fold (\<lambda>c. SafeSend c message) cs hub"

subsection \<open>Sessions\<close>

record SessionAuth =
  auth_PadId :: gostring
  auth_Token :: gostring
  auth_SessionId :: gostring
  auth_Integrator :: gostring

record PadSession =
  ses_Author :: gostring
  Auth :: "SessionAuth option"
  Revision :: int
  ses_PadId :: gostring
  ses_ReadOnlyPadId :: gostring
  ses_ReadOnly :: bool
  Time :: millis

type_synonym SessionStore = "(gostring, PadSession) gomap"

definition empty_session :: PadSession where
  "empty_session =
     \<lparr>ses_Author = [], Auth = None, Revision = 0, ses_PadId = [], ses_ReadOnlyPadId = [], ses_ReadOnly = False, Time = 0\<rparr>"

definition initSession :: "gostring \<Rightarrow> SessionStore \<Rightarrow> SessionStore" where
  "initSession sessionId s = gomap_set s sessionId empty_session"

definition addHandleClientInformation :: "gostring \<Rightarrow> gostring \<Rightarrow> gostring \<Rightarrow> SessionStore \<Rightarrow> SessionStore" where
  "addHandleClientInformation sessionId padId token s =
     gomap_set s sessionId (empty_session\<lparr>Auth :=
       Some \<lparr>auth_PadId = padId, auth_Token = token, auth_SessionId = sessionId, auth_Integrator = []\<rparr>\<rparr>)"

text \<open>The number of sessions and of the pads they are on.\<close>

definition GetStats :: "SessionStore \<Rightarrow> int \<times> int" where
  "GetStats s =
     (int (length (remdups (filter (\<lambda>i. i \<noteq> []) (map (\<lambda>(k, session). ses_PadId session) s)))), gomap_len s)"

text \<open>A missing session is a nil pointer, which the assignments dereference.\<close>

definition addPadReadOnlyIds :: "gostring \<Rightarrow> gostring \<Rightarrow> gostring \<Rightarrow> bool \<Rightarrow> SessionStore \<Rightarrow> SessionStore result" where
  "addPadReadOnlyIds sessionId padId readOnlyPadId readOnly s =
     (case gomap_get s sessionId of
        None \<Rightarrow> Inl Panic
      | Some session \<Rightarrow> Inr (gomap_set s sessionId
          (session\<lparr>ses_ReadOnlyPadId := readOnlyPadId, ses_PadId := padId, ses_ReadOnly := readOnly\<rparr>)))"

definition addFinalInformation :: "gostring \<Rightarrow> gostring \<Rightarrow> gostring \<Rightarrow> bool \<Rightarrow> SessionStore \<Rightarrow> SessionStore result" where
  "addFinalInformation sessionId padId readOnlyPadId readonly s =
     (case gomap_get s sessionId of
        None \<Rightarrow> Inl Panic
      | Some session \<Rightarrow> Inr (gomap_set s sessionId
          (session\<lparr>ses_PadId := padId, ses_ReadOnlyPadId := readOnlyPadId, ses_ReadOnly := readonly\<rparr>)))"

definition removeSession :: "gostring \<Rightarrow> SessionStore \<Rightarrow> SessionStore" where
  "removeSession sessionId s = gomap_del s sessionId"

definition hasSession :: "gostring \<Rightarrow> SessionStore \<Rightarrow> bool" where
  "hasSession sessionId s \<longleftrightarrow> gomap_get s sessionId \<noteq> None"

definition getSession :: "gostring \<Rightarrow> SessionStore \<Rightarrow> PadSession option" where
  "getSession sessionId s = gomap_get s sessionId"

definition resetSession :: "gostring \<Rightarrow> SessionStore \<Rightarrow> SessionStore" where
  "resetSession sessionId s = gomap_set s sessionId empty_session"

definition GetPadSessions :: "gostring \<Rightarrow> SessionStore \<Rightarrow> gostring list" where
  "GetPadSessions padId s =
     remdups (map (\<lambda>(k, session). ses_Author session)
       (filter (\<lambda>(k, session). ses_PadId session = padId \<and> ses_Author session \<noteq> []) s))"

definition GetPadSessionsCount :: "gostring \<Rightarrow> SessionStore \<Rightarrow> int" where
  "GetPadSessionsCount padId s = int (length (GetPadSessions padId s))"

subsection \<open>The state of the server\<close>

text \<open>\<open>sheets\<close> holds the loaded documents of the spreadsheet manager.\<close>

record 's Server =
  srv_store :: 's
  manager :: Manager
  sessions :: SessionStore
  hub :: Hub
  sheets :: "(gostring, Document) gomap"

definition send_to :: "client \<Rightarrow> Message \<Rightarrow> 's Server \<Rightarrow> 's Server" where
  "send_to c message st = st\<lparr>hub := SafeSend c message (hub st)\<rparr>"

definition sendDisconnectMessage :: "client \<Rightarrow> gostring \<Rightarrow> 's Server \<Rightarrow> 's Server" where
  "sendDisconnectMessage c reason st = send_to c (Disconnect reason) st"

definition set_session :: "gostring \<Rightarrow> PadSession \<Rightarrow> 's Server \<Rightarrow> 's Server" where
  "set_session sessionId session st = st\<lparr>sessions := gomap_set (sessions st) sessionId session\<rparr>"

definition GetRoomSockets :: "gostring \<Rightarrow> 's Server \<Rightarrow> (client \<times> gostring) list" where
  "GetRoomSockets padID st =
     List.map_filter (\<lambda>(c, cl).
       case getSession (SessionId cl) (sessions st) of
         Some sess \<Rightarrow> if ses_PadId sess = padID then Some (c, SessionId cl) else None
       | None \<Rightarrow> None) (hub st)"

definition send_room_message :: "gostring \<Rightarrow> Message \<Rightarrow> 's Server \<Rightarrow> 's Server" where
  "send_room_message padID message st = st\<lparr>hub := send_all (map fst (GetRoomSockets padID st)) message (hub st)\<rparr>"

definition SendCustomMessageToPad :: "time \<Rightarrow> gostring \<Rightarrow> gostring \<Rightarrow> 's Server \<Rightarrow> 's Server" where
  "SendCustomMessageToPad now padId msgType st = send_room_message padId (CustomMessage msgType (millis_of now)) st"

definition KickSessionsFromPad :: "gostring \<Rightarrow> 's Server \<Rightarrow> 's Server" where
  "KickSessionsFromPad padID st =
     st\<lparr>hub := send_all (map fst (filter (\<lambda>(c, sid). sid \<noteq> []) (GetRoomSockets padID st))) (Disconnect (lit ''deleted'')) (hub st)\<rparr>"

subsection \<open>New revisions to the clients of a pad\<close>

text \<open>
  One \<^verbatim>\<open>NEW_CHANGES\<close> message. The revision cache of the loop only saves reads of a store that
  does not change; a revision that cannot be read is nil and dereferenced, as is a missing author.
\<close>

definition new_changes :: "'s DataStore \<Rightarrow> Pad \<Rightarrow> int \<Rightarrow> millis \<Rightarrow> 's \<Rightarrow> NewChangesMessageData result" where
  "new_changes D pad r sessionTime s =
     (case Pad_GetRevision D r pad s of
        Inl err \<Rightarrow> Inl Panic
      | Inr revision \<Rightarrow>
          (case rev_AuthorId revision of
             None \<Rightarrow> Inl Panic
           | Some author \<Rightarrow>
               let forWire = PrepareForWire (rev_Changeset revision) (pad_Pool pad)
               in Inr \<lparr>NewRev = r, nc_Changeset = Translated forWire, nc_APool = ToJsonable (WirePool forWire),
                       nc_Author = author, CurrentTime = rev_Timestamp revision,
                       TimeDelta = rev_Timestamp revision - sessionTime\<rparr>))"

text \<open>The inner loop runs while \<^verbatim>\<open>sessionInfo.Revision < pad.Head\<close>: over the numbers up to the head.\<close>

fun send_revisions :: "'s DataStore \<Rightarrow> Pad \<Rightarrow> client \<Rightarrow> gostring \<Rightarrow> int list \<Rightarrow> 's Server \<Rightarrow> 's Server result" where
  "send_revisions D pad c sid [] st = Inr st"
| "send_revisions D pad c sid (r # rs) st =
     (case getSession sid (sessions st) of
        None \<Rightarrow> Inr st
      | Some sessionInfo \<Rightarrow>
          bind_result (new_changes D pad r (Time sessionInfo) (srv_store st)) (\<lambda>msg.
            send_revisions D pad c sid rs
              (set_session sid (sessionInfo\<lparr>Time := CurrentTime msg, Revision := r\<rparr>) (send_to c (NewChanges msg) st))))"

fun update_clients :: "'s DataStore \<Rightarrow> Pad \<Rightarrow> (client \<times> gostring) list \<Rightarrow> 's Server \<Rightarrow> 's Server result" where
  "update_clients D pad [] st = Inr st"
| "update_clients D pad ((c, sid) # sockets) st =
     (case getSession sid (sessions st) of
        None \<Rightarrow> update_clients D pad sockets st
      | Some sessionInfo \<Rightarrow>
          bind_result (send_revisions D pad c sid [Revision sessionInfo + 1..pad_Head pad] st) (\<lambda>st1.
            update_clients D pad sockets st1))"

definition UpdatePadClients :: "'s DataStore \<Rightarrow> Pad \<Rightarrow> 's Server \<Rightarrow> 's Server result" where
  "UpdatePadClients D pad st = update_clients D pad (GetRoomSockets (pad_Id pad) st) st"

end
