(* ===== verification/UserChanges.thy ===== *)
theory UserChanges
  imports Access Rooms
begin

text \<open>
  The handler of \<^verbatim>\<open>USER_CHANGES\<close> in \<^verbatim>\<open>lib/ws/PadMessageHandler.go\<close>: the checks of a client's
  changeset, its translation to the pool of the pad, the rebase over the revisions the client
  has not seen, the revision it becomes, the correction of misplaced line markers and the
  messages to all clients of the pad.

  \<open>order\<close> is the iteration order of the map in \<^verbatim>\<open>followAttributes\<close>. A handler returns a panic
  as \<open>Inl Panic\<close>: the goroutine of the queue has no recover, so it ends the process.

  What the message handlers of \<^verbatim>\<open>lib/ws\<close> share. A handler gives the server it leaves behind and
  whether it panicked; \<open>None\<close> is a loop of the changeset library that does not end. An early
  return after a warning is \<open>finish\<close>.
\<close>

section \<open>User changes\<close>

type_synonym map_order = "(gostring, gostring) gomap \<Rightarrow> (gostring, gostring) gomap"

record UserChange =
  uc_NumToAttrib :: "(int, gostring list) gomap"
  uc_NextNum :: int
  BaseRev :: int
  uc_Changeset :: gostring

subsection \<open>The authors of the operations\<close>

text \<open>
  The test of one operation against the wire pool and the pool of the pad; it threads the
  wire pool, which \<^verbatim>\<open>FromString\<close> may extend. \<open>False\<close> is a rejection.
\<close>

definition author_allowed :: "gostring \<Rightarrow> APool \<Rightarrow> Op \<Rightarrow> APool \<Rightarrow> bool \<times> APool" where
  "author_allowed sessionAuthor padPool op wireApool =
     (let fromString = FromString (Attribs op) wireApool;
          opAuthorId = AM_Get (lit ''author'') fromString;
          foreign = (case opAuthorId of None \<Rightarrow> False | Some i \<Rightarrow> RuneCount i \<noteq> 0 \<and> i \<noteq> sessionAuthor);
          known = (fst (PutAttrib \<lparr>Key = lit ''author'', Value = the opAuthorId\<rparr> (Some True) padPool) \<noteq> -1);
          ok = (\<not> (foreign \<and> \<not> (OpCode op = Keep \<and> known)) \<and>
                \<not> (OpCode op = Plus \<and> (opAuthorId = None \<or> opAuthorId = Some [])) \<and>
                opAuthorId \<noteq> Some SystemAuthorId)
      in (ok, am_pool fromString))"

fun check_authors :: "gostring \<Rightarrow> APool \<Rightarrow> Op list \<Rightarrow> APool \<Rightarrow> bool \<times> APool" where
  "check_authors sessionAuthor padPool [] wireApool = (True, wireApool)"
| "check_authors sessionAuthor padPool (op # ops) wireApool =
     (let (ok, wireApool1) = author_allowed sessionAuthor padPool op wireApool
      in if ok then check_authors sessionAuthor padPool ops wireApool1 else (False, wireApool1))"

subsection \<open>Rebasing\<close>

text \<open>
  The loop over the revisions after the base. The pool is the pad's, which \<^verbatim>\<open>Follow\<close> may
  extend; it is returned on every way out.
\<close>

fun rebase_changeset ::
  "'s DataStore \<Rightarrow> map_order \<Rightarrow> gostring \<Rightarrow> gostring \<Rightarrow> Pad \<Rightarrow> 's \<Rightarrow> int list \<Rightarrow> gostring \<Rightarrow> APool \<Rightarrow>
   (gostring result \<times> APool) option" where
  "rebase_changeset D order author canonicalCs pad s [] cs pool = Some (Inr cs, pool)"
| "rebase_changeset D order author canonicalCs pad s (r # rs) cs pool =
     (case Pad_GetRevision D r pad s of
        Inl err \<Rightarrow> Some (Inl err, pool)
      | Inr revisionPad \<Rightarrow>
          let retransmitted = (rev_Changeset revisionPad = canonicalCs \<and> rev_AuthorId revisionPad = Some author)
          in case (if retransmitted then map_sum id (\<lambda>u. Identity (OldLen u)) (Unpack canonicalCs) else Inr cs) of
               Inl err \<Rightarrow> Some (Inl err, pool)
             | Inr cs1 \<Rightarrow>
                 (case Follow order (rev_Changeset revisionPad) cs1 False (Some pool) of
                    None \<Rightarrow> None
                  | Some (Inl err) \<Rightarrow> Some (Inl err, pool)
                  | Some (Inr (cs2, pool2)) \<Rightarrow>
                      rebase_changeset D order author canonicalCs pad s rs cs2 (case pool2 of None \<Rightarrow> pool | Some p \<Rightarrow> p)))"

subsection \<open>Misplaced line markers\<close>

text \<open>The positions of the runes of one operation that are not at the start of a line.\<close>

definition op_markers :: "gostring \<Rightarrow> int \<Rightarrow> int \<Rightarrow> int list result" where
  "op_markers text' offset n =
     (let ps = [offset..offset + n - 1]
      in if list_ex (\<lambda>i. i > 0 \<and> i - 1 \<ge> int (length text')) ps then Inl Panic
         else Inr (filter (\<lambda>i. i > 0 \<and> text' ! nat (i - 1) \<noteq> newline) ps))"

fun bad_markers :: "gostring \<Rightarrow> Op list \<Rightarrow> APool \<Rightarrow> int \<Rightarrow> (int list \<times> APool) result" where
  "bad_markers text' [] pool offset = Inr ([], pool)"
| "bad_markers text' (op # ops) pool offset =
     (let attribs = FromString (Attribs op) pool
      in bind_result (if HasAttrib attribs then op_markers text' offset (Chars op) else Inr []) (\<lambda>here.
         bind_result (bad_markers text' ops (am_pool attribs) (offset + Chars op)) (\<lambda>(later, pool1).
           Inr (here @ later, pool1))))"

fun remove_markers :: "gostring \<Rightarrow> int list \<Rightarrow> int \<Rightarrow> Builder \<Rightarrow> Builder result" where
  "remove_markers text' [] offset builder = Inr builder"
| "remove_markers text' (i # is) offset builder =
     bind_result (Builder_KeepText (take (nat (i - offset)) (drop (nat offset) text')) None None builder) (\<lambda>(b1, _).
       remove_markers text' is (i + 1) (Builder_Remove 1 0 b1))"

text \<open>The pool is passed by value; the second part of the result is the caller's pool.\<close>

definition correctMarkersInPad :: "AText \<Rightarrow> APool \<Rightarrow> (gostring option \<times> APool) result" where
  "correctMarkersInPad atext pool =
     (case DeserializeOps (ATAttribs atext) of
        Inl err \<Rightarrow> Inr (None, pool)
      | Inr deserializedOps \<Rightarrow>
          bind_result (bad_markers (Text atext) deserializedOps pool 0) (\<lambda>(badMarkers, local).
            let pool1 = caller_pool pool (Some local)
            in if badMarkers = [] then Inr (None, pool1)
               else bind_result (remove_markers (Text atext) badMarkers 0 (NewBuilder (int (length (Text atext))))) (\<lambda>builder.
                 Inr (Some (fst (Builder_ToString builder)), pool1))))"

subsection \<open>The handler\<close>

definition put_pad :: "gostring \<Rightarrow> Pad \<Rightarrow> 's \<Rightarrow> 's Server \<Rightarrow> 's Server" where
  "put_pad padId pad s st = st\<lparr>manager := Cache_SetPad padId pad (manager st), srv_store := s\<rparr>"

definition badChangeset :: "client \<Rightarrow> 's Server \<Rightarrow> 's Server" where
  "badChangeset c st = sendDisconnectMessage c (lit ''badChangeset'') st"

text \<open>The last part: the marker correction, the acknowledgement and the broadcast.\<close>

definition commit_changes ::
  "'s DataStore \<Rightarrow> time \<Rightarrow> client \<Rightarrow> gostring \<Rightarrow> PadSession \<Rightarrow> int \<Rightarrow> int \<Rightarrow> Pad \<Rightarrow> 's Server \<Rightarrow>
   (unit result \<times> 's Server) option" where
  "commit_changes D now c sid session r finalRev pad st =
     (case correctMarkersInPad (pad_AText pad) (pad_Pool pad) of
        Inl err \<Rightarrow> Some (Inl err, st)
      | Inr (correction, pool) \<Rightarrow>
          let pad1 = pad\<lparr>pad_Pool := pool\<rparr>
          in case (case correction of None \<Rightarrow> Some (Inr 0, pad1, srv_store st)
                   | Some cs \<Rightarrow> AppendRevision D now cs (Some (ses_Author session)) pad1 (srv_store st)) of
               None \<Rightarrow> None
             | Some (res, pad2, s2) \<Rightarrow>
                 let st2 = send_to c (AcceptCommit finalRev) (put_pad (ses_PadId session) pad2 s2 st);
                     session1 = session\<lparr>Revision := finalRev\<rparr>
                 in if res = Inl Panic then Some (Inl Panic, st)
                    else
                      (case (if finalRev \<noteq> r then GetRevisionDate D finalRev pad2 s2 else Inr (Time session1)) of
                         Inl err \<Rightarrow> Some (Inr (), badChangeset c (set_session sid session1 st2))
                       | Inr optTime \<Rightarrow>
                           let st3 = set_session sid (session1\<lparr>Time := optTime\<rparr>) st2
                           in Some (case UpdatePadClients D pad2 st3 of
                                      Inl err \<Rightarrow> (Inl err, st3) | Inr st4 \<Rightarrow> (Inr (), st4))))"

definition reject_changes :: "client \<Rightarrow> PadSession \<Rightarrow> Pad \<Rightarrow> 's \<Rightarrow> 's Server \<Rightarrow> (unit result \<times> 's Server) option" where
  "reject_changes c session pad s st = Some (Inr (), badChangeset c (put_pad (ses_PadId session) pad s st))"

text \<open>The middle part: the rebased changeset is tested and appended; \<open>r\<close> is the revision it is relative to.\<close>

definition apply_changes ::
  "'s DataStore \<Rightarrow> time \<Rightarrow> client \<Rightarrow> gostring \<Rightarrow> PadSession \<Rightarrow> int \<Rightarrow> gostring \<Rightarrow> Pad \<Rightarrow> 's Server \<Rightarrow>
   (unit result \<times> 's Server) option" where
  "apply_changes D now c sid session r rebased pad st =
     (let prevText = pad_text pad
      in case OldLen_of rebased of
           Inl _ \<Rightarrow> reject_changes c session pad (srv_store st) st
         | Inr oldLen \<Rightarrow>
             if oldLen \<noteq> RuneCount prevText then reject_changes c session pad (srv_store st) st
             else case ApplyToText rebased prevText of
               Inl Panic \<Rightarrow> Some (Inl Panic, st)
             | Inl (Err e) \<Rightarrow> reject_changes c session pad (srv_store st) st
             | Inr projectedText \<Rightarrow>
                 if \<not> has_suffix projectedText [newline] then reject_changes c session pad (srv_store st) st
                 else case AppendRevision D now rebased (Some (ses_Author session)) pad (srv_store st) of
                   None \<Rightarrow> None
                 | Some (Inl Panic, pad2, s2) \<Rightarrow> Some (Inl Panic, st)
                 | Some (Inl (Err e), pad2, s2) \<Rightarrow> reject_changes c session pad2 s2 st
                 | Some (Inr newRev, pad2, s2) \<Rightarrow>
                     if newRev \<noteq> r \<and> newRev \<noteq> r + 1 then reject_changes c session pad2 s2 st
                     else commit_changes D now c sid session r newRev pad2 (put_pad (ses_PadId session) pad2 s2 st))"

definition append_changes ::
  "'s DataStore \<Rightarrow> time \<Rightarrow> map_order \<Rightarrow> client \<Rightarrow> gostring \<Rightarrow> PadSession \<Rightarrow> int \<Rightarrow> gostring \<Rightarrow> Pad \<Rightarrow> 's Server \<Rightarrow>
   (unit result \<times> 's Server) option" where
  "append_changes D now order c sid session baseRev canonicalCs pad st =
     (case rebase_changeset D order (ses_Author session) canonicalCs pad (srv_store st) [baseRev + 1..pad_Head pad] canonicalCs (pad_Pool pad) of
        None \<Rightarrow> None
      | Some (Inl Panic, pool) \<Rightarrow> Some (Inl Panic, st)
      | Some (Inl (Err e), pool) \<Rightarrow> reject_changes c session (pad\<lparr>pad_Pool := pool\<rparr>) (srv_store st) st
      | Some (Inr rebased, pool) \<Rightarrow>
          apply_changes D now c sid session (max baseRev (pad_Head pad)) rebased (pad\<lparr>pad_Pool := pool\<rparr>) st)"

text \<open>
  \<open>c\<close> is the client and \<open>sid\<close> its session id. The error of a loop that reads past \<^verbatim>\<open>CheckRep\<close> is
  reported like its own: \<^verbatim>\<open>Unpack\<close> and \<^verbatim>\<open>DeserializeOps\<close> of the checked string.
\<close>

definition handleUserChanges ::
  "'s DataStore \<Rightarrow> time \<Rightarrow> gostring \<Rightarrow> map_order \<Rightarrow> client \<Rightarrow> gostring \<Rightarrow> UserChange \<Rightarrow> 's Server \<Rightarrow>
   (unit result \<times> 's Server) option" where
  "handleUserChanges D now defaultText order c sid message st =
     (case FromJsonable NewAPool (NewAPool\<lparr>NextNum := uc_NextNum message, NumToAttribRaw := uc_NumToAttrib message\<rparr>) of
        Inl err \<Rightarrow> Some (Inl Panic, st)
      | Inr wireApool \<Rightarrow>
          (case getSession sid (sessions st) of
             None \<Rightarrow> Some (Inr (), st)
           | Some session \<Rightarrow>
               (case Manager_GetPad D now defaultText (ses_PadId session) None (Some (ses_Author session)) (manager st, srv_store st) of
                  None \<Rightarrow> None
                | Some (Inl Panic, m1, s1) \<Rightarrow> Some (Inl Panic, st)
                | Some (Inl (Err e), m1, s1) \<Rightarrow> Some (Inr (), badChangeset c (st\<lparr>manager := m1, srv_store := s1\<rparr>))
                | Some (Inr pad, m1, s1) \<Rightarrow>
                    let st1 = st\<lparr>manager := m1, srv_store := s1\<rparr>
                    in case bind_result (CheckRep (uc_Changeset message)) (\<lambda>checkedRep.
                            bind_result (Unpack checkedRep) (\<lambda>unpacked. DeserializeOps (Ops unpacked))) of
                         Inl Panic \<Rightarrow> Some (Inl Panic, st)
                       | Inl (Err e) \<Rightarrow> Some (Inr (), badChangeset c st1)
                       | Inr ops \<Rightarrow>
                           let (ok, wireApool1) = check_authors (ses_Author session) (pad_Pool pad) ops wireApool
                           in if \<not> ok then Some (Inr (), badChangeset c st1)
                              else
                                let (canonicalCs, pool) = MoveOpsToNewPool (uc_Changeset message) wireApool1 (pad_Pool pad)
                                in append_changes D now order c sid session (BaseRev message) canonicalCs (pad\<lparr>pad_Pool := pool\<rparr>) st1)))"

section \<open>What the handlers share\<close>

type_synonym 's handled = "(unit result \<times> 's Server) option"

definition finish :: "'s Server \<Rightarrow> 's handled" where
  "finish st = Some (Inr (), st)"

definition panic :: "'s Server \<Rightarrow> 's handled" where
  "panic st = Some (Inl Panic, st)"

definition set_store :: "'s \<Rightarrow> 's Server \<Rightarrow> 's Server" where
  "set_store s st = st\<lparr>srv_store := s\<rparr>"

text \<open>The pad of a handler, which logs an error and returns.\<close>

definition load_pad ::
  "'s DataStore \<Rightarrow> time \<Rightarrow> gostring \<Rightarrow> gostring \<Rightarrow> gostring option \<Rightarrow> (Pad \<Rightarrow> 's Server \<Rightarrow> 's handled) \<Rightarrow> 's Server \<Rightarrow> 's handled" where
  "load_pad D now defaultText padId author f st =
     (case Manager_GetPad D now defaultText padId None author (manager st, srv_store st) of
        None \<Rightarrow> None
      | Some (Inl Panic, m, s) \<Rightarrow> panic st
      | Some (Inl (Err e), m, s) \<Rightarrow> finish (st\<lparr>manager := m, srv_store := s\<rparr>)
      | Some (Inr pad, m, s) \<Rightarrow> f pad (st\<lparr>manager := m, srv_store := s\<rparr>))"

text \<open>A message to the clients of a pad except one session.\<close>

definition send_others :: "gostring \<Rightarrow> gostring \<Rightarrow> Message \<Rightarrow> 's Server \<Rightarrow> 's Server" where
  "send_others padId sid message st =
     st\<lparr>hub := send_all (map fst (filter (\<lambda>(c, i). i \<noteq> sid) (GetRoomSockets padId st))) message (hub st)\<rparr>"

text \<open>The session of a client that has entered a pad.\<close>

definition session_ready :: "gostring \<Rightarrow> 's Server \<Rightarrow> PadSession option" where
  "session_ready sid st =
     (case getSession sid (sessions st) of
        None \<Rightarrow> None
      | Some session \<Rightarrow> if ses_PadId session = [] then None else Some session)"

end
