(* ===== verification/ATextSpec.thy ===== *)
theory ATextSpec
  imports ComposeSpec
begin

text \<open>
  The two strings of an attributed text describe the same document: the attribute operations
  are insertions that write exactly the text. \<open>ApplyToAText\<close> keeps them in step, and never
  fails on attributed texts in step when the changeset applies to the text.
\<close>

definition in_step :: "AText \<Rightarrow> bool" where
  "in_step at \<longleftrightarrow> (\<exists>ops. DeserializeOps (ATAttribs at) = Inr ops \<and> applies False ops (Text at) [] [] (Text at))"

text \<open>The zip of \<open>ApplyToAttribution\<close> outputs what the zip of \<open>Compose\<close> outputs.\<close>

lemma compose_callback_attribution:
  "compose_callback op1 op2 (b1, b2, ba, pool) = Inr ((out, op1', op2'), (b1', b2', ba', pool')) \<Longrightarrow>
   attribution_callback op1 op2 pool = Inr ((out, op1', op2'), pool')"
  by (auto simp: compose_callback_def attribution_callback_def bind_result_Inr_iff split: if_splits)

lemma compose_runs_attribution:
  "zip_runs compose_callback xs ys st outs st' \<Longrightarrow>
   zip_runs attribution_callback xs ys (snd (snd (snd st))) outs (snd (snd (snd st')))"
proof (induction rule: zip_runs.induct)
  case (zip_step xs ys st out op1 op2 st1 outs st2)
  obtain b1 b2 ba pool b1' b2' ba' pool' where st: "st = (b1, b2, ba, pool)" "st1 = (b1', b2', ba', pool')"
    by (cases st; cases st1) auto
  show ?case
    using zip_runs.zip_step[where cb = attribution_callback, OF zip_step.hyps(1) compose_callback_attribution
        [OF zip_step.hyps(2)[unfolded st]]] zip_step.IH
    by (simp add: st)
qed (simp add: zip_runs.zip_done)

lemma runs_from_nothing: "runs n ops b t out b' t' \<Longrightarrow> t = [] \<Longrightarrow> b = out @ b' \<and> t' = []"
  by (induction rule: runs.induct) auto

lemma applies_total_texts:
  assumes "applies n ops b b' t r" shows "total ops \<le> RuneCount t + RuneCount r"
proof -
  from assms obtain out rest where r: "runs n ops b t out b' rest" "r = out @ rest" by (auto simp: applies_def)
  have "bank_chars ops \<le> new_chars ops" using r(1)
    by (induction rule: runs.induct) (auto dest: spans_nonneg)
  moreover have "RuneCount r = new_chars ops + RuneCount rest" using runs_lengths[OF r(1)] r(2) by simp
  ultimately show ?thesis using runs_lengths[OF r(1)] applied_total[OF r(1)] RuneCount_nonneg[of rest] by linarith
qed

lemma ApplyToAText_in_step:
  assumes p: "pool_wf p" and step: "in_step at"
    and app: "ApplyToText cs (Text at) = Inr res" and size: "2 * RuneCount (Text at) + RuneCount res < 2 ^ 63"
  shows "\<exists>at'. ApplyToAText cs at p = Some (Inr (at', p)) \<and> Text at' = res \<and> in_step at'"
proof -
  obtain u where u: "Unpack cs = Inr u" using Unpack_total by blast
  obtain ops1 where o1: "DeserializeOps (ATAttribs at) = Inr ops1" "applies False ops1 (Text at) [] [] (Text at)"
    using step by (auto simp: in_step_def)
  obtain ops2 where o2: "DeserializeOps (Ops u) = Inr ops2"
    using u app by (auto simp: ApplyToText_def bind_result_Inr_iff split: if_splits)
  obtain b2 where a2: "applies False ops2 (CharBank u) b2 (Text at) res"
    using ApplyToText_applies[OF u o2] app by blast
  let ?i1 = "NewStringIterator (Text at)" and ?i2 = "NewStringIterator (CharBank u)"
  from o1(2) obtain w1 t1 where r1: "runs False ops1 (Text at) [] w1 [] t1" "Text at = w1 @ t1" by (auto simp: applies_def)
  from a2 obtain w2 t2 where r2: "runs False ops2 (CharBank u) (w1 @ t1) w2 b2 t2" "res = w2 @ t2"
    using r1(2) by (auto simp: applies_def)
  have z: "zipping False ops1 ops2 (iter_rest ?i1) (iter_rest ?i2) [] res"
    using zippingI[OF r1(1) r2] by simp
  from compose_run[OF p z iter_new(1) iter_new(1) parsed_attribs[OF o1(1)] parsed_attribs[OF o2], of NewStringAssembler]
  obtain outs i1 i2 ba B w t' where
    zr: "zip_runs compose_callback ops1 ops2 (?i1, ?i2, NewStringAssembler, Some p) outs (i1, i2, ba, Some p)"
    and out: "runs False outs B [] w [] t'" "res = w @ t'" "wf_attribs outs" "total outs \<le> total ops1 + total ops2" by blast
  have attr: "ApplyZip (ATAttribs at) (Ops u) attribution_callback (Some p) = Some (Inr (smart_string outs, Some p))"
    by (rule ApplyZip_runs[OF o1(1) o2]) (use compose_runs_attribution[OF zr] in simp)
  have plain: "ops_plain outs"
    using runs_plain[OF out(1)] out(3,4) size applies_total[OF o1(2)] applies_total_texts[OF a2]
    by (simp add: ops_plain_def wf_attribs_def)
  have w: "B = res" "t' = []" using runs_from_nothing[OF out(1) refl] out(2) by simp_all
  have "applies False (smart_ops True outs) res [] [] res"
    by (rule smart_end.norm_applies) (use out(1,2) w in \<open>auto simp: applies_def\<close>)
  with smart_end.parses[OF plain] have "in_step \<lparr>Text = res, ATAttribs = smart_string outs\<rparr>"
    by (auto simp: in_step_def)
  moreover have "ApplyToAText cs at p = Some (Inr (\<lparr>Text = res, ATAttribs = smart_string outs\<rparr>, p))"
    using attr u app by (simp add: ApplyToAText_def ApplyToAttribution_def caller_pool_def)
  ultimately show ?thesis by auto
qed

end
