(* ===== verification/PadSpec.thy ===== *)
theory PadSpec
  imports Pad ATextSpec
begin

text \<open>
  The contract of a store of pads, and what pads promise over every store that meets it: the
  stored revisions are a chain of changesets from the empty document to the text of the pad,
  each next to the text it produced, and every change of the pad extends the chain.

  Editing, replaying and loading pads over any store that meets the contract: \<open>SpliceText\<close>
  makes the edit it is asked for as one revision, the replay from a key revision gives the
  text of every revision, and a pad loaded from the store is the pad that was saved.
\<close>

section \<open>The history of a pad\<close>

subsection \<open>The contract of the store\<close>

definition stamped :: "time \<Rightarrow> gostring \<Rightarrow> PadDB option \<Rightarrow> PadDB \<Rightarrow> PadDB" where
  "stamped now i old d =
     (case old of
        Some e \<Rightarrow> d\<lparr>pdb_CreatedAt := pdb_CreatedAt e, pdb_UpdatedAt := Some now\<rparr>
      | None \<Rightarrow> d\<lparr>pdb_CreatedAt := now, pdb_UpdatedAt := Some now, pdb_ID := i\<rparr>)"

definition revision_row :: "gostring \<Rightarrow> int \<Rightarrow> gostring \<Rightarrow> AText \<Rightarrow> RevPool \<Rightarrow> gostring option \<Rightarrow> millis \<Rightarrow> PadSingleRevision" where
  "revision_row i r cs at pool author t =
     \<lparr>rev_PadId = i, rev_RevNum = r, rev_Changeset = cs, rev_AText = at, rev_AuthorId = author,
      rev_Timestamp = t, rev_Pool = Some pool\<rparr>"

text \<open>\<open>pads\<close> and \<open>revs\<close> read the stored pads and revisions off a state, \<open>inv\<close> is the invariant of the store.\<close>

locale pad_store =
  fixes D :: "'s DataStore"
    and pads :: "'s \<Rightarrow> gostring \<Rightarrow> PadDB option"
    and revs :: "'s \<Rightarrow> gostring \<Rightarrow> int \<Rightarrow> PadSingleRevision option"
    and inv :: "'s \<Rightarrow> bool"
  assumes get_pad: "inv s \<Longrightarrow> ds_GetPad D i s = (case pads s i of None \<Rightarrow> Inl (Err PadDoesNotExistError) | Some d \<Rightarrow> Inr d)"
    and create_pad: "inv s \<Longrightarrow> ds_CreatePad D now i d s = (e, s') \<Longrightarrow>
      e = None \<and> inv s' \<and> revs s' = revs s \<and> pads s' = (pads s)(i \<mapsto> stamped now i (pads s i) d)"
    and get_revision: "inv s \<Longrightarrow> pads s i \<noteq> None \<Longrightarrow> ds_GetRevision D i r s =
      (case revs s i r of None \<Rightarrow> Inl (Err PadRevisionNotFoundError) | Some x \<Rightarrow> Inr x)"
    and save_revision: "inv s \<Longrightarrow> pads s i \<noteq> None \<Longrightarrow> ds_SaveRevision D i r cs at pool a t s = (e, s') \<Longrightarrow>
      e = None \<and> inv s' \<and> pads s' = pads s \<and>
      revs s' = (if revs s i r = None then (revs s)(i := (revs s i)(r \<mapsto> revision_row i r cs at pool a t)) else revs s)"
    and save_author: "inv s \<Longrightarrow> adb_ID x \<noteq> [] \<Longrightarrow> ds_SaveAuthor D now x s = (e, s') \<Longrightarrow>
      e = None \<and> inv s' \<and> pads s' = pads s \<and> revs s' = revs s"
    and save_chat: "inv s \<Longrightarrow> ds_SaveChatMessage D i h a t m s = (e, s') \<Longrightarrow>
      e = None \<and> inv s' \<and> pads s' = pads s \<and> revs s' = revs s"
    and save_chat_head: "inv s \<Longrightarrow> ds_SaveChatHeadOfPad D now i h s = (e, s') \<Longrightarrow>
      inv s' \<and> revs s' = revs s \<and>
      (case pads s i of None \<Rightarrow> e \<noteq> None \<and> pads s' = pads s
       | Some d \<Rightarrow> e = None \<and> pads s' = (pads s)(i \<mapsto> d\<lparr>pdb_ChatHead := h, pdb_UpdatedAt := Some now\<rparr>))"

subsection \<open>The history of a pad\<close>

definition text_at :: "(int \<Rightarrow> PadSingleRevision option) \<Rightarrow> int \<Rightarrow> gostring" where
  "text_at R r = (case R r of None \<Rightarrow> [newline] | Some x \<Rightarrow> Text (rev_AText x))"

definition chained :: "(int \<Rightarrow> PadSingleRevision option) \<Rightarrow> int \<Rightarrow> bool" where
  "chained R n \<longleftrightarrow> -1 \<le> n \<and> (\<forall>r. R r \<noteq> None \<longleftrightarrow> 0 \<le> r \<and> r \<le> n) \<and>
     (\<forall>r x. R r = Some x \<longrightarrow> in_step (rev_AText x) \<and> ApplyToText (rev_Changeset x) (text_at R (r - 1)) = Inr (text_at R r))"

definition row_of :: "Pad \<Rightarrow> PadDB \<Rightarrow> bool" where
  "row_of p d \<longleftrightarrow> pdb_Head d = pad_Head p \<and> pdb_ATextText d = Text (pad_AText p) \<and>
     pdb_ATextAttribs d = ATAttribs (pad_AText p) \<and> pdb_SavedRevisions d = SavedRevisions p \<and>
     pdb_PublicStatus d = PublicStatus p \<and> pdb_DocumentType d = DocumentType p \<and> pdb_ReadOnlyId d = ReadonlyId p"

definition history :: "PadDB option \<Rightarrow> (int \<Rightarrow> PadSingleRevision option) \<Rightarrow> Pad \<Rightarrow> bool" where
  "history P R p \<longleftrightarrow> pool_wf (pad_Pool p) \<and> in_step (pad_AText p) \<and> chained R (pad_Head p) \<and>
     text_at R (pad_Head p) = pad_text p \<and>
     (case P of None \<Rightarrow> pad_Head p = -1 | Some d \<Rightarrow> 0 \<le> pad_Head p \<and> pdb_Head d = pad_Head p)"

text \<open>Every text of the history is far shorter than the machine's integers reach.\<close>

definition fits_history :: "(int \<Rightarrow> PadSingleRevision option) \<Rightarrow> bool" where
  "fits_history R \<longleftrightarrow> (\<forall>r. RuneCount (text_at R r) < 2 ^ 61)"

lemma chained_domain: "chained R n \<Longrightarrow> R r = None \<longleftrightarrow> \<not> (0 \<le> r \<and> r \<le> n)"
  unfolding chained_def by blast

lemma chained_fresh: "chained R n \<Longrightarrow> R (n + 1) = None \<and> -1 \<le> n"
  by (simp add: chained_domain) (simp add: chained_def)

lemma chained_step: "chained R n \<Longrightarrow> R r = Some x \<Longrightarrow> in_step (rev_AText x) \<and>
    ApplyToText (rev_Changeset x) (text_at R (r - 1)) = Inr (text_at R r)"
  unfolding chained_def by blast

lemma chained_next:
  assumes "chained R n" "ApplyToText cs (text_at R n) = Inr (Text at)" "in_step at" "rev_Changeset x = cs" "rev_AText x = at"
  shows "chained (R(n + 1 \<mapsto> x)) (n + 1) \<and> text_at (R(n + 1 \<mapsto> x)) (n + 1) = Text at"
proof -
  have old: "text_at (R(n + 1 \<mapsto> x)) r = text_at R r" if "r \<noteq> n + 1" for r
    using that by (simp add: text_at_def)
  have new: "text_at (R(n + 1 \<mapsto> x)) (n + 1) = Text at" by (simp add: text_at_def assms(5))
  have "0 \<le> r \<and> r \<le> n" if "R r = Some y" for r y using assms(1) that by (force simp: chained_def)
  then show ?thesis
    using assms new by (force simp: chained_def old)
qed

lemma put_author_wf:
  assumes "pool_wf pool" "NextNum pool + 1 < 2 ^ 63" "\<forall>i. author = Some i \<longrightarrow> trim_space i = i"
  shows "pool_wf (put_author author pool)"
proof (cases author)
  case (Some i)
  let ?e = "\<lparr>Key = lit ''author'', Value = i\<rparr>"
  have ok: "pool_ok (put_author author pool)"
    using Some pool_ok_PutAttrib assms(1) by (simp add: put_author_def pool_wf_def)
  have fits: "pool_fits (put_author author pool)"
    using Some assms(1,2) by (auto simp: put_author_def pool_wf_def pool_fits_def PutAttrib_def Let_def split: option.splits)
  have "trim_entry ?e = ?e" using assms(3) Some by (simp add: trim_entry_def trim_space_def is_space_def)
  then have "pool_trimmed (put_author author pool)"
    using Some assms(1) by (auto simp: put_author_def pool_wf_def pool_trimmed_def PutAttrib_def Let_def split: option.splits if_splits)
  with ok fits show ?thesis by (simp add: pool_wf_def)
qed (use assms(1) in \<open>simp add: put_author_def\<close>)

context pad_store
begin

lemma ensure_author:
  assumes "inv s" "ensure_system_author D now author s = (e, s')"
  shows "e = None \<and> inv s' \<and> pads s' = pads s \<and> revs s' = revs s"
proof -
  have "adb_ID (system_author now) \<noteq> []" by (simp add: system_author_def SystemAuthorId_def)
  from save_author[OF assms(1) this, of now e s'] show ?thesis
    using assms by (simp add: ensure_system_author_def split: if_splits sum.splits)
qed

lemma save_pad:
  assumes "inv s" "Pad_Save D now p s = (e, s')"
  shows "e = None \<and> inv s' \<and> revs s' = revs s \<and> (\<forall>j. j \<noteq> pad_Id p \<longrightarrow> pads s' j = pads s j) \<and>
    (\<exists>d. pads s' (pad_Id p) = Some d \<and> row_of p d \<and> pdb_Pool d = ToRevDB (pad_Pool p) \<and> pdb_ChatHead d = ChatHead p)"
  using create_pad[OF assms(1) assms(2)[unfolded Pad_Save_def]]
  by (auto simp: stamped_def row_of_def split: option.splits)

text \<open>What \<open>store_revision\<close> does to the store, whatever the attributed text is.\<close>

lemma store_revision_effect:
  assumes s: "inv s" and new: "revs s (pad_Id p) (pad_Head p + 1) = None"
  shows "\<exists>p' s'. store_revision D now cs author at p s = (Inr (pad_Head p + 1), p', s') \<and> inv s' \<and>
    p' = p\<lparr>pad_AText := at, pad_Head := pad_Head p + 1, pad_Pool := put_author author (pad_Pool p)\<rparr> \<and>
    (\<exists>d. pads s' (pad_Id p) = Some d \<and> row_of p' d) \<and>
    (\<forall>j. j \<noteq> pad_Id p \<longrightarrow> pads s' j = pads s j \<and> revs s' j = revs s j) \<and>
    revs s' (pad_Id p) = (revs s (pad_Id p))(pad_Head p + 1 \<mapsto>
      revision_row (pad_Id p) (pad_Head p + 1) cs at (ToRevDB (pad_Pool p')) author (millis_of now))"
proof -
  define p1 where "p1 = p\<lparr>pad_AText := at, pad_Head := pad_Head p + 1, pad_Pool := put_author author (pad_Pool p)\<rparr>"
  have p1: "pad_Id p1 = pad_Id p" "pad_AText p1 = at" "pad_Head p1 = pad_Head p + 1"
    "pad_Pool p1 = put_author author (pad_Pool p)" by (simp_all add: p1_def)
  obtain e1 s1 where s1: "Pad_Save D now p1 s = (e1, s1)" by fastforce
  note sv = save_pad[OF s s1]
  obtain e2 s2 where s2: "ensure_system_author D now author s1 = (e2, s2)" by fastforce
  from sv ensure_author[OF _ s2] have en: "e2 = None" "inv s2" "pads s2 = pads s1" "revs s2 = revs s" by auto
  obtain e3 s3 where s3: "ds_SaveRevision D (pad_Id p) (pad_Head p + 1) cs at (ToRevDB (pad_Pool p1)) author (millis_of now) s2 = (e3, s3)"
    by fastforce
  obtain d where d: "pads s1 (pad_Id p) = Some d" "row_of p1 d" using sv p1(1) by auto
  let ?row = "revision_row (pad_Id p) (pad_Head p + 1) cs at (ToRevDB (pad_Pool p1)) author (millis_of now)"
  have "pads s2 (pad_Id p) \<noteq> None" using d(1) en(3) by simp
  from save_revision[OF en(2) this s3] new en(4) have rv: "e3 = None" "inv s3" "pads s3 = pads s2"
    "revs s3 = (revs s)(pad_Id p := (revs s (pad_Id p))(pad_Head p + 1 \<mapsto> ?row))" by auto
  have run: "store_revision D now cs author at p s = (Inr (pad_Head p + 1), p1, s3)"
  proof -
    have eq: "p\<lparr>pad_AText := CopyAText at (pad_AText p), pad_Head := pad_Head p + 1,
        pad_Pool := put_author author (pad_Pool p)\<rparr> = p1" by (simp add: p1_def CopyAText_def)
    show ?thesis unfolding store_revision_def eq using s1 s2 s3 en(1) rv(1) by (simp add: p1)
  qed
  have "\<forall>j. j \<noteq> pad_Id p \<longrightarrow> pads s3 j = pads s j \<and> revs s3 j = revs s j"
    using sv unfolding rv(3,4) en(3) p1(1) by simp
  moreover have "revs s3 (pad_Id p) = (revs s (pad_Id p))(pad_Head p + 1 \<mapsto> ?row)" by (simp add: rv(4))
  moreover have "\<exists>d. pads s3 (pad_Id p) = Some d \<and> row_of p1 d" using d en(3) rv(3) by simp
  ultimately show ?thesis using run rv(2) by (intro exI[of _ p1] exI[of _ s3] conjI p1_def) assumption+
qed

text \<open>Storing a new attributed text that the changeset produced extends the history.\<close>

lemma store_revision_history:
  assumes s: "inv s" and h: "history (pads s (pad_Id p)) (revs s (pad_Id p)) p"
    and app: "ApplyToText cs (pad_text p) = Inr (Text at)" "in_step at"
    and author: "pool_wf (put_author author (pad_Pool p))"
  shows "\<exists>p' s'. store_revision D now cs author at p s = (Inr (pad_Head p + 1), p', s') \<and> inv s' \<and>
    pad_Id p' = pad_Id p \<and> DocumentType p' = DocumentType p \<and> pad_AText p' = at \<and> pad_Head p' = pad_Head p + 1 \<and>
    pad_Pool p' = put_author author (pad_Pool p) \<and>
    history (pads s' (pad_Id p)) (revs s' (pad_Id p)) p' \<and>
    (\<forall>j. j \<noteq> pad_Id p \<longrightarrow> pads s' j = pads s j \<and> revs s' j = revs s j) \<and>
    revs s' (pad_Id p) = (revs s (pad_Id p))(pad_Head p + 1 \<mapsto>
      revision_row (pad_Id p) (pad_Head p + 1) cs at (ToRevDB (pad_Pool p')) author (millis_of now))"
proof -
  have ch: "chained (revs s (pad_Id p)) (pad_Head p)" "text_at (revs s (pad_Id p)) (pad_Head p) = pad_text p"
    using h by (simp_all add: history_def)
  have none: "revs s (pad_Id p) (pad_Head p + 1) = None" and low: "-1 \<le> pad_Head p"
    using chained_fresh[OF ch(1)] by blast+
  from store_revision_effect[OF s none, of now cs author at] obtain p' s' d where
    r: "store_revision D now cs author at p s = (Inr (pad_Head p + 1), p', s')" "inv s'"
    "p' = p\<lparr>pad_AText := at, pad_Head := pad_Head p + 1, pad_Pool := put_author author (pad_Pool p)\<rparr>"
    "pads s' (pad_Id p) = Some d" "row_of p' d"
    "\<forall>j. j \<noteq> pad_Id p \<longrightarrow> pads s' j = pads s j \<and> revs s' j = revs s j"
    "revs s' (pad_Id p) = (revs s (pad_Id p))(pad_Head p + 1 \<mapsto>
      revision_row (pad_Id p) (pad_Head p + 1) cs at (ToRevDB (pad_Pool p')) author (millis_of now))" by blast
  have p': "pad_Id p' = pad_Id p" "DocumentType p' = DocumentType p" "pad_AText p' = at" "pad_Head p' = pad_Head p + 1"
    "pad_Pool p' = put_author author (pad_Pool p)" by (simp_all add: r(3))
  let ?row = "revision_row (pad_Id p) (pad_Head p + 1) cs at (ToRevDB (pad_Pool p')) author (millis_of now)"
  have "chained ((revs s (pad_Id p))(pad_Head p + 1 \<mapsto> ?row)) (pad_Head p + 1) \<and>
      text_at ((revs s (pad_Id p))(pad_Head p + 1 \<mapsto> ?row)) (pad_Head p + 1) = Text at"
    by (rule chained_next[OF ch(1) _ app(2)]) (simp_all add: ch(2) app(1) revision_row_def)
  then have "history (pads s' (pad_Id p)) (revs s' (pad_Id p)) p'"
    unfolding history_def p' pad_text_def r(4,7) using author app(2) r(5) low p'(4) by (simp add: row_of_def)
  then show ?thesis using r(1,2,6,7) p' by blast
qed

text \<open>
  Whatever changeset it is given, \<open>AppendRevision\<close> keeps the history, as long as the texts stay
  short: it refuses a changeset that does not apply and changes nothing, or makes its result
  the text of the pad.
\<close>

lemma append_revision_any:
  assumes s: "inv s" and h: "history (pads s (pad_Id p)) (revs s (pad_Id p)) p"
    and author: "pool_wf (put_author author (pad_Pool p))"
    and run: "AppendRevision D now cs author p s = Some (r, p', s')" and short: "fits_history (revs s' (pad_Id p))"
  shows "inv s' \<and> pad_Id p' = pad_Id p \<and> DocumentType p' = DocumentType p \<and> history (pads s' (pad_Id p)) (revs s' (pad_Id p)) p' \<and>
    (\<forall>j. j \<noteq> pad_Id p \<longrightarrow> pads s' j = pads s j \<and> revs s' j = revs s j) \<and>
    (\<forall>i x. revs s (pad_Id p) i = Some x \<longrightarrow> revs s' (pad_Id p) i = Some x) \<and>
    (case r of Inl _ \<Rightarrow> p' = p \<and> s' = s
     | Inr n \<Rightarrow> ApplyToText cs (pad_text p) = Inr (pad_text p') \<and> n = pad_Head p' \<and>
         (p' = p \<and> s' = s \<or> n = pad_Head p + 1 \<and> pad_Pool p' = put_author author (pad_Pool p)))"
proof -
  have wf: "pool_wf (pad_Pool p)" "in_step (pad_AText p)" "chained (revs s (pad_Id p)) (pad_Head p)"
    "text_at (revs s (pad_Id p)) (pad_Head p) = pad_text p" using h by (simp_all add: history_def)
  have none: "revs s (pad_Id p) (pad_Head p + 1) = None" using chained_fresh[OF wf(3)] by blast
  show ?thesis
  proof (cases "ApplyToAText cs (pad_AText p) (pad_Pool p)")
    case None
    then show ?thesis using run by (simp add: AppendRevision_def)
  next
    case (Some a)
    show ?thesis
    proof (cases a)
      case (Inl e)
      then have "r = Inl (case e of Panic \<Rightarrow> Panic | Err _ \<Rightarrow> Err ''Error applying changeset to atext '')" "p' = p" "s' = s"
        using run Some by (auto simp: AppendRevision_def split: goerr.splits)
      then show ?thesis using s h by simp
    next
      case (Inr b)
      then obtain at pool where at: "ApplyToAText cs (pad_AText p) (pad_Pool p) = Some (Inr (at, pool))" using Some by (cases b) auto
      have app: "ApplyToText cs (Text (pad_AText p)) = Inr (Text at)"
      proof (cases "ApplyToText cs (Text (pad_AText p))")
        case (Inr b1)
        show ?thesis
        proof (cases "ApplyToAttribution cs (ATAttribs (pad_AText p)) (pad_Pool p)")
          case (Some x)
          then show ?thesis using at Inr by (cases x) (auto simp: ApplyToAText_def)
        qed (use at Inr in \<open>simp add: ApplyToAText_def\<close>)
      qed (use at in \<open>simp add: ApplyToAText_def\<close>)
      let ?p1 = "p\<lparr>pad_Pool := pool\<rparr>"
      have step: "pool = pad_Pool p \<and> in_step at" if "RuneCount (pad_text p) < 2 ^ 61" "RuneCount (Text at) < 2 ^ 61"
        using ApplyToAText_in_step[OF wf(1,2) app] that at by (auto simp: pad_text_def)
      show ?thesis
      proof (cases "Text at = Text (pad_AText p) \<and> ATAttribs at = ATAttribs (pad_AText p) \<and> pad_Head p \<noteq> -1")
        case True
        then have r: "r = Inr (pad_Head p)" "p' = ?p1" "s' = s" using run at by (simp_all add: AppendRevision_def)
        have "RuneCount (pad_text p) < 2 ^ 61" using short wf(4) r(3) by (metis fits_history_def)
        with step True have pool: "pool = pad_Pool p" by (simp add: pad_text_def)
        with r(2) have "p' = p" by simp
        with r s h True app show ?thesis by (simp add: pad_text_def)
      next
        case False
        then have st: "store_revision D now cs author at ?p1 s = (r, p', s')" using run at by (auto simp: AppendRevision_def)
        have "revs s (pad_Id ?p1) (pad_Head ?p1 + 1) = None" using none by simp
        from store_revision_effect[OF s this, of now cs author at] st obtain tab where
          R: "revs s' (pad_Id p) = (revs s (pad_Id p))(pad_Head p + 1 \<mapsto>
              revision_row (pad_Id p) (pad_Head p + 1) cs at tab author (millis_of now))" by auto
        have "text_at (revs s' (pad_Id p)) (pad_Head p) = pad_text p" "text_at (revs s' (pad_Id p)) (pad_Head p + 1) = Text at"
          using wf(4) by (simp_all add: R text_at_def revision_row_def)
        with short have "RuneCount (pad_text p) < 2 ^ 61" "RuneCount (Text at) < 2 ^ 61" by (metis fits_history_def)+
        with step have ok: "pool = pad_Pool p" "in_step at" by simp_all
        then have "store_revision D now cs author at p s = (r, p', s')" using st by simp
        with store_revision_history[OF s h app[folded pad_text_def] ok(2) author, of now]
        have res: "r = Inr (pad_Head p + 1)" "inv s'" "pad_Id p' = pad_Id p" "DocumentType p' = DocumentType p" "pad_AText p' = at" "pad_Head p' = pad_Head p + 1"
          "pad_Pool p' = put_author author (pad_Pool p)" "history (pads s' (pad_Id p)) (revs s' (pad_Id p)) p'"
          "\<forall>j. j \<noteq> pad_Id p \<longrightarrow> pads s' j = pads s j \<and> revs s' j = revs s j" by auto
        have "revs s' (pad_Id p) i = Some x" if "revs s (pad_Id p) i = Some x" for i x using that none by (auto simp: R)
        then show ?thesis using res app by (simp add: pad_text_def)
      qed
    qed
  qed
qed

lemma append_revision_history:
  assumes s: "inv s" and h: "history (pads s (pad_Id p)) (revs s (pad_Id p)) p"
    and app: "ApplyToText cs (pad_text p) = Inr res" and size: "2 * RuneCount (pad_text p) + RuneCount res < 2 ^ 63"
    and author: "pool_wf (put_author author (pad_Pool p))"
  shows "\<exists>p' s'. AppendRevision D now cs author p s = Some (Inr (pad_Head p'), p', s') \<and> inv s' \<and>
    pad_Id p' = pad_Id p \<and> pad_text p' = res \<and> pad_Head p \<le> pad_Head p' \<and> pad_Head p' \<le> pad_Head p + 1 \<and>
    history (pads s' (pad_Id p)) (revs s' (pad_Id p)) p' \<and>
    (\<forall>j. j \<noteq> pad_Id p \<longrightarrow> pads s' j = pads s j \<and> revs s' j = revs s j) \<and>
    (\<forall>r x. revs s (pad_Id p) r = Some x \<longrightarrow> revs s' (pad_Id p) r = Some x)"
proof -
  have wf: "pool_wf (pad_Pool p)" "in_step (pad_AText p)" using h by (simp_all add: history_def)
  from ApplyToAText_in_step[OF wf app[unfolded pad_text_def] size[unfolded pad_text_def]]
  obtain at where at: "ApplyToAText cs (pad_AText p) (pad_Pool p) = Some (Inr (at, pad_Pool p))" "Text at = res" "in_step at"
    by blast
  show ?thesis
  proof (cases "Text at = Text (pad_AText p) \<and> ATAttribs at = ATAttribs (pad_AText p) \<and> pad_Head p \<noteq> -1")
    case True
    then have "AppendRevision D now cs author p s = Some (Inr (pad_Head p), p, s)"
      using at(1) by (simp add: AppendRevision_def)
    moreover have "pad_text p = res" using True at(2) by (simp add: pad_text_def)
    ultimately show ?thesis using s h by auto
  next
    case False
    then have run: "AppendRevision D now cs author p s = Some (store_revision D now cs author at p s)"
      using at(1) by (auto simp: AppendRevision_def)
    have none: "revs s (pad_Id p) (pad_Head p + 1) = None"
      using h chained_fresh by (auto simp: history_def)
    from store_revision_history[OF s h app[folded at(2)] at(3) author, of now] obtain p' s' where
      st: "store_revision D now cs author at p s = (Inr (pad_Head p + 1), p', s')" "inv s'" "pad_Id p' = pad_Id p"
      "pad_AText p' = at" "pad_Head p' = pad_Head p + 1" "history (pads s' (pad_Id p)) (revs s' (pad_Id p)) p'"
      "\<forall>j. j \<noteq> pad_Id p \<longrightarrow> pads s' j = pads s j \<and> revs s' j = revs s j"
      "revs s' (pad_Id p) = (revs s (pad_Id p))(pad_Head p + 1 \<mapsto>
        revision_row (pad_Id p) (pad_Head p + 1) cs at (ToRevDB (pad_Pool p')) author (millis_of now))" by blast
    have "revs s' (pad_Id p) r = Some x" if "revs s (pad_Id p) r = Some x" for r x
      using that none st(8) by auto
    with run st at(2) show ?thesis by (intro exI[of _ p'] exI[of _ s']) (auto simp: pad_text_def)
  qed
qed

end

section \<open>Edits\<close>

lemma has_suffix_newline: "has_suffix s [c] \<longleftrightarrow> s \<noteq> [] \<and> last s = c"
  by (cases s rule: rev_cases) (auto simp: has_suffix_def)

text \<open>The spliced text ends with a newline, unless the byte test looked at the wrong place.\<close>

lemma splice_text_newline:
  assumes "has_suffix orig [newline]" "0 \<le> start" "0 \<le> ndel" "start + ndel \<le> RuneCount orig"
    and "list_all (\<lambda>r. 0 \<le> r \<and> r < 0x80) orig \<or> ins \<noteq> [] \<or> start = 0 \<or> start + ndel < RuneCount orig"
  shows "has_suffix (take (nat start) orig @ splice_text orig start ndel ins @ drop (nat start + nat ndel) orig) [newline]"
proof (cases "start + ndel < RuneCount orig")
  case True
  then have "nat start + nat ndel < length orig" using assms(2,3) by (simp add: RuneCount_def)
  then show ?thesis using assms(1) by (simp add: has_suffix_newline)
next
  case False
  then have d: "drop (nat start + nat ndel) orig = []" using assms(2,3) by (simp add: RuneCount_def)
  show ?thesis
  proof (cases "ins = [] \<and> start > 0 \<and> bytes_of orig ! nat (start - 1) = newline")
    case True
    then have ascii: "list_all (\<lambda>r. 0 \<le> r \<and> r < 0x80) orig" using assms(5) False by auto
    have "bytes_of s = s" if "list_all (\<lambda>r. 0 \<le> r \<and> r < 0x80) s" for s
      using that by (induction s) (auto simp: utf8_def)
    with ascii True have "orig ! nat (start - 1) = newline" by simp
    moreover have "nat (start - 1) = nat start - 1" using True by (simp add: nat_diff_distrib)
    ultimately have "orig ! (nat start - 1) = newline" by simp
    moreover have len: "nat start \<le> length orig" "0 < nat start" using assms(2-4) True by (auto simp: RuneCount_def)
    moreover have ne: "take (nat start) orig \<noteq> []" using len by auto
    ultimately have "last (take (nat start) orig) = newline"
      by (subst last_conv_nth[OF ne]) (simp add: min_def)
    moreover note ne
    moreover have "splice_text orig start ndel ins = []" using True by (simp add: splice_text_def)
    ultimately show ?thesis using d by (simp add: has_suffix_newline)
  next
    case other: False
    then have "has_suffix (splice_text orig start ndel ins) [newline]"
      using False by (auto simp: splice_text_def has_suffix_newline)
    then show ?thesis using d by (simp add: has_suffix_newline)
  qed
qed

lemma history_pool: "history P R p \<Longrightarrow> pool_wf pool \<Longrightarrow> history P R (p\<lparr>pad_Pool := pool\<rparr>)"
  by (simp add: history_def pad_text_def split: option.splits)

lemma PutAttrib_next: "NextNum (snd (PutAttrib e None pool)) \<le> NextNum pool + 1"
  by (auto simp: PutAttrib_def Let_def split: option.splits)

lemma SystemAuthorId_trimmed: "trim_space SystemAuthorId = SystemAuthorId"
  by (simp add: SystemAuthorId_def trim_space_def is_space_def)

text \<open>What the author adds to the pool and to the operations is well-formed.\<close>

lemma splice_attribs_wf:
  assumes wf: "pool_wf (pad_Pool p)" and n: "NextNum (pad_Pool p) + 1 < 2 ^ 63"
    and a: "\<forall>i. author = Some i \<longrightarrow> trim_space i = i" and split: "splice_attribs author p = (at, p1)"
  shows "p1 = p\<lparr>pad_Pool := pad_Pool p1\<rparr> \<and> pool_wf (pad_Pool p1) \<and> NextNum (pad_Pool p1) \<le> NextNum (pad_Pool p) + 1 \<and>
    attribs_wf (case at of None \<Rightarrow> [] | Some a \<Rightarrow> a)"
proof (cases "author = None \<or> author = Some []")
  case True
  then show ?thesis using split wf by (auto simp: splice_attribs_def)
next
  case False
  then obtain ident where ident: "author = Some ident" "ident \<noteq> []" by auto
  let ?r = "PutAttrib \<lparr>Key = lit ''author'', Value = ident\<rparr> None (pad_Pool p)"
  have r: "at = Some (42 # NumToString (fst ?r))" "p1 = p\<lparr>pad_Pool := snd ?r\<rparr>"
    using split ident by (simp_all add: splice_attribs_def split_beta del: lit_simps)
  have "snd ?r = put_author author (pad_Pool p)" using ident by (simp add: put_author_def)
  then have "pool_wf (snd ?r)" using put_author_wf[OF wf n a] by simp
  moreover have "attribs_wf (42 # NumToString (fst ?r))"
    using attribs_wf_step[of "NumToString (fst ?r)" "[]"] NumToString_alnum PutAttrib_number wf by (simp add: pool_wf_def del: lit_simps)
  ultimately show ?thesis using r PutAttrib_next by simp
qed

context pad_store
begin

lemma splice_history:
  assumes s: "inv s" and h: "history (pads s (pad_Id p)) (revs s (pad_Id p)) p"
    and nl: "has_suffix (pad_text p) [newline]" and range: "0 \<le> start" "0 \<le> ndel" "start + ndel \<le> RuneCount (pad_text p)"
    and clean: "CleanText ins = Some c" and c1: "c1 = splice_text (pad_text p) start ndel c"
    and size: "3 * RuneCount (pad_text p) + RuneCount c1 < 2 ^ 63" "NextNum (pad_Pool p) + 2 < 2 ^ 63"
    and author: "\<forall>i. author = Some i \<longrightarrow> trim_space i = i"
  shows "\<exists>p' s'. SpliceText D now start ndel ins author p s = Some (Inr (), p', s') \<and> inv s' \<and> pad_Id p' = pad_Id p \<and>
    pad_text p' = take (nat start) (pad_text p) @ c1 @ drop (nat start + nat ndel) (pad_text p) \<and>
    pad_Head p \<le> pad_Head p' \<and> pad_Head p' \<le> pad_Head p + 1 \<and>
    history (pads s' (pad_Id p)) (revs s' (pad_Id p)) p' \<and>
    (\<forall>j. j \<noteq> pad_Id p \<longrightarrow> pads s' j = pads s j \<and> revs s' j = revs s j) \<and>
    (\<forall>r x. revs s (pad_Id p) r = Some x \<longrightarrow> revs s' (pad_Id p) r = Some x)"
proof (cases "ndel = 0 \<and> RuneCount c1 = 0")
  case True
  then have "c1 = []" and c: "ndel = 0" "splice_text (pad_text p) start 0 c = []" using c1 by (auto simp: RuneCount_def)
  moreover have "SpliceText D now start ndel ins author p s = Some (Inr (), p, s)"
    using nl range clean by (simp add: SpliceText_def Let_def c RuneCount_def)
  ultimately show ?thesis using True s h by simp
next
  case False
  define a where "a = splice_author c1 author"
  have a: "\<forall>i. a = Some i \<longrightarrow> trim_space i = i"
    using author by (simp add: a_def splice_author_def SystemAuthorId_trimmed)
  have wf: "pool_wf (pad_Pool p)" using h by (simp add: history_def)
  obtain at p1 where at: "splice_attribs a p = (at, p1)" by fastforce
  from splice_attribs_wf[OF wf _ a at] size(2) have p1: "p1 = p\<lparr>pad_Pool := pad_Pool p1\<rparr>" "pool_wf (pad_Pool p1)"
    "NextNum (pad_Pool p1) \<le> NextNum (pad_Pool p) + 1" "attribs_wf (case at of None \<Rightarrow> [] | Some a \<Rightarrow> a)" by auto
  have "RuneCount (pad_text p) + RuneCount c1 < 2 ^ 63" using size(1) RuneCount_nonneg[of "pad_text p"] by linarith
  from MakeSplice_applies[OF range(1,2) this p1(4), of "if at = None then None else Some (pad_Pool p1)"] obtain cs where
    cs: "MakeSplice (pad_text p) start ndel c1 at (if at = None then None else Some (pad_Pool p1)) = Inr cs"
    "ApplyToText cs (pad_text p) = Inr (take (nat start) (pad_text p) @ c1 @ drop (nat start + nat ndel) (pad_text p))" by blast
  have "SpliceText D now start ndel ins author p s = splice_revision D now start ndel c1 a p s"
    using False nl range clean c1[symmetric] by (auto simp: SpliceText_def Let_def a_def)
  then have run: "SpliceText D now start ndel ins author p s =
      map_option (\<lambda>(r, p2, s2). (case r of Inl err \<Rightarrow> Inl err | Inr _ \<Rightarrow> Inr (), p2, s2)) (AppendRevision D now cs a p1 s)"
    using cs(1) by (simp add: splice_revision_def at Let_def)
  have same: "pad_Id p1 = pad_Id p" "pad_text p1 = pad_text p" "pad_Head p1 = pad_Head p"
    by (subst p1(1), simp add: pad_text_def)+
  have h1: "history (pads s (pad_Id p1)) (revs s (pad_Id p1)) p1"
    unfolding same using history_pool[OF h p1(2)] p1(1) by simp
  have pw: "pool_wf (put_author a (pad_Pool p1))" using put_author_wf[OF p1(2) _ a] p1(3) size(2) by simp
  have "RuneCount (take (nat start) (pad_text p) @ c1 @ drop (nat start + nat ndel) (pad_text p)) \<le> RuneCount (pad_text p) + RuneCount c1"
    by (simp add: RuneCount_def)
  then have "2 * RuneCount (pad_text p1) + RuneCount (take (nat start) (pad_text p) @ c1 @ drop (nat start + nat ndel) (pad_text p)) < 2 ^ 63"
    using size(1) same(2) by simp
  from append_revision_history[OF s h1 cs(2)[folded same(2)] this[folded same(2)] pw, of now] same cs(2)
  obtain p' s' where r: "AppendRevision D now cs a p1 s = Some (Inr (pad_Head p'), p', s')" and rest: "inv s'" "pad_Id p' = pad_Id p"
    "pad_text p' = take (nat start) (pad_text p) @ c1 @ drop (nat start + nat ndel) (pad_text p)"
    "pad_Head p \<le> pad_Head p'" "pad_Head p' \<le> pad_Head p + 1" "history (pads s' (pad_Id p)) (revs s' (pad_Id p)) p'"
    "\<forall>j. j \<noteq> pad_Id p \<longrightarrow> pads s' j = pads s j \<and> revs s' j = revs s j"
    "\<forall>r x. revs s (pad_Id p) r = Some x \<longrightarrow> revs s' (pad_Id p) r = Some x" by auto
  have "SpliceText D now start ndel ins author p s = Some (Inr (), p', s')" using run r by simp
  then show ?thesis using rest by blast
qed

lemma replay_gives_texts:
  assumes s: "inv s" and h: "history (pads s (pad_Id p)) (revs s (pad_Id p)) p" and fit: "fits_history (revs s (pad_Id p))"
  shows "0 \<le> i \<Longrightarrow> t \<le> pad_Head p \<Longrightarrow> i - 1 \<le> t \<Longrightarrow> in_step at \<Longrightarrow> Text at = text_at (revs s (pad_Id p)) (i - 1) \<Longrightarrow>
    \<exists>at'. replay_revisions D [i..t] at p s = Some (Some at', p) \<and> Text at' = text_at (revs s (pad_Id p)) t \<and> in_step at'"
proof (induction "nat (t - i + 1)" arbitrary: i at)
  case 0
  then have "[i..t] = []" "i - 1 = t" by auto
  with 0 show ?case by simp
next
  case (Suc n)
  let ?R = "revs s (pad_Id p)"
  have it: "[i..t] = i # [i + 1..t]" using Suc.hyps(2) by (simp add: upto_rec1)
  have le: "i \<le> t" using Suc.hyps(2) by simp
  have ch: "chained ?R (pad_Head p)" and pool: "pool_wf (pad_Pool p)" using h by (simp_all add: history_def)
  obtain x where x: "?R i = Some x" using chained_domain[OF ch, of i] Suc.prems le by (cases "?R i") auto
  have app: "ApplyToText (rev_Changeset x) (Text at) = Inr (text_at ?R i)"
    using chained_step[OF ch x] Suc.prems(5) by simp
  have "RuneCount (text_at ?R (i - 1)) < 2 ^ 61" "RuneCount (text_at ?R i) < 2 ^ 61" using fit unfolding fits_history_def by blast+
  then have size: "2 * RuneCount (Text at) + RuneCount (text_at ?R i) < 2 ^ 63" using Suc.prems(5) by simp
  from ApplyToAText_in_step[OF pool Suc.prems(4) app size] obtain at1 where
    at1: "ApplyToAText (rev_Changeset x) at (pad_Pool p) = Some (Inr (at1, pad_Pool p))" "Text at1 = text_at ?R i" "in_step at1" by blast
  have "pads s (pad_Id p) \<noteq> None" using h Suc.prems le by (auto simp: history_def split: option.splits)
  then have cs: "GetRevisionChangeset D i p s = Inr (rev_Changeset x)"
    using get_revision[OF s, of "pad_Id p" i] x by (simp add: GetRevisionChangeset_def)
  have "replay_revisions D [i..t] at p s = replay_revisions D [i + 1..t] at1 p s"
    unfolding it using cs at1(1) by simp
  then show ?case using Suc.hyps(1)[of "i + 1" at1] Suc.hyps(2) Suc.prems at1(2,3) le by simp
qed

lemma key_revision: "0 \<le> r \<Longrightarrow> 0 \<le> getKeyRevisionNumber r \<and> getKeyRevisionNumber r \<le> r"
  by (simp add: getKeyRevisionNumber_def)

lemma revision_text:
  assumes s: "inv s" and h: "history (pads s (pad_Id p)) (revs s (pad_Id p)) p" and fit: "fits_history (revs s (pad_Id p))"
    and r: "0 \<le> r" "r \<le> pad_Head p"
  shows "\<exists>at. GetInternalRevisionAText D r p s = Some (Some at, p) \<and> Text at = text_at (revs s (pad_Id p)) r \<and> in_step at"
proof -
  let ?R = "revs s (pad_Id p)" and ?k = "getKeyRevisionNumber r"
  note k = key_revision[OF r(1)]
  have ch: "chained ?R (pad_Head p)" using h by (simp add: history_def)
  obtain x where x: "?R ?k = Some x" using chained_domain[OF ch, of ?k] k r by (cases "?R ?k") auto
  have "pads s (pad_Id p) \<noteq> None" using h r by (auto simp: history_def split: option.splits)
  then have key: "getKeyRevisionAText D ?k p s = Inr (rev_AText x)"
    using get_revision[OF s, of "pad_Id p" ?k] x by (simp add: getKeyRevisionAText_def)
  have "Text (rev_AText x) = text_at ?R ?k" by (simp add: text_at_def x)
  with replay_gives_texts[OF s h fit, of "?k + 1" r "rev_AText x"] k r chained_step[OF ch x] key
  show ?thesis by (simp add: GetInternalRevisionAText_def Let_def)
qed

text \<open>What the store holds of a pad after it was saved is what a fresh pad is loaded with.\<close>

lemma load_saved:
  assumes s: "inv s" and p: "pool_wf (pad_Pool p)" "DocumentType p \<noteq> []" and sv: "Pad_Save D now p s = (e, s')"
    and r: "revs s (pad_Id p) (pad_Head p) \<noteq> None" and q: "pad_Id q = pad_Id p"
  shows "\<exists>q'. Init D now' txt text author q s' = Some (Inr (), q', s') \<and> pad_Id q' = pad_Id p \<and>
    pad_AText q' = pad_AText p \<and> pad_Head q' = pad_Head p \<and> ChatHead q' = ChatHead p \<and>
    SavedRevisions q' = SavedRevisions p \<and> PublicStatus q' = PublicStatus p \<and> DocumentType q' = DocumentType p \<and>
    ReadonlyId q' = ReadonlyId p \<and> NumToAttrib (pad_Pool q') = NumToAttrib (pad_Pool p) \<and>
    gomap_get (AttribToNum (pad_Pool q')) = gomap_get (AttribToNum (pad_Pool p)) \<and> NextNum (pad_Pool q') = NextNum (pad_Pool p)"
proof -
  note saved = save_pad[OF s sv]
  from saved obtain d where d: "pads s' (pad_Id p) = Some d" "row_of p d" "pdb_Pool d = ToRevDB (pad_Pool p)"
    "pdb_ChatHead d = ChatHead p" "inv s'" "revs s' = revs s" by blast
  have get: "ds_GetPad D (pad_Id q) s' = Inr d" using get_pad[OF d(5)] d(1) q by simp
  have rev: "\<exists>x. ds_GetRevision D (pad_Id q) (pdb_Head d) s' = Inr x"
    using get_revision[OF d(5), of "pad_Id q" "pdb_Head d"] d(1,2,6) r q by (auto simp: row_of_def)
  from FromDB_ToPadDB[of "pad_Pool p"] p(1) obtain pool where
    pool: "FromDB NewAPool (ToPadDB (pad_Pool p)) = Inr pool" "NumToAttrib pool = NumToAttrib (pad_Pool p)"
    "gomap_get (AttribToNum pool) = gomap_get (AttribToNum (pad_Pool p))" "NextNum pool = NextNum (pad_Pool p)"
    by (auto simp: pool_wf_def)
  have "\<lparr>PadNumToAttrib = RevNumToAttrib (pdb_Pool d), PadNextNum = RevNextNum (pdb_Pool d)\<rparr> = ToPadDB (pad_Pool p)"
    by (simp add: d(3) ToRevDB_def ToPadDB_def Let_def)
  then have "mapDBPadToModel d q = Inr (q\<lparr>ChatHead := pdb_ChatHead d, pad_Head := pdb_Head d, PublicStatus := pdb_PublicStatus d,
      DocumentType := (if pdb_DocumentType d = [] then lit ''text'' else pdb_DocumentType d),
      CreatedAt := pdb_CreatedAt d, UpdatedAt := pdb_UpdatedAt d, ReadonlyId := pdb_ReadOnlyId d,
      SavedRevisions := pdb_SavedRevisions d, pad_Pool := pool,
      pad_AText := \<lparr>Text = pdb_ATextText d, ATAttribs = pdb_ATextAttribs d\<rparr>\<rparr>)" (is "_ = Inr ?q'")
    using pool(1) by (simp add: mapDBPadToModel_def)
  with get rev have "Init D now' txt text author q s' = Some (Inr (), ?q', s')" by (auto simp: Init_def)
  then show ?thesis using d(2,4) pool q p(2) by (auto simp: row_of_def)
qed

end

end
