(* ===== verification/StoreSpec.thy ===== *)
theory StoreSpec
  imports ChatStore PadSpec
begin

text \<open>
  The in-memory store meets the contract of a store of pads.
\<close>

definition mem_pads :: "MemoryDataStore \<Rightarrow> gostring \<Rightarrow> PadDB option" where
  "mem_pads m = gomap_get (padStore m)"

definition mem_revs :: "MemoryDataStore \<Rightarrow> gostring \<Rightarrow> int \<Rightarrow> PadSingleRevision option" where
  "mem_revs m i = gomap_get (inner (padRevisions m) i)"

text \<open>
  A pad that is not stored has no revisions, a stored pad has a revision table, and a revision
  carries the pad and the number it is stored under.
\<close>

definition mem_ok :: "MemoryDataStore \<Rightarrow> bool" where
  "mem_ok m \<longleftrightarrow> (\<forall>i. gomap_get (padStore m) i = None \<longleftrightarrow> gomap_get (padRevisions m) i = None) \<and>
     (\<forall>i r x. gomap_get (inner (padRevisions m) i) r = Some x \<longrightarrow> rev_PadId x = i \<and> rev_RevNum x = r)"

lemma inner_get [simp]: "gomap_get m i = Some x \<Longrightarrow> inner m i = x" "gomap_get m i = None \<Longrightarrow> inner m i = []"
  by (simp_all add: inner_def)

lemma inner_set: "inner (gomap_set m i x) j = (if j = i then x else inner m j)"
  by (simp add: inner_def)

lemma inner_del: "inner (gomap_del m i) j = (if j = i then [] else inner m j)"
  by (simp add: inner_def)

lemma mem_ok_new [simp]: "mem_ok NewMemoryDataStore"
  by (simp add: mem_ok_def NewMemoryDataStore_def inner_def)

lemma mem_frame:
  "mem_ok m \<Longrightarrow> padRevisions m' = padRevisions m \<Longrightarrow>
   (\<And>i. gomap_get (padStore m') i = None \<longleftrightarrow> gomap_get (padStore m) i = None) \<Longrightarrow> mem_ok m' \<and> mem_revs m' = mem_revs m"
  by (simp add: mem_ok_def mem_revs_def fun_eq_iff)

lemma Mem_CreatePad_spec:
  assumes "mem_ok m" "Mem_CreatePad now i d m = (e, m')"
  shows "e = None \<and> mem_ok m' \<and> mem_revs m' = mem_revs m \<and> mem_pads m' = (mem_pads m)(i \<mapsto> stamped now i (mem_pads m i) d)"
proof (cases "gomap_get (padStore m) i")
  case None
  then have m': "e = None" "m' = m\<lparr>padRevisions := gomap_set (padRevisions m) i [],
      padStore := gomap_set (padStore m) i (stamped now i None d)\<rparr>"
    using assms(2) by (simp_all add: Mem_CreatePad_def stamped_def)
  have "gomap_get (padRevisions m) i = None" using assms(1) None unfolding mem_ok_def by blast
  then have old: "inner (padRevisions m) i = []" by simp
  have revs: "inner (padRevisions m') j = inner (padRevisions m) j" for j by (simp add: m'(2) inner_set old)
  then have "mem_revs m' = mem_revs m" by (simp add: mem_revs_def fun_eq_iff)
  moreover have "mem_ok m'" using assms(1) unfolding mem_ok_def revs by (simp add: m'(2))
  ultimately show ?thesis using m'(1) None by (simp add: mem_pads_def m'(2) fun_eq_iff)
next
  case (Some x)
  then have m': "e = None" "m' = m\<lparr>padStore := gomap_set (padStore m) i (stamped now i (Some x) d)\<rparr>"
    using assms(2) by (simp_all add: Mem_CreatePad_def stamped_def)
  have "mem_ok m' \<and> mem_revs m' = mem_revs m" by (rule mem_frame[OF assms(1)]) (simp_all add: m'(2) Some)
  then show ?thesis using m' Some by (simp add: mem_pads_def fun_eq_iff)
qed

lemma Mem_SaveRevision_spec:
  assumes "mem_ok m" "mem_pads m i \<noteq> None" "Mem_SaveRevision i r cs at pool a t m = (e, m')"
  shows "e = None \<and> mem_ok m' \<and> mem_pads m' = mem_pads m \<and>
    mem_revs m' = (if mem_revs m i r = None then (mem_revs m)(i := (mem_revs m i)(r \<mapsto> revision_row i r cs at pool a t)) else mem_revs m)"
proof (cases "mem_revs m i r")
  case None
  with assms(2,3) have m': "e = None" "m' = m\<lparr>padRevisions := gomap_set (padRevisions m) i
      (gomap_set (inner (padRevisions m) i) r (revision_row i r cs at pool a t))\<rparr>"
    by (auto simp: Mem_SaveRevision_def mem_pads_def mem_revs_def revision_row_def)
  have "mem_ok m'"
    using assms(1,2) unfolding m'(2) mem_ok_def mem_pads_def
    by (auto simp: inner_set revision_row_def split: if_splits)
  moreover have "mem_revs m' = (mem_revs m)(i := (mem_revs m i)(r \<mapsto> revision_row i r cs at pool a t))"
    by (simp add: m'(2) mem_revs_def inner_set fun_eq_iff)
  ultimately show ?thesis using None m' by (simp add: mem_pads_def)
qed (use assms in \<open>auto simp: Mem_SaveRevision_def mem_pads_def mem_revs_def\<close>)

interpretation mem: pad_store memory_store mem_pads mem_revs mem_ok
proof (unfold_locales, unfold memory_store_methods, goal_cases)
  case (1 s i)
  then show ?case by (simp add: Mem_GetPad_def mem_pads_def)
next
  case (2 s now i d e s')
  then show ?case by (rule Mem_CreatePad_spec)
next
  case (3 s i r)
  then have "gomap_get (padStore s) i \<noteq> None" "gomap_get (padRevisions s) i \<noteq> None"
    by (auto simp: mem_pads_def mem_ok_def)
  moreover have "x\<lparr>rev_PadId := i, rev_RevNum := r\<rparr> = x" if "mem_revs s i r = Some x" for x
    using 3(1) that by (auto simp: mem_ok_def mem_revs_def)
  ultimately show ?case
    by (auto simp: Mem_GetRevision_def mem_revs_def split: option.splits)
next
  case (4 s i r cs at pool a t e s')
  then show ?case by (rule Mem_SaveRevision_spec)
next
  case (5 s x now e s')
  then show ?case by (auto simp: Mem_SaveAuthor_def mem_ok_def mem_pads_def mem_revs_def)
next
  case (6 s i h a t m e s')
  then show ?case by (auto simp: Mem_SaveChatMessage_def Let_def mem_ok_def mem_pads_def mem_revs_def split: if_splits)
next
  case (7 s now i h e s')
  show ?case
  proof (cases "gomap_get (padStore s) i")
    case None
    with 7 show ?thesis by (auto simp: Mem_SaveChatHeadOfPad_def mem_pads_def)
  next
    case (Some d)
    then have s': "e = None" "s' = s\<lparr>padStore := gomap_set (padStore s) i (d\<lparr>pdb_ChatHead := h, pdb_UpdatedAt := Some now\<rparr>)\<rparr>"
      using 7(2) by (simp_all add: Mem_SaveChatHeadOfPad_def)
    have "mem_ok s' \<and> mem_revs s' = mem_revs s" by (rule mem_frame[OF 7(1)]) (simp_all add: s'(2) Some)
    with s' Some show ?thesis by (simp add: mem_pads_def fun_eq_iff)
  qed
qed

end
