(* ===== verification/PoolKept.thy ===== *)
theory PoolKept
  imports ComposeSpec
begin

text \<open>
  What changeset operations do to an attribute pool: an invariant of the state of a zip is kept
  by the whole zip, \<open>Follow\<close> leaves a well-formed pool as it is on every pair of strings, and
  moving a changeset to another pool only adds attributes to it.
\<close>

subsection \<open>Invariants of the loops\<close>

lemma replaceAttributes_inv:
  "I st \<Longrightarrow> (\<And>a st. I st \<Longrightarrow> I (snd (cb a st))) \<Longrightarrow> I (snd (replaceAttributes s cb st))"
proof (induction s cb st rule: replaceAttributes.induct)
  case (2 c s cb st)
  show ?case
  proof (cases "c = 42 \<and> takeWhile alnum36 s \<noteq> []")
    case True
    obtain v e st1 where cb: "cb (takeWhile alnum36 s) st = ((v, e), st1)" by (metis surj_pair)
    then have "I st1" using 2(4)[OF 2(3), of "takeWhile alnum36 s"] by simp
    then show ?thesis using 2 True cb by (simp add: replaceAttributes.simps split_beta Let_def)
  next
    case False
    then show ?thesis using 2 by (auto simp: replaceAttributes.simps split_beta Let_def)
  qed
qed simp

lemma zip_loop_inv:
  assumes "zip_loop cb s1 s2 asm st = Some y" "y = Inr (asm', st')" "I st"
    and "\<And>op1 op2 st r st'. I st \<Longrightarrow> cb op1 op2 st = Inr (r, st') \<Longrightarrow> I st'"
  shows "I st'"
proof -
  have "(\<forall>op1 op2 st r st'. I st \<longrightarrow> cb op1 op2 st = Inr (r, st') \<longrightarrow> I st') \<longrightarrow> I st \<longrightarrow>
      (\<forall>asm' st'. y = Inr (asm', st') \<longrightarrow> I st')" (is "?P cb s1 s2 asm st y")
  proof (rule zip_loop.raw_induct[OF _ assms(1), where P = ?P])
    fix zl cb s1 s2 asm st y
    assume IH: "\<And>cb s1 s2 asm st y. zl cb s1 s2 asm st = Some y \<Longrightarrow> ?P cb s1 s2 asm st y"
      and y: "(if fst (snd s1) \<and> fst (snd s2) then Some (Inr (asm, st))
        else let (op1, done1, it1) = advance_side s1; (op2, done2, it2) = advance_side s2
             in if OpCode op1 = NoCode \<and> OpCode op2 = NoCode then Some (Inr (asm, st))
                else case cb op1 op2 st of Inl err \<Rightarrow> Some (Inl err)
                     | Inr ((opOut, op1', op2'), st1) \<Rightarrow> zl cb (op1', done1, it1) (op2', done2, it2)
                         (if OpCode opOut \<noteq> NoCode then SOA_Append opOut asm else asm) st1) = Some y"
    obtain o1 d1 i1 o2 d2 i2 where a: "advance_side s1 = (o1, d1, i1)" "advance_side s2 = (o2, d2, i2)"
      by (metis surj_pair)
    show "?P cb s1 s2 asm st y"
    proof (cases "fst (snd s1) \<and> fst (snd s2) \<or> OpCode o1 = NoCode \<and> OpCode o2 = NoCode \<or> (\<exists>e. cb o1 o2 st = Inl e)")
      case True
      then show ?thesis using y a by (auto split: if_splits)
    next
      case False
      obtain opOut op1' op2' st1 where r: "cb o1 o2 st = Inr ((opOut, op1', op2'), st1)"
        using False by (metis sum.exhaust surj_pair)
      with False a y have "zl cb (op1', d1, i1) (op2', d2, i2)
          (if OpCode opOut \<noteq> NoCode then SOA_Append opOut asm else asm) st1 = Some y" by (auto split: if_splits)
      from IH[OF this] r show ?thesis by blast
    qed
  qed
  then show ?thesis using assms(2-4) by blast
qed

lemma bind_run_Inr_iff: "bind_run m f = Some (Inr y) \<longleftrightarrow> (\<exists>x. m = Some (Inr x) \<and> f x = Some (Inr y))"
  by (cases m rule: option.exhaust; cases "the m") auto

lemma ApplyZip_inv:
  assumes "ApplyZip in1 in2 cb st = Some (Inr (s, st'))" "I st"
    and "\<And>op1 op2 st r st'. I st \<Longrightarrow> cb op1 op2 st = Inr (r, st') \<Longrightarrow> I st'"
  shows "I st'"
proof -
  from assms(1) obtain s1 s2 asm where "zip_loop cb s1 s2 NewSmartOpAssembler st = Some (Inr (asm, st'))"
    unfolding ApplyZip_def bind_run_Inr_iff by (metis (no_types, lifting) Inr_inject Pair_inject case_prod_beta option.inject prod.collapse)
  from zip_loop_inv[where I = I and cb = cb, OF this refl assms(2)] assms(3) show ?thesis by blast
qed

subsection \<open>Follow\<close>

text \<open>The map of \<open>followAttributes\<close> only ever holds attributes of the pool.\<close>

definition entries_in :: "APool \<Rightarrow> (gostring, gostring) gomap \<Rightarrow> bool" where
  "entries_in p m \<longleftrightarrow> (\<forall>(k, v) \<in> set m. \<exists>n. gomap_get (NumToAttrib p) n = Some \<lparr>Key = k, Value = v\<rparr>)"

lemma set_gomap_set: "set (gomap_set m k v) \<subseteq> insert (k, v) (set m)"
  by (induction m) (auto simp: gomap_set_def)

lemma set_gomap_del: "set (gomap_del m k) \<subseteq> set m"
  by (simp add: gomap_del_def AList.delete_eq)

lemma entries_in_put: "entries_in p m \<Longrightarrow> entries_in p (snd (follow_put p a m))"
  using set_gomap_set[of m] by (fastforce simp: entries_in_def follow_put_def GetAttrib_def split: option.splits)

lemma entries_in_del: "entries_in p m \<Longrightarrow> entries_in p (snd (follow_del p a m))"
  using set_gomap_del[of m] by (fastforce simp: entries_in_def follow_del_def GetAttrib_def split: option.splits sum.splits)

lemma attribsToNums_in:
  "pool_wf p \<Longrightarrow> \<forall>e \<in> set es. \<exists>n. gomap_get (NumToAttrib p) n = Some e \<Longrightarrow> snd (attribsToNums es p) = p"
proof (induction es)
  case (Cons e es)
  then obtain n where "gomap_get (NumToAttrib p) n = Some e" by auto
  with Cons show ?case by (simp add: attribsToNums_def PutAttrib_known[OF pool_wfD(1)] split_beta Let_def)
qed (simp add: attribsToNums_def)

lemma followAttributes_pool:
  assumes p: "pool_wf p" and order: "\<And>m. set (order m) = set m"
    and r: "followAttributes order a1 a2 (Some p) = Inr (r, q)"
  shows "q = Some p"
proof -
  let ?m = "snd (replaceAttributes a1 (follow_del p) (snd (replaceAttributes a2 (follow_put p) [])))"
  have "entries_in p ?m"
    by (intro replaceAttributes_inv[where I = "entries_in p"] entries_in_put entries_in_del) (simp_all add: entries_in_def)
  then have "\<forall>e \<in> set (map (\<lambda>(key, value). \<lparr>Key = key, Value = value\<rparr>) (order ?m)). \<exists>n. gomap_get (NumToAttrib p) n = Some e"
    using order by (fastforce simp: entries_in_def)
  then have "snd (attribsToNums (map (\<lambda>(key, value). \<lparr>Key = key, Value = value\<rparr>) (order ?m)) p) = p" by (rule attribsToNums_in[OF p])
  with r show ?thesis by (auto simp: followAttributes_def Let_def split_beta split: if_splits option.splits)
qed

lemma follow_ops_pool:
  assumes "follow_ops order rio op1 op2 st = Inr (r, st')"
  shows "follow_pool st' = follow_pool st \<or>
    (\<exists>a. followAttributes order (Attribs op1) (Attribs op2) (follow_pool st) = Inr (a, follow_pool st'))"
proof (cases "OpCode op1 = Plus \<or> OpCode op2 = Plus")
  case True
  then show ?thesis using assms by (auto simp: follow_ops_def bind_result_Inr_iff split: if_splits)
next
  case False
  then show ?thesis using assms
    by (cases "OpCode op1"; cases "OpCode op2") (auto simp: follow_ops_def Let_def bind_result_Inr_iff split: if_splits)
qed

lemma follow_callback_pool:
  assumes "pool_wf p" "\<And>m. set (order m) = set m" "follow_pool st = Some p"
    and cb: "follow_callback order rio op1 op2 st = Inr (r, st')"
  shows "follow_pool st' = Some p"
proof -
  from cb obtain r1 st1 where f: "follow_ops order rio op1 op2 st = Inr (r1, st1)" "follow_pool st' = follow_pool st1"
    by (auto simp: follow_callback_def Let_def bind_result_Inr_iff split_beta)
  from follow_ops_pool[OF f(1)] f(2) assms(3) followAttributes_pool[OF assms(1,2)] show ?thesis by auto
qed

lemma Follow_pool:
  assumes p: "pool_wf p" "\<And>m. set (order m) = set m"
    and f: "Follow order cs1 cs2 rio (Some p) = Some (Inr (cs, q))"
  shows "q = Some p"
proof -
  from f obtain i1 i2 st s st' where z: "ApplyZip i1 i2 (follow_callback order rio) st = Some (Inr (s, st'))"
    "follow_pool st = Some p" "q = follow_pool st'"
    unfolding Follow_def bind_run_Inr_iff by (auto simp: Let_def bind_run_Inr_iff split: if_splits)
  from ApplyZip_inv[where I = "\<lambda>st. follow_pool st = Some p", OF z(1,2)] follow_callback_pool[OF p] z(3) show ?thesis by blast
qed

subsection \<open>Moving to another pool\<close>

text \<open>What was moved: a pool that is still well-formed and knows what it knew, by the same numbers.\<close>

definition extends :: "APool \<Rightarrow> APool \<Rightarrow> bool" where
  "extends p q \<longleftrightarrow> (\<forall>n attr. gomap_get (NumToAttrib p) n = Some attr \<longrightarrow> gomap_get (NumToAttrib q) n = Some attr)"

lemma extends_refl [simp]: "extends p p" and extends_trans: "extends p q \<Longrightarrow> extends q r \<Longrightarrow> extends p r"
  by (simp_all add: extends_def)

lemma PutAttrib_extends: "pool_ok p \<Longrightarrow> extends p (snd (PutAttrib e None p))"
  using apool.put_keeps by (simp add: extends_def)

lemma PutAttrib_trimmed: "pool_trimmed p \<Longrightarrow> trim_entry e = e \<Longrightarrow> pool_trimmed (snd (PutAttrib e b p))"
  by (auto simp: pool_trimmed_def PutAttrib_def Let_def split: option.splits if_splits)

lemma move_attrib_pool:
  assumes "pool_trimmed old" "pool_ok p" "pool_trimmed p"
  shows "pool_ok (snd (move_attrib old a p)) \<and> pool_trimmed (snd (move_attrib old a p)) \<and> extends p (snd (move_attrib old a p))"
  using assms pool_ok_PutAttrib PutAttrib_trimmed PutAttrib_extends
  by (auto simp: move_attrib_def GetAttrib_def Let_def split_beta pool_trimmed_def[of old] split: sum.splits option.splits)

lemma MoveOps_pool:
  assumes "pool_trimmed old" "pool_wf p" "MoveOpsToNewPool cs old p = (cs', q)" "NextNum q < 2 ^ 63"
  shows "pool_wf q \<and> extends p q"
proof -
  have "pool_ok (snd (replaceAttributes s (move_attrib old) p)) \<and> pool_trimmed (snd (replaceAttributes s (move_attrib old) p)) \<and>
      extends p (snd (replaceAttributes s (move_attrib old) p))" for s
    by (rule replaceAttributes_inv) (use assms(1,2) move_attrib_pool extends_trans in \<open>auto simp: pool_wf_def\<close>)
  moreover obtain s where "q = snd (replaceAttributes s (move_attrib old) p)"
    using assms(3) by (auto simp: MoveOpsToNewPool_def Let_def split_beta)
  ultimately show ?thesis using assms(4) by (simp add: pool_wf_def pool_fits_def)
qed

subsection \<open>Reading with a pool from the wire\<close>

lemma trim_space_idem: "trim_space (trim_space s) = trim_space s"
proof -
  let ?t = "trim_space s"
  have r: "rev ?t = dropWhile is_space (rev (dropWhile is_space s))" by (simp add: trim_space_def)
  have "dropWhile is_space ?t = ?t"
  proof (cases "?t = []")
    case False
    obtain u where u: "dropWhile is_space s = ?t @ u"
      using takeWhile_dropWhile_id[of is_space "rev (dropWhile is_space s)"] unfolding r[symmetric]
      by (metis rev_append rev_rev_ident)
    with False have "hd ?t = hd (dropWhile is_space s)" "dropWhile is_space s \<noteq> []" by simp_all
    then show ?thesis by (metis dropWhile_eq_self_iff hd_dropWhile)
  qed simp
  then show ?thesis by (simp add: trim_space_def[of ?t] r) (metis dropWhile_idem r rev_rev_ident)
qed

lemma trim_entry_idem: "trim_entry (trim_entry e) = trim_entry e"
  by (simp add: trim_entry_def trim_space_idem)

lemma update_entry_trimmed:
  assumes "pool_trimmed (am_pool a)" shows "pool_trimmed (am_pool (update_entry d e a))"
proof -
  have "pool_trimmed (snd (PutAttrib (trim_entry e) None (am_pool a)))" using PutAttrib_trimmed[OF assms trim_entry_idem] .
  moreover have "trim_entry e = \<lparr>Key = Key (trim_entry e), Value = Value (trim_entry e)\<rparr>" by simp
  ultimately have "pool_trimmed (snd (PutAttrib \<lparr>Key = Key (trim_entry e), Value = Value (trim_entry e)\<rparr> None (am_pool a)))" by simp
  with assms show ?thesis by (simp add: update_entry_def AM_Set_def Let_def)
qed

lemma FromString_trimmed: "pool_trimmed p \<Longrightarrow> pool_trimmed (am_pool (FromString s p))"
proof -
  have "pool_trimmed (am_pool a) \<Longrightarrow> pool_trimmed (am_pool (fold (update_entry d) es a))" for d es a
    by (induction es arbitrary: a) (simp_all add: update_entry_trimmed)
  then show "pool_trimmed p \<Longrightarrow> ?thesis" by (simp add: FromString_def UpdateFromString_def AM_Update_def NewAttributeMap_def)
qed

end
