(* ===== verification/MarkerSpec.thy ===== *)
theory MarkerSpec
  imports UserChanges StoreSpec PoolKept
begin

text \<open>
  The correction of misplaced line markers: it reads the attributes without changing the pool,
  removes exactly the runes it found, and never the newline at the end of the text.
\<close>

subsection \<open>What the assembler makes of removals within lines\<close>

definition cutting :: "Op \<Rightarrow> bool" where
  "cutting op \<longleftrightarrow> OpCode op \<noteq> Plus \<and> (OpCode op = Minus \<longrightarrow> Lines op = 0)"

lemma merge_from_cutting: "cutting b \<Longrightarrow> list_all cutting ops \<Longrightarrow> list_all cutting (merge_from fin b x ops)"
  by (induction fin b x ops rule: merge_from.induct) (auto simp: flushed_def cutting_def)

lemma merge_ops_cutting: "list_all cutting ops \<Longrightarrow> list_all cutting (merge_ops fin ops)"
  by (simp add: merge_ops_def merge_from_cutting cutting_def NewOp_def)

definition smart_cutting :: "smart_abs \<Rightarrow> bool" where
  "smart_cutting a \<longleftrightarrow> list_all cutting (printed a) \<and> list_all cutting (minuses a) \<and> list_all cutting (pluses a) \<and>
     list_all cutting (keeps a)"

lemma smart_append_cutting: "smart_cutting a \<Longrightarrow> cutting op \<Longrightarrow> smart_cutting (smart_append op a)"
  by (cases "OpCode op") (auto simp: smart_append_def smart_cutting_def print_keeps_def print_plus_minus_def Let_def merge_ops_cutting)

lemma smart_ops_cutting: assumes "list_all cutting ops" shows "list_all cutting (smart_ops fin ops)"
proof -
  have "smart_cutting a \<Longrightarrow> smart_cutting (fold smart_append ops a)" for a
    using assms by (induction ops arbitrary: a) (simp_all add: smart_append_cutting)
  from this[of smart_init] have "smart_cutting (fold smart_append ops smart_init)"
    by (simp add: smart_cutting_def smart_init_def)
  then show ?thesis by (simp add: smart_ops_def smart_result_def smart_cutting_def merge_ops_cutting)
qed

lemma cutting_nothing: "runs n ops b t out b' t' \<Longrightarrow> list_all cutting ops \<Longrightarrow> t = [] \<Longrightarrow> out @ t' = []"
  by (induction rule: runs.induct) (auto simp: cutting_def)

lemma cutting_keeps_end:
  "runs n ops b t out b' t' \<Longrightarrow> list_all cutting ops \<Longrightarrow> has_suffix t [newline] \<Longrightarrow> has_suffix (out @ t') [newline]"
proof (induction rule: runs.induct)
  case (runs_Minus op' x ops b t out b' t')
  have "newline \<notin> set x" using runs_Minus.hyps runs_Minus.prems(1)
    by (simp add: cutting_def spans_def CountLines_count count_list_0_iff)
  then have "has_suffix t [newline]" using runs_Minus.prems(2) last_in_set[of x]
    by (cases "t = []") (auto simp: has_suffix_newline)
  with runs_Minus show ?case by simp
next
  case (runs_Keep op' x ops b t out b' t')
  show ?case
  proof (cases "t = []")
    case True
    then have "out @ t' = []" using cutting_nothing[OF runs_Keep.hyps(3)] runs_Keep.prems(1) by simp
    then show ?thesis using runs_Keep.prems(2) True by simp
  next
    case False
    with runs_Keep have "has_suffix (out @ t') [newline]" by (simp add: has_suffix_newline)
    then show ?thesis by (auto simp: has_suffix_newline)
  qed
qed (auto simp: cutting_def)

subsection \<open>The positions\<close>

lemma op_markers_props:
  assumes "op_markers t offset n = Inr ps"
  shows "sorted_wrt (<) ps \<and> (\<forall>i \<in> set ps. 0 < i \<and> offset \<le> i \<and> i < offset + n \<and> i \<le> int (length t))"
proof -
  have ps: "ps = filter (\<lambda>i. i > 0 \<and> t ! nat (i - 1) \<noteq> newline) [offset..offset + n - 1]"
    "\<not> list_ex (\<lambda>i. i > 0 \<and> i - 1 \<ge> int (length t)) [offset..offset + n - 1]"
    using assms by (auto simp: op_markers_def Let_def split: if_splits)
  then show ?thesis by (auto simp: sorted_wrt_filter list_ex_iff)
qed

lemma bad_markers_props:
  "bad_markers t ops pool offset = Inr (ps, pool') \<Longrightarrow> list_all (\<lambda>op. 0 \<le> Chars op) ops \<Longrightarrow>
   sorted_wrt (<) ps \<and> (\<forall>i \<in> set ps. 0 < i \<and> offset \<le> i \<and> i \<le> int (length t))"
proof (induction ops arbitrary: pool offset ps pool')
  case (Cons op ops)
  let ?a = "FromString (Attribs op) pool"
  from Cons.prems(1) obtain here later where r:
    "(if HasAttrib ?a then op_markers t offset (Chars op) else Inr []) = Inr here"
    "bad_markers t ops (am_pool ?a) (offset + Chars op) = Inr (later, pool')" "ps = here @ later"
    by (auto simp: Let_def bind_result_Inr_iff)
  from Cons.IH[OF r(2)] Cons.prems(2) have l: "sorted_wrt (<) later"
    "\<forall>i \<in> set later. 0 < i \<and> offset + Chars op \<le> i \<and> i \<le> int (length t)" "0 \<le> Chars op" by simp_all
  have h: "sorted_wrt (<) here \<and> (\<forall>i \<in> set here. 0 < i \<and> offset \<le> i \<and> i < offset + Chars op \<and> i \<le> int (length t))"
    using r(1) op_markers_props by (auto split: if_splits)
  with l show ?case by (fastforce simp: r(3) sorted_wrt_append)
qed simp

lemma bad_markers_pool: "pool_wf pool \<Longrightarrow> bad_markers t ops pool offset = Inr (ps, pool') \<Longrightarrow> pool' = pool"
  by (induction ops arbitrary: offset ps) (auto simp: Let_def bind_result_Inr_iff FromString_pool)

lemma correctMarkers_pool: "pool_wf pool \<Longrightarrow> correctMarkersInPad at pool = Inr (c, pool') \<Longrightarrow> pool' = pool"
  by (auto simp: correctMarkersInPad_def bind_result_Inr_iff caller_pool_def Let_def split: sum.splits if_splits
      dest!: bad_markers_pool)

subsection \<open>The changeset that removes them\<close>

lemma OpsFromText_nil: "OpsFromText Keep x None None = Inr (text_ops Keep [] x, None)"
  by (simp add: OpsFromText_def update_string_def)

lemma text_ops_cutting: "list_all cutting (text_ops Keep [] x)"
  by (rule text_ops_pieces[of x False Keep "[]"]) (auto simp: list_all_iff cutting_def)

lemma remove_markers_built:
  "built old ops [] b \<Longrightarrow> sorted_wrt (<) is \<Longrightarrow> \<forall>i \<in> set is. offset \<le> i \<and> i \<le> int (length t) \<Longrightarrow>
   0 \<le> offset \<Longrightarrow> offset \<le> int (length t) + 1 \<Longrightarrow>
   \<exists>b' ops'. remove_markers t is offset b = Inr b' \<and> built old (ops @ ops') [] b' \<and> list_all cutting ops' \<and>
     list_all op_plain ops' \<and> total ops' \<le> int (length t) + 1 - offset"
proof (induction "is" arbitrary: ops offset b)
  case Nil
  then show ?case by (intro exI[of _ b] exI[of _ "[]"]) simp
next
  case (Cons i "is")
  let ?x = "take (nat (i - offset)) (drop (nat offset) t)" and ?m = "\<lparr>OpCode = Minus, Chars = 1, Lines = 0, Attribs = []\<rparr>"
  let ?ops = "text_ops Keep [] ?x @ [?m]"
  obtain b1 p where k: "Builder_KeepText ?x None None b = Inr (b1, p)" "built old (ops @ text_ops Keep [] ?x) [] b1"
    using Cons.prems(1) by (auto simp: Builder_KeepText_def OpsFromText_nil built_def)
  then have m: "built old (ops @ ?ops) [] (Builder_Remove 1 0 b1)"
    by (auto simp: built_def Builder_Remove_def Let_def)
  from Cons.prems have "\<forall>j \<in> set is. i + 1 \<le> j \<and> j \<le> int (length t)" "0 \<le> i + 1" "i + 1 \<le> int (length t) + 1" by auto
  from Cons.IH[OF m _ this] Cons.prems(2) obtain b' ops' where r: "remove_markers t is (i + 1) (Builder_Remove 1 0 b1) = Inr b'"
    "built old ((ops @ ?ops) @ ops') [] b'" "list_all cutting ops'" "list_all op_plain ops'" "total ops' \<le> int (length t) + 1 - (i + 1)"
    by auto
  have "int (min k (nat (i - offset))) \<le> int (nat (i - offset))" for k by (intro of_nat_mono min.cobounded2)
  moreover have "int (nat (i - offset)) = i - offset" using Cons.prems(3) by simp
  ultimately have "int (min k (nat (i - offset))) \<le> i - offset" for k by metis
  then have "RuneCount ?x \<le> i - offset" by (simp only: RuneCount_def length_take)
  then have "total ?ops \<le> i - offset + 1" "list_all op_plain ?ops"
    using text_ops_plain[of Keep "[]" ?x] by (simp_all add: op_plain_def)
  moreover have "list_all cutting ?ops" using text_ops_cutting by (simp add: cutting_def)
  ultimately show ?case using k(1) r by (intro exI[of _ b'] exI[of _ "?ops @ ops'"]) auto
qed

lemma length_change_total: "list_all op_plain ops \<Longrightarrow> \<bar>length_change ops\<bar> \<le> total ops"
  by (induction ops) (auto simp: op_plain_def length_change_def)

lemma correction_keeps_end:
  assumes c: "correctMarkersInPad at pool = Inr (Some cs, pool')" and nl: "has_suffix (Text at) [newline]"
    and size: "RuneCount (Text at) < 2 ^ 61" and app: "ApplyToText cs (Text at) = Inr res"
  shows "has_suffix res [newline]"
proof -
  let ?n = "int (length (Text at))"
  from c obtain aops ps q b where r: "DeserializeOps (ATAttribs at) = Inr aops" "bad_markers (Text at) aops pool 0 = Inr (ps, q)"
    "remove_markers (Text at) ps 0 (NewBuilder ?n) = Inr b" "cs = fst (Builder_ToString b)"
    by (auto simp: correctMarkersInPad_def bind_result_Inr_iff Let_def split: sum.splits if_splits)
  have "list_all (\<lambda>op. 0 \<le> Chars op) aops" using DeserializeOps_wf[OF r(1)] by (auto simp: list_all_iff op_wf_def)
  from bad_markers_props[OF r(2) this] have ps: "sorted_wrt (<) ps" "\<forall>i \<in> set ps. 0 \<le> i \<and> i \<le> ?n" by auto
  from remove_markers_built[OF built_new ps(1) ps(2), of ?n] r(3) obtain ops where
    b: "built ?n ops [] b" "list_all cutting ops" "list_all op_plain ops" "total ops \<le> ?n + 1" by auto
  have plain: "ops_plain ops" and "\<bar>length_change ops\<bar> < 2 ^ 63" "fits ?n"
    using b(3,4) size length_change_total[OF b(3)] by (simp_all add: ops_plain_def fits_def RuneCount_def)
  with smart_end.unpacks[OF plain, of ?n "?n + length_change ops" "[]"]
  have u: "Unpack cs = Inr \<lparr>OldLen = ?n, NewLen = ?n + length_change ops, Ops = smart_string ops, CharBank = []\<rparr>"
    using r(4) built_ToString[OF b(1)] by simp
  from ApplyToText_applies[OF u, of "smart_ops True ops"] smart_end.parses[OF plain] app
  obtain b2 where "applies False (smart_ops True ops) [] b2 (Text at) res" by auto
  then show ?thesis using cutting_keeps_end smart_ops_cutting[OF b(2)] nl by (auto simp: applies_def)
qed

end
