(* ===== verification/UserChangesSpec.thy ===== *)
theory UserChangesSpec
  imports MarkerSpec
begin

text \<open>
  The handler of user changes over any store that meets the contract: whatever a client sends,
  every pad the server has loaded keeps its history and the newline at its end.
\<close>

subsection \<open>The pools\<close>

lemma PutAttrib_NextNum: "NextNum p \<le> NextNum (snd (PutAttrib e b p)) \<and> NextNum (snd (PutAttrib e b p)) \<le> NextNum p + 1"
  by (auto simp: PutAttrib_def Let_def split: option.splits)

lemma put_author_NextNum: "NextNum (put_author a p) \<le> NextNum p + 1"
  using PutAttrib_NextNum by (simp add: put_author_def split: option.splits)

lemma move_attrib_NextNum: "NextNum (snd (move_attrib old a p)) \<le> NextNum p + 1"
  using PutAttrib_NextNum by (auto simp: move_attrib_def Let_def split_beta split: sum.splits)

lemma replace_NextNum: "NextNum (snd (replaceAttributes s (move_attrib old) p)) \<le> NextNum p + int (length s)"
proof (induction s arbitrary: p rule: length_induct)
  case (1 s)
  show ?case
  proof (cases s)
    case (Cons c t)
    have t: "length (dropWhile alnum36 t) \<le> length t" by (rule length_dropWhile_le)
    obtain v e q where cb: "move_attrib old (takeWhile alnum36 t) p = ((v, e), q)" by (metis surj_pair)
    have "NextNum (snd (replaceAttributes (dropWhile alnum36 t) (move_attrib old) q)) \<le> NextNum q + int (length (dropWhile alnum36 t))"
      "NextNum (snd (replaceAttributes t (move_attrib old) p)) \<le> NextNum p + int (length t)"
      using 1 Cons t by (simp_all add: le_imp_less_Suc)
    moreover have "NextNum q \<le> NextNum p + 1" using move_attrib_NextNum[of old "takeWhile alnum36 t" p] cb by simp
    ultimately show ?thesis using Cons cb t by (auto simp: replaceAttributes.simps split_beta Let_def)
  qed simp
qed

lemma MoveOps_NextNum:
  assumes "MoveOpsToNewPool cs old p = (cs', q)" shows "NextNum q \<le> NextNum p + int (length cs)"
proof -
  obtain n where "q = snd (replaceAttributes (RuneSlice cs 0 n) (move_attrib old) p)"
    using assms by (auto simp: MoveOpsToNewPool_def Let_def split_beta)
  moreover have "length (RuneSlice cs 0 n) \<le> length cs" by (simp add: RuneSlice_eq)
  ultimately show ?thesis using replace_NextNum[of "RuneSlice cs 0 n" old p] by simp
qed

text \<open>A wire pool whose attributes are trimmed.\<close>

definition wire_trimmed :: "UserChange \<Rightarrow> bool" where
  "wire_trimmed msg \<longleftrightarrow> (\<forall>(n, parts) \<in> set (uc_NumToAttrib msg). \<forall>x \<in> set parts. trim_space x = x)"

lemma check_authors_trimmed: "pool_trimmed w \<Longrightarrow> check_authors a p ops w = (ok, w') \<Longrightarrow> pool_trimmed w'"
proof (induction ops arbitrary: w)
  case (Cons op ops)
  let ?w = "am_pool (FromString (Attribs op) w)"
  obtain b where b: "author_allowed a p op w = (b, ?w)" by (simp add: author_allowed_def Let_def)
  have "pool_trimmed ?w" using Cons.prems(1) by (rule FromString_trimmed)
  with Cons.IH[of ?w] Cons.prems(2) b show ?case by (auto split: if_splits)
qed simp

lemma load_raw_trimmed:
  "load_raw raw p = Inr q \<Longrightarrow> pool_trimmed p \<Longrightarrow> \<forall>(n, parts) \<in> set raw. \<forall>x \<in> set parts. trim_space x = x \<Longrightarrow> pool_trimmed q"
proof (induction raw arbitrary: p)
  case (Cons e raw)
  obtain n parts where e: "e = (n, parts)" by fastforce
  with Cons.prems(1) obtain entry where en: "FromJsonAble parts = Inr entry" by (auto split: sum.splits)
  have "2 \<le> length parts" "entry = \<lparr>Key = parts ! 0, Value = parts ! 1\<rparr>" using en by (auto simp: FromJsonAble_def split: if_splits)
  moreover from this(1) have "parts ! 0 \<in> set parts" "parts ! 1 \<in> set parts" by (auto intro!: nth_mem)
  ultimately have "trim_entry entry = entry" using Cons.prems(3) e by (simp add: trim_entry_def)
  then have "pool_trimmed (p\<lparr>NumToAttrib := gomap_set (NumToAttrib p) n entry, AttribToNum := gomap_set (AttribToNum p) entry n\<rparr>)"
    using Cons.prems(2) by (simp add: pool_trimmed_def)
  with Cons e en show ?case by auto
qed simp

lemma wire_pool_trimmed:
  assumes "wire_trimmed msg"
    and "FromJsonable NewAPool (NewAPool\<lparr>NextNum := uc_NextNum msg, NumToAttribRaw := uc_NumToAttrib msg\<rparr>) = Inr w"
  shows "pool_trimmed w"
proof (rule load_raw_trimmed)
  let ?p = "\<lparr>NumToAttrib = [], NumToAttribRaw = uc_NumToAttrib msg, AttribToNum = [], NextNum = uc_NextNum msg\<rparr>"
  show "load_raw (uc_NumToAttrib msg) ?p = Inr w" using assms(2) by (simp add: FromJsonable_def NewAPool_def)
  show "pool_trimmed ?p" by (simp add: pool_trimmed_def)
qed (use assms(1) in \<open>simp add: wire_trimmed_def\<close>)

subsection \<open>The parts of the handler\<close>

lemma send_revisions_keeps:
  "send_revisions D pad c sid rs st = Inr st' \<Longrightarrow> srv_store st' = srv_store st \<and> manager st' = manager st"
proof (induction rs arbitrary: st)
  case (Cons r rs)
  show ?case
  proof (cases "getSession sid (sessions st)")
    case (Some info)
    with Cons.prems obtain st1 where "send_revisions D pad c sid rs st1 = Inr st'"
      "srv_store st1 = srv_store st" "manager st1 = manager st"
      by (auto simp: bind_result_Inr_iff set_session_def send_to_def)
    with Cons.IH show ?thesis by simp
  qed (use Cons.prems in simp)
qed simp

lemma update_clients_keeps:
  "update_clients D pad cs st = Inr st' \<Longrightarrow> srv_store st' = srv_store st \<and> manager st' = manager st"
proof (induction cs arbitrary: st)
  case (Cons x cs)
  obtain c sid where x: "x = (c, sid)" by fastforce
  show ?case
  proof (cases "getSession sid (sessions st)")
    case (Some info)
    with Cons.prems x obtain st1 where st1: "update_clients D pad cs st1 = Inr st'"
      "send_revisions D pad c sid [Revision info + 1..pad_Head pad] st = Inr st1" by (auto simp: bind_result_Inr_iff)
    with Cons.IH[OF st1(1)] send_revisions_keeps[OF st1(2)] show ?thesis by simp
  qed (use Cons x in auto)
qed simp

lemma ApplyToAText_returns: "\<exists>r. ApplyToAText cs at p = Some r"
proof -
  obtain u where u: "Unpack cs = Inr u" using Unpack_total by blast
  obtain r where "ApplyZip (ATAttribs at) (Ops u) attribution_callback (Some p) = Some r"
    using attribution_zip.ApplyZip_returns by blast
  then have "\<exists>r. ApplyToAttribution cs (ATAttribs at) p = Some r" using u by (cases r) (auto simp: ApplyToAttribution_def)
  then obtain r2 where "ApplyToAttribution cs (ATAttribs at) p = Some r2" by blast
  then show ?thesis by (cases "ApplyToText cs (Text at)"; cases r2) (auto simp: ApplyToAText_def)
qed

lemma AppendRevision_returns: "AppendRevision D now cs a p s \<noteq> None"
proof -
  obtain r where "ApplyToAText cs (pad_AText p) (pad_Pool p) = Some r" using ApplyToAText_returns by blast
  then show ?thesis by (auto simp: AppendRevision_def Let_def simp del: not_None_eq split: sum.splits goerr.splits)
qed

lemma rebase_step:
  obtains (refused) e where "rebase_changeset D order a ccs pad s (r # rs) cs pool = Some (Inl e, pool)"
  | (followed) x cs1 where "rebase_changeset D order a ccs pad s (r # rs) cs pool =
      (case Follow order x cs1 False (Some pool) of
         None \<Rightarrow> None
       | Some (Inl err) \<Rightarrow> Some (Inl err, pool)
       | Some (Inr (cs2, pool2)) \<Rightarrow>
           rebase_changeset D order a ccs pad s rs cs2 (case pool2 of None \<Rightarrow> pool | Some p \<Rightarrow> p))"
proof (cases "Pad_GetRevision D r pad s")
  case (Inl e)
  then show ?thesis using refused by simp
next
  case (Inr x)
  show ?thesis
  proof (cases "if rev_Changeset x = ccs \<and> rev_AuthorId x = Some a
      then map_sum id (\<lambda>u. Identity (OldLen u)) (Unpack ccs) else Inr cs")
    case (Inl e)
    then show ?thesis using refused Inr \<open>Pad_GetRevision D r pad s = Inr x\<close> by simp
  next
    case (Inr cs1)
    then show ?thesis using followed[of "rev_Changeset x" cs1] \<open>Pad_GetRevision D r pad s = Inr x\<close> by simp
  qed
qed

lemma rebase_returns: "rebase_changeset D order a ccs pad s rs cs pool \<noteq> None"
proof (induction rs arbitrary: cs pool)
  case (Cons r rs)
  show ?case
  proof (cases rule: rebase_step[of D order a ccs pad s r rs cs pool])
    case (followed x cs1)
    obtain f where "Follow order x cs1 False (Some pool) = Some f" using Follow_returns by blast
    then show ?thesis using followed Cons by (cases f) auto
  qed simp
qed simp

lemma rebase_pool:
  assumes p: "pool_wf pool" "\<And>m. set (order m) = set m"
  shows "rebase_changeset D order a ccs pad s rs cs pool = Some (r, pool') \<Longrightarrow> pool' = pool"
proof (induction rs arbitrary: cs)
  case (Cons n rs)
  show ?case
  proof (cases rule: rebase_step[of D order a ccs pad s n rs cs pool])
    case (followed x cs1)
    obtain f where f: "Follow order x cs1 False (Some pool) = Some f" using Follow_returns by blast
    show ?thesis
    proof (cases f)
      case (Inr y)
      obtain cs2 q where "y = (cs2, q)" by fastforce
      with Inr f have F: "Follow order x cs1 False (Some pool) = Some (Inr (cs2, q))" by simp
      from Follow_pool[OF p F] have "q = Some pool" .
      with F Cons followed show ?thesis by simp
    qed (use Cons.prems followed f in simp)
  qed (use Cons.prems in simp)
qed simp

lemma fits_history_mono: "fits_history R' \<Longrightarrow> (\<And>i x. R i = Some x \<Longrightarrow> R' i = Some x) \<Longrightarrow> fits_history R"
proof -
  assume f: "fits_history R'" and m: "\<And>i x. R i = Some x \<Longrightarrow> R' i = Some x"
  have "RuneCount (text_at R i) < 2 ^ 61" for i
  proof (cases "R i")
    case None
    then show ?thesis by (simp add: text_at_def RuneCount_def)
  next
    case (Some x)
    with m have "text_at R i = text_at R' i" by (simp add: text_at_def)
    with f show ?thesis by (simp add: fits_history_def)
  qed
  then show ?thesis by (simp add: fits_history_def)
qed

text \<open>Every part of the handler returns.\<close>

lemma some_triple: "x \<noteq> None \<Longrightarrow> \<exists>a b c. x = Some (a, b, c)"
  by auto

lemma some_pair: "x \<noteq> None \<Longrightarrow> \<exists>a b. x = Some (a, b)"
  by auto

lemmas returns = AppendRevision_returns rebase_returns

lemma commit_returns: "commit_changes D now c sid session r n p st \<noteq> None"
  by (simp add: returns commit_changes_def Let_def some_triple del: not_None_eq split: sum.split option.split prod.split)

lemma apply_returns: "apply_changes D now c sid session r cs p st \<noteq> None"
  by (simp add: returns commit_returns apply_changes_def reject_changes_def Let_def del: not_None_eq
      split: sum.split option.split goerr.split prod.split)

lemma append_returns: "append_changes D now order c sid session base cs p st \<noteq> None"
  by (simp add: returns apply_returns append_changes_def reject_changes_def Let_def del: not_None_eq
      split: sum.split option.split goerr.split prod.split)

lemma Init_returns: "Init D now txt text author p s \<noteq> None"
proof -
  define f where "f cs = the (AppendRevision D now cs author p s)" for cs
  have f: "AppendRevision D now cs author p s = Some (f cs)" for cs
    unfolding f_def using AppendRevision_returns[of D now cs author p s] by simp
  show ?thesis by (auto simp: Init_def Let_def f simp del: not_None_eq split: sum.splits)
qed

lemma Manager_GetPad_returns: "Manager_GetPad D now txt i text author ms \<noteq> None"
  by (cases ms) (simp add: Manager_GetPad_def Init_returns del: not_None_eq split: option.split sum.split)

lemma handleUserChanges_returns: "handleUserChanges D now txt order c sid msg st \<noteq> None"
  by (simp add: Manager_GetPad_returns append_returns handleUserChanges_def Let_def del: not_None_eq
      split: sum.split option.split goerr.split prod.split)

subsection \<open>What a step may change\<close>

definition good_pad :: "('s \<Rightarrow> gostring \<Rightarrow> PadDB option) \<Rightarrow> ('s \<Rightarrow> gostring \<Rightarrow> int \<Rightarrow> PadSingleRevision option) \<Rightarrow>
    's \<Rightarrow> Pad \<Rightarrow> bool" where
  "good_pad pads revs s p \<longleftrightarrow> history (pads s (pad_Id p)) (revs s (pad_Id p)) p \<and> has_suffix (pad_text p) [newline]"

definition only_pad :: "('s \<Rightarrow> gostring \<Rightarrow> PadDB option) \<Rightarrow> ('s \<Rightarrow> gostring \<Rightarrow> int \<Rightarrow> PadSingleRevision option) \<Rightarrow>
    gostring \<Rightarrow> 's Server \<Rightarrow> 's Server \<Rightarrow> bool" where
  "only_pad pads revs i st st' \<longleftrightarrow>
     (\<forall>j. j \<noteq> i \<longrightarrow> pads (srv_store st') j = pads (srv_store st) j \<and> revs (srv_store st') j = revs (srv_store st) j \<and>
        Cache_GetPad j (manager st') = Cache_GetPad j (manager st)) \<and>
     (\<forall>n x. revs (srv_store st) i n = Some x \<longrightarrow> revs (srv_store st') i n = Some x)"

lemma only_pad_refl [simp]: "only_pad pads revs i st st"
  by (simp add: only_pad_def)

lemma only_pad_trans: "only_pad pads revs i st st' \<Longrightarrow> only_pad pads revs i st' st'' \<Longrightarrow> only_pad pads revs i st st''"
  by (simp add: only_pad_def)

lemma Cache_put [simp]: "Cache_GetPad j (Cache_SetPad i p m) = (if j = i then Some p else Cache_GetPad j m)"
  by (simp add: Cache_GetPad_def Cache_SetPad_def)

lemma put_pad_sel [simp]: "srv_store (put_pad i p s st) = s" "manager (put_pad i p s st) = Cache_SetPad i p (manager st)"
  by (simp_all add: put_pad_def)

lemma message_sel [simp]:
  "srv_store (send_to c m st) = srv_store st" "manager (send_to c m st) = manager st"
  "srv_store (set_session i x st) = srv_store st" "manager (set_session i x st) = manager st"
  "srv_store (badChangeset c st) = srv_store st" "manager (badChangeset c st) = manager st"
  by (simp_all add: send_to_def set_session_def badChangeset_def sendDisconnectMessage_def)

context pad_store
begin

lemma append_keeps:
  assumes s: "inv s" and run: "AppendRevision D now cs a p s = Some (r, p', s')"
  shows "inv s' \<and> pad_Id p' = pad_Id p \<and> (\<forall>n x. revs s (pad_Id p) n = Some x \<longrightarrow> revs s' (pad_Id p) n = Some x)"
proof -
  have st: "inv s' \<and> pad_Id p' = pad_Id p1 \<and> (\<forall>n x. revs s (pad_Id p1) n = Some x \<longrightarrow> revs s' (pad_Id p1) n = Some x)"
    if "store_revision D now cs a at p1 s = (r, p', s')" for at p1
  proof -
    let ?p = "p1\<lparr>pad_AText := CopyAText at (pad_AText p1), pad_Head := pad_Head p1 + 1, pad_Pool := put_author a (pad_Pool p1)\<rparr>"
    obtain e1 s1 where s1: "Pad_Save D now ?p s = (e1, s1)" by fastforce
    obtain e2 s2 where s2: "ensure_system_author D now a s1 = (e2, s2)" by fastforce
    note sv = save_pad[OF s s1]
    from sv ensure_author[OF _ s2] have en: "e2 = None" "inv s2" "pads s2 = pads s1" "revs s2 = revs s" by auto
    have ex: "pads s2 (pad_Id ?p) \<noteq> None" using sv en(3) by auto
    obtain e3 s3 where s3: "ds_SaveRevision D (pad_Id ?p) (pad_Head ?p) cs (pad_AText ?p) (ToRevDB (pad_Pool ?p)) a (millis_of now) s2 = (e3, s3)"
      by fastforce
    have "s' = s3 \<and> p' = ?p" using that by (cases e3) (simp_all only: store_revision_def Let_def s1 s2 s3 en(1) prod.case option.case prod.inject)
    with save_revision[OF en(2) ex s3] en(4) show ?thesis by auto
  qed
  from run have "s' = s \<and> pad_Id p' = pad_Id p \<or> (\<exists>at pool. store_revision D now cs a at (p\<lparr>pad_Pool := pool\<rparr>) s = (r, p', s'))"
    by (auto simp: AppendRevision_def Let_def split: option.splits sum.splits goerr.splits if_splits)
  then show ?thesis using st s by fastforce
qed

lemma good_append:
  assumes s: "inv s" and g: "good_pad pads revs s p" and pool: "NextNum (pad_Pool p) + 1 < 2 ^ 63" and a: "trim_space a = a"
    and run: "AppendRevision D now cs (Some a) p s = Some (r, p', s')" and short: "fits_history (revs s' (pad_Id p))"
    and nl: "\<And>res. ApplyToText cs (pad_text p) = Inr res \<Longrightarrow> has_suffix res [newline]"
  shows "inv s' \<and> pad_Id p' = pad_Id p \<and> good_pad pads revs s' p' \<and> NextNum (pad_Pool p') \<le> NextNum (pad_Pool p) + 1 \<and>
    (\<forall>j. j \<noteq> pad_Id p \<longrightarrow> pads s' j = pads s j \<and> revs s' j = revs s j) \<and>
    (\<forall>n x. revs s (pad_Id p) n = Some x \<longrightarrow> revs s' (pad_Id p) n = Some x)"
proof -
  have h: "history (pads s (pad_Id p)) (revs s (pad_Id p)) p" "has_suffix (pad_text p) [newline]" using g by (simp_all add: good_pad_def)
  have "pool_wf (put_author (Some a) (pad_Pool p))" using put_author_wf[OF _ pool, of "Some a"] h(1) a by (simp add: history_def)
  from append_revision_any[OF s h(1) this run short]
  have R: "inv s'" "pad_Id p' = pad_Id p" "history (pads s' (pad_Id p)) (revs s' (pad_Id p)) p'"
    "\<forall>j. j \<noteq> pad_Id p \<longrightarrow> pads s' j = pads s j \<and> revs s' j = revs s j"
    "\<forall>n x. revs s (pad_Id p) n = Some x \<longrightarrow> revs s' (pad_Id p) n = Some x"
    and c: "case r of Inl _ \<Rightarrow> p' = p \<and> s' = s
      | Inr n \<Rightarrow> ApplyToText cs (pad_text p) = Inr (pad_text p') \<and> n = pad_Head p' \<and>
          (p' = p \<and> s' = s \<or> n = pad_Head p + 1 \<and> pad_Pool p' = put_author (Some a) (pad_Pool p))" by blast+
  have "has_suffix (pad_text p') [newline] \<and> NextNum (pad_Pool p') \<le> NextNum (pad_Pool p) + 1"
    using c nl h(2) put_author_NextNum[of "Some a" "pad_Pool p"] by (cases r) auto
  with R show ?thesis by (simp add: good_pad_def)
qed

lemma commit_changes_keeps:
  assumes s: "inv (srv_store st)" and g: "good_pad pads revs (srv_store st) p" and pool: "NextNum (pad_Pool p) + 1 < 2 ^ 63"
    and c0: "Cache_GetPad i (manager st) = Some p" and i: "pad_Id p = i" "ses_PadId session = i"
    and a: "trim_space (ses_Author session) = ses_Author session"
    and run: "commit_changes D now c sid session r n p st = Some (Inr (), st')" and short: "fits_history (revs (srv_store st') i)"
  shows "inv (srv_store st') \<and> only_pad pads revs i st st' \<and>
    (\<exists>p'. Cache_GetPad i (manager st') = Some p' \<and> pad_Id p' = i \<and> good_pad pads revs (srv_store st') p')"
proof -
  have wf: "pool_wf (pad_Pool p)" and nl: "has_suffix (pad_text p) [newline]" and ch: "text_at (revs (srv_store st) i) (pad_Head p) = pad_text p"
    using g i(1) by (simp_all add: good_pad_def history_def)
  obtain corr q where m: "correctMarkersInPad (pad_AText p) (pad_Pool p) = Inr (corr, q)"
    using run by (auto simp: commit_changes_def split: sum.splits)
  have q: "p\<lparr>pad_Pool := q\<rparr> = p" using correctMarkers_pool[OF wf m] by simp
  obtain res p2 s2 where ap: "(case corr of None \<Rightarrow> Some (Inr 0, p, srv_store st)
      | Some cs \<Rightarrow> AppendRevision D now cs (Some (ses_Author session)) p (srv_store st)) = Some (res, p2, s2)" "res \<noteq> Inl Panic"
    and same: "srv_store st' = s2" "manager st' = Cache_SetPad i p2 (manager st)"
    using run m q i(2)
    by (auto simp: commit_changes_def UpdatePadClients_def Let_def dest!: update_clients_keeps
        split: option.splits sum.splits if_splits prod.splits)
  have "inv s2 \<and> pad_Id p2 = i \<and> good_pad pads revs s2 p2 \<and>
      (\<forall>j. j \<noteq> i \<longrightarrow> pads s2 j = pads (srv_store st) j \<and> revs s2 j = revs (srv_store st) j) \<and>
      (\<forall>n x. revs (srv_store st) i n = Some x \<longrightarrow> revs s2 i n = Some x)"
  proof (cases corr)
    case None
    then show ?thesis using ap(1) s g i(1) by simp
  next
    case (Some cs)
    with ap(1) have A: "AppendRevision D now cs (Some (ses_Author session)) p (srv_store st) = Some (res, p2, s2)" by simp
    have fit: "fits_history (revs s2 (pad_Id p))" using short same(1) i(1) by simp
    have "fits_history (revs (srv_store st) i)" using fits_history_mono[OF fit] append_keeps[OF s A] i(1) by blast
    then have "RuneCount (Text (pad_AText p)) < 2 ^ 61" using ch unfolding fits_history_def pad_text_def by metis
    then have end': "has_suffix t [newline]" if "ApplyToText cs (pad_text p) = Inr t" for t
      using correction_keeps_end[OF m[unfolded Some], of t] nl that by (simp add: pad_text_def)
    from good_append[OF s g pool a A fit end'] i(1) show ?thesis by simp
  qed
  then show ?thesis by (simp add: same only_pad_def)
qed

lemma commit_changes_revisions:
  assumes s: "inv (srv_store st)" and run: "commit_changes D now c sid session r n p st = Some (Inr (), st')"
    and R: "revs (srv_store st) (pad_Id p) k = Some x"
  shows "revs (srv_store st') (pad_Id p) k = Some x"
proof -
  obtain corr q where m: "correctMarkersInPad (pad_AText p) (pad_Pool p) = Inr (corr, q)"
    using run by (auto simp: commit_changes_def split: sum.splits)
  obtain res p2 s2 where ap: "(case corr of None \<Rightarrow> Some (Inr 0, p\<lparr>pad_Pool := q\<rparr>, srv_store st)
      | Some cs \<Rightarrow> AppendRevision D now cs (Some (ses_Author session)) (p\<lparr>pad_Pool := q\<rparr>) (srv_store st)) = Some (res, p2, s2)"
    and same: "srv_store st' = s2"
    using run m by (auto simp: commit_changes_def UpdatePadClients_def Let_def dest!: update_clients_keeps
        split: option.splits sum.splits if_splits prod.splits)
  then show ?thesis using R append_keeps[OF s, of now _ _ "p\<lparr>pad_Pool := q\<rparr>"] by (cases corr) auto
qed

lemma apply_changes_keeps:
  assumes s: "inv (srv_store st)" and g: "good_pad pads revs (srv_store st) p" and pool: "NextNum (pad_Pool p) + 2 < 2 ^ 63"
    and i: "pad_Id p = i" "ses_PadId session = i" and a: "trim_space (ses_Author session) = ses_Author session"
    and run: "apply_changes D now c sid session r rebased p st = Some (Inr (), st')" and short: "fits_history (revs (srv_store st') i)"
  shows "inv (srv_store st') \<and> only_pad pads revs i st st' \<and>
    (\<exists>p'. Cache_GetPad i (manager st') = Some p' \<and> pad_Id p' = i \<and> good_pad pads revs (srv_store st') p')"
proof (cases "Some (Inr (), st') = reject_changes c session p (srv_store st) st")
  case True
  then show ?thesis using s g i by (simp add: reject_changes_def only_pad_def)
next
  case False
  then obtain proj where proj: "ApplyToText rebased (pad_text p) = Inr proj" "has_suffix proj [newline]"
    using run by (auto simp: apply_changes_def Let_def split: sum.splits if_splits goerr.splits)
  obtain res p2 s2 where A: "AppendRevision D now rebased (Some (ses_Author session)) p (srv_store st) = Some (res, p2, s2)"
    using AppendRevision_returns by fastforce
  let ?st2 = "put_pad i p2 s2 st"
  have alt: "Some (Inr (), st') = reject_changes c session p2 s2 st \<or>
      (\<exists>newRev. commit_changes D now c sid session r newRev p2 ?st2 = Some (Inr (), st'))"
    using run False proj A i(2) by (auto simp: apply_changes_def Let_def split: sum.splits if_splits goerr.splits)
  have nl: "has_suffix t [newline]" if "ApplyToText rebased (pad_text p) = Inr t" for t using proj that by simp
  from append_keeps[OF s A] i(1) have p2: "inv s2" "pad_Id p2 = i" and R2: "\<And>n x. revs (srv_store st) i n = Some x \<Longrightarrow> revs s2 i n = Some x"
    by auto
  have "revs (srv_store st') i n = Some x" if "revs s2 i n = Some x" for n x
    using alt commit_changes_revisions[of ?st2 now c sid session r _ p2 st' n x] p2 that by (auto simp: reject_changes_def)
  then have "fits_history (revs s2 (pad_Id p))" using fits_history_mono[OF short] i(1) by simp
  from good_append[OF s g _ a A this nl] pool i(1) have G: "good_pad pads revs s2 p2" "NextNum (pad_Pool p2) + 1 < 2 ^ 63"
    "\<forall>j. j \<noteq> i \<longrightarrow> pads s2 j = pads (srv_store st) j \<and> revs s2 j = revs (srv_store st) j" by auto
  then have O: "only_pad pads revs i st ?st2" using R2 by (simp add: only_pad_def)
  from alt show ?thesis
  proof
    assume "Some (Inr (), st') = reject_changes c session p2 s2 st"
    then show ?thesis using p2 G O i(2) by (simp add: reject_changes_def only_pad_def)
  next
    assume "\<exists>newRev. commit_changes D now c sid session r newRev p2 ?st2 = Some (Inr (), st')"
    then obtain newRev where C: "commit_changes D now c sid session r newRev p2 ?st2 = Some (Inr (), st')" by blast
    have "inv (srv_store ?st2)" "good_pad pads revs (srv_store ?st2) p2" "Cache_GetPad i (manager ?st2) = Some p2" using p2 G by simp_all
    from commit_changes_keeps[OF this(1,2) G(2) this(3) p2(2) i(2) a C short] only_pad_trans[OF O] show ?thesis by blast
  qed
qed

lemma append_changes_keeps:
  assumes s: "inv (srv_store st)" and g: "good_pad pads revs (srv_store st) p" and pool: "NextNum (pad_Pool p) + 2 < 2 ^ 63"
    and i: "pad_Id p = i" "ses_PadId session = i" and a: "trim_space (ses_Author session) = ses_Author session"
    and order: "\<And>m. set (order m) = set m"
    and run: "append_changes D now order c sid session base cs p st = Some (Inr (), st')" and short: "fits_history (revs (srv_store st') i)"
  shows "inv (srv_store st') \<and> only_pad pads revs i st st' \<and>
    (\<exists>p'. Cache_GetPad i (manager st') = Some p' \<and> pad_Id p' = i \<and> good_pad pads revs (srv_store st') p')"
proof -
  have wf: "pool_wf (pad_Pool p)" using g by (simp add: good_pad_def history_def)
  obtain res q where rb: "rebase_changeset D order (ses_Author session) cs p (srv_store st) [base + 1..pad_Head p] cs (pad_Pool p) = Some (res, q)"
    using rebase_returns by fastforce
  have P: "p\<lparr>pad_Pool := q\<rparr> = p" using rebase_pool[OF wf order rb] by simp
  show ?thesis
  proof (cases res)
    case (Inl e)
    then have "st' = badChangeset c (put_pad i p (srv_store st) st)"
      using run rb P i(2) by (cases e) (simp_all add: append_changes_def reject_changes_def)
    then show ?thesis using s g i by (simp add: only_pad_def)
  next
    case (Inr rebased)
    then have "apply_changes D now c sid session (max base (pad_Head p)) rebased p st = Some (Inr (), st')"
      using run rb P by (simp add: append_changes_def)
    from apply_changes_keeps[OF s g pool i a this short] show ?thesis .
  qed
qed

text \<open>The whole handler, for a client whose pad is loaded.\<close>

lemma handleUserChanges_keeps:
  assumes s: "inv (srv_store st)" and loaded: "Cache_GetPad i (manager st) = Some p" "pad_Id p = i" "good_pad pads revs (srv_store st) p"
    and session: "getSession sid (sessions st) = Some session" "ses_PadId session = i" "trim_space (ses_Author session) = ses_Author session"
    and wire: "wire_trimmed msg" and order: "\<And>m. set (order m) = set m"
    and pool: "NextNum (pad_Pool p) + int (length (uc_Changeset msg)) + 2 < 2 ^ 63"
    and run: "handleUserChanges D now txt order c sid msg st = Some (Inr (), st')" and short: "fits_history (revs (srv_store st') i)"
  shows "inv (srv_store st') \<and> only_pad pads revs i st st' \<and>
    (\<exists>p'. Cache_GetPad i (manager st') = Some p' \<and> pad_Id p' = i \<and> good_pad pads revs (srv_store st') p')"
proof -
  obtain w where w: "FromJsonable NewAPool (NewAPool\<lparr>NextNum := uc_NextNum msg, NumToAttribRaw := uc_NumToAttrib msg\<rparr>) = Inr w"
    using run by (auto simp: handleUserChanges_def split: sum.splits)
  note w_trimmed = wire_pool_trimmed[OF wire w]
  have same: "st\<lparr>manager := manager st, srv_store := srv_store st\<rparr> = st" by simp
  have get: "Manager_GetPad D now txt i None (Some (ses_Author session)) (manager st, srv_store st) =
      Some (if IsValidPadId i then Inr p else Inl (Err ''invalid pad id''), manager st, srv_store st)"
    using loaded(1) by (simp add: Manager_GetPad_def)
  have "st' = badChangeset c st \<or> (\<exists>w1 cs pool. pool_trimmed w1 \<and> MoveOpsToNewPool (uc_Changeset msg) w1 (pad_Pool p) = (cs, pool) \<and>
      append_changes D now order c sid session (BaseRev msg) cs (p\<lparr>pad_Pool := pool\<rparr>) st = Some (Inr (), st'))"
    using run w session(1,2) get
    by (auto simp: handleUserChanges_def Let_def same dest!: check_authors_trimmed[OF w_trimmed]
        split: sum.splits if_splits goerr.splits prod.splits)
  then show ?thesis
  proof
    assume "st' = badChangeset c st"
    then show ?thesis using s loaded by (simp add: only_pad_def)
  next
    assume "\<exists>w1 cs pool. pool_trimmed w1 \<and> MoveOpsToNewPool (uc_Changeset msg) w1 (pad_Pool p) = (cs, pool) \<and>
      append_changes D now order c sid session (BaseRev msg) cs (p\<lparr>pad_Pool := pool\<rparr>) st = Some (Inr (), st')"
    then obtain w1 cs q where m: "pool_trimmed w1" "MoveOpsToNewPool (uc_Changeset msg) w1 (pad_Pool p) = (cs, q)"
      "append_changes D now order c sid session (BaseRev msg) cs (p\<lparr>pad_Pool := q\<rparr>) st = Some (Inr (), st')" by blast
    have n: "NextNum q + 2 < 2 ^ 63" using MoveOps_NextNum[OF m(2)] pool by linarith
    have wf: "pool_wf (pad_Pool p)" using loaded(3) by (simp add: good_pad_def history_def)
    have "pool_wf q" using MoveOps_pool[OF m(1) wf m(2)] n by simp
    then have "good_pad pads revs (srv_store st) (p\<lparr>pad_Pool := q\<rparr>)"
      using loaded(3) history_pool by (simp add: good_pad_def) (simp add: pad_text_def)
    from append_changes_keeps[OF s this _ _ session(2,3) order m(3) short] n loaded(2) show ?thesis by simp
  qed
qed

end

end
