(* ===== verification/PadProperties.thy ===== *)
theory PadProperties
  imports StoreSpec
begin

text \<open>
  The properties of text pads over the in-memory store, each with a witness that starts
  from an empty store.
\<close>

subsection \<open>A new pad\<close>

lemma MakeAText_newline: "MakeAText [newline] None = Inr \<lparr>Text = [newline], ATAttribs = lit ''|1+1''\<rparr>"
  by code_simp

lemma in_step_newline: "in_step \<lparr>Text = [newline], ATAttribs = lit ''|1+1''\<rparr>"
proof -
  have "DeserializeOps (lit ''|1+1'') = Inr [\<lparr>OpCode = Plus, Chars = 1, Lines = 1, Attribs = []\<rparr>]" by code_simp
  moreover have "applies False [\<lparr>OpCode = Plus, Chars = 1, Lines = 1, Attribs = []\<rparr>] [newline] [] [] [newline]"
    by (simp add: applies_def runs_Cons_code spans_def RuneCount_def)
  ultimately show ?thesis by (auto simp: in_step_def)
qed

lemma NewPad_history:
  "\<exists>p. NewPad ident = Inr p \<and> pad_Id p = ident \<and> pad_text p = [newline] \<and> pad_Head p = -1 \<and>
     pad_Pool p = NewAPool \<and> DocumentType p = lit ''text'' \<and> history None (\<lambda>_. None) p"
  unfolding NewPad_def MakeAText_newline
  using in_step_newline by (simp add: history_def pool_wf_NewAPool chained_def text_at_def pad_text_def)

lemma mem_new [simp]: "mem_pads NewMemoryDataStore i = None" "mem_revs NewMemoryDataStore i = (\<lambda>_. None)"
  by (simp_all add: mem_pads_def mem_revs_def NewMemoryDataStore_def inner_def fun_eq_iff)

text \<open>A store with one pad of one revision.\<close>

lemma sample_pad:
  obtains p m at pool where "mem_ok m" "pad_Id p = lit ''p''" "pad_text p = lit ''a'' @ [newline]" "pad_Head p = 0"
    "NextNum (pad_Pool p) = 0" "DocumentType p = lit ''text''"
    "history (mem_pads m (lit ''p'')) (mem_revs m (lit ''p'')) p"
    "mem_revs m (lit ''p'') = [0 \<mapsto> revision_row (lit ''p'') 0 (lit ''Z:1>1+1$a'') at pool None 0]"
    "Text at = lit ''a'' @ [newline]"
proof -
  obtain q where q: "NewPad (lit ''p'') = Inr q" "pad_Id q = lit ''p''" "pad_text q = [newline]" "pad_Head q = -1"
    "pad_Pool q = NewAPool" "DocumentType q = lit ''text''" "history None (\<lambda>_. None) q" using NewPad_history by blast
  let ?cs = "lit ''Z:1>1+1$a''" and ?t = "lit ''a'' @ [newline]"
  have app: "ApplyToText ?cs [newline] = Inr ?t" by code_simp
  have wf: "pool_wf (pad_Pool q)" "in_step (pad_AText q)" using q(7) by (simp_all add: history_def)
  have at0: "ApplyToText ?cs (Text (pad_AText q)) = Inr ?t" using app q(3) by (simp add: pad_text_def)
  have size: "2 * RuneCount (Text (pad_AText q)) + RuneCount ?t < 2 ^ 63"
    using q(3) by (simp add: pad_text_def RuneCount_def)
  from ApplyToAText_in_step[OF wf at0 size] obtain at where at: "Text at = ?t" "in_step at" by blast
  have h: "history (mem_pads NewMemoryDataStore (pad_Id q)) (mem_revs NewMemoryDataStore (pad_Id q)) q" using q(7) by simp
  from mem.store_revision_history[OF mem_ok_new h _ at(2), of ?cs None 0] app at(1) q(3) wf(1)
  obtain p m where p: "store_revision memory_store 0 ?cs None at q NewMemoryDataStore = (Inr (pad_Head q + 1), p, m)" "mem_ok m"
    "pad_Id p = pad_Id q" "pad_AText p = at" "pad_Head p = pad_Head q + 1" "pad_Pool p = pad_Pool q"
    "history (mem_pads m (pad_Id q)) (mem_revs m (pad_Id q)) p"
    "mem_revs m (pad_Id q) = (mem_revs NewMemoryDataStore (pad_Id q))(pad_Head q + 1 \<mapsto>
      revision_row (pad_Id q) (pad_Head q + 1) ?cs at (ToRevDB (pad_Pool p)) None (millis_of 0))"
    by (auto simp: put_author_def)
  have doc: "DocumentType p = lit ''text''"
    using p(1) q(6) by (auto simp: store_revision_def Let_def split: prod.splits option.splits)
  show thesis
    using p q(2-5) at(1) doc by (intro that[of m p at "ToRevDB (pad_Pool p)"]) (simp_all add: pad_text_def millis_of_def NewAPool_def)
qed

subsection \<open>The properties\<close>







text \<open>
  C15. The text of any revision up to the head can be recomputed: replaying the changesets from
  the last key revision gives an attributed text whose text is the one stored with the
  revision, with attributes in step.
\<close>

theorem revision_text_replays:
  assumes "mem_ok m" "history (mem_pads m (pad_Id p)) (mem_revs m (pad_Id p)) p" "fits_history (mem_revs m (pad_Id p))"
    and "0 \<le> r" "r \<le> pad_Head p"
  shows "\<exists>at. GetInternalRevisionAText memory_store r p m = Some (Some at, p) \<and>
    Text at = text_at (mem_revs m (pad_Id p)) r \<and> in_step at"
  by (rule mem.revision_text[OF assms])

lemma revision_text_replays_witness:
  "\<exists>p m at. GetInternalRevisionAText memory_store 0 p m = Some (Some at, p) \<and> Text at = lit ''a'' @ [newline]"
proof -
  obtain p m at pool where p: "mem_ok m" "pad_Id p = lit ''p''" "pad_Head p = 0" "history (mem_pads m (lit ''p'')) (mem_revs m (lit ''p'')) p"
    and R: "mem_revs m (lit ''p'') = [0 \<mapsto> revision_row (lit ''p'') 0 (lit ''Z:1>1+1$a'') at pool None 0]"
    and t: "Text at = lit ''a'' @ [newline]" by (rule sample_pad)
  have "fits_history (mem_revs m (lit ''p''))"
    by (auto simp: fits_history_def R revision_row_def text_at_def RuneCount_def t simp del: lit_simps split: if_splits)
  moreover have "text_at (mem_revs m (lit ''p'')) 0 = lit ''a'' @ [newline]" by (simp add: R text_at_def revision_row_def t del: lit_simps)
  ultimately show ?thesis using revision_text_replays[OF p(1), of p 0] p(2-4) by (auto simp del: lit_simps)
qed

text \<open>
  C19. A pad that was saved is what a fresh pad with its id is loaded with: the text with its
  attributes, the head and chat revision, the saved revisions, status and type, and a pool
  with the same attributes under the same numbers.
\<close>

theorem saved_pad_loads:
  assumes "mem_ok m" "pool_wf (pad_Pool p)" "DocumentType p \<noteq> []" "mem_revs m (pad_Id p) (pad_Head p) \<noteq> None"
    and "pad_Id q = pad_Id p"
  shows "\<exists>m' q'. Pad_Save memory_store now p m = (None, m') \<and>
    Init memory_store now' txt text author q m' = Some (Inr (), q', m') \<and>
    pad_Id q' = pad_Id p \<and> pad_AText q' = pad_AText p \<and> pad_Head q' = pad_Head p \<and> ChatHead q' = ChatHead p \<and>
    SavedRevisions q' = SavedRevisions p \<and> PublicStatus q' = PublicStatus p \<and> DocumentType q' = DocumentType p \<and>
    ReadonlyId q' = ReadonlyId p \<and> NumToAttrib (pad_Pool q') = NumToAttrib (pad_Pool p) \<and>
    gomap_get (AttribToNum (pad_Pool q')) = gomap_get (AttribToNum (pad_Pool p)) \<and> NextNum (pad_Pool q') = NextNum (pad_Pool p)"
proof -
  obtain e m' where sv: "Pad_Save memory_store now p m = (e, m')" by fastforce
  from mem.save_pad[OF assms(1) sv] have "e = None" by simp
  with sv mem.load_saved[OF assms(1-3) sv assms(4,5)] show ?thesis by blast
qed

lemma saved_pad_loads_witness:
  "\<exists>p q q' m m'. NewPad (lit ''p'') = Inr q \<and> Pad_Save memory_store 1 p m = (None, m') \<and>
     Init memory_store 2 [] None None q m' = Some (Inr (), q', m') \<and> pad_text q' = lit ''a'' @ [newline] \<and> pad_Head q' = 0"
proof -
  obtain p m at pool where p: "mem_ok m" "pad_Id p = lit ''p''" "pad_text p = lit ''a'' @ [newline]" "pad_Head p = 0"
    "DocumentType p = lit ''text''" "history (mem_pads m (lit ''p'')) (mem_revs m (lit ''p'')) p"
    and R: "mem_revs m (lit ''p'') = [0 \<mapsto> revision_row (lit ''p'') 0 (lit ''Z:1>1+1$a'') at pool None 0]" by (rule sample_pad)
  obtain q where q: "NewPad (lit ''p'') = Inr q" "pad_Id q = lit ''p''" using NewPad_history by blast
  have "pool_wf (pad_Pool p)" using p(6) by (simp add: history_def)
  from saved_pad_loads[OF p(1) this, of q 1 2 "[]" None None] p(2,4,5) q R obtain m' q' where
    "Pad_Save memory_store 1 p m = (None, m')" "Init memory_store 2 [] None None q m' = Some (Inr (), q', m')"
    "pad_AText q' = pad_AText p" "pad_Head q' = 0" by auto
  moreover from this(3) p(3) have "pad_text q' = lit ''a'' @ [newline]" by (simp add: pad_text_def del: lit_simps)
  ultimately show ?thesis using q(1) by blast
qed

end
