(* ===== verification/ServerProperties.thy ===== *)
theory ServerProperties
  imports UserChangesSpec PadProperties
begin

text \<open>
  The properties of the server over the in-memory store: what the handler of user changes
  keeps.
\<close>

subsection \<open>The state between two handlers\<close>

definition server_ok :: "MemoryDataStore Server \<Rightarrow> bool" where
  "server_ok st \<longleftrightarrow> mem_ok (srv_store st) \<and>
     (\<forall>i p. Cache_GetPad i (manager st) = Some p \<longrightarrow> pad_Id p = i \<and> good_pad mem_pads mem_revs (srv_store st) p)"

lemma server_okD:
  assumes "server_ok st" "Cache_GetPad i (manager st) = Some p"
  shows "mem_ok (srv_store st)" "pad_Id p = i" "good_pad mem_pads mem_revs (srv_store st) p"
  using assms by (auto simp: server_ok_def)

lemma server_ok_step:
  assumes ok: "server_ok st" and new: "mem_ok (srv_store st')" "only_pad mem_pads mem_revs i st st'"
    and p: "Cache_GetPad i (manager st') = Some p'" "pad_Id p' = i" "good_pad mem_pads mem_revs (srv_store st') p'"
  shows "server_ok st'"
  unfolding server_ok_def
proof (intro conjI allI impI)
  show "mem_ok (srv_store st')" by (rule new)
  fix j q assume q: "Cache_GetPad j (manager st') = Some q"
  show "pad_Id q = j" "good_pad mem_pads mem_revs (srv_store st') q"
    using q p new(2) ok by (cases "j = i"; auto simp: only_pad_def server_ok_def good_pad_def)+
qed

text \<open>A server with one pad and one client.\<close>

definition one_pad :: "Pad \<Rightarrow> MemoryDataStore \<Rightarrow> MemoryDataStore Server" where
  "one_pad p m =
     \<lparr>srv_store = m, manager = Cache_SetPad (pad_Id p) p NewManager,
      sessions = [(lit ''s'', empty_session\<lparr>ses_Author := lit ''a.x'', ses_PadId := pad_Id p\<rparr>)],
      hub = [(0, \<lparr>Send = [], SessionId = lit ''s'', IntegratorSessionID = []\<rparr>)],
      sheets = []\<rparr>"

lemma one_pad_ok:
  assumes "mem_ok m" "good_pad mem_pads mem_revs m p"
  shows "server_ok (one_pad p m)" "Cache_GetPad (pad_Id p) (manager (one_pad p m)) = Some p"
    "getSession (lit ''s'') (sessions (one_pad p m)) = Some (empty_session\<lparr>ses_Author := lit ''a.x'', ses_PadId := pad_Id p\<rparr>)"
  using assms by (simp_all add: server_ok_def one_pad_def getSession_def NewManager_def Cache_GetPad_def Cache_SetPad_def gomap_get_Cons split: if_splits)



end
