(* ===== verification/PadMessages.thy ===== *)
theory PadMessages
  imports UserChanges
begin

text \<open>
  The messages about a pad other than its text, in \<^verbatim>\<open>lib/ws/PadMessageHandler.go\<close>: chat, deletion,
  the name and colour of a user, suggestions to other users, saved revisions and leaving.
\<close>

subsection \<open>Chat\<close>

record ChatMessageData =
  cd_Text :: gostring
  cd_Time :: "millis option"
  cd_UserId :: "gostring option"
  cd_AuthorId :: "gostring option"
  cd_DisplayName :: "gostring option"
  cd_UserName :: "gostring option"

definition FromObject :: "ChatMessageData \<Rightarrow> ChatMessageData" where
  "FromObject original =
     original\<lparr>cd_AuthorId := (if cd_UserId original \<noteq> None \<and> cd_AuthorId original = None
                               then cd_UserId original else cd_AuthorId original),
              cd_UserId := None,
              cd_DisplayName := (if cd_UserName original \<noteq> None \<and> cd_DisplayName original = None
                                  then cd_UserName original else cd_DisplayName original),
              cd_UserName := None\<rparr>"

definition broadcast_chat :: "'s DataStore \<Rightarrow> gostring \<Rightarrow> gostring \<Rightarrow> ChatMessageData \<Rightarrow> 's Server \<Rightarrow> 's Server" where
  "broadcast_chat D padId author m st =
     (let displayName = (case GetAuthorName D author (srv_store st) of
            Inr (Some n) \<Rightarrow> if n \<noteq> [] then Some n else cd_DisplayName m
          | _ \<Rightarrow> cd_DisplayName m)
      in send_room_message padId (ChatBroadCast
           \<lparr>cs_Text = cd_Text m, cs_Time = cd_Time m, cs_UserId = Some author, cs_UserName = displayName\<rparr>) st)"

text \<open>The time and the author are pointers that the handler dereferences.\<close>

definition SendChatMessageToPadClients ::
  "'s DataStore \<Rightarrow> time \<Rightarrow> gostring \<Rightarrow> PadSession \<Rightarrow> ChatMessageData \<Rightarrow> 's Server \<Rightarrow> 's handled" where
  "SendChatMessageToPadClients D now defaultText session m st =
     load_pad D now defaultText (ses_PadId session) (cd_AuthorId m) (\<lambda>pad st1.
       case cd_Time m of
         None \<Rightarrow> panic st1
       | Some t \<Rightarrow>
           (case AppendChatMessage D now (cd_AuthorId m) t (cd_Text m) pad (srv_store st1) of
              (Inl Panic, pad2, s2) \<Rightarrow> panic st1
            | (Inl (Err e), pad2, s2) \<Rightarrow> finish (put_pad (ses_PadId session) pad2 s2 st1)
            | (Inr head, pad2, s2) \<Rightarrow>
                let st2 = put_pad (ses_PadId session) pad2 s2 st1
                in case cd_AuthorId m of
                     None \<Rightarrow> panic st2
                   | Some author \<Rightarrow> finish (broadcast_chat D (ses_PadId session) author m st2))) st"

text \<open>One stored message of the answer to \<^verbatim>\<open>GET_CHAT_MESSAGES\<close>; an empty name is left out.\<close>

definition chat_event :: "ChatMessageDBWithDisplayName \<Rightarrow> ChatMessageSendEvent" where
  "chat_event msg =
     \<lparr>cs_Text = chat_Message (ChatMessage msg), cs_Time = chat_Time (ChatMessage msg),
      cs_UserId = chat_AuthorId (ChatMessage msg),
      cs_UserName = (case DisplayName msg of Some n \<Rightarrow> if n = [] then None else Some n | None \<Rightarrow> None)\<rparr>"

definition HandleGetChatMessages ::
  "'s DataStore \<Rightarrow> time \<Rightarrow> gostring \<Rightarrow> client \<Rightarrow> PadSession \<Rightarrow> int \<Rightarrow> int \<Rightarrow> 's Server \<Rightarrow> 's handled" where
  "HandleGetChatMessages D now defaultText c session start end' st =
     (if start < 0 \<or> end' < 0 \<or> end' - start < 0 \<or> end' - start > 100 then finish st
      else load_pad D now defaultText (ses_PadId session) (Some (ses_Author session)) (\<lambda>pad st1.
        case GetChatMessages D start end' pad (srv_store st1) of
          Inl Panic \<Rightarrow> panic st1
        | Inl (Err e) \<Rightarrow> finish st1
        | Inr msgs \<Rightarrow> finish (send_to c (ChatMessages (map chat_event msgs)) st1)) st)"

subsection \<open>Deletion\<close>

definition ErrorPadDoesNotExist :: string where
  "ErrorPadDoesNotExist = ''pad does not exist''"

text \<open>
  The chat and the revisions are removed after the clients were told, and the pad last. An
  error leaves what was done before it.
\<close>

definition remove_pad_data :: "'s DataStore \<Rightarrow> Pad \<Rightarrow> 's Server \<Rightarrow> goerr option \<times> 's Server" where
  "remove_pad_data D pad st =
     (let st1 = KickSessionsFromPad (pad_Id pad) st
      in case RemoveAllChats D pad (srv_store st1) of
           (Some err, s2) \<Rightarrow> (Some err, set_store s2 st1)
         | (None, s2) \<Rightarrow>
             (case RemoveAllSavedRevisions D pad s2 of
                (Some err, s3) \<Rightarrow> (Some err, set_store s3 st1)
              | (None, s3) \<Rightarrow>
                  (case Manager_RemovePad D (pad_Id pad) (manager st1, s3) of
                     (res, m4, s4) \<Rightarrow> (res, st1\<lparr>manager := m4, srv_store := s4\<rparr>))))"

definition DeletePad :: "'s DataStore \<Rightarrow> time \<Rightarrow> gostring \<Rightarrow> gostring \<Rightarrow> 's Server \<Rightarrow> (goerr option \<times> 's Server) option" where
  "DeletePad D now defaultText padId st =
     (case DoesPadExist D padId (srv_store st) of
        Inl err \<Rightarrow> Some (Some err, st)
      | Inr False \<Rightarrow> Some (Some (Err ErrorPadDoesNotExist), st)
      | Inr True \<Rightarrow>
          (case Manager_GetPad D now defaultText padId None None (manager st, srv_store st) of
             None \<Rightarrow> None
           | Some (Inl err, m, s) \<Rightarrow> Some (Some err, st\<lparr>manager := m, srv_store := s\<rparr>)
           | Some (Inr pad, m, s) \<Rightarrow> Some (remove_pad_data D pad (st\<lparr>manager := m, srv_store := s\<rparr>))))"

text \<open>Only the author of the first revision may delete a pad.\<close>

definition HandlePadDelete :: "'s DataStore \<Rightarrow> time \<Rightarrow> gostring \<Rightarrow> gostring \<Rightarrow> gostring \<Rightarrow> 's Server \<Rightarrow> 's handled" where
  "HandlePadDelete D now defaultText sid padID st =
     (case getSession sid (sessions st) of
        None \<Rightarrow> finish st
      | Some session \<Rightarrow>
          if ses_Author session = [] \<or> ses_PadId session = [] then finish st
          else case DoesPadExist D padID (srv_store st) of
            Inl err \<Rightarrow> finish st
          | Inr False \<Rightarrow> finish st
          | Inr True \<Rightarrow>
              load_pad D now defaultText padID None (\<lambda>pad st1.
                case GetRevisionAuthor D 0 pad (srv_store st1) of
                  Inl Panic \<Rightarrow> panic st1
                | Inl (Err e) \<Rightarrow> finish st1
                | Inr firstContributor \<Rightarrow>
                    if firstContributor \<noteq> ses_Author session then finish st1
                    else case DeletePad D now defaultText (pad_Id pad) st1 of
                      None \<Rightarrow> None
                    | Some (Some Panic, st2) \<Rightarrow> panic st2
                    | Some (res, st2) \<Rightarrow> finish st2) st)"

subsection \<open>Users\<close>

text \<open>\<^verbatim>\<open>^#([A-Fa-f0-9]{6}|[A-Fa-f0-9]{3})$\<close> and the narrower pattern of a client that connects.\<close>

definition color_match :: "gostring \<Rightarrow> bool" where
  "color_match v \<longleftrightarrow> v \<noteq> [] \<and> hd v = 35 \<and> list_all is_hex (tl v) \<and> (length (tl v) = 6 \<or> length (tl v) = 3)"

definition colorRegEx_match :: "gostring \<Rightarrow> bool" where
  "colorRegEx_match v \<longleftrightarrow> v \<noteq> [] \<and> hd v = 35 \<and> list_all is_hex (tl v) \<and> length (tl v) = 6"

text \<open>The errors of the two updates are dropped.\<close>

definition set_author_info :: "'s DataStore \<Rightarrow> gostring \<Rightarrow> gostring option \<Rightarrow> gostring option \<Rightarrow> 's \<Rightarrow> 's" where
  "set_author_info D author colorId name s =
     (let s1 = (case colorId of None \<Rightarrow> s | Some c \<Rightarrow> snd (SetAuthorColor D author c s))
      in case name of None \<Rightarrow> s1 | Some n \<Rightarrow> snd (SetAuthorName D author n s1))"

definition HandleUserInfoUpdate :: "'s DataStore \<Rightarrow> gostring \<Rightarrow> gostring option \<Rightarrow> gostring option \<Rightarrow> 's Server \<Rightarrow> 's handled" where
  "HandleUserInfoUpdate D sid colorId name st =
     (case colorId of
        None \<Rightarrow> finish st
      | Some color \<Rightarrow>
          (case getSession sid (sessions st) of
             None \<Rightarrow> finish st
           | Some session \<Rightarrow>
               if ses_Author session = [] \<or> ses_PadId session = [] then finish st
               else if \<not> color_match color then finish st
               else finish (send_room_message (ses_PadId session)
                 (UserNewInfo \<lparr>ui_UserId = ses_Author session, ui_Name = name, ui_ColorId = color\<rparr>)
                 (set_store (set_author_info D (ses_Author session) (Some color) name (srv_store st)) st))))"

text \<open>A suggested name goes to the clients of the author without a name.\<close>

definition HandleClientMessage :: "ClientMessageData \<Rightarrow> PadSession \<Rightarrow> 's Server \<Rightarrow> 's handled" where
  "HandleClientMessage message session st =
     (if ses_PadId session = [] \<or> ses_Author session = [] then finish st
      else if cm_PayloadType message = lit ''suggestUserName'' then
        if NewName message = [] \<or> UnnamedId message = [] then finish st
        else finish (st\<lparr>hub := send_all (map fst (filter (\<lambda>(c, i).
               (case getSession i (sessions st) of None \<Rightarrow> False | Some target \<Rightarrow> ses_Author target = UnnamedId message))
               (GetRoomSockets (ses_PadId session) st))) (ClientRelay message) (hub st)\<rparr>)
      else finish st)"

text \<open>An error of saving is logged; the loaded pad keeps the new entry.\<close>

definition HandleSavedRevisionMessage ::
  "'s DataStore \<Rightarrow> time \<Rightarrow> gostring \<Rightarrow> gostring \<Rightarrow> Pad \<Rightarrow> gostring \<Rightarrow> 's Server \<Rightarrow> 's Server" where
  "HandleSavedRevisionMessage D now random10 padId foundPad author st =
     (case AddSavedRevision D now random10 author foundPad (srv_store st) of
        (err, pad1, s1) \<Rightarrow> put_pad padId pad1 s1 st)"

definition HandleDisconnectOfPadClient :: "'s DataStore \<Rightarrow> gostring \<Rightarrow> 's Server \<Rightarrow> 's Server" where
  "HandleDisconnectOfPadClient D sid st =
     (case session_ready sid st of
        None \<Rightarrow> st\<lparr>sessions := removeSession sid (sessions st)\<rparr>
      | Some session \<Rightarrow>
          (case GetAuthor D (ses_Author session) (srv_store st) of
             Inl err \<Rightarrow> st
           | Inr author \<Rightarrow>
               let st1 = send_others (ses_PadId session) sid (UserLeave (author_ColorId author) (ses_Author session)) st
               in st1\<lparr>sessions := removeSession sid (sessions st1)\<rparr>))"

text \<open>The users of a pad, for the HTTP API.\<close>

definition GetPadUsers :: "gostring \<Rightarrow> 's Server \<Rightarrow> gostring list" where
  "GetPadUsers padId st = GetPadSessions padId (sessions st)"

definition GetPadUsersCount :: "gostring \<Rightarrow> 's Server \<Rightarrow> int" where
  "GetPadUsersCount padId st = GetPadSessionsCount padId (sessions st)"

end
