(* ===== verification/ExportTxt.thy ===== *)
theory ExportTxt
  imports Pad Json AttributionLines
begin

text \<open>
  The plain text of a pad, \<^verbatim>\<open>lib/pad/exportTxt.go\<close>: lists get their bullets, numbers and tabs. The
  attributes of a line are looked up in a copy of the pool, which shares its maps with the pad.
\<close>

definition SplitRemoveLastRune :: "gostring \<Rightarrow> gostring list" where
  "SplitRemoveLastRune s = (if s = [] then [[]] else str_split (butlast s) newline)"

record LineModel =
  ListLevel :: int
  line_Text :: gostring
  Aline :: gostring
  ListTypeName :: gostring
  line_Start :: gostring

text \<open>\<^verbatim>\<open>^([a-z]+)([0-9]+)\<close>; \<^verbatim>\<open>Atoi\<close> stops at the largest integer, its error is dropped.\<close>

definition parseListType :: "gostring \<Rightarrow> (gostring \<times> int) option" where
  "parseListType listType =
     (let tag = takeWhile (\<lambda>r. 97 \<le> r \<and> r \<le> 122) listType;
          digits = takeWhile is_dec (drop (length tag) listType)
      in if tag = [] \<or> digits = [] then None
         else Some (tag, min (2 ^ 63 - 1) (fold (\<lambda>d n. 10 * n + (d - 48)) digits 0)))"

text \<open>The first operation of a line tells its alignment and its list.\<close>

definition line_list :: "AttributeMap \<Rightarrow> LineModel \<Rightarrow> LineModel" where
  "line_list attribs line =
     (case (case AM_Get (lit ''list'') attribs of None \<Rightarrow> None | Some listType \<Rightarrow> parseListType listType) of
        None \<Rightarrow> line | Some (tag, n) \<Rightarrow> line\<lparr>ListTypeName := tag, ListLevel := n\<rparr>)"

definition line_attribs :: "gostring \<Rightarrow> APool \<Rightarrow> AttributeMap option result" where
  "line_attribs aline attrpool =
     bind_result (DeserializeOps aline) (\<lambda>ops.
       Inr (case ops of [] \<Rightarrow> None | op' # _ \<Rightarrow> Some (FromString (Attribs op') attrpool)))"

definition AnalyzeLine :: "gostring \<Rightarrow> gostring \<Rightarrow> APool \<Rightarrow> (LineModel \<times> APool) result option" where
  "AnalyzeLine text aline attrpool =
     (let line = \<lparr>ListLevel = 0, line_Text = text, Aline = aline, ListTypeName = [], line_Start = []\<rparr>
      in bind_run (Some (line_attribs aline attrpool)) (\<lambda>found.
         case found of
           None \<Rightarrow> Some (Inr (line, attrpool))
         | Some attribs \<Rightarrow>
             let line1 = (line_list attribs line)\<lparr>line_Start := (case AM_Get (lit ''start'') attribs of None \<Rightarrow> [] | Some s \<Rightarrow> s)\<rparr>;
                 pool = caller_pool attrpool (Some (am_pool attribs))
             in if AM_Get (lit ''align'') attribs = None \<and> AM_Get (lit ''list'') attribs = None
                then Some (Inr (line1, pool))
                else bind_run (Subattribution aline 1 None) (\<lambda>lineAline.
                       Some (Inr (line1\<lparr>line_Text := tl text, Aline := lineAline\<rparr>, pool)))))"

subsection \<open>The text of a line\<close>

text \<open>
  The state of the six formatting attributes along a line. The tags they would open and close
  are computed but not written.
\<close>

datatype PropVal = LEAVE | ENTER | STAY | TRUE_VAL | FALSE_VAL

definition export_props :: "gostring list" where
  "export_props = [lit ''heading1'', lit ''heading2'', lit ''bold'', lit ''italic'', lit ''underline'', lit ''strikethrough'']"

definition prop_numbers :: "APool \<Rightarrow> (int, nat) gomap" where
  "prop_numbers pool =
     fold (\<lambda>(prop, index) m.
         let num = fst (PutAttrib \<lparr>Key = prop, Value = lit ''true''\<rparr> (Some True) pool)
         in if num \<ge> 0 then gomap_set m num index else m)
       (zip export_props [0..<length export_props]) []"

definition mark_prop :: "(int, nat) gomap \<Rightarrow> int \<Rightarrow> PropVal list \<times> bool \<Rightarrow> PropVal list \<times> bool" where
  "mark_prop anumMap a = (\<lambda>(propVals, changed).
     (case gomap_get anumMap a of
        None \<Rightarrow> (propVals, changed)
      | Some index \<Rightarrow>
          if propVals ! index = FALSE_VAL then (propVals[index := ENTER], True) else (propVals[index := STAY], changed)))"

definition settle_prop :: "PropVal \<Rightarrow> PropVal" where
  "settle_prop val = (if val = TRUE_VAL then LEAVE else if val = STAY then TRUE_VAL else val)"

definition close_props :: "PropVal list \<Rightarrow> PropVal list" where
  "close_props propVals =
     (let before = takeWhile (\<lambda>v. v \<noteq> LEAVE) propVals;
          after = dropWhile (\<lambda>v. v \<noteq> LEAVE) propVals;
          stayed = before @ map (\<lambda>v. if v = TRUE_VAL then STAY else v) after
      in map (\<lambda>v. if v = LEAVE then FALSE_VAL else if v \<in> {ENTER, STAY} then TRUE_VAL else v) stayed)"

definition step_props :: "(int, nat) gomap \<Rightarrow> int list \<Rightarrow> PropVal list \<Rightarrow> PropVal list" where
  "step_props anumMap nums propVals0 =
     (let (propVals, changed) = fold (mark_prop anumMap) nums (propVals0, False);
          settled = map settle_prop propVals
      in if changed \<or> TRUE_VAL \<in> set propVals then close_props settled else settled)"

text \<open>The characters of each operation, without the line break it ends with.\<close>

fun take_ops :: "(int, nat) gomap \<Rightarrow> Op list \<Rightarrow> PropVal list \<times> StringIterator \<times> StringAssembler \<Rightarrow> StringAssembler result" where
  "take_ops anumMap [] (propVals, taker, asm) = Inr asm"
| "take_ops anumMap (op' # ops) (propVals, taker, asm) =
     bind_result (DecodeAttribString (Attribs op')) (\<lambda>nums.
     bind_result (Take taker (if Lines op' > 0 then Chars op' - 1 else Chars op')) (\<lambda>(s, taker1).
       take_ops anumMap ops (step_props anumMap nums propVals, taker1, SA_Append s asm)))"

definition getLineTxt :: "(int, nat) gomap \<Rightarrow> gostring \<Rightarrow> gostring \<Rightarrow> gostring result option" where
  "getLineTxt anumMap text attribs =
     (if RuneCount text \<le> 0 then Some (Inr [])
      else bind_run (Subattribution attribs 0 (Some (RuneCount text))) (\<lambda>resultingOps.
           Some (bind_result (DeserializeOps resultingOps) (\<lambda>ops.
             bind_result (take_ops anumMap ops
               (replicate (length export_props) FALSE_VAL, NewStringIterator text, NewStringAssembler)) (\<lambda>asm.
               Inr (SA_String asm))))))"

subsection \<open>The text of a pad\<close>

text \<open>The numbers of the open ordered lists, by level.\<close>

definition number_level :: "int \<Rightarrow> int \<Rightarrow> (int, int) gomap \<Rightarrow> (int, int) gomap" where
  "number_level level prevListLevel listNumbers =
     (let ns = (if level < prevListLevel then gomap_del listNumbers prevListLevel else listNumbers);
          ns1 = gomap_set ns level ((case gomap_get ns level of None \<Rightarrow> 0 | Some n \<Rightarrow> n) + 1)
      in fold (\<lambda>x m. if gomap_get m x = None then gomap_set m x 0 else m) [1..level - 1] ns1)"

definition number_prefix :: "int \<Rightarrow> (int, int) gomap \<Rightarrow> gostring" where
  "number_prefix level listNumbers =
     (let number = (\<lambda>x. Itoa (the (gomap_get listNumbers x)))
      in concat (map (\<lambda>x. number x @ lit ''.'') [1..level - 1]) @ number level @ lit ''. '')"

definition line_piece :: "LineModel \<Rightarrow> gostring \<Rightarrow> (int, int) gomap \<times> int \<Rightarrow> gostring \<times> (int, int) gomap \<times> int" where
  "line_piece line content0 = (\<lambda>(listNumbers0, prevListLevel).
     (let content = (if ListTypeName line = lit ''bullet'' then lit ''* '' @ content0 else content0);
          ordered = ListTypeName line = lit ''number'';
          listNumbers = (if ordered then listNumbers0 else [])
      in if ListLevel line > 0 then
           (let tabs = replicate (nat (ListLevel line)) 9
            in if ordered then
                 (let ns = number_level (ListLevel line) prevListLevel listNumbers
                  in (tabs @ number_prefix (ListLevel line) ns @ content @ [newline], ns, ListLevel line))
               else (tabs @ content @ [newline], listNumbers, prevListLevel))
         else (content @ [newline], listNumbers, prevListLevel)))"

fun text_lines :: "(int, nat) gomap \<Rightarrow> gostring list \<Rightarrow> gostring list \<Rightarrow> APool \<Rightarrow> (int, int) gomap \<times> int \<Rightarrow>
    (gostring \<times> APool) result option" where
  "text_lines anumMap [] attribLines pool numbering = Some (Inr ([], pool))"
| "text_lines anumMap (lineText # ls) [] pool numbering = Some (Inl Panic)"
| "text_lines anumMap (lineText # ls) (aline # attribLines) pool numbering =
     bind_run (AnalyzeLine lineText aline pool) (\<lambda>(line, pool1).
     bind_run (getLineTxt anumMap (line_Text line) (Aline line)) (\<lambda>content.
       let (piece, numbering1) = line_piece line content numbering
       in bind_run (text_lines anumMap ls attribLines pool1 numbering1) (\<lambda>(rest, pool2).
            Some (Inr (piece @ rest, pool2)))))"

definition GetTxtFromAText :: "Pad \<Rightarrow> AText \<Rightarrow> (gostring \<times> APool) result option" where
  "GetTxtFromAText pad atext =
     bind_run (Some (SplitAttributionLines (ATAttribs atext) (Text atext))) (\<lambda>attribLines.
       text_lines (prop_numbers (pad_Pool pad)) (SplitRemoveLastRune (Text atext)) attribLines (pad_Pool pad) ([], 0))"

end
