(* ===== verification/PadApi.thy ===== *)
theory PadApi
  imports PadMessages ExportTxt
begin

text \<open>
  The HTTP API of pads: \<^verbatim>\<open>init.go\<close>, \<^verbatim>\<open>operations.go\<close>, \<^verbatim>\<open>copyMove.go\<close> and \<^verbatim>\<open>messaging.go\<close> of
  \<^verbatim>\<open>lib/api/pad\<close>. A handler gets the parameters of its route and query and its decoded body
  (\<open>None\<close>: the body could not be decoded), and gives the answer and the server. What depends on the
  HTML exporter and importer is left out, as are the hooks.

  The other operations of the HTTP API of pads (\<^verbatim>\<open>operations.go\<close>, \<^verbatim>\<open>copyMove.go\<close>, \<^verbatim>\<open>messaging.go\<close> of
  \<^verbatim>\<open>lib/api/pad\<close>): reading a pad, its chat and its saved revisions, creating and deleting pads,
  copying and moving them, and messages to the clients of a pad.
\<close>

section \<open>The first handlers\<close>

subsection \<open>Answers\<close>

record ApiError =
  message :: string
  error_code :: int

datatype 'b response = Reply 'b | Done | Refuse int ApiError

type_synonym ('s, 'b) answer = "('b response result \<times> 's Server) option"

definition InternalApiError :: ApiError where "InternalApiError = \<lparr>message = ''Internal API Error'', error_code = 1\<rparr>"
definition InvalidRevisionError :: ApiError where "InvalidRevisionError = \<lparr>message = ''Invalid revision number'', error_code = 400\<rparr>"
definition RevisionHigherThanHeadError :: ApiError where
  "RevisionHigherThanHeadError = \<lparr>message = ''Revision number is higher than head'', error_code = 400\<rparr>"
definition InvalidRequestError :: ApiError where "InvalidRequestError = \<lparr>message = ''Invalid request'', error_code = 400\<rparr>"
definition NewInvalidParamError :: "string \<Rightarrow> ApiError" where
  "NewInvalidParamError paramName = \<lparr>message = ''Invalid parameter: '' @ paramName, error_code = 400\<rparr>"
definition NewMissingParamError :: "string \<Rightarrow> ApiError" where
  "NewMissingParamError paramName = \<lparr>message = ''Missing parameter: '' @ paramName, error_code = 400\<rparr>"
definition PadNotFoundError :: ApiError where "PadNotFoundError = \<lparr>message = ''Pad not found'', error_code = 404\<rparr>"
definition NotAGroupPadError :: ApiError where
  "NotAGroupPadError = \<lparr>message = ''You can only get/set the publicStatus of pads that belong to a group'', error_code = 400\<rparr>"
definition RevisionNotFoundError :: ApiError where "RevisionNotFoundError = \<lparr>message = ''Revision not found'', error_code = 404\<rparr>"
definition InternalServerError :: ApiError where "InternalServerError = \<lparr>message = ''Internal server error'', error_code = 500\<rparr>"
definition PadAlreadyExistsError :: ApiError where "PadAlreadyExistsError = \<lparr>message = ''Pad already exists'', error_code = 409\<rparr>"

definition reply :: "'b response \<Rightarrow> 's Server \<Rightarrow> ('s, 'b) answer" where
  "reply r st = Some (Inr r, st)"

definition api_panic :: "'s Server \<Rightarrow> ('s, 'b) answer" where
  "api_panic st = Some (Inl Panic, st)"

text \<open>A step with an error that a handler answers with a status.\<close>

definition refuse_error :: "int \<Rightarrow> ApiError \<Rightarrow> goerr \<Rightarrow> 's Server \<Rightarrow> ('s, 'b) answer" where
  "refuse_error status e err st = (if err = Panic then api_panic st else reply (Refuse status e) st)"

subsection \<open>The pad of a request\<close>

definition GetPadSafe ::
  "'s DataStore \<Rightarrow> time \<Rightarrow> gostring \<Rightarrow> gostring \<Rightarrow> bool \<Rightarrow> gostring option \<Rightarrow> gostring option \<Rightarrow> Manager \<times> 's \<Rightarrow>
   (Pad result \<times> Manager \<times> 's) option" where
  "GetPadSafe D now defaultText padID shouldExist text authorId = (\<lambda>(m, s).
     (if \<not> IsValidPadId padID then Some (Inl (Err ''padID is not valid''), m, s)
      else case DoesPadExist D padID s of
        Inl err \<Rightarrow> Some (Inl err, m, s)
      | Inr exists' \<Rightarrow>
          if \<not> exists' \<and> shouldExist then Some (Inl (Err ''padID does not exist''), m, s)
          else if exists' \<and> \<not> shouldExist then Some (Inl (Err ''padID already exists''), m, s)
          else Manager_GetPad D now defaultText padID text authorId (m, s)))"

text \<open>Every handler of an existing pad starts like this.\<close>

definition with_pad ::
  "'s DataStore \<Rightarrow> time \<Rightarrow> gostring \<Rightarrow> gostring \<Rightarrow> (Pad \<Rightarrow> 's Server \<Rightarrow> ('s, 'b) answer) \<Rightarrow> 's Server \<Rightarrow> ('s, 'b) answer" where
  "with_pad D now defaultText padId f st =
     (case GetPadSafe D now defaultText padId True None None (manager st, srv_store st) of
        None \<Rightarrow> None
      | Some (Inl err, m, s) \<Rightarrow> refuse_error 404 PadNotFoundError err (st\<lparr>manager := m, srv_store := s\<rparr>)
      | Some (Inr pad, m, s) \<Rightarrow> f pad (st\<lparr>manager := m, srv_store := s\<rparr>))"

text \<open>A revision in the query, at most the head.\<close>

definition with_rev :: "gostring \<Rightarrow> Pad \<Rightarrow> (int \<Rightarrow> ('s, 'b) answer) \<Rightarrow> 's Server \<Rightarrow> ('s, 'b) answer" where
  "with_rev rev' pad f st =
     (case CheckValidRev rev' of
        Inl err \<Rightarrow> reply (Refuse 400 InvalidRevisionError) st
      | Inr revNum \<Rightarrow>
          if revNum > pad_Head pad then reply (Refuse 400 RevisionHigherThanHeadError) st else f revNum)"

text \<open>The clients are told after a change of the text, unless it failed.\<close>

definition announce_change ::
  "'s DataStore \<Rightarrow> gostring \<Rightarrow> unit result \<times> Pad \<times> 's \<Rightarrow> 's Server \<Rightarrow> ('s, 'b) answer" where
  "announce_change D padId = (\<lambda>(res, pad, s) st.
     (let st1 = put_pad padId pad s st
      in case res of
           Inl err \<Rightarrow> refuse_error 500 InternalServerError err st1
         | Inr _ \<Rightarrow> (case UpdatePadClients D pad st1 of Inl err \<Rightarrow> api_panic st1 | Inr st2 \<Rightarrow> reply Done st2)))"

definition nonempty :: "gostring \<Rightarrow> gostring option" where
  "nonempty s = (if s = [] then None else Some s)"

subsection \<open>init.go\<close>

definition GetPadText ::
  "'s DataStore \<Rightarrow> time \<Rightarrow> gostring \<Rightarrow> gostring \<Rightarrow> gostring \<Rightarrow> 's Server \<Rightarrow> ('s, gostring) answer" where
  "GetPadText D now defaultText padId optRev =
     with_pad D now defaultText padId (\<lambda>foundPad st.
       if optRev \<noteq> [] then
         with_rev optRev foundPad (\<lambda>revNum.
           case GetInternalRevisionAText D revNum foundPad (srv_store st) of
             None \<Rightarrow> None
           | Some (None, pad1) \<Rightarrow> reply (Refuse 500 InternalApiError) (put_pad padId pad1 (srv_store st) st)
           | Some (Some foundText, pad1) \<Rightarrow> reply (Reply (Text foundText)) (put_pad padId pad1 (srv_store st) st)) st
       else
         case GetTxtFromAText foundPad (pad_AText foundPad) of
           None \<Rightarrow> None
         | Some (Inl err) \<Rightarrow> refuse_error 500 InternalApiError err st
         | Some (Inr (text, pool)) \<Rightarrow> reply (Reply text) (put_pad padId (foundPad\<lparr>pad_Pool := pool\<rparr>) (srv_store st) st))"

definition GetAttributePool :: "'s DataStore \<Rightarrow> time \<Rightarrow> gostring \<Rightarrow> gostring \<Rightarrow> 's Server \<Rightarrow> ('s, APool) answer" where
  "GetAttributePool D now defaultText padId =
     with_pad D now defaultText padId (\<lambda>pad st. reply (Reply (pad_Pool pad)) st)"

definition revision_reply :: "'s DataStore \<Rightarrow> Pad \<Rightarrow> int \<Rightarrow> 's Server \<Rightarrow> ('s, gostring) answer" where
  "revision_reply D pad revNum st =
     (case Pad_GetRevision D revNum pad (srv_store st) of
        Inl err \<Rightarrow> refuse_error 404 RevisionNotFoundError err st
      | Inr revision \<Rightarrow> reply (Reply (rev_Changeset revision)) st)"

definition Api_GetRevisionChangeset ::
  "'s DataStore \<Rightarrow> time \<Rightarrow> gostring \<Rightarrow> gostring \<Rightarrow> gostring \<Rightarrow> 's Server \<Rightarrow> ('s, gostring) answer" where
  "Api_GetRevisionChangeset D now defaultText padId rev' st =
     (case CheckValidRev rev' of
        Inl err \<Rightarrow> reply (Refuse 400 InvalidRevisionError) st
      | Inr revNum \<Rightarrow>
          with_pad D now defaultText padId (\<lambda>pad st1.
            if revNum > pad_Head pad then reply (Refuse 400 RevisionHigherThanHeadError) st1
            else revision_reply D pad revNum st1) st)"

text \<open>The body: the text and the author.\<close>

definition SetPadText ::
  "'s DataStore \<Rightarrow> time \<Rightarrow> gostring \<Rightarrow> gostring \<Rightarrow> (gostring \<times> gostring) option \<Rightarrow> 's Server \<Rightarrow> ('s, unit) answer" where
  "SetPadText D now defaultText padId request st =
     (case request of
        None \<Rightarrow> reply (Refuse 400 InvalidRequestError) st
      | Some (text, author) \<Rightarrow>
          with_pad D now defaultText padId (\<lambda>pad st1.
            case SetText D now text (nonempty author) pad (srv_store st1) of
              None \<Rightarrow> None
            | Some changed \<Rightarrow> announce_change D padId changed st1) st)"

subsection \<open>operations.go: restoring a revision\<close>

text \<open>
  \<^verbatim>\<open>s[start:end]\<close> on bytes. A cut inside a rune leaves a string that is not valid; it is not
  modelled (\<open>None\<close>).
\<close>

fun drop_bytes :: "int \<Rightarrow> gostring \<Rightarrow> gostring option" where
  "drop_bytes n [] = (if n = 0 then Some [] else None)"
| "drop_bytes n (r # s) =
     (if n = 0 then Some (r # s) else if n < 0 then None else drop_bytes (n - int (length (utf8 r))) s)"

fun take_bytes :: "int \<Rightarrow> gostring \<Rightarrow> gostring option" where
  "take_bytes n [] = (if n = 0 then Some [] else None)"
| "take_bytes n (r # s) =
     (if n = 0 then Some [] else if n < 0 then None else map_option (Cons r) (take_bytes (n - int (length (utf8 r))) s))"

definition byte_slice :: "gostring \<Rightarrow> int \<Rightarrow> int \<Rightarrow> gostring option" where
  "byte_slice s start end' = Option.bind (drop_bytes start s) (take_bytes (end' - start))"

definition byte_len :: "gostring \<Rightarrow> int" where
  "byte_len s = int (length (bytes_of s))"

text \<open>The attribute runs of the old text are counted in runes, the text is cut in bytes.\<close>

fun insert_runs :: "gostring \<Rightarrow> Op list \<Rightarrow> int \<Rightarrow> Builder \<Rightarrow> Builder result option" where
  "insert_runs atextText [] textIndex b = Some (Inr b)"
| "insert_runs atextText (op' # ops) textIndex b =
     (let nextIndex = textIndex + Chars op'; newTextEnd = byte_len atextText
      in if nextIndex \<le> 0 \<or> textIndex \<ge> newTextEnd then insert_runs atextText ops nextIndex b
         else case byte_slice atextText (max 0 textIndex) (min newTextEnd nextIndex) of
           None \<Rightarrow> None
         | Some piece \<Rightarrow>
             bind_run (Some (Builder_Insert piece \<lparr>stringAttribs = None, apoolAttribs = None\<rparr> None b)) (\<lambda>(b1, _).
               insert_runs atextText ops nextIndex b1))"

definition last_newline :: "gostring \<Rightarrow> int" where
  "last_newline s =
     (if newline \<notin> set s then -1 else byte_len (rev (tl (dropWhile (\<lambda>r. r \<noteq> newline) (rev s)))))"

definition remove_old_text :: "gostring \<Rightarrow> Builder \<Rightarrow> Builder" where
  "remove_old_text oldText b =
     (let lastNewlinePos = last_newline oldText
      in if lastNewlinePos < 0 then Builder_Remove (byte_len oldText - 1) 0 b
         else Builder_Remove (byte_len oldText - lastNewlinePos - 1) 0
                (Builder_Remove lastNewlinePos (int (count_list oldText newline) - 1) b))"

definition restore_changeset :: "gostring \<Rightarrow> AText \<Rightarrow> gostring result option" where
  "restore_changeset oldText atext =
     bind_run (Some (DeserializeOps (ATAttribs atext))) (\<lambda>ops.
     bind_run (insert_runs (Text atext @ [newline]) ops 0 (NewBuilder (byte_len oldText))) (\<lambda>b.
       Some (Inr (fst (Builder_ToString (remove_old_text oldText b))))))"

text \<open>The body: the revision and the author.\<close>

definition RestoreRevision ::
  "'s DataStore \<Rightarrow> time \<Rightarrow> gostring \<Rightarrow> gostring \<Rightarrow> (int \<times> gostring) option \<Rightarrow> 's Server \<Rightarrow> ('s, unit) answer" where
  "RestoreRevision D now defaultText padId request st =
     (case request of
        None \<Rightarrow> reply (Refuse 400 InvalidRequestError) st
      | Some (rev', author) \<Rightarrow>
          with_pad D now defaultText padId (\<lambda>pad st1.
            if rev' > pad_Head pad then reply (Refuse 400 RevisionHigherThanHeadError) st1
            else case GetInternalRevisionAText D rev' pad (srv_store st1) of
              None \<Rightarrow> None
            | Some (None, pad1) \<Rightarrow> reply (Refuse 500 InternalApiError) (put_pad padId pad1 (srv_store st1) st1)
            | Some (Some atext, pad1) \<Rightarrow>
                let st2 = put_pad padId pad1 (srv_store st1) st1
                in case restore_changeset (pad_text pad1) atext of
                     None \<Rightarrow> None
                   | Some (Inl err) \<Rightarrow> refuse_error 500 InternalApiError err st2
                   | Some (Inr cs) \<Rightarrow>
                       (case AppendRevision D now cs (Some author) pad1 (srv_store st2) of
                          None \<Rightarrow> None
                        | Some (res, changed) \<Rightarrow> announce_change D padId (map_sum id (\<lambda>_. ()) res, changed) st2)) st)"

section \<open>The other handlers\<close>

subsection \<open>Reading\<close>

definition GetReadOnlyID ::
  "'s DataStore \<Rightarrow> time \<Rightarrow> gostring \<Rightarrow> gostring \<Rightarrow> gostring \<Rightarrow> 's Server \<Rightarrow> ('s, gostring) answer" where
  "GetReadOnlyID D now defaultText random16 padId =
     with_pad D now defaultText padId (\<lambda>pad st.
       case GetReadOnlyId D now random16 padId (srv_store st) of
         (readOnlyID, s) \<Rightarrow> reply (Reply readOnlyID) (set_store s st))"

definition Api_GetPadID :: "'s DataStore \<Rightarrow> gostring \<Rightarrow> 's Server \<Rightarrow> ('s, gostring) answer" where
  "Api_GetPadID D roId st =
     (case GetPadId D roId (srv_store st) of
        Inr (Some padID) \<Rightarrow> reply (Reply padID) st
      | _ \<Rightarrow> reply (Refuse 404 PadNotFoundError) st)"

definition authors_of_pool :: "APool \<Rightarrow> gostring list" where
  "authors_of_pool pool =
     fold (\<lambda>(num, attr) ids.
         if Key attr = lit ''author'' \<and> Value attr \<noteq> [] \<and> Value attr \<noteq> SystemAuthorId \<and> Value attr \<notin> set ids
         then ids @ [Value attr] else ids)
       (NumToAttrib pool) []"

definition ListAuthorsOfPad :: "'s DataStore \<Rightarrow> time \<Rightarrow> gostring \<Rightarrow> gostring \<Rightarrow> 's Server \<Rightarrow> ('s, gostring list) answer" where
  "ListAuthorsOfPad D now defaultText padId =
     with_pad D now defaultText padId (\<lambda>pad st. reply (Reply (authors_of_pool (pad_Pool pad))) st)"

definition GetChatHead :: "'s DataStore \<Rightarrow> time \<Rightarrow> gostring \<Rightarrow> gostring \<Rightarrow> 's Server \<Rightarrow> ('s, int) answer" where
  "GetChatHead D now defaultText padId = with_pad D now defaultText padId (\<lambda>pad st. reply (Reply (ChatHead pad)) st)"

definition GetRevisionsCount :: "'s DataStore \<Rightarrow> time \<Rightarrow> gostring \<Rightarrow> gostring \<Rightarrow> 's Server \<Rightarrow> ('s, int) answer" where
  "GetRevisionsCount D now defaultText padId = with_pad D now defaultText padId (\<lambda>pad st. reply (Reply (pad_Head pad)) st)"

definition GetLastEdited :: "'s DataStore \<Rightarrow> time \<Rightarrow> gostring \<Rightarrow> gostring \<Rightarrow> 's Server \<Rightarrow> ('s, millis) answer" where
  "GetLastEdited D now defaultText padId =
     with_pad D now defaultText padId (\<lambda>pad st.
       reply (Reply (case UpdatedAt pad of None \<Rightarrow> 0 | Some t \<Rightarrow> millis_of t)) st)"

definition GetRevisionChangesetOptional ::
  "'s DataStore \<Rightarrow> time \<Rightarrow> gostring \<Rightarrow> gostring \<Rightarrow> gostring \<Rightarrow> 's Server \<Rightarrow> ('s, gostring) answer" where
  "GetRevisionChangesetOptional D now defaultText padId revStr =
     with_pad D now defaultText padId (\<lambda>pad st.
       if revStr \<noteq> [] then with_rev revStr pad (\<lambda>revNum. revision_reply D pad revNum st) st
       else revision_reply D pad (pad_Head pad) st)"

definition ListAllPads :: "'s DataStore \<Rightarrow> 's Server \<Rightarrow> ('s, gostring list) answer" where
  "ListAllPads D st =
     (case ds_GetPadIds D (srv_store st) of
        Inl err \<Rightarrow> refuse_error 500 InternalServerError err st | Inr pads \<Rightarrow> reply (Reply pads) st)"

text \<open>The id, the colour and the name of the users in a pad; what cannot be read is empty.\<close>

definition pad_user :: "'s DataStore \<Rightarrow> 's \<Rightarrow> gostring \<Rightarrow> gostring \<times> gostring \<times> gostring" where
  "pad_user D s user =
     (case GetAuthor D user s of
        Inl err \<Rightarrow> (user, [], [])
      | Inr a \<Rightarrow> (user, author_ColorId a, (case author_Name a of None \<Rightarrow> [] | Some n \<Rightarrow> n)))"

definition Api_GetPadUsers ::
  "'s DataStore \<Rightarrow> time \<Rightarrow> gostring \<Rightarrow> gostring \<Rightarrow> 's Server \<Rightarrow> ('s, (gostring \<times> gostring \<times> gostring) list) answer" where
  "Api_GetPadUsers D now defaultText padId =
     with_pad D now defaultText padId (\<lambda>pad st. reply (Reply (map (pad_user D (srv_store st)) (GetPadUsers padId st))) st)"

definition Api_GetPadUsersCount :: "'s DataStore \<Rightarrow> time \<Rightarrow> gostring \<Rightarrow> gostring \<Rightarrow> 's Server \<Rightarrow> ('s, int) answer" where
  "Api_GetPadUsersCount D now defaultText padId =
     with_pad D now defaultText padId (\<lambda>pad st. reply (Reply (GetPadUsersCount padId st)) st)"

subsection \<open>Chat and saved revisions\<close>

text \<open>The range of messages that is asked for, or why it is refused.\<close>

definition chat_range :: "gostring \<Rightarrow> gostring \<Rightarrow> int \<Rightarrow> string + int \<times> int" where
  "chat_range startStr endStr chatHead =
     (if startStr = [] \<or> endStr = [] then Inr (0, chatHead)
      else case CheckValidRev startStr of
        Inl err \<Rightarrow> Inl ''start must be a non-negative number''
      | Inr start \<Rightarrow>
          if start < 0 then Inl ''start must be a non-negative number''
          else case CheckValidRev endStr of
            Inl err \<Rightarrow> Inl ''end must be a non-negative number''
          | Inr end' \<Rightarrow>
              if end' < 0 then Inl ''end must be a non-negative number''
              else if start > end' then Inl ''start is higher than end''
              else if start > chatHead then Inl ''start is higher than the current chatHead''
              else if end' > chatHead then Inl ''end is higher than the current chatHead''
              else Inr (start, end'))"

record ChatMessageResponse =
  resp_Text :: gostring
  resp_AuthorID :: gostring
  resp_Time :: millis
  resp_UserName :: gostring

definition chat_response :: "ChatMessageDBWithDisplayName \<Rightarrow> ChatMessageResponse" where
  "chat_response msg =
     \<lparr>resp_Text = chat_Message (ChatMessage msg),
      resp_AuthorID = (case chat_AuthorId (ChatMessage msg) of None \<Rightarrow> [] | Some a \<Rightarrow> a),
      resp_Time = (case chat_Time (ChatMessage msg) of None \<Rightarrow> 0 | Some t \<Rightarrow> t),
      resp_UserName = (case DisplayName msg of None \<Rightarrow> [] | Some n \<Rightarrow> n)\<rparr>"

definition GetChatHistory ::
  "'s DataStore \<Rightarrow> time \<Rightarrow> gostring \<Rightarrow> gostring \<Rightarrow> gostring \<Rightarrow> gostring \<Rightarrow> 's Server \<Rightarrow> ('s, ChatMessageResponse list) answer" where
  "GetChatHistory D now defaultText padId startStr endStr =
     with_pad D now defaultText padId (\<lambda>pad st.
       case chat_range startStr endStr (ChatHead pad) of
         Inl why \<Rightarrow> reply (Refuse 400 (NewInvalidParamError why)) st
       | Inr (start, end') \<Rightarrow>
           (case GetChatMessages D start end' pad (srv_store st) of
              Inl err \<Rightarrow> refuse_error 500 InternalServerError err st
            | Inr messages \<Rightarrow> reply (Reply (map chat_response messages)) st))"

text \<open>The body: the text, the author and the time, 0 for now.\<close>

definition Api_AppendChatMessage ::
  "'s DataStore \<Rightarrow> time \<Rightarrow> gostring \<Rightarrow> gostring \<Rightarrow> (gostring \<times> gostring \<times> millis) option \<Rightarrow> 's Server \<Rightarrow> ('s, unit) answer" where
  "Api_AppendChatMessage D now defaultText padId request st =
     (case request of
        None \<Rightarrow> reply (Refuse 400 InvalidRequestError) st
      | Some (text, author, t) \<Rightarrow>
          if text = [] then reply (Refuse 400 (NewInvalidParamError ''text is required'')) st
          else with_pad D now defaultText padId (\<lambda>pad st1.
            case AppendChatMessage D now (Some author) (if t = 0 then millis_of now else t) text pad (srv_store st1) of
              (Inl err, pad1, s) \<Rightarrow> refuse_error 500 InternalServerError err (put_pad padId pad1 s st1)
            | (Inr head, pad1, s) \<Rightarrow> reply Done (put_pad padId pad1 s st1)) st)"

definition GetSavedRevisionsCount :: "'s DataStore \<Rightarrow> time \<Rightarrow> gostring \<Rightarrow> gostring \<Rightarrow> 's Server \<Rightarrow> ('s, int) answer" where
  "GetSavedRevisionsCount D now defaultText padId =
     with_pad D now defaultText padId (\<lambda>pad st. reply (Reply (int (length (SavedRevisions pad)))) st)"

definition ListSavedRevisions :: "'s DataStore \<Rightarrow> time \<Rightarrow> gostring \<Rightarrow> gostring \<Rightarrow> 's Server \<Rightarrow> ('s, int list) answer" where
  "ListSavedRevisions D now defaultText padId =
     with_pad D now defaultText padId (\<lambda>pad st. reply (Reply (map sr_RevNum (SavedRevisions pad))) st)"

text \<open>The number of the body is checked, but the head is what is saved.\<close>

definition SaveRevision ::
  "'s DataStore \<Rightarrow> time \<Rightarrow> gostring \<Rightarrow> drawn \<Rightarrow> gostring \<Rightarrow> gostring \<Rightarrow> int \<Rightarrow> 's Server \<Rightarrow> ('s, unit) answer" where
  "SaveRevision D now defaultText rnd random10 padId rev' =
     with_pad D now defaultText padId (\<lambda>pad st.
       if rev' > pad_Head pad then reply (Refuse 400 RevisionHigherThanHeadError) st
       else case CreateAuthor D now rnd None (srv_store st) of
         (Inl err, s) \<Rightarrow> refuse_error 500 InternalServerError err (set_store s st)
       | (Inr apiAuthor, s) \<Rightarrow>
           (case AddSavedRevision D now random10 (author_Id apiAuthor) pad s of
              (Some err, pad1, s1) \<Rightarrow> refuse_error 500 InternalServerError err (put_pad padId pad1 s1 st)
            | (None, pad1, s1) \<Rightarrow> reply Done (put_pad padId pad1 s1 st)))"

subsection \<open>Creating, changing and deleting\<close>

definition Api_CreatePad ::
  "'s DataStore \<Rightarrow> time \<Rightarrow> gostring \<Rightarrow> gostring \<Rightarrow> gostring \<Rightarrow> gostring \<Rightarrow> 's Server \<Rightarrow> ('s, unit) answer" where
  "Api_CreatePad D now defaultText padId text author st =
     (if 36 \<in> set padId then reply (Refuse 400 (NewInvalidParamError ''createPad can't create group pads'')) st
      else if \<exists>r \<in> set (lit ''/?&#''). r \<in> set padId then
        reply (Refuse 400 (NewInvalidParamError ''malformed padID: Remove special characters'')) st
      else case DoesPadExist D padId (srv_store st) of
        Inl err \<Rightarrow> refuse_error 500 InternalServerError err st
      | Inr True \<Rightarrow> reply (Refuse 409 (NewInvalidParamError ''pad already exists'')) st
      | Inr False \<Rightarrow>
          (case Manager_GetPad D now defaultText padId (nonempty text) (nonempty author) (manager st, srv_store st) of
             None \<Rightarrow> None
           | Some (Inl err, m, s) \<Rightarrow> refuse_error 500 InternalServerError err (st\<lparr>manager := m, srv_store := s\<rparr>)
           | Some (Inr pad, m, s) \<Rightarrow> reply Done (st\<lparr>manager := m, srv_store := s\<rparr>)))"

text \<open>The text goes in front of the newline at the end, by setting the whole text.\<close>

definition AppendText ::
  "'s DataStore \<Rightarrow> time \<Rightarrow> gostring \<Rightarrow> gostring \<Rightarrow> (gostring \<times> gostring) option \<Rightarrow> 's Server \<Rightarrow> ('s, unit) answer" where
  "AppendText D now defaultText padId request st =
     (case request of
        None \<Rightarrow> reply (Refuse 400 InvalidRequestError) st
      | Some (text, author) \<Rightarrow>
          if text = [] then reply (Refuse 400 (NewInvalidParamError ''text is required'')) st
          else with_pad D now defaultText padId (\<lambda>pad st1.
            let currentText = (if has_suffix (pad_text pad) [newline] then butlast (pad_text pad) else pad_text pad)
            in case SetText D now (currentText @ text) (nonempty author) pad (srv_store st1) of
                 None \<Rightarrow> None
               | Some changed \<Rightarrow> announce_change D padId changed st1) st)"

definition remove_and_answer :: "'s DataStore \<Rightarrow> gostring \<Rightarrow> 'b response \<Rightarrow> 's Server \<Rightarrow> ('s, 'b) answer" where
  "remove_and_answer D padId r st =
     (case Manager_RemovePad D padId (manager st, srv_store st) of
        (Some err, m, s) \<Rightarrow> refuse_error 500 InternalServerError err (st\<lparr>manager := m, srv_store := s\<rparr>)
      | (None, m, s) \<Rightarrow> reply r (st\<lparr>manager := m, srv_store := s\<rparr>))"

definition Api_DeletePad :: "'s DataStore \<Rightarrow> time \<Rightarrow> gostring \<Rightarrow> gostring \<Rightarrow> 's Server \<Rightarrow> ('s, unit) answer" where
  "Api_DeletePad D now defaultText padId =
     with_pad D now defaultText padId (\<lambda>pad. remove_and_answer D padId Done)"

text \<open>The message of the type that the body names.\<close>

definition SendClientsMessage ::
  "'s DataStore \<Rightarrow> time \<Rightarrow> gostring \<Rightarrow> gostring \<Rightarrow> gostring option \<Rightarrow> 's Server \<Rightarrow> ('s, unit) answer" where
  "SendClientsMessage D now defaultText padId request st =
     (case request of
        None \<Rightarrow> reply (Refuse 400 InvalidRequestError) st
      | Some msg \<Rightarrow>
          if msg = [] then reply (Refuse 400 (NewMissingParamError ''msg'')) st
          else with_pad D now defaultText padId (\<lambda>pad st1. reply Done (SendCustomMessageToPad now padId msg st1)) st)"

subsection \<open>copyMove.go\<close>

text \<open>\<open>Inl\<close> is the status and the error of a refusal.\<close>

definition prepareCopyDestination :: "'s DataStore \<Rightarrow> gostring \<Rightarrow> bool \<Rightarrow> 's Server \<Rightarrow> (int \<times> ApiError) option \<times> 's Server" where
  "prepareCopyDestination D destinationID force st =
     (if destinationID = [] then (Some (400, NewMissingParamError ''destinationID''), st)
      else if \<not> IsValidPadId destinationID then
        (Some (400, NewInvalidParamError ''destinationID is not a valid pad ID''), st)
      else case DoesPadExist D destinationID (srv_store st) of
        Inl err \<Rightarrow> (Some (500, InternalServerError), st)
      | Inr False \<Rightarrow> (None, st)
      | Inr True \<Rightarrow>
          if \<not> force then (Some (409, PadAlreadyExistsError), st)
          else case Manager_RemovePad D destinationID (manager st, srv_store st) of
            (Some err, m, s) \<Rightarrow> (Some (500, InternalServerError), st\<lparr>manager := m, srv_store := s\<rparr>)
          | (None, m, s) \<Rightarrow> (None, st\<lparr>manager := m, srv_store := s\<rparr>))"

text \<open>A loop over rows that saves each and stops at the first error.\<close>

fun save_each :: "('a \<Rightarrow> 's \<Rightarrow> goerr option \<times> 's) \<Rightarrow> 'a list \<Rightarrow> 's \<Rightarrow> goerr option \<times> 's" where
  "save_each save [] s = (None, s)"
| "save_each save (x # xs) s =
     (case save x s of (Some err, s1) \<Rightarrow> (Some err, s1) | (None, s1) \<Rightarrow> save_each save xs s1)"

definition copy_revision :: "'s DataStore \<Rightarrow> gostring \<Rightarrow> PadSingleRevision \<Rightarrow> 's \<Rightarrow> goerr option \<times> 's" where
  "copy_revision D destinationID r =
     ds_SaveRevision D destinationID (rev_RevNum r) (rev_Changeset r) (rev_AText r)
       (case rev_Pool r of None \<Rightarrow> \<lparr>RevNumToAttrib = [], RevNextNum = 0, RevAttribToNum = []\<rparr> | Some pool \<Rightarrow> pool)
       (rev_AuthorId r) (rev_Timestamp r)"

definition copy_message :: "'s DataStore \<Rightarrow> gostring \<Rightarrow> ChatMessageDBWithDisplayName \<Rightarrow> 's \<Rightarrow> goerr option \<times> 's" where
  "copy_message D destinationID msg =
     ds_SaveChatMessage D destinationID (chat_Head (ChatMessage msg)) (chat_AuthorId (ChatMessage msg))
       (case chat_Time (ChatMessage msg) of None \<Rightarrow> 0 | Some t \<Rightarrow> t) (chat_Message (ChatMessage msg))"

definition copy_rows ::
  "('s \<Rightarrow> 'a list result) \<Rightarrow> ('a \<Rightarrow> 's \<Rightarrow> goerr option \<times> 's) \<Rightarrow> bool \<Rightarrow> 's \<Rightarrow> goerr option \<times> 's" where
  "copy_rows rows save present s =
     (if \<not> present then (None, s)
      else case rows s of Inl err \<Rightarrow> (Some err, s) | Inr xs \<Rightarrow> save_each save xs s)"

definition copyPadRecords :: "'s DataStore \<Rightarrow> time \<Rightarrow> gostring \<Rightarrow> gostring \<Rightarrow> Manager \<times> 's \<Rightarrow> goerr option \<times> Manager \<times> 's" where
  "copyPadRecords D now sourceID destinationID = (\<lambda>(m, s).
     (case ds_GetPad D sourceID s of
        Inl err \<Rightarrow> (Some err, m, s)
      | Inr sourceDB \<Rightarrow>
          (case ds_CreatePad D now destinationID (sourceDB\<lparr>pdb_ID := destinationID, pdb_ReadOnlyId := None\<rparr>) s of
             (Some err, s1) \<Rightarrow> (Some err, m, s1)
           | (None, s1) \<Rightarrow>
               (case copy_rows (ds_GetRevisions D sourceID 0 (pdb_Head sourceDB)) (copy_revision D destinationID)
                       (pdb_Head sourceDB \<ge> 0) s1 of
                  (Some err, s2) \<Rightarrow> (Some err, m, s2)
                | (None, s2) \<Rightarrow>
                    (case copy_rows (ds_GetChatsOfPad D sourceID 0 (pdb_ChatHead sourceDB)) (copy_message D destinationID)
                            (pdb_ChatHead sourceDB \<ge> 0) s2 of
                       (Some err, s3) \<Rightarrow> (Some err, m, s3)
                     | (None, s3) \<Rightarrow> (None, UnloadPad destinationID m, s3))))))"

text \<open>The hook is not modelled, but the pad is loaded for it; an error is logged.\<close>

definition firePadCopy :: "'s DataStore \<Rightarrow> time \<Rightarrow> gostring \<Rightarrow> gostring \<Rightarrow> ('s Server \<Rightarrow> ('s, 'b) answer) \<Rightarrow> 's Server \<Rightarrow> ('s, 'b) answer" where
  "firePadCopy D now defaultText dstId f st =
     (case Manager_GetPad D now defaultText dstId None None (manager st, srv_store st) of
        None \<Rightarrow> None
      | Some (Inl Panic, m, s) \<Rightarrow> api_panic (st\<lparr>manager := m, srv_store := s\<rparr>)
      | Some (res, m, s) \<Rightarrow> f (st\<lparr>manager := m, srv_store := s\<rparr>))"

definition copy_to ::
  "'s DataStore \<Rightarrow> time \<Rightarrow> gostring \<Rightarrow> gostring \<Rightarrow> gostring \<Rightarrow> bool \<Rightarrow> ('s Server \<Rightarrow> ('s, gostring) answer) \<Rightarrow> Pad \<Rightarrow> 's Server \<Rightarrow>
   ('s, gostring) answer" where
  "copy_to D now defaultText padId destinationID force f srcPad st =
     (case prepareCopyDestination D destinationID force st of
        (Some (status, e), st1) \<Rightarrow> reply (Refuse status e) st1
      | (None, st1) \<Rightarrow>
          (case copyPadRecords D now padId destinationID (manager st1, srv_store st1) of
             (Some err, m, s) \<Rightarrow> refuse_error 500 InternalServerError err (st1\<lparr>manager := m, srv_store := s\<rparr>)
           | (None, m, s) \<Rightarrow> firePadCopy D now defaultText destinationID f (st1\<lparr>manager := m, srv_store := s\<rparr>)))"

text \<open>The body: the destination and whether to replace it.\<close>

definition CopyPad ::
  "'s DataStore \<Rightarrow> time \<Rightarrow> gostring \<Rightarrow> gostring \<Rightarrow> (gostring \<times> bool) option \<Rightarrow> 's Server \<Rightarrow> ('s, gostring) answer" where
  "CopyPad D now defaultText padId request st =
     (case request of
        None \<Rightarrow> reply (Refuse 400 InvalidRequestError) st
      | Some (destinationID, force) \<Rightarrow>
          with_pad D now defaultText padId (copy_to D now defaultText padId destinationID force (reply (Reply destinationID))) st)"

definition MovePad ::
  "'s DataStore \<Rightarrow> time \<Rightarrow> gostring \<Rightarrow> gostring \<Rightarrow> (gostring \<times> bool) option \<Rightarrow> 's Server \<Rightarrow> ('s, gostring) answer" where
  "MovePad D now defaultText padId request st =
     (case request of
        None \<Rightarrow> reply (Refuse 400 InvalidRequestError) st
      | Some (destinationID, force) \<Rightarrow>
          with_pad D now defaultText padId
            (copy_to D now defaultText padId destinationID force (remove_and_answer D padId (Reply destinationID))) st)"

text \<open>The body: the destination, whether to replace it, and the author.\<close>

definition CopyPadWithoutHistory ::
  "'s DataStore \<Rightarrow> time \<Rightarrow> gostring \<Rightarrow> gostring \<Rightarrow> (gostring \<times> bool \<times> gostring) option \<Rightarrow> 's Server \<Rightarrow> ('s, gostring) answer" where
  "CopyPadWithoutHistory D now defaultText padId request st =
     (case request of
        None \<Rightarrow> reply (Refuse 400 InvalidRequestError) st
      | Some (destinationID, force, author) \<Rightarrow>
          with_pad D now defaultText padId (\<lambda>sourcePad st1.
            case prepareCopyDestination D destinationID force st1 of
              (Some (status, e), st2) \<Rightarrow> reply (Refuse status e) st2
            | (None, st2) \<Rightarrow>
                let text = (if has_suffix (pad_text sourcePad) [newline] then butlast (pad_text sourcePad) else pad_text sourcePad)
                in case Manager_GetPad D now defaultText destinationID (Some text) (nonempty author) (manager st2, srv_store st2) of
                     None \<Rightarrow> None
                   | Some (Inl err, m, s) \<Rightarrow> refuse_error 500 InternalServerError err (st2\<lparr>manager := m, srv_store := s\<rparr>)
                   | Some (Inr pad, m, s) \<Rightarrow>
                       firePadCopy D now defaultText destinationID (reply (Reply destinationID)) (st2\<lparr>manager := m, srv_store := s\<rparr>)) st)"

definition isGroupPad :: "gostring \<Rightarrow> bool" where
  "isGroupPad padId \<longleftrightarrow> 36 \<in> set padId"

definition GetPublicStatus :: "'s DataStore \<Rightarrow> time \<Rightarrow> gostring \<Rightarrow> gostring \<Rightarrow> 's Server \<Rightarrow> ('s, bool) answer" where
  "GetPublicStatus D now defaultText padId st =
     (if \<not> isGroupPad padId then reply (Refuse 400 NotAGroupPadError) st
      else with_pad D now defaultText padId (\<lambda>pad st1. reply (Reply (PublicStatus pad)) st1) st)"

definition SetPublicStatus :: "'s DataStore \<Rightarrow> time \<Rightarrow> gostring \<Rightarrow> gostring \<Rightarrow> bool option \<Rightarrow> 's Server \<Rightarrow> ('s, unit) answer" where
  "SetPublicStatus D now defaultText padId request st =
     (case request of
        None \<Rightarrow> reply (Refuse 400 InvalidRequestError) st
      | Some status \<Rightarrow>
          if \<not> isGroupPad padId then reply (Refuse 400 NotAGroupPadError) st
          else with_pad D now defaultText padId (\<lambda>pad st1.
            let pad1 = pad\<lparr>PublicStatus := status\<rparr>
            in case Pad_Save D now pad1 (srv_store st1) of
                 (Some err, s) \<Rightarrow> refuse_error 500 InternalServerError err (put_pad padId pad1 s st1)
               | (None, s) \<Rightarrow> reply Done (put_pad padId pad1 s st1)) st)"

end
