(* ===== verification/JsonSpec.thy ===== *)
theory JsonSpec
  imports Json
begin

text \<open>
  The facts about JSON the stored records rest on: the bound on the parser's calls is enough, and
  what was printed is parsed back.
\<close>

subsection \<open>The bound on the calls\<close>

declare parse_value.simps [simp del] parse_elements.simps [simp del] parse_members.simps [simp del]

lemma unquote_shorter: "unquote s = Some (x, t) \<Longrightarrow> length t < length s"
proof (induction s arbitrary: x t rule: unquote.induct)
  case (2 r s)
  consider "r = 34" | "r = 92" | "r \<noteq> 34" "r \<noteq> 92" by blast
  then show ?case
  proof cases
    case 2
    with "2.prems" obtain c u y where "read_escape s = Some (c, u)" "unquote u = Some (y, t)" by (auto split: option.splits)
    with "2.IH"(1) 2 read_escape_shorter[of s c u] show ?thesis by fastforce
  next
    case 3
    with "2.prems" obtain y where "\<not> r < 32" "unquote s = Some (y, t)" by (auto split: option.splits if_splits)
    with "2.IH"(2) 3 show ?thesis by fastforce
  qed (use "2.prems" in simp)
qed simp

lemma length_skip_spaces: "length (skip_spaces s) \<le> length s"
  by (simp add: skip_spaces_def length_dropWhile_le)

lemma skip_spaces_Cons: "skip_spaces s = r # t \<Longrightarrow> length t < length s"
  using length_skip_spaces[of s] by simp

lemma read_digits_shorter: "read_digits s = Some (x, t) \<Longrightarrow> length t < length s"
proof -
  assume "read_digits s = Some (x, t)"
  then have "takeWhile is_dec s \<noteq> []" "t = dropWhile is_dec s" by (auto simp: read_digits_def split: if_splits)
  moreover have "length s = length (takeWhile is_dec s) + length (dropWhile is_dec s)" by (metis length_append takeWhile_dropWhile_id)
  ultimately show ?thesis by simp
qed

lemma read_integer_shorter: "read_integer s = Some (x, t) \<Longrightarrow> length t < length s"
  by (auto simp: read_integer_def dest: read_digits_shorter split: if_splits)

lemma read_fraction_shorter: "read_fraction s = Some (x, t) \<Longrightarrow> length t \<le> length s"
  by (cases s) (auto simp: read_fraction_def dest: read_digits_shorter split: if_splits)

lemma read_exponent_shorter: "read_exponent s = Some (x, t) \<Longrightarrow> length t \<le> length s"
  by (cases s) (auto simp: read_exponent_def Let_def dest!: read_digits_shorter split: if_splits)

lemma read_number_shorter:
  assumes "read_number s = Some (x, t)" shows "length t < length s"
proof -
  obtain n i u f v e where "read_integer (drop n s) = Some (i, u)" "read_fraction u = Some (f, v)" "read_exponent v = Some (e, t)"
    using assms by (auto simp: read_number_def Let_def split: option.splits)
  then have "length u < length (drop n s)" "length v \<le> length u" "length t \<le> length v"
    by (auto dest: read_integer_shorter read_fraction_shorter read_exponent_shorter)
  then show ?thesis by simp
qed

lemma read_word_shorter: "read_word (r # s) = Some (x, t) \<Longrightarrow> length t < length (r # s)"
  by (auto simp: read_word_def dest: read_number_shorter split: if_splits)

text \<open>
  An answer of the parser does not depend on the bound, once it is twice the length: one step of
  each of the three functions, and their common induction.
\<close>

definition steady :: "(nat \<Rightarrow> gostring \<Rightarrow> ('a \<times> gostring) option) \<Rightarrow> nat \<Rightarrow> gostring \<Rightarrow> 'a \<times> gostring \<Rightarrow> bool" where
  "steady f k s r \<longleftrightarrow> length (snd r) < length s \<and> (\<forall>n. 2 * length s + k \<le> n \<longrightarrow> f n s = Some r)"

lemma steadyD: "steady f k s r \<Longrightarrow> length (snd r) < length s" "steady f k s r \<Longrightarrow> 2 * length s + k \<le> n \<Longrightarrow> f n s = Some r"
  by (simp_all add: steady_def)

lemma steadyI:
  assumes "\<And>n. 2 * length s + k \<le> Suc n \<Longrightarrow> f (Suc n) s = Some r" "length (snd r) < length s"
  shows "steady f k s r"
  unfolding steady_def
proof (intro conjI allI impI)
  fix n assume "2 * length s + k \<le> n"
  with assms show "f n s = Some r" by (cases n) auto
qed (rule assms(2))

lemma steady_value:
  assumes IH: "\<And>u r. parse_elements m u = Some r \<Longrightarrow> steady parse_elements 1 u r" "\<And>u r. parse_members m u = Some r \<Longrightarrow> steady parse_members 1 u r"
    and run: "parse_value (Suc m) s = Some r"
  shows "steady parse_value 0 s r"
proof -
  obtain c u where c: "skip_spaces s = c # u" using run by (auto simp: parse_value.simps(2) split: list.splits)
  note cu = skip_spaces_Cons[OF c]
  have tl: "length (tl (skip_spaces u)) \<le> length u" using length_skip_spaces[of u] by simp
  note ev = parse_value.simps(2) c list.case
  consider (str) x v where "c = 34" "unquote u = Some (x, v)" "r = (JString x, v)"
    | (arr0) "c = 91" "skip_spaces u \<noteq> [] \<and> hd (skip_spaces u) = 93" "r = (JArray [], tl (skip_spaces u))"
    | (arr) xs v where "c = 91" "\<not> (skip_spaces u \<noteq> [] \<and> hd (skip_spaces u) = 93)" "parse_elements m u = Some (xs, v)" "r = (JArray xs, v)"
    | (obj0) "c = 123" "skip_spaces u \<noteq> [] \<and> hd (skip_spaces u) = 125" "r = (JObject [], tl (skip_spaces u))"
    | (obj) ms v where "c = 123" "\<not> (skip_spaces u \<noteq> [] \<and> hd (skip_spaces u) = 125)" "parse_members m u = Some (ms, v)" "r = (JObject ms, v)"
    | (word) "c \<noteq> 34" "c \<noteq> 91" "c \<noteq> 123" "read_word (c # u) = Some r"
    using run unfolding ev by (auto split: if_splits)
  then show ?thesis
  proof cases
    case str
    then show ?thesis using cu unquote_shorter[of u x v] by (intro steadyI) (simp_all only: ev, simp_all)
  next
    case arr0
    then show ?thesis using cu tl by (intro steadyI) (simp_all only: ev, simp_all)
  next
    case arr
    note E = steadyD[OF IH(1)[OF arr(3)]]
    then show ?thesis using cu arr by (intro steadyI) (simp_all only: ev, simp_all)
  next
    case obj0
    then show ?thesis using cu tl by (intro steadyI) (simp_all only: ev, simp_all)
  next
    case obj
    note E = steadyD[OF IH(2)[OF obj(3)]]
    then show ?thesis using cu obj by (intro steadyI) (simp_all only: ev, simp_all)
  next
    case word
    obtain x v where "r = (x, v)" by fastforce
    then show ?thesis using word cu read_word_shorter[of c u x v] by (intro steadyI) (simp_all only: ev, simp_all)
  qed
qed

lemma steady_elements:
  assumes IH: "\<And>u r. parse_value m u = Some r \<Longrightarrow> steady parse_value 0 u r" "\<And>u r. parse_elements m u = Some r \<Longrightarrow> steady parse_elements 1 u r"
    and run: "parse_elements (Suc m) s = Some r"
  shows "steady parse_elements 1 s r"
proof -
  obtain y u where y: "parse_value m s = Some (y, u)" using run by (auto simp: parse_elements.simps(2) split: option.splits)
  obtain c v where c: "skip_spaces u = c # v" using run y by (auto simp: parse_elements.simps(2) split: list.splits)
  note V = steadyD[OF IH(1)[OF y]] and cv = skip_spaces_Cons[OF c]
  have ev: "parse_elements (Suc n) s = (if c = 44 then map_option (\<lambda>(xs, v). (y # xs, v)) (parse_elements n v)
      else if c = 93 then Some ([y], v) else None)" if "parse_value n s = Some (y, u)" for n
    using that c by (simp add: parse_elements.simps(2))
  consider (more) xs w where "c = 44" "parse_elements m v = Some (xs, w)" "r = (y # xs, w)" | (last) "c \<noteq> 44" "c = 93" "r = ([y], v)"
    using run unfolding ev[OF y] by (auto split: if_splits)
  then show ?thesis
  proof cases
    case more
    note E = steadyD[OF IH(2)[OF more(2)]]
    then show ?thesis using V cv more by (intro steadyI) (simp_all add: ev)
  next
    case last
    then show ?thesis using V cv by (intro steadyI) (simp_all add: ev)
  qed
qed

lemma steady_members:
  assumes IH: "\<And>u r. parse_value m u = Some r \<Longrightarrow> steady parse_value 0 u r" "\<And>u r. parse_members m u = Some r \<Longrightarrow> steady parse_members 1 u r"
    and run: "parse_members (Suc m) s = Some r"
  shows "steady parse_members 1 s r"
proof -
  obtain s1 k s2 s3 y u c v where p: "skip_spaces s = 34 # s1" "unquote s1 = Some (k, s2)" "skip_spaces s2 = 58 # s3"
    "parse_value m s3 = Some (y, u)" "skip_spaces u = c # v"
    using run by (auto simp: parse_members.simps(2) split: option.splits list.splits if_splits)
  note V = steadyD[OF IH(1)[OF p(4)]]
  have len: "length s1 < length s" "length s2 < length s1" "length s3 < length s2" "length v < length u"
    using skip_spaces_Cons[OF p(1)] unquote_shorter[OF p(2)] skip_spaces_Cons[OF p(3)] skip_spaces_Cons[OF p(5)] by simp_all
  have ev: "parse_members (Suc n) s = (if c = 44 then map_option (\<lambda>(ms, v). ((k, y) # ms, v)) (parse_members n v)
      else if c = 125 then Some ([(k, y)], v) else None)" if "parse_value n s3 = Some (y, u)" for n
    using that p by (simp add: parse_members.simps(2))
  consider (more) ms w where "c = 44" "parse_members m v = Some (ms, w)" "r = ((k, y) # ms, w)" | (last) "c \<noteq> 44" "c = 125" "r = ([(k, y)], v)"
    using run unfolding ev[OF p(4)] by (auto split: if_splits)
  then show ?thesis
  proof cases
    case more
    note E = steadyD[OF IH(2)[OF more(2)]]
    then show ?thesis using V len more by (intro steadyI) (simp_all add: ev)
  next
    case last
    then show ?thesis using V len by (intro steadyI) (simp_all add: ev)
  qed
qed

lemma parse_steady:
  "(\<forall>s r. parse_value m s = Some r \<longrightarrow> steady parse_value 0 s r) \<and>
   (\<forall>s r. parse_elements m s = Some r \<longrightarrow> steady parse_elements 1 s r) \<and>
   (\<forall>s r. parse_members m s = Some r \<longrightarrow> steady parse_members 1 s r)"
proof (induction m)
  case (Suc m)
  then have "\<And>s r. parse_value m s = Some r \<Longrightarrow> steady parse_value 0 s r" "\<And>s r. parse_elements m s = Some r \<Longrightarrow> steady parse_elements 1 s r"
    "\<And>s r. parse_members m s = Some r \<Longrightarrow> steady parse_members 1 s r" by blast+
  then show ?case using steady_value[of m] steady_elements[of m] steady_members[of m] by blast
qed (simp_all add: parse_value.simps(1) parse_elements.simps(1) parse_members.simps(1))

lemma parse_json_bound: "parse_value n s = Some r \<Longrightarrow> parse_value (2 * length s + 2) s = Some r"
  by (rule steadyD(2)[where k = 0]) (use parse_steady[of n] in blast, simp)

subsection \<open>What was printed is parsed\<close>

lemma hex_val_digit: "d < 16 \<Longrightarrow> hex_val (digit36 d) = Some (int d)"
  by (auto simp: hex_val_def digit_val_def digit36_def)

lemma read_hex4_hex4: "0 \<le> r \<Longrightarrow> r < 0x10000 \<Longrightarrow> read_hex4 (hex4 r @ s) = Some (r, s)"
proof -
  assume r: "0 \<le> r" "r < 0x10000"
  have "r div 4096 < 16" using r by simp
  have d: "r div 16 div 16 = r div 256" "r div 256 div 16 = r div 4096" by (simp_all add: zdiv_zmult2_eq[symmetric])
  have "4096 * (r div 4096) + 256 * (r div 256 mod 16) + 16 * (r div 16 mod 16) + r mod 16 = r"
    using mult_div_mod_eq[of 16 r] mult_div_mod_eq[of 16 "r div 16"] mult_div_mod_eq[of 16 "r div 256"] unfolding d by linarith
  moreover have "r div 4096 mod 16 = r div 4096" using r \<open>r div 4096 < 16\<close> by (intro mod_pos_pos_trivial pos_imp_zdiv_nonneg_iff[THEN iffD2]) simp_all
  ultimately have sum: "4096 * (r div 4096 mod 16) + 256 * (r div 256 mod 16) + 16 * (r div 16 mod 16) + r mod 16 = r"
    by metis
  have h: "hex_val (digit36 (nat (k mod 16))) = Some (k mod 16)" for k :: int
    using hex_val_digit[of "nat (k mod 16)"] by (simp add: nat_less_iff)
  have "hex4 r @ s = digit36 (nat (r div 4096 mod 16)) # digit36 (nat (r div 256 mod 16)) # digit36 (nat (r div 16 mod 16)) #
      digit36 (nat (r mod 16)) # s" by (simp add: hex4_def)
  then show ?thesis by (simp only: read_hex4.simps h option.case prod.case sum)
qed

lemma unquote_escape:
  assumes "0 \<le> r" shows "unquote (escape_rune r @ s) = (case unquote s of None \<Rightarrow> None | Some (x, u) \<Rightarrow> Some (r # x, u))"
proof -
  consider (short) "r \<in> {34, 92, 8, 12, 10, 13, 9}" | (long) "r \<notin> {34, 92, 8, 12, 10, 13, 9}" "r < 32 \<or> r \<in> {38, 60, 62, 0x2028, 0x2029}"
    | (plain) "r \<notin> {34, 92, 8, 12, 10, 13, 9}" "\<not> (r < 32 \<or> r \<in> {38, 60, 62, 0x2028, 0x2029})" by blast
  then show ?thesis
  proof cases
    case short
    then show ?thesis by (elim insertE; hypsubst?; simp add: escape_rune_def)
  next
    case long
    then have "r < 0xD800" by auto
    then have "read_rune (hex4 r @ s) = Some (r, s)" using assms by (simp add: read_rune_def read_hex4_hex4)
    moreover have "escape_rune r = 92 # 117 # hex4 r" using long unfolding escape_rune_def by simp
    ultimately show ?thesis by simp
  next
    case plain
    then have "escape_rune r = [r]" unfolding escape_rune_def by simp
    with plain show ?thesis by simp
  qed
qed

lemma unquote_quote: "\<forall>r \<in> set s. 0 \<le> r \<Longrightarrow> unquote (concat (map escape_rune s) @ 34 # rest) = Some (s, rest)"
  by (induction s) (simp_all add: unquote_escape del: unquote.simps, simp add: unquote.simps)

text \<open>Numbers.\<close>

lemma text_base_dec: "list_all is_dec (text_base 10 n)"
proof (induction "10 :: nat" n rule: text_base.induct)
  case (1 n)
  have "is_dec (digit36 (n mod 10))" "n < 10 \<Longrightarrow> is_dec (digit36 n)" by (simp_all add: is_dec_def digit36_def)
  with 1 show ?case by (cases "n < 10") (simp_all add: text_base.simps[of 10 n])
qed

lemma text_base_zero: "hd (text_base 10 n) = 48 \<Longrightarrow> text_base 10 n = [48]"
proof (induction "10 :: nat" n rule: text_base.induct)
  case (1 n)
  show ?case
  proof (cases "n < 10")
    case True
    with "1.prems" show ?thesis by (simp add: text_base.simps[of 10] digit36_def split: if_splits)
  next
    case False
    with 1 have "text_base 10 (n div 10) = [48]" by (simp add: text_base.simps[of 10 n])
    then have "parse_digits 10 (text_base 10 (n div 10)) 0 = Some 0" by (simp add: digit_val_def)
    with parse_digits_text_base[of 10 "n div 10"] False show ?thesis by simp
  qed
qed

definition ends :: "gostring \<Rightarrow> bool" where
  "ends rest \<longleftrightarrow> rest = [] \<or> hd rest \<in> {44, 93, 125}"

lemma read_number_Itoa:
  assumes "ends rest" shows "read_number (Itoa i @ rest) = Some (Itoa i, rest)"
proof -
  have nat: "read_integer (text_base 10 n @ rest) = Some (text_base 10 n, rest)" for n
  proof (cases "hd (text_base 10 n) = 48")
    case True
    then have "text_base 10 n = [48]" by (rule text_base_zero)
    then show ?thesis by (simp add: read_integer_def)
  next
    case False
    have "takeWhile is_dec (text_base 10 n @ rest) = text_base 10 n" "dropWhile is_dec (text_base 10 n @ rest) = rest"
      using text_base_dec[of n] assms by (cases rest; auto simp: list_all_iff ends_def is_dec_def)+
    with False show ?thesis by (simp add: read_integer_def read_digits_def)
  qed
  have "read_fraction rest = Some ([], rest)" "read_exponent rest = Some ([], rest)"
    using assms by (auto simp: read_fraction_def read_exponent_def ends_def)
  moreover have "hd (text_base 10 n) \<noteq> 45" for n by (rule hd_text_base) simp_all
  ultimately show ?thesis by (simp add: read_number_def Itoa_def nat)
qed

lemma Itoa_head: "\<exists>c s. Itoa i = c # s \<and> (is_dec c \<or> c = 45)"
proof -
  have "\<exists>c s. text_base 10 n = c # s \<and> is_dec c" for n
    using text_base_dec[of n] by (cases "text_base 10 n") simp_all
  then show ?thesis unfolding Itoa_def by (cases "i < 0") (simp, metis)
qed

text \<open>The values that are printed faithfully: no negative runes, and integers for numbers.\<close>

fun json_ok :: "json \<Rightarrow> bool" where
  "json_ok (JNum s) = (\<exists>i. s = Itoa i)"
| "json_ok (JString s) = (\<forall>r \<in> set s. 0 \<le> r)"
| "json_ok (JArray xs) = (\<forall>x \<in> set xs. json_ok x)"
| "json_ok (JObject ms) = (\<forall>(k, v) \<in> set ms. (\<forall>r \<in> set k. 0 \<le> r) \<and> json_ok v)"
| "json_ok _ = True"

lemma print_head:
  assumes "json_ok j" obtains c s where "print_json j = c # s" "\<not> json_space c" "c \<noteq> 93"
proof -
  have "\<exists>c s. print_json j = c # s \<and> \<not> json_space c \<and> c \<noteq> 93"
  proof (cases j)
    case (JNum s)
    with assms obtain i where "s = Itoa i" by auto
    with JNum Itoa_head[of i] show ?thesis by (auto simp: json_space_def is_dec_def)
  qed (simp_all add: json_space_def quote_def)
  with that show thesis by blast
qed

lemma skip_spaces_head [simp]: "\<not> json_space c \<Longrightarrow> skip_spaces (c # s) = c # s"
  by (simp add: skip_spaces_def)

lemma not_space [simp]: "\<not> json_space 44" "\<not> json_space 93" "\<not> json_space 125" "\<not> json_space 58" "\<not> json_space 34"
    "\<not> json_space 91" "\<not> json_space 123"
  by (simp_all add: json_space_def)

lemma ends_simps [simp]: "ends []" "ends (44 # s)" "ends (93 # s)" "ends (125 # s)"
  by (simp_all add: ends_def)

definition parses :: "json \<Rightarrow> bool" where
  "parses j \<longleftrightarrow> (\<forall>rest. ends rest \<longrightarrow> steady parse_value 0 (print_json j @ rest) (j, rest))"

lemma parsesD: "parses j \<Longrightarrow> ends rest \<Longrightarrow> 2 * length (print_json j @ rest) \<le> n \<Longrightarrow> parse_value n (print_json j @ rest) = Some (j, rest)"
  by (simp add: parses_def steady_def)

lemma commas_Cons: "xs \<noteq> [] \<Longrightarrow> commas (x # xs) = x @ 44 # commas xs"
  by (cases xs) simp_all

lemma elements_parse:
  assumes "xs \<noteq> []" "\<forall>x \<in> set xs. parses x"
  shows "steady parse_elements 1 (commas (map print_json xs) @ 93 # rest) (xs, rest)"
  using assms
proof (induction xs rule: list_nonempty_induct)
  case (single x)
  show ?case
  proof (rule steadyI)
    fix n assume "2 * length (commas (map print_json [x]) @ 93 # rest) + 1 \<le> Suc n"
    with single parsesD[of x "93 # rest" n] show "parse_elements (Suc n) (commas (map print_json [x]) @ 93 # rest) = Some ([x], rest)"
      by (simp add: parse_elements.simps)
  qed simp
next
  case (cons x xs)
  let ?s = "commas (map print_json xs) @ 93 # rest"
  have t: "commas (map print_json (x # xs)) @ 93 # rest = print_json x @ 44 # ?s" using cons by (simp add: commas_Cons)
  show ?case unfolding t
  proof (rule steadyI)
    fix n assume n: "2 * length (print_json x @ 44 # ?s) + 1 \<le> Suc n"
    with cons parsesD[of x "44 # ?s" n] steadyD(2)[of parse_elements 1 ?s "(xs, rest)" n]
    show "parse_elements (Suc n) (print_json x @ 44 # ?s) = Some (x # xs, rest)" by (simp add: parse_elements.simps)
  qed simp
qed

lemma members_parse:
  assumes "ms \<noteq> []" "\<forall>(k, v) \<in> set ms. (\<forall>r \<in> set k. 0 \<le> r) \<and> parses v"
  shows "steady parse_members 1 (commas (map (\<lambda>(k, v). quote k @ 58 # print_json v) ms) @ 125 # rest) (ms, rest)"
  using assms
proof (induction ms rule: list_nonempty_induct)
  case (single m)
  obtain k v where m: "m = (k, v)" by fastforce
  have u: "unquote (concat (map escape_rune k) @ 34 # 58 # s) = Some (k, 58 # s)" for s using single m by (simp add: unquote_quote)
  show ?case
  proof (rule steadyI)
    fix n assume "2 * length (commas (map (\<lambda>(k, v). quote k @ 58 # print_json v) [m]) @ 125 # rest) + 1 \<le> Suc n"
    with single m u parsesD[of v "125 # rest" n]
    show "parse_members (Suc n) (commas (map (\<lambda>(k, v). quote k @ 58 # print_json v) [m]) @ 125 # rest) = Some ([m], rest)"
      by (simp add: parse_members.simps quote_def)
  qed simp
next
  case (cons m ms)
  obtain k v where m: "m = (k, v)" by fastforce
  let ?s = "commas (map (\<lambda>(k, v). quote k @ 58 # print_json v) ms) @ 125 # rest"
  have t: "commas (map (\<lambda>(k, v). quote k @ 58 # print_json v) (m # ms)) @ 125 # rest = quote k @ 58 # print_json v @ 44 # ?s"
    using cons m by (simp add: commas_Cons)
  have u: "unquote (concat (map escape_rune k) @ 34 # 58 # s) = Some (k, 58 # s)" for s using cons m by (simp add: unquote_quote)
  show ?case unfolding t
  proof (rule steadyI)
    fix n assume n: "2 * length (quote k @ 58 # print_json v @ 44 # ?s) + 1 \<le> Suc n"
    with cons m u parsesD[of v "44 # ?s" n] steadyD(2)[of parse_members 1 ?s "(ms, rest)" n]
    show "parse_members (Suc n) (quote k @ 58 # print_json v @ 44 # ?s) = Some (m # ms, rest)" by (simp add: parse_members.simps quote_def)
  qed simp
qed

lemma print_parses: "json_ok j \<Longrightarrow> parses j"
proof (induction j)
  case (JNum s)
  then obtain i where i: "s = Itoa i" by auto
  obtain c t where c: "Itoa i = c # t" "is_dec c \<or> c = 45" using Itoa_head by blast
  have "read_word (c # t @ rest) = Some (JNum s, rest)" if "ends rest" for rest
    using read_number_Itoa[OF that, of i] c i by (auto simp: read_word_def is_dec_def)
  moreover have "\<not> json_space c" "c \<noteq> 34" "c \<noteq> 91" "c \<noteq> 123" using c(2) by (auto simp: is_dec_def json_space_def)
  ultimately have "parse_value (Suc n) (print_json (JNum s) @ rest) = Some (JNum s, rest)" if "ends rest" for n rest
    using that c(1) i by (simp add: parse_value.simps(2))
  moreover have "print_json (JNum s) \<noteq> []" using c(1) i by simp
  ultimately show ?case unfolding parses_def by (intro allI impI steadyI) simp_all
next
  case (JString s)
  then show ?case unfolding parses_def
    by (intro allI impI steadyI) (simp_all add: parse_value.simps quote_def unquote_quote)
next
  case (JArray xs)
  have X: "\<forall>x \<in> set xs. parses x" using JArray by auto
  show ?case unfolding parses_def
  proof (intro allI impI)
    fix rest
    show "steady parse_value 0 (print_json (JArray xs) @ rest) (JArray xs, rest)"
    proof (cases "xs = []")
      case True
      then show ?thesis by (intro steadyI) (simp_all add: parse_value.simps)
    next
      case False
      note E = elements_parse[OF False X, of rest]
      obtain x ys where xs: "xs = x # ys" using False by (cases xs) simp
      obtain c s where c: "print_json x = c # s" "\<not> json_space c" "c \<noteq> 93" using print_head[of x] JArray.prems xs by auto
      have "\<exists>s'. commas (map print_json xs) = c # s'" using c(1) xs by (cases ys) simp_all
      then obtain s' where s': "commas (map print_json xs) = c # s'" by blast
      show ?thesis
      proof (rule steadyI)
        fix n assume "2 * length (print_json (JArray xs) @ rest) + 0 \<le> Suc n"
        with steadyD(2)[OF E, of n] s' c show "parse_value (Suc n) (print_json (JArray xs) @ rest) = Some (JArray xs, rest)"
          by (simp add: parse_value.simps)
      qed simp
    qed
  qed
next
  case (JObject ms)
  have X: "\<forall>(k, v) \<in> set ms. (\<forall>r \<in> set k. 0 \<le> r) \<and> parses v" using JObject by fastforce
  show ?case unfolding parses_def
  proof (intro allI impI)
    fix rest
    show "steady parse_value 0 (print_json (JObject ms) @ rest) (JObject ms, rest)"
    proof (cases "ms = []")
      case True
      then show ?thesis by (intro steadyI) (simp_all add: parse_value.simps)
    next
      case False
      note E = members_parse[OF False X, of rest]
      have "\<exists>s'. commas (map (\<lambda>(k, v). quote k @ 58 # print_json v) ms) = 34 # s'"
        proof -
        obtain k v ns where ms: "ms = (k, v) # ns" using False by (cases ms) auto
        show ?thesis by (cases ns) (simp_all add: ms quote_def)
      qed
      then obtain s' where s': "commas (map (\<lambda>(k, v). quote k @ 58 # print_json v) ms) = 34 # s'" by blast
      show ?thesis
      proof (rule steadyI)
        fix n assume "2 * length (print_json (JObject ms) @ rest) + 0 \<le> Suc n"
        with steadyD(2)[OF E, of n] s' show "parse_value (Suc n) (print_json (JObject ms) @ rest) = Some (JObject ms, rest)"
          by (simp add: parse_value.simps)
      qed simp
    qed
  qed
next
  case (JBool b)
  show ?case unfolding parses_def
    by (cases b; intro allI impI steadyI) (simp_all add: parse_value.simps read_word_def json_space_def)
next
  case JNull
  show ?case unfolding parses_def
    by (intro allI impI steadyI) (simp_all add: parse_value.simps read_word_def json_space_def)
qed

lemma parse_print: "json_ok j \<Longrightarrow> parse_json (print_json j) = Inr j"
  using parsesD[OF print_parses, of j "[]" "2 * length (print_json j) + 2"]
  by (simp add: parse_json_def skip_spaces_def)

end
