(* ===== verification/CopyProperties.thy ===== *)
theory CopyProperties
  imports PadApi ServerProperties JsonSpec
begin

text \<open>
  Copying pads over any store that also keeps chat messages: the copy has the row, every revision
  and every chat message of its source, and nothing else changes. The in-memory store is such a store.

  Copying and moving pads over the in-memory store, and what becomes of a pad that is copied onto itself.
\<close>

section \<open>The contract and the copy\<close>

subsection \<open>What a copy holds\<close>

definition copied_row :: "time \<Rightarrow> gostring \<Rightarrow> PadDB \<Rightarrow> PadDB" where
  "copied_row now dst d = stamped now dst None (d\<lparr>pdb_ID := dst, pdb_ReadOnlyId := None\<rparr>)"

definition copied_rev :: "gostring \<Rightarrow> PadSingleRevision \<Rightarrow> PadSingleRevision" where
  "copied_rev dst x = revision_row dst (rev_RevNum x) (rev_Changeset x) (rev_AText x)
     (case rev_Pool x of None \<Rightarrow> \<lparr>RevNumToAttrib = [], RevNextNum = 0, RevAttribToNum = []\<rparr> | Some pool \<Rightarrow> pool)
     (rev_AuthorId x) (rev_Timestamp x)"

definition copied_msg :: "gostring \<Rightarrow> ChatMessageDB \<Rightarrow> ChatMessageDB" where
  "copied_msg dst x = x\<lparr>chat_PadId := dst, chat_Time := Some (case chat_Time x of None \<Rightarrow> 0 | Some t \<Rightarrow> t)\<rparr>"

lemma text_at_copied: "text_at (\<lambda>r. map_option (copied_rev dst) (R r)) = text_at R"
  by (auto simp: fun_eq_iff text_at_def copied_rev_def revision_row_def split: option.splits)

lemma chained_copied: "chained (\<lambda>r. map_option (copied_rev dst) (R r)) n \<longleftrightarrow> chained R n"
proof -
  have "(\<forall>x. map_option (copied_rev dst) (R r) = Some x \<longrightarrow> in_step (rev_AText x) \<and> ApplyToText (rev_Changeset x) a = Inr b) \<longleftrightarrow>
      (\<forall>x. R r = Some x \<longrightarrow> in_step (rev_AText x) \<and> ApplyToText (rev_Changeset x) a = Inr b)" for r a b
    by (cases "R r") (simp_all add: copied_rev_def revision_row_def)
  then show ?thesis unfolding chained_def text_at_copied by simp
qed

subsection \<open>The contract\<close>

text \<open>\<open>chats\<close> reads the messages of a pad off a state, by their numbers.\<close>

locale copy_store = pad_store D pads revs inv
  for D :: "'s DataStore" and pads revs inv +
  fixes chats :: "'s \<Rightarrow> gostring \<Rightarrow> int \<Rightarrow> ChatMessageDB option"
  assumes rev_number: "inv s \<Longrightarrow> revs s i r = Some x \<Longrightarrow> rev_RevNum x = r"
    and get_revisions: "inv s \<Longrightarrow> pads s i \<noteq> None \<Longrightarrow> 0 \<le> n \<Longrightarrow> (\<And>r. 0 \<le> r \<Longrightarrow> r \<le> n \<Longrightarrow> revs s i r \<noteq> None) \<Longrightarrow>
      ds_GetRevisions D i 0 n s = Inr (map (\<lambda>r. the (revs s i r)) [0..n])"
    and get_chats: "n < 2 ^ 63 \<Longrightarrow> \<exists>name. ds_GetChatsOfPad D i 0 n s =
      Inr (List.map_filter (\<lambda>h. map_option (\<lambda>x. \<lparr>ChatMessage = x, DisplayName = name x\<rparr>) (chats s i h)) [0..n])"
    and put_chat: "0 \<le> h \<Longrightarrow> h < 2 ^ 63 \<Longrightarrow> ds_SaveChatMessage D i h a t m s = (e, s') \<Longrightarrow>
      chats s' = (if chats s i h = None then (chats s)(i := (chats s i)(h \<mapsto>
        \<lparr>chat_PadId = i, chat_Head = h, chat_Message = m, chat_Time = Some t, chat_AuthorId = a\<rparr>)) else chats s)"
    and create_chats: "ds_CreatePad D now i d s = (e, s') \<Longrightarrow> chats s' = chats s"
    and revision_chats: "ds_SaveRevision D i r cs at pool a t s = (e, s') \<Longrightarrow> chats s' = chats s"
begin

lemma copy_revisions:
  "inv s \<Longrightarrow> pads s j \<noteq> None \<Longrightarrow> (\<forall>r \<in> set rs. R r \<noteq> None \<and> rev_RevNum (the (R r)) = r \<and> revs s j r = None) \<Longrightarrow> distinct rs \<Longrightarrow>
   \<exists>s'. save_each (copy_revision D j) (map (\<lambda>r. the (R r)) rs) s = (None, s') \<and> inv s' \<and> pads s' = pads s \<and> chats s' = chats s \<and>
     revs s' = (revs s)(j := (\<lambda>r. if r \<in> set rs then map_option (copied_rev j) (R r) else revs s j r))"
proof (induction rs arbitrary: s)
  case (Cons r rs)
  obtain x where x: "R r = Some x" "rev_RevNum x = r" "revs s j r = None" using Cons.prems(3) by auto
  obtain e s1 where run: "copy_revision D j x s = (e, s1)" by fastforce
  note save = run[unfolded copy_revision_def]
  have s1: "e = None" "inv s1" "pads s1 = pads s" "revs s1 = (revs s)(j := (revs s j)(r \<mapsto> copied_rev j x))" "chats s1 = chats s"
    using save_revision[OF Cons.prems(1,2) save] revision_chats[OF save] x(2,3) by (simp_all add: copied_rev_def)
  have "pads s1 j \<noteq> None" "\<forall>k \<in> set rs. R k \<noteq> None \<and> rev_RevNum (the (R k)) = k \<and> revs s1 j k = None" "distinct rs"
    using Cons.prems(2-4) s1(3,4) by auto
  from Cons.IH[OF s1(2) this] obtain s' where s': "save_each (copy_revision D j) (map (\<lambda>r. the (R r)) rs) s1 = (None, s')" "inv s'"
    "pads s' = pads s1" "chats s' = chats s1"
    "revs s' = (revs s1)(j := (\<lambda>r. if r \<in> set rs then map_option (copied_rev j) (R r) else revs s1 j r))" by blast
  have "revs s' = (revs s)(j := (\<lambda>k. if k \<in> set (r # rs) then map_option (copied_rev j) (R k) else revs s j k))"
    using Cons.prems(4) x(1) unfolding s'(5) s1(4) by (auto simp: fun_eq_iff)
  moreover have "pads s' = pads s" "chats s' = chats s" using s'(3,4) s1(3,5) by simp_all
  moreover have "save_each (copy_revision D j) (map (\<lambda>r. the (R r)) (r # rs)) s = (None, s')" using s'(1) s1(1) x(1) run by simp
  ultimately show ?case using s'(2) by blast
qed auto

lemma copy_messages:
  "inv s \<Longrightarrow> (\<forall>h \<in> set hs. 0 \<le> h \<and> h < 2 ^ 63 \<and> chats s j h = None \<and> (\<forall>x. C h = Some x \<longrightarrow> chat_Head x = h)) \<Longrightarrow> distinct hs \<Longrightarrow>
   \<exists>s'. save_each (copy_message D j) (List.map_filter (\<lambda>h. map_option (\<lambda>x. \<lparr>ChatMessage = x, DisplayName = name x\<rparr>) (C h)) hs) s = (None, s') \<and>
     inv s' \<and> pads s' = pads s \<and> revs s' = revs s \<and>
     chats s' = (chats s)(j := (\<lambda>h. if h \<in> set hs then map_option (copied_msg j) (C h) else chats s j h))"
proof (induction hs arbitrary: s)
  case (Cons h hs)
  show ?case
  proof (cases "C h")
    case None
    have "\<forall>h \<in> set hs. 0 \<le> h \<and> h < 2 ^ 63 \<and> chats s j h = None \<and> (\<forall>x. C h = Some x \<longrightarrow> chat_Head x = h)" "distinct hs"
      using Cons.prems(2,3) by simp_all
    from Cons.IH[OF Cons.prems(1) this] obtain s' where
      s': "save_each (copy_message D j) (List.map_filter (\<lambda>h. map_option (\<lambda>x. \<lparr>ChatMessage = x, DisplayName = name x\<rparr>) (C h)) hs) s = (None, s')"
      "inv s'" "pads s' = pads s" "revs s' = revs s"
      "chats s' = (chats s)(j := (\<lambda>h. if h \<in> set hs then map_option (copied_msg j) (C h) else chats s j h))" by blast
    have "chats s' = (chats s)(j := (\<lambda>k. if k \<in> set (h # hs) then map_option (copied_msg j) (C k) else chats s j k))"
      using Cons.prems(2) None unfolding s'(5) by (auto simp: fun_eq_iff)
    moreover have "save_each (copy_message D j) (List.map_filter (\<lambda>h. map_option (\<lambda>x. \<lparr>ChatMessage = x, DisplayName = name x\<rparr>) (C h)) (h # hs)) s = (None, s')"
      using s'(1) None by (simp add: map_filter_simps)
    ultimately show ?thesis using s'(2-4) by blast
  next
    case (Some x)
    then have x: "chat_Head x = h" "0 \<le> h" "h < 2 ^ 63" "chats s j h = None" using Cons.prems(2) by auto
    obtain e s1 where run: "copy_message D j \<lparr>ChatMessage = x, DisplayName = name x\<rparr> s = (e, s1)" by fastforce
    note save = run[unfolded copy_message_def, simplified, unfolded x(1)]
    have "\<lparr>chat_PadId = j, chat_Head = h, chat_Message = chat_Message x,
        chat_Time = Some (case chat_Time x of None \<Rightarrow> 0 | Some t \<Rightarrow> t), chat_AuthorId = chat_AuthorId x\<rparr> = copied_msg j x"
      using x(1) by (simp add: copied_msg_def)
    then have s1: "e = None" "inv s1" "pads s1 = pads s" "revs s1 = revs s" "chats s1 = (chats s)(j := (chats s j)(h \<mapsto> copied_msg j x))"
      using save_chat[OF Cons.prems(1) save] put_chat[OF x(2,3) save] x(4) by simp_all
    have "\<forall>h \<in> set hs. 0 \<le> h \<and> h < 2 ^ 63 \<and> chats s1 j h = None \<and> (\<forall>x. C h = Some x \<longrightarrow> chat_Head x = h)" "distinct hs"
      using Cons.prems(2,3) s1(5) by auto
    from Cons.IH[OF s1(2) this] obtain s' where
      s': "save_each (copy_message D j) (List.map_filter (\<lambda>h. map_option (\<lambda>x. \<lparr>ChatMessage = x, DisplayName = name x\<rparr>) (C h)) hs) s1 = (None, s')"
      "inv s'" "pads s' = pads s1" "revs s' = revs s1"
      "chats s' = (chats s1)(j := (\<lambda>h. if h \<in> set hs then map_option (copied_msg j) (C h) else chats s1 j h))" by blast
    have "chats s' = (chats s)(j := (\<lambda>k. if k \<in> set (h # hs) then map_option (copied_msg j) (C k) else chats s j k))"
      using Cons.prems(3) Some unfolding s'(5) s1(5) by (auto simp: fun_eq_iff)
    moreover have "pads s' = pads s" "revs s' = revs s" using s'(3,4) s1(3,4) by simp_all
    moreover have "save_each (copy_message D j) (List.map_filter (\<lambda>h. map_option (\<lambda>x. \<lparr>ChatMessage = x, DisplayName = name x\<rparr>) (C h)) (h # hs)) s = (None, s')"
      using s'(1) s1(1) Some run by (simp add: map_filter_simps)
    ultimately show ?thesis using s'(2) by blast
  qed
qed (auto simp: map_filter_simps)

lemma copy_pad:
  assumes s: "inv s" and i: "pads s i = Some d" and j: "pads s j = None" "\<And>r. revs s j r = None"
    and revs: "\<And>r. revs s i r \<noteq> None \<longleftrightarrow> 0 \<le> r \<and> r \<le> pdb_Head d" and head: "pdb_ChatHead d < 2 ^ 63"
    and chat: "\<And>h. 0 \<le> h \<Longrightarrow> h \<le> pdb_ChatHead d \<Longrightarrow> chats s j h = None \<and> (\<forall>x. chats s i h = Some x \<longrightarrow> chat_Head x = h)"
  shows "\<exists>s'. copyPadRecords D now i j (mg, s) = (None, UnloadPad j mg, s') \<and> inv s' \<and>
    pads s' = (pads s)(j \<mapsto> copied_row now j d) \<and>
    revs s' = (revs s)(j := (\<lambda>r. map_option (copied_rev j) (revs s i r))) \<and>
    chats s' = (chats s)(j := (\<lambda>h. if 0 \<le> h \<and> h \<le> pdb_ChatHead d then map_option (copied_msg j) (chats s i h) else chats s j h))"
proof -
  have ij: "i \<noteq> j" using i j(1) by auto
  obtain e s1 where create: "ds_CreatePad D now j (d\<lparr>pdb_ID := j, pdb_ReadOnlyId := None\<rparr>) s = (e, s1)" by fastforce
  have s1: "e = None" "inv s1" "revs s1 = revs s" "pads s1 = (pads s)(j \<mapsto> copied_row now j d)" "chats s1 = chats s"
    using create_pad[OF s create] create_chats[OF create] j(1) by (simp_all add: copied_row_def)
  have src: "pads s1 i \<noteq> None" "pads s1 j \<noteq> None" using s1(4) i ij by auto
  have num: "\<forall>r \<in> set [0..pdb_Head d]. revs s i r \<noteq> None \<and> rev_RevNum (the (revs s i r)) = r \<and> revs s1 j r = None"
    using revs rev_number[OF s, of i] j(2) s1(3) by fastforce
  obtain s2 where s2: "copy_rows (ds_GetRevisions D i 0 (pdb_Head d)) (copy_revision D j) (pdb_Head d \<ge> 0) s1 = (None, s2)" "inv s2"
    "pads s2 = pads s1" "chats s2 = chats s1" "revs s2 = (revs s)(j := (\<lambda>r. map_option (copied_rev j) (revs s i r)))"
  proof (cases "pdb_Head d \<ge> 0")
    case True
    have "ds_GetRevisions D i 0 (pdb_Head d) s1 = Inr (map (\<lambda>r. the (revs s i r)) [0..pdb_Head d])"
      using get_revisions[OF s1(2) src(1) True] revs s1(3) by simp
    moreover from copy_revisions[OF s1(2) src(2) num] obtain s2 where
      s2: "save_each (copy_revision D j) (map (\<lambda>r. the (revs s i r)) [0..pdb_Head d]) s1 = (None, s2)" "inv s2" "pads s2 = pads s1"
      "chats s2 = chats s1"
      "revs s2 = (revs s1)(j := (\<lambda>r. if r \<in> set [0..pdb_Head d] then map_option (copied_rev j) (revs s i r) else revs s1 j r))" by auto
    moreover have "revs s2 = (revs s)(j := (\<lambda>r. map_option (copied_rev j) (revs s i r)))"
    proof -
      have "map_option (copied_rev j) (revs s i r) = None" if "r \<notin> set [0..pdb_Head d]" for r
        using that revs[of r] by auto
      then show ?thesis unfolding s2(5) s1(3) using j(2) by (auto simp: fun_eq_iff)
    qed
    ultimately show thesis using True that by (simp add: copy_rows_def)
  next
    case False
    then have "revs s i r = None" for r using revs[of r] by auto
    then have "revs s1 = (revs s)(j := (\<lambda>r. map_option (copied_rev j) (revs s i r)))" using s1(3) j(2) by (auto simp: fun_eq_iff)
    with False show thesis using that[of s1] s1(2) by (simp add: copy_rows_def)
  qed
  have same: "chats s2 = chats s" using s2(4) s1(5) by simp
  obtain s3 where s3: "copy_rows (ds_GetChatsOfPad D i 0 (pdb_ChatHead d)) (copy_message D j) (pdb_ChatHead d \<ge> 0) s2 = (None, s3)" "inv s3"
    "pads s3 = pads s2" "revs s3 = revs s2" "chats s3 = (chats s)(j := (\<lambda>h. if h \<in> set [0..pdb_ChatHead d] then map_option (copied_msg j) (chats s i h) else chats s j h))"
  proof (cases "pdb_ChatHead d \<ge> 0")
    case True
    from get_chats[OF head, of i s2] obtain name where
      "ds_GetChatsOfPad D i 0 (pdb_ChatHead d) s2 =
        Inr (List.map_filter (\<lambda>h. map_option (\<lambda>x. \<lparr>ChatMessage = x, DisplayName = name x\<rparr>) (chats s i h)) [0..pdb_ChatHead d])"
      unfolding same by blast
    moreover have "\<forall>h \<in> set [0..pdb_ChatHead d]. 0 \<le> h \<and> h < 2 ^ 63 \<and> chats s2 j h = None \<and> (\<forall>x. chats s i h = Some x \<longrightarrow> chat_Head x = h)"
      using chat head by (auto simp: same)
    from copy_messages[OF s2(2) this, of name] obtain s3 where
      "save_each (copy_message D j) (List.map_filter (\<lambda>h. map_option (\<lambda>x. \<lparr>ChatMessage = x, DisplayName = name x\<rparr>) (chats s i h)) [0..pdb_ChatHead d]) s2 = (None, s3)"
      "inv s3" "pads s3 = pads s2" "revs s3 = revs s2"
      "chats s3 = (chats s)(j := (\<lambda>h. if h \<in> set [0..pdb_ChatHead d] then map_option (copied_msg j) (chats s i h) else chats s j h))"
      unfolding same by auto
    ultimately show thesis using True that[of s3] by (simp add: copy_rows_def)
  next
    case False
    then show thesis using that[of s2] s2(2) same by (simp add: copy_rows_def)
  qed
  have "copyPadRecords D now i j (mg, s) = (None, UnloadPad j mg, s3)"
    using get_pad[OF s] i create s1(1) s2(1) s3(1) by (simp add: copyPadRecords_def)
  then show ?thesis using s3 s2 s1(4) by (intro exI[of _ s3]) (simp add: fun_eq_iff)
qed

end

section \<open>The in-memory store and the properties\<close>

subsection \<open>The in-memory store\<close>

definition mem_chats :: "MemoryDataStore \<Rightarrow> gostring \<Rightarrow> int \<Rightarrow> ChatMessageDB option" where
  "mem_chats m i h = (if 0 \<le> h \<and> h < 2 ^ 63 then gomap_get (chatPads m) (calcChatMessageKey i h) else None)"

lemma colon_Itoa: "0 \<le> h \<Longrightarrow> 58 \<notin> set (Itoa h)"
  using text_base_dec[of "nat h"] by (auto simp: Itoa_def list_all_iff is_dec_def)

lemma split_last:
  assumes "xs @ c # ys = xs' @ c # ys'" "c \<notin> set ys" "c \<notin> set ys'" shows "xs = xs' \<and> ys = ys'"
proof -
  have cut: "takeWhile (\<lambda>x. x \<noteq> c) (rev (us @ c # vs)) = rev vs" if "c \<notin> set vs" for us vs
    using that by (subst rev_append, simp, subst takeWhile_append2) auto
  have "rev ys = rev ys'" using cut[OF assms(2), of xs] cut[OF assms(3), of xs'] assms(1) by simp
  with assms(1) show ?thesis by simp
qed

lemma map_filter_same: "(\<forall>x \<in> set xs. f x = g x) \<Longrightarrow> List.map_filter f xs = List.map_filter g xs"
  by (induction xs) (auto simp: map_filter_simps split: option.splits)

lemma message_key_inj:
  assumes "0 \<le> h" "h < 2 ^ 63" "0 \<le> k" "k < 2 ^ 63"
  shows "calcChatMessageKey i h = calcChatMessageKey j k \<longleftrightarrow> i = j \<and> h = k"
proof -
  have "i = j \<and> h = k" if "calcChatMessageKey i h = calcChatMessageKey j k"
  proof -
    have "i @ 58 # Itoa h = j @ 58 # Itoa k" using that by (simp add: calcChatMessageKey_def)
    from split_last[OF this colon_Itoa[OF assms(1)] colon_Itoa[OF assms(3)]] have "i = j" "Itoa h = Itoa k" by blast+
    with Itoa_inj[OF _ assms] show ?thesis by blast
  qed
  then show ?thesis by auto
qed

lemma collect_all:
  "(\<forall>r \<in> set rs. \<exists>x. gomap_get R r = Some x \<and> x\<lparr>rev_PadId := i, rev_RevNum := r\<rparr> = x) \<Longrightarrow>
   collect_revisions i R rs = Inr (map (\<lambda>r. the (gomap_get R r)) rs)"
  by (induction rs) auto

interpretation mem_copy: copy_store memory_store mem_pads mem_revs mem_ok mem_chats
proof (unfold_locales, unfold memory_store_methods, goal_cases)
  case (1 s i r x)
  then show ?case by (simp add: mem_ok_def mem_revs_def)
next
  case (2 s i n)
  have there: "\<exists>x. gomap_get (inner (padRevisions s) i) r = Some x \<and> x\<lparr>rev_PadId := i, rev_RevNum := r\<rparr> = x"
    if r: "0 \<le> r" "r \<le> n" for r
  proof -
    from 2(4)[OF r] obtain x where x: "gomap_get (inner (padRevisions s) i) r = Some x" by (auto simp: mem_revs_def)
    then have "rev_PadId x = i" "rev_RevNum x = r" using 2(1) by (auto simp: mem_ok_def)
    then have "x\<lparr>rev_PadId := i, rev_RevNum := r\<rparr> = x" by (cases x) simp
    with x show ?thesis by blast
  qed
  have "gomap_get (padStore s) i \<noteq> None" "gomap_get (padRevisions s) i \<noteq> None" using 2(1,2) by (auto simp: mem_ok_def mem_pads_def)
  moreover have "collect_revisions i (inner (padRevisions s) i) [0..n] = Inr (map (\<lambda>r. the (mem_revs s i r)) [0..n])"
    using collect_all[of "[0..n]" "inner (padRevisions s) i" i] there by (auto simp: mem_revs_def)
  ultimately show ?case using 2(3) by (simp add: Mem_GetRevisions_def)
next
  case (3 n i s)
  have "List.map_filter (\<lambda>h. map_option f (gomap_get (chatPads s) (calcChatMessageKey i h))) [0..n] =
      List.map_filter (\<lambda>h. map_option f (mem_chats s i h)) [0..n]" for f :: "ChatMessageDB \<Rightarrow> ChatMessageDBWithDisplayName"
    using 3 by (intro map_filter_same) (auto simp: mem_chats_def)
  then show ?case unfolding Mem_GetChatsOfPad_def by blast
next
  case (4 h i a t m s e s')
  have key: "calcChatMessageKey j k = calcChatMessageKey i h \<longleftrightarrow> j = i \<and> k = h" if "0 \<le> k" "k < 2 ^ 63" for j k
    using message_key_inj that 4(1,2) by simp
  show ?case
  proof (cases "gomap_get (chatPads s) (calcChatMessageKey i h)")
    case None
    then have s': "chatPads s' = gomap_set (chatPads s) (calcChatMessageKey i h)
        \<lparr>chat_PadId = i, chat_Head = h, chat_Message = m, chat_Time = Some t, chat_AuthorId = a\<rparr>"
      using 4(3) by (auto simp: Mem_SaveChatMessage_def)
    have "mem_chats s' j k = ((mem_chats s)(i := (mem_chats s i)(h \<mapsto>
        \<lparr>chat_PadId = i, chat_Head = h, chat_Message = m, chat_Time = Some t, chat_AuthorId = a\<rparr>))) j k" for j k
      using key[of k j] 4(1,2) by (auto simp: mem_chats_def s')
    moreover have "mem_chats s i h = None" using None by (simp add: mem_chats_def)
    ultimately show ?thesis by (simp add: fun_eq_iff)
  next
    case (Some x)
    then show ?thesis using 4 by (auto simp: Mem_SaveChatMessage_def mem_chats_def)
  qed
next
  case (5 now i d s e s')
  then show ?case by (auto simp: Mem_CreatePad_def mem_chats_def fun_eq_iff split: option.splits)
next
  case (6 i r cs at pool a t s e s')
  then show ?case by (auto simp: Mem_SaveRevision_def mem_chats_def fun_eq_iff split: if_splits)
qed

subsection \<open>Loading\<close>

definition row_loads :: "PadDB \<Rightarrow> bool" where
  "row_loads d \<longleftrightarrow> (\<exists>pool. FromDB NewAPool \<lparr>PadNumToAttrib = RevNumToAttrib (pdb_Pool d), PadNextNum = RevNextNum (pdb_Pool d)\<rparr> = Inr pool)"

lemma load_row:
  assumes "mem_ok s" "IsValidPadId i" "mem_pads s i = Some d" "mem_revs s i (pdb_Head d) \<noteq> None" "row_loads d" "Cache_GetPad i mg = None"
  shows "\<exists>q. Manager_GetPad memory_store now dflt i None None (mg, s) = Some (Inr q, Cache_SetPad i q mg, s) \<and> pad_Id q = i \<and>
    pad_AText q = \<lparr>Text = pdb_ATextText d, ATAttribs = pdb_ATextAttribs d\<rparr> \<and> pad_Head q = pdb_Head d \<and> ChatHead q = pdb_ChatHead d"
proof -
  obtain q where q: "NewPad i = Inr q" "pad_Id q = i" using NewPad_history by blast
  obtain x where x: "ds_GetRevision memory_store i (pdb_Head d) s = Inr x"
    using mem.get_revision[OF assms(1)] assms(3,4) by fastforce
  have "ds_GetPad memory_store i s = Inr d" using mem.get_pad[OF assms(1)] assms(3) by simp
  moreover obtain pool where "FromDB NewAPool \<lparr>PadNumToAttrib = RevNumToAttrib (pdb_Pool d), PadNextNum = RevNextNum (pdb_Pool d)\<rparr> = Inr pool"
    using assms(5) unfolding row_loads_def by blast
  then obtain q' where q': "mapDBPadToModel d q = Inr q'" "pad_Id q' = i"
    "pad_AText q' = \<lparr>Text = pdb_ATextText d, ATAttribs = pdb_ATextAttribs d\<rparr>" "pad_Head q' = pdb_Head d" "ChatHead q' = pdb_ChatHead d"
    using q(2) by (simp add: mapDBPadToModel_def)
  ultimately have "Init memory_store now dflt None None q s = Some (Inr (), q', s)" using x q(2) by (simp add: Init_def del: memory_store_methods)
  then have "Manager_GetPad memory_store now dflt i None None (mg, s) = Some (Inr q', Cache_SetPad i q' mg, s)"
    using assms(2,6) q(1) by (simp add: Manager_GetPad_def)
  with q' show ?thesis by blast
qed

lemma get_row:
  assumes "mem_ok s" "IsValidPadId i" "mem_pads s i = Some d" "mem_revs s i (pdb_Head d) \<noteq> None" "row_loads d"
  shows "\<exists>q mg'. Manager_GetPad memory_store now dflt i None None (mg, s) = Some (Inr q, mg', s) \<and>
    (\<forall>k. k \<noteq> i \<longrightarrow> Cache_GetPad k mg' = Cache_GetPad k mg)"
proof (cases "Cache_GetPad i mg")
  case None
  from load_row[OF assms None] show ?thesis by (fastforce simp: Cache_SetPad_def Cache_GetPad_def)
next
  case (Some q)
  then show ?thesis using assms(2) by (auto simp: Manager_GetPad_def)
qed

lemma with_pad_row:
  assumes "mem_ok (srv_store st)" "IsValidPadId i" "mem_pads (srv_store st) i = Some d" "mem_revs (srv_store st) i (pdb_Head d) \<noteq> None" "row_loads d"
  shows "\<exists>q mg. (\<forall>f. with_pad memory_store now dflt i f st = f q (st\<lparr>manager := mg\<rparr>)) \<and>
    (\<forall>k. k \<noteq> i \<longrightarrow> Cache_GetPad k mg = Cache_GetPad k (manager st))"
proof -
  from get_row[OF assms, of now dflt "manager st"] obtain q mg where
    "Manager_GetPad memory_store now dflt i None None (manager st, srv_store st) = Some (Inr q, mg, srv_store st)"
    "\<forall>k. k \<noteq> i \<longrightarrow> Cache_GetPad k mg = Cache_GetPad k (manager st)" by blast
  moreover have "ds_DoesPadExist memory_store i (srv_store st) = Inr True"
    using assms(3) by (simp add: memory_store_methods Mem_DoesPadExist_def mem_pads_def)
  moreover have "st\<lparr>manager := mg, srv_store := srv_store st\<rparr> = st\<lparr>manager := mg\<rparr>" by simp
  ultimately show ?thesis using assms(2) by (auto simp: with_pad_def GetPadSafe_def DoesPadExist_def intro!: exI[of _ q] exI[of _ mg])
qed

subsection \<open>The properties\<close>

text \<open>A stored pad that can be loaded, with all its revisions and the numbers of its chat messages.\<close>

definition whole_pad :: "MemoryDataStore \<Rightarrow> gostring \<Rightarrow> PadDB \<Rightarrow> bool" where
  "whole_pad m i d \<longleftrightarrow> IsValidPadId i \<and> mem_pads m i = Some d \<and> row_loads d \<and> 0 \<le> pdb_Head d \<and> pdb_ChatHead d < 2 ^ 63 \<and>
     (\<forall>r. mem_revs m i r \<noteq> None \<longleftrightarrow> 0 \<le> r \<and> r \<le> pdb_Head d) \<and>
     (\<forall>h x. mem_chats m i h = Some x \<longrightarrow> chat_Head x = h)"

text \<open>A place for a copy: no pad, and no messages left of an earlier one.\<close>

definition free_place :: "MemoryDataStore \<Rightarrow> gostring \<Rightarrow> bool" where
  "free_place m j \<longleftrightarrow> IsValidPadId j \<and> mem_pads m j = None \<and> mem_chats m j = (\<lambda>_. None)"

lemma free_revs: "mem_ok m \<Longrightarrow> mem_pads m j = None \<Longrightarrow> mem_revs m j r = None"
  by (metis gomap_get_Nil inner_get(2) mem_ok_def mem_pads_def mem_revs_def)

text \<open>What a copy makes of the store.\<close>

definition with_copy :: "time \<Rightarrow> gostring \<Rightarrow> PadDB \<Rightarrow> gostring \<Rightarrow> MemoryDataStore \<Rightarrow> MemoryDataStore \<Rightarrow> bool" where
  "with_copy now i d j m m' \<longleftrightarrow> mem_ok m' \<and> mem_pads m' = (mem_pads m)(j \<mapsto> copied_row now j d) \<and>
     mem_revs m' = (mem_revs m)(j := (\<lambda>r. map_option (copied_rev j) (mem_revs m i r))) \<and>
     mem_chats m' = (mem_chats m)(j := (\<lambda>h. if 0 \<le> h \<and> h \<le> pdb_ChatHead d then map_option (copied_msg j) (mem_chats m i h) else None))"

lemma copy_to_row:
  assumes s: "mem_ok (srv_store st)" and i: "whole_pad (srv_store st) i d" and j: "free_place (srv_store st) j"
  shows "\<exists>mg m' q. copy_to memory_store now dflt i j force f p st = f (st\<lparr>manager := Cache_SetPad j q mg, srv_store := m'\<rparr>) \<and>
    (\<forall>k. k \<noteq> j \<longrightarrow> Cache_GetPad k mg = Cache_GetPad k (manager st)) \<and> with_copy now i d j (srv_store st) m' \<and>
    pad_Id q = j \<and> pad_AText q = \<lparr>Text = pdb_ATextText d, ATAttribs = pdb_ATextAttribs d\<rparr> \<and> pad_Head q = pdb_Head d \<and> ChatHead q = pdb_ChatHead d"
proof -
  note I = i[unfolded whole_pad_def] and J = j[unfolded free_place_def]
  from mem_copy.copy_pad[where now = now and mg = "manager st" and i = i and j = j and d = d, OF s] I J free_revs[OF s, of j] obtain m' where
    copy: "copyPadRecords memory_store now i j (manager st, srv_store st) = (None, UnloadPad j (manager st), m')" and
    m1: "mem_ok m'" "mem_pads m' = (mem_pads (srv_store st))(j \<mapsto> copied_row now j d)"
      "mem_revs m' = (mem_revs (srv_store st))(j := (\<lambda>r. map_option (copied_rev j) (mem_revs (srv_store st) i r)))"
      "mem_chats m' = (mem_chats (srv_store st))(j := (\<lambda>h. if 0 \<le> h \<and> h \<le> pdb_ChatHead d
         then map_option (copied_msg j) (mem_chats (srv_store st) i h) else mem_chats (srv_store st) j h))" by auto
  have m': "with_copy now i d j (srv_store st) m'" unfolding with_copy_def m1(2-4) using m1(1) J by (auto simp: fun_eq_iff)
  have "IsValidPadId j \<Longrightarrow> j \<noteq> []" by (auto simp: IsValidPadId_def pad_name_def)
  then have prep: "prepareCopyDestination memory_store j force st = (None, st)"
    using J by (simp add: prepareCopyDestination_def DoesPadExist_def Mem_DoesPadExist_def mem_pads_def)
  have row: "mem_ok m'" "mem_pads m' j = Some (copied_row now j d)" "mem_revs m' j (pdb_Head (copied_row now j d)) \<noteq> None" "row_loads (copied_row now j d)"
    using m' I by (auto simp: with_copy_def copied_row_def stamped_def row_loads_def)
  have "Cache_GetPad j (UnloadPad j (manager st)) = None" by (simp add: UnloadPad_def Cache_GetPad_def Cache_DeletePad_def Let_def)
  from load_row[OF row(1) _ row(2-4) this] J obtain q where
    q: "Manager_GetPad memory_store now dflt j None None (UnloadPad j (manager st), m') = Some (Inr q, Cache_SetPad j q (UnloadPad j (manager st)), m')"
    "pad_Id q = j" "pad_AText q = \<lparr>Text = pdb_ATextText d, ATAttribs = pdb_ATextAttribs d\<rparr>" "pad_Head q = pdb_Head d" "ChatHead q = pdb_ChatHead d"
    by (fastforce simp: copied_row_def stamped_def)
  have "copy_to memory_store now dflt i j force f p st = f (st\<lparr>manager := Cache_SetPad j q (UnloadPad j (manager st)), srv_store := m'\<rparr>)"
    using q(1) by (simp add: copy_to_def prep copy firePadCopy_def)
  moreover have "Cache_GetPad k (UnloadPad j (manager st)) = Cache_GetPad k (manager st)" if "k \<noteq> j" for k
    using that by (simp add: UnloadPad_def Cache_GetPad_def Cache_DeletePad_def Let_def)
  ultimately show ?thesis using q(2-5) m' by blast
qed


text \<open>
  C34. A request to copy or move a pad onto itself with \<open>force\<close> destroys it: the destination is
  removed first, then nothing is left to copy. The answer is an internal error, and the row and
  all revisions of the pad are gone.
\<close>

theorem copy_onto_itself_destroys:
  assumes "mem_ok (srv_store st)" "whole_pad (srv_store st) src d"
  shows "\<exists>st'. CopyPad memory_store now dflt src (Some (src, True)) st = Some (Inr (Refuse 500 InternalServerError), st') \<and>
    MovePad memory_store now dflt src (Some (src, True)) st = Some (Inr (Refuse 500 InternalServerError), st') \<and>
    mem_ok (srv_store st') \<and> mem_pads (srv_store st') = (mem_pads (srv_store st))(src := None) \<and>
    mem_revs (srv_store st') = (mem_revs (srv_store st))(src := (\<lambda>_. None)) \<and> Cache_GetPad src (manager st') = None"
proof -
  note I = assms(2)[unfolded whole_pad_def]
  then have head: "mem_revs (srv_store st) src (pdb_Head d) \<noteq> None" by simp
  have src: "src \<noteq> []" using I by (auto simp: IsValidPadId_def pad_name_def)
  define m where "m = (srv_store st)\<lparr>padStore := gomap_del (padStore (srv_store st)) src, padRevisions := gomap_del (padRevisions (srv_store st)) src\<rparr>"
  have m: "mem_ok m" "mem_pads m = (mem_pads (srv_store st))(src := None)" "mem_revs m = (mem_revs (srv_store st))(src := (\<lambda>_. None))"
    using assms(1) by (auto simp: m_def mem_ok_def mem_pads_def mem_revs_def inner_del fun_eq_iff)
  from with_pad_row[OF assms(1) _ _ head, of now dflt] I obtain p mg where
    run: "\<And>f. with_pad memory_store now dflt src (f :: Pad \<Rightarrow> MemoryDataStore Server \<Rightarrow> (MemoryDataStore, gostring) answer) st = f p (st\<lparr>manager := mg\<rparr>)"
    by blast
  let ?st = "st\<lparr>manager := UnloadPad src mg, srv_store := m\<rparr>"
  have "prepareCopyDestination memory_store src True (st\<lparr>manager := mg\<rparr>) = (None, ?st)"
    using src I by (simp add: prepareCopyDestination_def DoesPadExist_def Mem_DoesPadExist_def mem_pads_def Manager_RemovePad_def
      Mem_RemovePad_def UnloadPad_def Let_def m_def)
  moreover have "copyPadRecords memory_store now src src (UnloadPad src mg, m) = (Some (Err PadDoesNotExistError), UnloadPad src mg, m)"
    using mem.get_pad[OF m(1), of src] m(2) by (simp add: copyPadRecords_def)
  ultimately have gone: "copy_to memory_store now dflt src src True f p (st\<lparr>manager := mg\<rparr>) = Some (Inr (Refuse 500 InternalServerError), ?st)" for f
    by (simp add: copy_to_def refuse_error_def reply_def)
  have "Cache_GetPad src (UnloadPad src mg) = None" by (simp add: UnloadPad_def Cache_GetPad_def Cache_DeletePad_def Let_def)
  with m show ?thesis by (intro exI[of _ ?st]) (simp add: CopyPad_def MovePad_def run gone)
qed

subsection \<open>Witnesses\<close>

text \<open>A server whose store has one pad of one revision, with one chat message.\<close>

definition sample_row :: PadDB where
  "sample_row =
     \<lparr>pdb_ID = lit ''p'', pdb_Head = 0, pdb_SavedRevisions = [], pdb_ReadOnlyId = None,
      pdb_Pool = \<lparr>RevNumToAttrib = [], RevNextNum = 0, RevAttribToNum = []\<rparr>, pdb_ChatHead = 0, pdb_PublicStatus = False,
      pdb_DocumentType = lit ''text'', pdb_ATextText = lit ''a'' @ [newline], pdb_ATextAttribs = lit ''|1+2'', pdb_CreatedAt = 0,
      pdb_UpdatedAt = None\<rparr>"

definition sample_revision :: PadSingleRevision where
  "sample_revision = revision_row (lit ''p'') 0 (lit ''Z:1>1+1$a'') \<lparr>Text = lit ''a'' @ [newline], ATAttribs = lit ''|1+2''\<rparr>
     (pdb_Pool sample_row) None 0"

definition sample_message :: ChatMessageDB where
  "sample_message = \<lparr>chat_PadId = lit ''p'', chat_Head = 0, chat_Message = lit ''hi'', chat_Time = Some 5, chat_AuthorId = None\<rparr>"

definition sample_server :: "MemoryDataStore Server" where
  "sample_server =
     \<lparr>srv_store = NewMemoryDataStore\<lparr>padStore := [(lit ''p'', sample_row)], padRevisions := [(lit ''p'', [(0, sample_revision)])],
        chatPads := [(calcChatMessageKey (lit ''p'') 0, sample_message)]\<rparr>,
      manager = NewManager, sessions = [], hub = [], sheets = []\<rparr>"

lemma sample_chats: "mem_chats (srv_store sample_server) i h = (if i = lit ''p'' \<and> h = 0 then Some sample_message else None)"
  using message_key_inj[of 0 h "lit ''p''" i] by (auto simp: mem_chats_def sample_server_def gomap_get_Cons simp del: lit_simps)

lemma sample_whole: "mem_ok (srv_store sample_server)" "whole_pad (srv_store sample_server) (lit ''p'') sample_row"
proof -
  show "mem_ok (srv_store sample_server)"
    by (auto simp: sample_server_def mem_ok_def gomap_get_Cons inner_def sample_revision_def revision_row_def simp del: lit_simps split: if_splits)
  have "IsValidPadId (lit ''p'')" by code_simp
  moreover have "row_loads sample_row" by (simp add: row_loads_def sample_row_def FromDB_def ToIntPool_def)
  ultimately show "whole_pad (srv_store sample_server) (lit ''p'') sample_row"
    unfolding whole_pad_def sample_chats
    by (auto simp: sample_server_def sample_row_def sample_message_def mem_pads_def mem_revs_def gomap_get_Cons simp del: lit_simps split: if_splits)
qed


lemma copy_onto_itself_destroys_witness:
  "\<exists>st'. CopyPad memory_store 7 [] (lit ''p'') (Some (lit ''p'', True)) sample_server = Some (Inr (Refuse 500 InternalServerError), st') \<and>
     mem_pads (srv_store sample_server) (lit ''p'') \<noteq> None \<and> mem_pads (srv_store st') (lit ''p'') = None"
  using copy_onto_itself_destroys[OF sample_whole, of 7 "[]"] sample_whole(2) by (auto simp: whole_pad_def simp del: lit_simps)

end
