(* ===== verification/GroupApi.thy ===== *)
theory GroupApi
  imports PadApi Access
begin

text \<open>
  The HTTP API of groups, authors and API sessions: \<^verbatim>\<open>init.go\<close> of \<^verbatim>\<open>lib/api/groups\<close>, \<^verbatim>\<open>lib/api/author\<close>
  and \<^verbatim>\<open>lib/api/session\<close>, in the style of \<open>PadApi\<close>. The digest of a group mapper (SHA-256, in
  hexadecimal) and the validator of a name are arguments.
\<close>

definition AuthorNotFoundError_api :: ApiError where
  "AuthorNotFoundError_api = \<lparr>message = ''Author not found'', error_code = 404\<rparr>"

text \<open>A step on the store whose error is answered with a status.\<close>

definition after_step :: "goerr option \<times> 's \<Rightarrow> ('s Server \<Rightarrow> ('s, 'b) answer) \<Rightarrow> 's Server \<Rightarrow> ('s, 'b) answer" where
  "after_step step f st =
     (case step of
        (Some err, s) \<Rightarrow> refuse_error 500 InternalServerError err (set_store s st)
      | (None, s) \<Rightarrow> f (set_store s st))"

definition with_group :: "'s DataStore \<Rightarrow> gostring \<Rightarrow> ('s Server \<Rightarrow> ('s, 'b) answer) \<Rightarrow> 's Server \<Rightarrow> ('s, 'b) answer" where
  "with_group D groupId f st =
     (case ds_GetGroup D groupId (srv_store st) of
        Inl err \<Rightarrow> refuse_error 404 (NewInvalidParamError ''group does not exist'') err st
      | Inr _ \<Rightarrow> f st)"

subsection \<open>lib/api/groups\<close>

definition CreateGroup :: "'s DataStore \<Rightarrow> gostring \<Rightarrow> 's Server \<Rightarrow> ('s, gostring) answer" where
  "CreateGroup D random16 st =
     (let groupId = lit ''g.'' @ random16
      in after_step (ds_SaveGroup D groupId (srv_store st)) (reply (Reply groupId)) st)"

definition DeleteGroup :: "'s DataStore \<Rightarrow> gostring \<Rightarrow> 's Server \<Rightarrow> ('s, unit) answer" where
  "DeleteGroup D groupId st =
     (if groupId = [] then reply (Refuse 400 (NewMissingParamError ''groupId'')) st
      else with_group D groupId (\<lambda>st1. after_step (ds_RemoveGroup D groupId (srv_store st1)) (reply Done) st1) st)"

text \<open>The body: the name of the pad, its text and its author.\<close>

definition CreateGroupPad ::
  "'s DataStore \<Rightarrow> time \<Rightarrow> gostring \<Rightarrow> gostring \<Rightarrow> (gostring \<times> gostring \<times> gostring) option \<Rightarrow> 's Server \<Rightarrow> ('s, gostring) answer" where
  "CreateGroupPad D now defaultText groupId request st =
     (if groupId = [] then reply (Refuse 400 (NewMissingParamError ''groupId'')) st
      else case request of
        None \<Rightarrow> reply (Refuse 400 InvalidRequestError) st
      | Some (padName, text, author) \<Rightarrow>
          if padName = [] then reply (Refuse 400 (NewMissingParamError ''padName'')) st
          else if \<exists>r \<in> set (lit ''/?&#$''). r \<in> set padName then reply (Refuse 400 (NewInvalidParamError ''malformed padName'')) st
          else with_group D groupId (\<lambda>st1.
            let padId = groupId @ lit ''$'' @ padName
            in case DoesPadExist D padId (srv_store st1) of
                 Inl err \<Rightarrow> refuse_error 500 InternalServerError err st1
               | Inr True \<Rightarrow> reply (Refuse 409 (NewInvalidParamError ''pad already exists'')) st1
               | Inr False \<Rightarrow>
                   (case Manager_GetPad D now defaultText padId (nonempty text) (nonempty author) (manager st1, srv_store st1) of
                      None \<Rightarrow> None
                    | Some (Inl err, m, s) \<Rightarrow> refuse_error 500 InternalServerError err (st1\<lparr>manager := m, srv_store := s\<rparr>)
                    | Some (Inr pad, m, s) \<Rightarrow> reply (Reply padId) (st1\<lparr>manager := m, srv_store := s\<rparr>))) st)"

definition CreateGroupIfNotExistsFor ::
  "'s DataStore \<Rightarrow> (gostring \<Rightarrow> gostring) \<Rightarrow> gostring option \<Rightarrow> 's Server \<Rightarrow> ('s, gostring) answer" where
  "CreateGroupIfNotExistsFor D sha256 request st =
     (case request of
        None \<Rightarrow> reply (Refuse 400 InvalidRequestError) st
      | Some groupMapper \<Rightarrow>
          if groupMapper = [] then reply (Refuse 400 (NewMissingParamError ''groupMapper'')) st
          else
            let groupId = lit ''g.'' @ take 16 (sha256 groupMapper)
            in after_step (ds_SaveGroup D groupId (srv_store st)) (reply (Reply groupId)) st)"

definition ListAllGroups :: "'s DataStore \<Rightarrow> 's Server \<Rightarrow> ('s, gostring list) answer" where
  "ListAllGroups D st =
     (case ds_GetGroups D (srv_store st) of
        Inl err \<Rightarrow> refuse_error 500 InternalServerError err st | Inr groupIds \<Rightarrow> reply (Reply groupIds) st)"

definition ListGroupPads :: "'s DataStore \<Rightarrow> gostring \<Rightarrow> 's Server \<Rightarrow> ('s, gostring list) answer" where
  "ListGroupPads D groupId st =
     (if groupId = [] then reply (Refuse 400 (NewMissingParamError ''groupId'')) st
      else with_group D groupId (\<lambda>st1.
        case ds_GetPadIds D (srv_store st1) of
          Inl err \<Rightarrow> refuse_error 500 InternalServerError err st1
        | Inr padIds \<Rightarrow> reply (Reply (filter (\<lambda>padId. has_prefix padId (groupId @ lit ''$'')) padIds)) st1) st)"

subsection \<open>lib/api/author\<close>

definition with_author :: "'s DataStore \<Rightarrow> gostring \<Rightarrow> (Author \<Rightarrow> 's Server \<Rightarrow> ('s, 'b) answer) \<Rightarrow> 's Server \<Rightarrow> ('s, 'b) answer" where
  "with_author D authorId f st =
     (if authorId = [] then reply (Refuse 400 (NewInvalidParamError ''authorId is required'')) st
      else case GetAuthor D authorId (srv_store st) of
        Inl err \<Rightarrow> refuse_error 404 AuthorNotFoundError_api err st
      | Inr foundAuthor \<Rightarrow> f foundAuthor st)"

definition Api_CreateAuthor ::
  "'s DataStore \<Rightarrow> time \<Rightarrow> drawn \<Rightarrow> (gostring \<Rightarrow> string option) \<Rightarrow> gostring option \<Rightarrow> 's Server \<Rightarrow> ('s, gostring) answer" where
  "Api_CreateAuthor D now rnd validator request st =
     (case request of
        None \<Rightarrow> reply (Refuse 400 InvalidRequestError) st
      | Some name \<Rightarrow>
          (case validator name of
             Some why \<Rightarrow> reply (Refuse 400 (NewInvalidParamError why)) st
           | None \<Rightarrow>
               (case CreateAuthor D now rnd (Some name) (srv_store st) of
                  (Inl err, s) \<Rightarrow> refuse_error 500 InternalServerError err (set_store s st)
                | (Inr createdAuthor, s) \<Rightarrow> reply (Reply (author_Id createdAuthor)) (set_store s st))))"

text \<open>The body: the mapper and the name. The error of the new name is dropped.\<close>

definition CreateAuthorIfNotExistsFor ::
  "'s DataStore \<Rightarrow> time \<Rightarrow> drawn \<Rightarrow> (gostring \<times> gostring) option \<Rightarrow> 's Server \<Rightarrow> ('s, gostring) answer" where
  "CreateAuthorIfNotExistsFor D now rnd request st =
     (case request of
        None \<Rightarrow> reply (Refuse 400 InvalidRequestError) st
      | Some (authorMapper, name) \<Rightarrow>
          if authorMapper = [] then reply (Refuse 400 (NewMissingParamError ''authorMapper'')) st
          else case GetAuthor4Token D now rnd authorMapper (srv_store st) of
            (Inl err, s) \<Rightarrow> refuse_error 500 InternalServerError err (set_store s st)
          | (Inr existingAuthor, s) \<Rightarrow>
              let s1 = (if name = [] then s else snd (SetAuthorName D (author_Id existingAuthor) name s))
              in reply (Reply (author_Id existingAuthor)) (set_store s1 st))"

definition Api_GetAuthorName :: "'s DataStore \<Rightarrow> gostring \<Rightarrow> 's Server \<Rightarrow> ('s, gostring) answer" where
  "Api_GetAuthorName D authorId =
     with_author D authorId (\<lambda>foundAuthor. reply (Reply (case author_Name foundAuthor of None \<Rightarrow> [] | Some name \<Rightarrow> name)))"

definition Api_GetAuthor :: "'s DataStore \<Rightarrow> gostring \<Rightarrow> 's Server \<Rightarrow> ('s, Author) answer" where
  "Api_GetAuthor D authorId = with_author D authorId (\<lambda>foundAuthor. reply (Reply foundAuthor))"

definition GetAuthorPads :: "'s DataStore \<Rightarrow> gostring \<Rightarrow> 's Server \<Rightarrow> ('s, gostring list) answer" where
  "GetAuthorPads D authorId =
     with_author D authorId (\<lambda>foundAuthor st.
       case GetPadsOfAuthor D authorId (srv_store st) of
         Inl err \<Rightarrow> refuse_error 500 InternalServerError err st
       | Inr padsOfAuthor \<Rightarrow> reply (Reply padsOfAuthor) st)"

definition Api_AnonymizeAuthor :: "'s DataStore \<Rightarrow> time \<Rightarrow> gostring \<Rightarrow> 's Server \<Rightarrow> ('s, gostring \<times> bool) answer" where
  "Api_AnonymizeAuthor D now authorId st =
     (if authorId = [] then reply (Refuse 400 (NewInvalidParamError ''authorId is required'')) st
      else case AnonymizeAuthor D now authorId (srv_store st) of
        (Some err, s) \<Rightarrow>
          if err = Err AuthorNotFoundError then reply (Refuse 404 AuthorNotFoundError_api) (set_store s st)
          else refuse_error 500 InternalServerError err (set_store s st)
      | (None, s) \<Rightarrow> reply (Reply (authorId, True)) (set_store s st))"

subsection \<open>lib/api/session\<close>

record SessionWithID =
  SessionID :: gostring
  SessionInfoResponse :: ApiSessionInfo

text \<open>\<^verbatim>\<open>sort.Slice\<close> over ids that are all different.\<close>

fun insert_session :: "SessionWithID \<Rightarrow> SessionWithID list \<Rightarrow> SessionWithID list" where
  "insert_session x [] = [x]"
| "insert_session x (y # ys) = (if str_less (SessionID y) (SessionID x) then y # insert_session x ys else x # y # ys)"

definition toListResponse :: "(gostring, ApiSessionInfo) gomap \<Rightarrow> SessionWithID list" where
  "toListResponse found =
     foldr insert_session (map (\<lambda>(ident, info). \<lparr>SessionID = ident, SessionInfoResponse = info\<rparr>) found) []"

text \<open>The body: the group, the author and the end, in seconds.\<close>

definition Api_CreateSession ::
  "'s DataStore \<Rightarrow> time \<Rightarrow> gostring \<Rightarrow> (gostring \<times> gostring \<times> int) option \<Rightarrow> 's Server \<Rightarrow> ('s, gostring) answer" where
  "Api_CreateSession D now random16 request st =
     (case request of
        None \<Rightarrow> reply (Refuse 400 InvalidRequestError) st
      | Some (groupID, authorID, validUntil) \<Rightarrow>
          if groupID = [] then reply (Refuse 400 (NewMissingParamError ''groupID'')) st
          else if authorID = [] then reply (Refuse 400 (NewMissingParamError ''authorID'')) st
          else if validUntil \<le> unix_of now then reply (Refuse 400 (NewInvalidParamError ''validUntil is in the past'')) st
          else with_group D groupID (\<lambda>st1.
            case ds_GetAuthor D authorID (srv_store st1) of
              Inl err \<Rightarrow> refuse_error 404 (NewInvalidParamError ''author does not exist'') err st1
            | Inr _ \<Rightarrow>
                (case CreateSession D random16 groupID authorID validUntil (srv_store st1) of
                   (Inl err, s) \<Rightarrow> refuse_error 500 InternalServerError err (set_store s st1)
                 | (Inr sessionId, s) \<Rightarrow> reply (Reply sessionId) (set_store s st1))) st)"

definition Api_GetSessionInfo :: "'s DataStore \<Rightarrow> gostring \<Rightarrow> 's Server \<Rightarrow> ('s, ApiSessionInfo) answer" where
  "Api_GetSessionInfo D sessionId st =
     (case GetSessionInfo D sessionId (srv_store st) of
        Inl err \<Rightarrow> refuse_error 500 InternalServerError err st
      | Inr None \<Rightarrow> reply (Refuse 404 (NewInvalidParamError ''session does not exist'')) st
      | Inr (Some info) \<Rightarrow> reply (Reply info) st)"

definition Api_DeleteSession :: "'s DataStore \<Rightarrow> gostring \<Rightarrow> 's Server \<Rightarrow> ('s, unit) answer" where
  "Api_DeleteSession D sessionId st =
     (case DeleteSession D sessionId (srv_store st) of
        (Inl err, s) \<Rightarrow> refuse_error 500 InternalServerError err (set_store s st)
      | (Inr False, s) \<Rightarrow> reply (Refuse 404 (NewInvalidParamError ''session does not exist'')) (set_store s st)
      | (Inr True, s) \<Rightarrow> reply Done (set_store s st))"

definition list_reply :: "(gostring, ApiSessionInfo) gomap result \<Rightarrow> 's Server \<Rightarrow> ('s, SessionWithID list) answer" where
  "list_reply found st =
     (case found of Inl err \<Rightarrow> refuse_error 500 InternalServerError err st | Inr m \<Rightarrow> reply (Reply (toListResponse m)) st)"

definition Api_ListSessionsOfGroup :: "'s DataStore \<Rightarrow> gostring \<Rightarrow> 's Server \<Rightarrow> ('s, SessionWithID list) answer" where
  "Api_ListSessionsOfGroup D groupId =
     with_group D groupId (\<lambda>st. list_reply (ListSessionsOfGroup D groupId (srv_store st)) st)"

definition Api_ListSessionsOfAuthor :: "'s DataStore \<Rightarrow> gostring \<Rightarrow> 's Server \<Rightarrow> ('s, SessionWithID list) answer" where
  "Api_ListSessionsOfAuthor D authorId st =
     (case ds_GetAuthor D authorId (srv_store st) of
        Inl err \<Rightarrow> refuse_error 404 (NewInvalidParamError ''author does not exist'') err st
      | Inr _ \<Rightarrow> list_reply (ListSessionsOfAuthor D authorId (srv_store st)) st)"

end
