(* ===== verification/RevisionRanges.thy ===== *)
theory RevisionRanges
  imports UserChanges AttributionLines
begin

text \<open>
  Ranges of revisions for the time slider, in \<^verbatim>\<open>lib/ws/PadMessageHandler.go\<close>: composed
  changesets, their inverses and the answer to \<^verbatim>\<open>CHANGESET_REQ\<close>. The tests of the new changesets
  (\<^verbatim>\<open>ValidateWellFormed\<close>, \<^verbatim>\<open>ValidateRoundTrip\<close>) are only logged there and left out; the two
  rounding steps through floating point are exact for the sizes of a pad. A request works on
  a copy of the pad whose pool shares its tables; what an error path did to it is dropped.
\<close>

fun revision_changesets :: "'s DataStore \<Rightarrow> Pad \<Rightarrow> int list \<Rightarrow> 's \<Rightarrow> gostring list result" where
  "revision_changesets D pad [] s = Inr []"
| "revision_changesets D pad (i # is) s =
     (case GetRevisionChangeset D i pad s of
        Inl Panic \<Rightarrow> Inl Panic
      | Inl (Err e) \<Rightarrow> Inl (Err ''error retrieving changeset for revision'')
      | Inr cs \<Rightarrow> bind_result (revision_changesets D pad is s) (\<lambda>css. Inr (cs # css)))"

fun compose_all :: "gostring \<Rightarrow> gostring list \<Rightarrow> APool \<Rightarrow> (gostring \<times> APool) result option" where
  "compose_all cs [] pool = Some (Inr (cs, pool))"
| "compose_all cs (next' # css) pool =
     bind_run (Compose cs next' (Some pool)) (\<lambda>(cs1, pool1).
       compose_all cs1 css (case pool1 of None \<Rightarrow> pool | Some p \<Rightarrow> p))"

definition composePadChangesets :: "'s DataStore \<Rightarrow> Pad \<Rightarrow> int \<Rightarrow> int \<Rightarrow> 's \<Rightarrow> (gostring \<times> APool) result option" where
  "composePadChangesets D pad start end' s =
     (case revision_changesets D pad [max start 0..min end' (pad_Head pad + 1) - 1] s of
        Inl err \<Rightarrow> Some (Inl err)
      | Inr [] \<Rightarrow> Some (Inl Panic)
      | Inr (cs # css) \<Rightarrow> compose_all cs css (pad_Pool pad))"

text \<open>
  The variant of the clean-up. It reads all revisions at once and indexes the list by their
  numbers, so a range that does not start at 0 misses its revisions.
\<close>

definition ComposePadChangesets :: "'s DataStore \<Rightarrow> Pad \<Rightarrow> int \<Rightarrow> int \<Rightarrow> 's \<Rightarrow> (gostring \<times> APool) result option" where
  "ComposePadChangesets D pad start end' s =
     (let endNum = min end' (pad_Head pad + 1); startNum = max start 0
      in if endNum \<le> startNum then Some (Inl Panic)
         else case Pad_GetRevisions D startNum (endNum - 1) pad s of
           Inl err \<Rightarrow> Some (Inl err)
         | Inr required \<Rightarrow>
             if int (length required) \<le> startNum then Some (Inl Panic)
             else let css = map rev_Changeset (take (nat (endNum - startNum - 1)) (drop (nat (startNum + 1)) required))
                  in bind_run (compose_all (rev_Changeset (required ! nat startNum)) css (pad_Pool pad)) (\<lambda>(cs, pool).
                       if int (length required) < endNum then Some (Inl Panic) else Some (Inr (cs, pool))))"

record LineChange =
  Alines :: "gostring list"
  lc_TextLines :: "gostring list"

definition getPadLines :: "'s DataStore \<Rightarrow> Pad \<Rightarrow> int \<Rightarrow> 's \<Rightarrow> (LineChange \<times> Pad) result option" where
  "getPadLines D pad revNum s =
     (case (if revNum \<ge> 0 then GetInternalRevisionAText D revNum pad s
            else Some (case MakeAText [newline] None of Inl err \<Rightarrow> None | Inr a \<Rightarrow> Some a, pad)) of
        None \<Rightarrow> None
      | Some (None, pad1) \<Rightarrow> Some (Inl (Err ''could not retrieve atext for revision''))
      | Some (Some atext, pad1) \<Rightarrow>
          (case SplitAttributionLines (ATAttribs atext) (Text atext) of
             Inl Panic \<Rightarrow> Some (Inl Panic)
           | Inl (Err e) \<Rightarrow> Some (Inl (Err ''error splitting attribution lines''))
           | Inr alines \<Rightarrow> Some (Inr (\<lparr>Alines = alines, lc_TextLines = SplitTextLines (Text atext)\<rparr>, pad1))))"

text \<open>The starts of the ranges below \<open>end'\<close>; the granularity is positive.\<close>

definition range_starts :: "int \<Rightarrow> int \<Rightarrow> int \<Rightarrow> int list" where
  "range_starts start end' granularity =
     map (\<lambda>i. start + int i * granularity) [0..<nat ((end' - start + granularity - 1) div granularity)]"

fun compose_ranges :: "'s DataStore \<Rightarrow> int \<Rightarrow> int list \<Rightarrow> Pad \<Rightarrow> 's \<Rightarrow> (gostring list \<times> Pad) result option" where
  "compose_ranges D granularity [] pad s = Some (Inr ([], pad))"
| "compose_ranges D granularity (start # starts) pad s =
     bind_run (composePadChangesets D pad start (start + granularity) s) (\<lambda>(cs, pool).
     bind_run (compose_ranges D granularity starts (pad\<lparr>pad_Pool := pool\<rparr>) s) (\<lambda>(css, pad1).
       Some (Inr (cs # css, pad1))))"

text \<open>The time between the revision before a range and its last one. A date that cannot be read is nil.\<close>

fun range_deltas :: "'s DataStore \<Rightarrow> int \<Rightarrow> int list \<Rightarrow> Pad \<Rightarrow> 's \<Rightarrow> millis list result" where
  "range_deltas D granularity [] pad s = Inr []"
| "range_deltas D granularity (start # starts) pad s =
     (case (GetRevisionDate D (if start = 0 then 0 else start - 1) pad s, GetRevisionDate D (start + granularity - 1) pad s) of
        (Inr t1, Inr t2) \<Rightarrow> bind_result (range_deltas D granularity starts pad s) (\<lambda>ts. Inr ((t2 - t1) # ts))
      | _ \<Rightarrow> Inl Panic)"

text \<open>The changesets of the ranges and their inverses, over the lines before each range, moved to a new pool.\<close>

fun range_changes ::
  "map_order \<Rightarrow> gostring list \<Rightarrow> LineChange \<Rightarrow> APool \<Rightarrow> APool \<Rightarrow> ((gostring \<times> gostring) list \<times> APool \<times> APool) result option" where
  "range_changes order [] ls pool created = Some (Inr ([], pool, created))"
| "range_changes order (forwards # css) ls pool created =
     bind_run (Inverse order forwards (lc_TextLines ls) (Alines ls) pool) (\<lambda>(backwards, pool1).
     bind_run (MutateAttributionLines forwards (Alines ls) (Some pool1)) (\<lambda>(alines, local).
     bind_run (Some (MutateTextLines forwards (lc_TextLines ls))) (\<lambda>textLines.
       let pool2 = (case local of None \<Rightarrow> pool1 | Some p \<Rightarrow> p);
           (forwards2, created1) = MoveOpsToNewPool forwards pool2 created;
           (backwards2, created2) = MoveOpsToNewPool backwards pool2 created1
       in bind_run (range_changes order css \<lparr>Alines = alines, lc_TextLines = textLines\<rparr> pool2 created2) (\<lambda>(out, pool3, created3).
            Some (Inr ((forwards2, backwards2) # out, pool3, created3))))))"

definition getChangesetInfo ::
  "'s DataStore \<Rightarrow> map_order \<Rightarrow> Pad \<Rightarrow> int \<Rightarrow> int \<Rightarrow> int \<Rightarrow> 's \<Rightarrow> (ChangesetInfo \<times> APool) result option" where
  "getChangesetInfo D order pad startNum endNum0 granularity s =
     (let endNum = min endNum0 (pad_Head pad + 1) div granularity * granularity;
          starts = range_starts startNum endNum granularity
      in if endNum \<ge> 2 ^ 63 \<or> endNum \<le> - (2 ^ 63) then Some (Inl (Err ''endNum value out of range''))
         else
           bind_run (getPadLines D pad (startNum - 1) s) (\<lambda>(ls, pad1).
           bind_run (compose_ranges D granularity starts pad1 s) (\<lambda>(composed, pad2).
           bind_run (Some (range_deltas D granularity starts pad2 s)) (\<lambda>deltas.
             let n = length (takeWhile (\<lambda>start. start + granularity \<le> endNum \<and> start + granularity \<le> pad_Head pad + 1) starts)
             in bind_run (range_changes order (take n composed) ls (pad_Pool pad2) NewAPool) (\<lambda>(changes, pool, created).
                  Some (Inr (\<lparr>ForwardsChangesets = map fst changes, BackwardsChangesets = map snd changes, ActualEndNum = endNum,
                     TimeDeltas = take n deltas, ci_Start = startNum, ci_Granularity = granularity,
                     ci_APool = ToJsonable created, RequestId = 0\<rparr>, caller_pool (pad_Pool pad) (Some pool))))))))"

text \<open>The answer for a loaded pad; an error is logged.\<close>

definition send_changesets ::
  "'s DataStore \<Rightarrow> map_order \<Rightarrow> client \<Rightarrow> gostring \<Rightarrow> int \<Rightarrow> int \<Rightarrow> int \<Rightarrow> Pad \<Rightarrow> 's Server \<Rightarrow> 's handled" where
  "send_changesets D order c padId startRev granularity requestID pad st =
     (case getChangesetInfo D order pad (min startRev (pad_Head pad)) (startRev + granularity * 100) granularity (srv_store st) of
        None \<Rightarrow> None
      | Some (Inl Panic) \<Rightarrow> panic st
      | Some (Inl (Err e)) \<Rightarrow> finish st
      | Some (Inr (info, pool)) \<Rightarrow>
          finish (send_to c (ChangesetResponse (info\<lparr>RequestId := requestID\<rparr>))
            (put_pad padId (pad\<lparr>pad_Pool := pool\<rparr>) (srv_store st) st)))"

definition HandleChangesetRequest ::
  "'s DataStore \<Rightarrow> time \<Rightarrow> gostring \<Rightarrow> map_order \<Rightarrow> client \<Rightarrow> gostring \<Rightarrow> int \<Rightarrow> int \<Rightarrow> int \<Rightarrow> 's Server \<Rightarrow> 's handled" where
  "HandleChangesetRequest D now defaultText order c sid start granularity requestID st =
     (if granularity \<le> 0 \<or> start < 0 then finish st
      else case CheckValidRev (Itoa start) of
        Inl err \<Rightarrow> finish st
      | Inr startRev \<Rightarrow>
          if requestID = -1 then finish st
          else case getSession sid (sessions st) of
            None \<Rightarrow> finish st
          | Some session \<Rightarrow>
              load_pad D now defaultText (ses_PadId session) (Some (ses_Author session))
                (send_changesets D order c (ses_PadId session) startRev granularity requestID) st)"

end
