(* ===== verification/Compaction.thy ===== *)
theory Compaction
  imports Pad RuneUtils RevisionRanges PadApi
begin

text \<open>
  The integrity check of a pad, \<^verbatim>\<open>Pad.Check\<close> of \<^verbatim>\<open>lib/models/pad/Pad.go\<close>, over the revisions that
  \<^verbatim>\<open>CreateRevision\<close> of \<^verbatim>\<open>lib/adminutils/cleanup.go\<close> puts together. The pool is a copy that shares its maps
  with the pad. The text of the document is walked through by bytes, although the operations count
  runes; a cut inside a rune leaves bytes that count as runes of their own.

  The clean-up of the history of a pad: \<^verbatim>\<open>DeleteRevisions\<close> of \<^verbatim>\<open>lib/ws/AdminMessageHandler.go\<close>, which
  replaces all but the last revisions by one, and its HTTP handler \<^verbatim>\<open>CompactPad\<close> of
  \<^verbatim>\<open>lib/api/pad/compactDiff.go\<close>. What a failed check or composition did to the pool is dropped.
\<close>

section \<open>The integrity check\<close>

record RevisionMeta =
  Author :: "gostring option"
  meta_Timestamp :: millis
  meta_APool :: "APool option"
  Atext :: "AText option"
  IsKeyRev :: bool

record Revision =
  revision_Changeset :: gostring
  Meta :: RevisionMeta

definition CreateRevision :: "gostring \<Rightarrow> millis \<Rightarrow> bool \<Rightarrow> gostring option \<Rightarrow> AText \<Rightarrow> APool \<Rightarrow> Revision" where
  "CreateRevision changeset timestamp isKeyRev authorId atext attribPool0 =
     (let attribPool = (case authorId of None \<Rightarrow> attribPool0
            | Some ident \<Rightarrow> snd (PutAttrib \<lparr>Key = lit ''author'', Value = ident\<rparr> None (Clone attribPool0)))
      in \<lparr>revision_Changeset = changeset,
          Meta = \<lparr>Author = authorId, meta_Timestamp = timestamp,
            meta_APool = (if isKeyRev then Some attribPool else None),
            Atext = (if isKeyRev then Some atext else None), IsKeyRev = isKeyRev\<rparr>\<rparr>)"

text \<open>All revisions are read before the first is looked at.\<close>

fun read_revisions :: "'s DataStore \<Rightarrow> Pad \<Rightarrow> int list \<Rightarrow> 's \<Rightarrow> Revision list result" where
  "read_revisions D p [] s = Inr []"
| "read_revisions D p (r # rs) s =
     bind_result (GetRevisionChangeset D r p s) (\<lambda>revChangeset.
     bind_result (GetRevisionAuthor D r p s) (\<lambda>revAuthor.
     bind_result (GetRevisionDate D r p s) (\<lambda>revTimestamp.
     bind_result (getKeyRevisionAText D r p s) (\<lambda>atext.
     bind_result (read_revisions D p rs s) (\<lambda>revs.
       Inr (CreateRevision revChangeset revTimestamp (r = getKeyRevisionNumber r) (Some revAuthor) atext (pad_Pool p) # revs))))))"

text \<open>The text that an operation keeps or removes: what is left of the text, or the fault.\<close>

definition consume_text :: "Op \<Rightarrow> bytes \<Rightarrow> bytes result" where
  "consume_text op' text =
     (if OpCode op' = Keep \<or> OpCode op' = Minus then
        (if text = [] \<or> RuneCountBytes text < Chars op' then Inl (Err ''pad revision has changeset op exceeding atext length'')
         else
           let consumed = take (nat (Chars op')) text
           in if int (count_list consumed newline) \<noteq> Lines op' then Inl (Err ''pad revision has changeset op with mismatched lines count'')
              else if Lines op' > 0 \<and> \<not> has_suffix consumed [newline] then
                Inl (Err ''pad revision has changeset op with invalid lines content'')
              else Inr (drop (nat (Chars op')) text))
      else Inr text)"

fun check_rev_ops :: "Op list \<Rightarrow> bytes \<Rightarrow> APool \<Rightarrow> APool result" where
  "check_rev_ops [] text pool = Inr pool"
| "check_rev_ops (op' # ops) text pool =
     bind_result (consume_text op' text) (\<lambda>text1.
     bind_result (AM_String (FromString (Attribs op') pool)) (\<lambda>(attribs, pool1).
       if Attribs op' \<noteq> attribs then Inl (Err ''pad revision has invalid changeset attribs'')
       else check_rev_ops ops text1 pool1))"

definition check_revision :: "Revision \<Rightarrow> AText \<Rightarrow> APool \<Rightarrow> (AText \<times> APool) result option" where
  "check_revision rev' atext pool =
     (let cs = revision_Changeset rev'
      in if meta_Timestamp (Meta rev') < 0 then Some (Inl (Err ''pad revision has negative timestamp''))
         else if cs = [] then Some (Inl (Err ''pad revision has empty changeset''))
         else
           bind_run (Some (CheckRep cs)) (\<lambda>_.
           bind_run (Some (Unpack cs)) (\<lambda>unpackedChangeset.
           bind_run (Some (DeserializeOps (Ops unpackedChangeset))) (\<lambda>deserializedOps.
           bind_run (Some (check_rev_ops deserializedOps (bytes_of (Text atext)) pool)) (\<lambda>pool1.
           bind_run (ApplyToAText cs atext pool1) (\<lambda>(atext1, pool2).
             if IsKeyRev (Meta rev') \<and> \<not> ATextsEqual (the (Atext (Meta rev'))) atext1
             then Some (Inl (Err ''pad key revision atext does not match computed atext''))
             else Some (Inr (atext1, pool2))))))))"

fun check_revisions :: "Revision list \<Rightarrow> AText \<Rightarrow> APool \<Rightarrow> (AText \<times> APool) result option" where
  "check_revisions [] atext pool = Some (Inr (atext, pool))"
| "check_revisions (rev' # revs) atext pool =
     bind_run (check_revision rev' atext pool) (\<lambda>(atext1, pool1). check_revisions revs atext1 pool1)"

definition ascending :: "int list \<Rightarrow> bool" where
  "ascending revs \<longleftrightarrow> fst (fold (\<lambda>r (ok, pre). (ok \<and> pre < r, r)) revs (True, -1))"

definition check_messages :: "gostring \<Rightarrow> ChatMessageDBWithDisplayName list \<Rightarrow> unit result" where
  "check_messages ident msgs =
     foldr (\<lambda>msg rest.
       case chat_Time (ChatMessage msg) of
         None \<Rightarrow> Inl Panic
       | Some t \<Rightarrow>
           if t < 0 then Inl (Err ''pad chat message has negative timestamp'')
           else if chat_AuthorId (ChatMessage msg) = None then Inl (Err ''pad chat message has nil author id'')
           else if chat_PadId (ChatMessage msg) \<noteq> ident then Inl (Err ''pad chat message has mismatched pad id'')
           else rest) msgs (Inr ())"

text \<open>The authors that the pool and the revisions name, apart from the empty name.\<close>

definition named_authors :: "Pad \<Rightarrow> Revision list \<Rightarrow> gostring list" where
  "named_authors p revs = GetAllAuthors p @
     filter (\<lambda>a. a \<noteq> []) (map (\<lambda>r. case Author (Meta r) of None \<Rightarrow> [] | Some a \<Rightarrow> a) revs)"

definition check_history :: "'s DataStore \<Rightarrow> Pad \<Rightarrow> 's \<Rightarrow> Pad result option" where
  "check_history D p s =
     bind_run (Some (read_revisions D p [0..pad_Head p] s)) (\<lambda>revs.
     bind_run (Some (MakeAText [newline] None)) (\<lambda>atext0.
     bind_run (check_revisions revs atext0 (pad_Pool p)) (\<lambda>(atext, pool).
       let p1 = p\<lparr>pad_Pool := caller_pool (pad_Pool p) (Some pool)\<rparr>
       in if pad_text p \<noteq> Text atext \<or> \<not> ATextsEqual (pad_AText p) atext
          then Some (Inl (Err ''pad atext does not match computed atext''))
          else if \<exists>a \<in> set (named_authors p revs). a \<notin> set (GetAllAuthors p1)
          then Some (Inl (Err ''pad contains reference to unknown author id''))
          else if ChatHead p < -1 then Some (Inl (Err ''pad chat head is negative''))
          else bind_run (Some (GetChatMessages D 0 (ChatHead p) p s)) (\<lambda>chatMsgs.
               bind_run (Some (check_messages (pad_Id p) chatMsgs)) (\<lambda>_. Some (Inr p1))))))"

text \<open>The pad that passed the check, or the fault; what a failed check leaves in the pool is dropped.\<close>

definition Pad_Check :: "'s DataStore \<Rightarrow> Pad \<Rightarrow> 's \<Rightarrow> Pad result option" where
  "Pad_Check D p s =
     (if \<not> IsValidPadId (pad_Id p) then Some (Inl (Err ''pad id contains leading or trailing whitespace''))
      else if pad_Head p < 0 then Some (Inl (Err ''pad head revision is negative''))
      else if getSavedRevisionNumber p \<noteq> int (length (SavedRevisions p)) then Some (Inl (Err ''pad saved revisions count mismatch''))
      else if \<not> ascending (map sr_RevNum (SavedRevisions p)) then Some (Inl (Err ''pad saved revisions are not in ascending order''))
      else bind_run (Some (Check (pad_Pool p))) (\<lambda>_. check_history D p s))"

section \<open>The clean-up of revisions\<close>

text \<open>The revisions read before they are removed, by their numbers.\<close>

definition by_number :: "PadSingleRevision list \<Rightarrow> (int, PadSingleRevision) gomap" where
  "by_number revs = fold (\<lambda>r m. gomap_set m (rev_RevNum r) r) revs []"

definition save_created :: "'s DataStore \<Rightarrow> gostring \<Rightarrow> int \<Rightarrow> AText \<Rightarrow> APool \<Rightarrow> Revision \<Rightarrow> 's \<Rightarrow> goerr option \<times> 's" where
  "save_created D ident rev' atext pool created s =
     ds_SaveRevision D ident rev' (revision_Changeset created) atext (ToRevDB pool) (Author (Meta created)) (meta_Timestamp (Meta created)) s"

text \<open>The kept revisions are saved again under their new numbers, with the texts they lead to.\<close>

fun resave :: "'s DataStore \<Rightarrow> gostring \<Rightarrow> int \<Rightarrow> (int, PadSingleRevision) gomap \<Rightarrow> int list \<Rightarrow> AText \<Rightarrow> APool \<Rightarrow> 's \<Rightarrow> (goerr option \<times> 's) option" where
  "resave D ident cleanup kept [] atext pool s = Some (None, s)"
| "resave D ident cleanup kept (newRev # newRevs) atext pool s =
     (case gomap_get kept (newRev + cleanup) of
        None \<Rightarrow> Some (Some (Err ''revision not found in current revisions to keep''), s)
      | Some current \<Rightarrow>
          (case ApplyToAText (rev_Changeset current) atext pool of
             None \<Rightarrow> None
           | Some (Inl err) \<Rightarrow> Some (Some err, s)
           | Some (Inr (atext1, pool1)) \<Rightarrow>
               (case save_created D ident newRev atext1 pool1
                  (CreateRevision (rev_Changeset current) (rev_Timestamp current) True (rev_AuthorId current) atext1 pool1) s of
                  (Some err, s1) \<Rightarrow> Some (Some err, s1)
                | (None, s1) \<Rightarrow> resave D ident cleanup kept newRevs atext1 pool1 s1)))"

definition rewrite_revisions ::
  "'s DataStore \<Rightarrow> gostring \<Rightarrow> int \<Rightarrow> int \<Rightarrow> gostring \<Rightarrow> (int, PadSingleRevision) gomap \<Rightarrow> APool \<Rightarrow> 's \<Rightarrow> (goerr option \<times> 's) option" where
  "rewrite_revisions D ident cleanup keepRevisions compressedChangeset kept pool s =
     (case MakeAText [newline] None of
        Inl err \<Rightarrow> Some (Some err, s)
      | Inr atext0 \<Rightarrow>
          (case ApplyToAText compressedChangeset atext0 pool of
             None \<Rightarrow> None
           | Some (Inl err) \<Rightarrow> Some (Some err, s)
           | Some (Inr (atext1, pool1)) \<Rightarrow>
               let (author, timestamp) = (case gomap_get kept cleanup of
                     None \<Rightarrow> (None, 0) | Some r \<Rightarrow> (rev_AuthorId r, rev_Timestamp r))
               in (case save_created D ident 0 atext1 pool1
                     (CreateRevision compressedChangeset timestamp True author atext1 pool1) s of
                     (Some err, s1) \<Rightarrow> Some (Some err, s1)
                   | (None, s1) \<Rightarrow> resave D ident cleanup kept [1..keepRevisions] atext1 pool1 s1)))"

definition shrunk_pad :: "int \<Rightarrow> int \<Rightarrow> Pad \<Rightarrow> Pad" where
  "shrunk_pad cleanup keepRevisions pad =
     pad\<lparr>pad_Head := keepRevisions,
         SavedRevisions := List.map_filter (\<lambda>r.
           if sr_RevNum r > cleanup then Some (r\<lparr>sr_RevNum := sr_RevNum r - cleanup\<rparr>) else None) (SavedRevisions pad)\<rparr>"

text \<open>The check of the pad that is loaded again; the clients were sent away before.\<close>

definition check_again :: "'s DataStore \<Rightarrow> time \<Rightarrow> gostring \<Rightarrow> gostring \<Rightarrow> 's Server \<Rightarrow> (goerr option \<times> 's Server) option" where
  "check_again D now defaultText padId st =
     (case Manager_GetPad D now defaultText padId None None (UnloadPad padId (manager st), srv_store st) of
        None \<Rightarrow> None
      | Some (Inl err, m, s) \<Rightarrow> Some (Some err, st\<lparr>manager := m, srv_store := s\<rparr>)
      | Some (Inr pad, m, s) \<Rightarrow>
          (case Pad_Check D pad s of
             None \<Rightarrow> None
           | Some (Inl err) \<Rightarrow> Some (Some err, st\<lparr>manager := m, srv_store := s\<rparr>)
           | Some (Inr pad1) \<Rightarrow> Some (None, put_pad padId pad1 s (st\<lparr>manager := m\<rparr>))))"

definition compact ::
  "'s DataStore \<Rightarrow> time \<Rightarrow> gostring \<Rightarrow> gostring \<Rightarrow> int \<Rightarrow> gostring \<Rightarrow> PadSingleRevision list \<Rightarrow> Pad \<Rightarrow> 's Server \<Rightarrow> (goerr option \<times> 's Server) option" where
  "compact D now defaultText padId keepRevisions compressedChangeset revisionsToKeep pad st =
     (let cleanup = pad_Head pad - keepRevisions
      in case RemoveAllSavedRevisions D pad (srv_store st) of
           (Some err, s1) \<Rightarrow> Some (Some err, set_store s1 st)
         | (None, s1) \<Rightarrow>
             (case Manager_GetPad D now defaultText padId None None (manager st, s1) of
                None \<Rightarrow> None
              | Some (Inl err, m, s2) \<Rightarrow> Some (Some err, st\<lparr>manager := m, srv_store := s2\<rparr>)
              | Some (Inr padContent, m, s2) \<Rightarrow>
                  let padContent1 = shrunk_pad cleanup keepRevisions padContent;
                      (saved, s3) = Pad_Save D now padContent1 s2;
                      st3 = put_pad padId padContent1 s3 (st\<lparr>manager := m\<rparr>)
                  in if saved \<noteq> None then Some (saved, st3)
                     else (case rewrite_revisions D (pad_Id padContent1) cleanup keepRevisions compressedChangeset
                               (by_number revisionsToKeep) (pad_Pool padContent1) s3 of
                             None \<Rightarrow> None
                           | Some (Some err, s4) \<Rightarrow> Some (Some err, set_store s4 st3)
                           | Some (None, s4) \<Rightarrow> check_again D now defaultText padId (set_store s4 st3))))"

definition DeleteRevisions :: "'s DataStore \<Rightarrow> time \<Rightarrow> gostring \<Rightarrow> gostring \<Rightarrow> int \<Rightarrow> 's Server \<Rightarrow> (goerr option \<times> 's Server) option" where
  "DeleteRevisions D now defaultText padId keepRevisions st =
     (case Manager_GetPad D now defaultText padId None None (manager st, srv_store st) of
        None \<Rightarrow> None
      | Some (Inl err, m, s) \<Rightarrow> Some (Some err, st\<lparr>manager := m, srv_store := s\<rparr>)
      | Some (Inr pad, m, s) \<Rightarrow>
          (case Pad_Check D pad s of
             None \<Rightarrow> None
           | Some (Inl err) \<Rightarrow> Some (Some err, st\<lparr>manager := m, srv_store := s\<rparr>)
           | Some (Inr pad1) \<Rightarrow>
               let st1 = put_pad padId pad1 s (st\<lparr>manager := m\<rparr>)
               in if pad_Head pad1 \<le> keepRevisions then Some (None, st1)
                  else
                    let st2 = KickSessionsFromPad padId st1
                    in case ComposePadChangesets D pad1 0 (pad_Head pad1 - keepRevisions + 1) (srv_store st2) of
                         None \<Rightarrow> None
                       | Some (Inl err) \<Rightarrow> Some (Some err, st2)
                       | Some (Inr (compressedChangeset, pool)) \<Rightarrow>
                           let pad2 = pad1\<lparr>pad_Pool := caller_pool (pad_Pool pad1) (Some pool)\<rparr>;
                               st3 = put_pad padId pad2 (srv_store st2) st2
                           in (case Pad_GetRevisions D 0 (pad_Head pad2) pad2 (srv_store st3) of
                                 Inl err \<Rightarrow> Some (Some err, st3)
                               | Inr revisionsToKeep \<Rightarrow>
                                   compact D now defaultText padId keepRevisions compressedChangeset revisionsToKeep pad2 st3)))"

text \<open>The body: the number of revisions to keep.\<close>

definition CompactPad :: "'s DataStore \<Rightarrow> time \<Rightarrow> gostring \<Rightarrow> gostring \<Rightarrow> int option \<Rightarrow> 's Server \<Rightarrow> ('s, bool \<times> int) answer" where
  "CompactPad D now defaultText padId request st =
     (case request of
        None \<Rightarrow> reply (Refuse 400 InvalidRequestError) st
      | Some keepRevisions \<Rightarrow>
          with_pad D now defaultText padId (\<lambda>foundPad st1.
            if keepRevisions < 1 then reply (Refuse 400 (NewInvalidParamError ''keepRevisions must be at least 1'')) st1
            else if keepRevisions \<ge> pad_Head foundPad then
              reply (Refuse 400 (NewInvalidParamError ''keepRevisions must be lower than the pad's head revision'')) st1
            else case DeleteRevisions D now defaultText padId keepRevisions st1 of
              None \<Rightarrow> None
            | Some (Some err, st2) \<Rightarrow> refuse_error 500 InternalServerError err st2
            | Some (None, st2) \<Rightarrow> reply (Reply (True, keepRevisions)) st2) st)"

end
