(* ===== verification/SheetJson.thy ===== *)
theory SheetJson
  imports Json SheetOps
begin

text \<open>
  The JSON of spreadsheet operations and workbook snapshots: the struct tags of
  \<^verbatim>\<open>lib/sheet/op.go\<close>, \<^verbatim>\<open>style.go\<close> and \<^verbatim>\<open>snapshot.go\<close>, as \<^verbatim>\<open>encoding/json\<close> writes and reads
  them. It is how operations and documents are stored and sent.
\<close>

subsection \<open>Operations\<close>

definition op_type_name :: "OpType \<Rightarrow> gostring" where
  "op_type_name t =
     (case t of
        OpSetCell \<Rightarrow> lit ''setCell'' | OpSetStyle \<Rightarrow> lit ''setStyle'' | OpClearRange \<Rightarrow> lit ''clearRange''
      | OpInsertRows \<Rightarrow> lit ''insertRows'' | OpDeleteRows \<Rightarrow> lit ''deleteRows''
      | OpInsertCols \<Rightarrow> lit ''insertCols'' | OpDeleteCols \<Rightarrow> lit ''deleteCols''
      | OpAddSheet \<Rightarrow> lit ''addSheet'' | OpRenameSheet \<Rightarrow> lit ''renameSheet''
      | OpDeleteSheet \<Rightarrow> lit ''deleteSheet'' | OpMoveSheet \<Rightarrow> lit ''moveSheet''
      | OpSetDimension \<Rightarrow> lit ''setDimension'' | OpSetFreeze \<Rightarrow> lit ''setFreeze''
      | OpMergeCells \<Rightarrow> lit ''mergeCells'' | OpUnmergeCells \<Rightarrow> lit ''unmergeCells'' | OtherOp s \<Rightarrow> s)"

definition known_types :: "OpType list" where
  "known_types = [OpSetCell, OpSetStyle, OpClearRange, OpInsertRows, OpDeleteRows, OpInsertCols, OpDeleteCols,
     OpAddSheet, OpRenameSheet, OpDeleteSheet, OpMoveSheet, OpSetDimension, OpSetFreeze, OpMergeCells, OpUnmergeCells]"

definition op_type :: "gostring \<Rightarrow> OpType" where
  "op_type s = (case find (\<lambda>t. op_type_name t = s) known_types of Some t \<Rightarrow> t | None \<Rightarrow> OtherOp s)"

definition encode_props :: "props \<Rightarrow> json" where
  "encode_props m = encode_map id JString m"

definition decode_props :: "props decoder" where
  "decode_props = decode_map Inr decode_string []"

text \<open>Members that may be left out: numbers that are 0, empty strings, nil pointers and empty maps.\<close>

definition opt_int :: "string \<Rightarrow> int \<Rightarrow> (gostring \<times> json) list" where
  "opt_int name i = omitempty (i = 0) name (encode_int i)"

definition opt_string :: "string \<Rightarrow> gostring \<Rightarrow> (gostring \<times> json) list" where
  "opt_string name s = omitempty (s = []) name (JString s)"

definition opt_pointer :: "('a \<Rightarrow> json) \<Rightarrow> string \<Rightarrow> 'a option \<Rightarrow> (gostring \<times> json) list" where
  "opt_pointer enc name x = (case x of None \<Rightarrow> [] | Some v \<Rightarrow> member name (enc v))"

definition op_props_member :: "props option \<Rightarrow> (gostring \<times> json) list" where
  "op_props_member p = (case p of None \<Rightarrow> [] | Some m \<Rightarrow> omitempty (m = []) ''props'' (encode_props m))"

definition op_members :: "SheetOp \<Rightarrow> (gostring \<times> json) list" where
  "op_members op' =
     member ''type'' (JString (op_type_name (o_type op'))) @ member ''sheet'' (JString (o_sheet op')) @
     member ''baseRev'' (encode_int (o_baseRev op')) @
     opt_int ''row'' (o_row op') @ opt_int ''col'' (o_col op') @ opt_int ''endRow'' (o_endRow op') @ opt_int ''endCol'' (o_endCol op') @
     opt_pointer JString ''raw'' (o_raw op') @ opt_pointer JString ''value'' (o_value op') @
     opt_pointer JString ''valueType'' (o_valueType op') @ opt_pointer encode_int ''styleId'' (o_styleId op') @
     op_props_member (o_props op') @
     opt_int ''index'' (o_index op') @ opt_int ''count'' (o_count op') @ opt_string ''name'' (o_name op') @
     opt_int ''toIndex'' (o_toIndex op') @ opt_string ''axis'' (o_axis op') @ opt_int ''size'' (o_size op') @
     opt_int ''frozenRows'' (o_frozenRows op') @ opt_int ''frozenCols'' (o_frozenCols op')"

definition encode_op :: "SheetOp \<Rightarrow> json" where
  "encode_op op' = JObject (op_members op')"

definition zero_op :: SheetOp where
  "zero_op = \<lparr>o_type = OtherOp [], o_sheet = [], o_baseRev = 0, o_row = 0, o_col = 0, o_endRow = 0, o_endCol = 0,
     o_raw = None, o_value = None, o_valueType = None, o_styleId = None, o_props = None, o_index = 0, o_count = 0,
     o_name = [], o_toIndex = 0, o_axis = [], o_size = 0, o_frozenRows = 0, o_frozenCols = 0\<rparr>"

text \<open>A map member is nil after \<^verbatim>\<open>null\<close> and allocated by an object.\<close>

definition decode_props_member :: "props option decoder" where
  "decode_props_member x old =
     (if x = JNull then Inr None else map_sum id Some (decode_props x (case old of None \<Rightarrow> [] | Some m \<Rightarrow> m)))"

definition op_field :: "gostring \<Rightarrow> SheetOp decoder" where
  "op_field k x op' =
     (if named k ''type'' then map_sum id (\<lambda>v. op'\<lparr>o_type := op_type v\<rparr>) (decode_string x (op_type_name (o_type op')))
      else if named k ''sheet'' then map_sum id (\<lambda>v. op'\<lparr>o_sheet := v\<rparr>) (decode_string x (o_sheet op'))
      else if named k ''baseRev'' then map_sum id (\<lambda>v. op'\<lparr>o_baseRev := v\<rparr>) (decode_int x (o_baseRev op'))
      else if named k ''row'' then map_sum id (\<lambda>v. op'\<lparr>o_row := v\<rparr>) (decode_int x (o_row op'))
      else if named k ''col'' then map_sum id (\<lambda>v. op'\<lparr>o_col := v\<rparr>) (decode_int x (o_col op'))
      else if named k ''endRow'' then map_sum id (\<lambda>v. op'\<lparr>o_endRow := v\<rparr>) (decode_int x (o_endRow op'))
      else if named k ''endCol'' then map_sum id (\<lambda>v. op'\<lparr>o_endCol := v\<rparr>) (decode_int x (o_endCol op'))
      else if named k ''raw'' then map_sum id (\<lambda>v. op'\<lparr>o_raw := v\<rparr>) (decode_pointer decode_string [] x (o_raw op'))
      else if named k ''value'' then map_sum id (\<lambda>v. op'\<lparr>o_value := v\<rparr>) (decode_pointer decode_string [] x (o_value op'))
      else if named k ''valueType'' then map_sum id (\<lambda>v. op'\<lparr>o_valueType := v\<rparr>) (decode_pointer decode_string [] x (o_valueType op'))
      else if named k ''styleId'' then map_sum id (\<lambda>v. op'\<lparr>o_styleId := v\<rparr>) (decode_pointer decode_int 0 x (o_styleId op'))
      else if named k ''props'' then map_sum id (\<lambda>v. op'\<lparr>o_props := v\<rparr>) (decode_props_member x (o_props op'))
      else if named k ''index'' then map_sum id (\<lambda>v. op'\<lparr>o_index := v\<rparr>) (decode_int x (o_index op'))
      else if named k ''count'' then map_sum id (\<lambda>v. op'\<lparr>o_count := v\<rparr>) (decode_int x (o_count op'))
      else if named k ''name'' then map_sum id (\<lambda>v. op'\<lparr>o_name := v\<rparr>) (decode_string x (o_name op'))
      else if named k ''toIndex'' then map_sum id (\<lambda>v. op'\<lparr>o_toIndex := v\<rparr>) (decode_int x (o_toIndex op'))
      else if named k ''axis'' then map_sum id (\<lambda>v. op'\<lparr>o_axis := v\<rparr>) (decode_string x (o_axis op'))
      else if named k ''size'' then map_sum id (\<lambda>v. op'\<lparr>o_size := v\<rparr>) (decode_int x (o_size op'))
      else if named k ''frozenRows'' then map_sum id (\<lambda>v. op'\<lparr>o_frozenRows := v\<rparr>) (decode_int x (o_frozenRows op'))
      else if named k ''frozenCols'' then map_sum id (\<lambda>v. op'\<lparr>o_frozenCols := v\<rparr>) (decode_int x (o_frozenCols op'))
      else Inr op')"

definition decode_op :: "SheetOp decoder" where
  "decode_op = decode_struct op_field"

subsection \<open>Snapshots\<close>

definition encode_cell :: "CellSnapshot \<Rightarrow> json" where
  "encode_cell c = JObject
     (member ''row'' (encode_int (cs_row c)) @ member ''col'' (encode_int (cs_col c)) @ member ''raw'' (JString (cs_raw c)) @
      opt_string ''value'' (cs_value c) @ opt_string ''valueType'' (cs_valueType c) @ opt_int ''styleId'' (cs_styleId c))"

definition cell_field :: "gostring \<Rightarrow> CellSnapshot decoder" where
  "cell_field k x c =
     (if named k ''row'' then map_sum id (\<lambda>v. c\<lparr>cs_row := v\<rparr>) (decode_int x (cs_row c))
      else if named k ''col'' then map_sum id (\<lambda>v. c\<lparr>cs_col := v\<rparr>) (decode_int x (cs_col c))
      else if named k ''raw'' then map_sum id (\<lambda>v. c\<lparr>cs_raw := v\<rparr>) (decode_string x (cs_raw c))
      else if named k ''value'' then map_sum id (\<lambda>v. c\<lparr>cs_value := v\<rparr>) (decode_string x (cs_value c))
      else if named k ''valueType'' then map_sum id (\<lambda>v. c\<lparr>cs_valueType := v\<rparr>) (decode_string x (cs_valueType c))
      else if named k ''styleId'' then map_sum id (\<lambda>v. c\<lparr>cs_styleId := v\<rparr>) (decode_int x (cs_styleId c))
      else Inr c)"

definition decode_cell :: "CellSnapshot decoder" where
  "decode_cell = decode_struct cell_field"

definition no_cell :: CellSnapshot where
  "no_cell = \<lparr>cs_row = 0, cs_col = 0, cs_raw = [], cs_value = [], cs_valueType = [], cs_styleId = 0\<rparr>"

definition encode_merge :: "MergeSnapshot \<Rightarrow> json" where
  "encode_merge m = JObject
     (member ''row'' (encode_int (ms_row m)) @ member ''col'' (encode_int (ms_col m)) @
      member ''rows'' (encode_int (ms_rows m)) @ member ''cols'' (encode_int (ms_cols m)))"

definition merge_field :: "gostring \<Rightarrow> MergeSnapshot decoder" where
  "merge_field k x m =
     (if named k ''row'' then map_sum id (\<lambda>v. m\<lparr>ms_row := v\<rparr>) (decode_int x (ms_row m))
      else if named k ''col'' then map_sum id (\<lambda>v. m\<lparr>ms_col := v\<rparr>) (decode_int x (ms_col m))
      else if named k ''rows'' then map_sum id (\<lambda>v. m\<lparr>ms_rows := v\<rparr>) (decode_int x (ms_rows m))
      else if named k ''cols'' then map_sum id (\<lambda>v. m\<lparr>ms_cols := v\<rparr>) (decode_int x (ms_cols m))
      else Inr m)"

definition decode_merge :: "MergeSnapshot decoder" where
  "decode_merge = decode_struct merge_field"

definition no_merge :: MergeSnapshot where
  "no_merge = \<lparr>ms_row = 0, ms_col = 0, ms_rows = 0, ms_cols = 0\<rparr>"

definition encode_dims :: "(int, int) gomap \<Rightarrow> json" where
  "encode_dims m = encode_map Itoa encode_int m"

definition int_key :: "gostring \<Rightarrow> int result" where
  "int_key s = (case ParseInt 10 s of Inl e \<Rightarrow> Inl (Err ''cannot unmarshal'') | Inr i \<Rightarrow> Inr i)"

definition decode_dims :: "(int, int) gomap decoder" where
  "decode_dims = decode_map int_key decode_int 0"

definition encode_sheet :: "SheetSnapshot \<Rightarrow> json" where
  "encode_sheet s = JObject
     (member ''id'' (JString (ss_id s)) @ member ''name'' (JString (ss_name s)) @
      member ''cells'' (JArray (map encode_cell (ss_cells s))) @
      omitempty (ss_colWidths s = []) ''colWidths'' (encode_dims (ss_colWidths s)) @
      omitempty (ss_rowHeights s = []) ''rowHeights'' (encode_dims (ss_rowHeights s)) @
      opt_int ''frozenRows'' (ss_frozenRows s) @ opt_int ''frozenCols'' (ss_frozenCols s) @
      omitempty (ss_merges s = []) ''merges'' (JArray (map encode_merge (ss_merges s))))"

definition sheet_field :: "gostring \<Rightarrow> SheetSnapshot decoder" where
  "sheet_field k x s =
     (if named k ''id'' then map_sum id (\<lambda>v. s\<lparr>ss_id := v\<rparr>) (decode_string x (ss_id s))
      else if named k ''name'' then map_sum id (\<lambda>v. s\<lparr>ss_name := v\<rparr>) (decode_string x (ss_name s))
      else if named k ''cells'' then map_sum id (\<lambda>v. s\<lparr>ss_cells := v\<rparr>) (decode_slice decode_cell no_cell x (ss_cells s))
      else if named k ''colWidths'' then map_sum id (\<lambda>v. s\<lparr>ss_colWidths := v\<rparr>) (decode_dims x (ss_colWidths s))
      else if named k ''rowHeights'' then map_sum id (\<lambda>v. s\<lparr>ss_rowHeights := v\<rparr>) (decode_dims x (ss_rowHeights s))
      else if named k ''frozenRows'' then map_sum id (\<lambda>v. s\<lparr>ss_frozenRows := v\<rparr>) (decode_int x (ss_frozenRows s))
      else if named k ''frozenCols'' then map_sum id (\<lambda>v. s\<lparr>ss_frozenCols := v\<rparr>) (decode_int x (ss_frozenCols s))
      else if named k ''merges'' then map_sum id (\<lambda>v. s\<lparr>ss_merges := v\<rparr>) (decode_slice decode_merge no_merge x (ss_merges s))
      else Inr s)"

definition decode_sheet :: "SheetSnapshot decoder" where
  "decode_sheet = decode_struct sheet_field"

definition no_sheet :: SheetSnapshot where
  "no_sheet = \<lparr>ss_id = [], ss_name = [], ss_cells = [], ss_colWidths = [], ss_rowHeights = [],
     ss_frozenRows = 0, ss_frozenCols = 0, ss_merges = []\<rparr>"

text \<open>The index \<^verbatim>\<open>keyToId\<close> of a style pool is not exported, so it is not written.\<close>

definition encode_style :: "Style \<Rightarrow> json" where
  "encode_style s = JObject (member ''props'' (encode_props (Props s)))"

definition style_field :: "gostring \<Rightarrow> Style decoder" where
  "style_field k x s = (if named k ''props'' then map_sum id (\<lambda>v. s\<lparr>Props := v\<rparr>) (decode_props x (Props s)) else Inr s)"

definition encode_styles :: "StylePool \<Rightarrow> json" where
  "encode_styles p = JObject
     (member ''idToStyle'' (encode_map Itoa encode_style (IdToStyle p)) @ member ''nextId'' (encode_int (NextId p)))"

definition styles_field :: "gostring \<Rightarrow> StylePool decoder" where
  "styles_field k x p =
     (if named k ''idToStyle'' then
        map_sum id (\<lambda>v. p\<lparr>IdToStyle := v\<rparr>) (decode_map int_key (decode_struct style_field) \<lparr>Props = []\<rparr> x (IdToStyle p))
      else if named k ''nextId'' then map_sum id (\<lambda>v. p\<lparr>NextId := v\<rparr>) (decode_int x (NextId p))
      else Inr p)"

definition encode_snapshot :: "WorkbookSnapshot \<Rightarrow> json" where
  "encode_snapshot w = JObject
     (member ''sheets'' (JArray (map encode_sheet (ws_sheets w))) @
      member ''styles'' (case ws_styles w of None \<Rightarrow> JNull | Some p \<Rightarrow> encode_styles p))"

definition snapshot_field :: "gostring \<Rightarrow> WorkbookSnapshot decoder" where
  "snapshot_field k x w =
     (if named k ''sheets'' then map_sum id (\<lambda>v. w\<lparr>ws_sheets := v\<rparr>) (decode_slice decode_sheet no_sheet x (ws_sheets w))
      else if named k ''styles'' then
        map_sum id (\<lambda>v. w\<lparr>ws_styles := v\<rparr>)
          (decode_pointer (decode_struct styles_field) \<lparr>IdToStyle = [], keyToId = [], NextId = 0\<rparr> x (ws_styles w))
      else Inr w)"

definition decode_snapshot :: "WorkbookSnapshot decoder" where
  "decode_snapshot = decode_struct snapshot_field"

definition no_snapshot :: WorkbookSnapshot where
  "no_snapshot = \<lparr>ws_sheets = [], ws_styles = None\<rparr>"

end
