(* ===== verification/SheetManager.thy ===== *)
theory SheetManager
  imports SheetJson Rooms
begin

text \<open>
  The manager of spreadsheet documents (\<^verbatim>\<open>lib/sheetdoc/manager.go\<close>): it loads a document from
  its snapshot and its log of operations, and stores every operation with a new snapshot. The
  loaded documents are returned updated; a document that an error path has changed stays so.
\<close>

type_synonym SheetDocs = "(gostring, Document) gomap"

definition DefaultSheetID :: gostring where
  "DefaultSheetID = lit ''s1''"

definition snapshot_text :: "Workbook \<Rightarrow> gostring" where
  "snapshot_text wb = print_json (encode_snapshot (Snapshot wb))"

fun read_ops :: "SheetOpDB list \<Rightarrow> SheetOp list result" where
  "read_ops [] = Inr []"
| "read_ops (o' # os) =
     bind_result (Unmarshal decode_op zero_op (sop_Op o')) (\<lambda>op'.
     bind_result (read_ops os) (\<lambda>log. Inr (op' # log)))"

text \<open>A document that is stored: its snapshot and its log up to the head.\<close>

definition stored_document :: "'s DataStore \<Rightarrow> gostring \<Rightarrow> 's \<Rightarrow> Document result" where
  "stored_document D padId s =
     bind_result (ds_GetSheet D padId s) (\<lambda>sd.
     bind_result (Unmarshal decode_snapshot no_snapshot (sdb_Snapshot sd)) (\<lambda>snap.
     bind_result (ds_GetSheetOps D padId 1 (sdb_Head sd) s) (\<lambda>opsDB.
     bind_result (read_ops opsDB) (\<lambda>log.
       Inr (NewDocumentAt (WorkbookFromSnapshot snap) log)))))"

definition load :: "'s DataStore \<Rightarrow> time \<Rightarrow> gostring \<Rightarrow> SheetDocs \<Rightarrow> 's \<Rightarrow> Document result \<times> SheetDocs \<times> 's" where
  "load D now padId docs s =
     (case gomap_get docs padId of
        Some e \<Rightarrow> (Inr e, docs, s)
      | None \<Rightarrow>
          (case ds_DoesSheetExist D padId s of
             Inl err \<Rightarrow> (Inl err, docs, s)
           | Inr True \<Rightarrow>
               (case stored_document D padId s of
                  Inl err \<Rightarrow> (Inl err, docs, s)
                | Inr doc \<Rightarrow> (Inr doc, gomap_set docs padId doc, s))
           | Inr False \<Rightarrow>
               let wb = AddSheet DefaultSheetID (lit ''Sheet1'') NewWorkbook;
                   doc = NewDocument wb
               in case ds_SaveSheet D now padId 0 (snapshot_text wb) s of
                    (Some err, s1) \<Rightarrow> (Inl err, docs, s1)
                  | (None, s1) \<Rightarrow> (Inr doc, gomap_set docs padId doc, s1)))"

definition Manager_Submit ::
  "'s DataStore \<Rightarrow> time \<Rightarrow> gostring \<Rightarrow> SheetOp \<Rightarrow> gostring option \<Rightarrow> millis \<Rightarrow> SheetDocs \<Rightarrow> 's \<Rightarrow>
   (SheetOp \<times> int) result \<times> SheetDocs \<times> 's" where
  "Manager_Submit D now padId op' authorId tsMillis docs s =
     (case load D now padId docs s of
        (Inl err, docs1, s1) \<Rightarrow> (Inl err, docs1, s1)
      | (Inr doc, docs1, s1) \<Rightarrow>
          (case Submit op' doc of
             Inl err \<Rightarrow> (Inl err, docs1, s1)
           | Inr (rev', doc') \<Rightarrow>
               let docs2 = gomap_set docs1 padId doc';
                   rebased = doc_log doc' ! nat (rev' - 1)
               in case ds_SaveSheetOp D padId rev' (print_json (encode_op rebased)) authorId tsMillis s1 of
                    (Some err, s2) \<Rightarrow> (Inl err, docs2, s2)
                  | (None, s2) \<Rightarrow>
                      (case ds_SaveSheet D now padId rev' (snapshot_text (doc_wb doc')) s2 of
                         (Some err, s3) \<Rightarrow> (Inl err, docs2, s3)
                       | (None, s3) \<Rightarrow> (Inr (rebased, rev'), docs2, s3))))"

definition SetWorkbook :: "'s DataStore \<Rightarrow> time \<Rightarrow> gostring \<Rightarrow> Workbook \<Rightarrow> SheetDocs \<Rightarrow> 's \<Rightarrow> goerr option \<times> SheetDocs \<times> 's" where
  "SetWorkbook D now padId wb docs s =
     (case ds_RemoveSheetOps D padId s of
        (Some err, s1) \<Rightarrow> (Some err, docs, s1)
      | (None, s1) \<Rightarrow>
          (case ds_SaveSheet D now padId 0 (snapshot_text wb) s1 of
             (Some err, s2) \<Rightarrow> (Some err, docs, s2)
           | (None, s2) \<Rightarrow> (None, gomap_set docs padId (NewDocument wb), s2)))"

definition Manager_Snapshot :: "'s DataStore \<Rightarrow> time \<Rightarrow> gostring \<Rightarrow> SheetDocs \<Rightarrow> 's \<Rightarrow> (WorkbookSnapshot \<times> int) result \<times> SheetDocs \<times> 's" where
  "Manager_Snapshot D now padId docs s =
     (case load D now padId docs s of
        (Inl err, docs1, s1) \<Rightarrow> (Inl err, docs1, s1)
      | (Inr doc, docs1, s1) \<Rightarrow> (Inr (Snapshot (doc_wb doc), doc_head doc), docs1, s1))"

definition OpsSince :: "'s DataStore \<Rightarrow> time \<Rightarrow> gostring \<Rightarrow> int \<Rightarrow> SheetDocs \<Rightarrow> 's \<Rightarrow> SheetOp list result \<times> SheetDocs \<times> 's" where
  "OpsSince D now padId sinceRev docs s =
     (case load D now padId docs s of
        (Inl err, docs1, s1) \<Rightarrow> (Inl err, docs1, s1)
      | (Inr doc, docs1, s1) \<Rightarrow>
          let n = int (length (doc_log doc));
              since = (if sinceRev < 0 then 0 else if sinceRev > n then n else sinceRev)
          in (Inr (drop (nat since) (doc_log doc)), docs1, s1))"

end
