(* ===== verification/SheetMessages.thy ===== *)
theory SheetMessages
  imports SheetManager UserChanges
begin

text \<open>
  The websocket side of spreadsheets (\<^verbatim>\<open>lib/ws/SheetHandler.go\<close>): operations of clients, their
  acknowledgement and broadcast, the ephemeral presence frames and the state of a client that
  connects. The queue of a document runs a handler as one step. An operation is sent as the
  JSON it is stored as.
\<close>

definition BroadcastSheetReload :: "gostring \<Rightarrow> 's Server \<Rightarrow> 's Server" where
  "BroadcastSheetReload padId st = send_room_message padId SheetReload st"

definition broadcastNewSheetOp :: "gostring \<Rightarrow> gostring \<Rightarrow> SheetOp \<Rightarrow> int \<Rightarrow> gostring \<Rightarrow> 's Server \<Rightarrow> 's Server" where
  "broadcastNewSheetOp padId senderSessionId rebased newRev author st =
     send_others padId senderSessionId (NewSheetOp (encode_op rebased) newRev author) st"

text \<open>
  \<open>opText\<close> is the raw JSON of the operation; its base revision comes with the message. There
  is no access check on this way in: the session alone decides.
\<close>

definition handleSheetOp :: "'s DataStore \<Rightarrow> time \<Rightarrow> client \<Rightarrow> gostring \<Rightarrow> gostring \<Rightarrow> int \<Rightarrow> 's Server \<Rightarrow> 's handled" where
  "handleSheetOp D now c sid opText baseRev st =
     (case session_ready sid st of
        None \<Rightarrow> finish st
      | Some session \<Rightarrow>
          if ses_ReadOnly session then finish st
          else case Unmarshal decode_op zero_op opText of
            Inl e \<Rightarrow> finish st
          | Inr op' \<Rightarrow>
              (case Manager_Submit D now (ses_PadId session) (op'\<lparr>o_baseRev := baseRev\<rparr>) (Some (ses_Author session)) (millis_of now)
                      (sheets st) (srv_store st) of
                 (Inl Panic, docs, s) \<Rightarrow> panic st
               | (Inl (Err e), docs, s) \<Rightarrow> finish (st\<lparr>sheets := docs, srv_store := s\<rparr>)
               | (Inr (rebased, newRev), docs, s) \<Rightarrow>
                   finish (broadcastNewSheetOp (ses_PadId session) sid rebased newRev (ses_Author session)
                     (send_to c (AcceptSheetOp newRev) (st\<lparr>sheets := docs, srv_store := s\<rparr>)))))"

definition EnqueueSheetOp :: "'s DataStore \<Rightarrow> time \<Rightarrow> client \<Rightarrow> gostring \<Rightarrow> gostring \<Rightarrow> int \<Rightarrow> 's Server \<Rightarrow> 's handled" where
  "EnqueueSheetOp D now c sid opText baseRev st =
     (case session_ready sid st of None \<Rightarrow> finish st | Some session \<Rightarrow> handleSheetOp D now c sid opText baseRev st)"

subsection \<open>Presence\<close>

text \<open>The position and the draft of a client; the name and colour are those of its author.\<close>

record SheetPresenceIn =
  pi_Sheet :: gostring
  pi_Row :: int
  pi_Col :: int
  pi_Editing :: bool
  pi_Raw :: gostring
  pi_FocusRow :: int
  pi_FocusCol :: int

definition HandlePresence :: "'s DataStore \<Rightarrow> gostring \<Rightarrow> SheetPresenceIn \<Rightarrow> 's Server \<Rightarrow> 's handled" where
  "HandlePresence D sid msg st =
     (case session_ready sid st of
        None \<Rightarrow> finish st
      | Some session \<Rightarrow>
          let ro = ses_ReadOnly session;
              (name, color) = (case GetAuthor D (ses_Author session) (srv_store st) of
                  Inl err \<Rightarrow> ([], [])
                | Inr a \<Rightarrow> (case author_Name a of None \<Rightarrow> [] | Some n \<Rightarrow> n, author_ColorId a));
              out = \<lparr>sp_UserId = ses_Author session, sp_Name = name, sp_Color = color, sp_Sheet = pi_Sheet msg,
                     sp_Row = pi_Row msg, sp_Col = pi_Col msg, Editing = (pi_Editing msg \<and> \<not> ro),
                     sp_Raw = (if ro then [] else pi_Raw msg), FocusRow = pi_FocusRow msg, FocusCol = pi_FocusCol msg\<rparr>
          in finish (send_others (ses_PadId session) sid (SheetPresence out) st))"

subsection \<open>A client that connects\<close>

definition sendSheetVars :: "'s DataStore \<Rightarrow> time \<Rightarrow> client \<Rightarrow> PadSession \<Rightarrow> 's Server \<Rightarrow> 's Server result" where
  "sendSheetVars D now c session st =
     (case Manager_Snapshot D now (ses_PadId session) (sheets st) (srv_store st) of
        (Inl Panic, docs, s) \<Rightarrow> Inl Panic
      | (Inl (Err e), docs, s) \<Rightarrow> Inr (st\<lparr>sheets := docs, srv_store := s\<rparr>)
      | (Inr (snap, head), docs, s) \<Rightarrow>
          Inr (send_to c (SheetVarsMessage
            \<lparr>sv_Snapshot = snap, sv_Head = head, sv_UserId = ses_Author session,
             sv_UserColor = (case GetAuthor D (ses_Author session) s of Inl e \<Rightarrow> [] | Inr a \<Rightarrow> author_ColorId a),
             sv_ReadOnly = ses_ReadOnly session\<rparr>) (st\<lparr>sheets := docs, srv_store := s\<rparr>)))"

fun sendReconnectSheetOps :: "client \<Rightarrow> SheetOp list \<Rightarrow> int \<Rightarrow> 's Server \<Rightarrow> 's Server" where
  "sendReconnectSheetOps c [] rev' st = st"
| "sendReconnectSheetOps c (op' # ops) rev' st =
     sendReconnectSheetOps c ops (rev' + 1) (send_to c (NewSheetOp (encode_op op') rev' []) st)"

definition announceSheetPresence :: "'s DataStore \<Rightarrow> gostring \<Rightarrow> PadSession \<Rightarrow> 's Server \<Rightarrow> 's Server" where
  "announceSheetPresence D sid session st =
     (case GetAuthor D (ses_Author session) (srv_store st) of
        Inl e \<Rightarrow> st
      | Inr a \<Rightarrow> send_others (ses_PadId session) sid
          (UserNewInfo \<lparr>ui_UserId = ses_Author session, ui_Name = author_Name a, ui_ColorId = author_ColorId a\<rparr>) st)"

text \<open>The operations a reconnecting client missed, from its revision on.\<close>

definition reconnect_sheet :: "'s DataStore \<Rightarrow> time \<Rightarrow> client \<Rightarrow> gostring \<Rightarrow> PadSession \<Rightarrow> int \<Rightarrow> 's Server \<Rightarrow> 's handled" where
  "reconnect_sheet D now c sid session clientRev st =
     (case OpsSince D now (ses_PadId session) clientRev (sheets st) (srv_store st) of
        (Inl Panic, docs, s) \<Rightarrow> panic st
      | (Inl (Err e), docs, s) \<Rightarrow> finish (st\<lparr>sheets := docs, srv_store := s\<rparr>)
      | (Inr ops, docs, s) \<Rightarrow>
          finish (announceSheetPresence D sid session
            (sendReconnectSheetOps c ops (clientRev + 1) (st\<lparr>sheets := docs, srv_store := s\<rparr>))))"

definition HandleSheetClientReady ::
  "'s DataStore \<Rightarrow> time \<Rightarrow> gostring \<Rightarrow> client \<Rightarrow> gostring \<Rightarrow> bool \<Rightarrow> int \<Rightarrow> PadSession \<Rightarrow> 's Server \<Rightarrow> 's handled" where
  "HandleSheetClientReady D now defaultText c sid reconnect clientRev session st =
     (case GetTypedPad D now defaultText (ses_PadId session) (lit ''sheet'') (Some (ses_Author session)) (manager st, srv_store st) of
        None \<Rightarrow> None
      | Some (Inl Panic, m, s) \<Rightarrow> panic st
      | Some (Inl (Err e), m, s) \<Rightarrow> finish (st\<lparr>manager := m, srv_store := s\<rparr>)
      | Some (Inr pad, m, s) \<Rightarrow>
          let st1 = st\<lparr>manager := m, srv_store := s\<rparr>
          in if reconnect then reconnect_sheet D now c sid session clientRev st1
             else case sendSheetVars D now c session st1 of
               Inl err \<Rightarrow> panic st1
             | Inr st2 \<Rightarrow> finish (announceSheetPresence D sid session st2))"

end
