(* ===== verification/ClientReady.thy ===== *)
theory ClientReady
  imports SheetMessages PadMessages
begin

text \<open>
  A client that enters a pad: \<^verbatim>\<open>HandleClientReadyMessage\<close> in \<^verbatim>\<open>lib/ws/PadMessageHandler.go\<close> and the
  state it is sent, \<^verbatim>\<open>NewClientVars\<close> in \<^verbatim>\<open>lib/settings/clientVars\<close> (of which the constant fields
  and those copied from the settings are left out).

  The session of the client is the one stored under its id. A handler is one step, so the
  head cannot move between the snapshot of the pad and the answer, and the flush of later
  revisions is left out. \<^verbatim>\<open>Leave\<close> is called on a copy of a client that is registered by its
  address, so it has no effect on the hub.
\<close>

record ClientReadyData =
  rd_Component :: gostring
  rd_PadID :: gostring
  rd_Token :: gostring
  rd_SessionID :: gostring
  rd_ColorId :: "gostring option"
  rd_Name :: "gostring option"
  Reconnect :: "bool option"
  ClientRev :: "int option"

subsection \<open>lib/settings/clientVars/clientVars.go\<close>

definition initial_author :: "'s DataStore \<Rightarrow> Pad \<Rightarrow> PadSession \<Rightarrow> 's \<Rightarrow> bool" where
  "initial_author D pad session s =
     (case Pad_GetRevision D 0 pad s of Inl err \<Rightarrow> False | Inr r \<Rightarrow> rev_AuthorId r = Some (ses_Author session))"

definition NewClientVars ::
  "'s DataStore \<Rightarrow> time \<Rightarrow> Pad \<Rightarrow> PadSession \<Rightarrow> APool \<Rightarrow> gostring \<Rightarrow> (gostring, Author) gomap \<Rightarrow> int \<Rightarrow> 's \<Rightarrow> ClientVars result" where
  "NewClientVars D now pad session wirePool attribs historical numConnected s =
     bind_result (GetAuthor D (ses_Author session) s) (\<lambda>currentAuthor.
     bind_result (GetRevisionDate D (pad_Head pad) pad s) (\<lambda>currentTime.
       Inr \<lparr>cv_SavedRevisions = SavedRevisions pad, InitialText = pad_text pad, InitialAttribs = attribs,
            cv_PadId = pad_Id pad,
            HistoricalAuthorData = gomap_rebuild (\<lambda>k a. author_Id a)
              (\<lambda>k a. \<lparr>ca_Name = author_Name a, ca_ColorId = author_ColorId a\<rparr>) historical,
            cv_NumToAttrib = gomap_rebuild (\<lambda>k v. k) (\<lambda>k v. ToStringSlice v) (NumToAttrib wirePool), cv_NextNum = NextNum wirePool,
            IsInitialAuthor = initial_author D pad session s, cv_Rev = pad_Head pad, cv_Time = currentTime,
            UserColor = author_ColorId currentAuthor, InitialTitle = lit ''Pad: '' @ pad_Id pad, cv_ChatHead = ChatHead pad,
            NumConnectedUsers = numConnected, cv_ReadOnlyId = ses_ReadOnlyPadId session, cv_ReadOnly = ses_ReadOnly session,
            ServerTimeStamp = millis_of now, UserName = author_Name currentAuthor, UserId = ses_Author session\<rparr>))"

subsection \<open>Other sessions of the same author\<close>

fun dismiss_duplicates :: "gostring \<Rightarrow> gostring \<Rightarrow> (client \<times> gostring) list \<Rightarrow> 's Server \<Rightarrow> 's Server" where
  "dismiss_duplicates sid author [] st = st"
| "dismiss_duplicates sid author ((c, i) # sockets) st =
     dismiss_duplicates sid author sockets
       (if i = sid then st
        else case getSession i (sessions st) of
          None \<Rightarrow> st
        | Some sinfo \<Rightarrow>
            if ses_Author sinfo = author
            then send_to c (Disconnect (lit ''userdup'')) (st\<lparr>sessions := resetSession i (sessions st)\<rparr>)
            else st)"

subsection \<open>A client that comes back\<close>

definition reconnect_data :: "Pad \<Rightarrow> PadSingleRevision \<Rightarrow> ClientReconnectData" where
  "reconnect_data pad r =
     (let forWire = PrepareForWire (rev_Changeset r) (pad_Pool pad)
      in \<lparr>cr_HeadRev = pad_Head pad, cr_NewRev = rev_RevNum r, cr_Changeset = Translated forWire,
          cr_APool = ToJsonable (WirePool forWire), cr_Author = (case rev_AuthorId r of None \<Rightarrow> [] | Some a \<Rightarrow> a),
          cr_CurrentTime = rev_Timestamp r\<rparr>)"

fun send_missed :: "Pad \<Rightarrow> client \<Rightarrow> gostring \<Rightarrow> PadSingleRevision list \<Rightarrow> PadSession \<Rightarrow> 's Server \<Rightarrow> 's Server" where
  "send_missed pad c sid [] session st = st"
| "send_missed pad c sid (r # rs) session st =
     (let session1 = session\<lparr>Revision := rev_RevNum r, Time := rev_Timestamp r\<rparr>
      in send_missed pad c sid rs session1 (set_session sid session1 (send_to c (ClientReconnect (reconnect_data pad r)) st)))"

text \<open>\<open>None\<close> is an error of the store, which ends the handler.\<close>

definition reconnect_client :: "'s DataStore \<Rightarrow> client \<Rightarrow> gostring \<Rightarrow> int \<Rightarrow> Pad \<Rightarrow> PadSession \<Rightarrow> 's Server \<Rightarrow> bool \<times> 's Server" where
  "reconnect_client D c sid clientRev pad session st =
     (let session1 = session\<lparr>ses_PadId := pad_Id pad, Revision := clientRev\<rparr>;
          st1 = set_session sid session1 st;
          startNum = max 0 (clientRev + 1)
      in if startNum < pad_Head pad + 1 then
           (case Pad_GetRevisions D startNum (pad_Head pad) pad (srv_store st) of
              Inl err \<Rightarrow> (False, st1)
            | Inr revisions \<Rightarrow> (True, send_missed pad c sid revisions session1 st1))
         else (True, set_session sid (session1\<lparr>Revision := pad_Head pad\<rparr>) (send_to c (NoChanges (pad_Head pad)) st1)))"

subsection \<open>A new client\<close>

definition welcome_client ::
  "'s DataStore \<Rightarrow> time \<Rightarrow> client \<Rightarrow> gostring \<Rightarrow> (gostring, Author) gomap \<Rightarrow> Pad \<Rightarrow> PadSession \<Rightarrow> 's Server \<Rightarrow> (bool \<times> 's Server) result" where
  "welcome_client D now c sid historical pad session st =
     (let forWire = PrepareForWire (ATAttribs (pad_AText pad)) (pad_Pool pad);
          numConnected = int (length (GetRoomSockets (pad_Id pad) st))
      in case NewClientVars D now pad session (ToJsonable (WirePool forWire)) (Translated forWire) historical numConnected (srv_store st) of
           Inl Panic \<Rightarrow> Inl Panic
         | Inl (Err e) \<Rightarrow> Inr (False, st)
         | Inr vars \<Rightarrow>
             Inr (True, set_session sid
               (session\<lparr>ses_PadId := pad_Id pad, Revision := pad_Head pad,
                        Time := (if Time session = 0 then cv_Time vars else Time session)\<rparr>)
               (send_to c (ClientVarsMessage vars) st)))"

subsection \<open>The other users\<close>

definition new_info :: "gostring \<Rightarrow> Author \<Rightarrow> Message" where
  "new_info i a = UserNewInfo \<lparr>ui_UserId = i, ui_Name = author_Name a, ui_ColorId = author_ColorId a\<rparr>"

fun introduce_users :: "'s DataStore \<Rightarrow> client \<Rightarrow> gostring \<Rightarrow> (client \<times> gostring) list \<Rightarrow> 's Server \<Rightarrow> 's Server" where
  "introduce_users D c sid [] st = st"
| "introduce_users D c sid ((c', i) # sockets) st =
     introduce_users D c sid sockets
       (if i = sid then st
        else case getSession i (sessions st) of
          None \<Rightarrow> st
        | Some sinfo \<Rightarrow>
            (case GetAuthor D (ses_Author sinfo) (srv_store st) of
               Inl err \<Rightarrow> st
             | Inr other \<Rightarrow> send_to c (new_info (ses_Author sinfo) other) st))"

definition announce_user ::
  "'s DataStore \<Rightarrow> client \<Rightarrow> gostring \<Rightarrow> gostring \<Rightarrow> (client \<times> gostring) list \<Rightarrow> 's Server \<Rightarrow> 's handled" where
  "announce_user D c sid author sockets st =
     (case GetAuthor D author (srv_store st) of
        Inl err \<Rightarrow> finish st
      | Inr a \<Rightarrow>
          finish (introduce_users D c sid sockets (st\<lparr>hub := send_all (map fst sockets) (new_info author a) (hub st)\<rparr>)))"

subsection \<open>The handler\<close>

text \<open>The authors of the text and of the chat, each once.\<close>

definition historical_authors :: "'s DataStore \<Rightarrow> Pad \<Rightarrow> 's \<Rightarrow> (gostring, Author) gomap result" where
  "historical_authors D pad s =
     bind_result (GetAllChatters D pad s) (\<lambda>chatAuthors.
     bind_result (GetAuthors D (remdups (GetAllAuthors pad @ chatAuthors)) s) (\<lambda>allAuthors.
       Inr (fold (\<lambda>a m. gomap_set m (author_Id a) a) allAuthors [])))"

definition enter_pad ::
  "'s DataStore \<Rightarrow> time \<Rightarrow> client \<Rightarrow> gostring \<Rightarrow> ClientReadyData \<Rightarrow> PadSession \<Rightarrow> Pad \<Rightarrow> 's Server \<Rightarrow> 's handled" where
  "enter_pad D now c sid ready session pad st =
     (case GetAuthor D (ses_Author session) (srv_store st) of
        Inl err \<Rightarrow> finish st
      | Inr foundAuthor \<Rightarrow>
          if author_Id foundAuthor = [] then finish st
          else case historical_authors D pad (srv_store st) of
            Inl Panic \<Rightarrow> panic st
          | Inl (Err e) \<Rightarrow> finish st
          | Inr historical \<Rightarrow>
              let sockets = GetRoomSockets (ses_PadId session) st;
                  st1 = dismiss_duplicates sid (ses_Author session) sockets st
              in case (if Reconnect ready = Some True
                       then Inr (reconnect_client D c sid (case ClientRev ready of None \<Rightarrow> 0 | Some r \<Rightarrow> r) pad session st1)
                       else welcome_client D now c sid historical pad session st1) of
                   Inl err \<Rightarrow> panic st1
                 | Inr (False, st2) \<Rightarrow> finish st2
                 | Inr (True, st2) \<Rightarrow> announce_user D c sid (ses_Author session) sockets st2)"

definition HandleClientReadyMessage ::
  "'s DataStore \<Rightarrow> time \<Rightarrow> gostring \<Rightarrow> client \<Rightarrow> gostring \<Rightarrow> ClientReadyData \<Rightarrow> PadSession \<Rightarrow> 's Server \<Rightarrow> 's handled" where
  "HandleClientReadyMessage D now defaultText c sid ready session st =
     (let colorId = (case rd_ColorId ready of None \<Rightarrow> None | Some col \<Rightarrow> if colorRegEx_match col then Some col else None);
          s1 = (case rd_Name ready of None \<Rightarrow> srv_store st | Some n \<Rightarrow> snd (SetAuthorName D (ses_Author session) n (srv_store st)));
          s2 = (case colorId of None \<Rightarrow> s1 | Some col \<Rightarrow> snd (SetAuthorColor D (ses_Author session) col s1));
          st1 = set_store s2 st
      in if rd_Component ready = lit ''sheet'' then
           HandleSheetClientReady D now defaultText c sid (Reconnect ready = Some True)
             (case ClientRev ready of None \<Rightarrow> 0 | Some r \<Rightarrow> r) session st1
         else load_pad D now defaultText (ses_PadId session) (Some (ses_Author session)) (enter_pad D now c sid ready session) st1)"

end
