(* ===== verification/Dispatch.thy ===== *)
theory Dispatch
  imports ClientReady RevisionRanges
begin

text \<open>
  The entry of the messages of a pad, \<^verbatim>\<open>HandleMessage\<close> of \<^verbatim>\<open>lib/ws/PadMessageHandler.go\<close>: the
  session that \<^verbatim>\<open>CLIENT_READY\<close> sets up, the access check before every message and the choice of
  the handler. A client has the user of its HTTP request; the random strings are arguments.
  Without plugins no message is dropped and no write access is granted by a hook.
\<close>

datatype Incoming =
    ClientReadyMsg ClientReadyData
  | ChangesetReq int int int
  | ChatMsg ChatMessageData
  | UserChangeMsg UserChange
  | SavedRevisionMsg
  | ClientMsg ClientMessageData
  | GetChatMsg int int
  | UserInfoUpdate "gostring option" "gostring option"
  | PadDelete gostring

record randoms =
  rnd_author :: drawn
  rnd16 :: gostring
  rnd10 :: gostring

text \<open>The session id of an integrator: of the handshake, or else of the message.\<close>

definition resolved_session :: "gostring \<Rightarrow> ClientReadyData \<Rightarrow> gostring" where
  "resolved_session integrator ready = (if integrator = [] then rd_SessionID ready else integrator)"

text \<open>\<open>False\<close>: the message is not handled further. The session is on the pad from here on, before any access check.\<close>

definition open_session ::
  "'s DataStore \<Rightarrow> time \<Rightarrow> gostring \<Rightarrow> gostring \<Rightarrow> gostring \<Rightarrow> ClientReadyData \<Rightarrow> 's Server \<Rightarrow> bool \<times> 's Server" where
  "open_session D now random16 integrator sid ready st =
     (let auth = \<lparr>auth_PadId = rd_PadID ready, auth_Token = rd_Token ready, auth_SessionId = sid,
                  auth_Integrator = resolved_session integrator ready\<rparr>;
          session = empty_session\<lparr>Auth := Some auth\<rparr>;
          st1 = set_session sid session st
      in case DoesPadExist D (rd_PadID ready) (srv_store st1) of
           Inl err \<Rightarrow> (False, st1)
         | Inr exists' \<Rightarrow>
             (case (if exists' then Inr [] else SanitizePadId (rd_PadID ready)) of
                Inl err \<Rightarrow> (False, st1)
              | Inr padId \<Rightarrow>
                  let session1 = session\<lparr>ses_PadId := padId\<rparr>
                  in case GetIds D now random16 (rd_PadID ready) (srv_store st1) of
                       (Inl err, s2) \<Rightarrow> (False, set_store s2 (set_session sid session1 st1))
                     | (Inr ids, s2) \<Rightarrow>
                         (True, set_store s2 (set_session sid (session1\<lparr>ses_PadId := PadId ids,
                            ses_ReadOnlyPadId := ReadOnlyPadId ids, ses_ReadOnly := ReadOnly ids\<rparr>) st1))))"

text \<open>A granted message of a session, with its author.\<close>

definition dispatch ::
  "'s DataStore \<Rightarrow> time \<Rightarrow> gostring \<Rightarrow> map_order \<Rightarrow> randoms \<Rightarrow> client \<Rightarrow> gostring \<Rightarrow> Incoming \<Rightarrow> PadSession \<Rightarrow> 's Server \<Rightarrow> 's handled" where
  "dispatch D now defaultText order rnd c sid message session st =
     (case message of
        ClientReadyMsg ready \<Rightarrow> HandleClientReadyMessage D now defaultText c sid ready session st
      | ChangesetReq start granularity requestID \<Rightarrow> HandleChangesetRequest D now defaultText order c sid start granularity requestID st
      | ChatMsg m \<Rightarrow>
          SendChatMessageToPadClients D now defaultText session
            ((FromObject m)\<lparr>cd_Time := Some (millis_of now), cd_AuthorId := Some (ses_Author session)\<rparr>) st
      | UserChangeMsg change \<Rightarrow>
          if ses_ReadOnly session then finish st else handleUserChanges D now defaultText order c sid change st
      | SavedRevisionMsg \<Rightarrow>
          load_pad D now defaultText (ses_PadId session) None (\<lambda>pad st1.
            finish (HandleSavedRevisionMessage D now (rnd10 rnd) (ses_PadId session) pad (ses_Author session) st1)) st
      | ClientMsg m \<Rightarrow> HandleClientMessage m session st
      | GetChatMsg start end' \<Rightarrow> HandleGetChatMessages D now defaultText c session start end' st
      | UserInfoUpdate colorId name \<Rightarrow> HandleUserInfoUpdate D sid colorId name st
      | PadDelete padID \<Rightarrow> HandlePadDelete D now defaultText sid padID st)"

text \<open>The access check: the pad and the token that the session was opened with.\<close>

definition checked_message ::
  "'s DataStore \<Rightarrow> time \<Rightarrow> gostring \<Rightarrow> map_order \<Rightarrow> access_settings \<Rightarrow> randoms \<Rightarrow> client \<Rightarrow> gostring \<Rightarrow>
   SocketClientRequest option \<Rightarrow> Incoming \<Rightarrow> 's Server \<Rightarrow> 's handled" where
  "checked_message D now defaultText order cfg rnd c sid user message st =
     (case getSession sid (sessions st) of
        None \<Rightarrow> panic st
      | Some session \<Rightarrow>
          (case Auth session of
             None \<Rightarrow> finish st
           | Some auth \<Rightarrow>
               (case CheckAccess D now defaultText (rnd_author rnd) cfg (Some (auth_PadId auth))
                       (if auth_Integrator auth = [] then None else Some (auth_Integrator auth))
                       (Some (auth_Token auth)) user (manager st, srv_store st) of
                  None \<Rightarrow> None
                | Some (Inl Panic, m, s) \<Rightarrow> panic st
                | Some (Inl (Err e), m, s) \<Rightarrow> finish (send_to c (AccessStatusMessage e) (st\<lparr>manager := m, srv_store := s\<rparr>))
                | Some (Inr granted, m, s) \<Rightarrow>
                    let st1 = st\<lparr>manager := m, srv_store := s\<rparr>;
                        session1 = session\<lparr>ses_Author := AuthorId granted\<rparr>
                    in if ses_Author session \<noteq> [] \<and> ses_Author session \<noteq> AuthorId granted
                       then finish (send_to c (Disconnect (lit ''rejected'')) st1)
                       else dispatch D now defaultText order rnd c sid message session1 (set_session sid session1 st1))))"

definition HandleMessage ::
  "'s DataStore \<Rightarrow> time \<Rightarrow> gostring \<Rightarrow> map_order \<Rightarrow> access_settings \<Rightarrow> randoms \<Rightarrow> client \<Rightarrow> gostring \<Rightarrow> gostring \<Rightarrow>
   SocketClientRequest option \<Rightarrow> Incoming \<Rightarrow> 's Server \<Rightarrow> 's handled" where
  "HandleMessage D now defaultText order cfg rnd c sid integrator user message st =
     (if \<not> hasSession sid (sessions st) then finish st
      else case (case message of ClientReadyMsg ready \<Rightarrow> open_session D now (rnd16 rnd) integrator sid ready st | _ \<Rightarrow> (True, st)) of
        (False, st1) \<Rightarrow> finish st1
      | (True, st1) \<Rightarrow> checked_message D now defaultText order cfg rnd c sid user message st1)"

end
