(* ===== verification/RateLimit.thy ===== *)
theory RateLimit
  imports GoMap DataStore
begin

text \<open>
  The limiter of commits (\<^verbatim>\<open>lib/ws/ratelimiter/inmemory.go\<close>): per address the seconds of its
  recent attempts, and what it guarantees. The clock is read once per check.
\<close>

record CommitRateLimiting =
  Duration :: int
  Points :: int
  rl_LoadTest :: bool

type_synonym RateLimiter = "(gostring, int list) gomap"

definition CheckRateLimit :: "time \<Rightarrow> gostring \<Rightarrow> CommitRateLimiting \<Rightarrow> RateLimiter \<Rightarrow> goerr option \<times> RateLimiter" where
  "CheckRateLimit now ip limiting rateLimiter =
     (if rl_LoadTest limiting then (None, rateLimiter)
      else
        let value = (case gomap_get rateLimiter ip of None \<Rightarrow> [] | Some events \<Rightarrow> events);
            cutoff = unix_of (now - Duration limiting * 10 ^ 9);
            filteredEvents = filter (\<lambda>event. event \<ge> cutoff) value @ [unix_of now]
        in (if int (length filteredEvents) > Points limiting then Some (Err ''rate limit exceeded'') else None,
            gomap_set rateLimiter ip filteredEvents))"

subsection \<open>Sequences of attempts\<close>

text \<open>The limiter after a sequence of attempts, whether the next one is accepted, and the attempts of an address.\<close>

definition after_attempts :: "CommitRateLimiting \<Rightarrow> (time \<times> gostring) list \<Rightarrow> RateLimiter" where
  "after_attempts lim xs = fold (\<lambda>(now, ip) rl. snd (CheckRateLimit now ip lim rl)) xs []"

definition accepted :: "CommitRateLimiting \<Rightarrow> (time \<times> gostring) list \<Rightarrow> nat \<Rightarrow> bool" where
  "accepted lim xs i \<longleftrightarrow>
     fst (CheckRateLimit (fst (xs ! i)) (snd (xs ! i)) lim (after_attempts lim (take i xs))) = None"

definition attempts :: "gostring \<Rightarrow> (time \<times> gostring) list \<Rightarrow> int list" where
  "attempts ip xs = map (\<lambda>(now, _). unix_of now) (filter (\<lambda>(_, ip'). ip' = ip) xs)"

definition events_of :: "gostring \<Rightarrow> RateLimiter \<Rightarrow> int list" where
  "events_of ip rl = (case gomap_get rl ip of None \<Rightarrow> [] | Some events \<Rightarrow> events)"

lemma unix_sub: "unix_of (now - d * 1000000000) = unix_of now - d"
proof -
  have "(now - d * 10 ^ 9) div 10 ^ 9 = (now + (- d) * 10 ^ 9) div 10 ^ 9" by simp
  also have "\<dots> = - d + now div 10 ^ 9" by (rule div_mult_self1) simp
  finally show ?thesis by (simp add: unix_of_def)
qed

lemma CheckRateLimit_events:
  assumes "\<not> rl_LoadTest lim"
  shows "fst (CheckRateLimit now ip lim rl) = None \<longleftrightarrow>
      int (length (filter (\<lambda>t. t \<ge> unix_of now - Duration lim) (events_of ip rl))) + 1 \<le> Points lim"
    and "events_of ip' (snd (CheckRateLimit now ip lim rl)) =
      (if ip' = ip then filter (\<lambda>t. t \<ge> unix_of now - Duration lim) (events_of ip rl) @ [unix_of now] else events_of ip' rl)"
  using assms by (auto simp: CheckRateLimit_def Let_def unix_sub events_of_def)

text \<open>The events kept are the attempts that still count, for every later cutoff.\<close>

lemma events_attempts:
  assumes "\<not> rl_LoadTest lim" "\<forall>(now, _) \<in> set xs. unix_of now - Duration lim \<le> c"
  shows "filter (\<lambda>t. t \<ge> c) (events_of ip (after_attempts lim xs)) = filter (\<lambda>t. t \<ge> c) (attempts ip xs)"
  using assms(2)
proof (induction xs rule: rev_induct)
  case Nil
  then show ?case by (simp add: after_attempts_def attempts_def events_of_def)
next
  case (snoc x xs)
  obtain now ip0 where x: "x = (now, ip0)" by fastforce
  let ?cut = "unix_of now - Duration lim"
  have E: "events_of ip (after_attempts lim (xs @ [x])) =
      (if ip = ip0 then filter (\<lambda>t. t \<ge> ?cut) (events_of ip0 (after_attempts lim xs)) @ [unix_of now]
       else events_of ip (after_attempts lim xs))"
    using CheckRateLimit_events(2)[OF assms(1)] by (simp add: after_attempts_def x)
  have "?cut \<le> c" using snoc.prems x by simp
  then have c: "(\<lambda>t. t \<ge> ?cut \<and> t \<ge> c) = (\<lambda>t. t \<ge> c)" by fastforce
  have IH: "filter (\<lambda>t. t \<ge> c) (events_of ip (after_attempts lim xs)) = filter (\<lambda>t. t \<ge> c) (attempts ip xs)" using snoc by simp
  have A: "attempts ip (xs @ [x]) = attempts ip xs @ (if ip = ip0 then [unix_of now] else [])" by (simp add: attempts_def x)
  show ?case
  proof (cases "ip = ip0")
    case True
    have "filter (\<lambda>t. t \<ge> c) (filter (\<lambda>t. t \<ge> ?cut) (events_of ip (after_attempts lim xs))) =
        filter (\<lambda>t. t \<ge> c) (events_of ip (after_attempts lim xs))" by (simp only: filter_filter c)
    with E A IH True show ?thesis by (simp del: filter_filter)
  qed (use E A IH in simp)
qed

lemma accepted_iff:
  assumes "\<not> rl_LoadTest lim" "sorted (map fst xs)" "i < length xs" "xs ! i = (now, ip)"
  shows "accepted lim xs i \<longleftrightarrow>
    int (length (filter (\<lambda>t. t \<ge> unix_of now - Duration lim) (attempts ip (take i xs)))) + 1 \<le> Points lim"
proof -
  have "fst x \<le> now" if x: "x \<in> set (take i xs)" for x
  proof -
    obtain j where j: "j < i" "x = xs ! j" using x by (auto simp: in_set_conv_nth)
    with assms(2-4) sorted_nth_mono[of "map fst xs" j i] show ?thesis by simp
  qed
  then have "\<forall>(now', _) \<in> set (take i xs). unix_of now' - Duration lim \<le> unix_of now - Duration lim"
    by (fastforce simp: unix_of_def zdiv_mono1)
  note E = events_attempts[OF assms(1) this, of ip]
  show ?thesis unfolding accepted_def using CheckRateLimit_events(1)[OF assms(1)] E assms(4) by simp
qed

lemma length_filter_count: "length (filter P xs) = card {j. j < length xs \<and> P (xs ! j)}"
  by (rule length_filter_conv_card)

lemma attempts_count:
  "length (filter Q (attempts ip xs)) = card {j. j < length xs \<and> snd (xs ! j) = ip \<and> Q (unix_of (fst (xs ! j)))}"
proof -
  have "length (filter Q (attempts ip xs)) = length (filter (\<lambda>x. snd x = ip \<and> Q (unix_of (fst x))) xs)"
    by (induction xs) (auto simp: attempts_def)
  then show ?thesis by (simp add: length_filter_count)
qed



end
