(* ===== verification/Frames.thy ===== *)
theory Frames
  imports Dispatch RateLimit
begin

text \<open>
  The frames of a websocket (\<^verbatim>\<open>readPump\<close> in \<^verbatim>\<open>lib/ws/client.go\<close>): the limit on commits, the kind of
  message, which is looked for as a substring of the whole frame, and the JSON of the messages
  (\<^verbatim>\<open>lib/models/ws\<close>, \<^verbatim>\<open>WSMessage.go\<close>). Reading from the socket is left out: a frame is its text.
\<close>

subsection \<open>Decoding\<close>

text \<open>A struct by the decoders of its fields, and a field of a record.\<close>

fun field_of :: "(string \<times> 'r decoder) list \<Rightarrow> gostring \<Rightarrow> 'r decoder" where
  "field_of [] k x r = Inr r"
| "field_of ((name, dec) # fs) k x r = (if named k name then dec x r else field_of fs k x r)"

definition fields :: "(string \<times> 'r decoder) list \<Rightarrow> 'r decoder" where
  "fields fs = decode_struct (field_of fs)"

definition into :: "'a decoder \<Rightarrow> ('r \<Rightarrow> 'a) \<Rightarrow> ('a \<Rightarrow> 'r \<Rightarrow> 'r) \<Rightarrow> 'r decoder" where
  "into dec get' put' x r = map_sum id (\<lambda>v. put' v r) (dec x (get' r))"

text \<open>A string that nothing reads; its type is checked all the same.\<close>

definition unread :: "'r decoder" where
  "unread = into decode_string (\<lambda>r. []) (\<lambda>v r. r)"

definition decode_bool :: "bool decoder" where
  "decode_bool j old = (case j of JNull \<Rightarrow> Inr old | JBool b \<Rightarrow> Inr b | _ \<Rightarrow> Inl (Err ''cannot unmarshal''))"

text \<open>A raw value is kept as text, an arbitrary map by its members.\<close>

definition decode_raw :: "gostring decoder" where
  "decode_raw j old = Inr (print_json j)"

definition decode_any_map :: "(gostring \<times> json) list decoder" where
  "decode_any_map j old = (case j of JNull \<Rightarrow> Inr [] | JObject ms \<Rightarrow> Inr ms | _ \<Rightarrow> Inl (Err ''cannot unmarshal''))"

text \<open>
  \<^verbatim>\<open>CLIENT_READY\<close> is handled after a decoding error, too: a value of another kind leaves its field
  alone, except that a pointer has been allocated by then.
\<close>

definition lenient :: "'r decoder \<Rightarrow> 'r decoder" where
  "lenient dec x r = (case dec x r of Inl e \<Rightarrow> Inr r | Inr v \<Rightarrow> Inr v)"

definition lenient_pointer :: "'a decoder \<Rightarrow> 'a \<Rightarrow> 'a option decoder" where
  "lenient_pointer dec zero x old = decode_pointer (lenient dec) zero x old"

subsection \<open>The messages\<close>

definition no_client_ready :: ClientReadyData where
  "no_client_ready = \<lparr>rd_Component = [], rd_PadID = [], rd_Token = [], rd_SessionID = [], rd_ColorId = None, rd_Name = None,
     Reconnect = None, ClientRev = None\<rparr>"

definition decode_client_ready :: "ClientReadyData decoder" where
  "decode_client_ready = lenient (fields
     [(''event'', lenient unread),
      (''data'', lenient (fields
        [(''component'', lenient (into decode_string rd_Component (\<lambda>v r. r\<lparr>rd_Component := v\<rparr>))),
         (''type'', lenient unread),
         (''padId'', lenient (into decode_string rd_PadID (\<lambda>v r. r\<lparr>rd_PadID := v\<rparr>))),
         (''token'', lenient (into decode_string rd_Token (\<lambda>v r. r\<lparr>rd_Token := v\<rparr>))),
         (''sessionID'', lenient (into decode_string rd_SessionID (\<lambda>v r. r\<lparr>rd_SessionID := v\<rparr>))),
         (''userInfo'', lenient (fields
            [(''colorId'', into (lenient_pointer decode_string []) rd_ColorId (\<lambda>v r. r\<lparr>rd_ColorId := v\<rparr>)),
             (''name'', into (lenient_pointer decode_string []) rd_Name (\<lambda>v r. r\<lparr>rd_Name := v\<rparr>))])),
         (''reconnect'', into (lenient_pointer decode_bool False) Reconnect (\<lambda>v r. r\<lparr>Reconnect := v\<rparr>)),
         (''client_rev'', into (lenient_pointer decode_int 0) ClientRev (\<lambda>v r. r\<lparr>ClientRev := v\<rparr>))]))])"

definition client_ready :: "gostring \<Rightarrow> ClientReadyData" where
  "client_ready s = (case Unmarshal decode_client_ready no_client_ready s of Inl e \<Rightarrow> no_client_ready | Inr r \<Rightarrow> r)"

definition decode_user_change :: "UserChange decoder" where
  "decode_user_change = fields
     [(''event'', unread),
      (''data'', fields
        [(''component'', unread), (''type'', unread),
         (''data'', fields
            [(''type'', unread),
             (''apool'', fields
                [(''numToAttrib'', into (decode_map int_key (decode_slice decode_string []) []) uc_NumToAttrib (\<lambda>v r. r\<lparr>uc_NumToAttrib := v\<rparr>)),
                 (''nextNum'', into decode_int uc_NextNum (\<lambda>v r. r\<lparr>uc_NextNum := v\<rparr>))]),
             (''baseRev'', into decode_int BaseRev (\<lambda>v r. r\<lparr>BaseRev := v\<rparr>)),
             (''changeset'', into decode_string uc_Changeset (\<lambda>v r. r\<lparr>uc_Changeset := v\<rparr>))])])]"

definition no_user_change :: UserChange where
  "no_user_change = \<lparr>uc_NumToAttrib = [], uc_NextNum = 0, BaseRev = 0, uc_Changeset = []\<rparr>"

text \<open>Start, granularity and request id.\<close>

definition decode_changeset_req :: "(int \<times> int \<times> int) decoder" where
  "decode_changeset_req = fields
     [(''event'', unread),
      (''data'', fields
        [(''component'', unread), (''type'', unread), (''padId'', unread), (''token'', unread),
         (''data'', fields
            [(''start'', into decode_int fst (\<lambda>v (a, b, c). (v, b, c))),
             (''granularity'', into decode_int (fst \<circ> snd) (\<lambda>v (a, b, c). (a, v, c))),
             (''requestID'', into decode_int (snd \<circ> snd) (\<lambda>v (a, b, c). (a, b, v)))])])]"

definition decode_chat_data :: "ChatMessageData decoder" where
  "decode_chat_data = fields
     [(''text'', into decode_string cd_Text (\<lambda>v r. r\<lparr>cd_Text := v\<rparr>)),
      (''time'', into (decode_pointer decode_int 0) cd_Time (\<lambda>v r. r\<lparr>cd_Time := v\<rparr>)),
      (''userId'', into (decode_pointer decode_string []) cd_UserId (\<lambda>v r. r\<lparr>cd_UserId := v\<rparr>)),
      (''authorId'', into (decode_pointer decode_string []) cd_AuthorId (\<lambda>v r. r\<lparr>cd_AuthorId := v\<rparr>)),
      (''displayName'', into (decode_pointer decode_string []) cd_DisplayName (\<lambda>v r. r\<lparr>cd_DisplayName := v\<rparr>)),
      (''userName'', into (decode_pointer decode_string []) cd_UserName (\<lambda>v r. r\<lparr>cd_UserName := v\<rparr>))]"

definition no_chat_data :: ChatMessageData where
  "no_chat_data = \<lparr>cd_Text = [], cd_Time = None, cd_UserId = None, cd_AuthorId = None, cd_DisplayName = None, cd_UserName = None\<rparr>"

definition decode_chat :: "ChatMessageData decoder" where
  "decode_chat = fields
     [(''event'', unread),
      (''data'', fields [(''type'', unread), (''component'', unread),
         (''data'', fields [(''type'', unread), (''message'', decode_chat_data)])])]"

definition decode_get_chat :: "(int \<times> int) decoder" where
  "decode_get_chat = fields
     [(''event'', unread),
      (''data'', fields [(''type'', unread), (''component'', unread),
         (''data'', fields [(''type'', unread), (''start'', into decode_int fst (\<lambda>v (a, b). (v, b))),
            (''end'', into decode_int snd (\<lambda>v (a, b). (a, v)))])])]"

text \<open>The colour and the name of \<^verbatim>\<open>USERINFO_UPDATE\<close>.\<close>

definition unread_pointer :: "'r decoder" where
  "unread_pointer = into (decode_pointer decode_string []) (\<lambda>r. None) (\<lambda>v r. r)"

definition decode_user_info :: "(gostring option \<times> gostring option) decoder" where
  "decode_user_info = fields
     [(''event'', unread),
      (''data'', fields [(''type'', unread),
         (''data'', fields [(''type'', unread),
            (''userInfo'', fields
               [(''colorId'', into (decode_pointer decode_string []) fst (\<lambda>v (a, b). (v, b))), (''ip'', unread_pointer),
                (''name'', into (decode_pointer decode_string []) snd (\<lambda>v (a, b). (a, v))), (''userId'', unread_pointer)])])])]"

definition decode_pad_delete :: "gostring decoder" where
  "decode_pad_delete = fields [(''type'', unread), (''data'', fields [(''padId'', decode_string)])]"

definition decode_save_revision :: "unit decoder" where
  "decode_save_revision = fields
     [(''event'', unread), (''data'', fields [(''type'', unread), (''component'', unread), (''data'', fields [(''type'', unread)])])]"

definition no_client_message :: ClientMessageData where
  "no_client_message = \<lparr>cm_Component = [], cm_Type = [], cm_DataType = [], cm_PayloadType = [], NewName = [], UnnamedId = [], cm_Options = []\<rparr>"

definition decode_client_message :: "ClientMessageData decoder" where
  "decode_client_message = fields
     [(''event'', unread),
      (''data'', fields
        [(''component'', into decode_string cm_Component (\<lambda>v r. r\<lparr>cm_Component := v\<rparr>)),
         (''type'', into decode_string cm_Type (\<lambda>v r. r\<lparr>cm_Type := v\<rparr>)),
         (''data'', fields
            [(''type'', into decode_string cm_DataType (\<lambda>v r. r\<lparr>cm_DataType := v\<rparr>)),
             (''payload'', fields
                [(''type'', into decode_string cm_PayloadType (\<lambda>v r. r\<lparr>cm_PayloadType := v\<rparr>)),
                 (''newName'', into decode_string NewName (\<lambda>v r. r\<lparr>NewName := v\<rparr>)),
                 (''unnamedId'', into decode_string UnnamedId (\<lambda>v r. r\<lparr>UnnamedId := v\<rparr>)),
                 (''options'', into decode_any_map cm_Options (\<lambda>v r. r\<lparr>cm_Options := v\<rparr>))])])])]"

text \<open>The text of an operation and its base revision.\<close>

definition decode_sheet_op :: "(gostring \<times> int) decoder" where
  "decode_sheet_op = fields
     [(''event'', unread),
      (''data'', fields [(''component'', unread), (''type'', unread),
         (''data'', fields [(''type'', unread), (''op'', into decode_raw fst (\<lambda>v (a, b). (v, b))),
            (''baseRev'', into decode_int snd (\<lambda>v (a, b). (a, v)))])])]"

definition no_presence :: SheetPresenceIn where
  "no_presence = \<lparr>pi_Sheet = [], pi_Row = 0, pi_Col = 0, pi_Editing = False, pi_Raw = [], pi_FocusRow = 0, pi_FocusCol = 0\<rparr>"

definition decode_presence :: "SheetPresenceIn decoder" where
  "decode_presence = fields
     [(''event'', unread),
      (''data'', fields [(''component'', unread), (''type'', unread),
         (''data'', fields
            [(''type'', unread),
             (''sheet'', into decode_string pi_Sheet (\<lambda>v r. r\<lparr>pi_Sheet := v\<rparr>)),
             (''row'', into decode_int pi_Row (\<lambda>v r. r\<lparr>pi_Row := v\<rparr>)),
             (''col'', into decode_int pi_Col (\<lambda>v r. r\<lparr>pi_Col := v\<rparr>)),
             (''editing'', into decode_bool pi_Editing (\<lambda>v r. r\<lparr>pi_Editing := v\<rparr>)),
             (''raw'', into decode_string pi_Raw (\<lambda>v r. r\<lparr>pi_Raw := v\<rparr>)),
             (''focusRow'', into decode_int pi_FocusRow (\<lambda>v r. r\<lparr>pi_FocusRow := v\<rparr>)),
             (''focusCol'', into decode_int pi_FocusCol (\<lambda>v r. r\<lparr>pi_FocusCol := v\<rparr>))])])]"

subsection \<open>The kind of a frame\<close>

datatype FrameKind =
    FrameClientReady | FramePadDelete | FrameSaveRevision | FrameUserChanges | FrameSheetOp | FrameSheetPresence
  | FrameUserInfo | FrameGetChat | FrameChangesetReq | FrameChat | FrameClientMessage

definition contains :: "gostring \<Rightarrow> string \<Rightarrow> bool" where
  "contains s name \<longleftrightarrow> 0 \<le> str_index s (lit name)"

text \<open>The first name that occurs anywhere in the frame, also in the text of a message, decides.\<close>

definition frame_kinds :: "(string \<times> FrameKind) list" where
  "frame_kinds =
     [(''CLIENT_READY'', FrameClientReady), (''PAD_DELETE'', FramePadDelete), (''SAVE_REVISION'', FrameSaveRevision),
      (''USER_CHANGES'', FrameUserChanges), (''SHEET_OP'', FrameSheetOp), (''SHEET_PRESENCE'', FrameSheetPresence),
      (''USERINFO_UPDATE'', FrameUserInfo), (''GET_CHAT_MESSAGES'', FrameGetChat), (''CHANGESET_REQ'', FrameChangesetReq),
      (''CHAT_MESSAGE'', FrameChat), (''CLIENT_MESSAGE'', FrameClientMessage)]"

definition frame_kind :: "gostring \<Rightarrow> FrameKind option" where
  "frame_kind s = map_option snd (find (\<lambda>(name, kind). contains s name) frame_kinds)"

text \<open>The messages for \<^verbatim>\<open>HandleMessage\<close>; an error drops the frame.\<close>

definition decode_incoming :: "FrameKind \<Rightarrow> gostring \<Rightarrow> Incoming result" where
  "decode_incoming kind s =
     (case kind of
        FrameClientReady \<Rightarrow> Inr (ClientReadyMsg (client_ready s))
      | FramePadDelete \<Rightarrow> map_sum id PadDelete (Unmarshal decode_pad_delete [] s)
      | FrameSaveRevision \<Rightarrow> map_sum id (\<lambda>_. SavedRevisionMsg) (Unmarshal decode_save_revision () s)
      | FrameUserChanges \<Rightarrow> map_sum id UserChangeMsg (Unmarshal decode_user_change no_user_change s)
      | FrameUserInfo \<Rightarrow> map_sum id (\<lambda>(color, name). UserInfoUpdate color name) (Unmarshal decode_user_info (None, None) s)
      | FrameGetChat \<Rightarrow> map_sum id (\<lambda>(start, end'). GetChatMsg start end') (Unmarshal decode_get_chat (0, 0) s)
      | FrameChangesetReq \<Rightarrow> map_sum id (\<lambda>(start, gran, i). ChangesetReq start gran i) (Unmarshal decode_changeset_req (0, 0, 0) s)
      | FrameChat \<Rightarrow> map_sum id ChatMsg (Unmarshal decode_chat no_chat_data s)
      | FrameClientMessage \<Rightarrow> map_sum id ClientMsg (Unmarshal decode_client_message no_client_message s)
      | _ \<Rightarrow> Inl (Err ''not a message of the pad handler''))"

definition handle_frame ::
  "'s DataStore \<Rightarrow> time \<Rightarrow> gostring \<Rightarrow> map_order \<Rightarrow> access_settings \<Rightarrow> randoms \<Rightarrow> client \<Rightarrow> gostring \<Rightarrow> gostring \<Rightarrow>
   SocketClientRequest option \<Rightarrow> gostring \<Rightarrow> 's Server \<Rightarrow> 's handled" where
  "handle_frame D now defaultText order cfg rnd c sid integrator user message st =
     (case frame_kind message of
        None \<Rightarrow> finish st
      | Some FrameSheetOp \<Rightarrow>
          (case Unmarshal decode_sheet_op ([], 0) message of
             Inl e \<Rightarrow> finish st
           | Inr (opText, baseRev) \<Rightarrow> EnqueueSheetOp D now c sid opText baseRev st)
      | Some FrameSheetPresence \<Rightarrow>
          (case Unmarshal decode_presence no_presence message of Inl e \<Rightarrow> finish st | Inr p \<Rightarrow> HandlePresence D sid p st)
      | Some kind \<Rightarrow>
          (case decode_incoming kind message of
             Inl e \<Rightarrow> finish st
           | Inr m \<Rightarrow> HandleMessage D now defaultText order cfg rnd c sid integrator user m st))"

text \<open>One round of the loop: the frame on one line, trimmed; only commits count for the limiter.\<close>

definition readPump ::
  "'s DataStore \<Rightarrow> time \<Rightarrow> gostring \<Rightarrow> map_order \<Rightarrow> access_settings \<Rightarrow> randoms \<Rightarrow> client \<Rightarrow> gostring \<Rightarrow> gostring \<Rightarrow>
   SocketClientRequest option \<Rightarrow> gostring \<Rightarrow> CommitRateLimiting \<Rightarrow> gostring \<Rightarrow> RateLimiter \<Rightarrow> 's Server \<Rightarrow> 's handled \<times> RateLimiter" where
  "readPump D now defaultText order cfg rnd c sid integrator user ip limiting frame limiter st =
     (let message = trim_space (map (\<lambda>r. if r = newline then 32 else r) frame);
          (refused, limiter1) =
            (if contains message ''USER_CHANGES'' \<or> contains message ''SHEET_OP''
             then CheckRateLimit now ip (limiting\<lparr>rl_LoadTest := LoadTest cfg\<rparr>) limiter else (None, limiter))
      in (if refused \<noteq> None then finish st
          else handle_frame D now defaultText order cfg rnd c sid integrator user message st, limiter1))"

text \<open>A connection that opens, with its outgoing queue, and one that is lost.\<close>

definition ServeWs :: "client \<Rightarrow> gostring \<Rightarrow> gostring \<Rightarrow> 's Server \<Rightarrow> 's Server" where
  "ServeWs c sid integrator st =
     st\<lparr>sessions := initSession sid (sessions st),
        hub := Hub_Register c \<lparr>Send = [], SessionId = sid, IntegratorSessionID = integrator\<rparr> (hub st)\<rparr>"

definition connection_lost :: "'s DataStore \<Rightarrow> client \<Rightarrow> gostring \<Rightarrow> 's Server \<Rightarrow> 's Server" where
  "connection_lost D c sid st =
     (let st1 = HandleDisconnectOfPadClient D sid st in st1\<lparr>hub := Hub_Unregister c (hub st1)\<rparr>)"

end
