(* ===== verification/AdminMessages.thy ===== *)
theory AdminMessages
  imports Compaction Frames
begin

text \<open>
  The messages of the admin pages, \<^verbatim>\<open>lib/ws/AdminMessageHandler.go\<close>. An answer is the JSON value that is
  sent. The settings, the plugins, the figures of the machine, the file that settings are written to, the
  addresses of the clients, the updater and the comparison of versions (a third-party package) are
  arguments; so is the table of \<^verbatim>\<open>unicode.ToLower\<close>. Closing the connection of a kicked client is the
  \<open>connection_lost\<close> of \<open>Frames\<close>, a later step. The exit of \<^verbatim>\<open>restartServer\<close> is left out.
\<close>

subsection \<open>Strings cut by bytes\<close>

text \<open>A byte that is in no valid sequence is written as the replacement character.\<close>

definition first_rune :: "bytes \<Rightarrow> rune" where
  "first_rune bs =
     (let b = (\<lambda>i. bs ! i) in
      if rune_width bs = 2 then (b 0 - 0xC0) * 64 + (b 1 - 0x80)
      else if rune_width bs = 3 then (b 0 - 0xE0) * 4096 + (b 1 - 0x80) * 64 + (b 2 - 0x80)
      else if rune_width bs = 4 then (b 0 - 0xF0) * 262144 + (b 1 - 0x80) * 4096 + (b 2 - 0x80) * 64 + (b 3 - 0x80)
      else if b 0 < 0x80 then b 0 else 0xFFFD)"

function runes_of :: "bytes \<Rightarrow> gostring" where
  "runes_of bs = (if bs = [] then [] else first_rune bs # runes_of (drop (rune_width bs) bs))"
  by pat_completeness auto
termination by (relation "measure length") (auto simp: rune_width_pos)

declare runes_of.simps [simp del]

definition slice_bytes :: "gostring \<Rightarrow> int \<Rightarrow> int \<Rightarrow> gostring result" where
  "slice_bytes s start end' =
     (if start < 0 \<or> start > end' \<or> end' > byte_len s then Inl Panic
      else Inr (runes_of (take (nat (end' - start)) (drop (nat start) (bytes_of s)))))"

subsection \<open>What the handler is given\<close>

record Plugin =
  plugin_Name :: gostring
  plugin_Description :: gostring
  plugin_IsEnabled :: bool

text \<open>The updater: the result of a check (current and latest version), the errors of its commands, its status.\<close>

record Updater =
  CheckNowSync :: "gostring \<times> gostring option \<times> bool"
  ApplyNow :: "gostring option"
  Acknowledge :: "gostring option"
  updater_Status :: json

record Admin =
  settings_json :: json
  GitVersion :: gostring
  Cleanup_Enabled :: bool
  Cleanup_KeepRevisions :: int
  RegisteredPlugins :: "Plugin list"
  updater :: "Updater option"
  newer :: "gostring \<Rightarrow> gostring \<Rightarrow> bool option"
  write_settings :: "gostring \<Rightarrow> gostring option"
  ClientIP :: "client \<Rightarrow> gostring"
  system_info :: json
  lower_rune :: "rune \<Rightarrow> rune"

text \<open>\<open>newer current latest\<close>: \<open>None\<close> when one of the two is no version.\<close>

definition IsUpdateAvailable :: "(gostring \<Rightarrow> gostring \<Rightarrow> bool option) \<Rightarrow> gostring \<Rightarrow> gostring \<Rightarrow> bool" where
  "IsUpdateAvailable newer_than current latest \<longleftrightarrow> latest \<noteq> [] \<and> newer_than current latest = Some True"

definition answer_admin :: "client \<Rightarrow> string \<Rightarrow> json \<Rightarrow> 's Server \<Rightarrow> 's Server" where
  "answer_admin c event data st = send_to c (AdminMessage (JArray [JString (lit event), data])) st"

definition ok_or_error :: "gostring option \<Rightarrow> json" where
  "ok_or_error err = (case err of
     None \<Rightarrow> JObject (member ''ok'' (JBool True))
   | Some e \<Rightarrow> JObject (member ''error'' (JString e) @ member ''ok'' (JBool False)))"

definition success :: json where
  "success = JObject (member ''success'' (JBool True))"

subsection \<open>Pads\<close>

definition string_member :: "string \<Rightarrow> gostring \<Rightarrow> gostring decoder" where
  "string_member name k x old = (if named k name then decode_string x old else Inr old)"

text \<open>A name that cannot be decoded is only logged and stays empty.\<close>

definition admin_createPad :: "'s DataStore \<Rightarrow> time \<Rightarrow> gostring \<Rightarrow> client \<Rightarrow> gostring \<Rightarrow> 's Server \<Rightarrow> 's handled" where
  "admin_createPad D now defaultText c data st =
     (let padName = (case Unmarshal (decode_struct (string_member ''padName'')) [] data of Inl err \<Rightarrow> [] | Inr n \<Rightarrow> n)
      in case DoesPadExist D padName (srv_store st) of
           Inl Panic \<Rightarrow> panic st
         | Inl (Err e) \<Rightarrow> finish st
         | Inr True \<Rightarrow> finish (answer_admin c ''results:createPad'' (JObject (member ''error'' (JString (lit ''Pad already exists'')))) st)
         | Inr False \<Rightarrow>
             load_pad D now defaultText padName None (\<lambda>pad st1.
               finish (answer_admin c ''results:createPad''
                 (JObject (member ''success'' (JString (lit ''Pad created '' @ padName)))) st1)) st)"

record PadLoadData =
  Offset :: int
  Limit :: int
  Pattern :: gostring
  SortBy :: gostring
  Ascending :: bool

definition pad_load_field :: "gostring \<Rightarrow> PadLoadData decoder" where
  "pad_load_field k x r =
     (if named k ''offset'' then map_sum id (\<lambda>v. r\<lparr>Offset := v\<rparr>) (decode_int x (Offset r))
      else if named k ''limit'' then map_sum id (\<lambda>v. r\<lparr>Limit := v\<rparr>) (decode_int x (Limit r))
      else if named k ''pattern'' then map_sum id (\<lambda>v. r\<lparr>Pattern := v\<rparr>) (decode_string x (Pattern r))
      else if named k ''sortBy'' then map_sum id (\<lambda>v. r\<lparr>SortBy := v\<rparr>) (decode_string x (SortBy r))
      else if named k ''ascending'' then map_sum id (\<lambda>v. r\<lparr>Ascending := v\<rparr>) (decode_bool x (Ascending r))
      else Inr r)"

definition pad_entry :: "'s Server \<Rightarrow> PadDBSearch \<Rightarrow> json" where
  "pad_entry st dbPad = JObject
     (member ''lastEdited'' (encode_int (LastEdited dbPad)) @ member ''padName'' (JString (Padname dbPad)) @
      member ''userCount'' (encode_int (int (length (GetRoomSockets (Padname dbPad) st)))) @
      member ''revisionNumber'' (encode_int (RevisionNumber dbPad)))"

definition admin_padLoad :: "'s DataStore \<Rightarrow> client \<Rightarrow> gostring \<Rightarrow> 's Server \<Rightarrow> 's handled" where
  "admin_padLoad D c data st =
     (case Unmarshal (decode_struct pad_load_field) \<lparr>Offset = 0, Limit = 0, Pattern = [], SortBy = [], Ascending = False\<rparr> data of
        Inl err \<Rightarrow> finish st
      | Inr q \<Rightarrow>
          (case ds_QueryPad D (Offset q) (Limit q) (SortBy q) (Ascending q) (Pattern q) (srv_store st) of
             Inl Panic \<Rightarrow> panic st
           | Inl (Err e) \<Rightarrow> finish st
           | Inr dbPads \<Rightarrow>
               finish (answer_admin c ''results:padLoad'' (JObject (member ''total'' (encode_int (TotalPads dbPads)) @
                 member ''results'' (JArray (map (pad_entry st) (Pads dbPads))))) st)))"

definition admin_deletePad :: "'s DataStore \<Rightarrow> time \<Rightarrow> gostring \<Rightarrow> client \<Rightarrow> gostring \<Rightarrow> 's Server \<Rightarrow> 's handled" where
  "admin_deletePad D now defaultText c data st =
     (case Unmarshal decode_string [] data of
        Inl err \<Rightarrow> finish st
      | Inr padId \<Rightarrow>
          (case DeletePad D now defaultText padId st of
             None \<Rightarrow> None
           | Some (Some Panic, st1) \<Rightarrow> panic st1
           | Some (Some (Err e), st1) \<Rightarrow> finish st1
           | Some (None, st1) \<Rightarrow> finish (answer_admin c ''results:deletePad'' (JString padId) st1)))"

definition admin_cleanup :: "'s DataStore \<Rightarrow> time \<Rightarrow> gostring \<Rightarrow> Admin \<Rightarrow> client \<Rightarrow> gostring \<Rightarrow> 's Server \<Rightarrow> 's handled" where
  "admin_cleanup D now defaultText env c data st =
     (if \<not> Cleanup_Enabled env then finish st
      else case Unmarshal decode_string [] data of
        Inl err \<Rightarrow> finish st
      | Inr padId \<Rightarrow>
          (case DoesPadExist D padId (srv_store st) of
             Inl Panic \<Rightarrow> panic st
           | Inl (Err e) \<Rightarrow> finish st
           | Inr False \<Rightarrow> finish st
           | Inr True \<Rightarrow>
               (case DeleteRevisions D now defaultText padId (Cleanup_KeepRevisions env) st of
                  None \<Rightarrow> None
                | Some (Some Panic, st1) \<Rightarrow> panic st1
                | Some (Some (Err e), st1) \<Rightarrow> finish st1
                | Some (None, st1) \<Rightarrow> finish (answer_admin c ''results:cleanupPadRevisions'' (JString padId) st1))))"

text \<open>The pads whose text contains the query; a pad that cannot be loaded is skipped.\<close>

definition snippet :: "(rune \<Rightarrow> rune) \<Rightarrow> gostring \<Rightarrow> gostring \<Rightarrow> gostring option result" where
  "snippet lower query text =
     (let lowered = map lower text; i = str_index lowered (map lower query)
      in if i < 0 then Inr None
         else
           let idx = byte_len (take (nat i) lowered)
           in map_sum id Some (slice_bytes text (max 0 (idx - 50)) (min (byte_len text) (idx + byte_len query + 50))))"

definition found_pad :: "gostring \<Rightarrow> gostring \<Rightarrow> json" where
  "found_pad padId text = JObject (member ''padId'' (JString padId) @ member ''snippet'' (JString text))"

fun search_pads ::
  "'s DataStore \<Rightarrow> time \<Rightarrow> gostring \<Rightarrow> (rune \<Rightarrow> rune) \<Rightarrow> gostring \<Rightarrow> int \<Rightarrow> gostring list \<Rightarrow> json list \<Rightarrow> 's Server \<Rightarrow>
   (json list result \<times> 's Server) option" where
  "search_pads D now defaultText lower query limit [] results st = Some (Inr results, st)"
| "search_pads D now defaultText lower query limit (padId # padIds) results st =
     (if int (length results) \<ge> limit then Some (Inr results, st)
      else case Manager_GetPad D now defaultText padId None None (manager st, srv_store st) of
        None \<Rightarrow> None
      | Some (Inl Panic, m, s) \<Rightarrow> Some (Inl Panic, st)
      | Some (Inl (Err e), m, s) \<Rightarrow> search_pads D now defaultText lower query limit padIds results (st\<lparr>manager := m, srv_store := s\<rparr>)
      | Some (Inr pad, m, s) \<Rightarrow>
          let st1 = st\<lparr>manager := m, srv_store := s\<rparr>
          in (case snippet lower query (pad_text pad) of
                Inl err \<Rightarrow> Some (Inl err, st1)
              | Inr None \<Rightarrow> search_pads D now defaultText lower query limit padIds results st1
              | Inr (Some text) \<Rightarrow> search_pads D now defaultText lower query limit padIds (results @ [found_pad padId text]) st1))"

definition search_field :: "gostring \<Rightarrow> (gostring \<times> int) decoder" where
  "search_field k x r =
     (if named k ''query'' then map_sum id (\<lambda>v. (v, snd r)) (decode_string x (fst r))
      else if named k ''limit'' then map_sum id (\<lambda>v. (fst r, v)) (decode_int x (snd r)) else Inr r)"

definition admin_search ::
  "'s DataStore \<Rightarrow> time \<Rightarrow> gostring \<Rightarrow> Admin \<Rightarrow> client \<Rightarrow> gostring \<Rightarrow> 's Server \<Rightarrow> 's handled" where
  "admin_search D now defaultText env c data st =
     (case Unmarshal (decode_struct search_field) ([], 0) data of
        Inl err \<Rightarrow> finish st
      | Inr (query, limit0) \<Rightarrow>
          let limit = (if limit0 \<le> 0 \<or> limit0 > 50 then 20 else limit0);
              respond = (\<lambda>results. answer_admin c ''results:searchPadContent'' (JObject (member ''results'' (JArray results))))
          in (case ds_GetPadIds D (srv_store st) of
                Inl Panic \<Rightarrow> panic st
              | Inl (Err e) \<Rightarrow> finish (respond [] st)
              | Inr padIds \<Rightarrow>
                  (case search_pads D now defaultText (lower_rune env) query limit padIds [] st of
                     None \<Rightarrow> None
                   | Some (Inl err, st1) \<Rightarrow> panic st1
                   | Some (Inr results, st1) \<Rightarrow> finish (respond results st1))))"

definition trim_all_quotes :: "gostring \<Rightarrow> gostring" where
  "trim_all_quotes s = rev (dropWhile (\<lambda>r. r = 34) (rev (dropWhile (\<lambda>r. r = 34) s)))"

definition admin_content :: "'s DataStore \<Rightarrow> time \<Rightarrow> gostring \<Rightarrow> client \<Rightarrow> gostring \<Rightarrow> 's Server \<Rightarrow> 's handled" where
  "admin_content D now defaultText c data st =
     (let padName = trim_all_quotes (case Unmarshal decode_string [] data of Inl err \<Rightarrow> data | Inr n \<Rightarrow> n);
          respond = (\<lambda>content more. answer_admin c ''results:getPadContent''
            (JObject (member ''content'' (JString content) @ more @ member ''padId'' (JString padName))))
      in case Manager_GetPad D now defaultText padName None None (manager st, srv_store st) of
           None \<Rightarrow> None
         | Some (Inl Panic, m, s) \<Rightarrow> panic st
         | Some (Inl (Err e), m, s) \<Rightarrow>
             finish (respond [] (member ''error'' (JString (lit ''Pad not found''))) (st\<lparr>manager := m, srv_store := s\<rparr>))
         | Some (Inr pad, m, s) \<Rightarrow>
             let text = pad_text pad;
                 content = (if byte_len text > 2000 then runes_of (take 2000 (bytes_of text)) @ lit ''...'' else text)
             in finish (respond content [] (st\<lparr>manager := m, srv_store := s\<rparr>)))"

definition tell_deleted :: "gostring \<Rightarrow> 's Server \<Rightarrow> 's Server" where
  "tell_deleted padName st = send_room_message padName (Disconnect (lit ''deleted'')) st"

fun bulk_delete :: "'s DataStore \<Rightarrow> time \<Rightarrow> gostring \<Rightarrow> gostring list \<Rightarrow> int \<Rightarrow> 's Server \<Rightarrow> (int result \<times> 's Server) option" where
  "bulk_delete D now defaultText [] deleted st = Some (Inr deleted, st)"
| "bulk_delete D now defaultText (padName # padNames) deleted st =
     (case DeletePad D now defaultText padName (tell_deleted padName st) of
        None \<Rightarrow> None
      | Some (Some Panic, st1) \<Rightarrow> Some (Inl Panic, st1)
      | Some (Some (Err e), st1) \<Rightarrow> bulk_delete D now defaultText padNames deleted st1
      | Some (None, st1) \<Rightarrow> bulk_delete D now defaultText padNames (deleted + 1) st1)"

definition pad_names_field :: "gostring \<Rightarrow> gostring list decoder" where
  "pad_names_field k x old = (if named k ''padNames'' then decode_slice decode_string [] x old else Inr old)"

definition admin_bulkDelete :: "'s DataStore \<Rightarrow> time \<Rightarrow> gostring \<Rightarrow> client \<Rightarrow> gostring \<Rightarrow> 's Server \<Rightarrow> 's handled" where
  "admin_bulkDelete D now defaultText c data st =
     (case Unmarshal (decode_struct pad_names_field) [] data of
        Inl err \<Rightarrow> finish st
      | Inr padNames \<Rightarrow>
          (case bulk_delete D now defaultText padNames 0 st of
             None \<Rightarrow> None
           | Some (Inl err, st1) \<Rightarrow> panic st1
           | Some (Inr deleted, st1) \<Rightarrow>
               finish (answer_admin c ''results:bulkDeletePads'' (JObject (member ''deleted'' (encode_int deleted))) st1)))"

subsection \<open>The server\<close>

definition admin_checkUpdates :: "'s DataStore \<Rightarrow> Admin \<Rightarrow> client \<Rightarrow> 's Server \<Rightarrow> 's handled" where
  "admin_checkUpdates D env c st =
     (let respond = (\<lambda>current latest available. finish (answer_admin c ''results:checkUpdates'' (JObject
            (member ''currentVersion'' (JString current) @ member ''latestVersion'' (JString latest) @
             member ''updateAvailable'' (JBool available))) st))
      in case updater env of
           Some u \<Rightarrow>
             (let (current, latest, available) = CheckNowSync u
              in respond current (case latest of None \<Rightarrow> current | Some v \<Rightarrow> v) available)
         | None \<Rightarrow>
             (case ds_GetServerVersion D (srv_store st) of
                Inl Panic \<Rightarrow> panic st
              | Inl (Err e) \<Rightarrow> finish st
              | Inr None \<Rightarrow> finish st
              | Inr (Some latest) \<Rightarrow>
                  respond (GitVersion env) (Version latest) (IsUpdateAvailable (newer env) (GitVersion env) (Version latest))))"

definition plugin_json :: "gostring \<Rightarrow> Plugin \<Rightarrow> json" where
  "plugin_json version p = JObject
     (member ''name'' (JString (plugin_Name p)) @ member ''version'' (JString version) @
      member ''description'' (JString (plugin_Description p)) @
      member ''frontendPath'' (JString (lit ''/plugins/'' @ plugin_Name p)) @
      member ''backendPath'' (JString (lit ''/lib/plugins/'' @ plugin_Name p)) @
      member ''updatable'' (JBool False) @ member ''enabled'' (JBool (plugin_IsEnabled p)))"

fun insert_plugin :: "Plugin \<Rightarrow> Plugin list \<Rightarrow> Plugin list" where
  "insert_plugin p [] = [p]"
| "insert_plugin p (q # qs) = (if str_less (plugin_Name q) (plugin_Name p) then q # insert_plugin p qs else p # q # qs)"

definition installed :: "Admin \<Rightarrow> json" where
  "installed env =
     (let core = \<lparr>plugin_Name = lit ''etherpad'', plugin_Description = lit ''The core Etherpad application'', plugin_IsEnabled = True\<rparr>
      in JObject (member ''installed'' (JArray (map (plugin_json (GitVersion env)) (foldr insert_plugin (core # RegisteredPlugins env) [])))))"

definition shout_field :: "gostring \<Rightarrow> (gostring \<times> bool) decoder" where
  "shout_field k x r =
     (if named k ''message'' then map_sum id (\<lambda>v. (v, snd r)) (decode_string x (fst r))
      else if named k ''sticky'' then map_sum id (\<lambda>v. (fst r, v)) (decode_bool x (snd r)) else Inr r)"

definition shout_json :: "time \<Rightarrow> gostring \<times> bool \<Rightarrow> json" where
  "shout_json now = (\<lambda>(msg, sticky). JObject
     (member ''type'' (JString (lit ''COLLABROOM'')) @
      member ''data'' (JObject (member ''type'' (JString (lit ''result:shout'')) @
        member ''payload'' (JObject
          (member ''message'' (JObject (member ''message'' (JString msg) @ member ''sticky'' (JBool sticky))) @
           member ''timestamp'' (encode_int (millis_of now))))))))"

definition BroadcastShout :: "time \<Rightarrow> gostring \<Rightarrow> bool \<Rightarrow> Hub \<Rightarrow> Hub" where
  "BroadcastShout now msg sticky clients =
     send_all (map fst clients) (AdminMessage (JArray [JString (lit ''result:shout''), shout_json now (msg, sticky)])) clients"

definition admin_shout :: "time \<Rightarrow> gostring \<Rightarrow> 's Server \<Rightarrow> 's handled" where
  "admin_shout now data st =
     (case Unmarshal (decode_struct shout_field) ([], False) data of
        Inl err \<Rightarrow> finish st
      | Inr (msg, sticky) \<Rightarrow> finish (st\<lparr>hub := BroadcastShout now msg sticky (hub st)\<rparr>))"

definition no_plugins :: json where
  "no_plugins = JObject
     (member ''query'' (JObject (member ''offset'' (encode_int 0) @ member ''limit'' (encode_int 99999) @
        member ''sortBy'' (JString (lit ''name'')) @ member ''sortDir'' (JString (lit ''asc'')) @ member ''searchTerm'' (JString []))) @
      member ''results'' (JArray []))"

definition admin_saveSettings :: "Admin \<Rightarrow> client \<Rightarrow> gostring \<Rightarrow> 's Server \<Rightarrow> 's handled" where
  "admin_saveSettings env c data st =
     (let settingsJSON = (case Unmarshal decode_string [] data of Inl err \<Rightarrow> data | Inr text \<Rightarrow> text)
      in finish (answer_admin c ''results:saveSettings''
           (case write_settings env settingsJSON of
              Some e \<Rightarrow> JObject (member ''error'' (JString e)) | None \<Rightarrow> success) st))"

definition connection_json :: "Admin \<Rightarrow> 's Server \<Rightarrow> client \<times> Client \<Rightarrow> json" where
  "connection_json env st = (\<lambda>(c, cl).
     (let padId = (case getSession (SessionId cl) (sessions st) of None \<Rightarrow> [] | Some sess \<Rightarrow> ses_PadId sess)
      in JObject (member ''sessionId'' (JString (SessionId cl)) @ member ''padId'' (JString padId) @
           member ''ip'' (JString (ClientIP env c)) @
           member ''type'' (JString (if padId = [] then lit ''admin'' else lit ''pad'')))))"

definition admin_kick :: "client \<Rightarrow> gostring \<Rightarrow> 's Server \<Rightarrow> 's handled" where
  "admin_kick c data st =
     (case Unmarshal (decode_struct (string_member ''sessionId'')) [] data of
        Inl err \<Rightarrow> finish st
      | Inr sid \<Rightarrow>
          let toKick = map fst (filter (\<lambda>(k, cl). SessionId cl = sid) (hub st))
          in finish (answer_admin c ''results:kickUser'' success
               (st\<lparr>hub := send_all toKick (Disconnect (lit ''kicked'')) (hub st)\<rparr>)))"

subsection \<open>HandleMessage\<close>

definition with_updater :: "Admin \<Rightarrow> (Updater \<Rightarrow> 's handled) \<Rightarrow> 's Server \<Rightarrow> 's handled" where
  "with_updater env f st = (case updater env of None \<Rightarrow> finish st | Some u \<Rightarrow> f u)"

text \<open>The event and the text of its data.\<close>

definition Admin_HandleMessage ::
  "'s DataStore \<Rightarrow> time \<Rightarrow> gostring \<Rightarrow> Admin \<Rightarrow> client \<Rightarrow> gostring \<Rightarrow> gostring \<Rightarrow> 's Server \<Rightarrow> 's handled" where
  "Admin_HandleMessage D now defaultText env c event data st =
     (let is = (\<lambda>name. event = lit name)
      in if is ''load'' then finish (answer_admin c ''settings'' (JObject (member ''results'' (settings_json env))) st)
      else if is ''checkUpdates'' then admin_checkUpdates D env c st
      else if is ''applyUpdate'' then
        with_updater env (\<lambda>u. finish (answer_admin c ''results:applyUpdate'' (ok_or_error (ApplyNow u)) st)) st
      else if is ''getUpdateStatus'' then
        with_updater env (\<lambda>u. finish (answer_admin c ''results:updateStatus'' (updater_Status u) st)) st
      else if is ''acknowledgeUpdate'' then
        with_updater env (\<lambda>u. finish (answer_admin c ''results:acknowledgeUpdate'' (ok_or_error (Acknowledge u)) st)) st
      else if is ''createPad'' then admin_createPad D now defaultText c data st
      else if is ''padLoad'' then admin_padLoad D c data st
      else if is ''getInstalled'' then finish (answer_admin c ''results:installed'' (installed env) st)
      else if is ''shout'' then admin_shout now data st
      else if is ''deletePad'' then admin_deletePad D now defaultText c data st
      else if is ''cleanupPadRevisions'' then admin_cleanup D now defaultText env c data st
      else if is ''search'' then finish (answer_admin c ''results:search'' no_plugins st)
      else if is ''getStats'' then
        finish (answer_admin c ''results:stats'' (JObject (member ''totalUsers'' (encode_int (gomap_len (sessions st))))) st)
      else if is ''saveSettings'' then admin_saveSettings env c data st
      else if is ''restartServer'' then finish (answer_admin c ''results:restartServer'' success st)
      else if is ''getConnections'' then
        finish (answer_admin c ''results:getConnections'' (JObject (member ''connections''
          (if hub st = [] then JNull else JArray (map (connection_json env st) (hub st))))) st)
      else if is ''getSystemInfo'' then finish (answer_admin c ''results:getSystemInfo'' (system_info env) st)
      else if is ''kickUser'' then admin_kick c data st
      else if is ''searchPadContent'' then admin_search D now defaultText env c data st
      else if is ''getPadContent'' then admin_content D now defaultText c data st
      else if is ''bulkDeletePads'' then admin_bulkDelete D now defaultText c data st
      else finish st)"

end
