(* ===== verification/Delivery.thy ===== *)
theory Delivery
  imports UserChangesSpec PadProperties
begin

text \<open>
  What \<^verbatim>\<open>UpdatePadClients\<close> delivers: every client of the pad catches up with the head.
\<close>

subsection \<open>The messages of a client that catches up\<close>

fun catch_up :: "'s DataStore \<Rightarrow> Pad \<Rightarrow> 's \<Rightarrow> millis \<Rightarrow> int list \<Rightarrow> NewChangesMessageData list" where
  "catch_up D pad s t [] = []"
| "catch_up D pad s t (r # rs) =
     (case new_changes D pad r t s of Inl _ \<Rightarrow> [] | Inr msg \<Rightarrow> msg # catch_up D pad s (CurrentTime msg) rs)"

text \<open>The revisions of the pad up to its head can be read and have an author.\<close>

definition readable :: "'s DataStore \<Rightarrow> Pad \<Rightarrow> 's \<Rightarrow> bool" where
  "readable D pad s \<longleftrightarrow>
     (\<forall>r. 0 \<le> r \<longrightarrow> r \<le> pad_Head pad \<longrightarrow> (\<exists>rev a. Pad_GetRevision D r pad s = Inr rev \<and> rev_AuthorId rev = Some a))"

lemma readable_message:
  assumes "readable D pad s" "0 \<le> r" "r \<le> pad_Head pad"
  obtains msg where "new_changes D pad r t s = Inr msg" "NewRev msg = r"
    "\<exists>rev. Pad_GetRevision D r pad s = Inr rev \<and> rev_AuthorId rev = Some (nc_Author msg) \<and>
       nc_Changeset msg = Translated (PrepareForWire (rev_Changeset rev) (pad_Pool pad)) \<and> CurrentTime msg = rev_Timestamp rev"
proof -
  obtain rev a where rev: "Pad_GetRevision D r pad s = Inr rev" "rev_AuthorId rev = Some a"
    using assms by (auto simp: readable_def)
  then have new: "new_changes D pad r t s = Inr \<lparr>NewRev = r, nc_Changeset = Translated (PrepareForWire (rev_Changeset rev) (pad_Pool pad)),
      nc_APool = ToJsonable (WirePool (PrepareForWire (rev_Changeset rev) (pad_Pool pad))), nc_Author = a,
      CurrentTime = rev_Timestamp rev, TimeDelta = rev_Timestamp rev - t\<rparr>"
    by (simp add: new_changes_def Let_def)
  show thesis by (rule that[OF new]) (simp_all add: rev)
qed

lemma catch_up_revs:
  "readable D pad s \<Longrightarrow> \<forall>r \<in> set rs. 0 \<le> r \<and> r \<le> pad_Head pad \<Longrightarrow> map NewRev (catch_up D pad s t rs) = rs"
proof (induction rs arbitrary: t)
  case (Cons r rs)
  obtain msg where "new_changes D pad r t s = Inr msg" "NewRev msg = r"
    using readable_message[OF Cons.prems(1), of r t] Cons.prems(2) by auto
  with Cons show ?case by simp
qed simp

lemma catch_up_message:
  "readable D pad s \<Longrightarrow> \<forall>r \<in> set rs. 0 \<le> r \<and> r \<le> pad_Head pad \<Longrightarrow> msg \<in> set (catch_up D pad s t rs) \<Longrightarrow>
   \<exists>rev. Pad_GetRevision D (NewRev msg) pad s = Inr rev \<and> rev_AuthorId rev = Some (nc_Author msg) \<and>
     nc_Changeset msg = Translated (PrepareForWire (rev_Changeset rev) (pad_Pool pad)) \<and> CurrentTime msg = rev_Timestamp rev"
proof (induction rs arbitrary: t)
  case (Cons r rs)
  obtain m where m: "new_changes D pad r t s = Inr m" "NewRev m = r"
    "\<exists>rev. Pad_GetRevision D r pad s = Inr rev \<and> rev_AuthorId rev = Some (nc_Author m) \<and>
       nc_Changeset m = Translated (PrepareForWire (rev_Changeset rev) (pad_Pool pad)) \<and> CurrentTime m = rev_Timestamp rev"
    using readable_message[OF Cons.prems(1), of r t] Cons.prems(2) by auto
  with Cons show ?case by auto
qed simp

subsection \<open>One client\<close>

lemma SafeSend_get:
  "gomap_get (SafeSend c m h) k =
    (if k = c then map_option (\<lambda>cl. if length (Send cl) < send_room then cl\<lparr>Send := Send cl @ [m]\<rparr> else cl) (gomap_get h c)
     else gomap_get h k)"
  by (auto simp: SafeSend_def split: option.splits)

lemma last_upto: "i \<le> j \<Longrightarrow> last [i..j] = (j::int)"
  by (simp add: upto_rec2)

text \<open>A client that has room receives the messages, and its session ends at the last revision.\<close>

lemma send_revisions_delivers:
  assumes "readable D pad (srv_store st)" "\<forall>r \<in> set rs. 0 \<le> r \<and> r \<le> pad_Head pad"
    and "gomap_get (hub st) c = Some cl" "getSession sid (sessions st) = Some info" "length (Send cl) + length rs \<le> send_room"
  shows "\<exists>st'. send_revisions D pad c sid rs st = Inr st' \<and> srv_store st' = srv_store st \<and> manager st' = manager st \<and>
    (\<forall>k. k \<noteq> c \<longrightarrow> gomap_get (hub st') k = gomap_get (hub st) k) \<and>
    gomap_get (hub st') c = Some (cl\<lparr>Send := Send cl @ map NewChanges (catch_up D pad (srv_store st) (Time info) rs)\<rparr>) \<and>
    (\<forall>i. i \<noteq> sid \<longrightarrow> getSession i (sessions st') = getSession i (sessions st)) \<and>
    (\<exists>info'. getSession sid (sessions st') = Some info' \<and> ses_PadId info' = ses_PadId info \<and> ses_Author info' = ses_Author info \<and>
       Revision info' = (if rs = [] then Revision info else last rs))"
  using assms
proof (induction rs arbitrary: st cl info)
  case Nil
  then show ?case by simp
next
  case (Cons r rs)
  obtain msg where msg: "new_changes D pad r (Time info) (srv_store st) = Inr msg" "NewRev msg = r"
    using readable_message[OF Cons.prems(1), of r "Time info"] Cons.prems(2) by auto
  let ?info = "info\<lparr>Time := CurrentTime msg, Revision := r\<rparr>" and ?cl = "cl\<lparr>Send := Send cl @ [NewChanges msg]\<rparr>"
  let ?st = "set_session sid ?info (send_to c (NewChanges msg) st)"
  have st: "srv_store ?st = srv_store st" "manager ?st = manager st" by simp_all
  have hub: "gomap_get (hub ?st) c = Some ?cl" "\<forall>k. k \<noteq> c \<longrightarrow> gomap_get (hub ?st) k = gomap_get (hub st) k"
    using Cons.prems(3,5) by (simp_all add: set_session_def send_to_def SafeSend_get)
  have ses: "getSession sid (sessions ?st) = Some ?info" "\<forall>i. i \<noteq> sid \<longrightarrow> getSession i (sessions ?st) = getSession i (sessions st)"
    by (simp_all add: set_session_def send_to_def getSession_def)
  have "length (Send ?cl) + length rs \<le> send_room" "readable D pad (srv_store ?st)" "\<forall>r \<in> set rs. 0 \<le> r \<and> r \<le> pad_Head pad"
    using Cons.prems by (simp_all add: st)
  from Cons.IH[OF this(2,3) hub(1) ses(1) this(1)] obtain st' where st':
    "send_revisions D pad c sid rs ?st = Inr st'" "srv_store st' = srv_store st" "manager st' = manager st"
    "\<forall>k. k \<noteq> c \<longrightarrow> gomap_get (hub st') k = gomap_get (hub ?st) k"
    "gomap_get (hub st') c = Some (?cl\<lparr>Send := Send ?cl @ map NewChanges (catch_up D pad (srv_store st) (CurrentTime msg) rs)\<rparr>)"
    "\<forall>i. i \<noteq> sid \<longrightarrow> getSession i (sessions st') = getSession i (sessions ?st)"
    "\<exists>info'. getSession sid (sessions st') = Some info' \<and> ses_PadId info' = ses_PadId info \<and> ses_Author info' = ses_Author info \<and>
       Revision info' = (if rs = [] then r else last rs)"
    by (auto simp: st)
  have run: "send_revisions D pad c sid (r # rs) st = Inr st'" using Cons.prems(4) msg(1) st'(1) by simp
  have "gomap_get (hub st') c = Some (cl\<lparr>Send := Send cl @ map NewChanges (catch_up D pad (srv_store st) (Time info) (r # rs))\<rparr>)"
    using st'(5) msg by simp
  with run st'(2,3,4,6,7) hub(2) ses(2) show ?case by auto
qed

subsection \<open>All clients\<close>

definition sockets_ok :: "'s Server \<Rightarrow> Pad \<Rightarrow> (client \<times> gostring) list \<Rightarrow> bool" where
  "sockets_ok st pad socks \<longleftrightarrow> distinct (map fst socks) \<and> distinct (map snd socks) \<and>
     (\<forall>(c, sid) \<in> set socks. \<exists>cl info. gomap_get (hub st) c = Some cl \<and> getSession sid (sessions st) = Some info \<and>
        - 1 \<le> Revision info \<and> int (length (Send cl)) + (pad_Head pad - Revision info) \<le> int send_room \<and> length (Send cl) \<le> send_room)"

definition caught_up :: "'s DataStore \<Rightarrow> Pad \<Rightarrow> 's Server \<Rightarrow> 's Server \<Rightarrow> client \<times> gostring \<Rightarrow> bool" where
  "caught_up D pad st st' = (\<lambda>(c, sid). \<exists>cl info info'. gomap_get (hub st) c = Some cl \<and> getSession sid (sessions st) = Some info \<and>
     gomap_get (hub st') c = Some (cl\<lparr>Send := Send cl @ map NewChanges
       (catch_up D pad (srv_store st) (Time info) [Revision info + 1..pad_Head pad])\<rparr>) \<and>
     getSession sid (sessions st') = Some info' \<and> Revision info' = max (Revision info) (pad_Head pad))"

lemma update_clients_delivers:
  assumes "readable D pad (srv_store st)" "sockets_ok st pad socks"
  shows "\<exists>st'. update_clients D pad socks st = Inr st' \<and> srv_store st' = srv_store st \<and> manager st' = manager st \<and>
    (\<forall>k. k \<notin> fst ` set socks \<longrightarrow> gomap_get (hub st') k = gomap_get (hub st) k) \<and>
    (\<forall>i. i \<notin> snd ` set socks \<longrightarrow> getSession i (sessions st') = getSession i (sessions st)) \<and>
    (\<forall>x \<in> set socks. caught_up D pad st st' x)"
  using assms
proof (induction socks arbitrary: st)
  case Nil
  then show ?case by simp
next
  case (Cons x socks)
  obtain c sid where x: "x = (c, sid)" by fastforce
  obtain cl info where ci: "gomap_get (hub st) c = Some cl" "getSession sid (sessions st) = Some info" "- 1 \<le> Revision info"
    "int (length (Send cl)) + (pad_Head pad - Revision info) \<le> int send_room" "length (Send cl) \<le> send_room"
    using Cons.prems(2) x by (auto simp: sockets_ok_def)
  let ?rs = "[Revision info + 1..pad_Head pad]"
  have rs: "\<forall>r \<in> set ?rs. 0 \<le> r \<and> r \<le> pad_Head pad" "length (Send cl) + length ?rs \<le> send_room"
    "(if ?rs = [] then Revision info else last ?rs) = max (Revision info) (pad_Head pad)"
    using ci(3-5) by (auto simp: last_upto)
  from send_revisions_delivers[OF Cons.prems(1) rs(1) ci(1,2) rs(2), unfolded rs(3)] obtain st1 where st1:
    "send_revisions D pad c sid ?rs st = Inr st1" "srv_store st1 = srv_store st" "manager st1 = manager st"
    "\<forall>k. k \<noteq> c \<longrightarrow> gomap_get (hub st1) k = gomap_get (hub st) k"
    "gomap_get (hub st1) c = Some (cl\<lparr>Send := Send cl @ map NewChanges (catch_up D pad (srv_store st) (Time info) ?rs)\<rparr>)"
    "\<forall>i. i \<noteq> sid \<longrightarrow> getSession i (sessions st1) = getSession i (sessions st)"
    "\<exists>info'. getSession sid (sessions st1) = Some info' \<and> Revision info' = max (Revision info) (pad_Head pad)" by blast
  have fresh: "c \<notin> fst ` set socks" "sid \<notin> snd ` set socks" using Cons.prems(2) x by (auto simp: sockets_ok_def)
  have keep: "gomap_get (hub st1) c' = gomap_get (hub st) c'" "getSession i (sessions st1) = getSession i (sessions st)"
    if k: "(c', i) \<in> set socks" for c' i
  proof -
    have "c' \<noteq> c" "i \<noteq> sid" using fresh imageI[OF k, of fst] imageI[OF k, of snd] by auto
    with st1(4,6) show "gomap_get (hub st1) c' = gomap_get (hub st) c'" "getSession i (sessions st1) = getSession i (sessions st)" by simp_all
  qed
  have socks: "distinct (map fst socks)" "distinct (map snd socks)" using Cons.prems(2) by (auto simp: sockets_ok_def)
  have each: "\<exists>cl info. gomap_get (hub st) c' = Some cl \<and> getSession i (sessions st) = Some info \<and>
        - 1 \<le> Revision info \<and> int (length (Send cl)) + (pad_Head pad - Revision info) \<le> int send_room \<and> length (Send cl) \<le> send_room"
    if k: "(c', i) \<in> set socks" for c' i     using bspec[OF conjunct2[OF conjunct2[OF Cons.prems(2)[unfolded sockets_ok_def]]], of "(c', i)"] k by simp
  have "sockets_ok st1 pad socks" unfolding sockets_ok_def
  proof (intro conjI socks ballI, clarify)
    fix c' i assume k: "(c', i) \<in> set socks"
    show "\<exists>cl info. gomap_get (hub st1) c' = Some cl \<and> getSession i (sessions st1) = Some info \<and>
        - 1 \<le> Revision info \<and> int (length (Send cl)) + (pad_Head pad - Revision info) \<le> int send_room \<and> length (Send cl) \<le> send_room"
      unfolding keep[OF k] by (rule each[OF k])
  qed
  moreover have "readable D pad (srv_store st1)" using Cons.prems(1) st1(2) by simp
  ultimately obtain st' where st': "update_clients D pad socks st1 = Inr st'" "srv_store st' = srv_store st1" "manager st' = manager st1"
    "\<forall>k. k \<notin> fst ` set socks \<longrightarrow> gomap_get (hub st') k = gomap_get (hub st1) k"
    "\<forall>i. i \<notin> snd ` set socks \<longrightarrow> getSession i (sessions st') = getSession i (sessions st1)"
    "\<forall>x \<in> set socks. caught_up D pad st1 st' x" using Cons.IH by blast
  have run: "update_clients D pad (x # socks) st = Inr st'" using x ci(2) st1(1) st'(1) by simp
  have head: "caught_up D pad st st' x"
    using ci st1(5,7) st'(4,5) fresh x by (auto simp: caught_up_def)
  have "\<forall>x \<in> set socks. caught_up D pad st st' x"
  proof
    fix y assume y: "y \<in> set socks"
    obtain c' i where c: "y = (c', i)" by fastforce
    from y c keep st'(6) show "caught_up D pad st st' y" by (auto simp: caught_up_def st1(2))
  qed
  with run head st' st1(2,3,4,6) show ?case by (intro exI[of _ st']) (auto simp: x)
qed

text \<open>The sockets of a pad: clients of the hub, each once, with their sessions.\<close>

definition room_socket :: "gostring \<Rightarrow> 's Server \<Rightarrow> client \<times> Client \<Rightarrow> (client \<times> gostring) option" where
  "room_socket i st = (\<lambda>(c, cl). case getSession (SessionId cl) (sessions st) of
       Some sess \<Rightarrow> if ses_PadId sess = i then Some (c, SessionId cl) else None
     | None \<Rightarrow> None)"

lemma room_socket_Some:
  "room_socket i st x = Some y \<Longrightarrow> y = (fst x, SessionId (snd x)) \<and> (\<exists>info. getSession (snd y) (sessions st) = Some info \<and> ses_PadId info = i)"
  by (auto simp: room_socket_def split: prod.splits option.splits if_splits)

lemma GetRoomSockets_eq: "GetRoomSockets i st = List.map_filter (room_socket i st) (hub st)"
  by (simp add: GetRoomSockets_def room_socket_def)

lemma set_map_filter: "y \<in> set (List.map_filter f xs) \<Longrightarrow> \<exists>x \<in> set xs. f x = Some y"
  by (induction xs) (auto simp: List.map_filter_simps split: option.splits)

lemma distinct_sockets:
  assumes "gomap_ok (hub st)" "distinct (map (\<lambda>(c, cl). SessionId cl) (hub st))"
  shows "distinct (map fst (GetRoomSockets i st)) \<and> distinct (map snd (GetRoomSockets i st))"
proof -
  have "distinct (map fst (List.map_filter (room_socket i st) h)) \<and> distinct (map snd (List.map_filter (room_socket i st) h))"
    if "distinct (map fst h)" "distinct (map (\<lambda>(c, cl). SessionId cl) h)" for h :: Hub
    using that
  proof (induction h)
    case (Cons x h)
    show ?case
    proof (cases "room_socket i st x")
      case None
      with Cons show ?thesis by (simp add: List.map_filter_simps)
    next
      case (Some y)
      have "fst y \<noteq> fst z \<and> snd y \<noteq> snd z" if z: "z \<in> set (List.map_filter (room_socket i st) h)" for z
      proof -
        obtain w where "w \<in> set h" "room_socket i st w = Some z" using set_map_filter[OF z] by blast
        with Some Cons.prems show ?thesis by (cases x; cases w) (force dest!: room_socket_Some)
      qed
      then have "fst y \<notin> fst ` set (List.map_filter (room_socket i st) h)" "snd y \<notin> snd ` set (List.map_filter (room_socket i st) h)"
        by force+
      with Cons Some show ?thesis by (simp add: List.map_filter_simps)
    qed
  qed (simp add: List.map_filter_simps)
  with assms show ?thesis unfolding GetRoomSockets_eq by (simp add: gomap_ok_def)
qed

text \<open>The queues of the pad's clients have room for what they miss.\<close>

definition room_ready :: "'s Server \<Rightarrow> Pad \<Rightarrow> bool" where
  "room_ready st pad \<longleftrightarrow> gomap_ok (hub st) \<and> distinct (map (\<lambda>(c, cl). SessionId cl) (hub st)) \<and>
     (\<forall>(c, cl) \<in> set (hub st). \<forall>info. getSession (SessionId cl) (sessions st) = Some info \<longrightarrow> ses_PadId info = pad_Id pad \<longrightarrow>
        - 1 \<le> Revision info \<and> length (Send cl) \<le> send_room \<and> int (length (Send cl)) + (pad_Head pad - Revision info) \<le> int send_room)"

lemma room_sockets_ok:
  assumes "room_ready st pad" shows "sockets_ok st pad (GetRoomSockets (pad_Id pad) st)"
proof -
  have d: "distinct (map fst (GetRoomSockets (pad_Id pad) st)) \<and> distinct (map snd (GetRoomSockets (pad_Id pad) st))"
    using assms by (intro distinct_sockets) (simp_all add: room_ready_def)
  have "\<exists>cl info. gomap_get (hub st) (fst y) = Some cl \<and> getSession (snd y) (sessions st) = Some info \<and>
        - 1 \<le> Revision info \<and> int (length (Send cl)) + (pad_Head pad - Revision info) \<le> int send_room \<and> length (Send cl) \<le> send_room"
    if y: "y \<in> set (GetRoomSockets (pad_Id pad) st)" for y
  proof -
    obtain c cl where x: "(c, cl) \<in> set (hub st)" "room_socket (pad_Id pad) st (c, cl) = Some y"
      using set_map_filter[OF y[unfolded GetRoomSockets_eq]] by auto
    from room_socket_Some[OF x(2)] obtain info where y: "y = (c, SessionId cl)" "getSession (SessionId cl) (sessions st) = Some info"
      "ses_PadId info = pad_Id pad" by auto
    moreover have "gomap_get (hub st) c = Some cl" using x(1) assms by (simp add: room_ready_def gomap_ok_in)
    ultimately show ?thesis using x(1) assms by (fastforce simp: room_ready_def)
  qed
  with d show ?thesis unfolding sockets_ok_def by fastforce
qed


lemma authored_pad:
  obtains m and p :: Pad and at pool where "mem_ok m" "pad_Id p = lit ''p''" "pad_Head p = 0" "mem_pads m (lit ''p'') \<noteq> None"
    "mem_revs m (lit ''p'') = [0 \<mapsto> revision_row (lit ''p'') 0 (lit ''Z:1>1+1$a'') at pool (Some (lit ''a.x'')) 0]"
proof -
  obtain q where q: "NewPad (lit ''p'') = Inr q" "pad_Id q = lit ''p''" "pad_text q = [newline]" "pad_Head q = -1"
    "pad_Pool q = NewAPool" "DocumentType q = lit ''text''" "history None (\<lambda>_. None) q" using NewPad_history by blast
  let ?cs = "lit ''Z:1>1+1$a''" and ?t = "lit ''a'' @ [newline]" and ?a = "Some (lit ''a.x'')"
  have app: "ApplyToText ?cs [newline] = Inr ?t" by code_simp
  have wf: "pool_wf (pad_Pool q)" "in_step (pad_AText q)" using q(7) by (simp_all add: history_def)
  have "trim_space (lit ''a.x'') = lit ''a.x''" by code_simp
  then have author: "pool_wf (put_author ?a (pad_Pool q))"
    using put_author_wf[OF wf(1), of ?a] q(5) by (simp add: NewAPool_def del: lit_simps)
  have at0: "ApplyToText ?cs (Text (pad_AText q)) = Inr ?t" using app q(3) by (simp add: pad_text_def)
  have size: "2 * RuneCount (Text (pad_AText q)) + RuneCount ?t < 2 ^ 63"
    using q(3) by (simp add: pad_text_def RuneCount_def)
  from ApplyToAText_in_step[OF wf at0 size] obtain at where at: "Text at = ?t" "in_step at" by blast
  have h: "history (mem_pads NewMemoryDataStore (pad_Id q)) (mem_revs NewMemoryDataStore (pad_Id q)) q" using q(7) by simp
  have app': "ApplyToText ?cs (pad_text q) = Inr (Text at)" using app at(1) q(3) by simp
  from mem.store_revision_history[OF mem_ok_new h app' at(2) author, of 0]
  obtain p m where p: "mem_ok m" "pad_Id p = pad_Id q" "pad_Head p = pad_Head q + 1"
    "history (mem_pads m (pad_Id q)) (mem_revs m (pad_Id q)) p"
    "mem_revs m (pad_Id q) = (mem_revs NewMemoryDataStore (pad_Id q))(pad_Head q + 1 \<mapsto>
      revision_row (pad_Id q) (pad_Head q + 1) ?cs at (ToRevDB (pad_Pool p)) ?a (millis_of 0))" by blast
  have "mem_pads m (lit ''p'') \<noteq> None" using p(4) q(2,4) p(3) by (auto simp: history_def split: option.splits)
  then show thesis
    using p q(2,4) by (intro that[of m p at "ToRevDB (pad_Pool p)"]) (simp_all add: millis_of_def)
qed


end
