(* ===== verification/FrameProperties.thy ===== *)
theory FrameProperties
  imports Frames StoreSpec ServerProperties Delivery
begin

text \<open>
  What a session that may only read leaves alone, over the in-memory store: the revisions of
  the pads there are, the texts of the loaded ones and the spreadsheets.

  A property of whole frames, as they come from a socket, over the in-memory store.
\<close>

section \<open>What a read-only session reaches\<close>

subsection \<open>Nothing that was written changes\<close>

definition store_kept :: "MemoryDataStore \<Rightarrow> MemoryDataStore \<Rightarrow> bool" where
  "store_kept s s' \<longleftrightarrow> (\<forall>i. mem_pads s i \<noteq> None \<longrightarrow> mem_pads s' i \<noteq> None \<and> mem_revs s' i = mem_revs s i) \<and>
     sheetStore s' = sheetStore s \<and> sheetOps s' = sheetOps s"

definition cache_kept :: "Manager \<Rightarrow> Manager \<Rightarrow> bool" where
  "cache_kept m m' \<longleftrightarrow> (\<forall>i p. Cache_GetPad i m = Some p \<longrightarrow>
     (\<exists>p'. Cache_GetPad i m' = Some p' \<and> pad_AText p' = pad_AText p \<and> pad_Head p' = pad_Head p))"

definition documents_kept :: "MemoryDataStore Server \<Rightarrow> MemoryDataStore Server \<Rightarrow> bool" where
  "documents_kept st st' \<longleftrightarrow> store_kept (srv_store st) (srv_store st') \<and> cache_kept (manager st) (manager st') \<and> sheets st' = sheets st"

lemma store_kept_refl [simp]: "store_kept s s"
  by (simp add: store_kept_def)

lemma store_kept_trans [trans]: "store_kept a b \<Longrightarrow> store_kept b c \<Longrightarrow> store_kept a c"
  by (simp add: store_kept_def)

lemma cache_kept_refl [simp]: "cache_kept m m"
  by (simp add: cache_kept_def)

lemma cache_kept_trans [trans]: "cache_kept a b \<Longrightarrow> cache_kept b c \<Longrightarrow> cache_kept a c"
  unfolding cache_kept_def by (metis (no_types, lifting))

lemma documents_kept_refl [simp]: "documents_kept st st"
  by (simp add: documents_kept_def)

lemma documents_kept_trans [trans]: "documents_kept a b \<Longrightarrow> documents_kept b c \<Longrightarrow> documents_kept a c"
  unfolding documents_kept_def by (metis store_kept_trans cache_kept_trans)

subsection \<open>The store\<close>

lemma kept_CreatePad: "store_kept s (snd (Mem_CreatePad now i d s))"
  by (auto simp: store_kept_def Mem_CreatePad_def mem_pads_def mem_revs_def fun_eq_iff inner_set split: option.splits)

lemma kept_authors:
  "store_kept s (snd (Mem_SaveAuthor now a s))" "store_kept s (snd (Mem_SetAuthorByToken now t i s))"
  "store_kept s (snd (Mem_SaveAuthorName i n s))" "store_kept s (snd (Mem_SaveAuthorColor i n s))"
  by (auto simp: store_kept_def mem_pads_def mem_revs_def Mem_SaveAuthor_def Mem_SetAuthorByToken_def
      Mem_SaveAuthorName_def Mem_SaveAuthorColor_def Let_def split: option.splits)

lemma kept_chat:
  "store_kept s (snd (Mem_SaveChatMessage i h a t m s))" "store_kept s (snd (Mem_SaveChatHeadOfPad now i h s))"
  by (auto simp: store_kept_def mem_pads_def mem_revs_def Mem_SaveChatMessage_def Mem_SaveChatHeadOfPad_def Let_def split: option.splits)

text \<open>Changes of one pad that is not stored.\<close>

definition other_pads_kept :: "gostring \<Rightarrow> MemoryDataStore \<Rightarrow> MemoryDataStore \<Rightarrow> bool" where
  "other_pads_kept i s s' \<longleftrightarrow> (\<forall>j. j \<noteq> i \<longrightarrow> mem_pads s' j = mem_pads s j \<and> mem_revs s' j = mem_revs s j) \<and>
     sheetStore s' = sheetStore s \<and> sheetOps s' = sheetOps s"

lemma other_pads_kept_trans: "other_pads_kept i a b \<Longrightarrow> other_pads_kept i b c \<Longrightarrow> other_pads_kept i a c"
  by (simp add: other_pads_kept_def)

lemma other_pads_kept_refl [simp]: "other_pads_kept i s s"
  by (simp add: other_pads_kept_def)

lemma new_pad_kept: "other_pads_kept i s s' \<Longrightarrow> mem_pads s i = None \<Longrightarrow> store_kept s s'"
  unfolding other_pads_kept_def store_kept_def by metis

lemma other_writes:
  "other_pads_kept i s (snd (Mem_CreatePad now i d s))" "other_pads_kept j s (snd (Mem_SaveAuthor now a s))"
  "other_pads_kept i s (snd (Mem_SaveRevision i r cs at pool au t s))"
  by (auto simp: other_pads_kept_def Mem_CreatePad_def Mem_SaveAuthor_def Mem_SaveRevision_def mem_pads_def mem_revs_def
      inner_set Let_def fun_eq_iff split: option.splits)

lemma Pad_Save_other: "Pad_Save memory_store now p s = (e, s') \<Longrightarrow> other_pads_kept (pad_Id p) s s'"
  unfolding Pad_Save_def memory_store_methods using other_writes(1) by (metis snd_conv)

lemma Pad_Save_kept: "Pad_Save memory_store now p s = (e, s') \<Longrightarrow> store_kept s s'"
  unfolding Pad_Save_def memory_store_methods using kept_CreatePad by (metis snd_conv)

lemma ensure_other: "ensure_system_author memory_store now author s = (e, s') \<Longrightarrow> other_pads_kept i s s'"
  unfolding ensure_system_author_def memory_store_methods using other_writes(2)
  by (auto split: if_splits sum.splits) (metis snd_conv)+

lemma store_revision_other:
  assumes "store_revision memory_store now cs author at p s = (r, p', s')"
  shows "other_pads_kept (pad_Id p) s s'"
proof -
  let ?p1 = "p\<lparr>pad_AText := CopyAText at (pad_AText p), pad_Head := pad_Head p + 1, pad_Pool := put_author author (pad_Pool p)\<rparr>"
  obtain e1 s1 where s1: "Pad_Save memory_store now ?p1 s = (e1, s1)" by fastforce
  obtain e2 s2 where s2: "ensure_system_author memory_store now author s1 = (e2, s2)" by fastforce
  obtain e3 s3 where s3: "Mem_SaveRevision (pad_Id p) (pad_Head p + 1) cs (CopyAText at (pad_AText p))
      (ToRevDB (put_author author (pad_Pool p))) author (millis_of now) s2 = (e3, s3)" by fastforce
  have "other_pads_kept (pad_Id p) s s1" using Pad_Save_other[OF s1] by simp
  moreover have "other_pads_kept (pad_Id p) s1 s2" by (rule ensure_other[OF s2])
  ultimately have b: "other_pads_kept (pad_Id p) s s2" by (rule other_pads_kept_trans)
  have "other_pads_kept (pad_Id p) s2 s3" using other_writes(3) s3 by (metis snd_conv)
  with b have c: "other_pads_kept (pad_Id p) s s3" by (rule other_pads_kept_trans)
  have "s' = (if e2 = None then s3 else s2)"
    using assms s1 s2 s3 by (cases e2; cases e3) (simp_all add: store_revision_def Let_def)
  with b c show ?thesis by simp
qed

lemma AppendRevision_other:
  assumes "AppendRevision memory_store now cs author p s = Some (r, p', s')"
  shows "other_pads_kept (pad_Id p) s s'"
proof (cases "s' = s")
  case False
  then obtain at pool where "store_revision memory_store now cs author at (p\<lparr>pad_Pool := pool\<rparr>) s = (r, p', s')"
    using assms by (auto simp: AppendRevision_def Let_def split: option.splits sum.splits goerr.splits if_splits)
  from store_revision_other[OF this] show ?thesis by simp
qed simp


lemma Init_kept:
  assumes "Init memory_store now dflt text' author p s = Some (r, p', s')" shows "store_kept s s'"
proof (cases "Mem_GetPad (pad_Id p) s")
  case (Inl err)
  then have new: "mem_pads s (pad_Id p) = None" by (auto simp: Mem_GetPad_def mem_pads_def split: option.splits)
  let ?cs = "case MakeSplice [newline] 0 0 (case text' of None \<Rightarrow> dflt | Some t \<Rightarrow> t) None None of Inl _ \<Rightarrow> [] | Inr cs \<Rightarrow> cs"
  have "map_option (\<lambda>(r, p1, s1). (case r of Inl e \<Rightarrow> Inl e | Inr _ \<Rightarrow> Inr (), p1, s1)) (AppendRevision memory_store now ?cs author p s) =
      Some (r, p', s')" using assms Inl by (simp add: Init_def Let_def)
  then obtain r1 p1 where "AppendRevision memory_store now ?cs author p s = Some (r1, p1, s')" by auto
  from new_pad_kept[OF AppendRevision_other[OF this] new] show ?thesis .
next
  case (Inr d)
  then show ?thesis using assms by (auto simp: Init_def split: sum.splits)
qed

subsection \<open>Pads\<close>

lemma cache_kept_new: "Cache_GetPad i m = None \<Longrightarrow> cache_kept m (Cache_SetPad i p m)"
  by (auto simp: cache_kept_def Cache_GetPad_def Cache_SetPad_def)

lemma cache_kept_set:
  "Cache_GetPad i m = Some p \<Longrightarrow> pad_AText p' = pad_AText p \<Longrightarrow> pad_Head p' = pad_Head p \<Longrightarrow> cache_kept m (Cache_SetPad i p' m)"
  by (auto simp: cache_kept_def Cache_GetPad_def Cache_SetPad_def)

lemma Manager_GetPad_kept:
  assumes "Manager_GetPad memory_store now dflt i text' author (m, s) = Some (r, m', s')"
  shows "store_kept s s' \<and> cache_kept m m' \<and> (\<forall>p. r = Inr p \<longrightarrow> Cache_GetPad i m' = Some p)"
proof (cases "IsValidPadId i \<and> \<not> (text' \<noteq> None \<and> RuneCount (the text') > 100000) \<and> Cache_GetPad i m = None")
  case True
  show ?thesis
  proof (cases "NewPad i")
    case (Inr newPad)
    then obtain r1 p1 where run: "Init memory_store now dflt text' author newPad s = Some (r1, p1, s')"
      and r: "r = (if r1 = Inl Panic then Inl Panic else Inr p1)" "m' = (if r1 = Inl Panic then m else Cache_SetPad i p1 m)"
      using assms True by (auto simp: Manager_GetPad_def split: if_splits)
    show ?thesis using Init_kept[OF run] r True cache_kept_new[of i m p1] by (simp add: Cache_GetPad_def Cache_SetPad_def)
  qed (use assms True in \<open>auto simp: Manager_GetPad_def split: if_splits\<close>)
qed (use assms in \<open>auto simp: Manager_GetPad_def split: if_splits option.splits\<close>)

lemma load_pad_kept:
  assumes "load_pad memory_store now dflt i author f st = Some (r, st')"
    and "\<And>pad st1. Cache_GetPad i (manager st1) = Some pad \<Longrightarrow> sessions st1 = sessions st \<Longrightarrow> f pad st1 = Some (r, st') \<Longrightarrow>
      documents_kept st1 st' \<and> sessions st' = sessions st1"
  shows "documents_kept st st' \<and> sessions st' = sessions st"
proof -
  obtain q m s where run: "Manager_GetPad memory_store now dflt i None author (manager st, srv_store st) = Some (q, m, s)"
    using assms(1) by (auto simp: load_pad_def split: option.splits)
  note K = Manager_GetPad_kept[OF run]
  let ?st1 = "st\<lparr>manager := m, srv_store := s\<rparr>"
  have k: "documents_kept st ?st1" using K by (simp add: documents_kept_def)
  show ?thesis
  proof (cases q)
    case (Inl e)
    then show ?thesis using assms(1) run k by (cases e) (auto simp: load_pad_def panic_def finish_def)
  next
    case (Inr pad)
    then have "f pad ?st1 = Some (r, st')" using assms(1) run by (simp add: load_pad_def)
    with assms(2)[of ?st1 pad] K Inr have "documents_kept ?st1 st' \<and> sessions st' = sessions st" by simp
    with k documents_kept_trans show ?thesis by blast
  qed
qed

lemma put_pad_kept:
  assumes "Cache_GetPad i (manager st) = Some p" "pad_AText p' = pad_AText p" "pad_Head p' = pad_Head p" "store_kept (srv_store st) s"
  shows "documents_kept st (put_pad i p' s st) \<and> sessions (put_pad i p' s st) = sessions st"
  using assms cache_kept_set[OF assms(1-3)] by (simp add: documents_kept_def put_pad_def)

text \<open>Messages and sessions do not touch documents.\<close>

lemma messages_keep [simp]:
  "documents_kept a (send_to c msg st) = documents_kept a st" "documents_kept a (send_room_message i msg st) = documents_kept a st"
  "documents_kept a (send_others i sid msg st) = documents_kept a st" "documents_kept a (set_session sid x st) = documents_kept a st"
  "documents_kept a (st\<lparr>hub := h\<rparr>) = documents_kept a st"
  "sessions (send_to c msg st) = sessions st" "sessions (send_room_message i msg st) = sessions st"
  "sessions (send_others i sid msg st) = sessions st"
  by (simp_all add: documents_kept_def send_to_def send_room_message_def send_others_def set_session_def)

subsection \<open>The access check\<close>

lemma resolveAuthorId_kept: "resolveAuthorId memory_store now rnd token s = (r, s') \<Longrightarrow> store_kept s s'"
proof -
  have A: "mapAuthorWithDBKey memory_store now rnd t s = (q, s1) \<Longrightarrow> store_kept s s1" for t q s1
  proof -
    assume run: "mapAuthorWithDBKey memory_store now rnd t s = (q, s1)"
    obtain c s2 where c: "CreateAuthor memory_store now rnd None s = (c, s2)" by fastforce
    have k: "store_kept s s2"
      using c kept_authors(1) by (auto simp: CreateAuthor_def Let_def split: prod.splits option.splits) (metis snd_conv)+
    have "s1 = s \<or> s1 = s2 \<or> (\<exists>i. s1 = snd (Mem_SetAuthorByToken now t i s2))"
      using run c by (auto simp: mapAuthorWithDBKey_def split: sum.splits prod.splits option.splits) (metis snd_conv)+
    with k kept_authors(2) store_kept_trans show ?thesis by (metis store_kept_refl)
  qed
  assume "resolveAuthorId memory_store now rnd token s = (r, s')"
  then obtain t q where "mapAuthorWithDBKey memory_store now rnd t s = (q, s')"
    by (auto simp: resolveAuthorId_def GetAuthorId_def GetAuthor4Token_def split: prod.splits sum.splits)
  then show ?thesis by (rule A)
qed

lemma group_access_kept:
  "group_access memory_store now dflt i ex a g (m, s) = Some (r, m', s') \<Longrightarrow> store_kept s s' \<and> cache_kept m m'"
  by (auto simp: group_access_def split: if_splits option.splits prod.splits sum.splits dest!: Manager_GetPad_kept)

lemma check_access_kept:
  assumes "check_access memory_store now dflt rnd cfg i can cookie token user (m, s) = Some (r, m', s')"
  shows "store_kept s s' \<and> cache_kept m m'"
proof -
  obtain a s1 where run: "resolveAuthorId memory_store now rnd token s = (a, s1)" by fastforce
  note k = resolveAuthorId_kept[OF run]
  have "(s' = s \<or> s' = s1) \<and> m' = m \<or> (\<exists>ex b g. group_access memory_store now dflt i ex b g (m, s1) = Some (r, m', s'))"
    using assms unfolding check_access_def prod.case run Let_def
    by (auto split: if_splits sum.splits)
  then show ?thesis using k group_access_kept store_kept_trans by (metis store_kept_refl cache_kept_refl)
qed

lemma CheckAccess_kept:
  "CheckAccess memory_store now dflt rnd cfg i cookie token user (m, s) = Some (r, m', s') \<Longrightarrow> store_kept s s' \<and> cache_kept m m'"
  by (auto simp: CheckAccess_def split: option.splits if_splits sum.splits dest!: check_access_kept)


subsection \<open>The handlers\<close>

lemma AppendChatMessage_kept:
  assumes "AppendChatMessage memory_store now a t x p s = (r, p', s')"
  shows "store_kept s s' \<and> pad_AText p' = pad_AText p \<and> pad_Head p' = pad_Head p"
proof -
  obtain e1 s1 where s1: "Mem_SaveChatMessage (pad_Id p) (ChatHead p + 1) a t x s = (e1, s1)" by fastforce
  obtain e2 s2 where s2: "Mem_SaveChatHeadOfPad now (pad_Id p) (ChatHead p + 1) s1 = (e2, s2)" by fastforce
  have k1: "store_kept s s1" using kept_chat(1) s1 by (metis snd_conv)
  have "store_kept s1 s2" using kept_chat(2) s2 by (metis snd_conv)
  with k1 have "store_kept s s2" by (rule store_kept_trans)
  with k1 show ?thesis using assms s1 s2 by (cases e1; cases e2) (auto simp: AppendChatMessage_def)
qed

lemma AddSavedRevision_kept:
  assumes "AddSavedRevision memory_store now rnd a p s = (r, p', s')"
  shows "store_kept s s' \<and> pad_AText p' = pad_AText p \<and> pad_Head p' = pad_Head p"
  using assms Pad_Save_kept by (auto simp: AddSavedRevision_def Let_def split: if_splits prod.splits)

lemma chat_kept:
  assumes "SendChatMessageToPadClients memory_store now dflt session m st = Some (r, st')"
  shows "documents_kept st st' \<and> sessions st' = sessions st"
  using assms unfolding SendChatMessageToPadClients_def
proof (rule load_pad_kept, goal_cases)
  case (1 pad st1)
  show ?case
  proof (cases "cd_Time m")
    case None
    then show ?thesis using 1 by (simp add: panic_def)
  next
    case (Some t)
    obtain q pad2 s2 where q: "AppendChatMessage memory_store now (cd_AuthorId m) t (cd_Text m) pad (srv_store st1) = (q, pad2, s2)"
      by (metis prod_cases3)
    note k = put_pad_kept[OF 1(1), of pad2 s2] AppendChatMessage_kept[OF q]
    show ?thesis using 1(3) k Some q
      by (cases q; cases "cd_AuthorId m") (auto simp: panic_def finish_def broadcast_chat_def Let_def split: goerr.splits)
  qed
qed

lemma get_chat_kept:
  assumes "HandleGetChatMessages memory_store now dflt c session a b st = Some (r, st')"
  shows "documents_kept st st' \<and> sessions st' = sessions st"
proof (cases "a < 0 \<or> b < 0 \<or> b - a < 0 \<or> b - a > 100")
  case False
  then have "load_pad memory_store now dflt (ses_PadId session) (Some (ses_Author session)) (\<lambda>pad st1.
        case GetChatMessages memory_store a b pad (srv_store st1) of
          Inl Panic \<Rightarrow> panic st1
        | Inl (Err e) \<Rightarrow> finish st1
        | Inr msgs \<Rightarrow> finish (send_to c (ChatMessages (map chat_event msgs)) st1)) st = Some (r, st')"
    using assms unfolding HandleGetChatMessages_def by (simp split: if_splits)
  then show ?thesis
    by (rule load_pad_kept) (auto simp: panic_def finish_def split: sum.splits goerr.splits)
qed (use assms in \<open>auto simp: HandleGetChatMessages_def finish_def\<close>)

lemma changeset_request_kept:
  assumes "HandleChangesetRequest memory_store now dflt order c sid a g i st = Some (r, st')"
  shows "documents_kept st st' \<and> sessions st' = sessions st"
proof (cases "st' = st")
  case False
  then obtain session :: PadSession and rev0 where "load_pad memory_store now dflt (ses_PadId session) (Some (ses_Author session))
      (send_changesets memory_store order c (ses_PadId session) rev0 g i) st = Some (r, st')"
    using assms by (auto simp: HandleChangesetRequest_def finish_def split: if_splits sum.splits option.splits)
  then show ?thesis
  proof (rule load_pad_kept, goal_cases)
    case (1 pad st1)
    have "documents_kept st1 (put_pad (ses_PadId session) (pad\<lparr>pad_Pool := pool\<rparr>) (srv_store st1) st1) \<and>
        sessions (put_pad (ses_PadId session) (pad\<lparr>pad_Pool := pool\<rparr>) (srv_store st1) st1) = sessions st1" for pool
      by (rule put_pad_kept[OF 1(1)]) simp_all
    with 1(3) show ?case
      by (auto simp: send_changesets_def panic_def finish_def split: option.splits sum.splits goerr.splits)
  qed
qed simp

lemma saved_revision_kept:
  assumes "load_pad memory_store now dflt i None (\<lambda>pad st1. finish (HandleSavedRevisionMessage memory_store now rnd i pad a st1)) st = Some (r, st')"
  shows "documents_kept st st' \<and> sessions st' = sessions st"
  using assms
proof (rule load_pad_kept, goal_cases)
  case (1 pad st1)
  obtain e pad2 s2 where q: "AddSavedRevision memory_store now rnd a pad (srv_store st1) = (e, pad2, s2)" by (metis prod_cases3)
  show ?case using 1(3) put_pad_kept[OF 1(1), of pad2 s2] AddSavedRevision_kept[OF q] q
    by (simp add: finish_def HandleSavedRevisionMessage_def)
qed

lemma user_info_kept:
  assumes "HandleUserInfoUpdate memory_store sid col name st = Some (r, st')"
  shows "documents_kept st st' \<and> sessions st' = sessions st"
proof -
  have k: "store_kept s (set_author_info memory_store a (Some x) name s)" for a x s
    using kept_authors(3,4) store_kept_trans by (cases name) (simp_all add: set_author_info_def Let_def SetAuthorColor_def SetAuthorName_def, blast)
  show ?thesis using assms k
    by (auto simp: HandleUserInfoUpdate_def finish_def set_store_def documents_kept_def send_room_message_def split: option.splits if_splits)
qed

lemma client_message_kept:
  "HandleClientMessage m session st = Some (r, st') \<Longrightarrow> documents_kept st st' \<and> sessions st' = sessions st"
  by (auto simp: HandleClientMessage_def finish_def split: if_splits)

lemma dispatch_kept:
  assumes run: "dispatch memory_store now dflt order rnd c sid message session st = Some (r, st')"
    and ro: "ses_ReadOnly session" "\<And>d. message \<noteq> ClientReadyMsg d" "\<And>i. message \<noteq> PadDelete i"
  shows "documents_kept st st' \<and> sessions st' = sessions st"
proof (cases message)
  case (ClientReadyMsg d)
  with ro(2) show ?thesis by blast
next
  case (PadDelete i)
  with ro(3) show ?thesis by blast
next
  case (UserChangeMsg u)
  with run ro(1) show ?thesis by (simp add: dispatch_def finish_def)
qed (use run in \<open>auto simp: dispatch_def dest!: changeset_request_kept chat_kept saved_revision_kept client_message_kept
  get_chat_kept user_info_kept\<close>)


subsection \<open>Frames\<close>

text \<open>The session stays on its pad, read-only, under the author the access check gave it.\<close>

definition same_session :: "PadSession \<Rightarrow> PadSession \<Rightarrow> bool" where
  "same_session a b \<longleftrightarrow> ses_ReadOnly b = ses_ReadOnly a \<and> ses_PadId b = ses_PadId a \<and> Auth b = Auth a"

lemma getSession_set [simp]: "getSession sid (sessions (set_session sid x st)) = Some x"
  by (simp add: getSession_def set_session_def)

lemma checked_message_kept:
  assumes run: "checked_message memory_store now dflt order cfg rnd c sid user message st = Some (r, st')"
    and ro: "getSession sid (sessions st) = Some session" "ses_ReadOnly session"
      "\<And>d. message \<noteq> ClientReadyMsg d" "\<And>i. message \<noteq> PadDelete i"
  shows "documents_kept st st' \<and> (\<exists>session'. getSession sid (sessions st') = Some session' \<and> same_session session session')"
proof (cases "Auth session")
  case None
  then show ?thesis using run ro by (auto simp: checked_message_def finish_def same_session_def)
next
  case (Some auth)
  let ?check = "CheckAccess memory_store now dflt (rnd_author rnd) cfg (Some (auth_PadId auth))
      (if auth_Integrator auth = [] then None else Some (auth_Integrator auth)) (Some (auth_Token auth)) user (manager st, srv_store st)"
  obtain q m s where chk: "?check = Some (q, m, s)" using run ro Some by (cases ?check) (auto simp: checked_message_def)
  let ?st1 = "st\<lparr>manager := m, srv_store := s\<rparr>"
  have k: "documents_kept st ?st1" using CheckAccess_kept[OF chk] by (simp add: documents_kept_def)
  have same: "same_session session session" by (simp add: same_session_def)
  show ?thesis
  proof (cases q)
    case (Inl e)
    then show ?thesis using run ro Some chk k same
      by (cases e) (auto simp: checked_message_def finish_def panic_def)
  next
    case (Inr granted)
    let ?session = "session\<lparr>ses_Author := AuthorId granted\<rparr>"
    show ?thesis
    proof (cases "ses_Author session \<noteq> [] \<and> ses_Author session \<noteq> AuthorId granted")
      case True
      then show ?thesis using run ro Some chk k same Inr by (auto simp: checked_message_def finish_def)
    next
      case False
      have d: "dispatch memory_store now dflt order rnd c sid message ?session (set_session sid ?session ?st1) = Some (r, st')"
        using run ro(1) Some chk Inr False unfolding checked_message_def by (simp add: Let_def)
      have "documents_kept (set_session sid ?session ?st1) st' \<and> sessions st' = sessions (set_session sid ?session ?st1)"
        using dispatch_kept[OF d _ ro(3,4)] ro(2) by simp
      then have k2: "documents_kept (set_session sid ?session ?st1) st'" and ses: "getSession sid (sessions st') = Some ?session" by simp_all
      have "documents_kept st (set_session sid ?session ?st1)" using k by simp
      from documents_kept_trans[OF this k2] ses show ?thesis by (simp add: same_session_def)
    qed
  qed
qed

lemma HandleMessage_kept:
  assumes run: "HandleMessage memory_store now dflt order cfg rnd c sid integrator user message st = Some (r, st')"
    and ro: "getSession sid (sessions st) = Some session" "ses_ReadOnly session"
      "\<And>d. message \<noteq> ClientReadyMsg d" "\<And>i. message \<noteq> PadDelete i"
  shows "documents_kept st st' \<and> (\<exists>session'. getSession sid (sessions st') = Some session' \<and> same_session session session')"
proof -
  have "hasSession sid (sessions st)" using ro(1) by (simp add: hasSession_def getSession_def)
  then have "checked_message memory_store now dflt order cfg rnd c sid user message st = Some (r, st')"
    using run ro(3) by (cases message) (auto simp: HandleMessage_def)
  then show ?thesis by (rule checked_message_kept[OF _ ro])
qed

lemma decode_incoming_kind:
  "decode_incoming kind s = Inr m \<Longrightarrow> kind \<noteq> FrameClientReady \<Longrightarrow> kind \<noteq> FramePadDelete \<Longrightarrow>
   (\<forall>d. m \<noteq> ClientReadyMsg d) \<and> (\<forall>i. m \<noteq> PadDelete i)"
  by (cases kind) (auto simp: decode_incoming_def map_sum_def split: sum.splits)

lemma sheet_frames_kept:
  assumes "getSession sid (sessions st) = Some session" "ses_ReadOnly session"
  shows "EnqueueSheetOp D now c sid t n st = Some (r, st') \<Longrightarrow> st' = st"
    and "HandlePresence D sid p st = Some (r, st') \<Longrightarrow> documents_kept st st' \<and> sessions st' = sessions st"
  using assms
  by (auto simp: EnqueueSheetOp_def handleSheetOp_def HandlePresence_def session_ready_def finish_def Let_def split: if_splits prod.splits)

lemma handle_frame_kept:
  assumes run: "handle_frame memory_store now dflt order cfg rnd c sid integrator user message st = Some (r, st')"
    and ro: "getSession sid (sessions st) = Some session" "ses_ReadOnly session"
    and kind: "frame_kind message \<notin> {Some FrameClientReady, Some FramePadDelete}"
  shows "documents_kept st st' \<and> (\<exists>session'. getSession sid (sessions st') = Some session' \<and> same_session session session')"
proof -
  have same: "same_session session session" by (simp add: same_session_def)
  show ?thesis
  proof (cases "frame_kind message")
    case None
    then show ?thesis using run ro same by (simp add: handle_frame_def finish_def)
  next
    case (Some k)
    show ?thesis
    proof (cases "k = FrameSheetOp \<or> k = FrameSheetPresence")
      case True
      have "documents_kept st st' \<and> sessions st' = sessions st"
      proof (cases "k = FrameSheetOp")
        case True
        then show ?thesis using run Some
          by (cases "Unmarshal decode_sheet_op ([], 0) message") (auto simp: handle_frame_def finish_def dest!: sheet_frames_kept(1)[OF ro])
      next
        case False
        with True have "k = FrameSheetPresence" by simp
        then show ?thesis using run Some
          by (cases "Unmarshal decode_presence no_presence message") (auto simp: handle_frame_def finish_def dest!: sheet_frames_kept(2)[OF ro])
      qed
      with ro(1) same show ?thesis by simp
    next
      case False
      then have h: "(case decode_incoming k message of Inl e \<Rightarrow> finish st
          | Inr m \<Rightarrow> HandleMessage memory_store now dflt order cfg rnd c sid integrator user m st) = Some (r, st')"
        using run Some by (cases k) (simp_all add: handle_frame_def)
      show ?thesis
      proof (cases "decode_incoming k message")
        case (Inl e)
        then show ?thesis using h ro(1) same by (simp add: finish_def)
      next
        case (Inr m)
        have "(\<forall>d. m \<noteq> ClientReadyMsg d) \<and> (\<forall>i. m \<noteq> PadDelete i)"
          using decode_incoming_kind[OF Inr] kind Some by simp
        with HandleMessage_kept[OF _ ro, of now dflt order cfg rnd c integrator user m r st'] h Inr show ?thesis by simp
      qed
    qed
  qed
qed

section \<open>Frames\<close>

definition one_line :: "gostring \<Rightarrow> gostring" where
  "one_line frame = trim_space (map (\<lambda>r. if r = newline then 32 else r) frame)"

text \<open>
  C5. A read-only visitor cannot write: whatever frame a read-only session sends, other than
  the two that open a session and delete a pad, every pad of the store keeps all its
  revisions, every loaded pad its text and its head, and the spreadsheets, loaded and stored,
  stay as they are. The session stays read-only, so the same holds for all frames after it.
\<close>

theorem readonly_frames_safe:
  assumes "readPump memory_store now dflt order cfg rnd c sid integrator user ip lim frame limiter st = (Some (r, st'), limiter')"
    and "getSession sid (sessions st) = Some session" "ses_ReadOnly session"
    and "frame_kind (one_line frame) \<notin> {Some FrameClientReady, Some FramePadDelete}"
  shows "(\<forall>i. mem_pads (srv_store st) i \<noteq> None \<longrightarrow>
      mem_pads (srv_store st') i \<noteq> None \<and> mem_revs (srv_store st') i = mem_revs (srv_store st) i) \<and>
    (\<forall>i p. Cache_GetPad i (manager st) = Some p \<longrightarrow>
      (\<exists>p'. Cache_GetPad i (manager st') = Some p' \<and> pad_AText p' = pad_AText p \<and> pad_Head p' = pad_Head p)) \<and>
    sheets st' = sheets st \<and> sheetStore (srv_store st') = sheetStore (srv_store st) \<and>
    sheetOps (srv_store st') = sheetOps (srv_store st) \<and>
    (\<exists>session'. getSession sid (sessions st') = Some session' \<and> ses_ReadOnly session' \<and> ses_PadId session' = ses_PadId session)"
proof -
  have "st' = st \<or> handle_frame memory_store now dflt order cfg rnd c sid integrator user (one_line frame) st = Some (r, st')"
    using assms(1) by (auto simp: readPump_def one_line_def finish_def Let_def split: prod.splits if_splits)
  then have "documents_kept st st' \<and> (\<exists>session'. getSession sid (sessions st') = Some session' \<and> same_session session session')"
    using handle_frame_kept[OF _ assms(2-4)] assms(2) by (auto simp: same_session_def)
  then show ?thesis using assms(3)
    by (auto simp: documents_kept_def store_kept_def cache_kept_def same_session_def)
qed

text \<open>A user change over a read-only link, on a server in a load test, where every access is granted.\<close>

definition visitor :: "Pad \<Rightarrow> PadSession" where
  "visitor p = empty_session\<lparr>ses_PadId := pad_Id p, ses_ReadOnly := True,
     Auth := Some \<lparr>auth_PadId = pad_Id p, auth_Token = lit ''t.1'', auth_SessionId = lit ''s'', auth_Integrator = []\<rparr>\<rparr>"

definition readonly_server :: "Pad \<Rightarrow> MemoryDataStore \<Rightarrow> MemoryDataStore Server" where
  "readonly_server p m = (one_pad p m)\<lparr>sessions := [(lit ''s'', visitor p)]\<rparr>"

definition load_test :: access_settings where
  "load_test = \<lparr>EditOnly = False, LoadTest = True, RequireAuthentication = False, RequireSession = False\<rparr>"

definition no_randoms :: randoms where
  "no_randoms = \<lparr>rnd_author = \<lparr>drawn_id = [], drawn_color = []\<rparr>, rnd16 = [], rnd10 = []\<rparr>"

definition change_frame :: gostring where
  "change_frame = lit ''{'' @ [34] @ lit ''type'' @ [34, 58, 34] @ lit ''USER_CHANGES'' @ [34] @ lit ''}''"

lemma change_frame_runs:
  assumes "pad_Id p = lit ''p''"
  shows "\<exists>r st'. readPump memory_store 0 [] (\<lambda>m. m) load_test no_randoms 0 (lit ''s'') [] None [] \<lparr>Duration = 1, Points = 1, rl_LoadTest = False\<rparr>
     change_frame [] (readonly_server p m) = (Some (r, st'), [])"
proof -
  have kind: "frame_kind (one_line change_frame) = Some FrameUserChanges" by code_simp
  have "Unmarshal decode_user_change no_user_change (one_line change_frame) = Inr no_user_change" by code_simp
  then have msg: "decode_incoming FrameUserChanges (one_line change_frame) = Inr (UserChangeMsg no_user_change)" by (simp add: decode_incoming_def)
  have lim: "CheckRateLimit 0 [] (\<lparr>Duration = 1, Points = 1, rl_LoadTest = False\<rparr>\<lparr>rl_LoadTest := LoadTest load_test\<rparr>) [] = (None, [])"
    by (simp add: CheckRateLimit_def load_test_def)
  have ses: "getSession (lit ''s'') (sessions (readonly_server p m)) = Some (visitor p)" "hasSession (lit ''s'') (sessions (readonly_server p m))"
    by (simp_all add: readonly_server_def getSession_def hasSession_def gomap_get_def)
  have ro: "ses_ReadOnly (visitor p)" "ses_Author (visitor p) = []" "Auth (visitor p) \<noteq> None" by (simp_all add: visitor_def empty_session_def)
  let ?st = "readonly_server p m" and ?u = "UserChangeMsg no_user_change"
  obtain q s where id: "resolveAuthorId memory_store 0 (rnd_author no_randoms) (Some (lit ''t.1'')) (srv_store ?st) = (q, s)" by fastforce
  have access: "\<exists>q s. CheckAccess memory_store 0 [] (rnd_author no_randoms) load_test (Some (pad_Id p)) None (Some (lit ''t.1'')) None
      (manager ?st, srv_store ?st) = Some (q, manager ?st, s)"
    using assms id by (cases q) (simp_all add: CheckAccess_def check_access_def load_test_def IsReadOnlyID_def has_prefix_def)
  have "\<exists>r st'. checked_message memory_store 0 [] (\<lambda>m. m) load_test no_randoms 0 (lit ''s'') None ?u ?st = Some (r, st')"
  proof -
    from access obtain q s where chk: "CheckAccess memory_store 0 [] (rnd_author no_randoms) load_test (Some (pad_Id p)) None
        (Some (lit ''t.1'')) None (manager ?st, srv_store ?st) = Some (q, manager ?st, s)" by blast
    have auth: "Auth (visitor p) = Some \<lparr>auth_PadId = pad_Id p, auth_Token = lit ''t.1'', auth_SessionId = lit ''s'', auth_Integrator = []\<rparr>"
      by (simp add: visitor_def)
    show ?thesis
    proof (cases q)
      case (Inl e)
      with chk ses auth show ?thesis by (cases e) (simp_all add: checked_message_def finish_def panic_def del: lit_simps)
    next
      case (Inr granted)
      with chk ses auth ro show ?thesis by (simp add: checked_message_def dispatch_def finish_def Let_def del: lit_simps)
    qed
  qed
  then show ?thesis using kind msg lim ses
    by (simp add: readPump_def one_line_def[symmetric] handle_frame_def HandleMessage_def Let_def del: lit_simps)
qed

lemma readonly_frames_safe_witness:
  "\<exists>p m r st'. mem_revs m (lit ''p'') 0 \<noteq> None \<and> frame_kind (one_line change_frame) = Some FrameUserChanges \<and>
     readPump memory_store 0 [] (\<lambda>m. m) load_test no_randoms 0 (lit ''s'') [] None [] \<lparr>Duration = 1, Points = 1, rl_LoadTest = False\<rparr>
       change_frame [] (readonly_server p m) = (Some (r, st'), []) \<and>
     mem_revs (srv_store st') (lit ''p'') = mem_revs m (lit ''p'')"
proof -
  obtain m and p :: Pad and at pool where p: "mem_ok m" "pad_Id p = lit ''p''" "pad_Head p = 0" "mem_pads m (lit ''p'') \<noteq> None"
    "mem_revs m (lit ''p'') = [0 \<mapsto> revision_row (lit ''p'') 0 (lit ''Z:1>1+1$a'') at pool (Some (lit ''a.x'')) 0]"
    by (rule authored_pad)
  have kind: "frame_kind (one_line change_frame) = Some FrameUserChanges" by code_simp
  have ses: "getSession (lit ''s'') (sessions (readonly_server p m)) = Some (visitor p)" "ses_ReadOnly (visitor p)"
    by (simp_all add: readonly_server_def getSession_def gomap_get_def visitor_def)
  obtain r st' where run: "readPump memory_store 0 [] (\<lambda>m. m) load_test no_randoms 0 (lit ''s'') [] None []
      \<lparr>Duration = 1, Points = 1, rl_LoadTest = False\<rparr> change_frame [] (readonly_server p m) = (Some (r, st'), [])"
    using change_frame_runs[OF p(2)] by blast
  from readonly_frames_safe[OF run ses] kind p(4)
  have "mem_revs (srv_store st') (lit ''p'') = mem_revs m (lit ''p'')" by (simp add: readonly_server_def one_pad_def)
  with run kind p(5) show ?thesis by (intro exI[of _ p] exI[of _ m] exI[of _ r] exI[of _ st']) (simp del: lit_simps)
qed

end
