(* ===== verification/AccessSpec.thy ===== *)
theory AccessSpec
  imports Access JsonSpec
begin

text \<open>
  Sessions over any key-value store, and what a granted access rests on.
\<close>

subsection \<open>Decoding what was encoded\<close>

definition plain_runes :: "gostring \<Rightarrow> bool" where
  "plain_runes s \<longleftrightarrow> (\<forall>r \<in> set s. 0 \<le> r)"

definition int64 :: "int \<Rightarrow> bool" where
  "int64 i \<longleftrightarrow> - (2 ^ 63) \<le> i \<and> i < 2 ^ 63"

lemma plain_lit [simp]: "plain_runes (lit s)"
proof -
  have "(0 :: int) \<le> of_char c" for c by (metis of_nat_0_le_iff of_nat_of_char)
  then show ?thesis by (simp add: plain_runes_def lit_def)
qed

lemma decode_Itoa: "int64 i \<Longrightarrow> decode_int (JNum (Itoa i)) old = Inr i"
  using ParseInt_Itoa[of i] by (simp add: decode_int_def int64_def)

lemma Unmarshal_print: "json_ok j \<Longrightarrow> Unmarshal dec zero (print_json j) = dec j zero"
  by (simp add: Unmarshal_def parse_print)

lemma decode_strings: "decode_slice decode_string [] (JArray (map JString ids)) [] = Inr ids"
  by (simp add: decode_slice_def, induction ids) (simp_all add: decode_string_def)

lemma load_saved_list: "list_all plain_runes ids \<Longrightarrow> Unmarshal (decode_slice decode_string []) [] (print_json (JArray (map JString ids))) = Inr ids"
  by (subst Unmarshal_print) (auto simp: decode_strings list_all_iff plain_runes_def)

lemma session_saved:
  assumes "plain_runes (GroupID info)" "plain_runes (AuthorID info)" "int64 (ValidUntil info)"
  shows "Unmarshal decode_session no_session (print_json (encode_session info)) = Inr info"
proof -
  have names: "named (lit ''groupID'') ''groupID''" "\<not> named (lit ''authorID'') ''groupID''" "named (lit ''authorID'') ''authorID''"
    "\<not> named (lit ''validUntil'') ''groupID''" "\<not> named (lit ''validUntil'') ''authorID''" "named (lit ''validUntil'') ''validUntil''"
    by code_simp+
  have "json_ok (encode_session info)"
    using assms plain_lit[of "''groupID''"] plain_lit[of "''authorID''"] plain_lit[of "''validUntil''"]
    by (auto simp: encode_session_def member_def encode_int_def plain_runes_def simp del: lit_simps)
  then show ?thesis using assms names
    by (simp add: Unmarshal_print decode_session_def decode_struct_def encode_session_def member_def encode_int_def session_field_def
        decode_string_def decode_Itoa del: lit_simps print_json.simps)
qed

subsection \<open>The sessions over a key-value store\<close>

locale key_value =
  fixes D :: "'s DataStore"
    and kv :: "'s \<Rightarrow> gostring \<Rightarrow> gostring option"
  assumes get: "ds_GetOIDCStorageValue D k s = Inr (kv s k)"
    and set: "ds_SetOIDCStorageValue D k v s = (e, s') \<Longrightarrow> e = None \<and> kv s' = (kv s)(k \<mapsto> v)"
    and del: "ds_DeleteOIDCStorageValue D k s = (e, s') \<Longrightarrow> e = None \<and> kv s' = (kv s)(k := None)"
begin

text \<open>The stored list under a key, and the stored session under an id.\<close>

definition ids_at :: "'s \<Rightarrow> gostring \<Rightarrow> gostring list result" where
  "ids_at s key = (case kv s key of None \<Rightarrow> Inr [] | Some x \<Rightarrow> Unmarshal (decode_slice decode_string []) [] x)"

lemma loadIDList_eq: "loadIDList D key s = ids_at s key"
  by (simp add: loadIDList_def get ids_at_def split: option.split)

lemma saveIDList_kv: "saveIDList D key ids s = (e, s') \<Longrightarrow> e = None \<and> kv s' = (kv s)(key \<mapsto> print_json (JArray (map JString ids)))"
  unfolding saveIDList_def by (rule set)

lemma add_id:
  assumes "ids_at s key = Inr ids" "list_all plain_runes (i # ids)"
  shows "\<exists>s'. addToIDList D key i s = (None, s') \<and> ids_at s' key = Inr (if i \<in> set ids then ids else ids @ [i]) \<and>
    (\<forall>k. k \<noteq> key \<longrightarrow> kv s' k = kv s k)"
proof (cases "i \<in> set ids")
  case True
  with assms show ?thesis by (simp add: addToIDList_def loadIDList_eq)
next
  case False
  obtain e s' where sv: "saveIDList D key (ids @ [i]) s = (e, s')" by fastforce
  from saveIDList_kv[OF this] have "e = None" "kv s' = (kv s)(key \<mapsto> print_json (JArray (map JString (ids @ [i]))))" by blast+
  moreover have "ids_at s' key = Inr (ids @ [i])"
    using load_saved_list[of "ids @ [i]"] assms(2) calculation(2) by (simp add: ids_at_def del: map_append print_json.simps)
  ultimately show ?thesis using assms(1) False sv by (simp add: addToIDList_def loadIDList_eq)
qed

lemma remove_id:
  assumes "ids_at s key = Inr ids" "list_all plain_runes ids"
  shows "\<exists>s'. removeFromIDList D key i s = (None, s') \<and> ids_at s' key = Inr (filter (\<lambda>x. x \<noteq> i) ids) \<and>
    (\<forall>k. k \<noteq> key \<longrightarrow> kv s' k = kv s k)"
proof -
  let ?ids = "filter (\<lambda>x. x \<noteq> i) ids"
  obtain e s' where sv: "saveIDList D key ?ids s = (e, s')" by fastforce
  from saveIDList_kv[OF this] have kv': "e = None" "kv s' = (kv s)(key \<mapsto> print_json (JArray (map JString ?ids)))" by blast+
  moreover have "list_all plain_runes ?ids" using assms(2) by (auto simp: list_all_iff)
  ultimately have "ids_at s' key = Inr ?ids" by (simp add: ids_at_def load_saved_list del: print_json.simps)
  with assms(1) sv kv' show ?thesis by (simp add: removeFromIDList_def loadIDList_eq)
qed

lemma GetSessionInfo_eq:
  "GetSessionInfo D i s = (case kv s (apiSessionKeyPrefix @ i) of None \<Rightarrow> Inr None
     | Some x \<Rightarrow> map_sum id Some (Unmarshal decode_session no_session x))"
  by (simp add: GetSessionInfo_def get split: option.split)

lemma keys_differ:
  "apiSessionKeyPrefix @ i \<noteq> groupSessionsPrefix @ g" "apiSessionKeyPrefix @ i \<noteq> authorSessionsKey @ a"
  "groupSessionsPrefix @ g \<noteq> authorSessionsKey @ a"
  by (simp_all add: apiSessionKeyPrefix_def groupSessionsPrefix_def authorSessionsKey_def)

text \<open>A session is there once it was created, listed under its group and its author.\<close>

lemma create_session:
  assumes ids: "ids_at s (groupSessionsPrefix @ g) = Inr gs" "ids_at s (authorSessionsKey @ a) = Inr as"
    and plain: "list_all plain_runes (random16 # g # a # gs @ as)" "int64 vu"
  defines "sid \<equiv> lit ''s.'' @ random16"
  shows "\<exists>s'. CreateSession D random16 g a vu s = (Inr sid, s') \<and>
    GetSessionInfo D sid s' = Inr (Some \<lparr>GroupID = g, AuthorID = a, ValidUntil = vu\<rparr>) \<and>
    ids_at s' (groupSessionsPrefix @ g) = Inr (if sid \<in> set gs then gs else gs @ [sid]) \<and>
    ids_at s' (authorSessionsKey @ a) = Inr (if sid \<in> set as then as else as @ [sid]) \<and>
    (\<forall>i. i \<noteq> sid \<longrightarrow> GetSessionInfo D i s' = GetSessionInfo D i s)"
proof -
  let ?info = "\<lparr>GroupID = g, AuthorID = a, ValidUntil = vu\<rparr>" and ?key = "apiSessionKeyPrefix @ sid"
  have sid: "plain_runes sid" using plain(1) plain_lit[of "''s.''"] by (auto simp: sid_def plain_runes_def)
  obtain e s1 where s1: "ds_SetOIDCStorageValue D ?key (print_json (encode_session ?info)) s = (e, s1)" by fastforce
  from set[OF this] have kv1: "e = None" "kv s1 = (kv s)(?key \<mapsto> print_json (encode_session ?info))" by blast+
  have ids1: "ids_at s1 (groupSessionsPrefix @ g) = Inr gs" "ids_at s1 (authorSessionsKey @ a) = Inr as"
    using ids kv1(2) keys_differ by (simp_all add: ids_at_def) (metis keys_differ)+
  from add_id[OF ids1(1), of sid] plain(1) sid obtain s2 where s2: "addToIDList D (groupSessionsPrefix @ g) sid s1 = (None, s2)"
    "ids_at s2 (groupSessionsPrefix @ g) = Inr (if sid \<in> set gs then gs else gs @ [sid])"
    "\<forall>k. k \<noteq> groupSessionsPrefix @ g \<longrightarrow> kv s2 k = kv s1 k" by (auto simp: list_all_iff)
  have "ids_at s2 (authorSessionsKey @ a) = Inr as" using ids1(2) s2(3) keys_differ(3) by (metis ids_at_def)
  from add_id[OF this, of sid] plain(1) sid obtain s3 where s3: "addToIDList D (authorSessionsKey @ a) sid s2 = (None, s3)"
    "ids_at s3 (authorSessionsKey @ a) = Inr (if sid \<in> set as then as else as @ [sid])"
    "\<forall>k. k \<noteq> authorSessionsKey @ a \<longrightarrow> kv s3 k = kv s2 k" by (auto simp: list_all_iff)
  have "ids_at s3 (groupSessionsPrefix @ g) = Inr (if sid \<in> set gs then gs else gs @ [sid])"
    using s2(2) s3(3) keys_differ(3) by (metis ids_at_def)
  moreover have S: "kv s3 (apiSessionKeyPrefix @ i) = (if i = sid then Some (print_json (encode_session ?info)) else kv s (apiSessionKeyPrefix @ i))" for i
    using s3(3) s2(3) kv1(2) keys_differ(1,2) by simp
  moreover have "Unmarshal decode_session no_session (print_json (encode_session ?info)) = Inr ?info"
    using plain by (intro session_saved) simp_all
  moreover have "CreateSession D random16 g a vu s = (Inr sid, s3)"
    using s1 kv1(1) s2(1) s3(1) by (simp add: CreateSession_def Let_def sid_def del: lit_simps)
  ultimately show ?thesis using s3(2) by (simp add: GetSessionInfo_eq)
qed

text \<open>Deleting it removes it and its entries.\<close>

lemma delete_session:
  assumes info: "GetSessionInfo D sid s = Inr (Some info)"
    and ids: "ids_at s (groupSessionsPrefix @ GroupID info) = Inr gs" "ids_at s (authorSessionsKey @ AuthorID info) = Inr as"
    and plain: "list_all plain_runes (gs @ as)"
  shows "\<exists>s'. DeleteSession D sid s = (Inr True, s') \<and> GetSessionInfo D sid s' = Inr None \<and>
    ids_at s' (groupSessionsPrefix @ GroupID info) = Inr (filter (\<lambda>x. x \<noteq> sid) gs) \<and>
    ids_at s' (authorSessionsKey @ AuthorID info) = Inr (filter (\<lambda>x. x \<noteq> sid) as) \<and>
    (\<forall>i. i \<noteq> sid \<longrightarrow> GetSessionInfo D i s' = GetSessionInfo D i s)"
proof -
  let ?key = "apiSessionKeyPrefix @ sid" and ?g = "groupSessionsPrefix @ GroupID info" and ?a = "authorSessionsKey @ AuthorID info"
  obtain e s1 where s1: "ds_DeleteOIDCStorageValue D ?key s = (e, s1)" by fastforce
  from del[OF this] have kv1: "e = None" "kv s1 = (kv s)(?key := None)" by blast+
  have ids1: "ids_at s1 ?g = Inr gs" "ids_at s1 ?a = Inr as"
    using ids kv1(2) by (simp_all add: ids_at_def) (metis keys_differ)+
  from remove_id[OF ids1(1), of sid] plain obtain s2 where s2: "removeFromIDList D ?g sid s1 = (None, s2)"
    "ids_at s2 ?g = Inr (filter (\<lambda>x. x \<noteq> sid) gs)" "\<forall>k. k \<noteq> ?g \<longrightarrow> kv s2 k = kv s1 k" by auto
  have "ids_at s2 ?a = Inr as" using ids1(2) s2(3) keys_differ(3) by (metis ids_at_def)
  from remove_id[OF this, of sid] plain obtain s3 where s3: "removeFromIDList D ?a sid s2 = (None, s3)"
    "ids_at s3 ?a = Inr (filter (\<lambda>x. x \<noteq> sid) as)" "\<forall>k. k \<noteq> ?a \<longrightarrow> kv s3 k = kv s2 k" by auto
  have "ids_at s3 ?g = Inr (filter (\<lambda>x. x \<noteq> sid) gs)" using s2(2) s3(3) keys_differ(3) by (metis ids_at_def)
  moreover have "kv s3 (apiSessionKeyPrefix @ i) = (if i = sid then None else kv s (apiSessionKeyPrefix @ i))" for i
    using s3(3) s2(3) kv1(2) keys_differ(1,2) by simp
  moreover have "DeleteSession D sid s = (Inr True, s3)" using info s1 kv1(1) s2(1) s3(1) by (simp add: DeleteSession_def)
  ultimately show ?thesis using s3(2) by (simp add: GetSessionInfo_eq)
qed

end

subsection \<open>What a session found in a cookie is\<close>

definition session_in :: "'s DataStore \<Rightarrow> time \<Rightarrow> gostring \<Rightarrow> gostring option \<Rightarrow> gostring \<Rightarrow> 's \<Rightarrow> bool" where
  "session_in D now groupID sessionCookie author s \<longleftrightarrow>
     (\<exists>cookie i info. sessionCookie = Some cookie \<and> i \<in> set (str_split (trim_quotes cookie) 44) \<and>
        GetSessionInfo D (trim_space i) s = Inr (Some info) \<and> GroupID info = groupID \<and> unix_of now < ValidUntil info \<and>
        AuthorID info = author)"

lemma first_session_Some:
  "first_session D t g ids s = Some a \<Longrightarrow>
   \<exists>i \<in> set ids. \<exists>info. GetSessionInfo D (trim_space i) s = Inr (Some info) \<and> GroupID info = g \<and> t < ValidUntil info \<and> AuthorID info = a"
  by (induction ids) (auto split: sum.splits option.splits if_splits)

lemma FindAuthorID_sound: "FindAuthorID D now g cookie s = Some a \<Longrightarrow> session_in D now g cookie a s"
  by (auto simp: FindAuthorID_def session_in_def split: option.splits if_splits dest!: first_session_Some)

lemma str_split_notin: "c \<notin> set s \<Longrightarrow> str_split s c = [s]"
  by (induction s) auto

lemma FindAuthorID_single:
  assumes "i \<noteq> []" "44 \<notin> set i" "34 \<notin> set i" "trim_space i = i" "cookie \<in> {i, 34 # i @ [34]}"
  shows "FindAuthorID D now g (Some cookie) s =
    (case GetSessionInfo D i s of Inr (Some info) \<Rightarrow> if GroupID info = g \<and> unix_of now < ValidUntil info then Some (AuthorID info) else None
     | _ \<Rightarrow> None)"
proof -
  have "hd i \<noteq> 34" "last i \<noteq> 34" using assms(1,3) by (metis hd_in_set, metis last_in_set)
  then have "trim_quotes cookie = i" "cookie \<noteq> []" using assms(1,5) by (auto simp: trim_quotes_def)
  then show ?thesis using assms by (auto simp: FindAuthorID_def str_split_notin split: sum.split option.split)
qed

end
