(* ===== verification/SheetJsonSpec.thy ===== *)
theory SheetJsonSpec
  imports SheetManager AccessSpec SheetSnapshots
begin

text \<open>
  What the JSON of spreadsheets keeps: an operation or a snapshot is read back as it was
  written, with the members of its maps sorted and an empty map of properties gone.
\<close>

subsection \<open>Maps and structs\<close>

definition resort :: "('k \<Rightarrow> gostring) \<Rightarrow> ('k, 'v) gomap \<Rightarrow> ('k, 'v) gomap" where
  "resort key m = sort_key (key \<circ> fst) m"

lemma set_resort [simp]: "set (resort key m) = set m"
  by (simp add: resort_def)

lemma gomap_ok_resort: "gomap_ok m \<Longrightarrow> gomap_ok (resort key m)"
proof -
  have "mset (map fst (resort key m)) = mset (map fst m)" by (simp add: resort_def)
  then have "distinct (map fst (resort key m)) = distinct (map fst m)" by (rule mset_eq_imp_distinct_iff)
  then show "gomap_ok m \<Longrightarrow> gomap_ok (resort key m)" by (simp add: gomap_ok_def)
qed

lemma get_resort: "gomap_ok m \<Longrightarrow> gomap_get (resort key m) = gomap_get m"
  using gomap_ok_resort[of m key] unfolding gomap_get_def[abs_def] gomap_ok_def
  by (simp add: map_of_inject_set)

lemma sort_key_map: "sort_key f (map g xs) = map g (sort_key (f \<circ> g) xs)"
proof -
  have "insort_key f (g x) (map g ys) = map g (insort_key (f \<circ> g) x ys)" for x ys by (induction ys) auto
  then show ?thesis by (induction xs) simp_all
qed

lemma encode_map_resort: "encode_map key enc m = JObject (map (\<lambda>(k, x). (key k, enc x)) (resort key m))"
proof -
  have "fst \<circ> (\<lambda>(k, x). (key k, enc x)) = key \<circ> fst" by (auto simp: fun_eq_iff)
  then show ?thesis by (simp add: encode_map_def sort_key_map resort_def)
qed

lemma decode_entries_enc:
  assumes "\<And>k x. (k, x) \<in> set m \<Longrightarrow> rd (key k) = Inr k \<and> dec (enc x) zero = Inr (f x)" "distinct (map fst acc @ map fst m)"
  shows "decode_entries rd dec zero (map (\<lambda>(k, x). (key k, enc x)) m) j acc = Inr (acc @ map (\<lambda>(k, x). (k, f x)) m)"
  using assms
proof (induction m arbitrary: acc)
  case (Cons e m)
  obtain k x where e: "e = (k, x)" by fastforce
  have "k \<notin> fst ` set acc" using Cons.prems(2) e by auto
  then have set: "gomap_set acc k (f x) = acc @ [(k, f x)]" by (induction acc) (auto simp: gomap_set_def)
  have kx: "rd (key k) = Inr k" "dec (enc x) zero = Inr (f x)" using Cons.prems(1)[of k x] e by simp_all
  have "decode_entries rd dec zero (map (\<lambda>(k, x). (key k, enc x)) m) j (acc @ [(k, f x)]) =
      Inr ((acc @ [(k, f x)]) @ map (\<lambda>(k, x). (k, f x)) m)"
    by (rule Cons.IH) (use Cons.prems e in auto)
  with e kx set show ?case by simp
qed simp

lemma decode_map_enc:
  assumes "gomap_ok m" "\<And>k x. (k, x) \<in> set m \<Longrightarrow> rd (key k) = Inr k \<and> dec (enc x) zero = Inr (f x)"
  shows "decode_map rd dec zero (encode_map key enc m) [] = Inr (map (\<lambda>(k, x). (k, f x)) (resort key m))"
  using decode_entries_enc[of "resort key m" rd key dec enc zero f "[]"] gomap_ok_resort[OF assms(1), of key] assms(2)
  by (simp add: decode_map_def encode_map_resort gomap_ok_def)

lemma decode_slice_enc:
  assumes "\<And>x. x \<in> set xs \<Longrightarrow> dec (enc x) zero = Inr (f x)"
  shows "decode_slice dec zero (JArray (map enc xs)) [] = Inr (map f xs)"
proof -
  have "decode_elements dec zero (map enc xs) [] = Inr (map f xs)" using assms by (induction xs) simp_all
  then show ?thesis by (simp add: decode_slice_def)
qed

lemma decode_fields_append: "decode_fields f (xs @ ys) r = bind_result (decode_fields f xs r) (decode_fields f ys)"
proof (induction xs arbitrary: r)
  case (Cons e xs)
  then show ?case by (cases e; cases "f (fst e) (snd e) r") simp_all
qed simp

lemma decode_member: "decode_fields f (member n x) r = f (lit n) x r"
  by (cases "f (lit n) x r") (simp_all add: member_def)

lemma decode_omitempty: "decode_fields f (omitempty b n x) r = (if b then Inr r else f (lit n) x r)"
  by (cases "f (lit n) x r") (simp_all add: omitempty_def)

lemma decode_opt_int:
  "int64 i \<Longrightarrow> (\<And>x. f (lit n) x r = map_sum id upd (decode_int x old)) \<Longrightarrow> upd 0 = r \<Longrightarrow> decode_fields f (opt_int n i) r = Inr (upd i)"
  by (auto simp: opt_int_def decode_omitempty encode_int_def decode_Itoa)

lemma decode_opt_string:
  "(\<And>x. f (lit n) x r = map_sum id upd (decode_string x old)) \<Longrightarrow> upd [] = r \<Longrightarrow> decode_fields f (opt_string n s) r = Inr (upd s)"
  by (auto simp: opt_string_def decode_omitempty decode_string_def)

lemma decode_opt_pointer:
  assumes "\<And>x. f (lit n) x r = map_sum id upd (decode_pointer dec zero x None)" "upd None = r"
    "\<And>v. p = Some v \<Longrightarrow> dec (enc v) zero = Inr v \<and> enc v \<noteq> JNull"
  shows "decode_fields f (opt_pointer enc n p) r = Inr (upd p)"
  using assms by (cases p) (auto simp: opt_pointer_def decode_member decode_pointer_def split: json.splits)

lemma decode_int_member: "int64 i \<Longrightarrow> decode_int (encode_int i) old = Inr i"
  by (simp add: encode_int_def decode_Itoa)

lemma decode_string_member [simp]: "decode_string (JString s) old = Inr s"
  by (simp add: decode_string_def)

subsection \<open>Operations\<close>

definition stored_props :: "props option \<Rightarrow> props option" where
  "stored_props p = (case p of None \<Rightarrow> None | Some m \<Rightarrow> if m = [] then None else Some (resort id m))"

definition stored_op :: "SheetOp \<Rightarrow> SheetOp" where
  "stored_op op' = op'\<lparr>o_props := stored_props (o_props op')\<rparr>"

definition props_fit :: "props \<Rightarrow> bool" where
  "props_fit m \<longleftrightarrow> gomap_ok m \<and> (\<forall>(k, v) \<in> set m. plain_runes k \<and> plain_runes v)"

text \<open>The type is one the code knows or a name of its own.\<close>

definition type_fits :: "OpType \<Rightarrow> bool" where
  "type_fits t \<longleftrightarrow> op_type (op_type_name t) = t \<and> plain_runes (op_type_name t)"

definition op_fits :: "SheetOp \<Rightarrow> bool" where
  "op_fits op' \<longleftrightarrow> type_fits (o_type op') \<and>
     list_all int64 [o_baseRev op', o_row op', o_col op', o_endRow op', o_endCol op', o_index op', o_count op', o_toIndex op',
       o_size op', o_frozenRows op', o_frozenCols op'] \<and>
     list_all plain_runes [o_sheet op', o_name op', o_axis op'] \<and>
     (\<forall>p \<in> {o_raw op', o_value op', o_valueType op'}. \<forall>v. p = Some v \<longrightarrow> plain_runes v) \<and>
     (\<forall>i. o_styleId op' = Some i \<longrightarrow> int64 i) \<and> (\<forall>m. o_props op' = Some m \<longrightarrow> props_fit m)"

lemma op_fields:
  "op_field (lit ''type'') x r = map_sum id (\<lambda>v. r\<lparr>o_type := op_type v\<rparr>) (decode_string x (op_type_name (o_type r)))"
  "op_field (lit ''sheet'') x r = map_sum id (\<lambda>v. r\<lparr>o_sheet := v\<rparr>) (decode_string x (o_sheet r))"
  "op_field (lit ''baseRev'') x r = map_sum id (\<lambda>v. r\<lparr>o_baseRev := v\<rparr>) (decode_int x (o_baseRev r))"
  "op_field (lit ''row'') x r = map_sum id (\<lambda>v. r\<lparr>o_row := v\<rparr>) (decode_int x (o_row r))"
  "op_field (lit ''col'') x r = map_sum id (\<lambda>v. r\<lparr>o_col := v\<rparr>) (decode_int x (o_col r))"
  "op_field (lit ''endRow'') x r = map_sum id (\<lambda>v. r\<lparr>o_endRow := v\<rparr>) (decode_int x (o_endRow r))"
  "op_field (lit ''endCol'') x r = map_sum id (\<lambda>v. r\<lparr>o_endCol := v\<rparr>) (decode_int x (o_endCol r))"
  "op_field (lit ''raw'') x r = map_sum id (\<lambda>v. r\<lparr>o_raw := v\<rparr>) (decode_pointer decode_string [] x (o_raw r))"
  "op_field (lit ''value'') x r = map_sum id (\<lambda>v. r\<lparr>o_value := v\<rparr>) (decode_pointer decode_string [] x (o_value r))"
  "op_field (lit ''valueType'') x r = map_sum id (\<lambda>v. r\<lparr>o_valueType := v\<rparr>) (decode_pointer decode_string [] x (o_valueType r))"
  "op_field (lit ''styleId'') x r = map_sum id (\<lambda>v. r\<lparr>o_styleId := v\<rparr>) (decode_pointer decode_int 0 x (o_styleId r))"
  "op_field (lit ''props'') x r = map_sum id (\<lambda>v. r\<lparr>o_props := v\<rparr>) (decode_props_member x (o_props r))"
  "op_field (lit ''index'') x r = map_sum id (\<lambda>v. r\<lparr>o_index := v\<rparr>) (decode_int x (o_index r))"
  "op_field (lit ''count'') x r = map_sum id (\<lambda>v. r\<lparr>o_count := v\<rparr>) (decode_int x (o_count r))"
  "op_field (lit ''name'') x r = map_sum id (\<lambda>v. r\<lparr>o_name := v\<rparr>) (decode_string x (o_name r))"
  "op_field (lit ''toIndex'') x r = map_sum id (\<lambda>v. r\<lparr>o_toIndex := v\<rparr>) (decode_int x (o_toIndex r))"
  "op_field (lit ''axis'') x r = map_sum id (\<lambda>v. r\<lparr>o_axis := v\<rparr>) (decode_string x (o_axis r))"
  "op_field (lit ''size'') x r = map_sum id (\<lambda>v. r\<lparr>o_size := v\<rparr>) (decode_int x (o_size r))"
  "op_field (lit ''frozenRows'') x r = map_sum id (\<lambda>v. r\<lparr>o_frozenRows := v\<rparr>) (decode_int x (o_frozenRows r))"
  "op_field (lit ''frozenCols'') x r = map_sum id (\<lambda>v. r\<lparr>o_frozenCols := v\<rparr>) (decode_int x (o_frozenCols r))"
  by (simp_all add: op_field_def named_def fold_case_def)


lemma decode_props_enc: "props_fit m \<Longrightarrow> decode_props (encode_props m) [] = Inr (resort id m)"
  using decode_map_enc[of m Inr id decode_string JString "[]" id]
  by (simp add: decode_props_def encode_props_def props_fit_def)

lemma encode_map_not_null [simp]: "encode_map key enc m \<noteq> JNull" "encode_props m \<noteq> JNull"
  by (simp_all add: encode_map_def encode_props_def)

lemma op_decoded:
  "int64 i \<Longrightarrow> o_row r = 0 \<Longrightarrow> decode_fields op_field (opt_int ''row'' i) r = Inr (r\<lparr>o_row := i\<rparr>)"
  "int64 i \<Longrightarrow> o_col r = 0 \<Longrightarrow> decode_fields op_field (opt_int ''col'' i) r = Inr (r\<lparr>o_col := i\<rparr>)"
  "int64 i \<Longrightarrow> o_endRow r = 0 \<Longrightarrow> decode_fields op_field (opt_int ''endRow'' i) r = Inr (r\<lparr>o_endRow := i\<rparr>)"
  "int64 i \<Longrightarrow> o_endCol r = 0 \<Longrightarrow> decode_fields op_field (opt_int ''endCol'' i) r = Inr (r\<lparr>o_endCol := i\<rparr>)"
  "int64 i \<Longrightarrow> o_index r = 0 \<Longrightarrow> decode_fields op_field (opt_int ''index'' i) r = Inr (r\<lparr>o_index := i\<rparr>)"
  "int64 i \<Longrightarrow> o_count r = 0 \<Longrightarrow> decode_fields op_field (opt_int ''count'' i) r = Inr (r\<lparr>o_count := i\<rparr>)"
  "int64 i \<Longrightarrow> o_toIndex r = 0 \<Longrightarrow> decode_fields op_field (opt_int ''toIndex'' i) r = Inr (r\<lparr>o_toIndex := i\<rparr>)"
  "int64 i \<Longrightarrow> o_size r = 0 \<Longrightarrow> decode_fields op_field (opt_int ''size'' i) r = Inr (r\<lparr>o_size := i\<rparr>)"
  "int64 i \<Longrightarrow> o_frozenRows r = 0 \<Longrightarrow> decode_fields op_field (opt_int ''frozenRows'' i) r = Inr (r\<lparr>o_frozenRows := i\<rparr>)"
  "int64 i \<Longrightarrow> o_frozenCols r = 0 \<Longrightarrow> decode_fields op_field (opt_int ''frozenCols'' i) r = Inr (r\<lparr>o_frozenCols := i\<rparr>)"
  "o_name r = [] \<Longrightarrow> decode_fields op_field (opt_string ''name'' t) r = Inr (r\<lparr>o_name := t\<rparr>)"
  "o_axis r = [] \<Longrightarrow> decode_fields op_field (opt_string ''axis'' t) r = Inr (r\<lparr>o_axis := t\<rparr>)"
  by (cases r; simp add: opt_int_def opt_string_def decode_omitempty encode_int_def decode_Itoa op_fields del: lit_simps)+

lemma op_pointers_decoded:
  "o_raw r = None \<Longrightarrow> decode_fields op_field (opt_pointer JString ''raw'' p) r = Inr (r\<lparr>o_raw := p\<rparr>)"
  "o_value r = None \<Longrightarrow> decode_fields op_field (opt_pointer JString ''value'' p) r = Inr (r\<lparr>o_value := p\<rparr>)"
  "o_valueType r = None \<Longrightarrow> decode_fields op_field (opt_pointer JString ''valueType'' p) r = Inr (r\<lparr>o_valueType := p\<rparr>)"
  "o_styleId r = None \<Longrightarrow> (\<forall>i. q = Some i \<longrightarrow> int64 i) \<Longrightarrow> decode_fields op_field (opt_pointer encode_int ''styleId'' q) r = Inr (r\<lparr>o_styleId := q\<rparr>)"
  "o_props r = None \<Longrightarrow> (\<forall>m. ps = Some m \<longrightarrow> props_fit m) \<Longrightarrow>
     decode_fields op_field (op_props_member ps) r = Inr (r\<lparr>o_props := stored_props ps\<rparr>)"
  by (cases r; cases p; cases q; cases ps; simp add: opt_pointer_def decode_member decode_pointer_def op_fields decode_Itoa
      op_props_member_def decode_omitempty decode_props_member_def decode_props_enc stored_props_def encode_int_def decode_string_def
      del: lit_simps)+

lemma decode_op_enc: "op_fits op' \<Longrightarrow> decode_op (encode_op op') zero_op = Inr (stored_op op')"
proof -
  assume fits: "op_fits op'"
  then have i: "int64 (o_baseRev op')" "int64 (o_row op')" "int64 (o_col op')" "int64 (o_endRow op')" "int64 (o_endCol op')" "int64 (o_index op')"
    "int64 (o_count op')" "int64 (o_toIndex op')" "int64 (o_size op')" "int64 (o_frozenRows op')" "int64 (o_frozenCols op')"
    "op_type (op_type_name (o_type op')) = o_type op'" by (simp_all add: op_fits_def type_fits_def)
  have o: "\<forall>i. o_styleId op' = Some i \<longrightarrow> int64 i" "\<forall>m. o_props op' = Some m \<longrightarrow> props_fit m" using fits by (simp_all add: op_fits_def)
  show ?thesis
    using i o
    by (simp add: decode_op_def encode_op_def decode_struct_def op_members_def decode_fields_append decode_member op_fields
        decode_int_member op_decoded op_pointers_decoded zero_op_def stored_op_def del: lit_simps)
qed


text \<open>What is written is JSON that parses.\<close>

definition members_ok :: "(gostring \<times> json) list \<Rightarrow> bool" where
  "members_ok ms \<longleftrightarrow> (\<forall>(k, v) \<in> set ms. plain_runes k \<and> json_ok v)"

lemma members_ok_Nil [simp]: "members_ok []"
  by (simp add: members_ok_def)

lemma members_ok_append [simp]: "members_ok (xs @ ys) \<longleftrightarrow> members_ok xs \<and> members_ok ys"
  by (auto simp: members_ok_def)

lemma members_ok_intros [simp]:
  "members_ok (member n x) \<longleftrightarrow> json_ok x" "members_ok (omitempty b n x) \<longleftrightarrow> b \<or> json_ok x"
  "members_ok (opt_int n i)" "members_ok (opt_string n t) \<longleftrightarrow> plain_runes t"
  "members_ok (opt_pointer enc n q) \<longleftrightarrow> (\<forall>v. q = Some v \<longrightarrow> json_ok (enc v))"
  using plain_lit[of n]
  by (auto simp: members_ok_def member_def omitempty_def opt_int_def opt_string_def opt_pointer_def encode_int_def plain_runes_def
      split: option.splits simp del: plain_lit lit_simps)

lemma json_ok_object [simp]: "json_ok (JObject ms) \<longleftrightarrow> members_ok ms"
  by (simp add: members_ok_def plain_runes_def)

lemma json_ok_string [simp]: "json_ok (JString t) \<longleftrightarrow> plain_runes t"
  by (simp add: plain_runes_def)

lemma json_ok_null [simp]: "json_ok JNull"
  by simp

lemma json_ok_int [simp]: "json_ok (encode_int i)"
  by (auto simp: encode_int_def)

lemma json_ok_map:
  "(\<And>k x. (k, x) \<in> set m \<Longrightarrow> plain_runes (key k) \<and> json_ok (enc x)) \<Longrightarrow> json_ok (encode_map key enc m)"
  by (force simp: encode_map_resort members_ok_def simp del: json_ok.simps(1-4))

lemma json_ok_props: "props_fit m \<Longrightarrow> json_ok (encode_props m)"
  unfolding encode_props_def by (rule json_ok_map) (auto simp: props_fit_def simp del: json_ok.simps(1-4))

lemma json_ok_op: "op_fits op' \<Longrightarrow> json_ok (encode_op op')"
  using json_ok_props
  by (auto simp: encode_op_def op_members_def op_fits_def type_fits_def op_props_member_def split: option.splits
      simp del: json_ok.simps(1-4) lit_simps)

lemma op_read_back: "op_fits op' \<Longrightarrow> Unmarshal decode_op zero_op (print_json (encode_op op')) = Inr (stored_op op')"
  by (simp only: Unmarshal_print[OF json_ok_op] decode_op_enc)

subsection \<open>Snapshots\<close>

definition cell_fits :: "CellSnapshot \<Rightarrow> bool" where
  "cell_fits c \<longleftrightarrow> list_all int64 [cs_row c, cs_col c, cs_styleId c] \<and> list_all plain_runes [cs_raw c, cs_value c, cs_valueType c]"

definition merge_fits :: "MergeSnapshot \<Rightarrow> bool" where
  "merge_fits m \<longleftrightarrow> list_all int64 [ms_row m, ms_col m, ms_rows m, ms_cols m]"

definition dims_fit :: "(int, int) gomap \<Rightarrow> bool" where
  "dims_fit m \<longleftrightarrow> gomap_ok m \<and> (\<forall>(i, v) \<in> set m. int64 i \<and> int64 v)"

definition sheet_fits :: "SheetSnapshot \<Rightarrow> bool" where
  "sheet_fits s \<longleftrightarrow> plain_runes (ss_id s) \<and> plain_runes (ss_name s) \<and> list_all cell_fits (ss_cells s) \<and>
     dims_fit (ss_colWidths s) \<and> dims_fit (ss_rowHeights s) \<and> int64 (ss_frozenRows s) \<and> int64 (ss_frozenCols s) \<and>
     list_all merge_fits (ss_merges s)"

definition styles_fit :: "StylePool \<Rightarrow> bool" where
  "styles_fit p \<longleftrightarrow> gomap_ok (IdToStyle p) \<and> (\<forall>(i, st) \<in> set (IdToStyle p). int64 i \<and> props_fit (Props st)) \<and> int64 (NextId p)"

definition stored_sheet :: "SheetSnapshot \<Rightarrow> SheetSnapshot" where
  "stored_sheet s = s\<lparr>ss_colWidths := resort Itoa (ss_colWidths s), ss_rowHeights := resort Itoa (ss_rowHeights s)\<rparr>"

definition stored_style :: "Style \<Rightarrow> Style" where
  "stored_style st = \<lparr>Props = resort id (Props st)\<rparr>"

definition stored_styles :: "StylePool \<Rightarrow> StylePool" where
  "stored_styles p = \<lparr>IdToStyle = map (\<lambda>(i, st). (i, stored_style st)) (resort Itoa (IdToStyle p)), keyToId = [], NextId = NextId p\<rparr>"

lemma int_key_Itoa: "int64 i \<Longrightarrow> int_key (Itoa i) = Inr i"
  using decode_Itoa[of i 0] by (auto simp: decode_int_def int_key_def split: sum.splits)

lemma decode_dims_enc: "dims_fit m \<Longrightarrow> decode_dims (encode_dims m) [] = Inr (resort Itoa m)"
  using decode_map_enc[of m int_key Itoa decode_int encode_int 0 id]
  by (force simp: decode_dims_def encode_dims_def dims_fit_def int_key_Itoa decode_int_member)

lemma resort_Nil [simp]: "resort key [] = []"
  by (simp add: resort_def)

lemma cell_fields:
  "cell_field (lit ''row'') x c = map_sum id (\<lambda>v. c\<lparr>cs_row := v\<rparr>) (decode_int x (cs_row c))"
  "cell_field (lit ''col'') x c = map_sum id (\<lambda>v. c\<lparr>cs_col := v\<rparr>) (decode_int x (cs_col c))"
  "cell_field (lit ''raw'') x c = map_sum id (\<lambda>v. c\<lparr>cs_raw := v\<rparr>) (decode_string x (cs_raw c))"
  "cell_field (lit ''value'') x c = map_sum id (\<lambda>v. c\<lparr>cs_value := v\<rparr>) (decode_string x (cs_value c))"
  "cell_field (lit ''valueType'') x c = map_sum id (\<lambda>v. c\<lparr>cs_valueType := v\<rparr>) (decode_string x (cs_valueType c))"
  "cell_field (lit ''styleId'') x c = map_sum id (\<lambda>v. c\<lparr>cs_styleId := v\<rparr>) (decode_int x (cs_styleId c))"
  by (simp_all add: cell_field_def named_def fold_case_def)

lemma decode_cell_enc: "cell_fits c \<Longrightarrow> decode_cell (encode_cell c) no_cell = Inr c"
  by (cases c) (simp add: cell_fits_def decode_cell_def encode_cell_def decode_struct_def decode_fields_append decode_member cell_fields
      decode_int_member no_cell_def opt_int_def opt_string_def decode_omitempty del: lit_simps)

lemma merge_fields:
  "merge_field (lit ''row'') x m = map_sum id (\<lambda>v. m\<lparr>ms_row := v\<rparr>) (decode_int x (ms_row m))"
  "merge_field (lit ''col'') x m = map_sum id (\<lambda>v. m\<lparr>ms_col := v\<rparr>) (decode_int x (ms_col m))"
  "merge_field (lit ''rows'') x m = map_sum id (\<lambda>v. m\<lparr>ms_rows := v\<rparr>) (decode_int x (ms_rows m))"
  "merge_field (lit ''cols'') x m = map_sum id (\<lambda>v. m\<lparr>ms_cols := v\<rparr>) (decode_int x (ms_cols m))"
  by (simp_all add: merge_field_def named_def fold_case_def)

lemma decode_merge_enc: "merge_fits m \<Longrightarrow> decode_merge (encode_merge m) no_merge = Inr m"
  by (cases m) (simp add: merge_fits_def decode_merge_def encode_merge_def decode_struct_def decode_fields_append decode_member merge_fields
      decode_int_member no_merge_def del: lit_simps)

lemma sheet_fields:
  "sheet_field (lit ''id'') x s = map_sum id (\<lambda>v. s\<lparr>ss_id := v\<rparr>) (decode_string x (ss_id s))"
  "sheet_field (lit ''name'') x s = map_sum id (\<lambda>v. s\<lparr>ss_name := v\<rparr>) (decode_string x (ss_name s))"
  "sheet_field (lit ''cells'') x s = map_sum id (\<lambda>v. s\<lparr>ss_cells := v\<rparr>) (decode_slice decode_cell no_cell x (ss_cells s))"
  "sheet_field (lit ''colWidths'') x s = map_sum id (\<lambda>v. s\<lparr>ss_colWidths := v\<rparr>) (decode_dims x (ss_colWidths s))"
  "sheet_field (lit ''rowHeights'') x s = map_sum id (\<lambda>v. s\<lparr>ss_rowHeights := v\<rparr>) (decode_dims x (ss_rowHeights s))"
  "sheet_field (lit ''frozenRows'') x s = map_sum id (\<lambda>v. s\<lparr>ss_frozenRows := v\<rparr>) (decode_int x (ss_frozenRows s))"
  "sheet_field (lit ''frozenCols'') x s = map_sum id (\<lambda>v. s\<lparr>ss_frozenCols := v\<rparr>) (decode_int x (ss_frozenCols s))"
  "sheet_field (lit ''merges'') x s = map_sum id (\<lambda>v. s\<lparr>ss_merges := v\<rparr>) (decode_slice decode_merge no_merge x (ss_merges s))"
  by (simp_all add: sheet_field_def named_def fold_case_def)

lemma decode_cells_enc: "list_all cell_fits cs \<Longrightarrow> decode_slice decode_cell no_cell (JArray (map encode_cell cs)) [] = Inr cs"
  using decode_slice_enc[of cs decode_cell encode_cell no_cell id] by (simp add: decode_cell_enc list_all_iff)

lemma decode_merges_enc: "list_all merge_fits ms \<Longrightarrow> decode_slice decode_merge no_merge (JArray (map encode_merge ms)) [] = Inr ms"
  using decode_slice_enc[of ms decode_merge encode_merge no_merge id] by (simp add: decode_merge_enc list_all_iff)

lemma decode_sheet_enc: "sheet_fits s \<Longrightarrow> decode_sheet (encode_sheet s) no_sheet = Inr (stored_sheet s)"
  by (cases s) (simp add: sheet_fits_def decode_sheet_def encode_sheet_def decode_struct_def decode_fields_append decode_member sheet_fields
      decode_int_member no_sheet_def opt_int_def decode_omitempty decode_cells_enc decode_merges_enc decode_dims_enc stored_sheet_def del: lit_simps)

lemma decode_style_enc: "props_fit (Props st) \<Longrightarrow> decode_struct style_field (encode_style st) \<lparr>Props = []\<rparr> = Inr (stored_style st)"
proof -
  have "style_field (lit ''props'') x r = map_sum id (\<lambda>v. r\<lparr>Props := v\<rparr>) (decode_props x (Props r))" for x r
    by (simp add: style_field_def named_def fold_case_def)
  then show "props_fit (Props st) \<Longrightarrow> ?thesis"
    by (simp add: decode_struct_def encode_style_def decode_member decode_props_enc stored_style_def del: lit_simps)
qed

lemma styles_fields:
  "styles_field (lit ''idToStyle'') x p = map_sum id (\<lambda>v. p\<lparr>IdToStyle := v\<rparr>)
     (decode_map int_key (decode_struct style_field) \<lparr>Props = []\<rparr> x (IdToStyle p))"
  "styles_field (lit ''nextId'') x p = map_sum id (\<lambda>v. p\<lparr>NextId := v\<rparr>) (decode_int x (NextId p))"
  by (simp_all add: styles_field_def named_def fold_case_def)

lemma decode_styles_enc:
  assumes "styles_fit p"
  shows "decode_struct styles_field (encode_styles p) \<lparr>IdToStyle = [], keyToId = [], NextId = 0\<rparr> = Inr (stored_styles p)"
proof -
  have "decode_map int_key (decode_struct style_field) \<lparr>Props = []\<rparr> (encode_map Itoa encode_style (IdToStyle p)) [] =
      Inr (map (\<lambda>(k, x). (k, stored_style x)) (resort Itoa (IdToStyle p)))"
    by (rule decode_map_enc) (use assms in \<open>auto simp: styles_fit_def int_key_Itoa decode_style_enc\<close>)
  with assms show ?thesis
    by (simp add: decode_struct_def encode_styles_def decode_fields_append decode_member styles_fields decode_int_member stored_styles_def
        styles_fit_def del: lit_simps)
qed

definition stored_snapshot :: "WorkbookSnapshot \<Rightarrow> WorkbookSnapshot" where
  "stored_snapshot w = \<lparr>ws_sheets = map stored_sheet (ws_sheets w), ws_styles = map_option stored_styles (ws_styles w)\<rparr>"

definition snapshot_fits :: "WorkbookSnapshot \<Rightarrow> bool" where
  "snapshot_fits w \<longleftrightarrow> list_all sheet_fits (ws_sheets w) \<and> (\<forall>p. ws_styles w = Some p \<longrightarrow> styles_fit p)"

lemma decode_snapshot_enc: "snapshot_fits w \<Longrightarrow> decode_snapshot (encode_snapshot w) no_snapshot = Inr (stored_snapshot w)"
proof -
  assume fits: "snapshot_fits w"
  have F: "snapshot_field (lit ''sheets'') x r = map_sum id (\<lambda>v. r\<lparr>ws_sheets := v\<rparr>) (decode_slice decode_sheet no_sheet x (ws_sheets r))"
    "snapshot_field (lit ''styles'') x r = map_sum id (\<lambda>v. r\<lparr>ws_styles := v\<rparr>)
          (decode_pointer (decode_struct styles_field) \<lparr>IdToStyle = [], keyToId = [], NextId = 0\<rparr> x (ws_styles r))" for x r
    by (simp_all add: snapshot_field_def named_def fold_case_def)
  have "decode_slice decode_sheet no_sheet (JArray (map encode_sheet (ws_sheets w))) [] = Inr (map stored_sheet (ws_sheets w))"
    by (rule decode_slice_enc) (use fits in \<open>auto simp: snapshot_fits_def list_all_iff decode_sheet_enc\<close>)
  moreover have "decode_pointer (decode_struct styles_field) \<lparr>IdToStyle = [], keyToId = [], NextId = 0\<rparr>
      (case ws_styles w of None \<Rightarrow> JNull | Some p \<Rightarrow> encode_styles p) None = Inr (map_option stored_styles (ws_styles w))"
  proof (cases "ws_styles w")
    case (Some p)
    then have "decode_struct styles_field (encode_styles p) \<lparr>IdToStyle = [], keyToId = [], NextId = 0\<rparr> = Inr (stored_styles p)"
      using fits by (simp add: decode_styles_enc snapshot_fits_def)
    moreover obtain ms where "encode_styles p = JObject ms" by (simp add: encode_styles_def)
    ultimately show ?thesis using Some by (simp add: decode_pointer_def)
  qed (simp add: decode_pointer_def)
  ultimately show ?thesis
    by (simp add: decode_snapshot_def encode_snapshot_def decode_struct_def decode_fields_append decode_member F
        no_snapshot_def stored_snapshot_def del: lit_simps)
qed

text \<open>A snapshot is JSON, too.\<close>

lemma json_ok_cell: "cell_fits c \<Longrightarrow> json_ok (encode_cell c)"
  by (simp add: cell_fits_def encode_cell_def del: json_ok.simps(1-4) lit_simps)

lemma json_ok_merge: "json_ok (encode_merge m)"
  by (simp add: encode_merge_def del: json_ok.simps(1-4) lit_simps)

lemma plain_Itoa: "plain_runes (Itoa i)"
proof -
  have "is_dec r \<Longrightarrow> 0 \<le> r" for r by (simp add: is_dec_def)
  with text_base_dec show ?thesis by (fastforce simp: Itoa_def plain_runes_def list_all_iff split: if_splits)
qed

lemma json_ok_dims: "json_ok (encode_dims m)"
  unfolding encode_dims_def by (rule json_ok_map) (simp add: plain_Itoa)

lemma json_ok_array [simp]: "json_ok (JArray xs) \<longleftrightarrow> list_all json_ok xs"
  by (simp add: list_all_iff)

lemma json_ok_sheet: "sheet_fits s \<Longrightarrow> json_ok (encode_sheet s)"
  by (auto simp: sheet_fits_def encode_sheet_def json_ok_dims json_ok_cell json_ok_merge list_all_iff list.pred_map
      simp del: json_ok.simps(1-4) lit_simps)

lemma json_ok_styles: "styles_fit p \<Longrightarrow> json_ok (encode_styles p)"
  by (auto simp: encode_styles_def styles_fit_def encode_style_def plain_Itoa json_ok_props intro!: json_ok_map
      simp del: json_ok.simps(1-4) lit_simps)

lemma json_ok_snapshot: "snapshot_fits w \<Longrightarrow> json_ok (encode_snapshot w)"
  by (auto simp: snapshot_fits_def encode_snapshot_def json_ok_sheet json_ok_styles list_all_iff list.pred_map split: option.splits
      simp del: json_ok.simps(1-4) lit_simps)

lemma snapshot_read_back: "snapshot_fits w \<Longrightarrow> Unmarshal decode_snapshot no_snapshot (print_json (encode_snapshot w)) = Inr (stored_snapshot w)"
  by (simp only: Unmarshal_print[OF json_ok_snapshot] decode_snapshot_enc)

end
