(* ===== verification/SheetRestart.thy ===== *)
theory SheetRestart
  imports SheetJsonSpec SheetProperties StoreSpec
begin

text \<open>
  Restarting the server: what the manager of spreadsheets has stored is enough to load every
  document again as it was.
\<close>

subsection \<open>A workbook that was stored\<close>

definition styles_alike :: "StylePool \<Rightarrow> StylePool \<Rightarrow> bool" where
  "styles_alike p q \<longleftrightarrow> NextId p = NextId q \<and> gomap_get (keyToId p) = gomap_get (keyToId q) \<and>
     (\<forall>i. rel_option (\<lambda>s t. gomap_get (Props s) = gomap_get (Props t)) (gomap_get (IdToStyle p) i) (gomap_get (IdToStyle q) i))"

definition wb_alike :: "Workbook \<Rightarrow> Workbook \<Rightarrow> bool" where
  "wb_alike v w \<longleftrightarrow> list_all2 sheet_same (Sheets v) (Sheets w) \<and> styles_alike (Styles v) (Styles w)"

lemma canonicalKey_stored: "gomap_ok (Props s) \<Longrightarrow> canonicalKey (stored_style s) = canonicalKey s"
proof -
  assume ok: "gomap_ok (Props s)"
  have "mset (map fst (resort id (Props s))) = mset (map fst (Props s))" by (simp add: resort_def)
  then have "prop_keys (resort id (Props s)) = prop_keys (Props s)"
    unfolding prop_keys_def by (metis mset_sort properties_for_sort sorted_sort)
  moreover have "gomap_len (resort id (Props s)) = gomap_len (Props s)" by (simp add: gomap_len_def resort_def)
  ultimately show ?thesis using ok by (simp add: canonicalKey_def stored_style_def get_resort)
qed

lemma get_map_values: "gomap_get (map (\<lambda>(k, v). (k, f v)) m) k = map_option f (gomap_get m k)"
  by (induction m) (auto simp: gomap_get_Cons)

lemma get_stored_styles: "styles_fit p \<Longrightarrow> gomap_get (IdToStyle (stored_styles p)) i = map_option stored_style (gomap_get (IdToStyle p) i)"
  by (simp add: stored_styles_def get_map_values get_resort styles_fit_def)

lemma styles_reloaded:
  assumes "style_ok p" "styles_fit p"
  shows "styles_alike (rebuildIndex (stored_styles p)) p"
proof -
  let ?q = "stored_styles p\<lparr>keyToId := keyToId p\<rparr>"
  have props: "gomap_ok (Props s)" if "gomap_get (IdToStyle p) i = Some s" for i s
    using assms(2) gomap_get_in[OF that] by (auto simp: styles_fit_def props_fit_def)
  have get: "gomap_get (IdToStyle ?q) i = map_option stored_style (gomap_get (IdToStyle p) i)" for i
    using get_stored_styles[OF assms(2), of i] by simp
  have key: "canonicalKey (stored_style s) = canonicalKey s" if "gomap_get (IdToStyle p) i = Some s" for i s
    using props[OF that] by (rule canonicalKey_stored)
  have "map fst (IdToStyle ?q) = map fst (resort Itoa (IdToStyle p))" by (simp add: stored_styles_def comp_def case_prod_beta)
  then have "gomap_ok (IdToStyle ?q)" using assms(2) gomap_ok_resort[of "IdToStyle p" Itoa] by (simp add: gomap_ok_def styles_fit_def)
  moreover have "\<forall>i s. gomap_get (IdToStyle ?q) i = Some s \<longrightarrow> 1 \<le> i \<and> i < NextId p \<and> canonicalKey s \<noteq> [] \<and>
        gomap_get (keyToId p) (canonicalKey s) = Some i"
    using assms(1) key unfolding get style_ok_def by auto
  moreover have "\<forall>k i. gomap_get (keyToId p) k = Some i \<longrightarrow>
        k = [] \<and> i = 0 \<or> (\<exists>s. gomap_get (IdToStyle ?q) i = Some s \<and> canonicalKey s = k)"
    using assms(1) key unfolding get style_ok_def by fastforce
  ultimately have "style_ok ?q" using assms(1) by (simp add: style_ok_def stored_styles_def)
  from rebuildIndex_get[OF this] have "gomap_get (keyToId (rebuildIndex (stored_styles p))) = gomap_get (keyToId p)"
    by (simp add: rebuildIndex_def)
  moreover have "rel_option (\<lambda>s t. gomap_get (Props s) = gomap_get (Props t))
      (gomap_get (IdToStyle (stored_styles p)) i) (gomap_get (IdToStyle p) i)" for i
    using props[of i] by (cases "gomap_get (IdToStyle p) i") (simp_all add: get_stored_styles[OF assms(2)] stored_style_def get_resort)
  ultimately show ?thesis by (simp add: styles_alike_def stored_styles_def)
qed

lemma sheet_reloaded:
  assumes "sheet_ok s" 
  shows "sheet_same (sheet_from_snapshot (stored_sheet (snapshot_sheet s))) s"
proof -
  have "sheet_same (sheet_from_snapshot (stored_sheet (snapshot_sheet s))) (sheet_from_snapshot (snapshot_sheet s))"
    using assms by (simp add: sheet_same_def sheet_from_snapshot_def stored_sheet_def snapshot_sheet_def Let_def NewSheet_def sheet_ok_def
        gomap_rebuild_same get_resort gomap_ok_resort)
  with snapshot_sheet_same[OF assms] show ?thesis by (simp add: sheet_same_def)
qed

lemma workbook_reloaded:
  assumes "wb_ok w" "snapshot_fits (Snapshot w)"
  shows "wb_alike (WorkbookFromSnapshot (stored_snapshot (Snapshot w))) w"
proof -
  have "list_all2 sheet_same (map (sheet_from_snapshot \<circ> (stored_sheet \<circ> snapshot_sheet)) ss) ss" if "list_all sheet_ok ss" for ss
    using that by (induction ss) (simp_all add: sheet_reloaded)
  moreover have "NextId (stored_styles (Styles w)) \<noteq> 0" using assms(1) by (auto simp: wb_ok_def style_ok_def stored_styles_def)
  moreover have "styles_alike (rebuildIndex (stored_styles (Styles w))) (Styles w)"
    using assms by (auto intro!: styles_reloaded simp: wb_ok_def snapshot_fits_def Snapshot_def)
  ultimately show ?thesis using assms(1)
    by (simp add: wb_alike_def WorkbookFromSnapshot_def stored_snapshot_def Snapshot_def wb_ok_def comp_assoc)
qed

subsection \<open>The stored documents\<close>

definition doc_stored :: "gostring \<Rightarrow> Document \<Rightarrow> MemoryDataStore \<Rightarrow> bool" where
  "doc_stored padId d s \<longleftrightarrow>
     (\<exists>sd. gomap_get (sheetStore s) padId = Some sd \<and> sdb_Head sd = doc_head d \<and> sdb_Snapshot sd = snapshot_text (doc_wb d)) \<and>
     (\<forall>r. map_option sop_Op (gomap_get (inner (sheetOps s) padId) r) =
        (if 1 \<le> r \<and> r \<le> doc_head d then Some (print_json (encode_op (doc_log d ! nat (r - 1)))) else None))"

definition docs_stored :: "SheetDocs \<Rightarrow> MemoryDataStore \<Rightarrow> bool" where
  "docs_stored docs s \<longleftrightarrow>
     (\<forall>padId d. gomap_get docs padId = Some d \<longrightarrow> (\<exists>w0. doc_ok w0 d) \<and> doc_stored padId d s) \<and>
     (\<forall>padId. gomap_get docs padId = None \<longrightarrow> gomap_get (sheetStore s) padId = None \<and> inner (sheetOps s) padId = [])"

lemma docs_stored_set:
  assumes "docs_stored docs s" "doc_ok w0 d" "doc_stored padId d s'"
    "\<And>i. i \<noteq> padId \<Longrightarrow> gomap_get (sheetStore s') i = gomap_get (sheetStore s) i \<and> inner (sheetOps s') i = inner (sheetOps s) i"
  shows "docs_stored (gomap_set docs padId d) s'"
  unfolding docs_stored_def
proof (intro conjI allI impI)
  fix i e
  assume e: "gomap_get (gomap_set docs padId d) i = Some e"
  show "\<exists>w0. doc_ok w0 e" using e assms(1,2) by (auto simp: docs_stored_def split: if_splits)
  show "doc_stored i e s'"
  proof (cases "i = padId")
    case False
    with e assms(1) have "doc_stored i e s" by (simp add: docs_stored_def)
    with assms(4)[OF False] show ?thesis by (simp add: doc_stored_def)
  qed (use e assms(3) in simp)
next
  fix i
  assume "gomap_get (gomap_set docs padId d) i = None"
  then have "i \<noteq> padId" "gomap_get docs i = None" by (auto split: if_splits)
  with assms(1,4) show "gomap_get (sheetStore s') i = None" "inner (sheetOps s') i = []" by (simp_all add: docs_stored_def)
qed

lemma new_doc_stored:
  "gomap_get (inner (sheetOps s) padId) = (\<lambda>_. None) \<Longrightarrow> doc_stored padId (NewDocument wb) (snd (Mem_SaveSheet now padId 0 (snapshot_text wb) s))"
  by (simp add: doc_stored_def NewDocument_def Mem_SaveSheet_def Let_def)

lemma SaveSheet_others:
  "sheetOps (snd (Mem_SaveSheet now padId r t s)) = sheetOps s"
  "i \<noteq> padId \<Longrightarrow> gomap_get (sheetStore (snd (Mem_SaveSheet now padId r t s))) i = gomap_get (sheetStore s) i"
  "fst (Mem_SaveSheet now padId r t s) = None"
  by (simp_all add: Mem_SaveSheet_def Let_def)

lemma wb_ok_first: "wb_ok (AddSheet DefaultSheetID n NewWorkbook)"
  by (simp add: wb_ok_def AddSheet_def NewWorkbook_def)

lemma load_stored:
  assumes "docs_stored docs s" "load memory_store now padId docs s = (r, docs', s')"
  shows "docs_stored docs' s' \<and> (\<exists>d. r = Inr d \<and> gomap_get docs' padId = Some d)"
proof (cases "gomap_get docs padId")
  case None
  let ?wb = "AddSheet DefaultSheetID (lit ''Sheet1'') NewWorkbook"
  have new: "gomap_get (sheetStore s) padId = None" "inner (sheetOps s) padId = []" using assms(1) None by (simp_all add: docs_stored_def)
  then have r: "r = Inr (NewDocument ?wb)" "docs' = gomap_set docs padId (NewDocument ?wb)"
    "s' = snd (Mem_SaveSheet now padId 0 (snapshot_text ?wb) s)"
    using assms(2) None SaveSheet_others(3)[of now padId 0 "snapshot_text ?wb" s]
    by (simp_all add: load_def Mem_DoesSheetExist_def Let_def split: prod.splits option.splits del: lit_simps)
  have "docs_stored docs' s'"
    unfolding r(2,3)
    by (rule docs_stored_set[OF assms(1) doc_ok_new[OF wb_ok_first] new_doc_stored]) (simp_all add: new SaveSheet_others fun_eq_iff)
  with r show ?thesis by simp
qed (use assms in \<open>simp add: load_def\<close>)

lemma Submit_success:
  assumes "Submit op' d = Inr (r, d')" "doc_ok w0 d"
  shows "r = doc_head d + 1 \<and> doc_ok w0 d' \<and> doc_head d' = r \<and> (\<exists>x. doc_log d' = doc_log d @ [x])"
proof -
  have "Validate op' = None" "0 \<le> o_baseRev op'" "o_baseRev op' \<le> doc_head d"
    using assms(1) by (auto simp: Submit_def split: option.splits if_splits)
  from Submit_total[OF assms(2) this] assms(1) have "r = doc_head d + 1" "doc_ok w0 d'" "\<exists>x. doc_log d' = doc_log d @ [x]" by auto
  moreover from this assms(2) have "doc_head d' = r" by (auto simp: doc_ok_def)
  ultimately show ?thesis by simp
qed

lemma submit_stored:
  assumes "docs_stored docs s" "Manager_Submit memory_store now padId op' author ts docs s = (r, docs', s')"
  shows "docs_stored docs' s'"
proof -
  obtain q docs1 s1 where l: "load memory_store now padId docs s = (q, docs1, s1)" by (metis prod_cases3)
  from load_stored[OF assms(1) l] obtain d where d: "docs_stored docs1 s1" "q = Inr d" "gomap_get docs1 padId = Some d" by auto
  show ?thesis
  proof (cases "Submit op' d")
    case (Inl e)
    with assms(2) l d show ?thesis by (simp add: Manager_Submit_def)
  next
    case (Inr p)
    obtain rev' d' where p: "p = (rev', d')" by fastforce
    from d(1,3) have "\<exists>w0. doc_ok w0 d" and st: "doc_stored padId d s1" by (simp_all add: docs_stored_def)
    then obtain w0 where ok: "doc_ok w0 d" by blast
    from Submit_success[OF Inr[unfolded p] ok] obtain x where
      x: "rev' = doc_head d + 1" "doc_ok w0 d'" "doc_head d' = rev'" "doc_log d' = doc_log d @ [x]" by auto
    have len: "doc_head d = int (length (doc_log d))" using ok by (simp add: doc_ok_def)
    have "map_option sop_Op (gomap_get (inner (sheetOps s1) padId) rev') = None" using st x(1) by (simp add: doc_stored_def)
    then have none: "gomap_get (inner (sheetOps s1) padId) rev' = None" by simp
    let ?s2 = "snd (Mem_SaveSheetOp padId rev' (print_json (encode_op x)) author ts s1)"
    have saved: "fst (Mem_SaveSheetOp padId rev' t author ts s1) = None" for t by (simp add: Mem_SaveSheetOp_def Let_def)
    have last: "doc_log d' ! nat (rev' - 1) = x" by (simp add: x len)
    have r: "docs' = gomap_set docs1 padId d'" "s' = snd (Mem_SaveSheet now padId rev' (snapshot_text (doc_wb d')) ?s2)"
      using assms(2) l d Inr p saved[of "print_json (encode_op x)"] SaveSheet_others(3)[of now padId rev' "snapshot_text (doc_wb d')" ?s2]
      by (auto simp: Manager_Submit_def last Let_def split: prod.splits option.splits)
    have s2: "sheetStore ?s2 = sheetStore s1" "inner (sheetOps ?s2) i = (if i = padId then gomap_set (inner (sheetOps s1) padId) rev'
        \<lparr>sop_PadId = padId, sop_Rev = rev', sop_Op = print_json (encode_op x), sop_AuthorId = author, sop_Timestamp = ts\<rparr> else inner (sheetOps s1) i)" for i
      using none by (simp_all add: Mem_SaveSheetOp_def Let_def inner_set)
    have log: "map_option sop_Op (gomap_get (inner (sheetOps s1) padId) q) =
        (if 1 \<le> q \<and> q \<le> doc_head d then Some (print_json (encode_op (doc_log d ! nat (q - 1)))) else None)" for q
      using st by (simp add: doc_stored_def)
    have new: "map_option sop_Op (gomap_get (inner (sheetOps s') padId) q) =
        (if 1 \<le> q \<and> q \<le> doc_head d' then Some (print_json (encode_op (doc_log d' ! nat (q - 1)))) else None)" for q
    proof (cases "q = rev'")
      case True
      have "map_option sop_Op (gomap_get (inner (sheetOps s') padId) rev') = Some (print_json (encode_op x))"
        by (simp add: r(2) SaveSheet_others s2)
      moreover have "1 \<le> rev'" using x(1) len by simp
      ultimately show ?thesis using True last x(3) by simp
    next
      case False
      then have "map_option sop_Op (gomap_get (inner (sheetOps s') padId) q) = map_option sop_Op (gomap_get (inner (sheetOps s1) padId) q)"
        by (simp add: r(2) SaveSheet_others s2)
      moreover have "1 \<le> q \<Longrightarrow> q \<le> doc_head d \<Longrightarrow> doc_log d' ! nat (q - 1) = doc_log d ! nat (q - 1)"
        by (simp add: x(4) nth_append len)
      moreover have "q \<le> doc_head d' \<longleftrightarrow> q \<le> doc_head d" using False x(1,3) by auto
      ultimately show ?thesis using log[of q] by auto
    qed
    moreover have "gomap_get (sheetStore s') padId \<noteq> None" "sdb_Head (the (gomap_get (sheetStore s') padId)) = rev'"
      "sdb_Snapshot (the (gomap_get (sheetStore s') padId)) = snapshot_text (doc_wb d')"
      by (simp_all add: r(2) Mem_SaveSheet_def Let_def)
    ultimately have "doc_stored padId d' s'" by (auto simp: doc_stored_def x(3))
    then show ?thesis
      unfolding r(1) by (rule docs_stored_set[OF d(1) x(2)]) (simp add: r(2) SaveSheet_others s2)
  qed
qed

lemma import_stored:
  assumes "docs_stored docs s" "SetWorkbook memory_store now padId wb docs s = (r, docs', s')" "wb_ok wb"
  shows "docs_stored docs' s'"
proof -
  let ?s1 = "snd (Mem_RemoveSheetOps padId s)"
  have s1: "sheetStore ?s1 = sheetStore s" "inner (sheetOps ?s1) i = (if i = padId then [] else inner (sheetOps s) i)" for i
    by (simp_all add: Mem_RemoveSheetOps_def inner_del)
  have "docs' = gomap_set docs padId (NewDocument wb)" "s' = snd (Mem_SaveSheet now padId 0 (snapshot_text wb) ?s1)"
    using assms(2) SaveSheet_others(3)[of now padId 0 "snapshot_text wb" ?s1]
    by (auto simp: SetWorkbook_def Mem_RemoveSheetOps_def split: prod.splits option.splits)
  then show ?thesis
    by (simp add: docs_stored_set[OF assms(1) doc_ok_new[OF assms(3)] new_doc_stored] s1 SaveSheet_others fun_eq_iff)
qed

subsection \<open>Loading again\<close>

definition doc_fits :: "Document \<Rightarrow> bool" where
  "doc_fits d \<longleftrightarrow> list_all op_fits (doc_log d) \<and> snapshot_fits (Snapshot (doc_wb d))"

lemma read_ops_stored:
  "list_all2 (\<lambda>r op'. \<exists>row. g r = Some row \<and> Unmarshal decode_op zero_op (sop_Op row) = Inr (stored_op op')) rs ops \<Longrightarrow>
   read_ops (List.map_filter g rs) = Inr (map stored_op ops)"
  by (induction rule: list_all2_induct) (auto simp: List.map_filter_simps)

lemma stored_loads:
  assumes "doc_stored padId d s" "doc_ok w0 d" "doc_fits d"
  shows "stored_document memory_store padId s =
    Inr (NewDocumentAt (WorkbookFromSnapshot (stored_snapshot (Snapshot (doc_wb d)))) (map stored_op (doc_log d)))"
proof -
  obtain sd where sd: "gomap_get (sheetStore s) padId = Some sd" "sdb_Head sd = doc_head d" "sdb_Snapshot sd = snapshot_text (doc_wb d)"
    using assms(1) by (auto simp: doc_stored_def)
  let ?g = "gomap_get (inner (sheetOps s) padId)"
  have len: "doc_head d = int (length (doc_log d))" using assms(2) by (simp add: doc_ok_def)
  have log: "map_option sop_Op (?g r) = (if 1 \<le> r \<and> r \<le> doc_head d then Some (print_json (encode_op (doc_log d ! nat (r - 1)))) else None)" for r
    using assms(1) by (simp add: doc_stored_def)
  have "list_all2 (\<lambda>r op'. \<exists>row. ?g r = Some row \<and> Unmarshal decode_op zero_op (sop_Op row) = Inr (stored_op op')) [1..doc_head d] (doc_log d)"
    unfolding list_all2_conv_all_nth
  proof (intro conjI allI impI)
    fix i
    assume "i < length [1..doc_head d]"
    then have i: "i < length (doc_log d)" by (simp add: len)
    from i assms(3) have "op_fits (doc_log d ! i)" by (simp add: doc_fits_def list_all_length)
    from op_read_back[OF this] log[of "int i + 1"] i
    show "\<exists>row. ?g ([1..doc_head d] ! i) = Some row \<and> Unmarshal decode_op zero_op (sop_Op row) = Inr (stored_op (doc_log d ! i))"
      by (auto simp: nth_upto len add.commute)
  qed (simp add: len)
  from read_ops_stored[OF this] show ?thesis
    using sd assms(3) by (simp add: stored_document_def Mem_GetSheet_def Mem_GetSheetOps_def snapshot_text_def snapshot_read_back doc_fits_def)
qed

text \<open>
  A run of the manager over the in-memory store: operations of clients, which may be refused,
  and imports of whole workbooks, on any number of documents.
\<close>

inductive manager_run :: "SheetDocs \<Rightarrow> MemoryDataStore \<Rightarrow> bool" where
  start: "sheetStore s = [] \<Longrightarrow> sheetOps s = [] \<Longrightarrow> manager_run [] s"
| submit: "manager_run docs s \<Longrightarrow> Manager_Submit memory_store now padId op' author ts docs s = (r, docs', s') \<Longrightarrow> manager_run docs' s'"
| set_workbook: "manager_run docs s \<Longrightarrow> wb_ok wb \<Longrightarrow> SetWorkbook memory_store now padId wb docs s = (e, docs', s') \<Longrightarrow> manager_run docs' s'"

lemma run_stored: "manager_run docs s \<Longrightarrow> docs_stored docs s"
  by (induction rule: manager_run.induct) (auto simp: docs_stored_def[of "[]"] inner_def intro: submit_stored import_stored)

text \<open>
  C7. A restart loses nothing: after any run of operations and imports, a manager that starts
  with nothing in memory loads every document from what was stored with the same revision,
  the same log (an operation with an empty set of properties comes back without it) and the
  same workbook: the same sheets, cells, dimensions and merged ranges, and the same styles
  under the same numbers.
\<close>

theorem restart_reloads:
  assumes "manager_run docs s" "gomap_get docs padId = Some d" "doc_fits d"
  shows "\<exists>d' docs'. load memory_store now padId [] s = (Inr d', docs', s) \<and> doc_head d' = doc_head d \<and>
    doc_log d' = map stored_op (doc_log d) \<and> wb_alike (doc_wb d') (doc_wb d)"
proof -
  from run_stored[OF assms(1)] assms(2) have "\<exists>w0. doc_ok w0 d" "doc_stored padId d s" by (simp_all add: docs_stored_def)
  then obtain w0 where w0: "doc_ok w0 d" "doc_stored padId d s" by blast
  then have "gomap_get (sheetStore s) padId \<noteq> None" by (auto simp: doc_stored_def)
  with stored_loads[OF w0(2,1) assms(3)] have "load memory_store now padId [] s =
      (Inr (NewDocumentAt (WorkbookFromSnapshot (stored_snapshot (Snapshot (doc_wb d)))) (map stored_op (doc_log d))),
       gomap_set [] padId (NewDocumentAt (WorkbookFromSnapshot (stored_snapshot (Snapshot (doc_wb d)))) (map stored_op (doc_log d))), s)"
    by (simp add: load_def Mem_DoesSheetExist_def)
  moreover have "wb_alike (WorkbookFromSnapshot (stored_snapshot (Snapshot (doc_wb d)))) (doc_wb d)"
    using w0(1) assms(3) by (intro workbook_reloaded) (simp_all add: doc_ok_def doc_fits_def)
  ultimately show ?thesis using w0(1) by (simp add: NewDocumentAt_def doc_ok_def)
qed

definition sample_doc :: Document where
  "sample_doc =
     \<lparr>doc_wb = \<lparr>Sheets = [\<lparr>SheetId = lit ''s1'', SheetName = lit ''Sheet1'',
          Cells = [(\<lparr>Row = 1, Col = 0\<rparr>, \<lparr>Raw = lit ''x'', CellValue = [], ValueType = [], StyleId = 0\<rparr>)],
          ColWidths = [], RowHeights = [], FrozenRows = 0, FrozenCols = 0, Merges = []\<rparr>],
        Styles = \<lparr>IdToStyle = [], keyToId = [([], 0)], NextId = 1\<rparr>\<rparr>,
      doc_log = [sample_cell_op], doc_head = 1\<rparr>"

lemma Submit_sample: "Submit sample_cell_op (NewDocument sample_workbook) = Inr (1, sample_doc)"
  by code_simp

lemma sample_doc_fits: "doc_fits sample_doc"
  by (simp add: doc_fits_def sample_doc_def op_fits_def sample_defs type_fits_def op_type_def known_types_def op_type_name_def
      snapshot_fits_def Snapshot_def snapshot_sheet_def sheet_fits_def cell_fits_def dims_fit_def styles_fit_def gomap_ok_def
      int64_def plain_runes_def)

lemma restart_reloads_witness:
  "\<exists>docs s d. manager_run docs s \<and> gomap_get docs (lit ''p'') = Some d \<and> doc_fits d \<and> length (doc_log d) = 1 \<and>
     (\<exists>d' docs'. load memory_store zero_time (lit ''p'') [] s = (Inr d', docs', s) \<and> doc_head d' = 1)"
proof -
  let ?p = "lit ''p''" and ?d0 = "NewDocument sample_workbook" and ?s0 = NewMemoryDataStore
  obtain e docs1 s1 where imp: "SetWorkbook memory_store zero_time ?p sample_workbook [] ?s0 = (e, docs1, s1)" by (metis prod_cases3)
  have run0: "manager_run [] ?s0" by (rule start) (simp_all add: NewMemoryDataStore_def)
  have run1: "manager_run docs1 s1" by (rule set_workbook[OF run0 wb_ok_sample imp])
  have docs1: "gomap_get docs1 ?p = Some ?d0"
    using imp by (auto simp: SetWorkbook_def Mem_RemoveSheetOps_def Mem_SaveSheet_def Let_def simp del: lit_simps)
  obtain r docs2 s2 where sub: "Manager_Submit memory_store zero_time ?p sample_cell_op None 0 docs1 s1 = (r, docs2, s2)" by (metis prod_cases3)
  have run2: "manager_run docs2 s2" by (rule submit[OF run1 sub])
  have docs2: "gomap_get docs2 ?p = Some sample_doc"
    using sub docs1 Submit_sample by (auto simp: Manager_Submit_def load_def Let_def split: prod.splits option.splits simp del: lit_simps)
  have d: "length (doc_log sample_doc) = 1" "doc_head sample_doc = 1" by (simp_all add: sample_doc_def)
  from restart_reloads[OF run2 docs2 sample_doc_fits, of zero_time] run2 docs2 sample_doc_fits d show ?thesis by metis
qed

end
