(* ===== verification/AccessProperties.thy ===== *)
theory AccessProperties
  imports AccessSpec PadProperties
begin

text \<open>
  The properties of access control and of API sessions, over the in-memory store.
\<close>

interpretation mem_kv: key_value memory_store "\<lambda>m k. gomap_get (oidcStorage m) k"
  by unfold_locales (auto simp: Mem_GetOIDCStorageValue_def Mem_SetOIDCStorageValue_def Mem_DeleteOIDCStorageValue_def fun_eq_iff)

lemma loadIDList_mem: "loadIDList memory_store key m = mem_kv.ids_at m key"
  by (rule mem_kv.loadIDList_eq)



text \<open>
  C8. A granted access is justified (outside a load test): the pad exists or may be created, which
  takes a server that is not edit-only, an id that is not read-only and, where a login is
  required, a user with the level to create; a user of such a server has some level for the
  pad; a session of the pad's group is named by the cookie where the settings, a missing
  group pad or a private group pad demand one; the token is well formed unless there is such a
  session; and the author is the one the token stands for.
\<close>

theorem granted_access_justified:
  assumes "CheckAccess memory_store now defaultText rnd cfg (Some i) cookie token user (m, s) = Some (Inr access, m', s')" "\<not> LoadTest cfg"
  shows "\<exists>padId exists. (if IsReadOnlyID i then GetPadId memory_store i s = Inr (Some padId) else padId = i) \<and>
    DoesPadExist memory_store padId s = Inr exists \<and>
    (exists \<or> (\<not> EditOnly cfg \<and> \<not> IsReadOnlyID i \<and>
       (RequireAuthentication cfg \<longrightarrow> (\<exists>u auth. user = Some u \<and> CanCreate u \<and> sr_ReadOnly u \<noteq> Some True \<and>
          PadAuthorizations u = Some auth \<and> gomap_get auth padId = Some (lit ''create''))))) \<and>
    (RequireAuthentication cfg \<longrightarrow> (\<exists>u auth level. user = Some u \<and> PadAuthorizations u = Some auth \<and>
       gomap_get auth padId = Some level \<and> level \<in> {lit ''readOnly'', lit ''modify'', lit ''create''})) \<and>
    (let group = takeWhile (\<lambda>r. r \<noteq> 36) padId; session = (\<exists>a. session_in memory_store now group cookie a s) in
       (RequireSession cfg \<longrightarrow> session) \<and>
       (36 \<in> set padId \<longrightarrow> session \<or> (exists \<and> (\<exists>p. Cache_GetPad padId m' = Some p \<and> PublicStatus p))) \<and>
       (\<forall>t. token = Some t \<longrightarrow> IsValidAuthorToken t \<or> session)) \<and>
    (\<exists>s1. resolveAuthorId memory_store now rnd token s = (Inr (AuthorId access), s1))"
proof -
  obtain padId canCreate where p: "if IsReadOnlyID i then GetPadId memory_store i s = Inr (Some padId) else padId = i"
    "check_access memory_store now defaultText rnd cfg padId canCreate cookie token user (m, s) = Some (Inr access, m', s')"
    "canCreate \<longleftrightarrow> \<not> EditOnly cfg \<and> \<not> IsReadOnlyID i"
    using assms(1) by (auto simp: CheckAccess_def split: if_splits sum.splits option.splits)
  let ?group = "takeWhile (\<lambda>r. r \<noteq> 36) padId"
  define found where "found = FindAuthorID memory_store now ?group cookie s"
  from p(2) assms(2) obtain canCreate1 exists authorId s1 where
    auth: "(if RequireAuthentication cfg then authenticated padId user canCreate else Inr canCreate) = Inr canCreate1"
    and ex: "DoesPadExist memory_store padId s = Inr exists" "exists \<or> canCreate1"
    and ses: "\<not> (RequireSession cfg \<and> found = None)" "\<not> (found = None \<and> token \<noteq> None \<and> \<not> IsValidAuthorToken (the token))"
    and res: "resolveAuthorId memory_store now rnd token s = (Inr authorId, s1)"
    and grp: "group_access memory_store now defaultText padId exists found \<lparr>AccessStatus = lit ''grant'', AuthorId = authorId\<rparr> (m, s1) =
      Some (Inr access, m', s')"
    unfolding found_def by (auto simp: check_access_def Let_def split: if_splits sum.splits prod.splits)
  have found: "found \<noteq> None \<Longrightarrow> \<exists>a. session_in memory_store now ?group cookie a s"
    unfolding found_def by (auto dest: FindAuthorID_sound)
  have user: "\<exists>u auth level. user = Some u \<and> PadAuthorizations u = Some auth \<and> gomap_get auth padId = Some level \<and>
      level \<in> {lit ''readOnly'', lit ''modify'', lit ''create''} \<and>
      (canCreate1 \<longrightarrow> canCreate \<and> CanCreate u \<and> sr_ReadOnly u \<noteq> Some True \<and> level = lit ''create'')" if "RequireAuthentication cfg"
    using auth that by (auto simp: authenticated_def NormalizeAuthzLevel_def Let_def bind_result_Inr_iff
        split: option.splits if_splits)
  have "AuthorId access = authorId \<and> (36 \<in> set padId \<longrightarrow> found \<noteq> None \<or> (exists \<and> (\<exists>p. Cache_GetPad padId m' = Some p \<and> PublicStatus p)))"
    using grp by (auto simp: group_access_def Manager_GetPad_def Cache_GetPad_def Cache_SetPad_def split: if_splits option.splits sum.splits)
  note last = this
  have plain: "canCreate1 = canCreate" if "\<not> RequireAuthentication cfg" using auth that by simp
  have create: "exists \<or> (\<not> EditOnly cfg \<and> \<not> IsReadOnlyID i \<and>
       (RequireAuthentication cfg \<longrightarrow> (\<exists>u auth. user = Some u \<and> CanCreate u \<and> sr_ReadOnly u \<noteq> Some True \<and>
          PadAuthorizations u = Some auth \<and> gomap_get auth padId = Some (lit ''create''))))"
  proof (cases exists)
    case False
    then have "canCreate1" using ex(2) by simp
    show ?thesis
    proof (cases "RequireAuthentication cfg")
      case True
      with user \<open>canCreate1\<close> p(3) show ?thesis by fastforce
    next
      case False
      with plain \<open>canCreate1\<close> p(3) show ?thesis by simp
    qed
  qed simp
  have level: "RequireAuthentication cfg \<longrightarrow> (\<exists>u auth level. user = Some u \<and> PadAuthorizations u = Some auth \<and>
       gomap_get auth padId = Some level \<and> level \<in> {lit ''readOnly'', lit ''modify'', lit ''create''})" using user by blast
  have session: "RequireSession cfg \<longrightarrow> (\<exists>a. session_in memory_store now ?group cookie a s)"
       "36 \<in> set padId \<longrightarrow> (\<exists>a. session_in memory_store now ?group cookie a s) \<or> (exists \<and> (\<exists>p. Cache_GetPad padId m' = Some p \<and> PublicStatus p))"
       "\<forall>t. token = Some t \<longrightarrow> IsValidAuthorToken t \<or> (\<exists>a. session_in memory_store now ?group cookie a s)"
    using ses found last by auto
  have author: "\<exists>s1. resolveAuthorId memory_store now rnd token s = (Inr (AuthorId access), s1)" using res last by blast
  show ?thesis unfolding Let_def
    by (rule exI[of _ padId], rule exI[of _ exists]) (intro conjI p(1) ex(1) create level session author)
qed

lemma granted_access_justified_witness:
  "\<exists>access m s. CheckAccess memory_store 0 [] \<lparr>drawn_id = lit ''x'', drawn_color = []\<rparr>
       \<lparr>EditOnly = False, LoadTest = False, RequireAuthentication = False, RequireSession = False\<rparr>
       (Some (lit ''p'')) None (Some (lit ''t.x'')) None (NewManager, NewMemoryDataStore) = Some (Inr access, m, s) \<and>
     (\<exists>s1. resolveAuthorId memory_store 0 \<lparr>drawn_id = lit ''x'', drawn_color = []\<rparr> (Some (lit ''t.x'')) NewMemoryDataStore = (Inr (AuthorId access), s1))"
proof -
  let ?run = "CheckAccess memory_store 0 [] \<lparr>drawn_id = lit ''x'', drawn_color = []\<rparr>
       \<lparr>EditOnly = False, LoadTest = False, RequireAuthentication = False, RequireSession = False\<rparr>
       (Some (lit ''p'')) None (Some (lit ''t.x'')) None (NewManager, NewMemoryDataStore)"
  have "(case ?run of Some (Inr access, m, s) \<Rightarrow> True | _ \<Rightarrow> False)" by code_simp
  then obtain access m s where r: "?run = Some (Inr access, m, s)" by (auto split: option.splits prod.splits sum.splits)
  from granted_access_justified[OF r] r show ?thesis by auto
qed

end
