(* ===== verification/Spec2Isabelle.thy ===== *)
theory Spec2Isabelle
  imports ChangesetProperties SheetProperties ServerProperties CopyProperties GroupApi AdminMessages FrameProperties
    SheetRestart AccessProperties RateLimit Delivery
begin

text \<open>
  \<^bold>\<open>A verification library for the collaborative core of etherpad-go.\<close>

  \<^bold>\<open>The program.\<close> Etherpad-go is a server for documents that many people edit at once. A text
  pad is a text with attributes (who wrote what, bold, lists) and a history of revisions,
  each a \<^emph>\<open>changeset\<close>: a sequence of keep, insert and remove operations. A client composes its
  edits against the revision it knows; the server transforms the changeset past the revisions
  that came in between (\<^verbatim>\<open>Follow\<close>), appends it to the pad, stores the revision and sends it to
  the other clients. A spreadsheet is a workbook with a log of cell operations, rebased in the
  same way. Around them are the authors, read-only links, sessions of the HTTP API, the access
  check, the limit on commits, and the websocket messages.

  \<^bold>\<open>How the parts interact.\<close> \<^verbatim>\<open>readPump\<close> (\<open>Frames\<close>) reads a frame of a client, decodes it (\<open>Json\<close>) and
  hands it to \<^verbatim>\<open>HandleMessage\<close> (\<open>Dispatch\<close>), which sets up the session of the client (\<open>Rooms\<close>),
  asks \<^verbatim>\<open>CheckAccess\<close> (\<open>Access\<close>, over \<open>Authors\<close>) and calls a handler: \<open>UserChanges\<close>,
  \<open>PadMessages\<close>, \<open>RevisionRanges\<close>, \<open>ClientReady\<close> or \<open>SheetMessages\<close>. The handlers load pads through the
  pad manager (\<open>PadManager\<close>) and documents through the sheet manager (\<open>SheetManager\<close>), which cache
  what they load and store it through the interface \<open>DataStore\<close>; \<open>MemoryStore\<close> and \<open>ChatStore\<close>
  are its in-memory implementation. Pads are edited with the changeset library.

  \<^bold>\<open>The theories and the code they model.\<close>

  \<^item> \<open>Prelude\<close>, \<open>GoMap\<close>: strings, errors, results, Go maps. \<open>RuneUtils\<close>: \<^verbatim>\<open>lib/utils\<close> and the bytes of a string.
  \<^item> \<open>APool\<close> (\<^verbatim>\<open>lib/apool\<close>), \<open>OpCodec\<close>, \<open>Assemblers\<close>, \<open>Attributes\<close>, \<open>Zip\<close>, \<open>Changesets\<close>,
    \<open>AttributionLines\<close>, \<open>TextLines\<close>: \<^verbatim>\<open>lib/changeset\<close>. The pool of a changeset function is passed in and
    returned updated; the loop that all of \<^verbatim>\<open>Compose\<close>, \<^verbatim>\<open>Follow\<close> and \<^verbatim>\<open>ApplyZip\<close> share is \<open>Zip\<close>.
  \<^item> \<open>Pad\<close> (\<^verbatim>\<open>lib/models/pad\<close>), \<open>PadManager\<close> and \<open>Authors\<close> (\<^verbatim>\<open>lib/pad\<close>, \<^verbatim>\<open>lib/author\<close>).
  \<^item> \<open>Sheet\<close>, \<open>SheetOps\<close> (\<^verbatim>\<open>lib/sheet\<close>), \<open>SheetJson\<close> (its struct tags), \<open>SheetManager\<close> (\<^verbatim>\<open>lib/sheetdoc\<close>).
  \<^item> \<open>DataStore\<close>, \<open>MemoryStore\<close>, \<open>ChatStore\<close>: \<^verbatim>\<open>lib/db\<close> and \<^verbatim>\<open>lib/models/db\<close>. The interface
    is a record of functions, one field per method, with the store as explicit state.
  \<^item> \<open>Json\<close>: \<^verbatim>\<open>encoding/json\<close> as far as records are stored and frames are read.
  \<^item> \<open>Access\<close>: the API sessions and the access check (\<^verbatim>\<open>lib/pad\<close>), \<open>RateLimit\<close> (\<^verbatim>\<open>lib/ws/ratelimiter\<close>).
  \<^item> \<open>Rooms\<close>, \<open>UserChanges\<close>, \<open>PadMessages\<close>, \<open>RevisionRanges\<close>, \<open>ClientReady\<close>, \<open>SheetMessages\<close>,
    \<open>Dispatch\<close>, \<open>Frames\<close>: \<^verbatim>\<open>lib/ws\<close>, \<^verbatim>\<open>lib/models/ws\<close>, \<^verbatim>\<open>lib/settings/clientVars\<close>.
  \<^item> \<open>ExportTxt\<close> (\<^verbatim>\<open>lib/pad/exportTxt.go\<close>), \<open>PadApi\<close> (\<^verbatim>\<open>lib/api/pad\<close>): the HTTP API of pads, from the
    decoded request to the answer, over the state that the websocket handlers share; \<open>GroupApi\<close>: that of
    groups, authors and sessions (\<^verbatim>\<open>lib/api/groups\<close>, \<^verbatim>\<open>lib/api/author\<close>, \<^verbatim>\<open>lib/api/session\<close>).
  \<^item> \<open>Compaction\<close>: the integrity check of pads and the clean-up of their revisions (\<^verbatim>\<open>lib/adminutils\<close>,
    \<^verbatim>\<open>lib/api/pad/compactDiff.go\<close>); \<open>AdminMessages\<close>: the events of the admin page (\<^verbatim>\<open>lib/ws/AdminMessageHandler.go\<close>).

  \<^bold>\<open>The lemmas.\<close>

  \<^item> \<open>OpSemantics\<close> is the abstract specification of the changeset library: what a sequence of
    operations does to a text, and \<open>AttributesSpec\<close> what attribute strings mean. \<open>AssemblerSpec\<close>,
    \<open>Canonical\<close>, \<open>ChangesetsSpec\<close>, \<open>CheckSpec\<close>, \<open>ZipSpec\<close>, \<open>ComposeSpec\<close>, \<open>TextLinesSpec\<close>, \<open>ATextSpec\<close> and
    \<open>PoolKept\<close> show that the code refines it; \<open>InternPool\<close> is the contract (a locale) that the attribute
    pool and the style pool both meet. The properties are in \<open>ChangesetProperties\<close>.
  \<^item> \<open>PadSpec\<close> is the contract of a store of pads (a locale, interpreted by the in-memory store
    in \<open>StoreSpec\<close>) and the history of a pad; it and \<open>UserChangesSpec\<close> prove over every such
    store that edits extend the history. Properties: \<open>PadProperties\<close>, \<open>ServerProperties\<close>.
  \<^item> \<open>SheetSpec\<close>, \<open>SheetStyles\<close>, \<open>SheetMerges\<close>, \<open>SheetRebase\<close>, \<open>SheetSnapshots\<close>: the invariant of
    workbooks, where the cells go, that operations commute through \<^verbatim>\<open>Transform\<close>, and that snapshots
    lose nothing; \<open>SheetJsonSpec\<close> and \<open>SheetRestart\<close> take this through the stored JSON to a restart
    of the server. Properties: \<open>SheetProperties\<close>, \<open>SheetRestart\<close>.
  \<^item> \<open>JsonSpec\<close>: what is printed parses back. \<open>AccessSpec\<close>, \<open>AccessProperties\<close>: sessions are found until
    they are deleted, and a granted access is justified. \<open>RateLimit\<close>: the bound on commits.
  \<^item> \<open>Delivery\<close>: \<^verbatim>\<open>UpdatePadClients\<close> brings every client up to the head. \<open>MarkerSpec\<close>: the correction of
    line markers. \<open>CopyProperties\<close>: copies of pads, over a locale that extends the contract of the store by
    chat messages. \<open>FrameProperties\<close>: no frame of a read-only session changes a document.

  \<^bold>\<open>How Go is read.\<close> A string is the list of its runes (\<^verbatim>\<open>[]rune\<close>) where the code works on runes, and its
  UTF-8 bytes where it works on bytes; strings are valid UTF-8. Integers are mathematical
  integers: no counter of the code comes near \<open>2 ^ 63\<close>, and where a value of the outside is checked
  against a width, so does the model (\<open>int64\<close>, the guard of \<open>getChangesetInfo\<close>). An error is \<open>Inl (Err msg)\<close>
  with the constant part of its message, and a panic (a nil dereference, an index out of
  range) is \<open>Inl Panic\<close>. Receivers and pools that a method mutates are returned; what an error path
  has mutated already is dropped where the caller gives the value up. A nil pool is \<open>None\<close>; a pad
  passed by value shares the maps of its pool (\<open>caller_pool\<close>). A Go map is its list of entries; \<^verbatim>\<open>range\<close>
  visits it in list order, which is arbitrary, or in the order an argument gives. A loop that may
  not end is a \<open>partial_function\<close> into \<open>option\<close>, and that it ends is proved: for \<open>Compose\<close>, for \<open>Follow\<close> and
  for the handler of user changes. The only fuel is that of the JSON parser, \<open>2 * length s + 2\<close>
  calls: \<open>parse_json_bound\<close> shows that no larger bound ever parses more.
  The clock is read once per operation (\<open>now\<close>, in nanoseconds); random strings, the default text and the
  settings are arguments. Records are stored as JSON text; number literals keep their text, and
  the nesting limit of the parser is left out. A message to a client is a value instead of its
  JSON, and a message is dropped when 256 of them wait, as \<^verbatim>\<open>SafeSend\<close> does.
  A handler runs as one step: all user changes go through one queue, since nothing sets the key of
  the queues (\<^verbatim>\<open>Client.Room\<close>), and the operations of a spreadsheet hold its lock. Other handlers run
  beside them in Go; interleavings inside a handler are not modelled.

  \<^bold>\<open>Not modelled.\<close> Hooks and plugins (the server is one without plugins: no message is dropped, and no
  hook grants anything), the SQL stores (their behaviour is that of the database; they are
  parameters, as \<open>DataStore\<close>), migrations, the socket loop of the admin page and the updater behind it, the
  HTML and OAuth routes of the HTTP API and the web pages, import and export of HTML and of office formats (third-party libraries), settings and start-up, OAuth, the secret
  rotation (timers and cryptography) and the updater. The cache of revisions inside a pad
  (\<^verbatim>\<open>revCache\<close>) and the checks of \<^verbatim>\<open>getChangesetInfo\<close> that only log are left out. The
  state sent to a new client keeps the fields that depend on the pad, the session and the author.
\<close>

end
